(* ===== verification/Prelude.thy ===== *)
theory Prelude
  imports Main "HOL-Library.Word" "HOL-Library.Signed_Division"
begin

unbundle bit_operations_syntax

section \<open>Shared vocabulary of the models\<close>

text \<open>
  What every component shares: the fixed-width integer types of the code, the truncation that
  a store into a narrow field performs, C's division, and generic facts about words and lists.
  A C \<open>uint32_t\<close> is a \<open>32 word\<close>, a \<open>uint8_t\<close> an \<open>8 word\<close>. A plain C \<open>int\<close> that only
  carries small game quantities (coordinates, identifiers, counts) is a HOL \<open>int\<close>; where it is
  stored into a narrower field the store is written out with \<open>s16\<close> or \<open>s8\<close>. C's \<open>/\<close> and
  \<open>%\<close> on signed operands are \<open>sdiv\<close> and \<open>smod\<close>, which truncate towards zero.
\<close>

type_synonym u8 = "8 word"
type_synonym u16 = "16 word"
type_synonym u32 = "32 word"
type_synonym u64 = "64 word"

named_theorems c_arith \<open>facts about C division and narrow stores\<close>
named_theorems bit_facts \<open>facts about flags and bit fields of words\<close>

subsection \<open>Narrow stores\<close>

definition s8 :: "int \<Rightarrow> int" where
  "s8 x = signed_take_bit 7 x"

definition s16 :: "int \<Rightarrow> int" where
  "s16 x = signed_take_bit 15 x"

definition s32 :: "int \<Rightarrow> int" where
  "s32 x = signed_take_bit 31 x"

lemma s8_id [c_arith]: "- 128 \<le> x \<Longrightarrow> x < 128 \<Longrightarrow> s8 x = x"
  unfolding s8_def by (rule signed_take_bit_int_eq_self) auto

lemma s16_id [c_arith]: "- 32768 \<le> x \<Longrightarrow> x < 32768 \<Longrightarrow> s16 x = x"
  unfolding s16_def by (rule signed_take_bit_int_eq_self) auto

lemma s32_id [c_arith]: "- 2147483648 \<le> x \<Longrightarrow> x < 2147483648 \<Longrightarrow> s32 x = x"
  unfolding s32_def by (rule signed_take_bit_int_eq_self) auto

lemma s8_range: "- 128 \<le> s8 x" "s8 x < 128"
  unfolding s8_def
  using signed_take_bit_int_greater_eq_minus_exp [of 7 x] signed_take_bit_int_less_exp [of 7 x]
  by auto

lemma s16_range: "- 32768 \<le> s16 x" "s16 x < 32768"
  unfolding s16_def
  using signed_take_bit_int_greater_eq_minus_exp [of 15 x] signed_take_bit_int_less_exp [of 15 x]
  by auto

lemma s16_s16 [simp]: "s16 (s16 x) = s16 x"
  using s16_range [of x] by (simp add: s16_id)

subsection \<open>Clamping and C division\<close>

definition clamp :: "int \<Rightarrow> int \<Rightarrow> int \<Rightarrow> int" where
  "clamp value low high = (if value < low then low else (if value > high then high else value))"

lemma clamp_bounds: "low \<le> high \<Longrightarrow> low \<le> clamp v low high \<and> clamp v low high \<le> high"
  by (simp add: clamp_def)

lemma clamp_id: "low \<le> v \<Longrightarrow> v \<le> high \<Longrightarrow> clamp v low high = v"
  by (simp add: clamp_def)

lemma clamp_mono: "v \<le> v' \<Longrightarrow> low \<le> high \<Longrightarrow> clamp v low high \<le> clamp v' low high"
  by (auto simp: clamp_def)

lemma sdiv_nonneg [c_arith]: "0 \<le> a \<Longrightarrow> 0 \<le> b \<Longrightarrow> a sdiv b = a div (b::int)"
  by (cases "b = 0") (auto simp: signed_divide_int_eq_divide_int sgn_if split: if_splits)

lemma smod_nonneg [c_arith]: "0 \<le> a \<Longrightarrow> 0 \<le> b \<Longrightarrow> a smod b = a mod (b::int)"
  using sdiv_mult_smod_eq [of a b] sdiv_nonneg [of a b]
  by (metis add_left_cancel div_mult_mod_eq)

lemma sdiv_neg [c_arith]: "a < 0 \<Longrightarrow> 0 < b \<Longrightarrow> a sdiv b = - ((- a) div (b::int))"
  by (simp add: signed_divide_int_def)

lemma sdiv_le_self: "0 \<le> a \<Longrightarrow> 0 < b \<Longrightarrow> a sdiv b \<le> (a::int)"
  using zdiv_mono2 [of a 1 b] by (simp add: sdiv_nonneg)

subsection \<open>Words: masks and shifts\<close>

lemma word_and_not_self [simp]: "(x::'a::len word) AND NOT x = 0"
  by (rule bit_word_eqI) (simp add: bit_simps)

lemma xor_drop_bit_inj:
  assumes "0 < k" "x XOR drop_bit k x = y XOR drop_bit k (y::'a::len word)"
  shows "x = y"
proof (rule bit_word_eqI)
  fix n assume "n < LENGTH('a)"
  have "bit x m = bit y m" if "LENGTH('a) - m = d" for d m
    using that
  proof (induction d arbitrary: m rule: less_induct)
    case (less d)
    show ?case
    proof (cases "m < LENGTH('a)")
      case True
      with less.prems assms(1) have "LENGTH('a) - (k + m) < d" by linarith
      then have hi: "bit x (k + m) = bit y (k + m)"
        using less.IH by blast
      from assms(2) have "bit (x XOR drop_bit k x) m = bit (y XOR drop_bit k y) m" by simp
      with hi show ?thesis by (auto simp: bit_simps)
    next
      case False
      then show ?thesis by (metis bit_imp_le_length not_less)
    qed
  qed
  then show "bit x n = bit y n" by blast
qed

lemma xor_push_bit_inj:
  assumes "0 < k" "x XOR push_bit k x = y XOR push_bit k (y::'a::len word)"
  shows "x = y"
proof (rule bit_word_eqI)
  fix n assume "n < LENGTH('a)"
  then show "bit x n = bit y n"
  proof (induction n rule: less_induct)
    case (less n)
    have lo: "bit x (n - k) = bit y (n - k)" if "k \<le> n"
      using less that assms(1) by simp
    from assms(2) have "bit (x XOR push_bit k x) n = bit (y XOR push_bit k y) n" by simp
    with lo less.prems show ?case by (auto simp: bit_simps)
  qed
qed

lemma word_xor_cancel: "(x::'a::len word) XOR c = y XOR c \<longleftrightarrow> x = y"
  by (metis bit.xor_cancel_right bit.xor_left_self xor.commute xor.left_commute)

lemma odd_factor_cancel:
  assumes "b * a = (1::'a::len word)"
  shows "b * (a * x) = x" "a * x = a * y \<longleftrightarrow> x = y"
proof -
  have *: "b * (a * z) = z" for z using assms by (simp add: mult.assoc [symmetric])
  show "b * (a * x) = x" by (rule *)
  show "a * x = a * y \<longleftrightarrow> x = y" using * by metis
qed

lemma int_and_low16: "(i::int) AND 65535 = i mod 65536"
  using take_bit_eq_mask [of 16 i] by (simp add: mask_eq_exp_minus_1 take_bit_eq_mod)

lemma uint_drop_bit: "uint (drop_bit n (w::'a::len word)) = uint w div 2 ^ n"
proof -
  have "uint (drop_bit n w) = drop_bit n (uint w)"
    by (rule bit_eqI) (auto simp: bit_uint_iff bit_simps dest: bit_imp_le_length)
  then show ?thesis by (simp add: drop_bit_eq_div)
qed

lemma sint_word_of_int32:
  "- 2147483648 \<le> i \<Longrightarrow> i < 2147483648 \<Longrightarrow> sint (word_of_int i :: u32) = i"
  using signed_take_bit_int_eq_self [of 31 i] by (simp add: signed_of_int)

lemma sint_small: "uint (w::u32) < 2147483648 \<Longrightarrow> sint w = uint w"
  using sint_word_of_int32 [of "uint w"] by (smt (verit) uint_ge_0 word_of_int_uint)

lemma word_xor_cancel_left: "(c::'a::len word) XOR x = c XOR y \<longleftrightarrow> x = y"
  by (metis word_xor_cancel xor.commute)

lemma bit_u32_beyond [simp]: "bit (x::u32) (32 + n) = False" "bit (x::u32) (n + 32) = False"
  by (auto dest: bit_imp_le_length)

end
