(* ===== verification/Strs.thy ===== *)
theory Strs
  imports Prelude
begin

section \<open>C strings (src/bridge/src/strings.cpp)\<close>

text \<open>
  A NUL-terminated buffer is the list of characters before the NUL; \<open>char_at\<close> reads the
  terminator past the end, as the code's pointer arithmetic does. A function that edits its
  buffer in place returns the new content. The character tests of the C library are written
  out for the C locale.
\<close>

subsection \<open>Character tests\<close>

definition NUL :: char where
  "NUL = CHR 0x00"

definition char_at :: "string \<Rightarrow> nat \<Rightarrow> char" where
  "char_at s i = (if i < length s then s ! i else NUL)"

definition c_isspace :: "char \<Rightarrow> bool" where
  "c_isspace c \<longleftrightarrow> c = CHR '' '' \<or> (9 \<le> (of_char c :: nat) \<and> (of_char c :: nat) \<le> 13)"

definition c_isdigit :: "char \<Rightarrow> bool" where
  "c_isdigit c \<longleftrightarrow> 48 \<le> (of_char c :: nat) \<and> (of_char c :: nat) \<le> 57"

definition c_isxdigit :: "char \<Rightarrow> bool" where
  "c_isxdigit c \<longleftrightarrow> c_isdigit c \<or> (65 \<le> (of_char c :: nat) \<and> (of_char c :: nat) \<le> 70)
     \<or> (97 \<le> (of_char c :: nat) \<and> (of_char c :: nat) \<le> 102)"

definition c_toupper :: "char \<Rightarrow> nat" where
  "c_toupper c = (if 97 \<le> (of_char c :: nat) \<and> (of_char c :: nat) \<le> 122
     then of_char c - 32 else of_char c)"

definition c_tolower :: "char \<Rightarrow> nat" where
  "c_tolower c = (if 65 \<le> (of_char c :: nat) \<and> (of_char c :: nat) \<le> 90
     then of_char c + 32 else of_char c)"

definition c_stricmp_eq :: "string \<Rightarrow> string \<Rightarrow> bool" where
  "c_stricmp_eq a b \<longleftrightarrow> map c_tolower a = map c_tolower b"

subsection \<open>Numbers\<close>

fun btoi_loop :: "string \<Rightarrow> int \<Rightarrow> int" where
  "btoi_loop [] value = value"
| "btoi_loop (c # src) value =
     (if c = CHR ''0'' \<or> c = CHR ''1''
      then btoi_loop src (s32 (2 * value + (if c = CHR ''1'' then 1 else 0))) else value)"

definition btoi :: "string \<Rightarrow> int" where
  "btoi src = btoi_loop src 0"

fun htoi_loop :: "string \<Rightarrow> int \<Rightarrow> int" where
  "htoi_loop [] result = result"
| "htoi_loop (c # src) result =
     (if c_isxdigit c
      then htoi_loop src
        (if c_isdigit c then s32 (s32 (result * 16) + (int (of_char c) - 48))
         else s32 (s32 (result * 16) + (int (c_toupper c) - 55)))
      else result)"

definition htoi :: "string \<Rightarrow> int" where
  "htoi src = htoi_loop src 0"

text \<open>The C library's \<open>atoi\<close>: leading white space, one optional sign, decimal digits.\<close>

fun digits_value :: "string \<Rightarrow> int \<Rightarrow> int" where
  "digits_value [] v = v"
| "digits_value (c # s) v =
     (if c_isdigit c then digits_value s (10 * v + (int (of_char c) - 48)) else v)"

definition c_atoi :: "string \<Rightarrow> int" where
  "c_atoi s =
     (let t = dropWhile c_isspace s
      in (if char_at t 0 = CHR ''-'' then s32 (- digits_value (drop 1 t) 0)
          else if char_at t 0 = CHR ''+'' then s32 (digits_value (drop 1 t) 0)
          else s32 (digits_value t 0)))"

definition stoi :: "string \<Rightarrow> int" where
  "stoi src =
     (if char_at src 0 = CHR ''0'' then
        (let src = drop 1 src; c = char_at src 0
         in (if c = CHR ''B'' \<or> c = CHR ''b'' then btoi (drop 1 src)
             else if c = CHR ''X'' \<or> c = CHR ''x'' then htoi (drop 1 src)
             else if c = CHR ''D'' \<or> c = CHR ''d'' then c_atoi (drop 1 src)
             else c_atoi src))
      else c_atoi src)"

subsection \<open>Format strings\<close>

text \<open>The loop of \<open>count_format_args\<close> from position \<open>i\<close> with \<open>num\<close> arguments seen.\<close>

function count_format_loop :: "string \<Rightarrow> nat \<Rightarrow> int \<Rightarrow> int" where
  "count_format_loop src i num =
     (if i < length src then
        (if src ! i = CHR ''%'' \<and> char_at src (i + 1) \<noteq> CHR ''%'' then
           (if char_at src (i + 1) \<noteq> CHR ''d'' \<and> char_at src (i + 1) \<noteq> CHR ''i''
               \<and> char_at src (i + 1) \<noteq> CHR ''u'' then - 1
            else count_format_loop src (i + 1) (num + 1))
         else count_format_loop src (i + 1) num)
      else num)"
  by pat_completeness auto
termination
  by (relation "measure (\<lambda>(src, i, num). length src - i)") auto

declare count_format_loop.simps [simp del]

definition count_format_args :: "string \<Rightarrow> int" where
  "count_format_args src = count_format_loop src 0 0"

definition strcpy_n :: "string \<Rightarrow> nat \<Rightarrow> string \<Rightarrow> string" where
  "strcpy_n dst count src = (if count > 0 then take (count - 1) src else dst)"

definition parse_format_args :: "string \<Rightarrow> string \<Rightarrow> int \<Rightarrow> nat \<Rightarrow> string" where
  "parse_format_args buf src args_count max_len =
     (let num = count_format_args src
      in (if num \<ge> 0 \<and> num \<le> args_count \<and> max_len > 0 then take (max_len - 1) src else buf))"

text \<open>\<open>heap\<close> is the pointer comparison \<open>dst >= AC_IMAGE_BASE\<close>; \<open>StrBufLen\<close> is 256.\<close>

definition limit_strcpy :: "bool \<Rightarrow> string \<Rightarrow> string" where
  "limit_strcpy heap src = (if heap \<or> length src < 256 then src else [])"

subsection \<open>Trimming\<close>

definition drop_tail :: "('a \<Rightarrow> bool) \<Rightarrow> 'a list \<Rightarrow> 'a list" where
  "drop_tail p s = rev (dropWhile p (rev s))"

definition purge_spaces :: "string \<Rightarrow> string" where
  "purge_spaces buf = drop_tail (\<lambda>c. c = CHR '' '') (dropWhile (\<lambda>c. c = CHR '' '') buf)"

definition kill_lf :: "string \<Rightarrow> string" where
  "kill_lf buf =
     (if CHR 0x0A \<in> set buf then butlast (drop_tail (\<lambda>c. c \<noteq> CHR 0x0A) buf) else buf)"

definition strtrail :: "string \<Rightarrow> string" where
  "strtrail s = (if s = [] then s else drop_tail c_isspace s)"

definition strtrim :: "string \<Rightarrow> string" where
  "strtrim s = (if s = [] then s else dropWhile c_isspace (drop_tail c_isspace s))"

definition strtrim_std :: "string \<Rightarrow> string" where
  "strtrim_std src = drop_tail c_isspace (dropWhile c_isspace src)"

subsection \<open>Reading a section of a text file\<close>

text \<open>
  \<open>chunks\<close> are the strings \<open>fgets\<close> delivers, each non-empty; \<open>None\<close> is a file that does not
  open. The last character of every chunk is cut off, whatever it is.
\<close>

fun reader_lines :: "bool \<Rightarrow> string list \<Rightarrow> string \<Rightarrow> nat \<Rightarrow> string list \<Rightarrow> string list" where
  "reader_lines start [] section max_len lines = lines"
| "reader_lines start (chunk # chunks) section max_len lines =
     (let line = butlast chunk
      in (if \<not> start \<and> c_stricmp_eq line section then reader_lines True chunks section max_len lines
          else if start \<and> char_at line 0 = CHR ''#'' then lines
          else if start \<and> char_at line 0 \<noteq> CHR '';'' then
            (let p = strtrim line
             in (if length p > 0 \<and> char_at p 0 \<noteq> CHR '';'' then
                   (let p = (if length p \<ge> max_len then take (max_len - 1) p else p)
                    in reader_lines start chunks section max_len (lines @ [p]))
                 else reader_lines start chunks section max_len lines))
          else reader_lines start chunks section max_len lines))"

definition reader_path :: "string list \<Rightarrow> string list option \<Rightarrow> string \<Rightarrow> nat \<Rightarrow> string list" where
  "reader_path lines file section max_len =
     (case file of None \<Rightarrow> lines
      | Some chunks \<Rightarrow> reader_lines False chunks section max_len lines)"

text \<open>\<open>reader_file\<close> builds the lower-case name with its extension and opens it.\<close>

definition reader_file ::
    "(string \<Rightarrow> string list option) \<Rightarrow> string list \<Rightarrow> string \<Rightarrow> string \<Rightarrow> nat \<Rightarrow> string list" where
  "reader_file fopen lines filename section max_len =
     reader_path lines (fopen (map (\<lambda>c. char_of (c_tolower c)) (take 1023 (filename @ ''.txt''))))
       section max_len"

subsection \<open>Trimming removes exactly the outer white space\<close>

lemma drop_tail_prefix: "\<exists>r. s = drop_tail p s @ r \<and> (\<forall>c \<in> set r. p c)"
proof -
  have "s = rev (dropWhile p (rev s)) @ rev (takeWhile p (rev s))"
    by (metis rev_append rev_rev_ident takeWhile_dropWhile_id)
  moreover have "\<forall>c \<in> set (rev (takeWhile p (rev s))). p c"
    by (auto dest: set_takeWhileD)
  ultimately show ?thesis unfolding drop_tail_def by blast
qed

lemma drop_tail_last: "drop_tail p s \<noteq> [] \<Longrightarrow> \<not> p (last (drop_tail p s))"
  unfolding drop_tail_def by (metis hd_dropWhile last_rev rev_is_Nil_conv)

lemma drop_tail_id: "(s = [] \<or> \<not> p (last s)) \<Longrightarrow> drop_tail p s = s"
  unfolding drop_tail_def
  by (metis dropWhile_eq_self_iff hd_rev rev_is_Nil_conv rev_rev_ident)

lemma drop_tail_snoc: "drop_tail p (s @ [c]) = (if p c then drop_tail p s else s @ [c])"
  by (simp add: drop_tail_def)

lemma drop_tail_Nil [simp]: "drop_tail p [] = []"
  by (simp add: drop_tail_def)

lemma dropWhile_snoc_stop: "\<not> p c \<Longrightarrow> dropWhile p (s @ [c]) = dropWhile p s @ [c]"
  by (induction s) auto

lemma dropWhile_drop_tail: "dropWhile p (drop_tail p s) = drop_tail p (dropWhile p s)"
proof (induction s rule: rev_induct)
  case (snoc c s)
  show ?case
  proof (cases "p c")
    case True
    with snoc show ?thesis
      by (cases "\<forall>x \<in> set s. p x") (auto simp: drop_tail_snoc dropWhile_append dropWhile_eq_Nil_conv [THEN iffD2])
  next
    case False
    then show ?thesis by (simp add: drop_tail_snoc dropWhile_snoc_stop)
  qed
qed simp

lemma strtrim_eq_std: "strtrim s = strtrim_std s"
  by (simp add: strtrim_def strtrim_std_def dropWhile_drop_tail)

lemma strtrim_ends: "strtrim s \<noteq> [] \<Longrightarrow> \<not> c_isspace (hd (strtrim s)) \<and> \<not> c_isspace (last (strtrim s))"
  using hd_dropWhile [of c_isspace "drop_tail c_isspace s"] drop_tail_last [of c_isspace "dropWhile c_isspace s"]
  by (auto simp: strtrim_eq_std strtrim_std_def dropWhile_drop_tail)

lemma strtrim_infix: "\<exists>l r. s = l @ strtrim s @ r \<and> (\<forall>c \<in> set l \<union> set r. c_isspace c)"
proof -
  obtain r where r: "dropWhile c_isspace s = strtrim s @ r" "\<forall>c \<in> set r. c_isspace c"
    using drop_tail_prefix [of "dropWhile c_isspace s" c_isspace]
    by (auto simp: strtrim_eq_std strtrim_std_def)
  have "s = takeWhile c_isspace s @ strtrim s @ r"
    using r(1) by (metis takeWhile_dropWhile_id)
  with r(2) show ?thesis by (metis Un_iff set_takeWhileD)
qed

lemma strtrim_id: "s = [] \<or> (\<not> c_isspace (hd s) \<and> \<not> c_isspace (last s)) \<Longrightarrow> strtrim s = s"
  by (auto simp: strtrim_def drop_tail_id dropWhile_eq_self_iff)

subsection \<open>Binary numerals\<close>

fun bin_string :: "bool list \<Rightarrow> string" where
  "bin_string [] = []"
| "bin_string (b # bs) = (if b then CHR ''1'' else CHR ''0'') # bin_string bs"

definition bits_value :: "bool list \<Rightarrow> int \<Rightarrow> int" where
  "bits_value bs v = foldl (\<lambda>v b. 2 * v + (if b then 1 else 0)) v bs"

lemma bits_value_ge: "0 \<le> v \<Longrightarrow> v * 2 ^ length bs \<le> bits_value bs v"
  unfolding bits_value_def
proof (induction bs arbitrary: v)
  case (Cons b bs)
  have "v * 2 ^ length (b # bs) \<le> (2 * v + (if b then 1 else 0)) * 2 ^ length bs"
    by (simp add: algebra_simps)
  also have "\<dots> \<le> foldl (\<lambda>v b. 2 * v + (if b then 1 else 0)) (2 * v + (if b then 1 else 0)) bs"
    by (rule Cons.IH) (use Cons.prems in simp)
  finally show ?case by simp
qed simp

lemma btoi_loop_bits:
  assumes "0 \<le> v" "bits_value bs v < 2147483648"
      "rest = [] \<or> (hd rest \<noteq> CHR ''0'' \<and> hd rest \<noteq> CHR ''1'')"
  shows "btoi_loop (bin_string bs @ rest) v = bits_value bs v"
  using assms
proof (induction bs arbitrary: v)
  case Nil
  then show ?case by (cases rest) (auto simp: bits_value_def)
next
  case (Cons b bs)
  let ?w = "2 * v + (if b then 1 else 0)"
  have val: "bits_value (b # bs) v = bits_value bs ?w" by (simp add: bits_value_def)
  have w0: "0 \<le> ?w" using Cons.prems(1) by simp
  have "?w \<le> ?w * 2 ^ length bs" using w0 by (simp add: mult_le_cancel_left1)
  also have "\<dots> \<le> bits_value bs ?w" by (rule bits_value_ge [OF w0])
  finally have "s32 ?w = ?w" using w0 Cons.prems(2) val by (simp add: s32_id)
  with Cons.IH [OF w0] Cons.prems val show ?case by (cases b) simp_all
qed

subsection \<open>Counting format arguments\<close>

definition format_args :: "string \<Rightarrow> nat \<Rightarrow> nat list" where
  "format_args src i = filter (\<lambda>j. src ! j = CHR ''%'' \<and> char_at src (j + 1) \<noteq> CHR ''%'') [i..<length src]"

definition int_conversion :: "char \<Rightarrow> bool" where
  "int_conversion c \<longleftrightarrow> c = CHR ''d'' \<or> c = CHR ''i'' \<or> c = CHR ''u''"

lemma format_args_step: "i < length src \<Longrightarrow> format_args src i =
   (if src ! i = CHR ''%'' \<and> char_at src (i + 1) \<noteq> CHR ''%'' then i # format_args src (i + 1)
    else format_args src (i + 1))"
  by (simp add: format_args_def upt_conv_Cons)

lemma count_format_loop_spec:
  "0 \<le> num \<Longrightarrow> count_format_loop src i num =
     (if \<forall>j \<in> set (format_args src i). int_conversion (char_at src (j + 1))
      then num + int (length (format_args src i)) else - 1)"
proof (induction src i num rule: count_format_loop.induct)
  case (1 src i num)
  show ?case
  proof (cases "i < length src")
    case True
    show ?thesis
      by (subst count_format_loop.simps, simp only: format_args_step [OF True])
        (use "1" True in \<open>auto simp: int_conversion_def\<close>)
  next
    case False
    then show ?thesis by (subst count_format_loop.simps) (simp add: format_args_def)
  qed
qed

subsection \<open>Sections of a text file\<close>

lemma reader_lines_props:
  assumes "2 \<le> max_len"
  shows "\<exists>new. reader_lines start chunks sec max_len lines = lines @ new
     \<and> length new \<le> length chunks
     \<and> (\<forall>p \<in> set new. p \<noteq> [] \<and> hd p \<noteq> CHR '';'' \<and> \<not> c_isspace (hd p) \<and> length p < max_len)"
  using assms
proof (induction start chunks sec max_len lines rule: reader_lines.induct)
  case (1 start sec max_len lines)
  then show ?case by simp
next
  case (2 start chunk chunks sec max_len lines)
  have t: "strtrim s = [] \<or> \<not> c_isspace (hd (strtrim s))" for s using strtrim_ends by blast
  show ?case
  proof (cases "start \<and> char_at (butlast chunk) 0 \<noteq> CHR ''#'' \<and> char_at (butlast chunk) 0 \<noteq> CHR '';''
      \<and> strtrim (butlast chunk) \<noteq> [] \<and> char_at (strtrim (butlast chunk)) 0 \<noteq> CHR '';''")
    case True
    define p where "p = (let p = strtrim (butlast chunk) in if length p \<ge> max_len then take (max_len - 1) p else p)"
    have p: "p \<noteq> []" "hd p = hd (strtrim (butlast chunk))" "length p < max_len"
      using True "2.prems" by (auto simp: p_def Let_def)
    from True obtain new where "reader_lines start chunks sec max_len (lines @ [p]) = (lines @ [p]) @ new"
      "length new \<le> length chunks"
      "\<forall>p \<in> set new. p \<noteq> [] \<and> hd p \<noteq> CHR '';'' \<and> \<not> c_isspace (hd p) \<and> length p < max_len"
      using "2.IH"(2) [of "butlast chunk"] "2.prems" by (force simp: p_def Let_def)
    moreover have "hd p \<noteq> CHR '';''" "\<not> c_isspace (hd p)"
      using True p(2) t [of "butlast chunk"] by (auto simp: char_at_def hd_conv_nth)
    ultimately show ?thesis using True p
      by (intro exI [of _ "p # new"]) (auto simp: Let_def p_def)
  next
    case False
    let ?l = "butlast chunk"
    consider (a) "\<not> start \<and> c_stricmp_eq ?l sec" | (b) "start \<and> char_at ?l 0 = CHR ''#''"
      | (c) "start" "char_at ?l 0 \<noteq> CHR ''#''" "char_at ?l 0 \<noteq> CHR '';''"
          "\<not> (length (strtrim ?l) > 0 \<and> char_at (strtrim ?l) 0 \<noteq> CHR '';'')"
      | (d) "\<not> (\<not> start \<and> c_stricmp_eq ?l sec)" "\<not> (start \<and> char_at ?l 0 = CHR ''#'')"
          "\<not> (start \<and> char_at ?l 0 \<noteq> CHR '';'')"
      using False by fastforce
    then show ?thesis
    proof cases
      case a
      with "2.IH"(1) [of ?l] "2.prems" show ?thesis by (auto simp: Let_def intro: le_SucI)
    next
      case b
      then show ?thesis by (auto simp: Let_def)
    next
      case c
      with "2.IH"(3) [of ?l "strtrim ?l"] "2.prems" show ?thesis by (auto simp: Let_def intro: le_SucI)
    next
      case d
      with "2.IH"(4) [of ?l] "2.prems" show ?thesis by (auto simp: Let_def intro: le_SucI)
    qed
  qed
qed

subsection \<open>Properties\<close>

text \<open>Reading a section keeps the lines already collected and appends at most one line per
  chunk of the file; every appended line is non-empty, starts neither with white space nor with
  the comment character, and fits the caller's buffer.\<close>

theorem reader_path_lines:
  assumes "2 \<le> max_len"
  shows "\<exists>new. reader_path lines (Some chunks) sec max_len = lines @ new \<and> length new \<le> length chunks
     \<and> (\<forall>p \<in> set new. p \<noteq> [] \<and> hd p \<noteq> CHR '';'' \<and> \<not> c_isspace (hd p) \<and> length p < max_len)"
  using reader_lines_props [OF assms] by (simp add: reader_path_def)

theorem reader_path_lines_witness:
  "(2::nat) \<le> 20 \<and> (\<exists>new. reader_path [''x''] (Some [''#A.'', ''#B.'', '' y.'', ''; z.'']) ''#b'' 20
     = [''x''] @ new \<and> length new \<le> 4
     \<and> (\<forall>p \<in> set new. p \<noteq> [] \<and> hd p \<noteq> CHR '';'' \<and> \<not> c_isspace (hd p) \<and> length p < 20))"
  using reader_path_lines [of 20 "[''x'']" "[''#A.'', ''#B.'', '' y.'', ''; z.'']" "''#b''"]
  by (simp add: numeral_eq_Suc)

text \<open>Both trimming routines compute the same string: the source without a white-space prefix
  and a white-space suffix, and nothing is left to trim.\<close>

theorem strtrim_correct:
  "strtrim_std s = strtrim s \<and> strtrim (strtrim s) = strtrim s
   \<and> (\<exists>l r. s = l @ strtrim s @ r \<and> list_all c_isspace (l @ r))"
proof (intro conjI)
  show "strtrim (strtrim s) = strtrim s"
    using strtrim_ends [of s] strtrim_id [of "strtrim s"] by blast
  show "\<exists>l r. s = l @ strtrim s @ r \<and> list_all c_isspace (l @ r)"
    using strtrim_infix [of s] by (force simp: list_all_iff)
qed (simp add: strtrim_eq_std)

text \<open>A number written with the prefix \<open>0b\<close> and binary digits that fit 31 bits is read as its
  value, whatever follows the digits.\<close>

theorem stoi_binary:
  assumes "bits_value bs 0 < 2147483648"
    and "rest = [] \<or> (hd rest \<noteq> CHR ''0'' \<and> hd rest \<noteq> CHR ''1'')"
  shows "stoi (''0b'' @ bin_string bs @ rest) = bits_value bs 0"
  using btoi_loop_bits [of 0 bs rest] assms by (simp add: stoi_def char_at_def btoi_def)

theorem stoi_binary_witness: "stoi (''0b'' @ bin_string [True, False, True] @ '' kelp'') = 5"
  using stoi_binary [of "[True, False, True]" "'' kelp''"] by (simp add: bits_value_def)

text \<open>\<open>count_format_args\<close> counts the percent signs not followed by another one, provided each
  introduces an integer conversion, and otherwise rejects the string. In particular every string
  that ends in a percent sign, an escaped one included, is rejected.\<close>

theorem count_format_args_spec:
  "count_format_args src =
     (if \<forall>j \<in> set (format_args src 0). int_conversion (char_at src (j + 1))
      then int (length (format_args src 0)) else - 1)
   \<and> count_format_args (src @ ''%'') = - 1"
proof
  show main: "count_format_args src =
     (if \<forall>j \<in> set (format_args src 0). int_conversion (char_at src (j + 1))
      then int (length (format_args src 0)) else - 1)" for src
    by (simp add: count_format_args_def count_format_loop_spec)
  have "length src \<in> set (format_args (src @ ''%'') 0)" "\<not> int_conversion (char_at (src @ ''%'') (length src + 1))"
    by (auto simp: format_args_def char_at_def NUL_def int_conversion_def)
  then show "count_format_args (src @ ''%'') = - 1"
    using main [of "src @ ''%''"] by auto
qed

theorem count_format_args_spec_witness:
  "count_format_args ''%d of %u'' = 2 \<and> count_format_args (''100%'' @ ''%'') = - 1"
proof -
  have "set (format_args ''%d of %u'' 0) = {0, 6}" "length (format_args ''%d of %u'' 0) = 2"
    by (simp_all add: format_args_def char_at_def upt_rec eval_nat_numeral)
  then show ?thesis
    using count_format_args_spec [of "''%d of %u''"] count_format_args_spec [of "''100%''"]
    by (simp add: char_at_def int_conversion_def)
qed

end
