(* ===== verification/Bridge_Json.thy ===== *)
theory Bridge_Json
  imports Strs
begin

section \<open>The text protocol of the agent bridge (agent_bridge.cpp)\<close>

text \<open>
  Requests and responses are JSON texts. Responses are written with \<open>json_escape\<close> and \<open>json_string\<close>;
  requests are not parsed into a tree: \<open>field_string\<close>, \<open>field_int\<close>, \<open>field_bool\<close> and
  \<open>field_int_array\<close> search the text for the quoted field name. A position in a \<open>std::string\<close> is
  modelled by the suffix that starts there, \<open>npos\<close> by \<open>None\<close>. Also here: the validation of
  identifiers and paths that arrive in requests, and the decimal text of numbers.
\<close>

subsection \<open>Decimal and hexadecimal text\<close>

definition digit_char :: "nat \<Rightarrow> char" where
  "digit_char d = char_of (48 + d)"

fun decimal :: "nat \<Rightarrow> string" where
  "decimal n = (if n < 10 then [digit_char n] else decimal (n div 10) @ [digit_char (n mod 10)])"

declare decimal.simps [simp del]

definition to_string :: "int \<Rightarrow> string" where
  "to_string i = (if i < 0 then CHR ''-'' # decimal (nat (- i)) else decimal (nat i))"

definition hex_digit :: "nat \<Rightarrow> char" where
  "hex_digit d = char_of (if d < 10 then 48 + d else 87 + d)"

text \<open>\<open>snprintf\<close> with \<open>%04x\<close> of an unsigned char.\<close>

definition hex4 :: "nat \<Rightarrow> string" where
  "hex4 n = [CHR ''0'', CHR ''0'', hex_digit (n div 16), hex_digit (n mod 16)]"

subsection \<open>Writing\<close>

abbreviation Quote :: char where "Quote \<equiv> CHR 0x22"
abbreviation Backslash :: char where "Backslash \<equiv> CHR 0x5C"

definition escape_char :: "char \<Rightarrow> string" where
  "escape_char p =
     (if p = Quote then [Backslash, Quote]
      else if p = Backslash then [Backslash, Backslash]
      else if p = CHR 0x08 then [Backslash, CHR ''b'']
      else if p = CHR 0x0C then [Backslash, CHR ''f'']
      else if p = CHR 0x0A then [Backslash, CHR ''n'']
      else if p = CHR 0x0D then [Backslash, CHR ''r'']
      else if p = CHR 0x09 then [Backslash, CHR ''t'']
      else (let n = of_char p :: nat in
        if n < 32 \<or> n \<ge> 128 then [Backslash, CHR ''u''] @ hex4 n else [p]))"

text \<open>The argument is a C string: it ends at the first NUL.\<close>

definition json_escape :: "string \<Rightarrow> string" where
  "json_escape s = concat (map escape_char (takeWhile (\<lambda>c. c \<noteq> NUL) s))"

definition json_string :: "string \<Rightarrow> string" where
  "json_string s = [Quote] @ json_escape s @ [Quote]"

definition error_response :: "string \<Rightarrow> string \<Rightarrow> string" where
  "error_response code message =
     [CHR ''{'', Quote] @ ''ok'' @ [Quote] @ '':false,'' @ [Quote] @ ''error'' @ [Quote] @ '':{'' @ [Quote] @ ''code''
       @ [Quote] @ '':'' @ json_string code @ '','' @ [Quote] @ ''message'' @ [Quote] @ '':'' @ json_string message @ ''}}''"

subsection \<open>Reading\<close>

text \<open>\<open>std::string::find\<close>: the text after the first occurrence.\<close>

fun is_prefix :: "string \<Rightarrow> string \<Rightarrow> bool" where
  "is_prefix [] s = True"
| "is_prefix (p # ps) [] = False"
| "is_prefix (p # ps) (c # cs) = (p = c \<and> is_prefix ps cs)"

fun find_after :: "string \<Rightarrow> string \<Rightarrow> string option" where
  "find_after needle [] = (if needle = [] then Some [] else None)"
| "find_after needle (c # s) =
     (if is_prefix needle (c # s) then Some (drop (length needle) (c # s)) else find_after needle s)"

definition needle :: "string \<Rightarrow> string" where
  "needle name = [Quote] @ name @ [Quote]"

text \<open>The text after the colon that follows the quoted name.\<close>

definition field_rest :: "string \<Rightarrow> string \<Rightarrow> string option" where
  "field_rest json name =
     (case find_after (needle name) json of None \<Rightarrow> None | Some rest \<Rightarrow> find_after '':'' rest)"

fun unescape :: "string \<Rightarrow> string" where
  "unescape [] = []"
| "unescape [c] = (if c = Quote then [] else [c])"
| "unescape (c # e # rest) =
     (if c = Quote then []
      else if c = Backslash
      then (if e = CHR ''n'' then CHR 0x0A else if e = CHR ''r'' then CHR 0x0D
            else if e = CHR ''t'' then CHR 0x09 else e) # unescape rest
      else c # unescape (e # rest))"

definition field_string :: "string \<Rightarrow> string \<Rightarrow> string" where
  "field_string json name =
     (case field_rest json name of None \<Rightarrow> []
      | Some rest \<Rightarrow> (case find_after [Quote] rest of None \<Rightarrow> [] | Some value \<Rightarrow> unescape value))"

definition field_int :: "string \<Rightarrow> string \<Rightarrow> int \<Rightarrow> int" where
  "field_int json name fallback =
     (case field_rest json name of None \<Rightarrow> fallback | Some rest \<Rightarrow> c_atoi rest)"

definition is_blank :: "char \<Rightarrow> bool" where
  "is_blank c \<longleftrightarrow> c = CHR '' '' \<or> c = CHR 0x09 \<or> c = CHR 0x0D \<or> c = CHR 0x0A"

text \<open>The value and the flag \<open>valid\<close>.\<close>

definition field_bool :: "string \<Rightarrow> string \<Rightarrow> bool \<Rightarrow> bool \<times> bool" where
  "field_bool json name fallback =
     (case field_rest json name of None \<Rightarrow> (fallback, False)
      | Some rest \<Rightarrow>
          (let rest = dropWhile is_blank rest in
           if take 4 rest = ''true'' then (True, True)
           else if take 5 rest = ''false'' then (False, True)
           else if rest \<noteq> [] \<and> (hd rest = CHR ''0'' \<or> hd rest = CHR ''1'') then (hd rest = CHR ''1'', True)
           else (fallback, False)))"

text \<open>\<open>strtol\<close> of a text that starts with a digit, with the 32-bit \<open>long\<close> of the target: an overflowing
  numeral is LONG_MAX.\<close>

definition c_strtol :: "string \<Rightarrow> int" where
  "c_strtol s = min (digits_value s 0) 0x7fffffff"

definition MaxHandles :: nat where
  "MaxHandles = 2048"

lemma dropWhile_shorter: "s \<noteq> [] \<Longrightarrow> P (hd s) \<Longrightarrow> length (dropWhile P s) < length s"
  by (cases s) (auto simp: le_imp_less_Suc length_dropWhile_le)

function int_array_loop :: "string \<Rightarrow> int list \<Rightarrow> int list option" where
  "int_array_loop s result =
     (let s = dropWhile (\<lambda>c. is_blank c \<or> c = CHR '','') s
      in if s \<noteq> [] \<and> hd s = CHR '']'' then Some result
         else if s = [] \<or> \<not> c_isdigit (hd s) then None
         else let val = c_strtol s; result = result @ [val] in
           if val < 0 \<or> val > 0x7fffffff then None
           else if length result > MaxHandles then None
           else let s = dropWhile is_blank (dropWhile c_isdigit s) in
             if s \<noteq> [] \<and> hd s \<noteq> CHR '','' \<and> hd s \<noteq> CHR '']'' then None
             else int_array_loop s result)"
  by pat_completeness auto

termination
proof (relation "measure (\<lambda>(s, r). length s)", goal_cases)
  case (2 s result t u v w)
  have "t \<noteq> []" "c_isdigit (hd t)" using 2 by auto
  then have "length (dropWhile c_isdigit t) < length t"
    by (rule dropWhile_shorter)
  moreover have "length w \<le> length (dropWhile c_isdigit t)"
    using 2 by (simp add: length_dropWhile_le)
  moreover have "length t \<le> length s" using 2 by (simp add: length_dropWhile_le)
  ultimately show ?case by simp
qed simp

declare int_array_loop.simps [simp del]

text \<open>\<open>None\<close> is an empty result with \<open>valid\<close> false.\<close>

definition field_int_array :: "string \<Rightarrow> string \<Rightarrow> int list option" where
  "field_int_array json name =
     (case field_rest json name of None \<Rightarrow> None
      | Some rest \<Rightarrow> (case find_after ''['' rest of None \<Rightarrow> None | Some s \<Rightarrow> int_array_loop s []))"

text \<open>A list of numbers as the responses print it.\<close>

fun int_list_text :: "int list \<Rightarrow> string" where
  "int_list_text [] = []"
| "int_list_text [x] = to_string x"
| "int_list_text (x # y # xs) = to_string x @ '','' @ int_list_text (y # xs)"

subsection \<open>Identifiers and paths in requests\<close>

definition c_isalnum :: "char \<Rightarrow> bool" where
  "c_isalnum c \<longleftrightarrow> c_isdigit c \<or> (65 \<le> (of_char c :: nat) \<and> (of_char c :: nat) \<le> 90)
     \<or> (97 \<le> (of_char c :: nat) \<and> (of_char c :: nat) \<le> 122)"

definition safe_path_component :: "string \<Rightarrow> nat \<Rightarrow> bool" where
  "safe_path_component s max_length \<longleftrightarrow> s \<noteq> [] \<and> length s \<le> max_length
     \<and> list_all (\<lambda>c. c_isalnum c \<or> c = CHR ''-'' \<or> c = CHR ''_'') s"

definition path_char :: "char \<Rightarrow> bool" where
  "path_char c \<longleftrightarrow> c_isalnum c \<or> c = CHR '' '' \<or> c = CHR ''_'' \<or> c = CHR ''-'' \<or> c = CHR ''.''
     \<or> c = CHR 0x27 \<or> c = CHR ''('' \<or> c = CHR '')''"

definition is_separator :: "char \<Rightarrow> bool" where
  "is_separator c \<longleftrightarrow> c = CHR ''/'' \<or> c = Backslash"

text \<open>The loop over the characters: \<open>None\<close> when it returns false, otherwise the two counters at the end.\<close>

fun scenario_loop :: "string \<Rightarrow> bool \<Rightarrow> nat \<Rightarrow> (bool \<times> nat) option" where
  "scenario_loop [] component_start component_length = Some (component_start, component_length)"
| "scenario_loop (c # s) component_start component_length =
     (if is_separator c
      then (if component_start \<or> component_length > 96 then None else scenario_loop s True 0)
      else if component_start \<and> (c = CHR ''.'' \<or> c = CHR '' '') then None
      else if \<not> path_char c then None
      else scenario_loop s False (component_length + 1))"

definition safe_scenario_id :: "string \<Rightarrow> bool" where
  "safe_scenario_id s =
     (if s = [] \<or> length s > 512 then False
      else if length s < 3 \<or> \<not> c_stricmp_eq (drop (length s - 3) s) ''.SC'' then False
      else (case scenario_loop s True 0 of None \<Rightarrow> False
            | Some (component_start, component_length) \<Rightarrow>
                \<not> component_start \<and> component_length \<le> 96 \<and> find_after ''..'' s = None))"

definition agent_scenario_path :: "string \<Rightarrow> string" where
  "agent_scenario_path scenario_id =
     ''scenarios'' @ [Backslash] @ map (\<lambda>c. if c = CHR ''/'' then Backslash else c) scenario_id"

definition agent_save_path :: "string \<Rightarrow> string \<Rightarrow> string" where
  "agent_save_path match_id slot =
     ''saves'' @ [Backslash] @ ''agent'' @ [Backslash] @ match_id @ [Backslash] @ slot @ ''.sav''"

definition valid_chat_identifier :: "string \<Rightarrow> bool" where
  "valid_chat_identifier s \<longleftrightarrow> s \<noteq> [] \<and> length s \<le> 64
     \<and> list_all (\<lambda>c. c_isalnum c \<or> c = CHR ''-'' \<or> c = CHR ''_'' \<or> c = CHR ''.'') s"

definition valid_chat_text :: "string \<Rightarrow> bool" where
  "valid_chat_text s \<longleftrightarrow> s \<noteq> [] \<and> length s \<le> 240
     \<and> list_all (\<lambda>c. 32 \<le> (of_char c :: nat) \<and> (of_char c :: nat) \<le> 126) s"

subsection \<open>Reading back what was written\<close>

definition plain_char :: "char \<Rightarrow> bool" where
  "plain_char c \<longleftrightarrow> (32 \<le> (of_char c :: nat) \<and> (of_char c :: nat) < 128)
     \<or> c = CHR 0x0A \<or> c = CHR 0x0D \<or> c = CHR 0x09"

lemma is_prefix_append [simp]: "is_prefix p (p @ s)"
  by (induction p) auto

lemma is_prefix_iff: "is_prefix p s \<longleftrightarrow> (\<exists>r. s = p @ r)"
  by (induction p s rule: is_prefix.induct) auto

lemma find_after_here [simp]: "find_after p (p @ s) = Some s"
  using is_prefix_append [of p s] append_eq_conv_conj [of p s "p @ s"] by (cases "p @ s") auto

lemma find_after_sound: "find_after p s = Some r \<Longrightarrow> \<exists>l. s = l @ p @ r"
proof (induction s)
  case (Cons c s)
  show ?case
  proof (cases "is_prefix p (c # s)")
    case True
    with Cons.prems show ?thesis by (auto simp: is_prefix_iff)
  next
    case False
    with Cons obtain l where "s = l @ p @ r" by auto
    then show ?thesis by (metis append_Cons)
  qed
qed (auto split: if_splits)

lemma find_after_None: "find_after p s = None \<Longrightarrow> s \<noteq> l @ p @ r"
proof (induction s arbitrary: l)
  case (Cons c s)
  then show ?case
    by (cases l) (auto simp: is_prefix_iff split: if_splits)
qed (auto split: if_splits)

lemma unescape_plain: "c \<noteq> Quote \<Longrightarrow> c \<noteq> Backslash \<Longrightarrow> unescape (c # s) = c # unescape s"
  by (cases s) auto

lemma unescape_pair:
  "unescape (Backslash # e # s) = (if e = CHR ''n'' then CHR 0x0A else if e = CHR ''r'' then CHR 0x0D
            else if e = CHR ''t'' then CHR 0x09 else e) # unescape s"
  by simp

lemma unescape_escape_char:
  assumes "plain_char c"
  shows "unescape (escape_char c @ s) = c # unescape s"
proof -
  have n8: "c \<noteq> CHR 0x08" "c \<noteq> CHR 0x0C" using assms by (auto simp: plain_char_def)
  show ?thesis
  proof (cases "c = Quote \<or> c = Backslash \<or> c = CHR 0x0A \<or> c = CHR 0x0D \<or> c = CHR 0x09")
    case True
    then show ?thesis by (elim disjE) (simp_all add: escape_char_def)
  next
    case False
    then have "32 \<le> (of_char c :: nat)" "(of_char c :: nat) < 128" using assms by (auto simp: plain_char_def)
    then have "escape_char c = [c]" using False n8 by (simp add: escape_char_def)
    then show ?thesis using False by (simp add: unescape_plain)
  qed
qed

lemma plain_not_NUL: "plain_char c \<Longrightarrow> c \<noteq> NUL"
  by (auto simp: plain_char_def NUL_def)

lemma unescape_json_escape:
  "list_all plain_char s \<Longrightarrow> unescape (json_escape s @ Quote # r) = s"
proof (induction s)
  case Nil
  then show ?case by (cases r) (simp_all add: json_escape_def)
next
  case (Cons c s)
  then have "json_escape (c # s) = escape_char c @ json_escape s"
    using plain_not_NUL by (simp add: json_escape_def)
  with Cons show ?case by (simp add: unescape_escape_char)
qed

lemma field_rest_here:
  assumes "find_after (needle name) json = Some ('':'' @ r)"
  shows "field_rest json name = Some r"
  using assms find_after_here [of "'':''" r] by (simp add: field_rest_def)

lemma c_isdigit_digit [simp]: "d < 10 \<Longrightarrow> c_isdigit (digit_char d)" "d < 10 \<Longrightarrow> (of_char (digit_char d) :: nat) = 48 + d"
  by (simp_all add: c_isdigit_def digit_char_def)

lemma decimal_nonempty [simp]: "decimal n \<noteq> []"
  by (subst decimal.simps) simp

lemma decimal_digits: "list_all c_isdigit (decimal n)"
proof (induction n rule: decimal.induct)
  case (1 n)
  then show ?case by (subst decimal.simps) simp
qed

lemma digits_value_append:
  "list_all c_isdigit ds \<Longrightarrow> digits_value (ds @ r) v = digits_value r (digits_value ds v)"
  by (induction ds arbitrary: v) auto

lemma digits_value_decimal: "digits_value (decimal n) 0 = int n"
proof (induction n rule: decimal.induct)
  case (1 n)
  show ?case
  proof (cases "n < 10")
    case True
    then show ?thesis by (subst decimal.simps) simp
  next
    case False
    have "10 * int (n div 10) + int (n mod 10) = int n" by (simp add: zdiv_int zmod_int)
    with False have "digits_value (decimal (n div 10) @ [digit_char (n mod 10)]) 0 = int n"
      using 1 by (simp add: digits_value_append decimal_digits)
    with False show ?thesis by (subst decimal.simps) simp
  qed
qed

lemma digits_value_stop: "r = [] \<or> \<not> c_isdigit (hd r) \<Longrightarrow> digits_value r v = v"
  by (cases r) auto

lemma drop_decimal: "r = [] \<or> \<not> c_isdigit (hd r) \<Longrightarrow> dropWhile c_isdigit (decimal n @ r) = r"
  using decimal_digits [of n] by (simp add: dropWhile_append list_all_iff) (cases r; simp)

lemma decimal_hd: "c_isdigit (hd (decimal n @ r))"
  using decimal_digits [of n] by (cases "decimal n") auto

lemma digit_not_blank: "c_isdigit c \<Longrightarrow> \<not> is_blank c \<and> c \<noteq> CHR '','' \<and> c \<noteq> CHR '']''"
  by (auto simp: c_isdigit_def is_blank_def)

lemma strtol_decimal:
  "r = [] \<or> \<not> c_isdigit (hd r) \<Longrightarrow> n \<le> 0x7fffffff \<Longrightarrow> c_strtol (decimal n @ r) = int n"
  by (simp add: c_strtol_def digits_value_append decimal_digits digits_value_decimal digits_value_stop)

text \<open>One element of an array, with or without the comma before it.\<close>

lemma int_array_element:
  assumes "n \<le> 0x7fffffff" "length acc < MaxHandles" "sep = [] \<or> sep = '',''"
    and r: "r \<noteq> []" "hd r = CHR '','' \<or> hd r = CHR '']''"
  shows "int_array_loop (sep @ decimal n @ r) acc = int_array_loop r (acc @ [int n])"
proof -
  have nd: "\<not> c_isdigit (hd r)" "\<not> is_blank (hd r)" using r(2) by (auto simp: c_isdigit_def is_blank_def)
  let ?s = "decimal n @ r"
  have start: "dropWhile (\<lambda>c. is_blank c \<or> c = CHR '','') (sep @ ?s) = ?s"
    using assms(3) digit_not_blank [OF decimal_hd [of n r]] by (cases "?s") auto
  have rest: "dropWhile is_blank (dropWhile c_isdigit ?s) = r"
    using nd r(1) by (cases r) (simp_all add: drop_decimal)
  have "?s \<noteq> []" "c_isdigit (hd ?s)" "hd ?s \<noteq> CHR '']''" using decimal_hd [of n r] digit_not_blank by auto
  moreover have "c_strtol ?s = int n" using assms(1) nd by (simp add: strtol_decimal)
  ultimately show ?thesis
    by (subst int_array_loop.simps) (use start rest assms(1,2) r in \<open>auto simp: Let_def\<close>)
qed

lemma int_array_end: "int_array_loop ('']'' @ r) acc = Some acc"
  by (subst int_array_loop.simps) (simp add: is_blank_def)

lemma int_array_tail:
  assumes "\<forall>x \<in> set xs. 0 \<le> x \<and> x \<le> 0x7fffffff" "length acc + length xs \<le> MaxHandles"
  shows "int_array_loop (concat (map (\<lambda>x. '','' @ to_string x) xs) @ '']'' @ r) acc = Some (acc @ xs)"
  using assms
proof (induction xs arbitrary: acc)
  case Nil
  then show ?case using int_array_end [of r acc] by simp
next
  case (Cons x xs)
  let ?r = "concat (map (\<lambda>x. '','' @ to_string x) xs) @ '']'' @ r"
  have hd: "?r \<noteq> []" "hd ?r = CHR '','' \<or> hd ?r = CHR '']''" by (cases xs; simp)+
  have "nat x \<le> 0x7fffffff" using Cons.prems by (simp add: nat_le_iff)
  then have "int_array_loop ('','' @ decimal (nat x) @ ?r) acc = int_array_loop ?r (acc @ [x])"
    using Cons.prems hd int_array_element [of "nat x" acc "'',''" ?r] by simp
  with Cons show ?case by (simp add: to_string_def)
qed

lemma int_list_text_cons:
  "int_list_text (x # xs) = to_string x @ concat (map (\<lambda>x. '','' @ to_string x) xs)"
  by (induction xs arbitrary: x) auto

lemma int_array_text:
  assumes "\<forall>x \<in> set xs. 0 \<le> x \<and> x \<le> 0x7fffffff" "length xs \<le> MaxHandles"
  shows "int_array_loop (int_list_text xs @ '']'' @ r) [] = Some xs"
proof (cases xs)
  case Nil
  then show ?thesis using int_array_end [of r "[]"] by simp
next
  case (Cons x ys)
  let ?r = "concat (map (\<lambda>x. '','' @ to_string x) ys) @ '']'' @ r"
  have hd: "?r \<noteq> []" "hd ?r = CHR '','' \<or> hd ?r = CHR '']''" by (cases ys; simp)+
  have "nat x \<le> 0x7fffffff" using assms Cons by (simp add: nat_le_iff)
  then have "int_array_loop (decimal (nat x) @ ?r) [] = int_array_loop ?r [x]"
    using assms Cons hd int_array_element [of "nat x" "[]" "[]" ?r] by (simp add: MaxHandles_def)
  moreover have "int_array_loop ?r [x] = Some (x # ys)"
    using assms Cons int_array_tail [of ys "[x]" r] by simp
  ultimately show ?thesis using assms Cons by (simp add: int_list_text_cons to_string_def)
qed

text \<open>C33: A text field survives the wire: when the first occurrence of the quoted name is the field, \<open>field_string\<close> returns
  exactly the text that \<open>json_string\<close> wrote, whatever quotes, backslashes, line ends and tabs it
  contains, for every text of ASCII characters without other control characters.\<close>

theorem text_field_roundtrip:
  assumes "list_all plain_char s" "find_after (needle name) json = Some ('':'' @ json_string s @ r)"
  shows "field_string json name = s"
proof -
  have "find_after [Quote] (json_string s @ r) = Some (json_escape s @ Quote # r)"
    using find_after_here [of "[Quote]" "json_escape s @ Quote # r"] by (simp add: json_string_def)
  then show ?thesis
    using field_rest_here [OF assms(2)] unescape_json_escape [OF assms(1), of r]
    by (simp add: field_string_def)
qed

theorem text_field_roundtrip_witness:
  "field_string ([CHR ''{''] @ needle ''text'' @ '':'' @ json_string [CHR ''a'', Quote, Backslash, CHR 0x0A] @ ''}'') ''text''
     = [CHR ''a'', Quote, Backslash, CHR 0x0A]"
proof (rule text_field_roundtrip)
  show "list_all plain_char [CHR ''a'', Quote, Backslash, CHR 0x0A]" by (simp add: plain_char_def)
  show "find_after (needle ''text'') ([CHR ''{''] @ needle ''text'' @ '':'' @ json_string [CHR ''a'', Quote, Backslash, CHR 0x0A] @ ''}'')
    = Some ('':'' @ json_string [CHR ''a'', Quote, Backslash, CHR 0x0A] @ ''}'')"
    by (simp add: needle_def)
qed

text \<open>A number array survives the wire: \<open>field_int_array\<close> reads back every list of at most 2048 non-negative
  32-bit numbers that the responses print.\<close>

theorem int_array_field_roundtrip:
  assumes "\<forall>x \<in> set xs. 0 \<le> x \<and> x \<le> 0x7fffffff" "length xs \<le> MaxHandles"
    and "find_after (needle name) json = Some ('':['' @ int_list_text xs @ '']'' @ r)"
  shows "field_int_array json name = Some xs"
proof -
  have "field_rest json name = Some (''['' @ int_list_text xs @ '']'' @ r)"
    using assms(3) field_rest_here [of name json "''['' @ int_list_text xs @ '']'' @ r"] by simp
  then show ?thesis
    using find_after_here [of "''[''" "int_list_text xs @ '']'' @ r"] int_array_text [OF assms(1,2), of r]
    by (simp add: field_int_array_def)
qed

theorem int_array_field_roundtrip_witness:
  "field_int_array ([CHR ''{''] @ needle ''h'' @ '':['' @ int_list_text [7, 0, 2147483647] @ '']}'') ''h'' = Some [7, 0, 2147483647]"
  by (rule int_array_field_roundtrip [where r = "''}''"]) (simp_all add: MaxHandles_def needle_def)

lemma scenario_loop_chars:
  "scenario_loop s b n = Some r \<Longrightarrow> c \<in> set s \<Longrightarrow> is_separator c \<or> path_char c"
  by (induction s b n rule: scenario_loop.induct) (auto split: if_splits)

lemma scenario_loop_parts:
  "scenario_loop (l @ c # m) b n = Some r \<Longrightarrow> is_separator c \<Longrightarrow>
     (l = [] \<longrightarrow> \<not> b) \<and> (\<forall>l' d. l = l' @ [d] \<longrightarrow> \<not> is_separator d)
     \<and> (m \<noteq> [] \<longrightarrow> hd m \<noteq> CHR ''.'' \<and> hd m \<noteq> CHR '' '')"
proof (induction l arbitrary: b n)
  case Nil
  then show ?case by (cases m) (auto split: if_splits)
next
  case (Cons d l)
  then obtain b' n' where loop: "scenario_loop (l @ c # m) b' n' = Some r" "is_separator d \<longrightarrow> b'"
    by (auto split: if_splits)
  from Cons.IH [OF loop(1) Cons.prems(2)] have IH: "(l = [] \<longrightarrow> \<not> b')
     \<and> (\<forall>l' d. l = l' @ [d] \<longrightarrow> \<not> is_separator d)
     \<and> (m \<noteq> [] \<longrightarrow> hd m \<noteq> CHR ''.'' \<and> hd m \<noteq> CHR '' '')" .
  have "\<not> is_separator e" if "d # l = l' @ [e]" for l' e
    using that IH loop(2) by (cases l') auto
  with IH show ?case by blast
qed

text \<open>C34: An accepted scenario name stays inside the scenario directory: it never contains two dots in a row, a drive or
  stream colon, a wildcard, a quotation mark or a NUL, does not start with a separator, a dot or a space, never has
  two separators in a row or a component that starts with a dot, and ends in .SC; the path built from it
  has no forward slash.\<close>

theorem safe_scenario_id_confined:
  assumes "safe_scenario_id s"
  shows "(\<forall>l r. s \<noteq> l @ ''..'' @ r) \<and> (\<forall>c \<in> set s. c \<notin> {CHR '':'', CHR ''*'', CHR ''?'', CHR ''%'', Quote, NUL})
    \<and> s \<noteq> [] \<and> \<not> is_separator (hd s) \<and> hd s \<noteq> CHR ''.'' \<and> hd s \<noteq> CHR '' ''
    \<and> (\<forall>l c d r. s = l @ c # d # r \<longrightarrow> is_separator c \<longrightarrow> \<not> is_separator d \<and> d \<noteq> CHR ''.'')
    \<and> c_stricmp_eq (drop (length s - 3) s) ''.SC'' \<and> CHR ''/'' \<notin> set (agent_scenario_path s)"
proof -
  obtain b n where loop: "scenario_loop s True 0 = Some (b, n)" and dots: "find_after ''..'' s = None" "s \<noteq> []"
    using assms by (auto simp: safe_scenario_id_def split: option.splits if_splits)
  have chars: "is_separator c \<or> path_char c" if "c \<in> set s" for c
    using scenario_loop_chars [OF loop that] .
  have "\<forall>c \<in> set s. c \<notin> {CHR '':'', CHR ''*'', CHR ''?'', CHR ''%'', Quote, NUL}"
    using chars by (force simp: is_separator_def path_char_def c_isalnum_def c_isdigit_def NUL_def)
  moreover have "\<not> is_separator (hd s) \<and> hd s \<noteq> CHR ''.'' \<and> hd s \<noteq> CHR '' ''"
    using loop dots(2) by (cases s) (auto split: if_splits)
  moreover have "\<not> is_separator d \<and> d \<noteq> CHR ''.''" if "s = l @ c # d # r" "is_separator c" for l c d r
    using scenario_loop_parts [of "l @ [c]" d r True 0 "(b, n)"] scenario_loop_parts [of l c "d # r" True 0 "(b, n)"]
      loop that by auto
  moreover have "c_stricmp_eq (drop (length s - 3) s) ''.SC''"
    using assms by (auto simp: safe_scenario_id_def split: if_splits)
  moreover have "CHR ''/'' \<notin> set (agent_scenario_path s)"
    by (auto simp: agent_scenario_path_def)
  ultimately show ?thesis using find_after_None [OF dots(1)] dots(2) by auto
qed

theorem safe_scenario_id_confined_witness:
  "(\<forall>l r. ''maps/Big One.SC'' \<noteq> l @ ''..'' @ r) \<and> \<not> safe_scenario_id ''../x.SC''"
proof -
  have "safe_scenario_id ''maps/Big One.SC''"
    by (simp add: safe_scenario_id_def c_stricmp_eq_def c_tolower_def is_separator_def path_char_def c_isalnum_def
        c_isdigit_def)
  moreover have "\<not> safe_scenario_id ''../x.SC''"
    by (simp add: safe_scenario_id_def c_stricmp_eq_def c_tolower_def is_separator_def)
  ultimately show ?thesis using safe_scenario_id_confined by blast
qed

end
