(* ===== verification/Consts.thy ===== *)
theory Consts
  imports Prelude
begin

section \<open>Enumeration constants of the engine headers\<close>

text \<open>
  The constants of the enumerations in \<open>engine_enums.h\<close>, \<open>engine_veh.h\<close> and \<open>engine_base.h\<close> that the
  models use, under the names of the source. Flags are words of their field, identifiers are integers. They
  are abbreviations, so the models read like the code and the simplifier sees the numerals.
\<close>

subsection \<open>FacilityId (engine_enums.h)\<close>

abbreviation (input) FAC_HEADQUARTERS :: "int" where "FAC_HEADQUARTERS \<equiv> 1"
abbreviation (input) FAC_CHILDREN_CRECHE :: "int" where "FAC_CHILDREN_CRECHE \<equiv> 2"
abbreviation (input) FAC_RECYCLING_TANKS :: "int" where "FAC_RECYCLING_TANKS \<equiv> 3"
abbreviation (input) FAC_PERIMETER_DEFENSE :: "int" where "FAC_PERIMETER_DEFENSE \<equiv> 4"
abbreviation (input) FAC_TACHYON_FIELD :: "int" where "FAC_TACHYON_FIELD \<equiv> 5"
abbreviation (input) FAC_RECREATION_COMMONS :: "int" where "FAC_RECREATION_COMMONS \<equiv> 6"
abbreviation (input) FAC_ENERGY_BANK :: "int" where "FAC_ENERGY_BANK \<equiv> 7"
abbreviation (input) FAC_NETWORK_NODE :: "int" where "FAC_NETWORK_NODE \<equiv> 8"
abbreviation (input) FAC_BIOLOGY_LAB :: "int" where "FAC_BIOLOGY_LAB \<equiv> 9"
abbreviation (input) FAC_SKUNKWORKS :: "int" where "FAC_SKUNKWORKS \<equiv> 10"
abbreviation (input) FAC_HOLOGRAM_THEATRE :: "int" where "FAC_HOLOGRAM_THEATRE \<equiv> 11"
abbreviation (input) FAC_PARADISE_GARDEN :: "int" where "FAC_PARADISE_GARDEN \<equiv> 12"
abbreviation (input) FAC_TREE_FARM :: "int" where "FAC_TREE_FARM \<equiv> 13"
abbreviation (input) FAC_HYBRID_FOREST :: "int" where "FAC_HYBRID_FOREST \<equiv> 14"
abbreviation (input) FAC_FUSION_LAB :: "int" where "FAC_FUSION_LAB \<equiv> 15"
abbreviation (input) FAC_QUANTUM_LAB :: "int" where "FAC_QUANTUM_LAB \<equiv> 16"
abbreviation (input) FAC_RESEARCH_HOSPITAL :: "int" where "FAC_RESEARCH_HOSPITAL \<equiv> 17"
abbreviation (input) FAC_NANOHOSPITAL :: "int" where "FAC_NANOHOSPITAL \<equiv> 18"
abbreviation (input) FAC_ROBOTIC_ASSEMBLY_PLANT :: "int" where "FAC_ROBOTIC_ASSEMBLY_PLANT \<equiv> 19"
abbreviation (input) FAC_NANOREPLICATOR :: "int" where "FAC_NANOREPLICATOR \<equiv> 20"
abbreviation (input) FAC_QUANTUM_CONVERTER :: "int" where "FAC_QUANTUM_CONVERTER \<equiv> 21"
abbreviation (input) FAC_GENEJACK_FACTORY :: "int" where "FAC_GENEJACK_FACTORY \<equiv> 22"
abbreviation (input) FAC_PUNISHMENT_SPHERE :: "int" where "FAC_PUNISHMENT_SPHERE \<equiv> 23"
abbreviation (input) FAC_HAB_COMPLEX :: "int" where "FAC_HAB_COMPLEX \<equiv> 24"
abbreviation (input) FAC_HABITATION_DOME :: "int" where "FAC_HABITATION_DOME \<equiv> 25"
abbreviation (input) FAC_PRESSURE_DOME :: "int" where "FAC_PRESSURE_DOME \<equiv> 26"
abbreviation (input) FAC_COMMAND_CENTER :: "int" where "FAC_COMMAND_CENTER \<equiv> 27"
abbreviation (input) FAC_NAVAL_YARD :: "int" where "FAC_NAVAL_YARD \<equiv> 28"
abbreviation (input) FAC_AEROSPACE_COMPLEX :: "int" where "FAC_AEROSPACE_COMPLEX \<equiv> 29"
abbreviation (input) FAC_BIOENHANCEMENT_CENTER :: "int" where "FAC_BIOENHANCEMENT_CENTER \<equiv> 30"
abbreviation (input) FAC_CENTAURI_PRESERVE :: "int" where "FAC_CENTAURI_PRESERVE \<equiv> 31"
abbreviation (input) FAC_TEMPLE_OF_PLANET :: "int" where "FAC_TEMPLE_OF_PLANET \<equiv> 32"
abbreviation (input) FAC_PSI_GATE :: "int" where "FAC_PSI_GATE \<equiv> 33"
abbreviation (input) FAC_COVERT_OPS_CENTER :: "int" where "FAC_COVERT_OPS_CENTER \<equiv> 34"
abbreviation (input) FAC_BROOD_PIT :: "int" where "FAC_BROOD_PIT \<equiv> 35"
abbreviation (input) FAC_AQUAFARM :: "int" where "FAC_AQUAFARM \<equiv> 36"
abbreviation (input) FAC_SUBSEA_TRUNKLINE :: "int" where "FAC_SUBSEA_TRUNKLINE \<equiv> 37"
abbreviation (input) FAC_THERMOCLINE_TRANSDUCER :: "int" where "FAC_THERMOCLINE_TRANSDUCER \<equiv> 38"
abbreviation (input) FAC_FLECHETTE_DEFENSE_SYS :: "int" where "FAC_FLECHETTE_DEFENSE_SYS \<equiv> 39"
abbreviation (input) FAC_SUBSPACE_GENERATOR :: "int" where "FAC_SUBSPACE_GENERATOR \<equiv> 40"
abbreviation (input) FAC_GEOSYNC_SURVEY_POD :: "int" where "FAC_GEOSYNC_SURVEY_POD \<equiv> 41"
abbreviation (input) FAC_EMPTY_FACILITY_42 :: "int" where "FAC_EMPTY_FACILITY_42 \<equiv> 42"
abbreviation (input) FAC_EMPTY_FACILITY_43 :: "int" where "FAC_EMPTY_FACILITY_43 \<equiv> 43"
abbreviation (input) FAC_EMPTY_FACILITY_44 :: "int" where "FAC_EMPTY_FACILITY_44 \<equiv> 44"
abbreviation (input) FAC_EMPTY_FACILITY_45 :: "int" where "FAC_EMPTY_FACILITY_45 \<equiv> 45"
abbreviation (input) FAC_EMPTY_FACILITY_46 :: "int" where "FAC_EMPTY_FACILITY_46 \<equiv> 46"
abbreviation (input) FAC_EMPTY_FACILITY_47 :: "int" where "FAC_EMPTY_FACILITY_47 \<equiv> 47"
abbreviation (input) FAC_EMPTY_FACILITY_48 :: "int" where "FAC_EMPTY_FACILITY_48 \<equiv> 48"
abbreviation (input) FAC_EMPTY_FACILITY_49 :: "int" where "FAC_EMPTY_FACILITY_49 \<equiv> 49"
abbreviation (input) FAC_EMPTY_FACILITY_50 :: "int" where "FAC_EMPTY_FACILITY_50 \<equiv> 50"
abbreviation (input) FAC_EMPTY_FACILITY_51 :: "int" where "FAC_EMPTY_FACILITY_51 \<equiv> 51"
abbreviation (input) FAC_EMPTY_FACILITY_52 :: "int" where "FAC_EMPTY_FACILITY_52 \<equiv> 52"
abbreviation (input) FAC_EMPTY_FACILITY_53 :: "int" where "FAC_EMPTY_FACILITY_53 \<equiv> 53"
abbreviation (input) FAC_EMPTY_FACILITY_54 :: "int" where "FAC_EMPTY_FACILITY_54 \<equiv> 54"
abbreviation (input) FAC_EMPTY_FACILITY_55 :: "int" where "FAC_EMPTY_FACILITY_55 \<equiv> 55"
abbreviation (input) FAC_EMPTY_FACILITY_56 :: "int" where "FAC_EMPTY_FACILITY_56 \<equiv> 56"
abbreviation (input) FAC_EMPTY_FACILITY_57 :: "int" where "FAC_EMPTY_FACILITY_57 \<equiv> 57"
abbreviation (input) FAC_EMPTY_FACILITY_58 :: "int" where "FAC_EMPTY_FACILITY_58 \<equiv> 58"
abbreviation (input) FAC_EMPTY_FACILITY_59 :: "int" where "FAC_EMPTY_FACILITY_59 \<equiv> 59"
abbreviation (input) FAC_EMPTY_FACILITY_60 :: "int" where "FAC_EMPTY_FACILITY_60 \<equiv> 60"
abbreviation (input) FAC_EMPTY_FACILITY_61 :: "int" where "FAC_EMPTY_FACILITY_61 \<equiv> 61"
abbreviation (input) FAC_EMPTY_FACILITY_62 :: "int" where "FAC_EMPTY_FACILITY_62 \<equiv> 62"
abbreviation (input) FAC_EMPTY_FACILITY_63 :: "int" where "FAC_EMPTY_FACILITY_63 \<equiv> 63"
abbreviation (input) FAC_EMPTY_FACILITY_64 :: "int" where "FAC_EMPTY_FACILITY_64 \<equiv> 64"
abbreviation (input) FAC_SKY_HYDRO_LAB :: "int" where "FAC_SKY_HYDRO_LAB \<equiv> 65"
abbreviation (input) FAC_NESSUS_MINING_STATION :: "int" where "FAC_NESSUS_MINING_STATION \<equiv> 66"
abbreviation (input) FAC_ORBITAL_POWER_TRANS :: "int" where "FAC_ORBITAL_POWER_TRANS \<equiv> 67"
abbreviation (input) FAC_ORBITAL_DEFENSE_POD :: "int" where "FAC_ORBITAL_DEFENSE_POD \<equiv> 68"
abbreviation (input) FAC_STOCKPILE_ENERGY :: "int" where "FAC_STOCKPILE_ENERGY \<equiv> 69"
abbreviation (input) FAC_HUMAN_GENOME_PROJECT :: "int" where "FAC_HUMAN_GENOME_PROJECT \<equiv> 70"
abbreviation (input) FAC_COMMAND_NEXUS :: "int" where "FAC_COMMAND_NEXUS \<equiv> 71"
abbreviation (input) FAC_WEATHER_PARADIGM :: "int" where "FAC_WEATHER_PARADIGM \<equiv> 72"
abbreviation (input) FAC_MERCHANT_EXCHANGE :: "int" where "FAC_MERCHANT_EXCHANGE \<equiv> 73"
abbreviation (input) FAC_EMPATH_GUILD :: "int" where "FAC_EMPATH_GUILD \<equiv> 74"
abbreviation (input) FAC_CITIZENS_DEFENSE_FORCE :: "int" where "FAC_CITIZENS_DEFENSE_FORCE \<equiv> 75"
abbreviation (input) FAC_VIRTUAL_WORLD :: "int" where "FAC_VIRTUAL_WORLD \<equiv> 76"
abbreviation (input) FAC_PLANETARY_TRANSIT_SYSTEM :: "int" where "FAC_PLANETARY_TRANSIT_SYSTEM \<equiv> 77"
abbreviation (input) FAC_XENOEMPATHY_DOME :: "int" where "FAC_XENOEMPATHY_DOME \<equiv> 78"
abbreviation (input) FAC_NEURAL_AMPLIFIER :: "int" where "FAC_NEURAL_AMPLIFIER \<equiv> 79"
abbreviation (input) FAC_MARITIME_CONTROL_CENTER :: "int" where "FAC_MARITIME_CONTROL_CENTER \<equiv> 80"
abbreviation (input) FAC_PLANETARY_DATALINKS :: "int" where "FAC_PLANETARY_DATALINKS \<equiv> 81"
abbreviation (input) FAC_SUPERCOLLIDER :: "int" where "FAC_SUPERCOLLIDER \<equiv> 82"
abbreviation (input) FAC_ASCETIC_VIRTUES :: "int" where "FAC_ASCETIC_VIRTUES \<equiv> 83"
abbreviation (input) FAC_LONGEVITY_VACCINE :: "int" where "FAC_LONGEVITY_VACCINE \<equiv> 84"
abbreviation (input) FAC_HUNTER_SEEKER_ALGORITHM :: "int" where "FAC_HUNTER_SEEKER_ALGORITHM \<equiv> 85"
abbreviation (input) FAC_PHOLUS_MUTAGEN :: "int" where "FAC_PHOLUS_MUTAGEN \<equiv> 86"
abbreviation (input) FAC_CYBORG_FACTORY :: "int" where "FAC_CYBORG_FACTORY \<equiv> 87"
abbreviation (input) FAC_THEORY_OF_EVERYTHING :: "int" where "FAC_THEORY_OF_EVERYTHING \<equiv> 88"
abbreviation (input) FAC_DREAM_TWISTER :: "int" where "FAC_DREAM_TWISTER \<equiv> 89"
abbreviation (input) FAC_UNIVERSAL_TRANSLATOR :: "int" where "FAC_UNIVERSAL_TRANSLATOR \<equiv> 90"
abbreviation (input) FAC_NETWORK_BACKBONE :: "int" where "FAC_NETWORK_BACKBONE \<equiv> 91"
abbreviation (input) FAC_NANO_FACTORY :: "int" where "FAC_NANO_FACTORY \<equiv> 92"
abbreviation (input) FAC_LIVING_REFINERY :: "int" where "FAC_LIVING_REFINERY \<equiv> 93"
abbreviation (input) FAC_CLONING_VATS :: "int" where "FAC_CLONING_VATS \<equiv> 94"
abbreviation (input) FAC_SELF_AWARE_COLONY :: "int" where "FAC_SELF_AWARE_COLONY \<equiv> 95"
abbreviation (input) FAC_CLINICAL_IMMORTALITY :: "int" where "FAC_CLINICAL_IMMORTALITY \<equiv> 96"
abbreviation (input) FAC_SPACE_ELEVATOR :: "int" where "FAC_SPACE_ELEVATOR \<equiv> 97"
abbreviation (input) FAC_SINGULARITY_INDUCTOR :: "int" where "FAC_SINGULARITY_INDUCTOR \<equiv> 98"
abbreviation (input) FAC_BULK_MATTER_TRANSMITTER :: "int" where "FAC_BULK_MATTER_TRANSMITTER \<equiv> 99"
abbreviation (input) FAC_TELEPATHIC_MATRIX :: "int" where "FAC_TELEPATHIC_MATRIX \<equiv> 100"
abbreviation (input) FAC_VOICE_OF_PLANET :: "int" where "FAC_VOICE_OF_PLANET \<equiv> 101"
abbreviation (input) FAC_ASCENT_TO_TRANSCENDENCE :: "int" where "FAC_ASCENT_TO_TRANSCENDENCE \<equiv> 102"
abbreviation (input) FAC_MANIFOLD_HARMONICS :: "int" where "FAC_MANIFOLD_HARMONICS \<equiv> 103"
abbreviation (input) FAC_NETHACK_TERMINUS :: "int" where "FAC_NETHACK_TERMINUS \<equiv> 104"
abbreviation (input) FAC_CLOUDBASE_ACADEMY :: "int" where "FAC_CLOUDBASE_ACADEMY \<equiv> 105"
abbreviation (input) FAC_PLANETARY_ENERGY_GRID :: "int" where "FAC_PLANETARY_ENERGY_GRID \<equiv> 106"
abbreviation (input) FAC_EMPTY_SP_38 :: "int" where "FAC_EMPTY_SP_38 \<equiv> 107"
abbreviation (input) FAC_EMPTY_SP_39 :: "int" where "FAC_EMPTY_SP_39 \<equiv> 108"
abbreviation (input) FAC_EMPTY_SP_40 :: "int" where "FAC_EMPTY_SP_40 \<equiv> 109"
abbreviation (input) FAC_EMPTY_SP_41 :: "int" where "FAC_EMPTY_SP_41 \<equiv> 110"
abbreviation (input) FAC_EMPTY_SP_42 :: "int" where "FAC_EMPTY_SP_42 \<equiv> 111"
abbreviation (input) FAC_EMPTY_SP_43 :: "int" where "FAC_EMPTY_SP_43 \<equiv> 112"
abbreviation (input) FAC_EMPTY_SP_44 :: "int" where "FAC_EMPTY_SP_44 \<equiv> 113"
abbreviation (input) FAC_EMPTY_SP_45 :: "int" where "FAC_EMPTY_SP_45 \<equiv> 114"
abbreviation (input) FAC_EMPTY_SP_46 :: "int" where "FAC_EMPTY_SP_46 \<equiv> 115"
abbreviation (input) FAC_EMPTY_SP_47 :: "int" where "FAC_EMPTY_SP_47 \<equiv> 116"
abbreviation (input) FAC_EMPTY_SP_48 :: "int" where "FAC_EMPTY_SP_48 \<equiv> 117"
abbreviation (input) FAC_EMPTY_SP_49 :: "int" where "FAC_EMPTY_SP_49 \<equiv> 118"
abbreviation (input) FAC_EMPTY_SP_50 :: "int" where "FAC_EMPTY_SP_50 \<equiv> 119"
abbreviation (input) FAC_EMPTY_SP_51 :: "int" where "FAC_EMPTY_SP_51 \<equiv> 120"
abbreviation (input) FAC_EMPTY_SP_52 :: "int" where "FAC_EMPTY_SP_52 \<equiv> 121"
abbreviation (input) FAC_EMPTY_SP_53 :: "int" where "FAC_EMPTY_SP_53 \<equiv> 122"
abbreviation (input) FAC_EMPTY_SP_54 :: "int" where "FAC_EMPTY_SP_54 \<equiv> 123"
abbreviation (input) FAC_EMPTY_SP_55 :: "int" where "FAC_EMPTY_SP_55 \<equiv> 124"
abbreviation (input) FAC_EMPTY_SP_56 :: "int" where "FAC_EMPTY_SP_56 \<equiv> 125"
abbreviation (input) FAC_EMPTY_SP_57 :: "int" where "FAC_EMPTY_SP_57 \<equiv> 126"
abbreviation (input) FAC_EMPTY_SP_58 :: "int" where "FAC_EMPTY_SP_58 \<equiv> 127"
abbreviation (input) FAC_EMPTY_SP_59 :: "int" where "FAC_EMPTY_SP_59 \<equiv> 128"
abbreviation (input) FAC_EMPTY_SP_60 :: "int" where "FAC_EMPTY_SP_60 \<equiv> 129"
abbreviation (input) FAC_EMPTY_SP_61 :: "int" where "FAC_EMPTY_SP_61 \<equiv> 130"
abbreviation (input) FAC_EMPTY_SP_62 :: "int" where "FAC_EMPTY_SP_62 \<equiv> 131"
abbreviation (input) FAC_EMPTY_SP_63 :: "int" where "FAC_EMPTY_SP_63 \<equiv> 132"
abbreviation (input) FAC_EMPTY_SP_64 :: "int" where "FAC_EMPTY_SP_64 \<equiv> 133"

subsection \<open>TechId (engine_enums.h)\<close>

abbreviation (input) TECH_Biogen :: "int" where "TECH_Biogen \<equiv> 0"
abbreviation (input) TECH_Indust :: "int" where "TECH_Indust \<equiv> 1"
abbreviation (input) TECH_InfNet :: "int" where "TECH_InfNet \<equiv> 2"
abbreviation (input) TECH_Physic :: "int" where "TECH_Physic \<equiv> 3"
abbreviation (input) TECH_Psych :: "int" where "TECH_Psych \<equiv> 4"
abbreviation (input) TECH_Mobile :: "int" where "TECH_Mobile \<equiv> 5"
abbreviation (input) TECH_Ecology :: "int" where "TECH_Ecology \<equiv> 6"
abbreviation (input) TECH_Super :: "int" where "TECH_Super \<equiv> 7"
abbreviation (input) TECH_Chaos :: "int" where "TECH_Chaos \<equiv> 8"
abbreviation (input) TECH_E_Mc2 :: "int" where "TECH_E_Mc2 \<equiv> 9"
abbreviation (input) TECH_Fusion :: "int" where "TECH_Fusion \<equiv> 10"
abbreviation (input) TECH_Alloys :: "int" where "TECH_Alloys \<equiv> 11"
abbreviation (input) TECH_Subat :: "int" where "TECH_Subat \<equiv> 12"
abbreviation (input) TECH_Chemist :: "int" where "TECH_Chemist \<equiv> 13"
abbreviation (input) TECH_Surface :: "int" where "TECH_Surface \<equiv> 14"
abbreviation (input) TECH_Metal :: "int" where "TECH_Metal \<equiv> 15"
abbreviation (input) TECH_String :: "int" where "TECH_String \<equiv> 16"
abbreviation (input) TECH_MilAlg :: "int" where "TECH_MilAlg \<equiv> 17"
abbreviation (input) TECH_Magnets :: "int" where "TECH_Magnets \<equiv> 18"
abbreviation (input) TECH_MatComp :: "int" where "TECH_MatComp \<equiv> 19"
abbreviation (input) TECH_Unified :: "int" where "TECH_Unified \<equiv> 20"
abbreviation (input) TECH_Gravity :: "int" where "TECH_Gravity \<equiv> 21"
abbreviation (input) TECH_Poly :: "int" where "TECH_Poly \<equiv> 22"
abbreviation (input) TECH_AGrav :: "int" where "TECH_AGrav \<equiv> 23"
abbreviation (input) TECH_deleted_1 :: "int" where "TECH_deleted_1 \<equiv> 24"
abbreviation (input) TECH_Quantum :: "int" where "TECH_Quantum \<equiv> 25"
abbreviation (input) TECH_SingMec :: "int" where "TECH_SingMec \<equiv> 26"
abbreviation (input) TECH_ConSing :: "int" where "TECH_ConSing \<equiv> 27"
abbreviation (input) TECH_TempMec :: "int" where "TECH_TempMec \<equiv> 28"
abbreviation (input) TECH_ProbMec :: "int" where "TECH_ProbMec \<equiv> 29"
abbreviation (input) TECH_Algor :: "int" where "TECH_Algor \<equiv> 30"
abbreviation (input) TECH_Solids :: "int" where "TECH_Solids \<equiv> 31"
abbreviation (input) TECH_PlaNets :: "int" where "TECH_PlaNets \<equiv> 32"
abbreviation (input) TECH_DigSent :: "int" where "TECH_DigSent \<equiv> 33"
abbreviation (input) TECH_HAL9000 :: "int" where "TECH_HAL9000 \<equiv> 34"
abbreviation (input) TECH_DocInit :: "int" where "TECH_DocInit \<equiv> 35"
abbreviation (input) TECH_DocFlex :: "int" where "TECH_DocFlex \<equiv> 36"
abbreviation (input) TECH_Integ :: "int" where "TECH_Integ \<equiv> 37"
abbreviation (input) TECH_Fossil :: "int" where "TECH_Fossil \<equiv> 38"
abbreviation (input) TECH_DocAir :: "int" where "TECH_DocAir \<equiv> 39"
abbreviation (input) TECH_DocSec :: "int" where "TECH_DocSec \<equiv> 40"
abbreviation (input) TECH_MindMac :: "int" where "TECH_MindMac \<equiv> 41"
abbreviation (input) TECH_NanoMin :: "int" where "TECH_NanoMin \<equiv> 42"
abbreviation (input) TECH_DocLoy :: "int" where "TECH_DocLoy \<equiv> 43"
abbreviation (input) TECH_EthCalc :: "int" where "TECH_EthCalc \<equiv> 44"
abbreviation (input) TECH_IndEcon :: "int" where "TECH_IndEcon \<equiv> 45"
abbreviation (input) TECH_IndAuto :: "int" where "TECH_IndAuto \<equiv> 46"
abbreviation (input) TECH_CentMed :: "int" where "TECH_CentMed \<equiv> 47"
abbreviation (input) TECH_Brain :: "int" where "TECH_Brain \<equiv> 48"
abbreviation (input) TECH_Gene :: "int" where "TECH_Gene \<equiv> 49"
abbreviation (input) TECH_BioEng :: "int" where "TECH_BioEng \<equiv> 50"
abbreviation (input) TECH_BioMac :: "int" where "TECH_BioMac \<equiv> 51"
abbreviation (input) TECH_Neural :: "int" where "TECH_Neural \<equiv> 52"
abbreviation (input) TECH_Cyber :: "int" where "TECH_Cyber \<equiv> 53"
abbreviation (input) TECH_Eudaim :: "int" where "TECH_Eudaim \<equiv> 54"
abbreviation (input) TECH_WillPow :: "int" where "TECH_WillPow \<equiv> 55"
abbreviation (input) TECH_Thresh :: "int" where "TECH_Thresh \<equiv> 56"
abbreviation (input) TECH_Matter :: "int" where "TECH_Matter \<equiv> 57"
abbreviation (input) TECH_CentEmp :: "int" where "TECH_CentEmp \<equiv> 58"
abbreviation (input) TECH_EnvEcon :: "int" where "TECH_EnvEcon \<equiv> 59"
abbreviation (input) TECH_EcoEng :: "int" where "TECH_EcoEng \<equiv> 60"
abbreviation (input) TECH_PlaEcon :: "int" where "TECH_PlaEcon \<equiv> 61"
abbreviation (input) TECH_EcoEng2 :: "int" where "TECH_EcoEng2 \<equiv> 62"
abbreviation (input) TECH_CentPsi :: "int" where "TECH_CentPsi \<equiv> 63"
abbreviation (input) TECH_AlphCen :: "int" where "TECH_AlphCen \<equiv> 64"
abbreviation (input) TECH_Create :: "int" where "TECH_Create \<equiv> 65"
abbreviation (input) TECH_Space :: "int" where "TECH_Space \<equiv> 66"
abbreviation (input) TECH_HomoSup :: "int" where "TECH_HomoSup \<equiv> 67"
abbreviation (input) TECH_SupLube :: "int" where "TECH_SupLube \<equiv> 68"
abbreviation (input) TECH_QuanMac :: "int" where "TECH_QuanMac \<equiv> 69"
abbreviation (input) TECH_deleted_2 :: "int" where "TECH_deleted_2 \<equiv> 70"
abbreviation (input) TECH_NanEdit :: "int" where "TECH_NanEdit \<equiv> 71"
abbreviation (input) TECH_OptComp :: "int" where "TECH_OptComp \<equiv> 72"
abbreviation (input) TECH_IndRob :: "int" where "TECH_IndRob \<equiv> 73"
abbreviation (input) TECH_CentGen :: "int" where "TECH_CentGen \<equiv> 74"
abbreviation (input) TECH_SentEco :: "int" where "TECH_SentEco \<equiv> 75"
abbreviation (input) TECH_Viral :: "int" where "TECH_Viral \<equiv> 76"
abbreviation (input) TECH_Orbital :: "int" where "TECH_Orbital \<equiv> 77"
abbreviation (input) TECH_PrPsych :: "int" where "TECH_PrPsych \<equiv> 78"
abbreviation (input) TECH_FldMod :: "int" where "TECH_FldMod \<equiv> 79"
abbreviation (input) TECH_AdapDoc :: "int" where "TECH_AdapDoc \<equiv> 80"
abbreviation (input) TECH_AdapEco :: "int" where "TECH_AdapEco \<equiv> 81"
abbreviation (input) TECH_Bioadap :: "int" where "TECH_Bioadap \<equiv> 82"
abbreviation (input) TECH_SentRes :: "int" where "TECH_SentRes \<equiv> 83"
abbreviation (input) TECH_SecMani :: "int" where "TECH_SecMani \<equiv> 84"
abbreviation (input) TECH_NewMiss :: "int" where "TECH_NewMiss \<equiv> 85"
abbreviation (input) TECH_BFG9000 :: "int" where "TECH_BFG9000 \<equiv> 86"
abbreviation (input) TECH_User :: "int" where "TECH_User \<equiv> 87"
abbreviation (input) TECH_TranT :: "int" where "TECH_TranT \<equiv> 88"
abbreviation (input) TECH_None :: "int" where "TECH_None \<equiv> - 1"
abbreviation (input) TECH_Disable :: "int" where "TECH_Disable \<equiv> - 2"

subsection \<open>TechFlags (engine_enums.h)\<close>

abbreviation (input) TFLAG_SECRETS :: "u32" where "TFLAG_SECRETS \<equiv> 0x1"
abbreviation (input) TFLAG_IMPROVE_PROBE :: "u32" where "TFLAG_IMPROVE_PROBE \<equiv> 0x2"
abbreviation (input) TFLAG_INC_COMMERCE :: "u32" where "TFLAG_INC_COMMERCE \<equiv> 0x4"
abbreviation (input) TFLAG_REVEALS_MAP :: "u32" where "TFLAG_REVEALS_MAP \<equiv> 0x8"
abbreviation (input) TFLAG_ALLOW_GENE_WARFARE :: "u32" where "TFLAG_ALLOW_GENE_WARFARE \<equiv> 0x10"
abbreviation (input) TFLAG_INC_GENE_WARFARE_DEFENSE :: "u32" where "TFLAG_INC_GENE_WARFARE_DEFENSE \<equiv> 0x20"
abbreviation (input) TFLAG_INC_ENERGY_FUNGUS :: "u32" where "TFLAG_INC_ENERGY_FUNGUS \<equiv> 0x40"
abbreviation (input) TFLAG_INC_MINERALS_FUNGUS :: "u32" where "TFLAG_INC_MINERALS_FUNGUS \<equiv> 0x80"
abbreviation (input) TFLAG_INC_NUTRIENT_FUNGUS :: "u32" where "TFLAG_INC_NUTRIENT_FUNGUS \<equiv> 0x100"

subsection \<open>TechCategory (engine_enums.h)\<close>

abbreviation (input) TCAT_GROWTH :: "int" where "TCAT_GROWTH \<equiv> 0"
abbreviation (input) TCAT_TECH :: "int" where "TCAT_TECH \<equiv> 1"
abbreviation (input) TCAT_WEALTH :: "int" where "TCAT_WEALTH \<equiv> 2"
abbreviation (input) TCAT_POWER :: "int" where "TCAT_POWER \<equiv> 3"

subsection \<open>GameState (engine_enums.h)\<close>

abbreviation (input) STATE_GAME_DONE :: "u32" where "STATE_GAME_DONE \<equiv> 0x1"
abbreviation (input) STATE_UNK_2 :: "u32" where "STATE_UNK_2 \<equiv> 0x2"
abbreviation (input) STATE_UNK_4 :: "u32" where "STATE_UNK_4 \<equiv> 0x4"
abbreviation (input) STATE_FINAL_SCORE_DONE :: "u32" where "STATE_FINAL_SCORE_DONE \<equiv> 0x8"
abbreviation (input) STATE_IS_SCENARIO :: "u32" where "STATE_IS_SCENARIO \<equiv> 0x10"
abbreviation (input) STATE_SCENARIO_CHEATED_FLAG :: "u32" where "STATE_SCENARIO_CHEATED_FLAG \<equiv> 0x20"
abbreviation (input) STATE_SCENARIO_EDITOR :: "u32" where "STATE_SCENARIO_EDITOR \<equiv> 0x40"
abbreviation (input) STATE_OMNISCIENT_VIEW :: "u32" where "STATE_OMNISCIENT_VIEW \<equiv> 0x80"
abbreviation (input) STATE_UNK_100 :: "u32" where "STATE_UNK_100 \<equiv> 0x100"
abbreviation (input) STATE_UNK_200 :: "u32" where "STATE_UNK_200 \<equiv> 0x200"
abbreviation (input) STATE_UNK_400 :: "u32" where "STATE_UNK_400 \<equiv> 0x400"
abbreviation (input) STATE_UNK_800 :: "u32" where "STATE_UNK_800 \<equiv> 0x800"
abbreviation (input) STATE_DEBUG_MODE :: "u32" where "STATE_DEBUG_MODE \<equiv> 0x1000"
abbreviation (input) STATE_VICTORY_CONQUER :: "u32" where "STATE_VICTORY_CONQUER \<equiv> 0x2000"
abbreviation (input) STATE_DISPLAYED_COUNCIL_AVAIL_MSG :: "u32" where "STATE_DISPLAYED_COUNCIL_AVAIL_MSG \<equiv> 0x4000"
abbreviation (input) STATE_SCN_VICT_TERRITORY_COUNT_OBJ :: "u32" where "STATE_SCN_VICT_TERRITORY_COUNT_OBJ \<equiv> 0x8000"
abbreviation (input) STATE_COUNCIL_HAS_CONVENED :: "u32" where "STATE_COUNCIL_HAS_CONVENED \<equiv> 0x10000"
abbreviation (input) STATE_VOLCANO_ERUPTED :: "u32" where "STATE_VOLCANO_ERUPTED \<equiv> 0x20000"
abbreviation (input) STATE_SCN_VICT_ALL_ARTIFACTS_OBJ_UNIT :: "u32" where "STATE_SCN_VICT_ALL_ARTIFACTS_OBJ_UNIT \<equiv> 0x40000"
abbreviation (input) STATE_SCN_VICT_HIGHEST_AC_SCORE_WINS :: "u32" where "STATE_SCN_VICT_HIGHEST_AC_SCORE_WINS \<equiv> 0x80000"
abbreviation (input) STATE_PERIHELION_ACTIVE :: "u32" where "STATE_PERIHELION_ACTIVE \<equiv> 0x100000"
abbreviation (input) STATE_VICTORY_DIPLOMATIC :: "u32" where "STATE_VICTORY_DIPLOMATIC \<equiv> 0x200000"
abbreviation (input) STATE_VICTORY_ECONOMIC :: "u32" where "STATE_VICTORY_ECONOMIC \<equiv> 0x400000"
abbreviation (input) STATE_RAND_FAC_LEADER_PERSONALITIES :: "u32" where "STATE_RAND_FAC_LEADER_PERSONALITIES \<equiv> 0x800000"
abbreviation (input) STATE_RAND_FAC_LEADER_SOCIAL_AGENDA :: "u32" where "STATE_RAND_FAC_LEADER_SOCIAL_AGENDA \<equiv> 0x1000000"
abbreviation (input) STATE_SCN_VICT_TERRAIN_ENH_COUNT_OBJ :: "u32" where "STATE_SCN_VICT_TERRAIN_ENH_COUNT_OBJ \<equiv> 0x2000000"
abbreviation (input) STATE_SCN_VICT_BASE_FACIL_COUNT_OBJ :: "u32" where "STATE_SCN_VICT_BASE_FACIL_COUNT_OBJ \<equiv> 0x4000000"
abbreviation (input) STATE_EDITOR_ONLY_MODE :: "u32" where "STATE_EDITOR_ONLY_MODE \<equiv> 0x8000000"
abbreviation (input) STATE_UNK_10000000 :: "u32" where "STATE_UNK_10000000 \<equiv> 0x10000000"
abbreviation (input) STATE_SCN_VICT_POPULATION_COUNT_OBJ :: "u32" where "STATE_SCN_VICT_POPULATION_COUNT_OBJ \<equiv> 0x20000000"
abbreviation (input) STATE_SCN_VICT_TECH_COUNT_OBJ :: "u32" where "STATE_SCN_VICT_TECH_COUNT_OBJ \<equiv> 0x40000000"
abbreviation (input) STATE_SCN_VICT_CREDITS_COUNT_OBJ :: "u32" where "STATE_SCN_VICT_CREDITS_COUNT_OBJ \<equiv> 0x80000000"

subsection \<open>GameRules (engine_enums.h)\<close>

abbreviation (input) RULES_DO_OR_DIE :: "u32" where "RULES_DO_OR_DIE \<equiv> 0x1"
abbreviation (input) RULES_VICTORY_CONQUEST :: "u32" where "RULES_VICTORY_CONQUEST \<equiv> 0x2"
abbreviation (input) RULES_VICTORY_ECONOMIC :: "u32" where "RULES_VICTORY_ECONOMIC \<equiv> 0x4"
abbreviation (input) RULES_VICTORY_DIPLOMATIC :: "u32" where "RULES_VICTORY_DIPLOMATIC \<equiv> 0x8"
abbreviation (input) RULES_LOOK_FIRST :: "u32" where "RULES_LOOK_FIRST \<equiv> 0x10"
abbreviation (input) RULES_TECH_STAGNATION :: "u32" where "RULES_TECH_STAGNATION \<equiv> 0x20"
abbreviation (input) RULES_INTENSE_RIVALRY :: "u32" where "RULES_INTENSE_RIVALRY \<equiv> 0x40"
abbreviation (input) RULES_TIME_WARP :: "u32" where "RULES_TIME_WARP \<equiv> 0x80"
abbreviation (input) RULES_NO_UNITY_SURVEY :: "u32" where "RULES_NO_UNITY_SURVEY \<equiv> 0x100"
abbreviation (input) RULES_BLIND_RESEARCH :: "u32" where "RULES_BLIND_RESEARCH \<equiv> 0x200"
abbreviation (input) RULES_IRONMAN :: "u32" where "RULES_IRONMAN \<equiv> 0x400"
abbreviation (input) RULES_VICTORY_TRANSCENDENCE :: "u32" where "RULES_VICTORY_TRANSCENDENCE \<equiv> 0x800"
abbreviation (input) RULES_VICTORY_COOPERATIVE :: "u32" where "RULES_VICTORY_COOPERATIVE \<equiv> 0x1000"
abbreviation (input) RULES_NO_UNITY_SCATTERING :: "u32" where "RULES_NO_UNITY_SCATTERING \<equiv> 0x2000"
abbreviation (input) RULES_SPOILS_OF_WAR :: "u32" where "RULES_SPOILS_OF_WAR \<equiv> 0x4000"
abbreviation (input) RULES_BELL_CURVE :: "u32" where "RULES_BELL_CURVE \<equiv> 0x8000"
abbreviation (input) RULES_SCN_UNITY_PODS_NO_RESOURCES :: "u32" where "RULES_SCN_UNITY_PODS_NO_RESOURCES \<equiv> 0x10000"
abbreviation (input) RULES_SCN_UNITY_PODS_NO_MONOLITHS :: "u32" where "RULES_SCN_UNITY_PODS_NO_MONOLITHS \<equiv> 0x20000"
abbreviation (input) RULES_SCN_UNITY_PODS_NO_ARTIFACTS :: "u32" where "RULES_SCN_UNITY_PODS_NO_ARTIFACTS \<equiv> 0x40000"
abbreviation (input) RULES_SCN_VICT_SOLO_MISSION :: "u32" where "RULES_SCN_VICT_SOLO_MISSION \<equiv> 0x80000"
abbreviation (input) RULES_SCN_FORCE_PLAYER_PLAY_CURRENT_FACT :: "u32" where "RULES_SCN_FORCE_PLAYER_PLAY_CURRENT_FACT \<equiv> 0x100000"
abbreviation (input) RULES_SCN_NO_NATIVE_LIFE :: "u32" where "RULES_SCN_NO_NATIVE_LIFE \<equiv> 0x200000"
abbreviation (input) RULES_SCN_NO_COLONY_PODS :: "u32" where "RULES_SCN_NO_COLONY_PODS \<equiv> 0x400000"
abbreviation (input) RULES_SCN_NO_TERRAFORMING :: "u32" where "RULES_SCN_NO_TERRAFORMING \<equiv> 0x800000"
abbreviation (input) RULES_SCN_FORCE_CURRENT_DIFF_LEVEL :: "u32" where "RULES_SCN_FORCE_CURRENT_DIFF_LEVEL \<equiv> 0x1000000"
abbreviation (input) RULES_SCN_NO_TECH_TRADING :: "u32" where "RULES_SCN_NO_TECH_TRADING \<equiv> 0x2000000"
abbreviation (input) RULES_SCN_NO_TECH_ADVANCES :: "u32" where "RULES_SCN_NO_TECH_ADVANCES \<equiv> 0x4000000"
abbreviation (input) RULES_SCN_VICT_OBJ_UNITS_REACH_FRIEND_OBJ_BASE :: "u32" where "RULES_SCN_VICT_OBJ_UNITS_REACH_FRIEND_OBJ_BASE \<equiv> 0x8000000"
abbreviation (input) RULES_SCN_VICT_OBJ_UNITS_REACH_FRIEND_HQ_BASE :: "u32" where "RULES_SCN_VICT_OBJ_UNITS_REACH_FRIEND_HQ_BASE \<equiv> 0x10000000"
abbreviation (input) RULES_SCN_VICT_ALL_BASE_COUNT_OBJ :: "u32" where "RULES_SCN_VICT_ALL_BASE_COUNT_OBJ \<equiv> 0x20000000"
abbreviation (input) RULES_SCN_VICT_SP_COUNT_OBJ :: "u32" where "RULES_SCN_VICT_SP_COUNT_OBJ \<equiv> 0x40000000"
abbreviation (input) RULES_SCN_NO_BUILDING_SP :: "u32" where "RULES_SCN_NO_BUILDING_SP \<equiv> 0x80000000"

subsection \<open>GameMoreRules (engine_enums.h)\<close>

abbreviation (input) MRULES_SCN_UNITY_PODS_NO_VEHICLES :: "u32" where "MRULES_SCN_UNITY_PODS_NO_VEHICLES \<equiv> 0x1"
abbreviation (input) MRULES_SCN_UNITY_PODS_NO_TECH :: "u32" where "MRULES_SCN_UNITY_PODS_NO_TECH \<equiv> 0x2"
abbreviation (input) MRULES_NO_PLANETARY_COUNCIL :: "u32" where "MRULES_NO_PLANETARY_COUNCIL \<equiv> 0x4"
abbreviation (input) MRULES_NO_SOCIAL_ENGINEERING :: "u32" where "MRULES_NO_SOCIAL_ENGINEERING \<equiv> 0x8"
abbreviation (input) MRULES_UNK_10 :: "u32" where "MRULES_UNK_10 \<equiv> 0x10"
abbreviation (input) MRULES_UNK_20 :: "u32" where "MRULES_UNK_20 \<equiv> 0x20"
abbreviation (input) MRULES_UNK_40 :: "u32" where "MRULES_UNK_40 \<equiv> 0x40"
abbreviation (input) MRULES_UNK_80 :: "u32" where "MRULES_UNK_80 \<equiv> 0x80"

subsection \<open>GameWarnings (engine_enums.h)\<close>

abbreviation (input) WARN_STOP_NEW_FAC_BUILT :: "u32" where "WARN_STOP_NEW_FAC_BUILT \<equiv> 0x1"
abbreviation (input) WARN_STOP_NON_COMBAT_VEH_BUILT :: "u32" where "WARN_STOP_NON_COMBAT_VEH_BUILT \<equiv> 0x2"
abbreviation (input) WARN_STOP_PROTOTYPE_COMPLETE :: "u32" where "WARN_STOP_PROTOTYPE_COMPLETE \<equiv> 0x4"
abbreviation (input) WARN_STOP_DRONE_RIOTS :: "u32" where "WARN_STOP_DRONE_RIOTS \<equiv> 0x8"
abbreviation (input) WARN_STOP_DRONE_RIOTS_END :: "u32" where "WARN_STOP_DRONE_RIOTS_END \<equiv> 0x10"
abbreviation (input) WARN_STOP_GOLDEN_AGE :: "u32" where "WARN_STOP_GOLDEN_AGE \<equiv> 0x20"
abbreviation (input) WARN_STOP_GOLDEN_AGE_END :: "u32" where "WARN_STOP_GOLDEN_AGE_END \<equiv> 0x40"
abbreviation (input) WARN_STOP_NUTRIENT_SHORTAGE :: "u32" where "WARN_STOP_NUTRIENT_SHORTAGE \<equiv> 0x80"
abbreviation (input) WARN_STOP_UNK_100 :: "u32" where "WARN_STOP_UNK_100 \<equiv> 0x100"
abbreviation (input) WARN_STOP_BUILD_OUT_OF_DATE :: "u32" where "WARN_STOP_BUILD_OUT_OF_DATE \<equiv> 0x200"
abbreviation (input) WARN_STOP_COMBAT_VEH_BUILT :: "u32" where "WARN_STOP_COMBAT_VEH_BUILT \<equiv> 0x400"
abbreviation (input) WARN_STOP_POP_LIMIT_REACHED :: "u32" where "WARN_STOP_POP_LIMIT_REACHED \<equiv> 0x800"
abbreviation (input) WARN_STOP_DELAY_IN_TRANSCEND :: "u32" where "WARN_STOP_DELAY_IN_TRANSCEND \<equiv> 0x1000"
abbreviation (input) WARN_STOP_BUILT_VIA_GOV_QUEUE :: "u32" where "WARN_STOP_BUILT_VIA_GOV_QUEUE \<equiv> 0x2000"
abbreviation (input) WARN_STOP_STARVATION :: "u32" where "WARN_STOP_STARVATION \<equiv> 0x4000"
abbreviation (input) WARN_STOP_MINERAL_SHORTAGE :: "u32" where "WARN_STOP_MINERAL_SHORTAGE \<equiv> 0x8000"
abbreviation (input) WARN_STOP_ENERGY_SHORTAGE :: "u32" where "WARN_STOP_ENERGY_SHORTAGE \<equiv> 0x10000"
abbreviation (input) WARN_STOP_RANDOM_EVENT :: "u32" where "WARN_STOP_RANDOM_EVENT \<equiv> 0x20000"

subsection \<open>GamePreferences (engine_enums.h)\<close>

abbreviation (input) PREF_BSC_PAUSE_END_TURN :: "u32" where "PREF_BSC_PAUSE_END_TURN \<equiv> 0x1"
abbreviation (input) PREF_BSC_AUTOSAVE_EACH_TURN :: "u32" where "PREF_BSC_AUTOSAVE_EACH_TURN \<equiv> 0x2"
abbreviation (input) PREF_BSC_DONT_QUICK_MOVE_ENEMY_VEH :: "u32" where "PREF_BSC_DONT_QUICK_MOVE_ENEMY_VEH \<equiv> 0x4"
abbreviation (input) PREF_ADV_FAST_BATTLE_RESOLUTION :: "u32" where "PREF_ADV_FAST_BATTLE_RESOLUTION \<equiv> 0x8"
abbreviation (input) PREF_UNK_10 :: "u32" where "PREF_UNK_10 \<equiv> 0x10"
abbreviation (input) PREF_BSC_TUTORIAL_MSGS :: "u32" where "PREF_BSC_TUTORIAL_MSGS \<equiv> 0x20"
abbreviation (input) PREF_AV_MAP_ANIMATIONS :: "u32" where "PREF_AV_MAP_ANIMATIONS \<equiv> 0x80"
abbreviation (input) PREF_MAP_SHOW_GRID :: "u32" where "PREF_MAP_SHOW_GRID \<equiv> 0x100"
abbreviation (input) PREF_MAP_SHOW_BASE_GRID :: "u32" where "PREF_MAP_SHOW_BASE_GRID \<equiv> 0x200"
abbreviation (input) PREF_AV_VOLUME_SFX_TOGGLE :: "u32" where "PREF_AV_VOLUME_SFX_TOGGLE \<equiv> 0x400"
abbreviation (input) PREF_AV_SOUND_EFFECTS :: "u32" where "PREF_AV_SOUND_EFFECTS \<equiv> 0x400"
abbreviation (input) PREF_AV_VOLUME_MUSIC_TOGGLE :: "u32" where "PREF_AV_VOLUME_MUSIC_TOGGLE \<equiv> 0x800"
abbreviation (input) PREF_AV_BACKGROUND_MUSIC :: "u32" where "PREF_AV_BACKGROUND_MUSIC \<equiv> 0x800"
abbreviation (input) PREF_BSC_MOUSE_EDGE_SCROLL_VIEW :: "u32" where "PREF_BSC_MOUSE_EDGE_SCROLL_VIEW \<equiv> 0x1000"
abbreviation (input) PREF_BSC_AUTO_DESIGN_VEH :: "u32" where "PREF_BSC_AUTO_DESIGN_VEH \<equiv> 0x4000"
abbreviation (input) PREF_BSC_DONT_QUICK_MOVE_ALLY_VEH :: "u32" where "PREF_BSC_DONT_QUICK_MOVE_ALLY_VEH \<equiv> 0x8000"
abbreviation (input) PREF_AUTO_AIR_VEH_RET_HOME_FUEL_RNG :: "u32" where "PREF_AUTO_AIR_VEH_RET_HOME_FUEL_RNG \<equiv> 0x10000"
abbreviation (input) PREF_AUTO_FORMER_RAISE_LWR_TERRAIN :: "u32" where "PREF_AUTO_FORMER_RAISE_LWR_TERRAIN \<equiv> 0x20000"
abbreviation (input) PREF_AV_INTERLUDES_DISABLED :: "u32" where "PREF_AV_INTERLUDES_DISABLED \<equiv> 0x40000"
abbreviation (input) PREF_ADV_NO_CENTER_VEH_ORDERS :: "u32" where "PREF_ADV_NO_CENTER_VEH_ORDERS \<equiv> 0x80000"
abbreviation (input) PREF_AUTO_END_MOVE_SPOT_VEH_PACT :: "u32" where "PREF_AUTO_END_MOVE_SPOT_VEH_PACT \<equiv> 0x100000"
abbreviation (input) PREF_AUTO_END_MOVE_SPOT_VEH_TREATY :: "u32" where "PREF_AUTO_END_MOVE_SPOT_VEH_TREATY \<equiv> 0x200000"
abbreviation (input) PREF_AUTO_END_MOVE_SPOT_VEH_TRUCE :: "u32" where "PREF_AUTO_END_MOVE_SPOT_VEH_TRUCE \<equiv> 0x400000"
abbreviation (input) PREF_AUTO_END_MOVE_SPOT_VEH_WAR :: "u32" where "PREF_AUTO_END_MOVE_SPOT_VEH_WAR \<equiv> 0x800000"
abbreviation (input) PREF_AUTO_FORMER_PLANT_FORESTS :: "u32" where "PREF_AUTO_FORMER_PLANT_FORESTS \<equiv> 0x1000000"
abbreviation (input) PREF_AUTO_FORMER_BUILD_ADV :: "u32" where "PREF_AUTO_FORMER_BUILD_ADV \<equiv> 0x2000000"
abbreviation (input) PREF_AV_SLIDING_WINDOWS :: "u32" where "PREF_AV_SLIDING_WINDOWS \<equiv> 0x8000000"
abbreviation (input) PREF_AV_SECRET_PROJECT_MOVIES :: "u32" where "PREF_AV_SECRET_PROJECT_MOVIES \<equiv> 0x10000000"
abbreviation (input) PREF_ADV_RADIO_BTN_NOT_SEL_SING_CLK :: "u32" where "PREF_ADV_RADIO_BTN_NOT_SEL_SING_CLK \<equiv> 0x20000000"
abbreviation (input) PREF_AUTO_DONT_END_MOVE_DIFF_TRIAD :: "u32" where "PREF_AUTO_DONT_END_MOVE_DIFF_TRIAD \<equiv> 0x40000000"
abbreviation (input) PREF_AUTO_WAKE_VEH_TRANS_REACH_LAND :: "u32" where "PREF_AUTO_WAKE_VEH_TRANS_REACH_LAND \<equiv> 0x80000000"

subsection \<open>GameMorePreferences (engine_enums.h)\<close>

abbreviation (input) MPREF_MAP_SHOW_FOG_WAR :: "u32" where "MPREF_MAP_SHOW_FOG_WAR \<equiv> 0x1"
abbreviation (input) MPREF_ADV_ZOOM_BASE_NO_RECENTER_MAP :: "u32" where "MPREF_ADV_ZOOM_BASE_NO_RECENTER_MAP \<equiv> 0x4"
abbreviation (input) MPREF_AUTO_FORMER_REMOVE_FUNGUS :: "u32" where "MPREF_AUTO_FORMER_REMOVE_FUNGUS \<equiv> 0x8"
abbreviation (input) MPREF_ADV_PAUSE_AFTER_BATTLES :: "u32" where "MPREF_ADV_PAUSE_AFTER_BATTLES \<equiv> 0x10"
abbreviation (input) MPREF_AUTO_FORMER_BUILD_SENSORS :: "u32" where "MPREF_AUTO_FORMER_BUILD_SENSORS \<equiv> 0x20"
abbreviation (input) MPREF_ADV_QUICK_MOVE_VEH_ORDERS :: "u32" where "MPREF_ADV_QUICK_MOVE_VEH_ORDERS \<equiv> 0x40"
abbreviation (input) MPREF_ADV_QUICK_MOVE_ALL_VEH :: "u32" where "MPREF_ADV_QUICK_MOVE_ALL_VEH \<equiv> 0x80"
abbreviation (input) MPREF_ADV_RIGHT_CLICK_POPS_UP_MENU :: "u32" where "MPREF_ADV_RIGHT_CLICK_POPS_UP_MENU \<equiv> 0x100"
abbreviation (input) MPREF_AV_WHOLE_VEH_BLINKS :: "u32" where "MPREF_AV_WHOLE_VEH_BLINKS \<equiv> 0x200"
abbreviation (input) MPREF_ADV_DETAIL_RIGHT_CLICK_MENUS :: "u32" where "MPREF_ADV_DETAIL_RIGHT_CLICK_MENUS \<equiv> 0x400"
abbreviation (input) MPREF_AUTO_ALWAYS_INSPECT_MONOLITH :: "u32" where "MPREF_AUTO_ALWAYS_INSPECT_MONOLITH \<equiv> 0x800"
abbreviation (input) MPREF_MAP_SHOW_PROD_WITH_BASE_NAMES :: "u32" where "MPREF_MAP_SHOW_PROD_WITH_BASE_NAMES \<equiv> 0x1000"
abbreviation (input) MPREF_MAP_SHOW_BASE_NAMES :: "u32" where "MPREF_MAP_SHOW_BASE_NAMES \<equiv> 0x2000"
abbreviation (input) MPREF_AV_VOLUME_VOICE_TOGGLE :: "u32" where "MPREF_AV_VOLUME_VOICE_TOGGLE \<equiv> 0x4000"
abbreviation (input) MPREF_AV_VOICEOVER_TECH_FAC :: "u32" where "MPREF_AV_VOICEOVER_TECH_FAC \<equiv> 0x4000"
abbreviation (input) MPREF_ADV_CONFIRM_ODDS_BF_ATTACKING :: "u32" where "MPREF_ADV_CONFIRM_ODDS_BF_ATTACKING \<equiv> 0x8000"
abbreviation (input) MPREF_MAP_SHOW_FLAT_TERRAIN :: "u32" where "MPREF_MAP_SHOW_FLAT_TERRAIN \<equiv> 0x10000"
abbreviation (input) MPREF_AV_VOICEOVER_STOP_CLOSE_POPUP :: "u32" where "MPREF_AV_VOICEOVER_STOP_CLOSE_POPUP \<equiv> 0x20000"
abbreviation (input) MPREF_ADV_CLICK_VEH_CANCELS_ORDERS :: "u32" where "MPREF_ADV_CLICK_VEH_CANCELS_ORDERS \<equiv> 0x40000"
abbreviation (input) MPREF_AV_SLIDING_SCROLLBARS :: "u32" where "MPREF_AV_SLIDING_SCROLLBARS \<equiv> 0x80000"
abbreviation (input) MPREF_BSC_AUTO_PRUNE_OBS_VEH :: "u32" where "MPREF_BSC_AUTO_PRUNE_OBS_VEH \<equiv> 0x100000"
abbreviation (input) MPREF_ADV_DETAIL_MAIN_MENUS :: "u32" where "MPREF_ADV_DETAIL_MAIN_MENUS \<equiv> 0x200000"
abbreviation (input) MPREF_AUTO_FORMER_CANT_BUILD_ROADS :: "u32" where "MPREF_AUTO_FORMER_CANT_BUILD_ROADS \<equiv> 0x400000"
abbreviation (input) MPREF_MAP_SHOW_GRID_OCEAN_SQ :: "u32" where "MPREF_MAP_SHOW_GRID_OCEAN_SQ \<equiv> 0x800000"
abbreviation (input) MPREF_AV_MONUMENTS_DISABLED :: "u32" where "MPREF_AV_MONUMENTS_DISABLED \<equiv> 0x1000000"
abbreviation (input) MPREF_MAP_HIDE_ACTIVE_VEH_GOTO_PATH :: "u32" where "MPREF_MAP_HIDE_ACTIVE_VEH_GOTO_PATH \<equiv> 0x2000000"

subsection \<open>DiffLevel (engine_enums.h)\<close>

abbreviation (input) DIFF_CITIZEN :: "int" where "DIFF_CITIZEN \<equiv> 0"
abbreviation (input) DIFF_SPECIALIST :: "int" where "DIFF_SPECIALIST \<equiv> 1"
abbreviation (input) DIFF_TALENT :: "int" where "DIFF_TALENT \<equiv> 2"
abbreviation (input) DIFF_LIBRARIAN :: "int" where "DIFF_LIBRARIAN \<equiv> 3"
abbreviation (input) DIFF_THINKER :: "int" where "DIFF_THINKER \<equiv> 4"
abbreviation (input) DIFF_TRANSCEND :: "int" where "DIFF_TRANSCEND \<equiv> 5"

subsection \<open>FactionMood (engine_enums.h)\<close>

abbreviation (input) MOOD_MAGNANIMOUS :: "int" where "MOOD_MAGNANIMOUS \<equiv> 0"
abbreviation (input) MOOD_SOLICITOUS :: "int" where "MOOD_SOLICITOUS \<equiv> 1"
abbreviation (input) MOOD_COOPERATIVE :: "int" where "MOOD_COOPERATIVE \<equiv> 2"
abbreviation (input) MOOD_NONCOMMITTAL :: "int" where "MOOD_NONCOMMITTAL \<equiv> 3"
abbreviation (input) MOOD_AMBIVALENT :: "int" where "MOOD_AMBIVALENT \<equiv> 4"
abbreviation (input) MOOD_OBSTINATE :: "int" where "MOOD_OBSTINATE \<equiv> 5"
abbreviation (input) MOOD_QUARRELSOME :: "int" where "MOOD_QUARRELSOME \<equiv> 6"
abbreviation (input) MOOD_BELLIGERENT :: "int" where "MOOD_BELLIGERENT \<equiv> 7"
abbreviation (input) MOOD_SEETHING :: "int" where "MOOD_SEETHING \<equiv> 8"

subsection \<open>FactionBonusName (engine_enums.h)\<close>

abbreviation (input) BN_TECH :: "int" where "BN_TECH \<equiv> 0"
abbreviation (input) BN_MORALE :: "int" where "BN_MORALE \<equiv> 1"
abbreviation (input) BN_PSI :: "int" where "BN_PSI \<equiv> 2"
abbreviation (input) BN_FACILITY :: "int" where "BN_FACILITY \<equiv> 3"
abbreviation (input) BN_RESEARCH :: "int" where "BN_RESEARCH \<equiv> 4"
abbreviation (input) BN_DRONE :: "int" where "BN_DRONE \<equiv> 5"
abbreviation (input) BN_TALENT :: "int" where "BN_TALENT \<equiv> 6"
abbreviation (input) BN_ENERGY :: "int" where "BN_ENERGY \<equiv> 7"
abbreviation (input) BN_INTEREST :: "int" where "BN_INTEREST \<equiv> 8"
abbreviation (input) BN_COMMERCE :: "int" where "BN_COMMERCE \<equiv> 9"
abbreviation (input) BN_POPULATION :: "int" where "BN_POPULATION \<equiv> 10"
abbreviation (input) BN_HURRY :: "int" where "BN_HURRY \<equiv> 11"
abbreviation (input) BN_UNIT :: "int" where "BN_UNIT \<equiv> 12"
abbreviation (input) BN_TECHCOST :: "int" where "BN_TECHCOST \<equiv> 13"
abbreviation (input) BN_SHARETECH :: "int" where "BN_SHARETECH \<equiv> 14"
abbreviation (input) BN_TERRAFORM :: "int" where "BN_TERRAFORM \<equiv> 15"
abbreviation (input) BN_SOCIAL :: "int" where "BN_SOCIAL \<equiv> 16"
abbreviation (input) BN_ROBUST :: "int" where "BN_ROBUST \<equiv> 17"
abbreviation (input) BN_IMMUNITY :: "int" where "BN_IMMUNITY \<equiv> 18"
abbreviation (input) BN_IMPUNITY :: "int" where "BN_IMPUNITY \<equiv> 19"
abbreviation (input) BN_PENALTY :: "int" where "BN_PENALTY \<equiv> 20"
abbreviation (input) BN_FUNGNUTRIENT :: "int" where "BN_FUNGNUTRIENT \<equiv> 21"
abbreviation (input) BN_FUNGMINERALS :: "int" where "BN_FUNGMINERALS \<equiv> 22"
abbreviation (input) BN_FUNGENERGY :: "int" where "BN_FUNGENERGY \<equiv> 23"
abbreviation (input) BN_COMMFREQ :: "int" where "BN_COMMFREQ \<equiv> 24"
abbreviation (input) BN_MINDCONTROL :: "int" where "BN_MINDCONTROL \<equiv> 25"
abbreviation (input) BN_FANATIC :: "int" where "BN_FANATIC \<equiv> 26"
abbreviation (input) BN_VOTES :: "int" where "BN_VOTES \<equiv> 27"
abbreviation (input) BN_FREEPROTO :: "int" where "BN_FREEPROTO \<equiv> 28"
abbreviation (input) BN_AQUATIC :: "int" where "BN_AQUATIC \<equiv> 29"
abbreviation (input) BN_ALIEN :: "int" where "BN_ALIEN \<equiv> 30"
abbreviation (input) BN_FREEFAC :: "int" where "BN_FREEFAC \<equiv> 31"
abbreviation (input) BN_REVOLT :: "int" where "BN_REVOLT \<equiv> 32"
abbreviation (input) BN_NODRONE :: "int" where "BN_NODRONE \<equiv> 33"
abbreviation (input) BN_WORMPOLICE :: "int" where "BN_WORMPOLICE \<equiv> 34"
abbreviation (input) BN_FREEABIL :: "int" where "BN_FREEABIL \<equiv> 35"
abbreviation (input) BN_PROBECOST :: "int" where "BN_PROBECOST \<equiv> 36"
abbreviation (input) BN_DEFENSE :: "int" where "BN_DEFENSE \<equiv> 37"
abbreviation (input) BN_OFFENSE :: "int" where "BN_OFFENSE \<equiv> 38"
abbreviation (input) BN_TECHSHARE :: "int" where "BN_TECHSHARE \<equiv> 39"
abbreviation (input) BN_TECHSTEAL :: "int" where "BN_TECHSTEAL \<equiv> 40"

subsection \<open>FactionRuleType (engine_enums.h)\<close>

abbreviation (input) RULE_TECH :: "int" where "RULE_TECH \<equiv> 0"
abbreviation (input) RULE_UNIT :: "int" where "RULE_UNIT \<equiv> 1"
abbreviation (input) RULE_FACILITY :: "int" where "RULE_FACILITY \<equiv> 2"
abbreviation (input) RULE_SOCIAL :: "int" where "RULE_SOCIAL \<equiv> 3"
abbreviation (input) RULE_IMMUNITY :: "int" where "RULE_IMMUNITY \<equiv> 4"
abbreviation (input) RULE_IMPUNITY :: "int" where "RULE_IMPUNITY \<equiv> 5"
abbreviation (input) RULE_PENALTY :: "int" where "RULE_PENALTY \<equiv> 6"
abbreviation (input) RULE_FUNGNUTRIENT :: "int" where "RULE_FUNGNUTRIENT \<equiv> 7"
abbreviation (input) RULE_FUNGMINERALS :: "int" where "RULE_FUNGMINERALS \<equiv> 8"
abbreviation (input) RULE_FUNGENERGY :: "int" where "RULE_FUNGENERGY \<equiv> 9"
abbreviation (input) RULE_ROBUST :: "int" where "RULE_ROBUST \<equiv> 10"
abbreviation (input) RULE_VOTES :: "int" where "RULE_VOTES \<equiv> 11"
abbreviation (input) RULE_FREEFAC :: "int" where "RULE_FREEFAC \<equiv> 12"
abbreviation (input) RULE_REVOLT :: "int" where "RULE_REVOLT \<equiv> 13"
abbreviation (input) RULE_NODRONE :: "int" where "RULE_NODRONE \<equiv> 14"
abbreviation (input) RULE_FREEABIL :: "int" where "RULE_FREEABIL \<equiv> 15"
abbreviation (input) RULE_PROBECOST :: "int" where "RULE_PROBECOST \<equiv> 16"
abbreviation (input) RULE_DEFENSE :: "int" where "RULE_DEFENSE \<equiv> 17"
abbreviation (input) RULE_OFFENSE :: "int" where "RULE_OFFENSE \<equiv> 18"

subsection \<open>FactionRuleFlags (engine_enums.h)\<close>

abbreviation (input) RFLAG_TECHSTEAL :: "u32" where "RFLAG_TECHSTEAL \<equiv> 0x10"
abbreviation (input) RFLAG_TECHSHARE :: "u32" where "RFLAG_TECHSHARE \<equiv> 0x20"
abbreviation (input) RFLAG_WORMPOLICE :: "u32" where "RFLAG_WORMPOLICE \<equiv> 0x40"
abbreviation (input) RFLAG_ALIEN :: "u32" where "RFLAG_ALIEN \<equiv> 0x80"
abbreviation (input) RFLAG_AQUATIC :: "u32" where "RFLAG_AQUATIC \<equiv> 0x100"
abbreviation (input) RFLAG_FREEPROTO :: "u32" where "RFLAG_FREEPROTO \<equiv> 0x200"
abbreviation (input) RFLAG_FANATIC :: "u32" where "RFLAG_FANATIC \<equiv> 0x400"
abbreviation (input) RFLAG_MINDCONTROL :: "u32" where "RFLAG_MINDCONTROL \<equiv> 0x800"
abbreviation (input) RFLAG_COMMFREQ :: "u32" where "RFLAG_COMMFREQ \<equiv> 0x1000"
abbreviation (input) RFLAG_TERRAFORM :: "u32" where "RFLAG_TERRAFORM \<equiv> 0x2000"
abbreviation (input) RFLAG_INTEREST :: "u32" where "RFLAG_INTEREST \<equiv> 0x4000"
abbreviation (input) RFLAG_MORALE :: "u32" where "RFLAG_MORALE \<equiv> 0x8000"

subsection \<open>DiploStatus (engine_enums.h)\<close>

abbreviation (input) DIPLO_PACT :: "u32" where "DIPLO_PACT \<equiv> 0x1"
abbreviation (input) DIPLO_TREATY :: "u32" where "DIPLO_TREATY \<equiv> 0x2"
abbreviation (input) DIPLO_TRUCE :: "u32" where "DIPLO_TRUCE \<equiv> 0x4"
abbreviation (input) DIPLO_COMMLINK :: "u32" where "DIPLO_COMMLINK \<equiv> 0x8"
abbreviation (input) DIPLO_VENDETTA :: "u32" where "DIPLO_VENDETTA \<equiv> 0x10"
abbreviation (input) DIPLO_WANT_REVENGE :: "u32" where "DIPLO_WANT_REVENGE \<equiv> 0x20"
abbreviation (input) DIPLO_UNK_40 :: "u32" where "DIPLO_UNK_40 \<equiv> 0x40"
abbreviation (input) DIPLO_UNK_80 :: "u32" where "DIPLO_UNK_80 \<equiv> 0x80"
abbreviation (input) DIPLO_UNK_100 :: "u32" where "DIPLO_UNK_100 \<equiv> 0x100"
abbreviation (input) DIPLO_UNK_200 :: "u32" where "DIPLO_UNK_200 \<equiv> 0x200"
abbreviation (input) DIPLO_SHALL_BETRAY :: "u32" where "DIPLO_SHALL_BETRAY \<equiv> 0x400"
abbreviation (input) DIPLO_UNK_800 :: "u32" where "DIPLO_UNK_800 \<equiv> 0x800"
abbreviation (input) DIPLO_HAVE_INFILTRATOR :: "u32" where "DIPLO_HAVE_INFILTRATOR \<equiv> 0x1000"
abbreviation (input) DIPLO_WANT_TO_TALK :: "u32" where "DIPLO_WANT_TO_TALK \<equiv> 0x2000"
abbreviation (input) DIPLO_UNK_4000 :: "u32" where "DIPLO_UNK_4000 \<equiv> 0x4000"
abbreviation (input) DIPLO_UNK_8000 :: "u32" where "DIPLO_UNK_8000 \<equiv> 0x8000"
abbreviation (input) DIPLO_UNK_10000 :: "u32" where "DIPLO_UNK_10000 \<equiv> 0x10000"
abbreviation (input) DIPLO_UNK_20000 :: "u32" where "DIPLO_UNK_20000 \<equiv> 0x20000"
abbreviation (input) DIPLO_ATROCITY_VICTIM :: "u32" where "DIPLO_ATROCITY_VICTIM \<equiv> 0x40000"
abbreviation (input) DIPLO_MAJOR_ATROCITY_VICTIM :: "u32" where "DIPLO_MAJOR_ATROCITY_VICTIM \<equiv> 0x80000"
abbreviation (input) DIPLO_UNK_100000 :: "u32" where "DIPLO_UNK_100000 \<equiv> 0x100000"
abbreviation (input) DIPLO_UNK_200000 :: "u32" where "DIPLO_UNK_200000 \<equiv> 0x200000"
abbreviation (input) DIPLO_UNK_400000 :: "u32" where "DIPLO_UNK_400000 \<equiv> 0x400000"
abbreviation (input) DIPLO_UNK_800000 :: "u32" where "DIPLO_UNK_800000 \<equiv> 0x800000"
abbreviation (input) DIPLO_UNK_1000000 :: "u32" where "DIPLO_UNK_1000000 \<equiv> 0x1000000"
abbreviation (input) DIPLO_HAVE_SURRENDERED :: "u32" where "DIPLO_HAVE_SURRENDERED \<equiv> 0x2000000"
abbreviation (input) DIPLO_UNK_4000000 :: "u32" where "DIPLO_UNK_4000000 \<equiv> 0x4000000"
abbreviation (input) DIPLO_UNK_8000000 :: "u32" where "DIPLO_UNK_8000000 \<equiv> 0x8000000"
abbreviation (input) DIPLO_UNK_10000000 :: "u32" where "DIPLO_UNK_10000000 \<equiv> 0x10000000"
abbreviation (input) DIPLO_UNK_20000000 :: "u32" where "DIPLO_UNK_20000000 \<equiv> 0x20000000"
abbreviation (input) DIPLO_UNK_40000000 :: "u32" where "DIPLO_UNK_40000000 \<equiv> 0x40000000"
abbreviation (input) DIPLO_UNK_80000000 :: "u32" where "DIPLO_UNK_80000000 \<equiv> 0x80000000"

subsection \<open>DiploAgenda (engine_enums.h)\<close>

abbreviation (input) AGENDA_UNK_1 :: "u32" where "AGENDA_UNK_1 \<equiv> 0x1"
abbreviation (input) AGENDA_UNK_2 :: "u32" where "AGENDA_UNK_2 \<equiv> 0x2"
abbreviation (input) AGENDA_UNK_4 :: "u32" where "AGENDA_UNK_4 \<equiv> 0x4"
abbreviation (input) AGENDA_FIGHT_TO_DEATH :: "u32" where "AGENDA_FIGHT_TO_DEATH \<equiv> 0x8"
abbreviation (input) AGENDA_UNK_10 :: "u32" where "AGENDA_UNK_10 \<equiv> 0x10"
abbreviation (input) AGENDA_UNK_20 :: "u32" where "AGENDA_UNK_20 \<equiv> 0x20"
abbreviation (input) AGENDA_UNK_40 :: "u32" where "AGENDA_UNK_40 \<equiv> 0x40"
abbreviation (input) AGENDA_UNK_80 :: "u32" where "AGENDA_UNK_80 \<equiv> 0x80"
abbreviation (input) AGENDA_UNK_100 :: "u32" where "AGENDA_UNK_100 \<equiv> 0x100"
abbreviation (input) AGENDA_UNK_200 :: "u32" where "AGENDA_UNK_200 \<equiv> 0x200"
abbreviation (input) AGENDA_UNK_400 :: "u32" where "AGENDA_UNK_400 \<equiv> 0x400"
abbreviation (input) AGENDA_UNK_800 :: "u32" where "AGENDA_UNK_800 \<equiv> 0x800"
abbreviation (input) AGENDA_UNK_1000 :: "u32" where "AGENDA_UNK_1000 \<equiv> 0x1000"
abbreviation (input) AGENDA_PERMANENT :: "u32" where "AGENDA_PERMANENT \<equiv> 0x2000"
abbreviation (input) AGENDA_UNK_4000 :: "u32" where "AGENDA_UNK_4000 \<equiv> 0x4000"
abbreviation (input) AGENDA_UNK_8000 :: "u32" where "AGENDA_UNK_8000 \<equiv> 0x8000"

subsection \<open>PlayerFlags (engine_enums.h)\<close>

abbreviation (input) PFLAG_MULTI_TECH_ACHIEVED :: "u32" where "PFLAG_MULTI_TECH_ACHIEVED \<equiv> 0x2"
abbreviation (input) PFLAG_UNK_4 :: "u32" where "PFLAG_UNK_4 \<equiv> 0x4"
abbreviation (input) PFLAG_UNK_10 :: "u32" where "PFLAG_UNK_10 \<equiv> 0x10"
abbreviation (input) PFLAG_SELF_AWARE_COLONY_LOST_MAINT :: "u32" where "PFLAG_SELF_AWARE_COLONY_LOST_MAINT \<equiv> 0x20"
abbreviation (input) PFLAG_FIRST_SECRETS :: "u32" where "PFLAG_FIRST_SECRETS \<equiv> 0x40"
abbreviation (input) PFLAG_UNK_100 :: "u32" where "PFLAG_UNK_100 \<equiv> 0x100"
abbreviation (input) PFLAG_MAP_REVEALED :: "u32" where "PFLAG_MAP_REVEALED \<equiv> 0x200"
abbreviation (input) PFLAG_GENETIC_PLAGUE_INTRO :: "u32" where "PFLAG_GENETIC_PLAGUE_INTRO \<equiv> 0x400"
abbreviation (input) PFLAG_UNK_1000 :: "u32" where "PFLAG_UNK_1000 \<equiv> 0x1000"
abbreviation (input) PFLAG_UNK_2000 :: "u32" where "PFLAG_UNK_2000 \<equiv> 0x2000"
abbreviation (input) PFLAG_UNK_4000 :: "u32" where "PFLAG_UNK_4000 \<equiv> 0x4000"
abbreviation (input) PFLAG_BEEN_ELECTED_GOVERNOR :: "u32" where "PFLAG_BEEN_ELECTED_GOVERNOR \<equiv> 0x8000"
abbreviation (input) PFLAG_UNK_10000 :: "u32" where "PFLAG_UNK_10000 \<equiv> 0x10000"
abbreviation (input) PFLAG_UNK_20000 :: "u32" where "PFLAG_UNK_20000 \<equiv> 0x20000"
abbreviation (input) PFLAG_UNK_40000 :: "u32" where "PFLAG_UNK_40000 \<equiv> 0x40000"
abbreviation (input) PFLAG_UNK_80000 :: "u32" where "PFLAG_UNK_80000 \<equiv> 0x80000"
abbreviation (input) PFLAG_UNK_100000 :: "u32" where "PFLAG_UNK_100000 \<equiv> 0x100000"
abbreviation (input) PFLAG_STRAT_ATK_ENEMY_HQ :: "u32" where "PFLAG_STRAT_ATK_ENEMY_HQ \<equiv> 0x200000"
abbreviation (input) PFLAG_COOP_WITH_HUMAN :: "u32" where "PFLAG_COOP_WITH_HUMAN \<equiv> 0x400000"
abbreviation (input) PFLAG_TEAM_UP_VS_HUMAN :: "u32" where "PFLAG_TEAM_UP_VS_HUMAN \<equiv> 0x800000"
abbreviation (input) PFLAG_COMMIT_ATROCITIES_WANTONLY :: "u32" where "PFLAG_COMMIT_ATROCITIES_WANTONLY \<equiv> 0x1000000"
abbreviation (input) PFLAG_OBLITERATE_CAPTURED_BASES :: "u32" where "PFLAG_OBLITERATE_CAPTURED_BASES \<equiv> 0x2000000"
abbreviation (input) PFLAG_EMPHASIZE_LAND_POWER :: "u32" where "PFLAG_EMPHASIZE_LAND_POWER \<equiv> 0x4000000"
abbreviation (input) PFLAG_EMPHASIZE_SEA_POWER :: "u32" where "PFLAG_EMPHASIZE_SEA_POWER \<equiv> 0x8000000"
abbreviation (input) PFLAG_EMPHASIZE_AIR_POWER :: "u32" where "PFLAG_EMPHASIZE_AIR_POWER \<equiv> 0x10000000"
abbreviation (input) PFLAG_STRAT_SEARCH_OBJECTIVES :: "u32" where "PFLAG_STRAT_SEARCH_OBJECTIVES \<equiv> 0x20000000"
abbreviation (input) PFLAG_STRAT_DEF_OBJECTIVES :: "u32" where "PFLAG_STRAT_DEF_OBJECTIVES \<equiv> 0x40000000"
abbreviation (input) PFLAG_STRAT_ATK_OBJECTIVES :: "u32" where "PFLAG_STRAT_ATK_OBJECTIVES \<equiv> 0x80000000"

subsection \<open>PlayerFlagsExtended (engine_enums.h)\<close>

abbreviation (input) PFLAG_EXT_STRAT_LOTS_COLONY_PODS :: "u32" where "PFLAG_EXT_STRAT_LOTS_COLONY_PODS \<equiv> 0x1"
abbreviation (input) PFLAG_EXT_STRAT_LOTS_TERRAFORMERS :: "u32" where "PFLAG_EXT_STRAT_LOTS_TERRAFORMERS \<equiv> 0x2"
abbreviation (input) PFLAG_EXT_STRAT_LOTS_SEA_BASES :: "u32" where "PFLAG_EXT_STRAT_LOTS_SEA_BASES \<equiv> 0x4"
abbreviation (input) PFLAG_EXT_STRAT_LOTS_PROBE_TEAMS :: "u32" where "PFLAG_EXT_STRAT_LOTS_PROBE_TEAMS \<equiv> 0x8"
abbreviation (input) PFLAG_EXT_STRAT_LOTS_MISSILES :: "u32" where "PFLAG_EXT_STRAT_LOTS_MISSILES \<equiv> 0x10"
abbreviation (input) PFLAG_EXT_SHAMELESS_BETRAY_HUMANS :: "u32" where "PFLAG_EXT_SHAMELESS_BETRAY_HUMANS \<equiv> 0x20"
abbreviation (input) PFLAG_EXT_STRAT_LOTS_ARTILLERY :: "u32" where "PFLAG_EXT_STRAT_LOTS_ARTILLERY \<equiv> 0x40"

subsection \<open>MapItem (engine_enums.h)\<close>

abbreviation (input) BIT_BASE_IN_TILE :: "u32" where "BIT_BASE_IN_TILE \<equiv> 0x1"
abbreviation (input) BIT_VEH_IN_TILE :: "u32" where "BIT_VEH_IN_TILE \<equiv> 0x2"
abbreviation (input) BIT_ROAD :: "u32" where "BIT_ROAD \<equiv> 0x4"
abbreviation (input) BIT_MAGTUBE :: "u32" where "BIT_MAGTUBE \<equiv> 0x8"
abbreviation (input) BIT_MINE :: "u32" where "BIT_MINE \<equiv> 0x10"
abbreviation (input) BIT_FUNGUS :: "u32" where "BIT_FUNGUS \<equiv> 0x20"
abbreviation (input) BIT_SOLAR :: "u32" where "BIT_SOLAR \<equiv> 0x40"
abbreviation (input) BIT_RIVER :: "u32" where "BIT_RIVER \<equiv> 0x80"
abbreviation (input) BIT_RIVER_SRC :: "u32" where "BIT_RIVER_SRC \<equiv> 0x100"
abbreviation (input) BIT_RIVER_LAKE :: "u32" where "BIT_RIVER_LAKE \<equiv> 0x200"
abbreviation (input) BIT_BONUS_RES :: "u32" where "BIT_BONUS_RES \<equiv> 0x400"
abbreviation (input) BIT_BUNKER :: "u32" where "BIT_BUNKER \<equiv> 0x800"
abbreviation (input) BIT_BASE_RADIUS :: "u32" where "BIT_BASE_RADIUS \<equiv> 0x1000"
abbreviation (input) BIT_MONOLITH :: "u32" where "BIT_MONOLITH \<equiv> 0x2000"
abbreviation (input) BIT_CANAL_COAST :: "u32" where "BIT_CANAL_COAST \<equiv> 0x4000"
abbreviation (input) BIT_FARM :: "u32" where "BIT_FARM \<equiv> 0x8000"
abbreviation (input) BIT_ENERGY_RES :: "u32" where "BIT_ENERGY_RES \<equiv> 0x10000"
abbreviation (input) BIT_MINERAL_RES :: "u32" where "BIT_MINERAL_RES \<equiv> 0x20000"
abbreviation (input) BIT_AIRBASE :: "u32" where "BIT_AIRBASE \<equiv> 0x40000"
abbreviation (input) BIT_SOIL_ENRICHER :: "u32" where "BIT_SOIL_ENRICHER \<equiv> 0x80000"
abbreviation (input) BIT_SUPPLY_REMOVE :: "u32" where "BIT_SUPPLY_REMOVE \<equiv> 0x100000"
abbreviation (input) BIT_FOREST :: "u32" where "BIT_FOREST \<equiv> 0x200000"
abbreviation (input) BIT_CONDENSER :: "u32" where "BIT_CONDENSER \<equiv> 0x400000"
abbreviation (input) BIT_ECH_MIRROR :: "u32" where "BIT_ECH_MIRROR \<equiv> 0x800000"
abbreviation (input) BIT_THERMAL_BORE :: "u32" where "BIT_THERMAL_BORE \<equiv> 0x1000000"
abbreviation (input) BIT_UNK_2000000 :: "u32" where "BIT_UNK_2000000 \<equiv> 0x2000000"
abbreviation (input) BIT_UNK_4000000 :: "u32" where "BIT_UNK_4000000 \<equiv> 0x4000000"
abbreviation (input) BIT_UNK_8000000 :: "u32" where "BIT_UNK_8000000 \<equiv> 0x8000000"
abbreviation (input) BIT_SUPPLY_POD :: "u32" where "BIT_SUPPLY_POD \<equiv> 0x10000000"
abbreviation (input) BIT_NUTRIENT_RES :: "u32" where "BIT_NUTRIENT_RES \<equiv> 0x20000000"
abbreviation (input) BIT_DOUBLE_SEA :: "u32" where "BIT_DOUBLE_SEA \<equiv> 0x40000000"
abbreviation (input) BIT_SENSOR :: "u32" where "BIT_SENSOR \<equiv> 0x80000000"

subsection \<open>MapLandmark (engine_enums.h)\<close>

abbreviation (input) LM_CRATER :: "u32" where "LM_CRATER \<equiv> 0x1"
abbreviation (input) LM_VOLCANO :: "u32" where "LM_VOLCANO \<equiv> 0x2"
abbreviation (input) LM_JUNGLE :: "u32" where "LM_JUNGLE \<equiv> 0x4"
abbreviation (input) LM_URANIUM :: "u32" where "LM_URANIUM \<equiv> 0x8"
abbreviation (input) LM_SARGASSO :: "u32" where "LM_SARGASSO \<equiv> 0x10"
abbreviation (input) LM_RUINS :: "u32" where "LM_RUINS \<equiv> 0x20"
abbreviation (input) LM_DUNES :: "u32" where "LM_DUNES \<equiv> 0x40"
abbreviation (input) LM_FRESH :: "u32" where "LM_FRESH \<equiv> 0x80"
abbreviation (input) LM_MESA :: "u32" where "LM_MESA \<equiv> 0x100"
abbreviation (input) LM_CANYON :: "u32" where "LM_CANYON \<equiv> 0x200"
abbreviation (input) LM_GEOTHERMAL :: "u32" where "LM_GEOTHERMAL \<equiv> 0x400"
abbreviation (input) LM_RIDGE :: "u32" where "LM_RIDGE \<equiv> 0x800"
abbreviation (input) LM_BOREHOLE :: "u32" where "LM_BOREHOLE \<equiv> 0x1000"
abbreviation (input) LM_NEXUS :: "u32" where "LM_NEXUS \<equiv> 0x2000"
abbreviation (input) LM_UNITY :: "u32" where "LM_UNITY \<equiv> 0x4000"
abbreviation (input) LM_FOSSIL :: "u32" where "LM_FOSSIL \<equiv> 0x8000"
abbreviation (input) LM_UNK_400000 :: "u32" where "LM_UNK_400000 \<equiv> 0x400000"
abbreviation (input) LM_UNK_800000 :: "u32" where "LM_UNK_800000 \<equiv> 0x800000"
abbreviation (input) LM_DISABLE :: "u32" where "LM_DISABLE \<equiv> 0x80000000"

subsection \<open>TerrainAltitude (engine_enums.h)\<close>

abbreviation (input) ALT_OCEAN_TRENCH :: "int" where "ALT_OCEAN_TRENCH \<equiv> 0"
abbreviation (input) ALT_OCEAN :: "int" where "ALT_OCEAN \<equiv> 1"
abbreviation (input) ALT_OCEAN_SHELF :: "int" where "ALT_OCEAN_SHELF \<equiv> 2"
abbreviation (input) ALT_SHORE_LINE :: "int" where "ALT_SHORE_LINE \<equiv> 3"
abbreviation (input) ALT_ONE_ABOVE_SEA :: "int" where "ALT_ONE_ABOVE_SEA \<equiv> 4"
abbreviation (input) ALT_TWO_ABOVE_SEA :: "int" where "ALT_TWO_ABOVE_SEA \<equiv> 5"
abbreviation (input) ALT_THREE_ABOVE_SEA :: "int" where "ALT_THREE_ABOVE_SEA \<equiv> 6"
abbreviation (input) ALT_FOUR_ABOVE_SEA :: "int" where "ALT_FOUR_ABOVE_SEA \<equiv> 7"

subsection \<open>TerrainFlags (engine_enums.h)\<close>

abbreviation (input) TILE_MOIST :: "u8" where "TILE_MOIST \<equiv> 0x8"
abbreviation (input) TILE_RAINY :: "u8" where "TILE_RAINY \<equiv> 0x10"
abbreviation (input) TILE_ROLLING :: "u8" where "TILE_ROLLING \<equiv> 0x40"
abbreviation (input) TILE_ROCKY :: "u8" where "TILE_ROCKY \<equiv> 0x80"

subsection \<open>TerrainType (engine_enums.h)\<close>

abbreviation (input) LEVEL_FLAT :: "int" where "LEVEL_FLAT \<equiv> 0"
abbreviation (input) LEVEL_ROLLING :: "int" where "LEVEL_ROLLING \<equiv> 1"
abbreviation (input) LEVEL_ROCKY :: "int" where "LEVEL_ROCKY \<equiv> 2"

subsection \<open>BaseResType (engine_enums.h)\<close>

abbreviation (input) RSC_NUTRIENT :: "int" where "RSC_NUTRIENT \<equiv> 0"
abbreviation (input) RSC_MINERAL :: "int" where "RSC_MINERAL \<equiv> 1"
abbreviation (input) RSC_ENERGY :: "int" where "RSC_ENERGY \<equiv> 2"
abbreviation (input) RSC_UNUSED :: "int" where "RSC_UNUSED \<equiv> 3"

subsection \<open>ResType (engine_enums.h)\<close>

abbreviation (input) RES_NONE :: "int" where "RES_NONE \<equiv> 0"
abbreviation (input) RES_NUTRIENT :: "int" where "RES_NUTRIENT \<equiv> 1"
abbreviation (input) RES_MINERAL :: "int" where "RES_MINERAL \<equiv> 2"
abbreviation (input) RES_ENERGY :: "int" where "RES_ENERGY \<equiv> 3"

subsection \<open>AIGoal (engine_enums.h)\<close>

abbreviation (input) AI_GOAL_UNUSED :: "int" where "AI_GOAL_UNUSED \<equiv> - 1"
abbreviation (input) AI_GOAL_ATTACK :: "int" where "AI_GOAL_ATTACK \<equiv> 0"
abbreviation (input) AI_GOAL_DEFEND :: "int" where "AI_GOAL_DEFEND \<equiv> 2"
abbreviation (input) AI_GOAL_SCOUT :: "int" where "AI_GOAL_SCOUT \<equiv> 3"
abbreviation (input) AI_GOAL_UNK_1 :: "int" where "AI_GOAL_UNK_1 \<equiv> 6"
abbreviation (input) AI_GOAL_UNK_2 :: "int" where "AI_GOAL_UNK_2 \<equiv> 7"
abbreviation (input) AI_GOAL_COLONIZE :: "int" where "AI_GOAL_COLONIZE \<equiv> 8"
abbreviation (input) AI_GOAL_TERRAFORM_LAND :: "int" where "AI_GOAL_TERRAFORM_LAND \<equiv> 9"
abbreviation (input) AI_GOAL_UNK_3 :: "int" where "AI_GOAL_UNK_3 \<equiv> 11"
abbreviation (input) AI_GOAL_ECHELON_MIRROR :: "int" where "AI_GOAL_ECHELON_MIRROR \<equiv> 13"
abbreviation (input) AI_GOAL_PREV_DEFEND :: "int" where "AI_GOAL_PREV_DEFEND \<equiv> 16"
abbreviation (input) AI_GOAL_TERRAFORM_WATER :: "int" where "AI_GOAL_TERRAFORM_WATER \<equiv> 25"
abbreviation (input) AI_GOAL_UNK_4 :: "int" where "AI_GOAL_UNK_4 \<equiv> 41"
abbreviation (input) AI_GOAL_CONDENSER :: "int" where "AI_GOAL_CONDENSER \<equiv> 73"
abbreviation (input) AI_GOAL_THERMAL_BOREHOLE :: "int" where "AI_GOAL_THERMAL_BOREHOLE \<equiv> 105"
abbreviation (input) AI_GOAL_SENSOR_ARRAY :: "int" where "AI_GOAL_SENSOR_ARRAY \<equiv> 121"
abbreviation (input) AI_GOAL_RAISE_LAND :: "int" where "AI_GOAL_RAISE_LAND \<equiv> 200"
abbreviation (input) AI_GOAL_NAVAL_START :: "int" where "AI_GOAL_NAVAL_START \<equiv> 201"
abbreviation (input) AI_GOAL_NAVAL_END :: "int" where "AI_GOAL_NAVAL_END \<equiv> 202"
abbreviation (input) AI_GOAL_NAVAL_BEACH :: "int" where "AI_GOAL_NAVAL_BEACH \<equiv> 203"
abbreviation (input) AI_GOAL_NAVAL_SCOUT :: "int" where "AI_GOAL_NAVAL_SCOUT \<equiv> 204"
abbreviation (input) AI_GOAL_NAVAL_PICK :: "int" where "AI_GOAL_NAVAL_PICK \<equiv> 205"
abbreviation (input) Thinker_Goal_ID_First :: "int" where "Thinker_Goal_ID_First \<equiv> 200"

subsection \<open>SocialEffect (engine_enums.h)\<close>

abbreviation (input) SE_ECONOMY :: "int" where "SE_ECONOMY \<equiv> 0"
abbreviation (input) SE_EFFIC :: "int" where "SE_EFFIC \<equiv> 1"
abbreviation (input) SE_SUPPORT :: "int" where "SE_SUPPORT \<equiv> 2"
abbreviation (input) SE_TALENT :: "int" where "SE_TALENT \<equiv> 3"
abbreviation (input) SE_MORALE :: "int" where "SE_MORALE \<equiv> 4"
abbreviation (input) SE_POLICE :: "int" where "SE_POLICE \<equiv> 5"
abbreviation (input) SE_GROWTH :: "int" where "SE_GROWTH \<equiv> 6"
abbreviation (input) SE_PLANET :: "int" where "SE_PLANET \<equiv> 7"
abbreviation (input) SE_PROBE :: "int" where "SE_PROBE \<equiv> 8"
abbreviation (input) SE_INDUSTRY :: "int" where "SE_INDUSTRY \<equiv> 9"
abbreviation (input) SE_RESEARCH :: "int" where "SE_RESEARCH \<equiv> 10"

subsection \<open>SocialCategory (engine_enums.h)\<close>

abbreviation (input) SOCIAL_C_POLITICS :: "int" where "SOCIAL_C_POLITICS \<equiv> 0"
abbreviation (input) SOCIAL_C_ECONOMICS :: "int" where "SOCIAL_C_ECONOMICS \<equiv> 1"
abbreviation (input) SOCIAL_C_VALUES :: "int" where "SOCIAL_C_VALUES \<equiv> 2"
abbreviation (input) SOCIAL_C_FUTURE :: "int" where "SOCIAL_C_FUTURE \<equiv> 3"

subsection \<open>SocialModel (engine_enums.h)\<close>

abbreviation (input) SOCIAL_M_FRONTIER :: "int" where "SOCIAL_M_FRONTIER \<equiv> 0"
abbreviation (input) SOCIAL_M_POLICE_STATE :: "int" where "SOCIAL_M_POLICE_STATE \<equiv> 1"
abbreviation (input) SOCIAL_M_DEMOCRATIC :: "int" where "SOCIAL_M_DEMOCRATIC \<equiv> 2"
abbreviation (input) SOCIAL_M_FUNDAMENTALIST :: "int" where "SOCIAL_M_FUNDAMENTALIST \<equiv> 3"
abbreviation (input) SOCIAL_M_SIMPLE :: "int" where "SOCIAL_M_SIMPLE \<equiv> 0"
abbreviation (input) SOCIAL_M_FREE_MARKET :: "int" where "SOCIAL_M_FREE_MARKET \<equiv> 1"
abbreviation (input) SOCIAL_M_PLANNED :: "int" where "SOCIAL_M_PLANNED \<equiv> 2"
abbreviation (input) SOCIAL_M_GREEN :: "int" where "SOCIAL_M_GREEN \<equiv> 3"
abbreviation (input) SOCIAL_M_SURVIVAL :: "int" where "SOCIAL_M_SURVIVAL \<equiv> 0"
abbreviation (input) SOCIAL_M_POWER :: "int" where "SOCIAL_M_POWER \<equiv> 1"
abbreviation (input) SOCIAL_M_KNOWLEDGE :: "int" where "SOCIAL_M_KNOWLEDGE \<equiv> 2"
abbreviation (input) SOCIAL_M_WEALTH :: "int" where "SOCIAL_M_WEALTH \<equiv> 3"
abbreviation (input) SOCIAL_M_NONE :: "int" where "SOCIAL_M_NONE \<equiv> 0"
abbreviation (input) SOCIAL_M_CYBERNETIC :: "int" where "SOCIAL_M_CYBERNETIC \<equiv> 1"
abbreviation (input) SOCIAL_M_EUDAIMONIC :: "int" where "SOCIAL_M_EUDAIMONIC \<equiv> 2"
abbreviation (input) SOCIAL_M_THOUGHT_CONTROL :: "int" where "SOCIAL_M_THOUGHT_CONTROL \<equiv> 3"

subsection \<open>CouncilProposal (engine_enums.h)\<close>

abbreviation (input) PROP_ELECT_PLANETARY_GOVERNOR :: "int" where "PROP_ELECT_PLANETARY_GOVERNOR \<equiv> 0"
abbreviation (input) PROP_UNITE_SUPREME_LEADER :: "int" where "PROP_UNITE_SUPREME_LEADER \<equiv> 1"
abbreviation (input) PROP_SALVAGE_UNITY_CORE :: "int" where "PROP_SALVAGE_UNITY_CORE \<equiv> 2"
abbreviation (input) PROP_GLOBAL_TRADE_PACT :: "int" where "PROP_GLOBAL_TRADE_PACT \<equiv> 3"
abbreviation (input) PROP_REPEAL_GLOBAL_TRADE_PACT :: "int" where "PROP_REPEAL_GLOBAL_TRADE_PACT \<equiv> 4"
abbreviation (input) PROP_LAUNCH_SOLAR_SHADE :: "int" where "PROP_LAUNCH_SOLAR_SHADE \<equiv> 5"
abbreviation (input) PROP_INCREASE_SOLAR_SHADE :: "int" where "PROP_INCREASE_SOLAR_SHADE \<equiv> 6"
abbreviation (input) PROP_MELT_POLAR_CAPS :: "int" where "PROP_MELT_POLAR_CAPS \<equiv> 7"
abbreviation (input) PROP_REPEAL_UN_CHARTER :: "int" where "PROP_REPEAL_UN_CHARTER \<equiv> 8"
abbreviation (input) PROP_REINSTATE_UN_CHARTER :: "int" where "PROP_REINSTATE_UN_CHARTER \<equiv> 9"

subsection \<open>VictoryType (engine_enums.h)\<close>

abbreviation (input) VIC_NONE :: "int" where "VIC_NONE \<equiv> 0"
abbreviation (input) VIC_TRANSCEND_PLR :: "int" where "VIC_TRANSCEND_PLR \<equiv> 1"
abbreviation (input) VIC_TRANSCEND_UNK :: "int" where "VIC_TRANSCEND_UNK \<equiv> 2"
abbreviation (input) VIC_TRANSCEND_LOSS :: "int" where "VIC_TRANSCEND_LOSS \<equiv> 3"
abbreviation (input) VIC_UNIFY_SOLO :: "int" where "VIC_UNIFY_SOLO \<equiv> 4"
abbreviation (input) VIC_UNIFY_COOP :: "int" where "VIC_UNIFY_COOP \<equiv> 5"
abbreviation (input) VIC_DIPLOMATIC_SOLO :: "int" where "VIC_DIPLOMATIC_SOLO \<equiv> 6"
abbreviation (input) VIC_LOST_CAPTURE :: "int" where "VIC_LOST_CAPTURE \<equiv> 7"
abbreviation (input) VIC_TIME_LIMIT :: "int" where "VIC_TIME_LIMIT \<equiv> 8"
abbreviation (input) VIC_SUDDEN_DEATH :: "int" where "VIC_SUDDEN_DEATH \<equiv> 9"
abbreviation (input) VIC_DIPLOMATIC_COOP :: "int" where "VIC_DIPLOMATIC_COOP \<equiv> 10"
abbreviation (input) VIC_DIPLOMATIC_LOSS :: "int" where "VIC_DIPLOMATIC_LOSS \<equiv> 11"
abbreviation (input) VIC_ECONOMIC_SOLO :: "int" where "VIC_ECONOMIC_SOLO \<equiv> 12"
abbreviation (input) VIC_ECONOMIC_COOP :: "int" where "VIC_ECONOMIC_COOP \<equiv> 13"
abbreviation (input) VIC_ECONOMIC_LOSS :: "int" where "VIC_ECONOMIC_LOSS \<equiv> 14"
abbreviation (input) VIC_LOST_REMOVE :: "int" where "VIC_LOST_REMOVE \<equiv> 15"
abbreviation (input) VIC_ALIEN_SOLO :: "int" where "VIC_ALIEN_SOLO \<equiv> 16"
abbreviation (input) VIC_ALIEN_COOP :: "int" where "VIC_ALIEN_COOP \<equiv> 17"
abbreviation (input) VIC_ALIEN_LOSS :: "int" where "VIC_ALIEN_LOSS \<equiv> 18"

subsection \<open>BaseState (engine_base.h)\<close>

abbreviation (input) BSTATE_UNK_1 :: "u32" where "BSTATE_UNK_1 \<equiv> 0x1"
abbreviation (input) BSTATE_DRONE_RIOTS_ACTIVE :: "u32" where "BSTATE_DRONE_RIOTS_ACTIVE \<equiv> 0x2"
abbreviation (input) BSTATE_GOLDEN_AGE_ACTIVE :: "u32" where "BSTATE_GOLDEN_AGE_ACTIVE \<equiv> 0x4"
abbreviation (input) BSTATE_COMBAT_LOSS_LAST_TURN :: "u32" where "BSTATE_COMBAT_LOSS_LAST_TURN \<equiv> 0x8"
abbreviation (input) BSTATE_UNK_10 :: "u32" where "BSTATE_UNK_10 \<equiv> 0x10"
abbreviation (input) BSTATE_UNK_20 :: "u32" where "BSTATE_UNK_20 \<equiv> 0x20"
abbreviation (input) BSTATE_RESEARCH_DATA_STOLEN :: "u32" where "BSTATE_RESEARCH_DATA_STOLEN \<equiv> 0x40"
abbreviation (input) BSTATE_SKIP_RENAME :: "u32" where "BSTATE_SKIP_RENAME \<equiv> 0x80"
abbreviation (input) BSTATE_UNK_100 :: "u32" where "BSTATE_UNK_100 \<equiv> 0x100"
abbreviation (input) BSTATE_FACILITY_SCRAPPED :: "u32" where "BSTATE_FACILITY_SCRAPPED \<equiv> 0x200"
abbreviation (input) BSTATE_ARTIFACT_LINKED :: "u32" where "BSTATE_ARTIFACT_LINKED \<equiv> 0x400"
abbreviation (input) BSTATE_ARTIFACT_ALREADY_LINKED :: "u32" where "BSTATE_ARTIFACT_ALREADY_LINKED \<equiv> 0x800"
abbreviation (input) BSTATE_UNK_1000 :: "u32" where "BSTATE_UNK_1000 \<equiv> 0x1000"
abbreviation (input) BSTATE_UNK_2000 :: "u32" where "BSTATE_UNK_2000 \<equiv> 0x2000"
abbreviation (input) BSTATE_UNK_4000 :: "u32" where "BSTATE_UNK_4000 \<equiv> 0x4000"
abbreviation (input) BSTATE_UNK_8000 :: "u32" where "BSTATE_UNK_8000 \<equiv> 0x8000"
abbreviation (input) BSTATE_RENAME_BASE :: "u32" where "BSTATE_RENAME_BASE \<equiv> 0x10000"
abbreviation (input) BSTATE_GENETIC_PLAGUE_INTRO :: "u32" where "BSTATE_GENETIC_PLAGUE_INTRO \<equiv> 0x20000"
abbreviation (input) BSTATE_ASSISTANT_KILLER_HOME :: "u32" where "BSTATE_ASSISTANT_KILLER_HOME \<equiv> 0x40000"
abbreviation (input) BSTATE_UNK_80000 :: "u32" where "BSTATE_UNK_80000 \<equiv> 0x80000"
abbreviation (input) BSTATE_UNK_100000 :: "u32" where "BSTATE_UNK_100000 \<equiv> 0x100000"
abbreviation (input) BSTATE_UNK_200000 :: "u32" where "BSTATE_UNK_200000 \<equiv> 0x200000"
abbreviation (input) BSTATE_ENERGY_RESERVES_DRAINED :: "u32" where "BSTATE_ENERGY_RESERVES_DRAINED \<equiv> 0x400000"
abbreviation (input) BSTATE_PRODUCTION_DONE :: "u32" where "BSTATE_PRODUCTION_DONE \<equiv> 0x800000"
abbreviation (input) BSTATE_UNK_1000000 :: "u32" where "BSTATE_UNK_1000000 \<equiv> 0x1000000"
abbreviation (input) BSTATE_UNK_2000000 :: "u32" where "BSTATE_UNK_2000000 \<equiv> 0x2000000"
abbreviation (input) BSTATE_UNK_4000000 :: "u32" where "BSTATE_UNK_4000000 \<equiv> 0x4000000"
abbreviation (input) BSTATE_UNK_8000000 :: "u32" where "BSTATE_UNK_8000000 \<equiv> 0x8000000"
abbreviation (input) BSTATE_NET_LOCKED :: "u32" where "BSTATE_NET_LOCKED \<equiv> 0x10000000"
abbreviation (input) BSTATE_PSI_GATE_USED :: "u32" where "BSTATE_PSI_GATE_USED \<equiv> 0x20000000"
abbreviation (input) BSTATE_HURRY_PRODUCTION :: "u32" where "BSTATE_HURRY_PRODUCTION \<equiv> 0x40000000"
abbreviation (input) BSTATE_UNK_80000000 :: "u32" where "BSTATE_UNK_80000000 \<equiv> 0x80000000"

subsection \<open>BaseEvent (engine_base.h)\<close>

abbreviation (input) BEVENT_UNK_100 :: "u32" where "BEVENT_UNK_100 \<equiv> 0x100"
abbreviation (input) BEVENT_BUMPER :: "u32" where "BEVENT_BUMPER \<equiv> 0x200"
abbreviation (input) BEVENT_FAMINE :: "u32" where "BEVENT_FAMINE \<equiv> 0x400"
abbreviation (input) BEVENT_INDUSTRY :: "u32" where "BEVENT_INDUSTRY \<equiv> 0x800"
abbreviation (input) BEVENT_BUST :: "u32" where "BEVENT_BUST \<equiv> 0x1000"
abbreviation (input) BEVENT_HEAT_WAVE :: "u32" where "BEVENT_HEAT_WAVE \<equiv> 0x2000"
abbreviation (input) BEVENT_CLOUD_COVER :: "u32" where "BEVENT_CLOUD_COVER \<equiv> 0x4000"
abbreviation (input) BEVENT_OBJECTIVE :: "u32" where "BEVENT_OBJECTIVE \<equiv> 0x8000"

subsection \<open>RetoolRuleType (engine_base.h)\<close>

abbreviation (input) RETOOL_ALWAYS_FREE :: "int" where "RETOOL_ALWAYS_FREE \<equiv> 0"
abbreviation (input) RETOOL_FREE_CATEGORY :: "int" where "RETOOL_FREE_CATEGORY \<equiv> 1"
abbreviation (input) RETOOL_FREE_PROJECT :: "int" where "RETOOL_FREE_PROJECT \<equiv> 2"
abbreviation (input) RETOOL_NEVER_FREE :: "int" where "RETOOL_NEVER_FREE \<equiv> 3"

subsection \<open>BaseGovernor (engine_base.h)\<close>

abbreviation (input) GOV_MANAGE_PRODUCTION :: "u32" where "GOV_MANAGE_PRODUCTION \<equiv> 0x1"
abbreviation (input) GOV_MAY_FORCE_PSYCH :: "u32" where "GOV_MAY_FORCE_PSYCH \<equiv> 0x2"
abbreviation (input) GOV_UNK_4 :: "u32" where "GOV_UNK_4 \<equiv> 0x4"
abbreviation (input) GOV_UNK_8 :: "u32" where "GOV_UNK_8 \<equiv> 0x8"
abbreviation (input) GOV_UNK_10 :: "u32" where "GOV_UNK_10 \<equiv> 0x10"
abbreviation (input) GOV_MAY_HURRY_PRODUCTION :: "u32" where "GOV_MAY_HURRY_PRODUCTION \<equiv> 0x20"
abbreviation (input) GOV_MANAGE_CITIZENS :: "u32" where "GOV_MANAGE_CITIZENS \<equiv> 0x40"
abbreviation (input) GOV_NEW_VEH_FULLY_AUTO :: "u32" where "GOV_NEW_VEH_FULLY_AUTO \<equiv> 0x80"
abbreviation (input) GOV_MAY_PROD_NATIVE :: "u32" where "GOV_MAY_PROD_NATIVE \<equiv> 0x100"
abbreviation (input) GOV_MAY_PROD_LAND_COMBAT :: "u32" where "GOV_MAY_PROD_LAND_COMBAT \<equiv> 0x200"
abbreviation (input) GOV_MAY_PROD_NAVAL_COMBAT :: "u32" where "GOV_MAY_PROD_NAVAL_COMBAT \<equiv> 0x400"
abbreviation (input) GOV_MAY_PROD_AIR_COMBAT :: "u32" where "GOV_MAY_PROD_AIR_COMBAT \<equiv> 0x800"
abbreviation (input) GOV_MAY_PROD_LAND_DEFENSE :: "u32" where "GOV_MAY_PROD_LAND_DEFENSE \<equiv> 0x1000"
abbreviation (input) GOV_MAY_PROD_AIR_DEFENSE :: "u32" where "GOV_MAY_PROD_AIR_DEFENSE \<equiv> 0x2000"
abbreviation (input) GOV_UNK_4000 :: "u32" where "GOV_UNK_4000 \<equiv> 0x4000"
abbreviation (input) GOV_MAY_PROD_TERRAFORMERS :: "u32" where "GOV_MAY_PROD_TERRAFORMERS \<equiv> 0x8000"
abbreviation (input) GOV_MAY_PROD_FACILITIES :: "u32" where "GOV_MAY_PROD_FACILITIES \<equiv> 0x10000"
abbreviation (input) GOV_MAY_PROD_COLONY_POD :: "u32" where "GOV_MAY_PROD_COLONY_POD \<equiv> 0x20000"
abbreviation (input) GOV_MAY_PROD_SP :: "u32" where "GOV_MAY_PROD_SP \<equiv> 0x40000"
abbreviation (input) GOV_MAY_PROD_PROTOTYPE :: "u32" where "GOV_MAY_PROD_PROTOTYPE \<equiv> 0x80000"
abbreviation (input) GOV_MAY_PROD_PROBES :: "u32" where "GOV_MAY_PROD_PROBES \<equiv> 0x100000"
abbreviation (input) GOV_MULTI_PRIORITIES :: "u32" where "GOV_MULTI_PRIORITIES \<equiv> 0x200000"
abbreviation (input) GOV_MAY_PROD_EXPLORE_VEH :: "u32" where "GOV_MAY_PROD_EXPLORE_VEH \<equiv> 0x400000"
abbreviation (input) GOV_MAY_PROD_TRANSPORT :: "u32" where "GOV_MAY_PROD_TRANSPORT \<equiv> 0x800000"
abbreviation (input) GOV_PRIORITY_EXPLORE :: "u32" where "GOV_PRIORITY_EXPLORE \<equiv> 0x1000000"
abbreviation (input) GOV_PRIORITY_DISCOVER :: "u32" where "GOV_PRIORITY_DISCOVER \<equiv> 0x2000000"
abbreviation (input) GOV_PRIORITY_BUILD :: "u32" where "GOV_PRIORITY_BUILD \<equiv> 0x4000000"
abbreviation (input) GOV_PRIORITY_CONQUER :: "u32" where "GOV_PRIORITY_CONQUER \<equiv> 0x8000000"
abbreviation (input) GOV_UNK_10000000 :: "u32" where "GOV_UNK_10000000 \<equiv> 0x10000000"
abbreviation (input) GOV_UNK_20000000 :: "u32" where "GOV_UNK_20000000 \<equiv> 0x20000000"
abbreviation (input) GOV_UNK_40000000 :: "u32" where "GOV_UNK_40000000 \<equiv> 0x40000000"
abbreviation (input) GOV_ACTIVE :: "u32" where "GOV_ACTIVE \<equiv> 0x80000000"

subsection \<open>BaseRadius (engine_base.h)\<close>

abbreviation (input) BR_NOT_AVAILABLE :: "u32" where "BR_NOT_AVAILABLE \<equiv> 0x1"
abbreviation (input) BR_NOT_VISIBLE :: "u32" where "BR_NOT_VISIBLE \<equiv> 0x2"
abbreviation (input) BR_BASE_IN_TILE :: "u32" where "BR_BASE_IN_TILE \<equiv> 0x4"
abbreviation (input) BR_VEH_IN_TILE :: "u32" where "BR_VEH_IN_TILE \<equiv> 0x8"
abbreviation (input) BR_WORKER_ACTIVE :: "u32" where "BR_WORKER_ACTIVE \<equiv> 0x10"
abbreviation (input) BR_FOREIGN_TILE :: "u32" where "BR_FOREIGN_TILE \<equiv> 0x20"

subsection \<open>Triad (engine_veh.h)\<close>

abbreviation (input) TRIAD_LAND :: "int" where "TRIAD_LAND \<equiv> 0"
abbreviation (input) TRIAD_SEA :: "int" where "TRIAD_SEA \<equiv> 1"
abbreviation (input) TRIAD_AIR :: "int" where "TRIAD_AIR \<equiv> 2"

subsection \<open>VehMorale (engine_veh.h)\<close>

abbreviation (input) MORALE_VERY_GREEN :: "int" where "MORALE_VERY_GREEN \<equiv> 0"
abbreviation (input) MORALE_GREEN :: "int" where "MORALE_GREEN \<equiv> 1"
abbreviation (input) MORALE_DISCIPLINED :: "int" where "MORALE_DISCIPLINED \<equiv> 2"
abbreviation (input) MORALE_HARDENED :: "int" where "MORALE_HARDENED \<equiv> 3"
abbreviation (input) MORALE_VETERAN :: "int" where "MORALE_VETERAN \<equiv> 4"
abbreviation (input) MORALE_COMMANDO :: "int" where "MORALE_COMMANDO \<equiv> 5"
abbreviation (input) MORALE_ELITE :: "int" where "MORALE_ELITE \<equiv> 6"

subsection \<open>VehBasicUnit (engine_veh.h)\<close>

abbreviation (input) BSC_COLONY_POD :: "int" where "BSC_COLONY_POD \<equiv> 0"
abbreviation (input) BSC_FORMERS :: "int" where "BSC_FORMERS \<equiv> 1"
abbreviation (input) BSC_SCOUT_PATROL :: "int" where "BSC_SCOUT_PATROL \<equiv> 2"
abbreviation (input) BSC_TRANSPORT_FOIL :: "int" where "BSC_TRANSPORT_FOIL \<equiv> 3"
abbreviation (input) BSC_SEA_FORMERS :: "int" where "BSC_SEA_FORMERS \<equiv> 4"
abbreviation (input) BSC_SUPPLY_CRAWLER :: "int" where "BSC_SUPPLY_CRAWLER \<equiv> 5"
abbreviation (input) BSC_PROBE_TEAM :: "int" where "BSC_PROBE_TEAM \<equiv> 6"
abbreviation (input) BSC_ALIEN_ARTIFACT :: "int" where "BSC_ALIEN_ARTIFACT \<equiv> 7"
abbreviation (input) BSC_MIND_WORMS :: "int" where "BSC_MIND_WORMS \<equiv> 8"
abbreviation (input) BSC_ISLE_OF_THE_DEEP :: "int" where "BSC_ISLE_OF_THE_DEEP \<equiv> 9"
abbreviation (input) BSC_LOCUSTS_OF_CHIRON :: "int" where "BSC_LOCUSTS_OF_CHIRON \<equiv> 10"
abbreviation (input) BSC_UNITY_ROVER :: "int" where "BSC_UNITY_ROVER \<equiv> 11"
abbreviation (input) BSC_UNITY_SCOUT_CHOPPER :: "int" where "BSC_UNITY_SCOUT_CHOPPER \<equiv> 12"
abbreviation (input) BSC_UNITY_FOIL :: "int" where "BSC_UNITY_FOIL \<equiv> 13"
abbreviation (input) BSC_SEALURK :: "int" where "BSC_SEALURK \<equiv> 14"
abbreviation (input) BSC_SPORE_LAUNCHER :: "int" where "BSC_SPORE_LAUNCHER \<equiv> 15"
abbreviation (input) BSC_BATTLE_OGRE_MK1 :: "int" where "BSC_BATTLE_OGRE_MK1 \<equiv> 16"
abbreviation (input) BSC_BATTLE_OGRE_MK2 :: "int" where "BSC_BATTLE_OGRE_MK2 \<equiv> 17"
abbreviation (input) BSC_BATTLE_OGRE_MK3 :: "int" where "BSC_BATTLE_OGRE_MK3 \<equiv> 18"
abbreviation (input) BSC_FUNGAL_TOWER :: "int" where "BSC_FUNGAL_TOWER \<equiv> 19"
abbreviation (input) BSC_UNITY_MINING_LASER :: "int" where "BSC_UNITY_MINING_LASER \<equiv> 20"
abbreviation (input) BSC_SEA_ESCAPE_POD :: "int" where "BSC_SEA_ESCAPE_POD \<equiv> 21"
abbreviation (input) BSC_UNITY_GUNSHIP :: "int" where "BSC_UNITY_GUNSHIP \<equiv> 22"

subsection \<open>VehChassis (engine_veh.h)\<close>

abbreviation (input) CHS_INFANTRY :: "int" where "CHS_INFANTRY \<equiv> 0"
abbreviation (input) CHS_SPEEDER :: "int" where "CHS_SPEEDER \<equiv> 1"
abbreviation (input) CHS_HOVERTANK :: "int" where "CHS_HOVERTANK \<equiv> 2"
abbreviation (input) CHS_FOIL :: "int" where "CHS_FOIL \<equiv> 3"
abbreviation (input) CHS_CRUISER :: "int" where "CHS_CRUISER \<equiv> 4"
abbreviation (input) CHS_NEEDLEJET :: "int" where "CHS_NEEDLEJET \<equiv> 5"
abbreviation (input) CHS_COPTER :: "int" where "CHS_COPTER \<equiv> 6"
abbreviation (input) CHS_GRAVSHIP :: "int" where "CHS_GRAVSHIP \<equiv> 7"
abbreviation (input) CHS_MISSILE :: "int" where "CHS_MISSILE \<equiv> 8"

subsection \<open>VehReactor (engine_veh.h)\<close>

abbreviation (input) REC_FISSION :: "int" where "REC_FISSION \<equiv> 1"
abbreviation (input) REC_FUSION :: "int" where "REC_FUSION \<equiv> 2"
abbreviation (input) REC_QUANTUM :: "int" where "REC_QUANTUM \<equiv> 3"
abbreviation (input) REC_SINGULARITY :: "int" where "REC_SINGULARITY \<equiv> 4"

subsection \<open>VehArmor (engine_veh.h)\<close>

abbreviation (input) ARM_NO_ARMOR :: "int" where "ARM_NO_ARMOR \<equiv> 0"
abbreviation (input) ARM_SYNTHMETAL_ARMOR :: "int" where "ARM_SYNTHMETAL_ARMOR \<equiv> 1"
abbreviation (input) ARM_PLASMA_STEEL_ARMOR :: "int" where "ARM_PLASMA_STEEL_ARMOR \<equiv> 2"
abbreviation (input) ARM_SILKSTEEL_ARMOR :: "int" where "ARM_SILKSTEEL_ARMOR \<equiv> 3"
abbreviation (input) ARM_PHOTON_WALL :: "int" where "ARM_PHOTON_WALL \<equiv> 4"
abbreviation (input) ARM_PROBABILITY_SHEATH :: "int" where "ARM_PROBABILITY_SHEATH \<equiv> 5"
abbreviation (input) ARM_NEUTRONIUM_ARMOR :: "int" where "ARM_NEUTRONIUM_ARMOR \<equiv> 6"
abbreviation (input) ARM_ANTIMATTER_PLATE :: "int" where "ARM_ANTIMATTER_PLATE \<equiv> 7"
abbreviation (input) ARM_STASIS_GENERATOR :: "int" where "ARM_STASIS_GENERATOR \<equiv> 8"
abbreviation (input) ARM_PSI_DEFENSE :: "int" where "ARM_PSI_DEFENSE \<equiv> 9"
abbreviation (input) ARM_PULSE_3_ARMOR :: "int" where "ARM_PULSE_3_ARMOR \<equiv> 10"
abbreviation (input) ARM_RESONANCE_3_ARMOR :: "int" where "ARM_RESONANCE_3_ARMOR \<equiv> 11"
abbreviation (input) ARM_PULSE_8_ARMOR :: "int" where "ARM_PULSE_8_ARMOR \<equiv> 12"
abbreviation (input) ARM_RESONANCE_8_ARMOR :: "int" where "ARM_RESONANCE_8_ARMOR \<equiv> 13"

subsection \<open>VehWeapon (engine_veh.h)\<close>

abbreviation (input) WPN_HAND_WEAPONS :: "int" where "WPN_HAND_WEAPONS \<equiv> 0"
abbreviation (input) WPN_LASER :: "int" where "WPN_LASER \<equiv> 1"
abbreviation (input) WPN_PARTICLE_IMPACTOR :: "int" where "WPN_PARTICLE_IMPACTOR \<equiv> 2"
abbreviation (input) WPN_GATLING_LASER :: "int" where "WPN_GATLING_LASER \<equiv> 3"
abbreviation (input) WPN_MISSILE_LAUNCHER :: "int" where "WPN_MISSILE_LAUNCHER \<equiv> 4"
abbreviation (input) WPN_CHAOS_GUN :: "int" where "WPN_CHAOS_GUN \<equiv> 5"
abbreviation (input) WPN_FUSION_LASER :: "int" where "WPN_FUSION_LASER \<equiv> 6"
abbreviation (input) WPN_TACHYON_BOLT :: "int" where "WPN_TACHYON_BOLT \<equiv> 7"
abbreviation (input) WPN_PLASMA_SHARD :: "int" where "WPN_PLASMA_SHARD \<equiv> 8"
abbreviation (input) WPN_QUANTUM_LASER :: "int" where "WPN_QUANTUM_LASER \<equiv> 9"
abbreviation (input) WPN_GRAVITON_GUN :: "int" where "WPN_GRAVITON_GUN \<equiv> 10"
abbreviation (input) WPN_SINGULARITY_LASER :: "int" where "WPN_SINGULARITY_LASER \<equiv> 11"
abbreviation (input) WPN_RESONANCE_LASER :: "int" where "WPN_RESONANCE_LASER \<equiv> 12"
abbreviation (input) WPN_RESONANCE_BOLT :: "int" where "WPN_RESONANCE_BOLT \<equiv> 13"
abbreviation (input) WPN_STRING_DISRUPTOR :: "int" where "WPN_STRING_DISRUPTOR \<equiv> 14"
abbreviation (input) WPN_PSI_ATTACK :: "int" where "WPN_PSI_ATTACK \<equiv> 15"
abbreviation (input) WPN_PLANET_BUSTER :: "int" where "WPN_PLANET_BUSTER \<equiv> 16"
abbreviation (input) WPN_COLONY_MODULE :: "int" where "WPN_COLONY_MODULE \<equiv> 17"
abbreviation (input) WPN_TERRAFORMING_UNIT :: "int" where "WPN_TERRAFORMING_UNIT \<equiv> 18"
abbreviation (input) WPN_TROOP_TRANSPORT :: "int" where "WPN_TROOP_TRANSPORT \<equiv> 19"
abbreviation (input) WPN_SUPPLY_TRANSPORT :: "int" where "WPN_SUPPLY_TRANSPORT \<equiv> 20"
abbreviation (input) WPN_PROBE_TEAM :: "int" where "WPN_PROBE_TEAM \<equiv> 21"
abbreviation (input) WPN_ALIEN_ARTIFACT :: "int" where "WPN_ALIEN_ARTIFACT \<equiv> 22"
abbreviation (input) WPN_CONVENTIONAL_PAYLOAD :: "int" where "WPN_CONVENTIONAL_PAYLOAD \<equiv> 23"
abbreviation (input) WPN_TECTONIC_PAYLOAD :: "int" where "WPN_TECTONIC_PAYLOAD \<equiv> 24"
abbreviation (input) WPN_FUNGAL_PAYLOAD :: "int" where "WPN_FUNGAL_PAYLOAD \<equiv> 25"

subsection \<open>VehWeaponMode (engine_veh.h)\<close>

abbreviation (input) WMODE_COMBAT :: "int" where "WMODE_COMBAT \<equiv> 0"
abbreviation (input) WMODE_PROJECTILE :: "int" where "WMODE_PROJECTILE \<equiv> 0"
abbreviation (input) WMODE_ENERGY :: "int" where "WMODE_ENERGY \<equiv> 1"
abbreviation (input) WMODE_MISSILE :: "int" where "WMODE_MISSILE \<equiv> 2"
abbreviation (input) WMODE_TRANSPORT :: "int" where "WMODE_TRANSPORT \<equiv> 7"
abbreviation (input) WMODE_COLONY :: "int" where "WMODE_COLONY \<equiv> 8"
abbreviation (input) WMODE_TERRAFORM :: "int" where "WMODE_TERRAFORM \<equiv> 9"
abbreviation (input) WMODE_SUPPLY :: "int" where "WMODE_SUPPLY \<equiv> 10"
abbreviation (input) WMODE_PROBE :: "int" where "WMODE_PROBE \<equiv> 11"
abbreviation (input) WMODE_ARTIFACT :: "int" where "WMODE_ARTIFACT \<equiv> 12"

subsection \<open>VehPlan (engine_veh.h)\<close>

abbreviation (input) PLAN_OFFENSE :: "int" where "PLAN_OFFENSE \<equiv> 0"
abbreviation (input) PLAN_COMBAT :: "int" where "PLAN_COMBAT \<equiv> 1"
abbreviation (input) PLAN_DEFENSE :: "int" where "PLAN_DEFENSE \<equiv> 2"
abbreviation (input) PLAN_RECON :: "int" where "PLAN_RECON \<equiv> 3"
abbreviation (input) PLAN_AIR_SUPERIORITY :: "int" where "PLAN_AIR_SUPERIORITY \<equiv> 4"
abbreviation (input) PLAN_PLANET_BUSTER :: "int" where "PLAN_PLANET_BUSTER \<equiv> 5"
abbreviation (input) PLAN_NAVAL_SUPERIORITY :: "int" where "PLAN_NAVAL_SUPERIORITY \<equiv> 6"
abbreviation (input) PLAN_NAVAL_TRANSPORT :: "int" where "PLAN_NAVAL_TRANSPORT \<equiv> 7"
abbreviation (input) PLAN_COLONY :: "int" where "PLAN_COLONY \<equiv> 8"
abbreviation (input) PLAN_TERRAFORM :: "int" where "PLAN_TERRAFORM \<equiv> 9"
abbreviation (input) PLAN_SUPPLY :: "int" where "PLAN_SUPPLY \<equiv> 10"
abbreviation (input) PLAN_PROBE :: "int" where "PLAN_PROBE \<equiv> 11"
abbreviation (input) PLAN_ARTIFACT :: "int" where "PLAN_ARTIFACT \<equiv> 12"
abbreviation (input) PLAN_TECTONIC_MISSILE :: "int" where "PLAN_TECTONIC_MISSILE \<equiv> 13"
abbreviation (input) PLAN_FUNGAL_MISSILE :: "int" where "PLAN_FUNGAL_MISSILE \<equiv> 14"
abbreviation (input) PLAN_AUTO_CALCULATE :: "int" where "PLAN_AUTO_CALCULATE \<equiv> - 1"
abbreviation (input) PLAN_PROTOTYPE_DONE :: "int" where "PLAN_PROTOTYPE_DONE \<equiv> - 2"

subsection \<open>VehAbl (engine_veh.h)\<close>

abbreviation (input) ABL_ID_SUPER_TERRAFORMER :: "int" where "ABL_ID_SUPER_TERRAFORMER \<equiv> 0"
abbreviation (input) ABL_ID_DEEP_RADAR :: "int" where "ABL_ID_DEEP_RADAR \<equiv> 1"
abbreviation (input) ABL_ID_CLOAKED :: "int" where "ABL_ID_CLOAKED \<equiv> 2"
abbreviation (input) ABL_ID_AMPHIBIOUS :: "int" where "ABL_ID_AMPHIBIOUS \<equiv> 3"
abbreviation (input) ABL_ID_DROP_POD :: "int" where "ABL_ID_DROP_POD \<equiv> 4"
abbreviation (input) ABL_ID_AIR_SUPERIORITY :: "int" where "ABL_ID_AIR_SUPERIORITY \<equiv> 5"
abbreviation (input) ABL_ID_DEEP_PRESSURE_HULL :: "int" where "ABL_ID_DEEP_PRESSURE_HULL \<equiv> 6"
abbreviation (input) ABL_ID_CARRIER :: "int" where "ABL_ID_CARRIER \<equiv> 7"
abbreviation (input) ABL_ID_AAA :: "int" where "ABL_ID_AAA \<equiv> 8"
abbreviation (input) ABL_ID_COMM_JAMMER :: "int" where "ABL_ID_COMM_JAMMER \<equiv> 9"
abbreviation (input) ABL_ID_ANTIGRAV_STRUTS :: "int" where "ABL_ID_ANTIGRAV_STRUTS \<equiv> 10"
abbreviation (input) ABL_ID_EMPATH :: "int" where "ABL_ID_EMPATH \<equiv> 11"
abbreviation (input) ABL_ID_POLY_ENCRYPTION :: "int" where "ABL_ID_POLY_ENCRYPTION \<equiv> 12"
abbreviation (input) ABL_ID_FUNGICIDAL :: "int" where "ABL_ID_FUNGICIDAL \<equiv> 13"
abbreviation (input) ABL_ID_TRAINED :: "int" where "ABL_ID_TRAINED \<equiv> 14"
abbreviation (input) ABL_ID_ARTILLERY :: "int" where "ABL_ID_ARTILLERY \<equiv> 15"
abbreviation (input) ABL_ID_CLEAN_REACTOR :: "int" where "ABL_ID_CLEAN_REACTOR \<equiv> 16"
abbreviation (input) ABL_ID_BLINK_DISPLACER :: "int" where "ABL_ID_BLINK_DISPLACER \<equiv> 17"
abbreviation (input) ABL_ID_TRANCE :: "int" where "ABL_ID_TRANCE \<equiv> 18"
abbreviation (input) ABL_ID_HEAVY_TRANSPORT :: "int" where "ABL_ID_HEAVY_TRANSPORT \<equiv> 19"
abbreviation (input) ABL_ID_NERVE_GAS :: "int" where "ABL_ID_NERVE_GAS \<equiv> 20"
abbreviation (input) ABL_ID_REPAIR :: "int" where "ABL_ID_REPAIR \<equiv> 21"
abbreviation (input) ABL_ID_POLICE_2X :: "int" where "ABL_ID_POLICE_2X \<equiv> 22"
abbreviation (input) ABL_ID_SLOW :: "int" where "ABL_ID_SLOW \<equiv> 23"
abbreviation (input) ABL_ID_SOPORIFIC_GAS :: "int" where "ABL_ID_SOPORIFIC_GAS \<equiv> 24"
abbreviation (input) ABL_ID_DISSOCIATIVE_WAVE :: "int" where "ABL_ID_DISSOCIATIVE_WAVE \<equiv> 25"
abbreviation (input) ABL_ID_MARINE_DETACHMENT :: "int" where "ABL_ID_MARINE_DETACHMENT \<equiv> 26"
abbreviation (input) ABL_ID_FUEL_NANOCELLS :: "int" where "ABL_ID_FUEL_NANOCELLS \<equiv> 27"
abbreviation (input) ABL_ID_ALGO_ENHANCEMENT :: "int" where "ABL_ID_ALGO_ENHANCEMENT \<equiv> 28"

subsection \<open>VehAblFlag (engine_veh.h)\<close>

abbreviation (input) ABL_NONE :: "u32" where "ABL_NONE \<equiv> 0"
abbreviation (input) ABL_SUPER_TERRAFORMER :: "u32" where "ABL_SUPER_TERRAFORMER \<equiv> 0x1"
abbreviation (input) ABL_DEEP_RADAR :: "u32" where "ABL_DEEP_RADAR \<equiv> 0x2"
abbreviation (input) ABL_CLOAKED :: "u32" where "ABL_CLOAKED \<equiv> 0x4"
abbreviation (input) ABL_AMPHIBIOUS :: "u32" where "ABL_AMPHIBIOUS \<equiv> 0x8"
abbreviation (input) ABL_DROP_POD :: "u32" where "ABL_DROP_POD \<equiv> 0x10"
abbreviation (input) ABL_AIR_SUPERIORITY :: "u32" where "ABL_AIR_SUPERIORITY \<equiv> 0x20"
abbreviation (input) ABL_DEEP_PRESSURE_HULL :: "u32" where "ABL_DEEP_PRESSURE_HULL \<equiv> 0x40"
abbreviation (input) ABL_CARRIER :: "u32" where "ABL_CARRIER \<equiv> 0x80"
abbreviation (input) ABL_AAA :: "u32" where "ABL_AAA \<equiv> 0x100"
abbreviation (input) ABL_COMM_JAMMER :: "u32" where "ABL_COMM_JAMMER \<equiv> 0x200"
abbreviation (input) ABL_ANTIGRAV_STRUTS :: "u32" where "ABL_ANTIGRAV_STRUTS \<equiv> 0x400"
abbreviation (input) ABL_EMPATH :: "u32" where "ABL_EMPATH \<equiv> 0x800"
abbreviation (input) ABL_POLY_ENCRYPTION :: "u32" where "ABL_POLY_ENCRYPTION \<equiv> 0x1000"
abbreviation (input) ABL_FUNGICIDAL :: "u32" where "ABL_FUNGICIDAL \<equiv> 0x2000"
abbreviation (input) ABL_TRAINED :: "u32" where "ABL_TRAINED \<equiv> 0x4000"
abbreviation (input) ABL_ARTILLERY :: "u32" where "ABL_ARTILLERY \<equiv> 0x8000"
abbreviation (input) ABL_CLEAN_REACTOR :: "u32" where "ABL_CLEAN_REACTOR \<equiv> 0x10000"
abbreviation (input) ABL_BLINK_DISPLACER :: "u32" where "ABL_BLINK_DISPLACER \<equiv> 0x20000"
abbreviation (input) ABL_TRANCE :: "u32" where "ABL_TRANCE \<equiv> 0x40000"
abbreviation (input) ABL_HEAVY_TRANSPORT :: "u32" where "ABL_HEAVY_TRANSPORT \<equiv> 0x80000"
abbreviation (input) ABL_NERVE_GAS :: "u32" where "ABL_NERVE_GAS \<equiv> 0x100000"
abbreviation (input) ABL_REPAIR :: "u32" where "ABL_REPAIR \<equiv> 0x200000"
abbreviation (input) ABL_POLICE_2X :: "u32" where "ABL_POLICE_2X \<equiv> 0x400000"
abbreviation (input) ABL_SLOW :: "u32" where "ABL_SLOW \<equiv> 0x800000"
abbreviation (input) ABL_SOPORIFIC_GAS :: "u32" where "ABL_SOPORIFIC_GAS \<equiv> 0x1000000"
abbreviation (input) ABL_DISSOCIATIVE_WAVE :: "u32" where "ABL_DISSOCIATIVE_WAVE \<equiv> 0x2000000"
abbreviation (input) ABL_MARINE_DETACHMENT :: "u32" where "ABL_MARINE_DETACHMENT \<equiv> 0x4000000"
abbreviation (input) ABL_FUEL_NANOCELLS :: "u32" where "ABL_FUEL_NANOCELLS \<equiv> 0x8000000"
abbreviation (input) ABL_ALGO_ENHANCEMENT :: "u32" where "ABL_ALGO_ENHANCEMENT \<equiv> 0x10000000"

subsection \<open>VehAblRules (engine_veh.h)\<close>

abbreviation (input) AFLAG_ALLOWED_LAND_UNIT :: "u32" where "AFLAG_ALLOWED_LAND_UNIT \<equiv> 0x1"
abbreviation (input) AFLAG_ALLOWED_SEA_UNIT :: "u32" where "AFLAG_ALLOWED_SEA_UNIT \<equiv> 0x2"
abbreviation (input) AFLAG_ALLOWED_AIR_UNIT :: "u32" where "AFLAG_ALLOWED_AIR_UNIT \<equiv> 0x4"
abbreviation (input) AFLAG_ALLOWED_COMBAT_UNIT :: "u32" where "AFLAG_ALLOWED_COMBAT_UNIT \<equiv> 0x8"
abbreviation (input) AFLAG_ALLOWED_TERRAFORM_UNIT :: "u32" where "AFLAG_ALLOWED_TERRAFORM_UNIT \<equiv> 0x10"
abbreviation (input) AFLAG_ALLOWED_NONCOMBAT_UNIT :: "u32" where "AFLAG_ALLOWED_NONCOMBAT_UNIT \<equiv> 0x20"
abbreviation (input) AFLAG_NOT_ALLOWED_PROBE_TEAM :: "u32" where "AFLAG_NOT_ALLOWED_PROBE_TEAM \<equiv> 0x40"
abbreviation (input) AFLAG_NOT_ALLOWED_PSI_UNIT :: "u32" where "AFLAG_NOT_ALLOWED_PSI_UNIT \<equiv> 0x80"
abbreviation (input) AFLAG_TRANSPORT_ONLY_UNIT :: "u32" where "AFLAG_TRANSPORT_ONLY_UNIT \<equiv> 0x100"
abbreviation (input) AFLAG_NOT_ALLOWED_FAST_UNIT :: "u32" where "AFLAG_NOT_ALLOWED_FAST_UNIT \<equiv> 0x200"
abbreviation (input) AFLAG_COST_INC_LAND_UNIT :: "u32" where "AFLAG_COST_INC_LAND_UNIT \<equiv> 0x400"
abbreviation (input) AFLAG_ONLY_PROBE_TEAM :: "u32" where "AFLAG_ONLY_PROBE_TEAM \<equiv> 0x800"

subsection \<open>FormerItem (engine_veh.h)\<close>

abbreviation (input) FORMER_NONE :: "int" where "FORMER_NONE \<equiv> - 1"
abbreviation (input) FORMER_FARM :: "int" where "FORMER_FARM \<equiv> 0"
abbreviation (input) FORMER_SOIL_ENR :: "int" where "FORMER_SOIL_ENR \<equiv> 1"
abbreviation (input) FORMER_MINE :: "int" where "FORMER_MINE \<equiv> 2"
abbreviation (input) FORMER_SOLAR :: "int" where "FORMER_SOLAR \<equiv> 3"
abbreviation (input) FORMER_FOREST :: "int" where "FORMER_FOREST \<equiv> 4"
abbreviation (input) FORMER_ROAD :: "int" where "FORMER_ROAD \<equiv> 5"
abbreviation (input) FORMER_MAGTUBE :: "int" where "FORMER_MAGTUBE \<equiv> 6"
abbreviation (input) FORMER_BUNKER :: "int" where "FORMER_BUNKER \<equiv> 7"
abbreviation (input) FORMER_AIRBASE :: "int" where "FORMER_AIRBASE \<equiv> 8"
abbreviation (input) FORMER_SENSOR :: "int" where "FORMER_SENSOR \<equiv> 9"
abbreviation (input) FORMER_REMOVE_FUNGUS :: "int" where "FORMER_REMOVE_FUNGUS \<equiv> 10"
abbreviation (input) FORMER_PLANT_FUNGUS :: "int" where "FORMER_PLANT_FUNGUS \<equiv> 11"
abbreviation (input) FORMER_CONDENSER :: "int" where "FORMER_CONDENSER \<equiv> 12"
abbreviation (input) FORMER_ECH_MIRROR :: "int" where "FORMER_ECH_MIRROR \<equiv> 13"
abbreviation (input) FORMER_THERMAL_BORE :: "int" where "FORMER_THERMAL_BORE \<equiv> 14"
abbreviation (input) FORMER_AQUIFER :: "int" where "FORMER_AQUIFER \<equiv> 15"
abbreviation (input) FORMER_RAISE_LAND :: "int" where "FORMER_RAISE_LAND \<equiv> 16"
abbreviation (input) FORMER_LOWER_LAND :: "int" where "FORMER_LOWER_LAND \<equiv> 17"
abbreviation (input) FORMER_LEVEL_TERRAIN :: "int" where "FORMER_LEVEL_TERRAIN \<equiv> 18"
abbreviation (input) FORMER_MONOLITH :: "int" where "FORMER_MONOLITH \<equiv> 19"

subsection \<open>VehOrder (engine_veh.h)\<close>

abbreviation (input) ORDER_NONE :: "int" where "ORDER_NONE \<equiv> 0"
abbreviation (input) ORDER_SENTRY_BOARD :: "int" where "ORDER_SENTRY_BOARD \<equiv> 1"
abbreviation (input) ORDER_HOLD :: "int" where "ORDER_HOLD \<equiv> 2"
abbreviation (input) ORDER_CONVOY :: "int" where "ORDER_CONVOY \<equiv> 3"
abbreviation (input) ORDER_FARM :: "int" where "ORDER_FARM \<equiv> 4"
abbreviation (input) ORDER_SOIL_ENRICHER :: "int" where "ORDER_SOIL_ENRICHER \<equiv> 5"
abbreviation (input) ORDER_MINE :: "int" where "ORDER_MINE \<equiv> 6"
abbreviation (input) ORDER_SOLAR_COLLECTOR :: "int" where "ORDER_SOLAR_COLLECTOR \<equiv> 7"
abbreviation (input) ORDER_PLANT_FOREST :: "int" where "ORDER_PLANT_FOREST \<equiv> 8"
abbreviation (input) ORDER_ROAD :: "int" where "ORDER_ROAD \<equiv> 9"
abbreviation (input) ORDER_MAGTUBE :: "int" where "ORDER_MAGTUBE \<equiv> 10"
abbreviation (input) ORDER_BUNKER :: "int" where "ORDER_BUNKER \<equiv> 11"
abbreviation (input) ORDER_AIRBASE :: "int" where "ORDER_AIRBASE \<equiv> 12"
abbreviation (input) ORDER_SENSOR_ARRAY :: "int" where "ORDER_SENSOR_ARRAY \<equiv> 13"
abbreviation (input) ORDER_REMOVE_FUNGUS :: "int" where "ORDER_REMOVE_FUNGUS \<equiv> 14"
abbreviation (input) ORDER_PLANT_FUNGUS :: "int" where "ORDER_PLANT_FUNGUS \<equiv> 15"
abbreviation (input) ORDER_CONDENSER :: "int" where "ORDER_CONDENSER \<equiv> 16"
abbreviation (input) ORDER_ECHELON_MIRROR :: "int" where "ORDER_ECHELON_MIRROR \<equiv> 17"
abbreviation (input) ORDER_THERMAL_BOREHOLE :: "int" where "ORDER_THERMAL_BOREHOLE \<equiv> 18"
abbreviation (input) ORDER_DRILL_AQUIFER :: "int" where "ORDER_DRILL_AQUIFER \<equiv> 19"
abbreviation (input) ORDER_TERRAFORM_UP :: "int" where "ORDER_TERRAFORM_UP \<equiv> 20"
abbreviation (input) ORDER_TERRAFORM_DOWN :: "int" where "ORDER_TERRAFORM_DOWN \<equiv> 21"
abbreviation (input) ORDER_TERRAFORM_LEVEL :: "int" where "ORDER_TERRAFORM_LEVEL \<equiv> 22"
abbreviation (input) ORDER_PLACE_MONOLITH :: "int" where "ORDER_PLACE_MONOLITH \<equiv> 23"
abbreviation (input) ORDER_MOVE_TO :: "int" where "ORDER_MOVE_TO \<equiv> 24"
abbreviation (input) ORDER_MOVE :: "int" where "ORDER_MOVE \<equiv> 25"
abbreviation (input) ORDER_EXPLORE :: "int" where "ORDER_EXPLORE \<equiv> 26"
abbreviation (input) ORDER_ROAD_TO :: "int" where "ORDER_ROAD_TO \<equiv> 27"
abbreviation (input) ORDER_MAGTUBE_TO :: "int" where "ORDER_MAGTUBE_TO \<equiv> 28"
abbreviation (input) ORDER_AI_GO_TO :: "int" where "ORDER_AI_GO_TO \<equiv> 88"
abbreviation (input) VehOrderResetFlag :: "int" where "VehOrderResetFlag \<equiv> 64"
abbreviation (input) VehOrderFormerFirst :: "int" where "VehOrderFormerFirst \<equiv> 4"
abbreviation (input) VehOrderFormerLast :: "int" where "VehOrderFormerLast \<equiv> 23"

subsection \<open>ProbeAction (engine_veh.h)\<close>

abbreviation (input) PRB_INFILTRATE_DATALINKS :: "int" where "PRB_INFILTRATE_DATALINKS \<equiv> 0"
abbreviation (input) PRB_PROCURE_RESEARCH_DATA :: "int" where "PRB_PROCURE_RESEARCH_DATA \<equiv> 1"
abbreviation (input) PRB_ACTIVATE_SABOTAGE_VIRUS :: "int" where "PRB_ACTIVATE_SABOTAGE_VIRUS \<equiv> 2"
abbreviation (input) PRB_DRAIN_ENERGY_RESERVES :: "int" where "PRB_DRAIN_ENERGY_RESERVES \<equiv> 3"
abbreviation (input) PRB_INCITE_DRONE_RIOTS :: "int" where "PRB_INCITE_DRONE_RIOTS \<equiv> 4"
abbreviation (input) PRB_ASSASSINATE_PROMINENT_RESEARCHERS :: "int" where "PRB_ASSASSINATE_PROMINENT_RESEARCHERS \<equiv> 5"
abbreviation (input) PRB_MIND_CONTROL_CITY :: "int" where "PRB_MIND_CONTROL_CITY \<equiv> 6"
abbreviation (input) PRB_INTRODUCE_GENETIC_PLAGUE :: "int" where "PRB_INTRODUCE_GENETIC_PLAGUE \<equiv> 7"
abbreviation (input) PRB_FREE_CAPTURED_FACTION_LEADER :: "int" where "PRB_FREE_CAPTURED_FACTION_LEADER \<equiv> 8"
abbreviation (input) PRB_MIND_CONTROL_UNIT :: "int" where "PRB_MIND_CONTROL_UNIT \<equiv> - 1"

subsection \<open>UnitFlags (engine_veh.h)\<close>

abbreviation (input) UNIT_ACTIVE :: "u16" where "UNIT_ACTIVE \<equiv> 0x1"
abbreviation (input) UNIT_CUSTOM_NAME_SET :: "u16" where "UNIT_CUSTOM_NAME_SET \<equiv> 0x2"
abbreviation (input) UNIT_PROTOTYPED :: "u16" where "UNIT_PROTOTYPED \<equiv> 0x4"
abbreviation (input) UNIT_UNK_10 :: "u16" where "UNIT_UNK_10 \<equiv> 0x10"
abbreviation (input) UNIT_UNK_80 :: "u16" where "UNIT_UNK_80 \<equiv> 0x80"
abbreviation (input) UNIT_UNK_100 :: "u16" where "UNIT_UNK_100 \<equiv> 0x100"

subsection \<open>VehFlags (engine_veh.h)\<close>

abbreviation (input) VFLAG_UNK_1 :: "u16" where "VFLAG_UNK_1 \<equiv> 0x1"
abbreviation (input) VFLAG_UNK_2 :: "u16" where "VFLAG_UNK_2 \<equiv> 0x2"
abbreviation (input) VFLAG_PROBE_PACT_OPERATIONS :: "u16" where "VFLAG_PROBE_PACT_OPERATIONS \<equiv> 0x4"
abbreviation (input) VFLAG_ADD_ONE_MORALE :: "u16" where "VFLAG_ADD_ONE_MORALE \<equiv> 0x8"
abbreviation (input) VFLAG_ADD_TWO_MORALE :: "u16" where "VFLAG_ADD_TWO_MORALE \<equiv> 0x10"
abbreviation (input) VFLAG_IS_OBJECTIVE :: "u16" where "VFLAG_IS_OBJECTIVE \<equiv> 0x20"
abbreviation (input) VFLAG_LURKER :: "u16" where "VFLAG_LURKER \<equiv> 0x40"
abbreviation (input) VFLAG_START_RAND_LOCATION :: "u16" where "VFLAG_START_RAND_LOCATION \<equiv> 0x80"
abbreviation (input) VFLAG_START_RAND_MONOLITH :: "u16" where "VFLAG_START_RAND_MONOLITH \<equiv> 0x100"
abbreviation (input) VFLAG_START_RAND_FUNGUS :: "u16" where "VFLAG_START_RAND_FUNGUS \<equiv> 0x200"
abbreviation (input) VFLAG_INVISIBLE :: "u16" where "VFLAG_INVISIBLE \<equiv> 0x400"
abbreviation (input) VFLAG_UNK_800 :: "u16" where "VFLAG_UNK_800 \<equiv> 0x800"
abbreviation (input) VFLAG_UNK_1000 :: "u16" where "VFLAG_UNK_1000 \<equiv> 0x1000"
abbreviation (input) VFLAG_UNK_2000 :: "u16" where "VFLAG_UNK_2000 \<equiv> 0x2000"
abbreviation (input) VFLAG_UNK_4000 :: "u16" where "VFLAG_UNK_4000 \<equiv> 0x4000"
abbreviation (input) VFLAG_FULL_MOVE_SKIPPED :: "u16" where "VFLAG_FULL_MOVE_SKIPPED \<equiv> 0x8000"

subsection \<open>VehState (engine_veh.h)\<close>

abbreviation (input) VSTATE_IN_TRANSPORT :: "u32" where "VSTATE_IN_TRANSPORT \<equiv> 0x1"
abbreviation (input) VSTATE_UNK_2 :: "u32" where "VSTATE_UNK_2 \<equiv> 0x2"
abbreviation (input) VSTATE_HAS_MOVED :: "u32" where "VSTATE_HAS_MOVED \<equiv> 0x4"
abbreviation (input) VSTATE_UNK_8 :: "u32" where "VSTATE_UNK_8 \<equiv> 0x8"
abbreviation (input) VSTATE_REQUIRES_SUPPORT :: "u32" where "VSTATE_REQUIRES_SUPPORT \<equiv> 0x10"
abbreviation (input) VSTATE_MADE_AIRDROP :: "u32" where "VSTATE_MADE_AIRDROP \<equiv> 0x20"
abbreviation (input) VSTATE_UNK_40 :: "u32" where "VSTATE_UNK_40 \<equiv> 0x40"
abbreviation (input) VSTATE_DESIGNATE_DEFENDER :: "u32" where "VSTATE_DESIGNATE_DEFENDER \<equiv> 0x80"
abbreviation (input) VSTATE_MONOLITH_UPGRADED :: "u32" where "VSTATE_MONOLITH_UPGRADED \<equiv> 0x100"
abbreviation (input) VSTATE_ON_ALERT :: "u32" where "VSTATE_ON_ALERT \<equiv> 0x200"
abbreviation (input) VSTATE_UNK_400 :: "u32" where "VSTATE_UNK_400 \<equiv> 0x400"
abbreviation (input) VSTATE_UNK_800 :: "u32" where "VSTATE_UNK_800 \<equiv> 0x800"
abbreviation (input) VSTATE_UNK_1000 :: "u32" where "VSTATE_UNK_1000 \<equiv> 0x1000"
abbreviation (input) VSTATE_UNK_2000 :: "u32" where "VSTATE_UNK_2000 \<equiv> 0x2000"
abbreviation (input) VSTATE_EXPLORE :: "u32" where "VSTATE_EXPLORE \<equiv> 0x4000"
abbreviation (input) VSTATE_UNK_8000 :: "u32" where "VSTATE_UNK_8000 \<equiv> 0x8000"
abbreviation (input) VSTATE_UNK_10000 :: "u32" where "VSTATE_UNK_10000 \<equiv> 0x10000"
abbreviation (input) VSTATE_UNK_20000 :: "u32" where "VSTATE_UNK_20000 \<equiv> 0x20000"
abbreviation (input) VSTATE_UNK_40000 :: "u32" where "VSTATE_UNK_40000 \<equiv> 0x40000"
abbreviation (input) VSTATE_USED_NERVE_GAS :: "u32" where "VSTATE_USED_NERVE_GAS \<equiv> 0x80000"
abbreviation (input) VSTATE_UNK_100000 :: "u32" where "VSTATE_UNK_100000 \<equiv> 0x100000"
abbreviation (input) VSTATE_PACIFISM_DRONE :: "u32" where "VSTATE_PACIFISM_DRONE \<equiv> 0x200000"
abbreviation (input) VSTATE_PACIFISM_FREE_SKIP :: "u32" where "VSTATE_PACIFISM_FREE_SKIP \<equiv> 0x400000"
abbreviation (input) VSTATE_ASSISTANT_WORM :: "u32" where "VSTATE_ASSISTANT_WORM \<equiv> 0x800000"
abbreviation (input) VSTATE_UNK_1000000 :: "u32" where "VSTATE_UNK_1000000 \<equiv> 0x1000000"
abbreviation (input) VSTATE_UNK_2000000 :: "u32" where "VSTATE_UNK_2000000 \<equiv> 0x2000000"
abbreviation (input) VSTATE_WORKING :: "u32" where "VSTATE_WORKING \<equiv> 0x4000000"
abbreviation (input) VSTATE_UNK_8000000 :: "u32" where "VSTATE_UNK_8000000 \<equiv> 0x8000000"
abbreviation (input) VSTATE_UNK_10000000 :: "u32" where "VSTATE_UNK_10000000 \<equiv> 0x10000000"
abbreviation (input) VSTATE_UNK_20000000 :: "u32" where "VSTATE_UNK_20000000 \<equiv> 0x20000000"
abbreviation (input) VSTATE_UNK_40000000 :: "u32" where "VSTATE_UNK_40000000 \<equiv> 0x40000000"
abbreviation (input) VSTATE_UNK_80000000 :: "u32" where "VSTATE_UNK_80000000 \<equiv> 0x80000000"

subsection \<open>TSType (path.h)\<close>

abbreviation (input) TS_TRIAD_LAND :: "int" where "TS_TRIAD_LAND \<equiv> 0"
abbreviation (input) TS_TRIAD_SEA :: "int" where "TS_TRIAD_SEA \<equiv> 1"
abbreviation (input) TS_TRIAD_AIR :: "int" where "TS_TRIAD_AIR \<equiv> 2"
abbreviation (input) TS_SEA_AND_SHORE :: "int" where "TS_SEA_AND_SHORE \<equiv> 3"
abbreviation (input) TS_TERRITORY_LAND :: "int" where "TS_TERRITORY_LAND \<equiv> 4"
abbreviation (input) TS_TERRITORY_SHORE :: "int" where "TS_TERRITORY_SHORE \<equiv> 5"
abbreviation (input) TS_TERRITORY_PACT :: "int" where "TS_TERRITORY_PACT \<equiv> 6"

subsection \<open>SaveLoadStatus (savegame.h)\<close>

abbreviation (input) SAVE_LOAD_VALID :: "int" where "SAVE_LOAD_VALID \<equiv> 0"
abbreviation (input) SAVE_LOAD_NONE :: "int" where "SAVE_LOAD_NONE \<equiv> 1"
abbreviation (input) SAVE_LOAD_NOT :: "int" where "SAVE_LOAD_NOT \<equiv> 2"
abbreviation (input) SAVE_LOAD_OLD :: "int" where "SAVE_LOAD_OLD \<equiv> 3"
abbreviation (input) SAVE_LOAD_ERROR :: "int" where "SAVE_LOAD_ERROR \<equiv> 4"
abbreviation (input) SAVE_LOAD_SECURITY :: "int" where "SAVE_LOAD_SECURITY \<equiv> 5"

subsection \<open>VehCombatType (veh_combat.h)\<close>

abbreviation (input) CT_CAN_ARTY :: "u32" where "CT_CAN_ARTY \<equiv> 0x1"
abbreviation (input) CT_WEAPON_ONLY :: "u32" where "CT_WEAPON_ONLY \<equiv> 0x2"
abbreviation (input) CT_AIR_DEFENSE :: "u32" where "CT_AIR_DEFENSE \<equiv> 0x8"
abbreviation (input) CT_INTERCEPT :: "u32" where "CT_INTERCEPT \<equiv> 0x10"

subsection \<open>Limits (engine_enums.h)\<close>

abbreviation (input) MaxNaturalNum :: int where "MaxNaturalNum \<equiv> 16"
abbreviation (input) MaxLandmarkNum :: int where "MaxLandmarkNum \<equiv> 64"
abbreviation (input) MaxRegionNum :: int where "MaxRegionNum \<equiv> 128"
abbreviation (input) MaxRegionLandNum :: int where "MaxRegionLandNum \<equiv> 64"
abbreviation (input) RegionBounds :: int where "RegionBounds \<equiv> 63"
abbreviation (input) MaxDiffNum :: int where "MaxDiffNum \<equiv> 6"
abbreviation (input) MaxPlayerNum :: int where "MaxPlayerNum \<equiv> 8"
abbreviation (input) MaxGoalsNum :: int where "MaxGoalsNum \<equiv> 75"
abbreviation (input) MaxSitesNum :: int where "MaxSitesNum \<equiv> 25"
abbreviation (input) MaxBaseNum :: int where "MaxBaseNum \<equiv> 512"
abbreviation (input) MaxVehNum :: int where "MaxVehNum \<equiv> 2048"
abbreviation (input) MaxProtoNum :: int where "MaxProtoNum \<equiv> 512"
abbreviation (input) MaxProtoFactionNum :: int where "MaxProtoFactionNum \<equiv> 64"
abbreviation (input) MaxBaseNameLen :: int where "MaxBaseNameLen \<equiv> 25"
abbreviation (input) MaxProtoNameLen :: int where "MaxProtoNameLen \<equiv> 32"
abbreviation (input) MaxBasePopSize :: int where "MaxBasePopSize \<equiv> 127"
abbreviation (input) MaxBaseSpecNum :: int where "MaxBaseSpecNum \<equiv> 16"
abbreviation (input) MaxTechnologyNum :: int where "MaxTechnologyNum \<equiv> 89"
abbreviation (input) MaxChassisNum :: int where "MaxChassisNum \<equiv> 9"
abbreviation (input) MaxWeaponNum :: int where "MaxWeaponNum \<equiv> 26"
abbreviation (input) MaxArmorNum :: int where "MaxArmorNum \<equiv> 14"
abbreviation (input) MaxReactorNum :: int where "MaxReactorNum \<equiv> 4"
abbreviation (input) MaxAbilityNum :: int where "MaxAbilityNum \<equiv> 29"
abbreviation (input) MaxMoraleNum :: int where "MaxMoraleNum \<equiv> 7"
abbreviation (input) MaxDefenseModeNum :: int where "MaxDefenseModeNum \<equiv> 3"
abbreviation (input) MaxOffenseModeNum :: int where "MaxOffenseModeNum \<equiv> 3"
abbreviation (input) MaxOrderNum :: int where "MaxOrderNum \<equiv> 30"
abbreviation (input) MaxPlanNum :: int where "MaxPlanNum \<equiv> 15"
abbreviation (input) MaxTriadNum :: int where "MaxTriadNum \<equiv> 3"
abbreviation (input) MaxResourceInfoNum :: int where "MaxResourceInfoNum \<equiv> 9"
abbreviation (input) MaxTimeControlNum :: int where "MaxTimeControlNum \<equiv> 6"
abbreviation (input) MaxCompassNum :: int where "MaxCompassNum \<equiv> 8"
abbreviation (input) MaxResourceNum :: int where "MaxResourceNum \<equiv> 4"
abbreviation (input) MaxEnergyNum :: int where "MaxEnergyNum \<equiv> 3"
abbreviation (input) MaxMandateNum :: int where "MaxMandateNum \<equiv> 4"
abbreviation (input) MaxFacilityNum :: int where "MaxFacilityNum \<equiv> 64"
abbreviation (input) MaxSecretProjectNum :: int where "MaxSecretProjectNum \<equiv> 64"
abbreviation (input) MaxTerrainNum :: int where "MaxTerrainNum \<equiv> 20"
abbreviation (input) MaxSocialCatNum :: int where "MaxSocialCatNum \<equiv> 4"
abbreviation (input) MaxSocialModelNum :: int where "MaxSocialModelNum \<equiv> 4"
abbreviation (input) MaxSocialEffectNum :: int where "MaxSocialEffectNum \<equiv> 11"
abbreviation (input) MaxSpecialistNum :: int where "MaxSpecialistNum \<equiv> 7"
abbreviation (input) MaxCitizenNum :: int where "MaxCitizenNum \<equiv> 10"
abbreviation (input) MaxMoodNum :: int where "MaxMoodNum \<equiv> 9"
abbreviation (input) MaxReputeNum :: int where "MaxReputeNum \<equiv> 8"
abbreviation (input) MaxMightNum :: int where "MaxMightNum \<equiv> 7"
abbreviation (input) MaxBonusNum :: int where "MaxBonusNum \<equiv> 8"
abbreviation (input) MaxBonusNameNum :: int where "MaxBonusNameNum \<equiv> 41"
abbreviation (input) MaxProposalNum :: int where "MaxProposalNum \<equiv> 11"
abbreviation (input) GrowthPopBoom :: int where "GrowthPopBoom \<equiv> 6"
abbreviation (input) ConvoyBaseValue :: int where "ConvoyBaseValue \<equiv> 1"
abbreviation (input) PulseArmorValue :: int where "PulseArmorValue \<equiv> 25"
abbreviation (input) ResonanceArmorValue :: int where "ResonanceArmorValue \<equiv> 25"
abbreviation (input) ResonanceWeaponValue :: int where "ResonanceWeaponValue \<equiv> 25"
abbreviation (input) AerospaceDefenseRange :: int where "AerospaceDefenseRange \<equiv> 2"
abbreviation (input) FlechetteDefenseValue :: int where "FlechetteDefenseValue \<equiv> 50"
abbreviation (input) FlechetteDefenseRange :: int where "FlechetteDefenseRange \<equiv> 2"
abbreviation (input) MissileDefendChance :: int where "MissileDefendChance \<equiv> 50"
abbreviation (input) OrbitalAttackChance :: int where "OrbitalAttackChance \<equiv> 50"
abbreviation (input) PlanetaryDatalinksCount :: int where "PlanetaryDatalinksCount \<equiv> 3"
abbreviation (input) PlanetaryTransitPopSize :: int where "PlanetaryTransitPopSize \<equiv> 3"
abbreviation (input) UniversalTranslatorTechs :: int where "UniversalTranslatorTechs \<equiv> 2"
abbreviation (input) StrBufLen :: int where "StrBufLen \<equiv> 256"
abbreviation (input) LineBufLen :: int where "LineBufLen \<equiv> 128"
abbreviation (input) MaxEnemyRange :: int where "MaxEnemyRange \<equiv> 50"
abbreviation (input) SP_Unbuilt :: int where "SP_Unbuilt \<equiv> - 1"
abbreviation (input) SP_Destroyed :: int where "SP_Destroyed \<equiv> - 2"
abbreviation (input) SP_ID_First :: int where "SP_ID_First \<equiv> 70"
abbreviation (input) SP_ID_Last :: int where "SP_ID_Last \<equiv> 133"
abbreviation (input) Fac_ID_First :: int where "Fac_ID_First \<equiv> 1"
abbreviation (input) Fac_ID_Last :: int where "Fac_ID_Last \<equiv> 64"
abbreviation (input) Fac_All_ID_Last :: int where "Fac_All_ID_Last \<equiv> 69"
abbreviation (input) Tech_ID_First :: int where "Tech_ID_First \<equiv> 0"
abbreviation (input) Tech_ID_Last :: int where "Tech_ID_Last \<equiv> 88"
abbreviation (input) MaxTableRange :: int where "MaxTableRange \<equiv> 8"
abbreviation (input) PathLimit :: int where "PathLimit \<equiv> 160"
abbreviation (input) QueueSize :: int where "QueueSize \<equiv> 8192"
abbreviation (input) MaxTileSearchType :: int where "MaxTileSearchType \<equiv> 6"

end
