(* ===== verification/Engine_Rules.thy ===== *)
theory Engine_Rules
  imports Prelude
begin

section \<open>Rule tables (engine_types.h)\<close>

text \<open>
  The tables that alphax.txt is read into. A C array is a function from \<open>int\<close>, a \<open>char*\<close> or a character
  array is a string, and numeric fields of every width are integers; a store into a narrow field is
  truncated by the operation that makes it. Fields that are used as bit sets are words.
\<close>

text \<open>\<open>struct ResValue\<close> of engine_types.h.\<close>

record resvalue =
  res_nutrient :: int
  res_mineral :: int
  res_energy :: int
  res_unused :: int

definition blank_resvalue :: resvalue where
  "blank_resvalue = \<lparr>
     res_nutrient = 0, res_mineral = 0, res_energy = 0, res_unused = 0\<rparr>"

text \<open>\<open>struct CResourceInfo\<close> of engine_types.h.\<close>

record resource_info =
  ri_ocean_sq :: resvalue
  ri_base_sq :: resvalue
  ri_bonus_sq :: resvalue
  ri_forest_sq :: resvalue
  ri_recycling_tanks :: resvalue
  ri_improved_land :: resvalue
  ri_improved_sea :: resvalue
  ri_monolith_sq :: resvalue
  ri_borehole_sq :: resvalue

definition blank_resource_info :: resource_info where
  "blank_resource_info = \<lparr>
     ri_ocean_sq = blank_resvalue, ri_base_sq = blank_resvalue, ri_bonus_sq = blank_resvalue,
     ri_forest_sq = blank_resvalue, ri_recycling_tanks = blank_resvalue,
     ri_improved_land = blank_resvalue, ri_improved_sea = blank_resvalue,
     ri_monolith_sq = blank_resvalue, ri_borehole_sq = blank_resvalue\<rparr>"

text \<open>\<open>struct CRules\<close> of engine_types.h.\<close>

record crules =
  rule_move_rate_roads :: int
  rule_nutrient_intake_req_citizen :: int
  rule_max_airdrop_rng_wo_orbital_insert :: int
  rule_artillery_max_rng :: int
  rule_artillery_dmg_numerator :: int
  rule_artillery_dmg_denominator :: int
  rule_nutrient_cost_multi :: int
  rule_mineral_cost_multi :: int
  rule_tech_discovery_rate :: int
  rule_limit_mineral_inc_for_mine_wo_road :: int
  rule_nutrient_effect_mine_sq :: int
  rule_min_base_size_specialists :: int
  rule_drones_induced_genejack_factory :: int
  rule_pop_limit_wo_hab_complex :: int
  rule_pop_limit_wo_hab_dome :: int
  rule_tech_preq_improv_fungus :: int
  rule_tech_preq_ease_fungus_mov :: int
  rule_tech_preq_build_road_fungus :: int
  rule_tech_preq_allow_2_spec_abil :: int
  rule_tech_preq_allow_3_nutrients_sq :: int
  rule_tech_preq_allow_3_minerals_sq :: int
  rule_tech_preq_allow_3_energy_sq :: int
  rule_extra_cost_prototype_land :: int
  rule_extra_cost_prototype_sea :: int
  rule_extra_cost_prototype_air :: int
  rule_psi_combat_ratio_atk :: "int \<Rightarrow> int"
  rule_psi_combat_ratio_def :: "int \<Rightarrow> int"
  rule_starting_energy_reserve :: int
  rule_combat_bonus_intrinsic_base_def :: int
  rule_combat_bonus_atk_road :: int
  rule_combat_bonus_atk_higher_elevation :: int
  rule_combat_penalty_atk_lower_elevation :: int
  rule_tech_preq_orb_insert_wo_space :: int
  rule_min_turns_between_councils :: int
  rule_minerals_harvesting_forest :: int
  rule_territory_max_dist_base :: int
  rule_turns_corner_global_energy_market :: int
  rule_tech_preq_mining_platform_bonus :: int
  rule_tech_preq_economic_victory :: int
  rule_combat_penalty_atk_airdrop :: int
  rule_combat_bonus_fanatic :: int
  rule_combat_land_vs_sea_artillery :: int
  rule_combat_artillery_bonus_altitude :: int
  rule_combat_mobile_open_ground :: int
  rule_combat_mobile_def_in_rough :: int
  rule_combat_bonus_trance_vs_psi :: int
  rule_combat_bonus_empath_song_vs_psi :: int
  rule_combat_infantry_vs_base :: int
  rule_combat_penalty_air_supr_vs_ground :: int
  rule_combat_bonus_air_supr_vs_air :: int
  rule_combat_penalty_non_combat_vs_combat :: int
  rule_combat_comm_jammer_vs_mobile :: int
  rule_combat_bonus_vs_ship_port :: int
  rule_combat_aaa_bonus_vs_air :: int
  rule_combat_defend_sensor :: int
  rule_combat_psi_bonus_per_planet :: int
  rule_retool_strictness :: int
  rule_retool_penalty_prod_change :: int
  rule_retool_exemption :: int
  rule_tgl_probe_steal_tech :: int
  rule_tgl_humans_always_contact_net :: int
  rule_tgl_humans_always_contact_pbem :: int
  rule_max_dmg_percent_arty_base_bunker :: int
  rule_max_dmg_percent_arty_open :: int
  rule_max_dmg_percent_arty_sea :: int
  rule_freq_global_warming_numerator :: int
  rule_freq_global_warming_denominator :: int
  rule_normal_start_year :: int
  rule_normal_end_year_low_three_diff :: int
  rule_normal_end_year_high_three_diff :: int
  rule_tgl_oblit_base_atrocity :: int
  rule_base_size_subspace_gen :: int
  rule_subspace_gen_req :: int

definition blank_crules :: crules where
  "blank_crules = \<lparr>
     rule_move_rate_roads = 0, rule_nutrient_intake_req_citizen = 0,
     rule_max_airdrop_rng_wo_orbital_insert = 0, rule_artillery_max_rng = 0,
     rule_artillery_dmg_numerator = 0, rule_artillery_dmg_denominator = 0,
     rule_nutrient_cost_multi = 0, rule_mineral_cost_multi = 0, rule_tech_discovery_rate = 0,
     rule_limit_mineral_inc_for_mine_wo_road = 0, rule_nutrient_effect_mine_sq = 0,
     rule_min_base_size_specialists = 0, rule_drones_induced_genejack_factory = 0,
     rule_pop_limit_wo_hab_complex = 0, rule_pop_limit_wo_hab_dome = 0,
     rule_tech_preq_improv_fungus = 0, rule_tech_preq_ease_fungus_mov = 0,
     rule_tech_preq_build_road_fungus = 0, rule_tech_preq_allow_2_spec_abil = 0,
     rule_tech_preq_allow_3_nutrients_sq = 0, rule_tech_preq_allow_3_minerals_sq = 0,
     rule_tech_preq_allow_3_energy_sq = 0, rule_extra_cost_prototype_land = 0,
     rule_extra_cost_prototype_sea = 0, rule_extra_cost_prototype_air = 0,
     rule_psi_combat_ratio_atk = (\<lambda>_. 0), rule_psi_combat_ratio_def = (\<lambda>_. 0),
     rule_starting_energy_reserve = 0, rule_combat_bonus_intrinsic_base_def = 0,
     rule_combat_bonus_atk_road = 0, rule_combat_bonus_atk_higher_elevation = 0,
     rule_combat_penalty_atk_lower_elevation = 0, rule_tech_preq_orb_insert_wo_space = 0,
     rule_min_turns_between_councils = 0, rule_minerals_harvesting_forest = 0,
     rule_territory_max_dist_base = 0, rule_turns_corner_global_energy_market = 0,
     rule_tech_preq_mining_platform_bonus = 0, rule_tech_preq_economic_victory = 0,
     rule_combat_penalty_atk_airdrop = 0, rule_combat_bonus_fanatic = 0,
     rule_combat_land_vs_sea_artillery = 0, rule_combat_artillery_bonus_altitude = 0,
     rule_combat_mobile_open_ground = 0, rule_combat_mobile_def_in_rough = 0,
     rule_combat_bonus_trance_vs_psi = 0, rule_combat_bonus_empath_song_vs_psi = 0,
     rule_combat_infantry_vs_base = 0, rule_combat_penalty_air_supr_vs_ground = 0,
     rule_combat_bonus_air_supr_vs_air = 0, rule_combat_penalty_non_combat_vs_combat = 0,
     rule_combat_comm_jammer_vs_mobile = 0, rule_combat_bonus_vs_ship_port = 0,
     rule_combat_aaa_bonus_vs_air = 0, rule_combat_defend_sensor = 0,
     rule_combat_psi_bonus_per_planet = 0, rule_retool_strictness = 0,
     rule_retool_penalty_prod_change = 0, rule_retool_exemption = 0, rule_tgl_probe_steal_tech = 0,
     rule_tgl_humans_always_contact_net = 0, rule_tgl_humans_always_contact_pbem = 0,
     rule_max_dmg_percent_arty_base_bunker = 0, rule_max_dmg_percent_arty_open = 0,
     rule_max_dmg_percent_arty_sea = 0, rule_freq_global_warming_numerator = 0,
     rule_freq_global_warming_denominator = 0, rule_normal_start_year = 0,
     rule_normal_end_year_low_three_diff = 0, rule_normal_end_year_high_three_diff = 0,
     rule_tgl_oblit_base_atrocity = 0, rule_base_size_subspace_gen = 0, rule_subspace_gen_req = 0\<rparr>"

text \<open>\<open>struct CFacility\<close> of engine_types.h.\<close>

record cfacility =
  cfac_name :: string
  cfac_effect :: string
  cfac_pad :: int
  cfac_cost :: int
  cfac_maint :: int
  cfac_preq_tech :: int
  cfac_free_tech :: int
  cfac_AI_fight :: int
  cfac_AI_growth :: int
  cfac_AI_tech :: int
  cfac_AI_wealth :: int
  cfac_AI_power :: int

definition blank_cfacility :: cfacility where
  "blank_cfacility = \<lparr>
     cfac_name = [], cfac_effect = [], cfac_pad = 0, cfac_cost = 0, cfac_maint = 0, cfac_preq_tech = 0,
     cfac_free_tech = 0, cfac_AI_fight = 0, cfac_AI_growth = 0, cfac_AI_tech = 0, cfac_AI_wealth = 0,
     cfac_AI_power = 0\<rparr>"

text \<open>\<open>struct CTech\<close> of engine_types.h.\<close>

record ctech =
  ctech_flags :: u32
  ctech_name :: string
  ctech_short_name :: string
  ctech_padding :: int
  ctech_AI_growth :: int
  ctech_AI_tech :: int
  ctech_AI_wealth :: int
  ctech_AI_power :: int
  ctech_preq_tech1 :: int
  ctech_preq_tech2 :: int

definition blank_ctech :: ctech where
  "blank_ctech = \<lparr>
     ctech_flags = 0, ctech_name = [], ctech_short_name = [], ctech_padding = 0, ctech_AI_growth = 0,
     ctech_AI_tech = 0, ctech_AI_wealth = 0, ctech_AI_power = 0, ctech_preq_tech1 = 0,
     ctech_preq_tech2 = 0\<rparr>"

text \<open>\<open>struct CCitizen\<close> of engine_types.h.\<close>

record ccitizen =
  ccit_singular_name :: string
  ccit_plural_name :: string
  ccit_preq_tech :: int
  ccit_obsol_tech :: int
  ccit_econ_bonus :: int
  ccit_psych_bonus :: int
  ccit_labs_bonus :: int

definition blank_ccitizen :: ccitizen where
  "blank_ccitizen = \<lparr>
     ccit_singular_name = [], ccit_plural_name = [], ccit_preq_tech = 0, ccit_obsol_tech = 0,
     ccit_econ_bonus = 0, ccit_psych_bonus = 0, ccit_labs_bonus = 0\<rparr>"

text \<open>\<open>struct CAbility\<close> of engine_types.h.\<close>

record cability =
  cabl_name :: string
  cabl_description :: string
  cabl_abbreviation :: string
  cabl_cost :: int
  cabl_unk_1 :: int
  cabl_flags :: u32
  cabl_preq_tech :: int
  cabl_pad :: int

definition blank_cability :: cability where
  "blank_cability = \<lparr>
     cabl_name = [], cabl_description = [], cabl_abbreviation = [], cabl_cost = 0, cabl_unk_1 = 0,
     cabl_flags = 0, cabl_preq_tech = 0, cabl_pad = 0\<rparr>"

text \<open>\<open>struct CChassis\<close> of engine_types.h.\<close>

record cchassis =
  cchs_offsv1_name :: string
  cchs_offsv2_name :: string
  cchs_offsv_name_lrg :: string
  cchs_defsv1_name :: string
  cchs_defsv2_name :: string
  cchs_defsv_name_lrg :: string
  cchs_offsv1_gender :: int
  cchs_offsv2_gender :: int
  cchs_offsv_gender_lrg :: int
  cchs_defsv1_gender :: int
  cchs_defsv2_gender :: int
  cchs_defsv_gender_lrg :: int
  cchs_offsv1_is_plural :: int
  cchs_offsv2_is_plural :: int
  cchs_offsv_is_plural_lrg :: int
  cchs_defsv1_is_plural :: int
  cchs_defsv2_is_plural :: int
  cchs_defsv_is_plural_lrg :: int
  cchs_speed :: int
  cchs_triad :: int
  cchs_range :: int
  cchs_cargo :: int
  cchs_cost :: int
  cchs_missile :: int
  cchs_sprite_flag_x_coord :: string
  cchs_sprite_flag_y_coord :: string
  cchs_sprite_unk1_x_coord :: string
  cchs_sprite_unk1_y_coord :: string
  cchs_sprite_unk2_x_coord :: string
  cchs_sprite_unk2_y_coord :: string
  cchs_sprite_unk3_x_coord :: string
  cchs_sprite_unk3_y_coord :: string
  cchs_preq_tech :: int

definition blank_cchassis :: cchassis where
  "blank_cchassis = \<lparr>
     cchs_offsv1_name = [], cchs_offsv2_name = [], cchs_offsv_name_lrg = [], cchs_defsv1_name = [],
     cchs_defsv2_name = [], cchs_defsv_name_lrg = [], cchs_offsv1_gender = 0, cchs_offsv2_gender = 0,
     cchs_offsv_gender_lrg = 0, cchs_defsv1_gender = 0, cchs_defsv2_gender = 0,
     cchs_defsv_gender_lrg = 0, cchs_offsv1_is_plural = 0, cchs_offsv2_is_plural = 0,
     cchs_offsv_is_plural_lrg = 0, cchs_defsv1_is_plural = 0, cchs_defsv2_is_plural = 0,
     cchs_defsv_is_plural_lrg = 0, cchs_speed = 0, cchs_triad = 0, cchs_range = 0, cchs_cargo = 0,
     cchs_cost = 0, cchs_missile = 0, cchs_sprite_flag_x_coord = [], cchs_sprite_flag_y_coord = [],
     cchs_sprite_unk1_x_coord = [], cchs_sprite_unk1_y_coord = [], cchs_sprite_unk2_x_coord = [],
     cchs_sprite_unk2_y_coord = [], cchs_sprite_unk3_x_coord = [], cchs_sprite_unk3_y_coord = [],
     cchs_preq_tech = 0\<rparr>"

text \<open>\<open>struct CArmor\<close> of engine_types.h.\<close>

record carmor =
  carm_name :: string
  carm_name_short :: string
  carm_defense_value :: int
  carm_mode :: int
  carm_cost :: int
  carm_padding1 :: int
  carm_preq_tech :: int
  carm_padding2 :: int

definition blank_carmor :: carmor where
  "blank_carmor = \<lparr>
     carm_name = [], carm_name_short = [], carm_defense_value = 0, carm_mode = 0, carm_cost = 0,
     carm_padding1 = 0, carm_preq_tech = 0, carm_padding2 = 0\<rparr>"

text \<open>\<open>struct CReactor\<close> of engine_types.h.\<close>

record creactor =
  crec_name :: string
  crec_name_short :: string
  crec_preq_tech :: int
  crec_power :: int

definition blank_creactor :: creactor where
  "blank_creactor = \<lparr>
     crec_name = [], crec_name_short = [], crec_preq_tech = 0, crec_power = 0\<rparr>"

text \<open>\<open>struct CWeapon\<close> of engine_types.h.\<close>

record cweapon =
  cwpn_name :: string
  cwpn_name_short :: string
  cwpn_offense_value :: int
  cwpn_icon :: int
  cwpn_mode :: int
  cwpn_cost :: int
  cwpn_preq_tech :: int
  cwpn_padding :: int

definition blank_cweapon :: cweapon where
  "blank_cweapon = \<lparr>
     cwpn_name = [], cwpn_name_short = [], cwpn_offense_value = 0, cwpn_icon = 0, cwpn_mode = 0,
     cwpn_cost = 0, cwpn_preq_tech = 0, cwpn_padding = 0\<rparr>"

text \<open>\<open>struct CTerraform\<close> of engine_types.h.\<close>

record cterraform =
  cter_name :: string
  cter_name_sea :: string
  cter_preq_tech :: int
  cter_preq_tech_sea :: int
  cter_bit :: u32
  cter_bit_incompatible :: u32
  cter_rate :: int
  cter_shortcuts :: string

definition blank_cterraform :: cterraform where
  "blank_cterraform = \<lparr>
     cter_name = [], cter_name_sea = [], cter_preq_tech = 0, cter_preq_tech_sea = 0, cter_bit = 0,
     cter_bit_incompatible = 0, cter_rate = 0, cter_shortcuts = []\<rparr>"

text \<open>\<open>struct CProposal\<close> of engine_types.h.\<close>

record cproposal =
  cprop_name :: string
  cprop_description :: string
  cprop_preq_tech :: int

definition blank_cproposal :: cproposal where
  "blank_cproposal = \<lparr>
     cprop_name = [], cprop_description = [], cprop_preq_tech = 0\<rparr>"

text \<open>\<open>CSocialCategory\<close> and \<open>CSocialEffect\<close> are unions of named fields with an array: the array is kept.\<close>

record social_category = soc_models :: "int \<Rightarrow> int"

record social_effect = se_values :: "int \<Rightarrow> int"

definition blank_social_category :: social_category where
  "blank_social_category = \<lparr>soc_models = (\<lambda>_. 0)\<rparr>"

definition blank_social_effect :: social_effect where
  "blank_social_effect = \<lparr>se_values = (\<lambda>_. 0)\<rparr>"

text \<open>\<open>struct CSocialField\<close> of engine_types.h.\<close>

record csocialfield =
  csf_field_name :: string
  csf_soc_preq_tech :: "int \<Rightarrow> int"
  csf_soc_name :: "int \<Rightarrow> string"
  csf_soc_effect :: "int \<Rightarrow> social_effect"

definition blank_csocialfield :: csocialfield where
  "blank_csocialfield = \<lparr>
     csf_field_name = [], csf_soc_preq_tech = (\<lambda>_. 0), csf_soc_name = (\<lambda>_. []),
     csf_soc_effect = (\<lambda>_. blank_social_effect)\<rparr>"

end
