(* ===== verification/Engine_Faction.thy ===== *)
theory Engine_Faction
  imports Prelude
begin

section \<open>Faction data (engine_types.h)\<close>

text \<open>
  The state a faction keeps: \<open>Faction\<close> is the part that changes in play, \<open>MFaction\<close> the part read from
  the faction file.
\<close>

text \<open>\<open>struct Goal\<close> of engine_types.h.\<close>

record goal =
  goal_type :: int
  goal_priority :: int
  goal_x :: int
  goal_y :: int
  goal_base_id :: int

definition blank_goal :: goal where
  "blank_goal = \<lparr>
     goal_type = 0, goal_priority = 0, goal_x = 0, goal_y = 0, goal_base_id = 0\<rparr>"

text \<open>\<open>struct Faction\<close> of engine_types.h.\<close>

record faction =
  f_player_flags :: u32
  f_ranking :: int
  f_diff_level :: int
  f_base_name_offset :: int
  f_base_sea_name_offset :: int
  f_last_base_turn :: int
  f_diplo_status :: "int \<Rightarrow> u32"
  f_diplo_agenda :: "int \<Rightarrow> u32"
  f_diplo_friction :: "int \<Rightarrow> int"
  f_diplo_spoke :: "int \<Rightarrow> int"
  f_diplo_merc :: "int \<Rightarrow> int"
  f_diplo_patience :: "int \<Rightarrow> int"
  f_sanction_turns :: int
  f_loan_balance :: "int \<Rightarrow> int"
  f_loan_payment :: "int \<Rightarrow> int"
  f_unk_1 :: "int \<Rightarrow> int"
  f_integrity_blemishes :: int
  f_diplo_reputation :: int
  f_diplo_gifts :: "int \<Rightarrow> int"
  f_diplo_wrongs :: "int \<Rightarrow> int"
  f_diplo_betrayed :: "int \<Rightarrow> int"
  f_diplo_unk_3 :: "int \<Rightarrow> int"
  f_diplo_unk_4 :: "int \<Rightarrow> int"
  f_traded_maps :: u32
  f_base_governor_adv :: u32
  f_atrocities :: int
  f_major_atrocities :: int
  f_mind_control_total :: int
  f_diplo_mind_control :: "int \<Rightarrow> int"
  f_diplo_stolen_techs :: "int \<Rightarrow> int"
  f_energy_credits :: int
  f_hurry_cost_total :: int
  f_SE_Politics_pending :: int
  f_SE_Economics_pending :: int
  f_SE_Values_pending :: int
  f_SE_Future_pending :: int
  f_SE_Politics :: int
  f_SE_Economics :: int
  f_SE_Values :: int
  f_SE_Future :: int
  f_SE_upheaval_cost_paid :: int
  f_SE_economy_pending :: int
  f_SE_effic_pending :: int
  f_SE_support_pending :: int
  f_SE_talent_pending :: int
  f_SE_morale_pending :: int
  f_SE_police_pending :: int
  f_SE_growth_pending :: int
  f_SE_planet_pending :: int
  f_SE_probe_pending :: int
  f_SE_industry_pending :: int
  f_SE_research_pending :: int
  f_SE_economy :: int
  f_SE_effic :: int
  f_SE_support :: int
  f_SE_talent :: int
  f_SE_morale :: int
  f_SE_police :: int
  f_SE_growth :: int
  f_SE_planet :: int
  f_SE_probe :: int
  f_SE_industry :: int
  f_SE_research :: int
  f_SE_economy_2 :: int
  f_SE_effic_2 :: int
  f_SE_support_2 :: int
  f_SE_talent_2 :: int
  f_SE_morale_2 :: int
  f_SE_police_2 :: int
  f_SE_growth_2 :: int
  f_SE_planet_2 :: int
  f_SE_probe_2 :: int
  f_SE_industry_2 :: int
  f_SE_research_2 :: int
  f_SE_economy_base :: int
  f_SE_effic_base :: int
  f_SE_support_base :: int
  f_SE_talent_base :: int
  f_SE_morale_base :: int
  f_SE_police_base :: int
  f_SE_growth_base :: int
  f_SE_planet_base :: int
  f_SE_probe_base :: int
  f_SE_industry_base :: int
  f_SE_research_base :: int
  f_energy_surplus_total :: int
  f_facility_maint_total :: int
  f_tech_commerce_bonus :: int
  f_turn_commerce_income :: int
  f_unk_17 :: int
  f_unk_18 :: int
  f_tech_fungus_nutrient :: int
  f_tech_fungus_mineral :: int
  f_tech_fungus_energy :: int
  f_tech_fungus_unused :: int
  f_SE_alloc_psych :: int
  f_SE_alloc_labs :: int
  f_tech_pact_shared_goals :: "int \<Rightarrow> u32"
  f_tech_ranking :: int
  f_unk_27 :: int
  f_ODP_deployed :: int
  f_tech_count_transcendent :: int
  f_tech_trade_source :: "int \<Rightarrow> int"
  f_tech_accumulated :: int
  f_tech_research_id :: int
  f_tech_cost :: int
  f_earned_techs_saved :: int
  f_net_random_event :: int
  f_AI_fight :: int
  f_AI_growth :: int
  f_AI_tech :: int
  f_AI_wealth :: int
  f_AI_power :: int
  f_target_x :: int
  f_target_y :: int
  f_best_mineral_output :: int
  f_council_call_turn :: int
  f_unk_29 :: "int \<Rightarrow> int"
  f_unk_30 :: "int \<Rightarrow> int"
  f_facility_announced :: "int \<Rightarrow> u8"
  f_clean_minerals_modifier :: int
  f_base_id_attack_target :: int
  f_unk_37 :: int
  f_saved_queue_name :: "int \<Rightarrow> string"
  f_saved_queue_size :: "int \<Rightarrow> int"
  f_saved_queue_items :: "int \<Rightarrow> int \<Rightarrow> int"
  f_social_support :: "int \<Rightarrow> int"
  f_social_psych :: "int \<Rightarrow> int \<Rightarrow> int"
  f_social_effic :: "int \<Rightarrow> int"
  f_unk_45 :: int
  f_unk_46 :: int
  f_unk_47 :: int
  f_nutrient_surplus_total :: int
  f_labs_total :: int
  f_satellites_nutrient :: int
  f_satellites_mineral :: int
  f_satellites_energy :: int
  f_satellites_ODP :: int
  f_best_weapon_value :: int
  f_best_psi_land_offense :: int
  f_best_psi_land_defense :: int
  f_best_armor_value :: int
  f_best_land_speed :: int
  f_enemy_best_weapon_value :: int
  f_enemy_best_armor_value :: int
  f_enemy_best_land_speed :: int
  f_enemy_best_psi_land_offense :: int
  f_enemy_best_psi_land_defense :: int
  f_unk_64 :: int
  f_unk_65 :: int
  f_unk_66 :: int
  f_unk_67 :: int
  f_unk_68 :: int
  f_unk_69 :: int
  f_units_active :: "int \<Rightarrow> int"
  f_units_queue :: "int \<Rightarrow> int"
  f_units_lost :: "int \<Rightarrow> int"
  f_total_combat_units :: int
  f_base_count :: int
  f_mil_strength_1 :: int
  f_mil_strength_2 :: int
  f_pop_total :: int
  f_unk_70 :: int
  f_planet_busters :: int
  f_unk_71 :: int
  f_unk_72 :: int
  f_region_total_combat_units :: "int \<Rightarrow> int"
  f_region_total_bases :: "int \<Rightarrow> int"
  f_region_total_offensive_units :: "int \<Rightarrow> int"
  f_region_force_rating :: "int \<Rightarrow> int"
  f_region_flags :: "int \<Rightarrow> u16"
  f_region_territory_tiles :: "int \<Rightarrow> int"
  f_region_visible_tiles :: "int \<Rightarrow> int"
  f_region_good_tiles :: "int \<Rightarrow> int"
  f_region_unk_5 :: "int \<Rightarrow> int"
  f_region_unk_6 :: "int \<Rightarrow> int"
  f_region_territory_pods :: "int \<Rightarrow> int"
  f_region_base_plan :: "int \<Rightarrow> int"
  f_goals :: "int \<Rightarrow> goal"
  f_sites :: "int \<Rightarrow> goal"
  f_unk_93 :: int
  f_goody_opened :: int
  f_goody_artifact :: int
  f_goody_earthquake :: int
  f_goody_tech :: int
  f_tech_achieved :: int
  f_time_bonus_count :: int
  f_unk_99 :: int
  f_secret_project_intel :: "int \<Rightarrow> u32"
  f_corner_market_turn :: int
  f_corner_market_cost :: int
  f_unk_101 :: int
  f_unk_102 :: int
  f_unk_103 :: int
  f_player_flags_ext :: u32
  f_unk_105 :: int
  f_unk_106 :: int
  f_unk_107 :: int
  f_eliminated_count :: int
  f_unk_109 :: int
  f_unk_110 :: int
  f_unk_111 :: int
  f_unk_112 :: int
  f_unk_113 :: int
  f_unk_114 :: int
  f_unk_115 :: int
  f_unk_116 :: int
  f_unk_117 :: int
  f_unk_118 :: int

definition blank_faction :: faction where
  "blank_faction = \<lparr>
     f_player_flags = 0, f_ranking = 0, f_diff_level = 0, f_base_name_offset = 0,
     f_base_sea_name_offset = 0, f_last_base_turn = 0, f_diplo_status = (\<lambda>_. 0),
     f_diplo_agenda = (\<lambda>_. 0), f_diplo_friction = (\<lambda>_. 0),
     f_diplo_spoke = (\<lambda>_. 0), f_diplo_merc = (\<lambda>_. 0),
     f_diplo_patience = (\<lambda>_. 0), f_sanction_turns = 0, f_loan_balance = (\<lambda>_. 0),
     f_loan_payment = (\<lambda>_. 0), f_unk_1 = (\<lambda>_. 0), f_integrity_blemishes = 0,
     f_diplo_reputation = 0, f_diplo_gifts = (\<lambda>_. 0), f_diplo_wrongs = (\<lambda>_. 0),
     f_diplo_betrayed = (\<lambda>_. 0), f_diplo_unk_3 = (\<lambda>_. 0),
     f_diplo_unk_4 = (\<lambda>_. 0), f_traded_maps = 0, f_base_governor_adv = 0, f_atrocities = 0,
     f_major_atrocities = 0, f_mind_control_total = 0, f_diplo_mind_control = (\<lambda>_. 0),
     f_diplo_stolen_techs = (\<lambda>_. 0), f_energy_credits = 0, f_hurry_cost_total = 0,
     f_SE_Politics_pending = 0, f_SE_Economics_pending = 0, f_SE_Values_pending = 0,
     f_SE_Future_pending = 0, f_SE_Politics = 0, f_SE_Economics = 0, f_SE_Values = 0, f_SE_Future = 0,
     f_SE_upheaval_cost_paid = 0, f_SE_economy_pending = 0, f_SE_effic_pending = 0,
     f_SE_support_pending = 0, f_SE_talent_pending = 0, f_SE_morale_pending = 0,
     f_SE_police_pending = 0, f_SE_growth_pending = 0, f_SE_planet_pending = 0, f_SE_probe_pending = 0,
     f_SE_industry_pending = 0, f_SE_research_pending = 0, f_SE_economy = 0, f_SE_effic = 0,
     f_SE_support = 0, f_SE_talent = 0, f_SE_morale = 0, f_SE_police = 0, f_SE_growth = 0,
     f_SE_planet = 0, f_SE_probe = 0, f_SE_industry = 0, f_SE_research = 0, f_SE_economy_2 = 0,
     f_SE_effic_2 = 0, f_SE_support_2 = 0, f_SE_talent_2 = 0, f_SE_morale_2 = 0, f_SE_police_2 = 0,
     f_SE_growth_2 = 0, f_SE_planet_2 = 0, f_SE_probe_2 = 0, f_SE_industry_2 = 0, f_SE_research_2 = 0,
     f_SE_economy_base = 0, f_SE_effic_base = 0, f_SE_support_base = 0, f_SE_talent_base = 0,
     f_SE_morale_base = 0, f_SE_police_base = 0, f_SE_growth_base = 0, f_SE_planet_base = 0,
     f_SE_probe_base = 0, f_SE_industry_base = 0, f_SE_research_base = 0, f_energy_surplus_total = 0,
     f_facility_maint_total = 0, f_tech_commerce_bonus = 0, f_turn_commerce_income = 0, f_unk_17 = 0,
     f_unk_18 = 0, f_tech_fungus_nutrient = 0, f_tech_fungus_mineral = 0, f_tech_fungus_energy = 0,
     f_tech_fungus_unused = 0, f_SE_alloc_psych = 0, f_SE_alloc_labs = 0,
     f_tech_pact_shared_goals = (\<lambda>_. 0), f_tech_ranking = 0, f_unk_27 = 0, f_ODP_deployed = 0,
     f_tech_count_transcendent = 0, f_tech_trade_source = (\<lambda>_. 0), f_tech_accumulated = 0,
     f_tech_research_id = 0, f_tech_cost = 0, f_earned_techs_saved = 0, f_net_random_event = 0,
     f_AI_fight = 0, f_AI_growth = 0, f_AI_tech = 0, f_AI_wealth = 0, f_AI_power = 0, f_target_x = 0,
     f_target_y = 0, f_best_mineral_output = 0, f_council_call_turn = 0, f_unk_29 = (\<lambda>_. 0),
     f_unk_30 = (\<lambda>_. 0), f_facility_announced = (\<lambda>_. 0), f_clean_minerals_modifier = 0,
     f_base_id_attack_target = 0, f_unk_37 = 0, f_saved_queue_name = (\<lambda>_. []),
     f_saved_queue_size = (\<lambda>_. 0), f_saved_queue_items = (\<lambda>_. (\<lambda>_. 0)),
     f_social_support = (\<lambda>_. 0), f_social_psych = (\<lambda>_. (\<lambda>_. 0)),
     f_social_effic = (\<lambda>_. 0), f_unk_45 = 0, f_unk_46 = 0, f_unk_47 = 0,
     f_nutrient_surplus_total = 0, f_labs_total = 0, f_satellites_nutrient = 0,
     f_satellites_mineral = 0, f_satellites_energy = 0, f_satellites_ODP = 0, f_best_weapon_value = 0,
     f_best_psi_land_offense = 0, f_best_psi_land_defense = 0, f_best_armor_value = 0,
     f_best_land_speed = 0, f_enemy_best_weapon_value = 0, f_enemy_best_armor_value = 0,
     f_enemy_best_land_speed = 0, f_enemy_best_psi_land_offense = 0, f_enemy_best_psi_land_defense = 0,
     f_unk_64 = 0, f_unk_65 = 0, f_unk_66 = 0, f_unk_67 = 0, f_unk_68 = 0, f_unk_69 = 0,
     f_units_active = (\<lambda>_. 0), f_units_queue = (\<lambda>_. 0), f_units_lost = (\<lambda>_. 0),
     f_total_combat_units = 0, f_base_count = 0, f_mil_strength_1 = 0, f_mil_strength_2 = 0,
     f_pop_total = 0, f_unk_70 = 0, f_planet_busters = 0, f_unk_71 = 0, f_unk_72 = 0,
     f_region_total_combat_units = (\<lambda>_. 0), f_region_total_bases = (\<lambda>_. 0),
     f_region_total_offensive_units = (\<lambda>_. 0), f_region_force_rating = (\<lambda>_. 0),
     f_region_flags = (\<lambda>_. 0), f_region_territory_tiles = (\<lambda>_. 0),
     f_region_visible_tiles = (\<lambda>_. 0), f_region_good_tiles = (\<lambda>_. 0),
     f_region_unk_5 = (\<lambda>_. 0), f_region_unk_6 = (\<lambda>_. 0),
     f_region_territory_pods = (\<lambda>_. 0), f_region_base_plan = (\<lambda>_. 0),
     f_goals = (\<lambda>_. blank_goal), f_sites = (\<lambda>_. blank_goal), f_unk_93 = 0,
     f_goody_opened = 0, f_goody_artifact = 0, f_goody_earthquake = 0, f_goody_tech = 0,
     f_tech_achieved = 0, f_time_bonus_count = 0, f_unk_99 = 0,
     f_secret_project_intel = (\<lambda>_. 0), f_corner_market_turn = 0, f_corner_market_cost = 0,
     f_unk_101 = 0, f_unk_102 = 0, f_unk_103 = 0, f_player_flags_ext = 0, f_unk_105 = 0, f_unk_106 = 0,
     f_unk_107 = 0, f_eliminated_count = 0, f_unk_109 = 0, f_unk_110 = 0, f_unk_111 = 0, f_unk_112 = 0,
     f_unk_113 = 0, f_unk_114 = 0, f_unk_115 = 0, f_unk_116 = 0, f_unk_117 = 0, f_unk_118 = 0\<rparr>"

text \<open>\<open>struct MFaction\<close> of engine_types.h.\<close>

record mfaction =
  mf_is_leader_female :: int
  mf_filename :: string
  mf_search_key :: string
  mf_name_leader :: string
  mf_title_leader :: string
  mf_adj_leader :: string
  mf_adj_insult_leader :: string
  mf_adj_faction :: string
  mf_adj_insult_faction :: string
  mf_thinker_unused :: "int \<Rightarrow> int"
  mf_thinker_probe_lost :: u8
  mf_thinker_probe_renew :: u8
  mf_thinker_last_mc_turn :: int
  mf_thinker_probe_end_turn :: "int \<Rightarrow> int"
  mf_pad_1 :: string
  mf_noun_faction :: string
  mf_noun_gender :: int
  mf_is_noun_plural :: int
  mf_adj_name_faction :: string
  mf_formal_name_faction :: string
  mf_insult_leader :: string
  mf_desc_name_faction :: string
  mf_assistant_name :: string
  mf_scientist_name :: string
  mf_assistant_city :: string
  mf_pad_2 :: string
  mf_rule_tech_selected :: int
  mf_rule_morale :: int
  mf_rule_research :: int
  mf_rule_drone :: int
  mf_rule_talent :: int
  mf_rule_energy :: int
  mf_rule_interest :: int
  mf_rule_population :: int
  mf_rule_hurry :: int
  mf_rule_techcost :: int
  mf_rule_psi :: int
  mf_rule_sharetech :: int
  mf_rule_commerce :: int
  mf_rule_flags :: u32
  mf_faction_bonus_count :: int
  mf_faction_bonus_id :: "int \<Rightarrow> int"
  mf_faction_bonus_val1 :: "int \<Rightarrow> int"
  mf_faction_bonus_val2 :: "int \<Rightarrow> int"
  mf_AI_fight :: int
  mf_AI_growth :: int
  mf_AI_tech :: int
  mf_AI_wealth :: int
  mf_AI_power :: int
  mf_soc_priority_category :: int
  mf_soc_opposition_category :: int
  mf_soc_priority_model :: int
  mf_soc_opposition_model :: int
  mf_soc_priority_effect :: int
  mf_soc_opposition_effect :: int

definition blank_mfaction :: mfaction where
  "blank_mfaction = \<lparr>
     mf_is_leader_female = 0, mf_filename = [], mf_search_key = [], mf_name_leader = [],
     mf_title_leader = [], mf_adj_leader = [], mf_adj_insult_leader = [], mf_adj_faction = [],
     mf_adj_insult_faction = [], mf_thinker_unused = (\<lambda>_. 0), mf_thinker_probe_lost = 0,
     mf_thinker_probe_renew = 0, mf_thinker_last_mc_turn = 0,
     mf_thinker_probe_end_turn = (\<lambda>_. 0), mf_pad_1 = [], mf_noun_faction = [],
     mf_noun_gender = 0, mf_is_noun_plural = 0, mf_adj_name_faction = [], mf_formal_name_faction = [],
     mf_insult_leader = [], mf_desc_name_faction = [], mf_assistant_name = [], mf_scientist_name = [],
     mf_assistant_city = [], mf_pad_2 = [], mf_rule_tech_selected = 0, mf_rule_morale = 0,
     mf_rule_research = 0, mf_rule_drone = 0, mf_rule_talent = 0, mf_rule_energy = 0,
     mf_rule_interest = 0, mf_rule_population = 0, mf_rule_hurry = 0, mf_rule_techcost = 0,
     mf_rule_psi = 0, mf_rule_sharetech = 0, mf_rule_commerce = 0, mf_rule_flags = 0,
     mf_faction_bonus_count = 0, mf_faction_bonus_id = (\<lambda>_. 0),
     mf_faction_bonus_val1 = (\<lambda>_. 0), mf_faction_bonus_val2 = (\<lambda>_. 0), mf_AI_fight = 0,
     mf_AI_growth = 0, mf_AI_tech = 0, mf_AI_wealth = 0, mf_AI_power = 0, mf_soc_priority_category = 0,
     mf_soc_opposition_category = 0, mf_soc_priority_model = 0, mf_soc_opposition_model = 0,
     mf_soc_priority_effect = 0, mf_soc_opposition_effect = 0\<rparr>"

end
