(* ===== verification/Engine_Config.thy ===== *)
theory Engine_Config
  imports Prelude
begin

section \<open>Options of thinker.ini and plans of the AI (main.h)\<close>

text \<open>
  The options the modification adds to the game. The nested landmark switches, which only the map generator reads, are left out,
  as are the two floating-point estimates of the plans.
\<close>

text \<open>\<open>struct Config\<close> of main.h.\<close>

record config =
  conf_video_mode :: int
  conf_window_width :: int
  conf_window_height :: int
  conf_minimised :: int
  conf_video_player :: int
  conf_playing_movie :: int
  conf_screen_width :: int
  conf_screen_height :: int
  conf_directdraw :: int
  conf_disable_opening_movie :: int
  conf_smac_only :: int
  conf_smooth_scrolling :: int
  conf_scroll_area :: int
  conf_auto_minimise :: int
  conf_render_base_info :: int
  conf_render_high_detail :: int
  conf_editor_free_units :: int
  conf_autosave_interval :: int
  conf_warn_on_former_replace :: int
  conf_manage_player_bases :: int
  conf_manage_player_units :: int
  conf_render_probe_labels :: int
  conf_foreign_treaty_popup :: int
  conf_game_event_popup :: int
  conf_new_base_names :: int
  conf_new_unit_names :: int
  conf_design_units :: int
  conf_factions_enabled :: int
  conf_social_ai :: int
  conf_social_ai_bias :: int
  conf_tech_balance :: int
  conf_base_hurry :: int
  conf_base_spacing :: int
  conf_base_nearby_limit :: int
  conf_expansion_limit :: int
  conf_expansion_autoscale :: int
  conf_limit_project_start :: int
  conf_max_satellites :: int
  conf_new_world_builder :: int
  conf_world_sea_levels :: "int \<Rightarrow> int"
  conf_world_hills_mod :: int
  conf_world_ocean_mod :: int
  conf_world_islands_mod :: int
  conf_world_continents :: int
  conf_world_polar_caps :: int
  conf_world_mirror_x :: int
  conf_world_mirror_y :: int
  conf_modified_landmarks :: int
  conf_time_warp_mod :: int
  conf_time_warp_techs :: int
  conf_time_warp_projects :: int
  conf_time_warp_start_turn :: int
  conf_spawn_free_units :: "int \<Rightarrow> int"
  conf_player_colony_pods :: int
  conf_computer_colony_pods :: int
  conf_player_formers :: int
  conf_computer_formers :: int
  conf_player_satellites :: "int \<Rightarrow> int"
  conf_computer_satellites :: "int \<Rightarrow> int"
  conf_faction_placement :: int
  conf_nutrient_bonus :: int
  conf_rare_supply_pods :: int
  conf_simple_cost_factor :: int
  conf_revised_tech_cost :: int
  conf_tech_rate_modifier :: int
  conf_tech_stagnate_rate :: int
  conf_fast_fungus_movement :: int
  conf_magtube_movement_rate :: int
  conf_road_movement_rate :: int
  conf_max_movement_rate :: int
  conf_chopper_attack_rate :: int
  conf_base_event_turns :: int
  conf_base_psych :: int
  conf_nerve_staple_turns :: int
  conf_nerve_staple_mod :: int
  conf_delay_drone_riots :: int
  conf_activate_skipped_units :: int
  conf_probe_action_fix :: int
  conf_counter_espionage :: int
  conf_ignore_reactor_power :: int
  conf_long_range_artillery :: int
  conf_modify_upgrade_cost :: int
  conf_modify_unit_support :: int
  conf_modify_unit_limit :: int
  conf_max_veh_num :: int
  conf_skip_default_balance :: int
  conf_early_research_start :: int
  conf_base_capture_fix :: int
  conf_facility_capture_fix :: int
  conf_territory_border_fix :: int
  conf_auto_relocate_hq :: int
  conf_rebuild_secret_projects :: int
  conf_steal_energy_rate :: int
  conf_simple_hurry_cost :: int
  conf_eco_damage_fix :: int
  conf_clean_minerals :: int
  conf_biology_lab_bonus :: int
  conf_spawn_fungal_towers :: int
  conf_spawn_spore_launchers :: int
  conf_spawn_sealurks :: int
  conf_spawn_battle_ogres :: int
  conf_planetpearls :: int
  conf_altitude_limit :: int
  conf_tile_output_limit :: "int \<Rightarrow> int"
  conf_soil_improve_value :: int
  conf_aquatic_bonus_minerals :: int
  conf_alien_guaranteed_techs :: int
  conf_alien_early_start :: int
  conf_cult_early_start :: int
  conf_normal_elite_moves :: int
  conf_native_elite_moves :: int
  conf_native_weak_until_turn :: int
  conf_native_lifecycle_levels :: "int \<Rightarrow> int"
  conf_cost_factor :: "int \<Rightarrow> int"
  conf_tech_cost_factor :: "int \<Rightarrow> int"
  conf_content_pop_player :: "int \<Rightarrow> int"
  conf_content_pop_computer :: "int \<Rightarrow> int"
  conf_unit_support_bonus :: "int \<Rightarrow> int"
  conf_facility_talent_value :: "int \<Rightarrow> int"
  conf_facility_defense_value :: "int \<Rightarrow> int"
  conf_dream_twister_bonus :: int
  conf_neural_amplifier_bonus :: int
  conf_fungal_tower_bonus :: int
  conf_planet_defense_bonus :: int
  conf_sensor_defense_ocean :: int
  conf_intercept_max_range :: int
  conf_collateral_damage_value :: int
  conf_repair_minimal :: int
  conf_repair_fungus :: int
  conf_repair_friendly :: int
  conf_repair_airbase :: int
  conf_repair_bunker :: int
  conf_repair_base :: int
  conf_repair_base_native :: int
  conf_repair_base_facility :: int
  conf_repair_nano_factory :: int
  conf_repair_battle_ogre :: int
  conf_minimal_popups :: int
  conf_diplo_patience :: int
  conf_skip_random_events :: u32
  conf_skip_random_factions :: u32
  conf_skip_gov_facility :: u64
  conf_faction_file_count :: int
  conf_reduced_mode :: int
  conf_debug_mode :: int
  conf_debug_verbose :: int

text \<open>The defaults of the declaration.\<close>

definition default_conf :: config where
  "default_conf = \<lparr>
     conf_video_mode = 0, conf_window_width = 1024, conf_window_height = 768, conf_minimised = 0,
     conf_video_player = 2, conf_playing_movie = 0, conf_screen_width = 1024, conf_screen_height = 768,
     conf_directdraw = 0, conf_disable_opening_movie = - 1, conf_smac_only = 0,
     conf_smooth_scrolling = 0, conf_scroll_area = 40, conf_auto_minimise = 0,
     conf_render_base_info = 1, conf_render_high_detail = 1, conf_editor_free_units = 1,
     conf_autosave_interval = 1, conf_warn_on_former_replace = 1, conf_manage_player_bases = 0,
     conf_manage_player_units = 0, conf_render_probe_labels = 1, conf_foreign_treaty_popup = 0,
     conf_game_event_popup = 0, conf_new_base_names = 1, conf_new_unit_names = 1,
     conf_design_units = 1, conf_factions_enabled = 7, conf_social_ai = 1, conf_social_ai_bias = 10,
     conf_tech_balance = 0, conf_base_hurry = 0, conf_base_spacing = 3, conf_base_nearby_limit = - 1,
     conf_expansion_limit = 100, conf_expansion_autoscale = 0, conf_limit_project_start = 0,
     conf_max_satellites = 20, conf_new_world_builder = 1,
     conf_world_sea_levels = (\<lambda>i. [46, 58, 70] ! nat i), conf_world_hills_mod = 40,
     conf_world_ocean_mod = 40, conf_world_islands_mod = 16, conf_world_continents = 0,
     conf_world_polar_caps = 1, conf_world_mirror_x = 0, conf_world_mirror_y = 0,
     conf_modified_landmarks = 0, conf_time_warp_mod = 1, conf_time_warp_techs = 5,
     conf_time_warp_projects = 1, conf_time_warp_start_turn = 40,
     conf_spawn_free_units = (\<lambda>i. [0, 0, 1, 0, 0, 1, 1, 0, 1] ! nat i),
     conf_player_colony_pods = 0, conf_computer_colony_pods = 0, conf_player_formers = 0,
     conf_computer_formers = 0, conf_player_satellites = (\<lambda>i. [0, 0, 0] ! nat i),
     conf_computer_satellites = (\<lambda>i. [0, 0, 0] ! nat i), conf_faction_placement = 1,
     conf_nutrient_bonus = 0, conf_rare_supply_pods = 0, conf_simple_cost_factor = 0,
     conf_revised_tech_cost = 1, conf_tech_rate_modifier = 100, conf_tech_stagnate_rate = 200,
     conf_fast_fungus_movement = 0, conf_magtube_movement_rate = 0, conf_road_movement_rate = 1,
     conf_max_movement_rate = 255, conf_chopper_attack_rate = 1, conf_base_event_turns = 10,
     conf_base_psych = 1, conf_nerve_staple_turns = 10, conf_nerve_staple_mod = - 10,
     conf_delay_drone_riots = 0, conf_activate_skipped_units = 1, conf_probe_action_fix = 1,
     conf_counter_espionage = 0, conf_ignore_reactor_power = 0, conf_long_range_artillery = 0,
     conf_modify_upgrade_cost = 0, conf_modify_unit_support = 0, conf_modify_unit_limit = 0,
     conf_max_veh_num = 2048, conf_skip_default_balance = 1, conf_early_research_start = 1,
     conf_base_capture_fix = 1, conf_facility_capture_fix = 1, conf_territory_border_fix = 1,
     conf_auto_relocate_hq = 1, conf_rebuild_secret_projects = 0, conf_steal_energy_rate = 100,
     conf_simple_hurry_cost = 1, conf_eco_damage_fix = 1, conf_clean_minerals = 16,
     conf_biology_lab_bonus = 2, conf_spawn_fungal_towers = 1, conf_spawn_spore_launchers = 1,
     conf_spawn_sealurks = 1, conf_spawn_battle_ogres = 1, conf_planetpearls = 1,
     conf_altitude_limit = 6, conf_tile_output_limit = (\<lambda>i. [2, 2, 2] ! nat i),
     conf_soil_improve_value = 0, conf_aquatic_bonus_minerals = 1, conf_alien_guaranteed_techs = 1,
     conf_alien_early_start = 0, conf_cult_early_start = 0, conf_normal_elite_moves = 1,
     conf_native_elite_moves = 0, conf_native_weak_until_turn = - 1,
     conf_native_lifecycle_levels = (\<lambda>i. [40, 80, 120, 160, 200, 240] ! nat i),
     conf_cost_factor = (\<lambda>i. [13, 12, 11, 10, 8, 7] ! nat i),
     conf_tech_cost_factor = (\<lambda>i. [124, 116, 108, 100, 84, 76] ! nat i),
     conf_content_pop_player = (\<lambda>i. [6, 5, 4, 3, 2, 1] ! nat i),
     conf_content_pop_computer = (\<lambda>i. [3, 3, 3, 3, 3, 3] ! nat i),
     conf_unit_support_bonus = (\<lambda>i. [0, 0, 0, 0, 0, 0] ! nat i),
     conf_facility_talent_value = (\<lambda>i. [1, 2, 1, 1] ! nat i),
     conf_facility_defense_value = (\<lambda>i. [100, 100, 100, 100] ! nat i),
     conf_dream_twister_bonus = 50, conf_neural_amplifier_bonus = 50, conf_fungal_tower_bonus = 50,
     conf_planet_defense_bonus = 0, conf_sensor_defense_ocean = 0, conf_intercept_max_range = 2,
     conf_collateral_damage_value = 3, conf_repair_minimal = 1, conf_repair_fungus = 2,
     conf_repair_friendly = 1, conf_repair_airbase = 1, conf_repair_bunker = 1, conf_repair_base = 1,
     conf_repair_base_native = 10, conf_repair_base_facility = 10, conf_repair_nano_factory = 10,
     conf_repair_battle_ogre = 0, conf_minimal_popups = 0, conf_diplo_patience = 0,
     conf_skip_random_events = 0, conf_skip_random_factions = 0, conf_skip_gov_facility = 0,
     conf_faction_file_count = 14, conf_reduced_mode = 0, conf_debug_mode = 0, conf_debug_verbose = 0\<rparr>"

text \<open>\<open>struct AIPlans\<close> of main.h.\<close>

record ai_plans =
  plan_main_region :: int
  plan_main_region_x :: int
  plan_main_region_y :: int
  plan_main_sea_region :: int
  plan_target_land_region :: int
  plan_prioritize_naval :: int
  plan_naval_scout_x :: int
  plan_naval_scout_y :: int
  plan_naval_airbase_x :: int
  plan_naval_airbase_y :: int
  plan_naval_start_x :: int
  plan_naval_start_y :: int
  plan_naval_end_x :: int
  plan_naval_end_y :: int
  plan_naval_beach_x :: int
  plan_naval_beach_y :: int
  plan_land_combat_units :: int
  plan_sea_combat_units :: int
  plan_air_combat_units :: int
  plan_probe_units :: int
  plan_missile_units :: int
  plan_transport_units :: int
  plan_unknown_factions :: int
  plan_contacted_factions :: int
  plan_enemy_factions :: int
  plan_build_tubes :: int
  plan_project_limit :: int
  plan_median_limit :: int
  plan_energy_limit :: int
  plan_psi_score :: int
  plan_keep_fungus :: int
  plan_plant_fungus :: int
  plan_satellite_goal :: int
  plan_enemy_odp :: int
  plan_enemy_sat :: int
  plan_mil_strength :: int
  plan_defense_modifier :: int
  plan_max_offense_value :: int
  plan_max_defense_value :: int
  plan_enemy_bases :: int
  plan_captured_bases :: int

definition blank_ai_plans :: ai_plans where
  "blank_ai_plans = \<lparr>
     plan_main_region = - 1, plan_main_region_x = - 1, plan_main_region_y = - 1,
     plan_main_sea_region = - 1, plan_target_land_region = - 1, plan_prioritize_naval = 0,
     plan_naval_scout_x = - 1, plan_naval_scout_y = - 1, plan_naval_airbase_x = - 1,
     plan_naval_airbase_y = - 1, plan_naval_start_x = - 1, plan_naval_start_y = - 1,
     plan_naval_end_x = - 1, plan_naval_end_y = - 1, plan_naval_beach_x = - 1,
     plan_naval_beach_y = - 1, plan_land_combat_units = 0, plan_sea_combat_units = 0,
     plan_air_combat_units = 0, plan_probe_units = 0, plan_missile_units = 0, plan_transport_units = 0,
     plan_unknown_factions = 0, plan_contacted_factions = 0, plan_enemy_factions = 0,
     plan_build_tubes = 0, plan_project_limit = 5, plan_median_limit = 5, plan_energy_limit = 15,
     plan_psi_score = 0, plan_keep_fungus = 0, plan_plant_fungus = 0, plan_satellite_goal = 0,
     plan_enemy_odp = 0, plan_enemy_sat = 0, plan_mil_strength = 0, plan_defense_modifier = 0,
     plan_max_offense_value = 0, plan_max_defense_value = 0, plan_enemy_bases = 0,
     plan_captured_bases = 0\<rparr>"

end
