(* ===== verification/Engine.thy ===== *)
theory Engine
  imports Consts Engine_Rules Engine_Faction Engine_Config
begin

section \<open>The game state (engine_types.h, engine_base.h, engine_veh.h, engine.h)\<close>

text \<open>
  Squares, bases, prototypes, units and the global variables. A C array indexed by an identifier is a
  function from \<open>int\<close>; the bounds checks the code has are in the operations. A pointer to a map square
  is the index of the square in \<open>MapTiles\<close>, and the NULL pointer is \<open>None\<close>. The blank values are
  the zeroed memory the engine starts from; concrete examples are updates of them.
\<close>

text \<open>\<open>struct MAP\<close> of engine_types.h.\<close>

record tile =
  sq_climate :: u8
  sq_contour :: u8
  sq_val2 :: u8
  sq_region :: u8
  sq_visibility :: u8
  sq_val3 :: u8
  sq_unk_1 :: int
  sq_owner :: int
  sq_items :: u32
  sq_landmarks :: u32
  sq_visible_items :: "int \<Rightarrow> u32"

definition blank_tile :: tile where
  "blank_tile = \<lparr>
     sq_climate = 0, sq_contour = 0, sq_val2 = 0, sq_region = 0, sq_visibility = 0, sq_val3 = 0,
     sq_unk_1 = 0, sq_owner = 0, sq_items = 0, sq_landmarks = 0, sq_visible_items = (\<lambda>_. 0)\<rparr>"

text \<open>\<open>struct Landmark\<close> of engine_types.h.\<close>

record landmark =
  lm_x :: int
  lm_y :: int
  lm_name :: string

definition blank_landmark :: landmark where
  "blank_landmark = \<lparr>
     lm_x = 0, lm_y = 0, lm_name = []\<rparr>"

text \<open>\<open>struct Continent\<close> of engine_types.h.\<close>

record continent =
  con_tile_count :: int
  con_open_terrain :: int
  con_world_site :: int
  con_pods :: int
  con_unk_5 :: int
  con_sea_coasts :: "int \<Rightarrow> u8"

definition blank_continent :: continent where
  "blank_continent = \<lparr>
     con_tile_count = 0, con_open_terrain = 0, con_world_site = 0, con_pods = 0, con_unk_5 = 0,
     con_sea_coasts = (\<lambda>_. 0)\<rparr>"

text \<open>\<open>struct BASE\<close> of engine_base.h.\<close>

record base =
  base_x :: int
  base_y :: int
  base_faction_id :: int
  base_faction_id_former :: int
  base_pop_size :: int
  base_assimilation_turns_left :: int
  base_nerve_staple_turns_left :: int
  base_ai_plan_status :: int
  base_visibility :: u8
  base_factions_pop_size_intel :: "int \<Rightarrow> int"
  base_name :: string
  base_unk_x :: int
  base_unk_y :: int
  base_state_flags :: u32
  base_event_flags :: u32
  base_governor_flags :: u32
  base_nutrients_accumulated :: int
  base_minerals_accumulated :: int
  base_production_id_last :: int
  base_eco_damage :: int
  base_queue_size :: int
  base_queue_items :: "int \<Rightarrow> int"
  base_worked_tiles :: u32
  base_specialist_total :: int
  base_specialist_adjust :: int
  base_specialist_types :: "int \<Rightarrow> u32"
  base_facilities_built :: "int \<Rightarrow> u8"
  base_mineral_surplus_final :: int
  base_minerals_accumulated_2 :: int
  base_pad_1 :: int
  base_pad_2 :: int
  base_pad_3 :: int
  base_pad_4 :: int
  base_nutrient_intake :: int
  base_mineral_intake :: int
  base_energy_intake :: int
  base_unused_intake :: int
  base_nutrient_intake_2 :: int
  base_mineral_intake_2 :: int
  base_energy_intake_2 :: int
  base_unused_intake_2 :: int
  base_nutrient_surplus :: int
  base_mineral_surplus :: int
  base_energy_surplus :: int
  base_unused_surplus :: int
  base_nutrient_inefficiency :: int
  base_mineral_inefficiency :: int
  base_energy_inefficiency :: int
  base_unused_inefficiency :: int
  base_nutrient_consumption :: int
  base_mineral_consumption :: int
  base_energy_consumption :: int
  base_unused_consumption :: int
  base_economy_total :: int
  base_psych_total :: int
  base_labs_total :: int
  base_unk_total :: int
  base_autoforward_land_base_id :: int
  base_autoforward_sea_base_id :: int
  base_autoforward_air_base_id :: int
  base_pad_5 :: int
  base_talent_total :: int
  base_drone_total :: int
  base_superdrone_total :: int
  base_random_event_turns :: int
  base_nerve_staple_count :: int
  base_defend_goal :: int
  base_defend_range :: int
  base_pad_6 :: int
  base_pad_7 :: int
  base_pad_8 :: int

definition blank_base :: base where
  "blank_base = \<lparr>
     base_x = 0, base_y = 0, base_faction_id = 0, base_faction_id_former = 0, base_pop_size = 0,
     base_assimilation_turns_left = 0, base_nerve_staple_turns_left = 0, base_ai_plan_status = 0,
     base_visibility = 0, base_factions_pop_size_intel = (\<lambda>_. 0), base_name = [],
     base_unk_x = 0, base_unk_y = 0, base_state_flags = 0, base_event_flags = 0,
     base_governor_flags = 0, base_nutrients_accumulated = 0, base_minerals_accumulated = 0,
     base_production_id_last = 0, base_eco_damage = 0, base_queue_size = 0,
     base_queue_items = (\<lambda>_. 0), base_worked_tiles = 0, base_specialist_total = 0,
     base_specialist_adjust = 0, base_specialist_types = (\<lambda>_. 0),
     base_facilities_built = (\<lambda>_. 0), base_mineral_surplus_final = 0,
     base_minerals_accumulated_2 = 0, base_pad_1 = 0, base_pad_2 = 0, base_pad_3 = 0, base_pad_4 = 0,
     base_nutrient_intake = 0, base_mineral_intake = 0, base_energy_intake = 0, base_unused_intake = 0,
     base_nutrient_intake_2 = 0, base_mineral_intake_2 = 0, base_energy_intake_2 = 0,
     base_unused_intake_2 = 0, base_nutrient_surplus = 0, base_mineral_surplus = 0,
     base_energy_surplus = 0, base_unused_surplus = 0, base_nutrient_inefficiency = 0,
     base_mineral_inefficiency = 0, base_energy_inefficiency = 0, base_unused_inefficiency = 0,
     base_nutrient_consumption = 0, base_mineral_consumption = 0, base_energy_consumption = 0,
     base_unused_consumption = 0, base_economy_total = 0, base_psych_total = 0, base_labs_total = 0,
     base_unk_total = 0, base_autoforward_land_base_id = 0, base_autoforward_sea_base_id = 0,
     base_autoforward_air_base_id = 0, base_pad_5 = 0, base_talent_total = 0, base_drone_total = 0,
     base_superdrone_total = 0, base_random_event_turns = 0, base_nerve_staple_count = 0,
     base_defend_goal = 0, base_defend_range = 0, base_pad_6 = 0, base_pad_7 = 0, base_pad_8 = 0\<rparr>"

text \<open>\<open>struct UNIT\<close> of engine_veh.h.\<close>

record unit_proto =
  unit_name :: string
  unit_ability_flags :: u32
  unit_chassis_id :: int
  unit_weapon_id :: int
  unit_armor_id :: int
  unit_reactor_id :: int
  unit_carry_capacity :: int
  unit_cost :: int
  unit_plan :: int
  unit_group_id :: int
  unit_obsolete_factions :: u8
  unit_combat_factions :: u8
  unit_icon_offset :: int
  unit_pad_1 :: int
  unit_unit_flags :: u16
  unit_preq_tech :: int

definition blank_unit_proto :: unit_proto where
  "blank_unit_proto = \<lparr>
     unit_name = [], unit_ability_flags = 0, unit_chassis_id = 0, unit_weapon_id = 0,
     unit_armor_id = 0, unit_reactor_id = 0, unit_carry_capacity = 0, unit_cost = 0, unit_plan = 0,
     unit_group_id = 0, unit_obsolete_factions = 0, unit_combat_factions = 0, unit_icon_offset = 0,
     unit_pad_1 = 0, unit_unit_flags = 0, unit_preq_tech = 0\<rparr>"

text \<open>\<open>struct VEH\<close> of engine_veh.h.\<close>

record veh =
  veh_x :: int
  veh_y :: int
  veh_state :: u32
  veh_flags :: u16
  veh_unit_id :: int
  veh_pad_0 :: int
  veh_faction_id :: int
  veh_year_end_lurking :: int
  veh_damage_taken :: int
  veh_order :: int
  veh_waypoint_count :: int
  veh_patrol_current_point :: int
  veh_waypoint_x :: "int \<Rightarrow> int"
  veh_waypoint_y :: "int \<Rightarrow> int"
  veh_morale :: int
  veh_movement_turns :: int
  veh_order_auto_type :: int
  veh_visibility :: u8
  veh_moves_spent :: int
  veh_rotate_angle :: int
  veh_iter_count :: int
  veh_status_icon :: int
  veh_probe_action :: u8
  veh_probe_sabotage_id :: int
  veh_home_base_id :: int
  veh_next_veh_id_stack :: int
  veh_prev_veh_id_stack :: int

definition blank_veh :: veh where
  "blank_veh = \<lparr>
     veh_x = 0, veh_y = 0, veh_state = 0, veh_flags = 0, veh_unit_id = 0, veh_pad_0 = 0,
     veh_faction_id = 0, veh_year_end_lurking = 0, veh_damage_taken = 0, veh_order = 0,
     veh_waypoint_count = 0, veh_patrol_current_point = 0, veh_waypoint_x = (\<lambda>_. 0),
     veh_waypoint_y = (\<lambda>_. 0), veh_morale = 0, veh_movement_turns = 0, veh_order_auto_type = 0,
     veh_visibility = 0, veh_moves_spent = 0, veh_rotate_angle = 0, veh_iter_count = 0,
     veh_status_icon = 0, veh_probe_action = 0, veh_probe_sabotage_id = 0, veh_home_base_id = 0,
     veh_next_veh_id_stack = 0, veh_prev_veh_id_stack = 0\<rparr>"

text \<open>The global variables of engine.h, with the tables and arrays they point to.\<close>

record game =
  MapAreaX :: int
  MapAreaY :: int
  MapHalfX :: int
  MapAreaTiles :: int
  MapAreaSqRoot :: int
  MapRandomSeed :: int
  MapToggleFlat :: u32
  MapSeaLevel :: int
  MapSeaLevelCouncil :: int
  MapSizePlanet :: int
  AltNatural :: "int \<Rightarrow> int"
  Continents :: "int \<Rightarrow> continent"
  MapTiles :: "int \<Rightarrow> tile"
  MapLandmarkCount :: int
  Landmarks :: "int \<Rightarrow> landmark"
  GameDrawState :: u32
  GameState :: u32
  GameRules :: u32
  GameMoreRules :: u32
  GamePreferences :: u32
  GameMorePreferences :: u32
  GameWarnings :: u32
  MultiplayerActive :: bool
  PbemActive :: bool
  ExpansionEnabled :: bool
  CurrentTurn :: int
  DiffLevel :: int
  CurrentFaction :: int
  CurrentPlayerFaction :: int
  CurrentBaseID :: int
  CurrentVehID :: int
  CurrentMissionYear :: int
  StartingMissionYear :: int
  EndingMissionYear :: int
  GovernorFaction :: int
  SunspotDuration :: int
  DustCloudDuration :: int
  MountPlanetX :: int
  MountPlanetY :: int
  SolarFlaresEvent :: int
  ClimateFutureChange :: int
  TectonicDetonationCount :: "int \<Rightarrow> int"
  TechValidCount :: int
  TechCommerceCount :: int
  ScnVictFacilityObj :: int
  ScoreBonusPts :: int
  ObjectiveReqVictory :: int
  ObjectivesSuddenDeathVictory :: int
  ObjectiveAchievePts :: int
  VictoryAchieveBonusPts :: int
  FactionStatus :: "int \<Rightarrow> u8"
  FactionRankings :: "int \<Rightarrow> int"
  CostRatios :: "int \<Rightarrow> int"
  SecretProjects :: "int \<Rightarrow> int"
  TechOwners :: "int \<Rightarrow> u8"
  ProposalPassCount :: "int \<Rightarrow> int"
  ProposalCallTurn :: "int \<Rightarrow> int"
  DiploFriction :: int
  DiploFrictionFactionIDWith :: int
  DiploFrictionFactionID :: int
  FactionRankingsUnk :: "int \<Rightarrow> int"
  dword_74DA9C :: u32
  MapWin_cOwner :: int
  Factions :: "int \<Rightarrow> faction"
  MFactions :: "int \<Rightarrow> mfaction"
  BaseCount :: int
  Bases :: "int \<Rightarrow> base"
  VehCount :: int
  Vehs :: "int \<Rightarrow> veh"
  Units :: "int \<Rightarrow> unit_proto"
  Rules :: crules
  ResInfo :: resource_info
  Facility :: "int \<Rightarrow> cfacility"
  Tech :: "int \<Rightarrow> ctech"
  Citizen :: "int \<Rightarrow> ccitizen"
  Ability :: "int \<Rightarrow> cability"
  Chassis :: "int \<Rightarrow> cchassis"
  Armor :: "int \<Rightarrow> carmor"
  Reactor :: "int \<Rightarrow> creactor"
  Weapon :: "int \<Rightarrow> cweapon"
  Terraform :: "int \<Rightarrow> cterraform"
  SocialField :: "int \<Rightarrow> csocialfield"
  Proposal :: "int \<Rightarrow> cproposal"
  conf :: config
  GameInterludeState :: int
  EnergyCredits :: int
  GameTimeControl :: int
  MapOceanCoverage :: int
  MapLandCoverage :: int
  MapErosiveForces :: int
  MapPlanetaryOrbit :: int
  MapCloudCover :: int
  MapNativeLifeForms :: int
  MapAbstractX :: int
  MapAbstractY :: int
  MapAbstractCount :: int
  MapBaseSubmergedCount :: "int \<Rightarrow> int"
  MapBaseIdClosestSubmergedVeh :: "int \<Rightarrow> int"
  BrushVal1 :: int
  BrushVal2 :: int
  WorldBuildVal1 :: int
  AltNaturalDefault :: int
  FactionCombatWin :: "int \<Rightarrow> int"
  FactionCombatLoss :: "int \<Rightarrow> int"
  ClimateValueA :: int
  ClimateValueB :: int
  ClimateValueC :: int
  ClimateLevel :: int
  ScorePopTotal :: int
  ComputeBaseID :: int
  BaseFindDist :: int
  BaseUpkeepState :: int
  BaseTileFlags :: "int \<Rightarrow> u32"
  BaseResourceConvoyFrom :: "int \<Rightarrow> int"
  BaseResourceConvoyTo :: "int \<Rightarrow> int"
  BaseVehPacifismCount :: int
  BaseForcesSupported :: int
  BaseForcesMaintCost :: int
  BaseForcesMaintCount :: int
  BaseGrowthRate :: int
  BaseCommerceImport :: "int \<Rightarrow> int"
  BaseCommerceExport :: "int \<Rightarrow> int"
  BaseTerraformEnergy :: int
  BaseTerraformReduce :: int
  ControlTurnC :: int
  ControlUpkeepA :: int
  WorldSkipTerritory :: int
  VehDrawAttackID :: int
  VehDrawDefendID :: int
  VehFindDist :: int
  VehDropLiftVehID :: int
  VehLiftX :: int
  VehLiftY :: int
  VehBitError :: int
  VehBattleState :: int
  VehBasicBattleMorale :: "int \<Rightarrow> int"
  MapWin_iUnit :: int
  MapWin_field_23BE0 :: int
  StatusWin_dword_8C6B2C :: int
  StatusWin_dword_8C6B34 :: int
  ProbeHasAlgoEnhancement :: int
  ProbeTargetFactionID :: int
  ProbeTargetHasHSA :: int
  RankingFactionIDUnk1 :: int
  RankingFactionIDUnk2 :: int
  plans :: "int \<Rightarrow> ai_plans"
  CurrentBase :: "int option"
  delay_base_riot :: bool
  base_yield_active :: bool
  BasePsychTalents :: "int \<Rightarrow> int"
  BasePsychNDrones :: "int \<Rightarrow> int"
  BasePsychSDrones :: "int \<Rightarrow> int"
  BaseReservedTiles :: int
  BaseUpkeepDrawID :: int
  BaseUpkeepFlag :: int
  WorldBuilder_sea_level_rises :: int
  WorldAddTemperature :: int
  VehAttackFlags :: u32
  VehBattleModCount :: "int \<Rightarrow> int"
  VehBattleModifier :: "int \<Rightarrow> int \<Rightarrow> int"

definition blank_game :: game where
  "blank_game = \<lparr>
     MapAreaX = 0, MapAreaY = 0, MapHalfX = 0, MapAreaTiles = 0, MapAreaSqRoot = 0, MapRandomSeed = 0,
     MapToggleFlat = 0, MapSeaLevel = 0, MapSeaLevelCouncil = 0, MapSizePlanet = 0,
     AltNatural = (\<lambda>_. 0), Continents = (\<lambda>_. blank_continent),
     MapTiles = (\<lambda>_. blank_tile), MapLandmarkCount = 0,
     Landmarks = (\<lambda>_. blank_landmark), GameDrawState = 0, GameState = 0, GameRules = 0,
     GameMoreRules = 0, GamePreferences = 0, GameMorePreferences = 0, GameWarnings = 0,
     MultiplayerActive = False, PbemActive = False, ExpansionEnabled = False, CurrentTurn = 0,
     DiffLevel = 0, CurrentFaction = 0, CurrentPlayerFaction = 0, CurrentBaseID = 0, CurrentVehID = 0,
     CurrentMissionYear = 0, StartingMissionYear = 0, EndingMissionYear = 0, GovernorFaction = 0,
     SunspotDuration = 0, DustCloudDuration = 0, MountPlanetX = 0, MountPlanetY = 0,
     SolarFlaresEvent = 0, ClimateFutureChange = 0, TectonicDetonationCount = (\<lambda>_. 0),
     TechValidCount = 0, TechCommerceCount = 0, ScnVictFacilityObj = 0, ScoreBonusPts = 0,
     ObjectiveReqVictory = 0, ObjectivesSuddenDeathVictory = 0, ObjectiveAchievePts = 0,
     VictoryAchieveBonusPts = 0, FactionStatus = (\<lambda>_. 0), FactionRankings = (\<lambda>_. 0),
     CostRatios = (\<lambda>_. 0), SecretProjects = (\<lambda>_. 0), TechOwners = (\<lambda>_. 0),
     ProposalPassCount = (\<lambda>_. 0), ProposalCallTurn = (\<lambda>_. 0), DiploFriction = 0,
     DiploFrictionFactionIDWith = 0, DiploFrictionFactionID = 0, FactionRankingsUnk = (\<lambda>_. 0),
     dword_74DA9C = 0, MapWin_cOwner = 0, Factions = (\<lambda>_. blank_faction),
     MFactions = (\<lambda>_. blank_mfaction), BaseCount = 0, Bases = (\<lambda>_. blank_base),
     VehCount = 0, Vehs = (\<lambda>_. blank_veh), Units = (\<lambda>_. blank_unit_proto),
     Rules = blank_crules, ResInfo = blank_resource_info, Facility = (\<lambda>_. blank_cfacility),
     Tech = (\<lambda>_. blank_ctech), Citizen = (\<lambda>_. blank_ccitizen),
     Ability = (\<lambda>_. blank_cability), Chassis = (\<lambda>_. blank_cchassis),
     Armor = (\<lambda>_. blank_carmor), Reactor = (\<lambda>_. blank_creactor),
     Weapon = (\<lambda>_. blank_cweapon), Terraform = (\<lambda>_. blank_cterraform),
     SocialField = (\<lambda>_. blank_csocialfield), Proposal = (\<lambda>_. blank_cproposal),
     conf = default_conf, GameInterludeState = 0, EnergyCredits = 0, GameTimeControl = 0,
     MapOceanCoverage = 0, MapLandCoverage = 0, MapErosiveForces = 0, MapPlanetaryOrbit = 0,
     MapCloudCover = 0, MapNativeLifeForms = 0, MapAbstractX = 0, MapAbstractY = 0,
     MapAbstractCount = 0, MapBaseSubmergedCount = (\<lambda>_. 0),
     MapBaseIdClosestSubmergedVeh = (\<lambda>_. 0), BrushVal1 = 0, BrushVal2 = 0, WorldBuildVal1 = 0,
     AltNaturalDefault = 0, FactionCombatWin = (\<lambda>_. 0), FactionCombatLoss = (\<lambda>_. 0),
     ClimateValueA = 0, ClimateValueB = 0, ClimateValueC = 0, ClimateLevel = 0, ScorePopTotal = 0,
     ComputeBaseID = 0, BaseFindDist = 0, BaseUpkeepState = 0, BaseTileFlags = (\<lambda>_. 0),
     BaseResourceConvoyFrom = (\<lambda>_. 0), BaseResourceConvoyTo = (\<lambda>_. 0),
     BaseVehPacifismCount = 0, BaseForcesSupported = 0, BaseForcesMaintCost = 0,
     BaseForcesMaintCount = 0, BaseGrowthRate = 0, BaseCommerceImport = (\<lambda>_. 0),
     BaseCommerceExport = (\<lambda>_. 0), BaseTerraformEnergy = 0, BaseTerraformReduce = 0,
     ControlTurnC = 0, ControlUpkeepA = 0, WorldSkipTerritory = 0, VehDrawAttackID = 0,
     VehDrawDefendID = 0, VehFindDist = 0, VehDropLiftVehID = 0, VehLiftX = 0, VehLiftY = 0,
     VehBitError = 0, VehBattleState = 0, VehBasicBattleMorale = (\<lambda>_. 0), MapWin_iUnit = 0,
     MapWin_field_23BE0 = 0, StatusWin_dword_8C6B2C = 0, StatusWin_dword_8C6B34 = 0,
     ProbeHasAlgoEnhancement = 0, ProbeTargetFactionID = 0, ProbeTargetHasHSA = 0,
     RankingFactionIDUnk1 = 0, RankingFactionIDUnk2 = 0, plans = (\<lambda>_. blank_ai_plans),
     CurrentBase = None, delay_base_riot = False, base_yield_active = False,
     BasePsychTalents = (\<lambda>_. 0), BasePsychNDrones = (\<lambda>_. 0),
     BasePsychSDrones = (\<lambda>_. 0), BaseReservedTiles = 0, BaseUpkeepDrawID = 0,
     BaseUpkeepFlag = 0, WorldBuilder_sea_level_rises = 0, WorldAddTemperature = 0, VehAttackFlags = 0,
     VehBattleModCount = (\<lambda>_. 0), VehBattleModifier = (\<lambda>_. (\<lambda>_. 0))\<rparr>"

end
