(* ===== verification/Tile.thy ===== *)
theory Tile
  imports Engine
begin

section \<open>Map squares (struct MAP of engine_types.h)\<close>

text \<open>
  The member functions of a map square and the bit fields it packs: altitude, rainfall and
  temperature share the byte \<open>climate\<close>; the colonisation score and the occupant share \<open>val2\<close>;
  rockiness, lock and user share \<open>val3\<close>; the landmark code is the top byte of \<open>landmarks\<close>.
\<close>

subsection \<open>Member functions\<close>

definition MAP_alt_level :: "tile \<Rightarrow> int" where
  "MAP_alt_level sq = uint (drop_bit 5 (sq_climate sq))"

definition MAP_code_at :: "tile \<Rightarrow> int" where
  "MAP_code_at sq = uint (drop_bit 24 (sq_landmarks sq))"

definition MAP_lm_items :: "tile \<Rightarrow> u32" where
  "MAP_lm_items sq = sq_landmarks sq AND 0xFFFF"

definition MAP_rocky_level :: "tile \<Rightarrow> int" where
  "MAP_rocky_level sq = uint (drop_bit 6 (sq_val3 sq))"

definition MAP_is_visible :: "tile \<Rightarrow> int \<Rightarrow> bool" where
  "MAP_is_visible sq faction_id = bit (sq_visibility sq) (nat faction_id)"

definition MAP_is_owned :: "tile \<Rightarrow> bool" where
  "MAP_is_owned sq \<longleftrightarrow> sq_owner sq \<ge> 0"

definition MAP_is_land_region :: "tile \<Rightarrow> bool" where
  "MAP_is_land_region sq \<longleftrightarrow> uint (sq_region sq) < 63"

definition MAP_is_pole_tile :: "tile \<Rightarrow> bool" where
  "MAP_is_pole_tile sq \<longleftrightarrow> sq_region sq = 63 \<or> sq_region sq = 127"

definition MAP_veh_owner :: "tile \<Rightarrow> int" where
  "MAP_veh_owner sq =
     (if uint (sq_val2 sq AND 0xF) \<ge> MaxPlayerNum then - 1 else uint (sq_val2 sq AND 0xF))"

definition MAP_is_base :: "tile \<Rightarrow> bool" where
  "MAP_is_base sq \<longleftrightarrow> sq_items sq AND BIT_BASE_IN_TILE \<noteq> 0 \<and> MAP_veh_owner sq \<ge> 0"

definition MAP_is_bunker :: "tile \<Rightarrow> bool" where
  "MAP_is_bunker sq \<longleftrightarrow> sq_items sq AND BIT_BUNKER \<noteq> 0"

definition MAP_is_airbase :: "tile \<Rightarrow> bool" where
  "MAP_is_airbase sq \<longleftrightarrow> MAP_is_base sq \<or> sq_items sq AND BIT_AIRBASE \<noteq> 0"

definition MAP_is_base_radius :: "tile \<Rightarrow> bool" where
  "MAP_is_base_radius sq \<longleftrightarrow> sq_items sq AND BIT_BASE_RADIUS \<noteq> 0"

definition MAP_is_base_or_bunker :: "tile \<Rightarrow> bool" where
  "MAP_is_base_or_bunker sq \<longleftrightarrow> MAP_is_base sq \<or> sq_items sq AND BIT_BUNKER \<noteq> 0"

definition MAP_is_fungus :: "tile \<Rightarrow> bool" where
  "MAP_is_fungus sq \<longleftrightarrow> sq_items sq AND BIT_FUNGUS \<noteq> 0 \<and> MAP_alt_level sq \<ge> ALT_OCEAN_SHELF"

definition MAP_is_rocky :: "tile \<Rightarrow> bool" where
  "MAP_is_rocky sq \<longleftrightarrow> sq_val3 sq AND TILE_ROCKY \<noteq> 0 \<and> MAP_alt_level sq \<ge> ALT_SHORE_LINE"

definition MAP_is_rolling :: "tile \<Rightarrow> bool" where
  "MAP_is_rolling sq \<longleftrightarrow> sq_val3 sq AND TILE_ROLLING \<noteq> 0"

definition MAP_is_arid :: "tile \<Rightarrow> bool" where
  "MAP_is_arid sq \<longleftrightarrow> \<not> (sq_climate sq AND (TILE_MOIST OR TILE_RAINY) \<noteq> 0)"

definition MAP_is_rainy :: "tile \<Rightarrow> bool" where
  "MAP_is_rainy sq \<longleftrightarrow> sq_climate sq AND TILE_RAINY \<noteq> 0"

definition MAP_is_moist :: "tile \<Rightarrow> bool" where
  "MAP_is_moist sq \<longleftrightarrow> sq_climate sq AND TILE_MOIST \<noteq> 0"

definition MAP_is_rainy_or_moist :: "tile \<Rightarrow> bool" where
  "MAP_is_rainy_or_moist sq \<longleftrightarrow> sq_climate sq AND (TILE_MOIST OR TILE_RAINY) \<noteq> 0"

definition MAP_volcano_center :: "tile \<Rightarrow> bool" where
  "MAP_volcano_center sq \<longleftrightarrow> sq_landmarks sq AND LM_VOLCANO \<noteq> 0 \<and> MAP_code_at sq = 0"

definition MAP_veh_in_tile :: "tile \<Rightarrow> bool" where
  "MAP_veh_in_tile sq \<longleftrightarrow> sq_items sq AND BIT_VEH_IN_TILE \<noteq> 0"

definition MAP_allow_base :: "tile \<Rightarrow> bool" where
  "MAP_allow_base sq \<longleftrightarrow> \<not> (sq_items sq AND (BIT_BASE_IN_TILE OR BIT_MONOLITH) \<noteq> 0)
     \<and> \<not> MAP_is_fungus sq \<and> \<not> MAP_is_rocky sq"

definition MAP_veh_who :: "tile \<Rightarrow> int" where
  "MAP_veh_who sq = (if sq_items sq AND BIT_VEH_IN_TILE \<noteq> 0 then MAP_veh_owner sq else - 1)"

definition MAP_base_who :: "tile \<Rightarrow> int" where
  "MAP_base_who sq = (if sq_items sq AND BIT_BASE_IN_TILE \<noteq> 0 then MAP_veh_owner sq else - 1)"

definition MAP_anything_at :: "tile \<Rightarrow> int" where
  "MAP_anything_at sq =
     (if sq_items sq AND (BIT_VEH_IN_TILE OR BIT_BASE_IN_TILE) \<noteq> 0 then MAP_veh_owner sq else - 1)"

definition MAP_allow_spawn :: "tile \<Rightarrow> bool" where
  "MAP_allow_spawn sq \<longleftrightarrow> MAP_allow_base sq \<and> MAP_veh_who sq < 0"

definition MAP_allow_supply :: "tile \<Rightarrow> bool" where
  "MAP_allow_supply sq \<longleftrightarrow> \<not> (sq_items sq
     AND (BIT_BASE_IN_TILE OR BIT_VEH_IN_TILE OR BIT_MONOLITH OR BIT_SUPPLY_REMOVE) \<noteq> 0)"

subsection \<open>Writes to the packed fields, as the setters of map.cpp do them\<close>

definition put_occupant :: "int \<Rightarrow> tile \<Rightarrow> tile" where
  "put_occupant faction_id sq =
     sq\<lparr>sq_val2 := (sq_val2 sq AND 0xF0) OR word_of_int (faction_id AND 0xF)\<rparr>"

definition put_site :: "u8 \<Rightarrow> tile \<Rightarrow> tile" where
  "put_site site sq = sq\<lparr>sq_val2 := (sq_val2 sq AND 0x0F) OR push_bit 4 site\<rparr>"

definition put_temp :: "u8 \<Rightarrow> tile \<Rightarrow> tile" where
  "put_temp v sq = sq\<lparr>sq_climate := (sq_climate sq AND 0xF8) OR (v AND 7)\<rparr>"

definition put_rainfall :: "u8 \<Rightarrow> tile \<Rightarrow> tile" where
  "put_rainfall v sq = sq\<lparr>sq_climate := (sq_climate sq AND 0xE7) OR push_bit 3 (v AND 3)\<rparr>"

definition put_rocky :: "u8 \<Rightarrow> tile \<Rightarrow> tile" where
  "put_rocky v sq = sq\<lparr>sq_val3 := (sq_val3 sq AND 0x3F) OR push_bit 6 v\<rparr>"

definition put_using :: "int \<Rightarrow> tile \<Rightarrow> tile" where
  "put_using faction_id sq =
     sq\<lparr>sq_val3 := (sq_val3 sq AND 0xF8) OR word_of_int (faction_id AND 7)\<rparr>"

definition put_lock :: "int \<Rightarrow> tile \<Rightarrow> tile" where
  "put_lock faction_id sq =
     sq\<lparr>sq_val3 := (sq_val3 sq AND 0xC7) OR push_bit 3 (word_of_int (faction_id AND 7))\<rparr>"

definition put_code :: "int \<Rightarrow> tile \<Rightarrow> tile" where
  "put_code code sq = sq\<lparr>sq_landmarks :=
     (sq_landmarks sq AND 0xFFFFFF) OR push_bit 24 (word_of_int code)\<rparr>"

definition get_temp :: "tile \<Rightarrow> int" where
  "get_temp sq = uint (sq_climate sq AND 7)"

definition get_using :: "tile \<Rightarrow> int" where
  "get_using sq = uint (sq_val3 sq AND 7)"

definition get_lock :: "tile \<Rightarrow> int" where
  "get_lock sq = uint (drop_bit 3 (sq_val3 sq) AND 7)"

subsection \<open>Offset tables (path.h)\<close>

definition TableRange :: "int list" where
  "TableRange = [1, 9, 25, 49, 81, 121, 169, 225, 289]"

definition TableOffsetX :: "int list" where
  "TableOffsetX = [
    0, 1, 2, 1, 0, -1, -2, -1, 0, 2, 2, -2, -2, 1, 3, 3, 1, -1, -3, -3, -1, 4, -4, 0, 0, 1, 2, 3,
    4, 5, 5, 4, 3, 2, 1, -1, -2, -3, -4, -5, -5, -4, -3, -2, -1, 0, 6, 0, -6, 0, 1, 2, 3, 4, 5,
    6, 7, 8, 7, 6, 5, 4, 3, 2, 1, 0, -1, -2, -3, -4, -5, -6, -7, -8, -7, -6, -5, -4, -3, -2, -1,
    0, 1, 2, 3, 4, 5, 6, 7, 8, 9, 10, 9, 8, 7, 6, 5, 4, 3, 2, 1, 0, -1, -2, -3, -4, -5, -6, -7,
    -8, -9, -10, -9, -8, -7, -6, -5, -4, -3, -2, -1, 0, 1, 2, 3, 4, 5, 6, 7, 8, 9, 10, 11, 12,
    11, 10, 9, 8, 7, 6, 5, 4, 3, 2, 1, 0, -1, -2, -3, -4, -5, -6, -7, -8, -9, -10, -11, -12, -11,
    -10, -9, -8, -7, -6, -5, -4, -3, -2, -1, 0, 1, 2, 3, 4, 5, 6, 7, 8, 9, 10, 11, 12, 13, 14,
    13, 12, 11, 10, 9, 8, 7, 6, 5, 4, 3, 2, 1, 0, -1, -2, -3, -4, -5, -6, -7, -8, -9, -10, -11,
    -12, -13, -14, -13, -12, -11, -10, -9, -8, -7, -6, -5, -4, -3, -2, -1, 0, 1, 2, 3, 4, 5, 6,
    7, 8, 9, 10, 11, 12, 13, 14, 15, 16, 15, 14, 13, 12, 11, 10, 9, 8, 7, 6, 5, 4, 3, 2, 1, 0,
    -1, -2, -3, -4, -5, -6, -7, -8, -9, -10, -11, -12, -13, -14, -15, -16, -15, -14, -13, -12,
    -11, -10, -9, -8, -7, -6, -5, -4, -3, -2, -1]"

definition TableOffsetY :: "int list" where
  "TableOffsetY = [
    0, -1, 0, 1, 2, 1, 0, -1, -2, -2, 2, 2, -2, -3, -1, 1, 3, 3, 1, -1, -3, 0, 0, 4, -4, -5, -4,
    -3, -2, -1, 1, 2, 3, 4, 5, 5, 4, 3, 2, 1, -1, -2, -3, -4, -5, 6, 0, -6, 0, -8, -7, -6, -5,
    -4, -3, -2, -1, 0, 1, 2, 3, 4, 5, 6, 7, 8, 7, 6, 5, 4, 3, 2, 1, 0, -1, -2, -3, -4, -5, -6,
    -7, -10, -9, -8, -7, -6, -5, -4, -3, -2, -1, 0, 1, 2, 3, 4, 5, 6, 7, 8, 9, 10, 9, 8, 7, 6, 5,
    4, 3, 2, 1, 0, -1, -2, -3, -4, -5, -6, -7, -8, -9, -12, -11, -10, -9, -8, -7, -6, -5, -4, -3,
    -2, -1, 0, 1, 2, 3, 4, 5, 6, 7, 8, 9, 10, 11, 12, 11, 10, 9, 8, 7, 6, 5, 4, 3, 2, 1, 0, -1,
    -2, -3, -4, -5, -6, -7, -8, -9, -10, -11, -14, -13, -12, -11, -10, -9, -8, -7, -6, -5, -4,
    -3, -2, -1, 0, 1, 2, 3, 4, 5, 6, 7, 8, 9, 10, 11, 12, 13, 14, 13, 12, 11, 10, 9, 8, 7, 6, 5,
    4, 3, 2, 1, 0, -1, -2, -3, -4, -5, -6, -7, -8, -9, -10, -11, -12, -13, -16, -15, -14, -13,
    -12, -11, -10, -9, -8, -7, -6, -5, -4, -3, -2, -1, 0, 1, 2, 3, 4, 5, 6, 7, 8, 9, 10, 11, 12,
    13, 14, 15, 16, 15, 14, 13, 12, 11, 10, 9, 8, 7, 6, 5, 4, 3, 2, 1, 0, -1, -2, -3, -4, -5, -6,
    -7, -8, -9, -10, -11, -12, -13, -14, -15]"

subsection \<open>Packed fields as an interface\<close>

lemma word8_eqI:
  assumes "\<And>n. n \<in> {0, 1, 2, 3, 4, 5, 6, 7} \<Longrightarrow> bit (a::u8) n = bit b n"
  shows "a = b"
proof (rule bit_word_eqI)
  fix n assume "n < LENGTH(8)"
  then have "n \<in> {0, 1, 2, 3, 4, 5, 6, 7}" by (auto simp: eval_nat_numeral less_Suc_eq)
  then show "bit a n = bit b n" by (rule assms)
qed

lemma bit_u8_beyond [simp]: "8 \<le> n \<Longrightarrow> bit (x::u8) n = False"
  by (auto dest: bit_imp_le_length)

locale packed_field =
  fixes get :: "'s \<Rightarrow> 'v" and put :: "'w \<Rightarrow> 's \<Rightarrow> 's" and dec :: "'w \<Rightarrow> 'v"
  assumes get_put: "get (put v s) = dec v"
    and put_put: "put v (put w s) = put v s"
begin

lemma put_idem: "put v (put v s) = put v s"
  by (rule put_put)

lemma last_write_wins: "get (fold put (vs @ [v]) s) = dec v"
  by (simp add: get_put)

end

locale packed_pair = a: packed_field get1 put1 dec1 + b: packed_field get2 put2 dec2
  for get1 :: "'s \<Rightarrow> 'v" and put1 :: "'w \<Rightarrow> 's \<Rightarrow> 's" and dec1 :: "'w \<Rightarrow> 'v"
    and get2 :: "'s \<Rightarrow> 'p" and put2 :: "'q \<Rightarrow> 's \<Rightarrow> 's" and dec2 :: "'q \<Rightarrow> 'p" +
  assumes commute: "put1 v (put2 w s) = put2 w (put1 v s)"
    and frame1: "get1 (put2 w s) = get1 s"
    and frame2: "get2 (put1 v s) = get2 s"
begin

lemma both_read_back: "get1 (put1 v (put2 w s)) = dec1 v \<and> get2 (put1 v (put2 w s)) = dec2 w"
  by (simp add: a.get_put frame2 b.get_put)

lemma fold_frame: "get2 (fold put1 vs s) = get2 s"
  by (induction vs arbitrary: s) (simp_all add: frame2)

end

definition MAP_occupant :: "tile \<Rightarrow> u8" where "MAP_occupant sq = sq_val2 sq AND 0xF"
definition MAP_site :: "tile \<Rightarrow> u8" where "MAP_site sq = drop_bit 4 (sq_val2 sq)"
definition MAP_rainfall :: "tile \<Rightarrow> u8" where "MAP_rainfall sq = drop_bit 3 (sq_climate sq) AND 3"

lemma word_of_int_and: "(word_of_int (i AND j) :: 'a::len word) = word_of_int i AND word_of_int j"
  by (rule bit_word_eqI) (simp add: bit_simps)

lemmas packed_defs = MAP_occupant_def put_occupant_def MAP_site_def put_site_def get_temp_def
  put_temp_def MAP_rainfall_def put_rainfall_def get_using_def put_using_def get_lock_def put_lock_def
  MAP_rocky_level_def put_rocky_def word_of_int_and

interpretation val2: packed_pair MAP_occupant put_occupant "\<lambda>f. word_of_int (f AND 0xF)"
    MAP_site put_site "\<lambda>v. v AND 0xF"
  by unfold_locales
   (auto simp: packed_defs bit_simps
      intro!: tile.equality word8_eqI simp del: drop_bit_eq_div push_bit_eq_mult)

interpretation climate: packed_pair get_temp put_temp "\<lambda>v. uint (v AND 7)"
    MAP_rainfall put_rainfall "\<lambda>v. v AND 3"
  by unfold_locales
   (auto simp: packed_defs bit_simps
      intro!: tile.equality word8_eqI arg_cong [where f = uint] simp del: drop_bit_eq_div push_bit_eq_mult)

interpretation val3: packed_pair get_lock put_lock "\<lambda>f. uint (word_of_int (f AND 7) :: u8)"
    get_using put_using "\<lambda>f. uint (word_of_int (f AND 7) :: u8)"
  by unfold_locales
   (auto simp: packed_defs bit_simps
      intro!: tile.equality word8_eqI arg_cong [where f = uint] simp del: drop_bit_eq_div push_bit_eq_mult)

interpretation rock: packed_pair get_lock put_lock "\<lambda>f. uint (word_of_int (f AND 7) :: u8)"
    MAP_rocky_level put_rocky "\<lambda>v. uint (v AND 3)"
  by unfold_locales
   (auto simp: packed_defs bit_simps
      intro!: tile.equality word8_eqI arg_cong [where f = uint] simp del: drop_bit_eq_div push_bit_eq_mult)

lemma lock_decode: "0 \<le> f \<Longrightarrow> f < 8 \<Longrightarrow> uint (word_of_int (f AND 7) :: u8) = f"
  using take_bit_int_eq_self [of f 3] take_bit_eq_mask [of 3 f]
  by (simp add: mask_eq_exp_minus_1 uint_word_of_int)

end
