(* ===== verification/Entities.thy ===== *)
theory Entities
  imports Tile
begin

section \<open>Members of bases, prototypes and units, and the status of factions\<close>

text \<open>
  The member functions of \<open>BASE\<close> (engine_base.h), \<open>UNIT\<close> and \<open>VEH\<close> (engine_veh.h), with the object
  as an argument after the game state, and the bits that say whether a faction is alive and who plays
  it (faction.cpp). A member that changes its object returns the new object.
\<close>

subsection \<open>Updates of one record of an array\<close>

definition upd_faction :: "int \<Rightarrow> (faction \<Rightarrow> faction) \<Rightarrow> game \<Rightarrow> game" where
  "upd_faction i f g = g\<lparr>Factions := (Factions g)(i := f (Factions g i))\<rparr>"

definition upd_base :: "int \<Rightarrow> (base \<Rightarrow> base) \<Rightarrow> game \<Rightarrow> game" where
  "upd_base i f g = g\<lparr>Bases := (Bases g)(i := f (Bases g i))\<rparr>"

definition upd_veh :: "int \<Rightarrow> (veh \<Rightarrow> veh) \<Rightarrow> game \<Rightarrow> game" where
  "upd_veh i f g = g\<lparr>Vehs := (Vehs g)(i := f (Vehs g i))\<rparr>"

subsection \<open>Factions (faction.cpp)\<close>

definition is_human :: "game \<Rightarrow> int \<Rightarrow> bool" where
  "is_human g faction_id = bit (FactionStatus g 0) (nat faction_id)"

definition is_alive :: "game \<Rightarrow> int \<Rightarrow> bool" where
  "is_alive g faction_id = bit (FactionStatus g 1) (nat faction_id)"

definition is_alien :: "game \<Rightarrow> int \<Rightarrow> bool" where
  "is_alien g faction_id \<longleftrightarrow> ExpansionEnabled g
     \<and> mf_rule_flags (MFactions g faction_id) AND RFLAG_ALIEN \<noteq> 0"

definition put_status :: "u8 \<Rightarrow> int \<Rightarrow> bool \<Rightarrow> u8" where
  "put_status w faction_id active =
     (if active then w OR push_bit (nat faction_id) 1 else w AND NOT (push_bit (nat faction_id) 1))"

definition set_human :: "game \<Rightarrow> int \<Rightarrow> bool \<Rightarrow> game" where
  "set_human g faction_id active = g\<lparr>FactionStatus :=
     (FactionStatus g)(0 := put_status (FactionStatus g 0) faction_id active)\<rparr>"

definition set_alive :: "game \<Rightarrow> int \<Rightarrow> bool \<Rightarrow> game" where
  "set_alive g faction_id active = g\<lparr>FactionStatus :=
     (FactionStatus g)(1 := put_status (FactionStatus g 1) faction_id active)\<rparr>"

definition thinker_enabled :: "game \<Rightarrow> int \<Rightarrow> bool" where
  "thinker_enabled g faction_id \<longleftrightarrow>
     faction_id > 0 \<and> faction_id \<le> conf_factions_enabled (conf g) \<and> \<not> is_human g faction_id"

definition thinker_move_upkeep :: "game \<Rightarrow> int \<Rightarrow> bool" where
  "thinker_move_upkeep g faction_id =
     (if is_human g faction_id then faction_id > 0 \<and> conf_manage_player_units (conf g) \<noteq> 0
      else faction_id > 0 \<and> faction_id \<le> conf_factions_enabled (conf g))"

subsection \<open>Prototypes (struct UNIT)\<close>

definition UNIT_triad :: "game \<Rightarrow> unit_proto \<Rightarrow> int" where
  "UNIT_triad g u = cchs_triad (Chassis g (unit_chassis_id u))"

definition UNIT_speed :: "game \<Rightarrow> unit_proto \<Rightarrow> int" where
  "UNIT_speed g u = cchs_speed (Chassis g (unit_chassis_id u))"

definition UNIT_range :: "game \<Rightarrow> unit_proto \<Rightarrow> int" where
  "UNIT_range g u = cchs_range (Chassis g (unit_chassis_id u))"

definition UNIT_armor_cost :: "game \<Rightarrow> unit_proto \<Rightarrow> int" where
  "UNIT_armor_cost g u = carm_cost (Armor g (unit_armor_id u))"

definition UNIT_weapon_cost :: "game \<Rightarrow> unit_proto \<Rightarrow> int" where
  "UNIT_weapon_cost g u = cwpn_cost (Weapon g (unit_weapon_id u))"

definition UNIT_weapon_mode :: "game \<Rightarrow> unit_proto \<Rightarrow> int" where
  "UNIT_weapon_mode g u = cwpn_mode (Weapon g (unit_weapon_id u))"

definition UNIT_offense_value :: "game \<Rightarrow> unit_proto \<Rightarrow> int" where
  "UNIT_offense_value g u = cwpn_offense_value (Weapon g (unit_weapon_id u))"

definition UNIT_defense_value :: "game \<Rightarrow> unit_proto \<Rightarrow> int" where
  "UNIT_defense_value g u = carm_defense_value (Armor g (unit_armor_id u))"

definition UNIT_is_planet_buster :: "unit_proto \<Rightarrow> int" where
  "UNIT_is_planet_buster u = (if unit_plan u = PLAN_PLANET_BUSTER then unit_reactor_id u else 0)"

definition UNIT_is_missile :: "game \<Rightarrow> unit_proto \<Rightarrow> int" where
  "UNIT_is_missile g u = cchs_missile (Chassis g (unit_chassis_id u))"

definition UNIT_is_active :: "unit_proto \<Rightarrow> bool" where
  "UNIT_is_active u \<longleftrightarrow> unit_unit_flags u AND UNIT_ACTIVE \<noteq> 0"

definition UNIT_is_prototyped :: "unit_proto \<Rightarrow> bool" where
  "UNIT_is_prototyped u \<longleftrightarrow> unit_unit_flags u AND UNIT_PROTOTYPED \<noteq> 0"

definition UNIT_is_pulse_armor :: "unit_proto \<Rightarrow> bool" where
  "UNIT_is_pulse_armor u \<longleftrightarrow> unit_armor_id u = ARM_PULSE_3_ARMOR \<or> unit_armor_id u = ARM_PULSE_8_ARMOR"

definition UNIT_is_resonance_armor :: "unit_proto \<Rightarrow> bool" where
  "UNIT_is_resonance_armor u \<longleftrightarrow>
     unit_armor_id u = ARM_RESONANCE_3_ARMOR \<or> unit_armor_id u = ARM_RESONANCE_8_ARMOR"

definition UNIT_is_resonance_weapon :: "unit_proto \<Rightarrow> bool" where
  "UNIT_is_resonance_weapon u \<longleftrightarrow>
     unit_weapon_id u = WPN_RESONANCE_LASER \<or> unit_weapon_id u = WPN_RESONANCE_BOLT"

definition UNIT_is_armored :: "game \<Rightarrow> unit_proto \<Rightarrow> bool" where
  "UNIT_is_armored g u \<longleftrightarrow> carm_defense_value (Armor g (unit_armor_id u)) \<noteq> 1"

definition UNIT_is_combat_unit :: "game \<Rightarrow> unit_proto \<Rightarrow> bool" where
  "UNIT_is_combat_unit g u \<longleftrightarrow> cwpn_offense_value (Weapon g (unit_weapon_id u)) \<noteq> 0"

definition UNIT_is_psi_unit :: "game \<Rightarrow> unit_proto \<Rightarrow> bool" where
  "UNIT_is_psi_unit g u \<longleftrightarrow> cwpn_offense_value (Weapon g (unit_weapon_id u)) < 0"

definition UNIT_is_garrison_unit :: "game \<Rightarrow> unit_proto \<Rightarrow> bool" where
  "UNIT_is_garrison_unit g u \<longleftrightarrow>
     (unit_plan u \<le> PLAN_RECON \<or> (unit_plan u = PLAN_PROBE \<and> UNIT_is_armored g u))
     \<and> UNIT_triad g u = TRIAD_LAND"

definition UNIT_is_police_unit :: "game \<Rightarrow> unit_proto \<Rightarrow> bool" where
  "UNIT_is_police_unit g u \<longleftrightarrow> unit_plan u \<le> PLAN_RECON \<and> UNIT_triad g u \<noteq> TRIAD_SEA"

definition UNIT_is_colony :: "unit_proto \<Rightarrow> bool" where
  "UNIT_is_colony u \<longleftrightarrow> unit_plan u = PLAN_COLONY"

definition UNIT_is_former :: "unit_proto \<Rightarrow> bool" where
  "UNIT_is_former u \<longleftrightarrow> unit_plan u = PLAN_TERRAFORM"

definition UNIT_is_probe :: "unit_proto \<Rightarrow> bool" where
  "UNIT_is_probe u \<longleftrightarrow> unit_plan u = PLAN_PROBE"

definition UNIT_is_supply :: "unit_proto \<Rightarrow> bool" where
  "UNIT_is_supply u \<longleftrightarrow> unit_plan u = PLAN_SUPPLY"

definition UNIT_is_transport :: "unit_proto \<Rightarrow> bool" where
  "UNIT_is_transport u \<longleftrightarrow> unit_plan u = PLAN_NAVAL_TRANSPORT"

definition UNIT_is_artifact :: "unit_proto \<Rightarrow> bool" where
  "UNIT_is_artifact u \<longleftrightarrow> unit_plan u = PLAN_ARTIFACT"

subsection \<open>Units (struct VEH)\<close>

definition VEH_unit :: "game \<Rightarrow> veh \<Rightarrow> unit_proto" where
  "VEH_unit g v = Units g (veh_unit_id v)"

definition VEH_name :: "game \<Rightarrow> veh \<Rightarrow> string" where
  "VEH_name g v = unit_name (Units g (veh_unit_id v))"

definition VEH_triad :: "game \<Rightarrow> veh \<Rightarrow> int" where
  "VEH_triad g v = cchs_triad (Chassis g (unit_chassis_id (Units g (veh_unit_id v))))"

definition VEH_speed :: "game \<Rightarrow> veh \<Rightarrow> int" where
  "VEH_speed g v = cchs_speed (Chassis g (unit_chassis_id (Units g (veh_unit_id v))))"

definition VEH_range :: "game \<Rightarrow> veh \<Rightarrow> int" where
  "VEH_range g v = cchs_range (Chassis g (unit_chassis_id (Units g (veh_unit_id v))))"

definition VEH_cost :: "game \<Rightarrow> veh \<Rightarrow> int" where
  "VEH_cost g v = unit_cost (Units g (veh_unit_id v))"

definition VEH_plan :: "game \<Rightarrow> veh \<Rightarrow> int" where
  "VEH_plan g v = unit_plan (Units g (veh_unit_id v))"

definition VEH_chassis_type :: "game \<Rightarrow> veh \<Rightarrow> int" where
  "VEH_chassis_type g v = unit_chassis_id (Units g (veh_unit_id v))"

definition VEH_reactor_type :: "game \<Rightarrow> veh \<Rightarrow> int" where
  "VEH_reactor_type g v = min 4 (max 1 (unit_reactor_id (Units g (veh_unit_id v))))"

definition VEH_is_artifact :: "game \<Rightarrow> veh \<Rightarrow> bool" where
  "VEH_is_artifact g v = UNIT_is_artifact (Units g (veh_unit_id v))"

definition VEH_max_hitpoints :: "game \<Rightarrow> veh \<Rightarrow> int" where
  "VEH_max_hitpoints g v = (if VEH_is_artifact g v then 1 else 10 * VEH_reactor_type g v)"

definition VEH_cur_hitpoints :: "game \<Rightarrow> veh \<Rightarrow> int" where
  "VEH_cur_hitpoints g v =
     (if VEH_is_artifact g v then of_bool (veh_damage_taken v = 0)
      else max 0 (10 * VEH_reactor_type g v - veh_damage_taken v))"

definition VEH_lifecycle_value :: "veh \<Rightarrow> int" where
  "VEH_lifecycle_value v = (if veh_flags v AND VFLAG_ADD_ONE_MORALE \<noteq> 0 then 1 else 0)
     + (if veh_flags v AND VFLAG_ADD_TWO_MORALE \<noteq> 0 then 2 else 0)"

definition VEH_set_lifecycle_value :: "int \<Rightarrow> veh \<Rightarrow> veh" where
  "VEH_set_lifecycle_value level v =
     (let level = min 3 (max 0 level);
          flags = veh_flags v AND NOT (VFLAG_ADD_ONE_MORALE OR VFLAG_ADD_TWO_MORALE);
          flags = (if odd level then flags OR VFLAG_ADD_ONE_MORALE else flags);
          flags = (if odd (level div 2) then flags OR VFLAG_ADD_TWO_MORALE else flags)
      in v\<lparr>veh_flags := flags\<rparr>)"

definition VEH_armor_type :: "game \<Rightarrow> veh \<Rightarrow> int" where
  "VEH_armor_type g v = unit_armor_id (Units g (veh_unit_id v))"

definition VEH_weapon_type :: "game \<Rightarrow> veh \<Rightarrow> int" where
  "VEH_weapon_type g v = unit_weapon_id (Units g (veh_unit_id v))"

definition VEH_weapon_mode :: "game \<Rightarrow> veh \<Rightarrow> int" where
  "VEH_weapon_mode g v = UNIT_weapon_mode g (Units g (veh_unit_id v))"

definition VEH_offense_value :: "game \<Rightarrow> veh \<Rightarrow> int" where
  "VEH_offense_value g v = UNIT_offense_value g (Units g (veh_unit_id v))"

definition VEH_defense_value :: "game \<Rightarrow> veh \<Rightarrow> int" where
  "VEH_defense_value g v = UNIT_defense_value g (Units g (veh_unit_id v))"

definition VEH_is_planet_buster :: "game \<Rightarrow> veh \<Rightarrow> int" where
  "VEH_is_planet_buster g v = UNIT_is_planet_buster (Units g (veh_unit_id v))"

definition VEH_is_missile :: "game \<Rightarrow> veh \<Rightarrow> int" where
  "VEH_is_missile g v = UNIT_is_missile g (Units g (veh_unit_id v))"

definition VEH_is_pulse_armor :: "game \<Rightarrow> veh \<Rightarrow> bool" where
  "VEH_is_pulse_armor g v = UNIT_is_pulse_armor (Units g (veh_unit_id v))"

definition VEH_is_resonance_armor :: "game \<Rightarrow> veh \<Rightarrow> bool" where
  "VEH_is_resonance_armor g v = UNIT_is_resonance_armor (Units g (veh_unit_id v))"

definition VEH_is_resonance_weapon :: "game \<Rightarrow> veh \<Rightarrow> bool" where
  "VEH_is_resonance_weapon g v = UNIT_is_resonance_weapon (Units g (veh_unit_id v))"

definition VEH_is_armored :: "game \<Rightarrow> veh \<Rightarrow> bool" where
  "VEH_is_armored g v = UNIT_is_armored g (Units g (veh_unit_id v))"

definition VEH_is_combat_unit :: "game \<Rightarrow> veh \<Rightarrow> bool" where
  "VEH_is_combat_unit g v \<longleftrightarrow>
     UNIT_is_combat_unit g (Units g (veh_unit_id v)) \<and> veh_unit_id v \<noteq> BSC_FUNGAL_TOWER"

definition VEH_is_garrison_unit :: "game \<Rightarrow> veh \<Rightarrow> bool" where
  "VEH_is_garrison_unit g v = UNIT_is_garrison_unit g (Units g (veh_unit_id v))"

definition VEH_is_police_unit :: "game \<Rightarrow> veh \<Rightarrow> bool" where
  "VEH_is_police_unit g v = UNIT_is_police_unit g (Units g (veh_unit_id v))"

definition VEH_is_native_unit :: "game \<Rightarrow> veh \<Rightarrow> bool" where
  "VEH_is_native_unit g v \<longleftrightarrow> veh_unit_id v < MaxProtoFactionNum
     \<and> UNIT_offense_value g (Units g (veh_unit_id v)) < 0"

definition VEH_is_battle_ogre :: "veh \<Rightarrow> bool" where
  "VEH_is_battle_ogre v \<longleftrightarrow> veh_unit_id v = BSC_BATTLE_OGRE_MK1
     \<or> veh_unit_id v = BSC_BATTLE_OGRE_MK2 \<or> veh_unit_id v = BSC_BATTLE_OGRE_MK3"

definition VEH_is_colony :: "game \<Rightarrow> veh \<Rightarrow> bool" where
  "VEH_is_colony g v = UNIT_is_colony (Units g (veh_unit_id v))"

definition VEH_is_former :: "game \<Rightarrow> veh \<Rightarrow> bool" where
  "VEH_is_former g v = UNIT_is_former (Units g (veh_unit_id v))"

definition VEH_is_probe :: "game \<Rightarrow> veh \<Rightarrow> bool" where
  "VEH_is_probe g v = UNIT_is_probe (Units g (veh_unit_id v))"

definition VEH_is_supply :: "game \<Rightarrow> veh \<Rightarrow> bool" where
  "VEH_is_supply g v = UNIT_is_supply (Units g (veh_unit_id v))"

definition VEH_is_transport :: "game \<Rightarrow> veh \<Rightarrow> bool" where
  "VEH_is_transport g v = UNIT_is_transport (Units g (veh_unit_id v))"

definition VEH_is_visible :: "veh \<Rightarrow> int \<Rightarrow> bool" where
  "VEH_is_visible v faction = bit (veh_visibility v) (nat faction)"

definition VEH_is_invisible_lurker :: "veh \<Rightarrow> bool" where
  "VEH_is_invisible_lurker v \<longleftrightarrow>
     veh_flags v AND (VFLAG_INVISIBLE OR VFLAG_LURKER) = (VFLAG_INVISIBLE OR VFLAG_LURKER)"

definition VEH_is_patrol_order :: "veh \<Rightarrow> bool" where
  "VEH_is_patrol_order v \<longleftrightarrow> (veh_order v = ORDER_NONE \<or> veh_order v = ORDER_MOVE_TO)
     \<and> veh_waypoint_count v > 0 \<and> \<not> (veh_state v AND VSTATE_EXPLORE \<noteq> 0)
     \<and> veh_state v AND (VSTATE_UNK_1000000 OR VSTATE_ON_ALERT) = (VSTATE_UNK_1000000 OR VSTATE_ON_ALERT)"

definition VEH_plr_owner :: "game \<Rightarrow> veh \<Rightarrow> bool" where
  "VEH_plr_owner g v = is_human g (veh_faction_id v)"

definition VEH_at_target :: "veh \<Rightarrow> bool" where
  "VEH_at_target v \<longleftrightarrow> veh_order v = ORDER_NONE \<or> veh_order v = ORDER_HOLD
     \<or> (veh_waypoint_x v 0 < 0 \<and> veh_waypoint_y v 0 < 0)
     \<or> (veh_x v = veh_waypoint_x v 0 \<and> veh_y v = veh_waypoint_y v 0 \<and> veh_waypoint_count v = 0)"

definition VEH_in_transit :: "veh \<Rightarrow> bool" where
  "VEH_in_transit v \<longleftrightarrow> veh_order v = ORDER_SENTRY_BOARD \<and> veh_waypoint_x v 0 \<ge> 0"

text \<open>From veh.cpp, used by the members below.\<close>

definition is_battle_ogre :: "int \<Rightarrow> bool" where
  "is_battle_ogre unit_id \<longleftrightarrow> unit_id = BSC_BATTLE_OGRE_MK1 \<or> unit_id = BSC_BATTLE_OGRE_MK2
     \<or> unit_id = BSC_BATTLE_OGRE_MK3"

definition can_repair :: "game \<Rightarrow> int \<Rightarrow> bool" where
  "can_repair g unit_id \<longleftrightarrow> conf_repair_battle_ogre (conf g) > 0 \<or> \<not> is_battle_ogre unit_id"

definition can_monolith :: "game \<Rightarrow> int \<Rightarrow> bool" where
  "can_monolith g unit_id \<longleftrightarrow> conf_repair_battle_ogre (conf g) \<ge> 10 \<or> \<not> is_battle_ogre unit_id"

definition is_native_unit :: "game \<Rightarrow> int \<Rightarrow> bool" where
  "is_native_unit g unit_id \<longleftrightarrow> unit_id \<ge> 0 \<and> unit_id < MaxProtoFactionNum
     \<and> UNIT_offense_value g (Units g unit_id) < 0"

definition VEH_mid_damage :: "game \<Rightarrow> veh \<Rightarrow> bool" where
  "VEH_mid_damage g v \<longleftrightarrow> veh_damage_taken v > 2 * unit_reactor_id (Units g (veh_unit_id v))"

definition VEH_high_damage :: "game \<Rightarrow> veh \<Rightarrow> bool" where
  "VEH_high_damage g v \<longleftrightarrow> veh_damage_taken v > 4 * unit_reactor_id (Units g (veh_unit_id v))"

definition VEH_need_heals :: "game \<Rightarrow> veh \<Rightarrow> bool" where
  "VEH_need_heals g v \<longleftrightarrow> VEH_mid_damage g v \<and> can_repair g (veh_unit_id v)"

definition VEH_need_monolith :: "game \<Rightarrow> veh \<Rightarrow> bool" where
  "VEH_need_monolith g v \<longleftrightarrow> VEH_triad g v \<noteq> TRIAD_AIR \<and> can_monolith g (veh_unit_id v)
     \<and> (VEH_need_heals g v \<or> (\<not> (veh_state v AND VSTATE_MONOLITH_UPGRADED \<noteq> 0)
        \<and> veh_morale v < MORALE_ELITE \<and> VEH_offense_value g v \<noteq> 0))"

definition VEH_need_refuel :: "game \<Rightarrow> veh \<Rightarrow> bool" where
  "VEH_need_refuel g v \<longleftrightarrow> VEH_triad g v = TRIAD_AIR \<and> \<not> VEH_is_missile g v \<noteq> 0
     \<and> VEH_range g v \<noteq> 0 \<and> VEH_range g v \<le> veh_movement_turns v + 1"

definition VEH_apply_refuel :: "veh \<Rightarrow> veh" where
  "VEH_apply_refuel v =
     v\<lparr>veh_movement_turns := 0, veh_flags := veh_flags v AND NOT VFLAG_FULL_MOVE_SKIPPED\<rparr>"

definition VEH_reset_order :: "veh \<Rightarrow> veh" where
  "VEH_reset_order v = v\<lparr>veh_order := ORDER_NONE, veh_state := veh_state v AND
     NOT (VSTATE_UNK_2000000 OR VSTATE_UNK_1000000 OR VSTATE_EXPLORE OR VSTATE_ON_ALERT)\<rparr>"

definition VEH_eval_offense :: "game \<Rightarrow> veh \<Rightarrow> int" where
  "VEH_eval_offense g v = (let value = VEH_offense_value g v
     in if value \<ge> 0 then value else min 7 (max 1 (veh_morale v + 1)))"

definition VEH_eval_defense :: "game \<Rightarrow> veh \<Rightarrow> int" where
  "VEH_eval_defense g v = (let value = VEH_defense_value g v
     in if value \<ge> 0 then value else min 7 (max 1 (veh_morale v + 1)))"

definition VEH_eval_garrison :: "game \<Rightarrow> veh \<Rightarrow> int" where
  "VEH_eval_garrison g v = (if VEH_triad g v = TRIAD_LAND then 2 else 1)
     + of_bool (VEH_is_combat_unit g v) + of_bool (VEH_is_armored g v)"

subsection \<open>Bases (struct BASE)\<close>

definition BASE_item :: "base \<Rightarrow> int" where
  "BASE_item b = base_queue_items b 0"

definition BASE_item_is_project :: "base \<Rightarrow> bool" where
  "BASE_item_is_project b \<longleftrightarrow> base_queue_items b 0 \<le> - SP_ID_First"

definition BASE_item_is_unit :: "base \<Rightarrow> bool" where
  "BASE_item_is_unit b \<longleftrightarrow> base_queue_items b 0 \<ge> 0"

definition BASE_drone_riots_active :: "base \<Rightarrow> bool" where
  "BASE_drone_riots_active b \<longleftrightarrow> base_state_flags b AND BSTATE_DRONE_RIOTS_ACTIVE \<noteq> 0"

definition BASE_drone_riots :: "base \<Rightarrow> bool" where
  "BASE_drone_riots b \<longleftrightarrow> base_drone_total b > base_talent_total b"

definition BASE_golden_age_active :: "base \<Rightarrow> bool" where
  "BASE_golden_age_active b \<longleftrightarrow> base_state_flags b AND BSTATE_GOLDEN_AGE_ACTIVE \<noteq> 0"

definition BASE_golden_age :: "base \<Rightarrow> bool" where
  "BASE_golden_age b \<longleftrightarrow> base_drone_total b = 0 \<and> base_pop_size b > 2
     \<and> base_talent_total b \<ge> (base_pop_size b + 1) sdiv 2"

definition BASE_plr_owner :: "game \<Rightarrow> base \<Rightarrow> bool" where
  "BASE_plr_owner g b = is_human g (base_faction_id b)"

definition BASE_gov_config :: "game \<Rightarrow> base \<Rightarrow> u32" where
  "BASE_gov_config g b = (if is_human g (base_faction_id b) then base_governor_flags b else - 1)"

definition BASE_can_hurry_item :: "base \<Rightarrow> bool" where
  "BASE_can_hurry_item b \<longleftrightarrow> base_queue_items b 0 \<noteq> - FAC_STOCKPILE_ENERGY
     \<and> \<not> (base_state_flags b AND BSTATE_HURRY_PRODUCTION \<noteq> 0)
     \<and> (\<not> (base_state_flags b AND BSTATE_DRONE_RIOTS_ACTIVE \<noteq> 0)
        \<or> (base_queue_items b 0 < 0 \<and> base_queue_items b 0 > - FAC_SKY_HYDRO_LAB))"

definition BASE_specialist_type :: "base \<Rightarrow> int \<Rightarrow> int" where
  "BASE_specialist_type b index =
     (if index < 0 \<or> index \<ge> MaxBaseSpecNum then 0
      else uint (drop_bit (4 * nat (index mod 8)) (base_specialist_types b (index sdiv 8)) AND 0xF))"

definition BASE_set_specialist_type :: "int \<Rightarrow> int \<Rightarrow> base \<Rightarrow> base" where
  "BASE_set_specialist_type index citizen_id b =
     (if index < 0 \<or> index \<ge> MaxBaseSpecNum then b
      else let i = index sdiv 8; s = 4 * nat (index mod 8); w = base_specialist_types b i;
               w = w AND NOT (push_bit s 0xF);
               w = w OR push_bit s (word_of_int (citizen_id AND 0xF))
           in b\<lparr>base_specialist_types := (base_specialist_types b)(i := w)\<rparr>)"

definition BASE_has_fac_built :: "base \<Rightarrow> int \<Rightarrow> bool" where
  "BASE_has_fac_built b item_id \<longleftrightarrow> item_id \<ge> 0 \<and> item_id \<le> Fac_ID_Last
     \<and> base_facilities_built b (item_id sdiv 8) AND push_bit (nat (item_id smod 8)) 1 \<noteq> 0"

definition BASE_SE_economy :: "game \<Rightarrow> base \<Rightarrow> bool \<Rightarrow> int" where
  "BASE_SE_economy g b pending =
     (if pending then f_SE_economy_pending (Factions g (base_faction_id b))
      else f_SE_economy (Factions g (base_faction_id b)))
     + of_bool (BASE_golden_age_active b)"

definition BASE_SE_effic :: "game \<Rightarrow> base \<Rightarrow> bool \<Rightarrow> int" where
  "BASE_SE_effic g b pending =
     (if pending then f_SE_effic_pending (Factions g (base_faction_id b))
      else f_SE_effic (Factions g (base_faction_id b)))
     + 2 * of_bool (BASE_has_fac_built b FAC_CHILDREN_CRECHE)"

definition BASE_SE_growth :: "game \<Rightarrow> base \<Rightarrow> bool \<Rightarrow> int" where
  "BASE_SE_growth g b pending =
     (if pending then f_SE_growth_pending (Factions g (base_faction_id b))
      else f_SE_growth (Factions g (base_faction_id b)))
     + 2 * of_bool (BASE_has_fac_built b FAC_CHILDREN_CRECHE) + 2 * of_bool (BASE_golden_age_active b)"

definition BASE_SE_police :: "game \<Rightarrow> base \<Rightarrow> bool \<Rightarrow> int" where
  "BASE_SE_police g b pending =
     (if pending then f_SE_police_pending (Factions g (base_faction_id b))
      else f_SE_police (Factions g (base_faction_id b)))
     + 2 * of_bool (BASE_has_fac_built b FAC_BROOD_PIT)"

definition BASE_SE_probe :: "game \<Rightarrow> base \<Rightarrow> bool \<Rightarrow> int" where
  "BASE_SE_probe g b pending =
     (if pending then f_SE_probe_pending (Factions g (base_faction_id b))
      else f_SE_probe (Factions g (base_faction_id b)))
     + 2 * of_bool (BASE_has_fac_built b FAC_COVERT_OPS_CENTER)"

subsection \<open>Slots of a packed array\<close>

lemma upd_faction_simps [simp]:
  "Factions (upd_faction i f g) j = (if j = i then f (Factions g i) else Factions g j)"
  "Bases (upd_faction i f g) = Bases g" "Vehs (upd_faction i f g) = Vehs g"
  "FactionStatus (upd_faction i f g) = FactionStatus g" "conf (upd_faction i f g) = conf g"
  "MFactions (upd_faction i f g) = MFactions g" "TechOwners (upd_faction i f g) = TechOwners g"
  "Tech (upd_faction i f g) = Tech g" "Rules (upd_faction i f g) = Rules g"
  "BaseCount (upd_faction i f g) = BaseCount g" "VehCount (upd_faction i f g) = VehCount g"
  "MapAreaX (upd_faction i f g) = MapAreaX g" "MapAreaY (upd_faction i f g) = MapAreaY g"
  "MapHalfX (upd_faction i f g) = MapHalfX g" "MapToggleFlat (upd_faction i f g) = MapToggleFlat g"
  "MapTiles (upd_faction i f g) = MapTiles g"
  by (auto simp: upd_faction_def)

lemma upd_veh_simps [simp]:
  "Vehs (upd_veh i f g) j = (if j = i then f (Vehs g i) else Vehs g j)"
  "Bases (upd_veh i f g) = Bases g" "Factions (upd_veh i f g) = Factions g"
  "VehCount (upd_veh i f g) = VehCount g" "Units (upd_veh i f g) = Units g"
  "Chassis (upd_veh i f g) = Chassis g" "conf (upd_veh i f g) = conf g"
  by (auto simp: upd_veh_def)

lemma upd_base_simps [simp]:
  "Bases (upd_base i f g) j = (if j = i then f (Bases g i) else Bases g j)"
  "Vehs (upd_base i f g) = Vehs g" "Factions (upd_base i f g) = Factions g"
  "BaseCount (upd_base i f g) = BaseCount g" "conf (upd_base i f g) = conf g"
  "SecretProjects (upd_base i f g) = SecretProjects g"
  by (auto simp: upd_base_def)

text \<open>Four-bit slots of a 32-bit word: a store is read back from its slot and leaves the others.\<close>

lemma bit_15 [simp]: "bit (15 :: nat) m \<longleftrightarrow> m < 4" "bit (15 :: int) m \<longleftrightarrow> m < 4"
proof -
  have "(15 :: nat) = mask 4" "(15 :: int) = mask 4" by (simp_all add: mask_eq_exp_minus_1)
  then show "bit (15 :: nat) m \<longleftrightarrow> m < 4" "bit (15 :: int) m \<longleftrightarrow> m < 4"
    by (metis bit_mask_iff possible_bit_nat, metis bit_mask_iff possible_bit_int)
qed

lemma bit_nibble_store:
  assumes "n < 4" "i < 8" "j < 8"
  shows "bit (((w AND NOT (push_bit (4 * i) 0xF)) OR push_bit (4 * i) (v AND 0xF)) :: u32) (4 * j + n)
    = (if i = j then bit v n else bit w (4 * j + n))"
  using assms by (auto simp: bit_simps simp del: push_bit_eq_mult)

lemma specialist_slot:
  "0 \<le> i \<Longrightarrow> i < 16 \<Longrightarrow> i sdiv 8 = i div 8 \<and> nat (i mod 8) < 8"
  by (simp add: sdiv_nonneg nat_less_iff)

lemma specialist_type_word:
  "0 \<le> i \<Longrightarrow> i < 16 \<Longrightarrow> BASE_specialist_type b i
     = uint (drop_bit (4 * nat (i mod 8)) (base_specialist_types b (i div 8)) AND 0xF)"
  by (simp add: BASE_specialist_type_def sdiv_nonneg)

lemma nibble_eqI: "(\<And>n. n < 4 \<Longrightarrow> bit a n = bit b n) \<Longrightarrow> a AND 0xF = (b AND 0xF :: u32)"
  by (rule bit_word_eqI) (auto simp: bit_simps)

lemma specialist_set_get:
  assumes "0 \<le> i" "i < 16" "0 \<le> j" "j < 16"
  shows "BASE_specialist_type (BASE_set_specialist_type i c b) j
    = (if i = j then c mod 16 else BASE_specialist_type b j)"
proof -
  let ?w = "base_specialist_types b (i div 8)" and ?s = "4 * nat (i mod 8)"
  let ?v = "(?w AND NOT (push_bit ?s 0xF)) OR push_bit ?s (word_of_int (c AND 0xF)) :: u32"
  have t: "base_specialist_types (BASE_set_specialist_type i c b) = (base_specialist_types b)(i div 8 := ?v)"
    using assms by (simp add: BASE_set_specialist_type_def Let_def sdiv_nonneg)
  have v: "?v = (?w AND NOT (push_bit ?s 0xF)) OR push_bit ?s (word_of_int c AND 0xF)"
    by (simp add: word_of_int_and)
  have b: "bit ?v (4 * nat (j mod 8) + n) =
      (if i mod 8 = j mod 8 then bit (word_of_int c :: u32) n else bit ?w (4 * nat (j mod 8) + n))" if "n < 4" for n
    unfolding v by (subst bit_nibble_store) (use that assms in \<open>auto simp: nat_less_iff\<close>)
  have same: "i = j \<longleftrightarrow> i div 8 = j div 8 \<and> i mod 8 = j mod 8" by (metis mult_div_mod_eq)
  have c: "uint (word_of_int c AND 0xF :: u32) = c mod 16"
  proof -
    have "(word_of_int c AND 0xF :: u32) = word_of_int (c mod 16)"
      using word_of_int_and [of c 15, where 'a = 32] take_bit_eq_mask [of 4 c]
      by (simp add: take_bit_eq_mod mask_eq_exp_minus_1)
    then show ?thesis by (simp add: uint_word_of_int)
  qed
  show ?thesis
  proof (cases "i div 8 = j div 8")
    case False
    then show ?thesis using assms by (auto simp: specialist_type_word t)
  next
    case True
    have "drop_bit (4 * nat (j mod 8)) ?v AND 0xF
        = (if i mod 8 = j mod 8 then word_of_int c else drop_bit (4 * nat (j mod 8)) ?w) AND 0xF"
      by (rule nibble_eqI) (simp only: bit_drop_bit_eq o_apply b split: if_split, simp add: bit_drop_bit_eq del: drop_bit_eq_div)
    with True same show ?thesis using assms by (auto simp: specialist_type_word t c)
  qed
qed

lemma specialist_out:
  "i < 0 \<or> 16 \<le> i \<Longrightarrow> BASE_set_specialist_type i c b = b \<and> BASE_specialist_type b i = 0"
  by (auto simp: BASE_set_specialist_type_def BASE_specialist_type_def)

text \<open>The specialist types of a base are sixteen independent slots: a store is read back modulo 16, leaves the
  fifteen others, and an index outside 0..15 changes nothing.\<close>

theorem specialist_slots:
  "(\<forall>i j. 0 \<le> i \<and> i < 16 \<and> 0 \<le> j \<and> j < 16 \<longrightarrow>
      BASE_specialist_type (BASE_set_specialist_type i c b) j = (if i = j then c mod 16 else BASE_specialist_type b j))
    \<and> (\<forall>i. i < 0 \<or> 16 \<le> i \<longrightarrow> BASE_set_specialist_type i c b = b \<and> BASE_specialist_type b i = 0)"
  using specialist_set_get specialist_out by blast

theorem specialist_slots_witness:
  "BASE_specialist_type (BASE_set_specialist_type 9 5 blank_base) 9 = 5"
  using specialist_slots [of 5 blank_base] by simp

end
