(* ===== verification/Rand.thy ===== *)
theory Rand
  imports Prelude
begin

section \<open>Random numbers and hashing (src/bridge/src/random.cpp, random.h)\<close>

text \<open>
  The linear congruential generator behind \<open>random\<close>, \<open>random_get\<close> and the class
  \<open>GameRandom\<close>, the xorshift-style start-up generator \<open>next_rand\<close>, the mixing function
  \<open>pair_hash\<close> and the HalfSipHash of the debug build. The generator's C state (a static
  variable, or the private member of the class) is an argument and comes back in the result.
  The platform clocks are arguments, and so is the engine's own \<open>game_rand\<close>, which is not in
  the repository.
\<close>

subsection \<open>The linear congruential generator\<close>

definition lcg_step :: "u32 \<Rightarrow> u32" where
  "lcg_step seed = 1664525 * seed + 1013904223"

definition random_reseed :: "u32 \<Rightarrow> u32 \<Rightarrow> u32" where
  "random_reseed seed value = value"

definition random_state :: "u32 \<Rightarrow> u32" where
  "random_state seed = seed"

definition random_limit :: "u32 \<Rightarrow> int \<Rightarrow> u32 \<times> int" where
  "random_limit seed limit =
     (let seed' = lcg_step seed
      in (seed', sint (drop_bit 16 ((seed' AND 0xffff) * word_of_int limit))))"

definition random_get :: "u32 \<Rightarrow> int \<Rightarrow> int \<Rightarrow> u32 \<times> int" where
  "random_get seed low high =
     (let seed' = lcg_step seed;
          (lo, hi) = (if low > high then (high, low) else (low, high))
      in (seed', sint (word_of_int lo
            + drop_bit 16 ((seed' AND 0xffff) * word_of_int (hi - lo)))))"

record game_random =
  gr_state :: u32

definition GameRandom_reseed :: "game_random \<Rightarrow> u32 \<Rightarrow> game_random" where
  "GameRandom_reseed r value = r\<lparr>gr_state := value\<rparr>"

definition GameRandom_get_state :: "game_random \<Rightarrow> u32" where
  "GameRandom_get_state r = gr_state r"

definition GameRandom_get_range :: "game_random \<Rightarrow> int \<Rightarrow> int \<Rightarrow> game_random \<times> int" where
  "GameRandom_get_range r low high =
     (let r' = r\<lparr>gr_state := 1664525 * gr_state r + 1013904223\<rparr>;
          (lo, hi) = (if low > high then (high, low) else (low, high))
      in (r', sint (word_of_int lo
            + drop_bit 16 ((gr_state r' AND 0xffff) * word_of_int (hi - lo)))))"

definition GameRandom_get :: "game_random \<Rightarrow> int \<Rightarrow> game_random \<times> int" where
  "GameRandom_get r limit =
     (let r' = r\<lparr>gr_state := 1664525 * gr_state r + 1013904223\<rparr>
      in (r', sint (drop_bit 16 ((gr_state r' AND 0xffff) * word_of_int limit))))"

text \<open>\<open>game_rand\<close> is the engine's own generator: an argument over an abstract state.\<close>

definition game_randv :: "('s \<Rightarrow> 's \<times> int) \<Rightarrow> 's \<Rightarrow> int \<Rightarrow> 's \<times> int" where
  "game_randv game_rand s value =
     (if value > 1 then (let (s', r) = game_rand s in (s', r smod value)) else (s, 0))"

text \<open>\<open>pick_random\<close> of random.h: the elements of the \<open>std::set\<close> in iteration order.\<close>

definition pick_random :: "u32 \<Rightarrow> 'a list \<Rightarrow> u32 \<times> 'a" where
  "pick_random seed xs =
     (let (seed', i) = random_limit seed (int (length xs)) in (seed', xs ! nat i))"

subsection \<open>Start-up generator and pair hash\<close>

definition rotl :: "u32 \<Rightarrow> nat \<Rightarrow> u32" where
  "rotl x k = push_bit k x OR drop_bit (32 - k) x"

definition pair_hash :: "u32 \<Rightarrow> u32 \<Rightarrow> u32" where
  "pair_hash a b =
     (let x = a XOR push_bit 16 b XOR drop_bit 16 (NOT b);
          x = x * 0x603a32a7;
          x = x XOR drop_bit 16 x;
          x = x * 0x5a522677
      in x XOR drop_bit 16 x)"

text \<open>
  The arguments \<open>lo\<close> and \<open>hi\<close> are the two halves of the performance counter and \<open>tick\<close> is
  \<open>GetTickCount()\<close>; the pair is the static state \<open>nx\<close>, \<open>ny\<close>.
\<close>

definition next_rand :: "u32 \<Rightarrow> u32 \<Rightarrow> u32 \<Rightarrow> u32 \<times> u32 \<Rightarrow> (u32 \<times> u32) \<times> u32" where
  "next_rand lo hi tick s =
     (let (nx, ny) = (if fst s = 0 \<and> snd s = 0 then (lo, hi + rotl lo 16) else s);
          t = nx XOR push_bit 8 nx XOR tick;
          nx' = ny;
          ny' = (ny XOR drop_bit 22 ny) XOR (t XOR drop_bit 9 t)
      in ((nx', ny'), rotl (nx' + ny') 7 + ny'))"

text \<open>\<open>setup_random\<close> seeds \<open>random\<close> and \<open>map_rand\<close> from one draw.\<close>

definition setup_random ::
    "u32 \<Rightarrow> u32 \<Rightarrow> u32 \<Rightarrow> u32 \<times> u32 \<Rightarrow> u32 \<Rightarrow> game_random
      \<Rightarrow> (u32 \<times> u32) \<times> u32 \<times> game_random" where
  "setup_random lo hi tick s random_seed map_rand =
     (let (s', seed) = next_rand lo hi tick s
      in (s', random_reseed random_seed seed, GameRandom_reseed map_rand (seed XOR 0xffff)))"

subsection \<open>HalfSipHash\<close>

type_synonym sip_state = "u32 \<times> u32 \<times> u32 \<times> u32"

definition U32TO8_LE :: "u32 \<Rightarrow> u8 list" where
  "U32TO8_LE v = [ucast v, ucast (drop_bit 8 v), ucast (drop_bit 16 v), ucast (drop_bit 24 v)]"

definition U8TO32_LE :: "u8 list \<Rightarrow> u32" where
  "U8TO32_LE p = ucast (p ! 0) OR push_bit 8 (ucast (p ! 1))
     OR push_bit 16 (ucast (p ! 2)) OR push_bit 24 (ucast (p ! 3))"

definition sipround :: "sip_state \<Rightarrow> sip_state" where
  "sipround s =
     (let (v0, v1, v2, v3) = s;
          v0 = v0 + v1; v1 = rotl v1 5; v1 = v1 XOR v0; v0 = rotl v0 16;
          v2 = v2 + v3; v3 = rotl v3 8; v3 = v3 XOR v2;
          v0 = v0 + v3; v3 = rotl v3 7; v3 = v3 XOR v0;
          v2 = v2 + v1; v1 = rotl v1 13; v1 = v1 XOR v2; v2 = rotl v2 16
      in (v0, v1, v2, v3))"

definition sip_absorb :: "u32 \<Rightarrow> sip_state \<Rightarrow> sip_state" where
  "sip_absorb m s =
     (let (v0, v1, v2, v3) = s;
          (v0, v1, v2, v3) = (sipround ^^ 2) (v0, v1, v2, v3 XOR m)
      in (v0 XOR m, v1, v2, v3))"

fun sip_words :: "u8 list \<Rightarrow> sip_state \<Rightarrow> sip_state" where
  "sip_words (a # b # c # d # rest) s = sip_words rest (sip_absorb (U8TO32_LE [a, b, c, d]) s)"
| "sip_words _ s = s"

text \<open>The last, partial word: up to three remaining bytes under the length byte.\<close>

definition sip_tail :: "u8 list \<Rightarrow> u32" where
  "sip_tail inp =
     (let n = length inp;
          ni = drop (n - n mod 4) inp;
          left = n mod 4;
          b = push_bit 24 (word_of_nat n);
          b = (if 3 \<le> left then b OR push_bit 16 (ucast (ni ! 2)) else b);
          b = (if 2 \<le> left then b OR push_bit 8 (ucast (ni ! 1)) else b)
      in (if 1 \<le> left then b OR ucast (ni ! 0) else b))"

definition halfsiphash :: "u8 list \<Rightarrow> u8 list \<Rightarrow> nat \<Rightarrow> u8 list" where
  "halfsiphash inp kk outlen =
     (let k0 = U8TO32_LE kk; k1 = U8TO32_LE (drop 4 kk);
          v3 = 0x74656462 XOR k1; v2 = 0x6c796765 XOR k0; v1 = 0 XOR k1; v0 = 0 XOR k0;
          v1 = (if outlen = 8 then v1 XOR 0xee else v1);
          s = sip_words inp (v0, v1, v2, v3);
          (v0, v1, v2, v3) = sip_absorb (sip_tail inp) s;
          v2 = (if outlen = 8 then v2 XOR 0xee else v2 XOR 0xff);
          (v0, v1, v2, v3) = (sipround ^^ 4) (v0, v1, v2, v3);
          out = U32TO8_LE (v1 XOR v3)
      in (if outlen = 4 then out
          else (let (v0, v1, v2, v3) = (sipround ^^ 4) (v0, v1 XOR 0xdd, v2, v3)
                in out @ U32TO8_LE (v1 XOR v3))))"

text \<open>
  The callers pass the address of a 64-bit seed and of the result, little-endian on the
  program's only target.
\<close>

definition seed_bytes :: "u64 \<Rightarrow> u8 list" where
  "seed_bytes seed = U32TO8_LE (ucast seed) @ U32TO8_LE (ucast (drop_bit 32 seed))"

definition hash64 :: "u8 list \<Rightarrow> u64 \<Rightarrow> u64" where
  "hash64 input seed =
     (let out = halfsiphash input (seed_bytes seed) 8
      in ucast (U8TO32_LE out) OR push_bit 32 (ucast (U8TO32_LE (drop 4 out))))"

definition hash32 :: "u8 list \<Rightarrow> u64 \<Rightarrow> u32" where
  "hash32 input seed = U8TO32_LE (halfsiphash input (seed_bytes seed) 4)"

subsection \<open>The generator is a permutation of its states\<close>

definition lcg_unstep :: "u32 \<Rightarrow> u32" where
  "lcg_unstep s = 4276115653 * (s - 1013904223)"

lemma lcg_unstep_step: "lcg_unstep (lcg_step s) = s"
  using odd_factor_cancel(1) [of 4276115653 "1664525 :: u32" s]
  by (simp add: lcg_unstep_def lcg_step_def)

lemma lcg_step_unstep: "lcg_step (lcg_unstep s) = s"
  using odd_factor_cancel(1) [of 1664525 "4276115653 :: u32" "s - 1013904223"]
  unfolding lcg_unstep_def lcg_step_def by simp

lemma low_half_mult:
  assumes "0 \<le> n" "n \<le> 65536"
  shows "uint (drop_bit 16 ((s AND 0xffff) * word_of_int n :: u32)) = uint s mod 65536 * n div 65536"
proof -
  have a: "uint (s AND 0xffff) = uint s mod 65536"
    by (simp add: uint_and int_and_low16)
  have "uint s mod 65536 * n \<le> 65535 * n"
    by (intro mult_right_mono) (use assms in auto)
  with assms have lt: "uint s mod 65536 * n < 2 ^ 32" "0 \<le> uint s mod 65536 * n"
    by auto
  have "uint ((s AND 0xffff) * word_of_int n :: u32) = uint s mod 65536 * n"
    using assms lt a by (simp add: uint_word_ariths uint_word_of_int)
  then show ?thesis
    by (simp add: uint_drop_bit del: drop_bit_eq_div)
qed

lemma scaled_below:
  assumes "0 < n"
  shows "0 \<le> (r::int) mod 65536 * n div 65536" "r mod 65536 * n div 65536 < n"
proof -
  have "r mod 65536 * n < 65536 * n"
    by (intro mult_strict_right_mono) (use assms in auto)
  then show "r mod 65536 * n div 65536 < n" by (simp add: div_less_iff_less_mult)
  show "0 \<le> r mod 65536 * n div 65536" using assms by (simp add: pos_imp_zdiv_nonneg_iff)
qed

lemma random_limit_value:
  assumes "0 \<le> n" "n \<le> 65536"
  shows "snd (random_limit s n) = uint (lcg_step s) mod 65536 * n div 65536"
proof -
  have "uint (lcg_step s) mod 65536 * n div 65536 \<le> n"
    using scaled_below [of n "uint (lcg_step s)"] assms by (cases "n = 0") auto
  with assms show ?thesis
    by (simp add: random_limit_def Let_def low_half_mult sint_small)
qed

lemma random_get_value:
  assumes "\<bar>high - low\<bar> \<le> 65536" "- 2147483648 \<le> low" "low < 2147483648"
      "- 2147483648 \<le> high" "high < 2147483648"
  shows "snd (random_get s low high)
     = min low high + uint (lcg_step s) mod 65536 * \<bar>high - low\<bar> div 65536"
proof -
  define d where "d = uint (lcg_step s) mod 65536 * \<bar>high - low\<bar> div 65536"
  have d: "0 \<le> d" "d \<le> \<bar>high - low\<bar>" "high \<noteq> low \<Longrightarrow> d < \<bar>high - low\<bar>"
    using scaled_below [of "\<bar>high - low\<bar>" "uint (lcg_step s)"]
    by (cases "high = low"; force simp: d_def)+
  have w: "drop_bit 16 ((lcg_step s AND 0xffff) * word_of_int \<bar>high - low\<bar>) = (word_of_int d :: u32)"
    by (rule word_uint_eqI) (use assms d in \<open>simp add: low_half_mult d_def uint_word_of_int\<close>)
  have "sint (word_of_int (min low high) + word_of_int d :: u32) = min low high + d"
    using assms d by (auto simp: sint_word_of_int32 min_def abs_if simp flip: of_int_add)
  with w show ?thesis
    by (cases "low > high") (simp_all add: random_get_def Let_def abs_if, simp_all add: d_def abs_if)
qed

subsection \<open>Bounded draws as an interface\<close>

locale bounded_draw =
  fixes draw :: "'s \<Rightarrow> int \<Rightarrow> 's \<times> int"
  assumes draw_ge: "0 < n \<Longrightarrow> n \<le> 65536 \<Longrightarrow> 0 \<le> snd (draw s n)"
    and draw_lt: "0 < n \<Longrightarrow> n \<le> 65536 \<Longrightarrow> snd (draw s n) < n"
begin

lemma draw_one: "snd (draw s 1) = 0"
  using draw_ge [of 1 s] draw_lt [of 1 s] by simp

lemma draw_index: "0 < n \<Longrightarrow> n \<le> 65536 \<Longrightarrow> nat (snd (draw s (int n))) < n"
  using draw_ge [of "int n" s] draw_lt [of "int n" s] by simp

lemma draw_member: "xs \<noteq> [] \<Longrightarrow> length xs \<le> 65536 \<Longrightarrow>
    xs ! nat (snd (draw s (int (length xs)))) \<in> set xs"
  by (rule nth_mem, rule draw_index) auto

lemma draw_offset: "lo < hi \<Longrightarrow> hi - lo \<le> 65536 \<Longrightarrow>
    lo \<le> snd (draw s (hi - lo)) + lo \<and> snd (draw s (hi - lo)) + lo < hi"
  using draw_ge [of "hi - lo" s] draw_lt [of "hi - lo" s] by simp

end

interpretation rnd: bounded_draw random_limit
  by unfold_locales (simp_all add: random_limit_value scaled_below)

lemma GameRandom_get_random:
  "GameRandom_get r n = (\<lparr>gr_state = fst (random_limit (gr_state r) n)\<rparr>, snd (random_limit (gr_state r) n))"
  by (simp add: GameRandom_get_def random_limit_def lcg_step_def Let_def)

lemma GameRandom_get_range_random:
  "GameRandom_get_range r lo hi
     = (\<lparr>gr_state = fst (random_get (gr_state r) lo hi)\<rparr>, snd (random_get (gr_state r) lo hi))"
  by (simp add: GameRandom_get_range_def random_get_def lcg_step_def Let_def)

interpretation grnd: bounded_draw GameRandom_get
  by unfold_locales (simp_all add: GameRandom_get_random rnd.draw_ge rnd.draw_lt)

lemma random_get_zero: "0 \<le> n \<Longrightarrow> random_get s 0 n = random_limit s n"
  by (simp add: random_get_def random_limit_def Let_def)

lemma lcg_step_surj: "\<exists>s. lcg_step s = t"
  using lcg_step_unstep by blast

lemma random_limit_onto:
  assumes "0 \<le> k" "k < n" "n \<le> 65536"
  shows "\<exists>s. snd (random_limit s n) = k"
proof -
  define r where "r = (k * 65536 + n - 1) div n"
  have r: "k * 65536 \<le> r * n" "r * n < k * 65536 + n"
    using assms pos_mod_bound [of n "k * 65536 + n - 1"] pos_mod_sign [of n "k * 65536 + n - 1"]
      div_mult_mod_eq [of "k * 65536 + n - 1" n]
    unfolding r_def by linarith+
  have "0 \<le> r" unfolding r_def using assms by (simp add: pos_imp_zdiv_nonneg_iff)
  have "r * n < 65536 * n"
  proof -
    have "k * 65536 + n \<le> n * 65536" using assms by linarith
    with r(2) show ?thesis by linarith
  qed
  then have "r < 65536" using assms by (simp add: mult_less_cancel_right)
  obtain s where s: "lcg_step s = word_of_int r" using lcg_step_surj by blast
  have "uint (lcg_step s) mod 65536 = r"
    using s \<open>0 \<le> r\<close> \<open>r < 65536\<close> by (simp add: uint_word_of_int)
  moreover have "r * n div 65536 = k"
    using r assms by (intro int_div_pos_eq [where r = "r * n - k * 65536"]) auto
  ultimately show ?thesis using assms random_limit_value [of n s] by auto
qed

lemma pair_hash_inj_left: "pair_hash a b = pair_hash a' b \<longleftrightarrow> a = a'"
proof
  assume h: "pair_hash a b = pair_hash a' b"
  define c where "c = push_bit 16 b XOR drop_bit 16 (NOT b)"
  have m1: "x * 0x603a32a7 = y * 0x603a32a7 \<longleftrightarrow> x = (y::u32)" for x y
    using odd_factor_cancel(2) [of 3136050455 "0x603a32a7 :: u32" x y] by (simp add: mult.commute)
  have m2: "x * 0x5a522677 = y * 0x5a522677 \<longleftrightarrow> x = (y::u32)" for x y
    using odd_factor_cancel(2) [of 757568327 "0x5a522677 :: u32" x y] by (simp add: mult.commute)
  have x: "x XOR drop_bit 16 x = y XOR drop_bit 16 y \<longleftrightarrow> x = (y::u32)" for x y
    using xor_drop_bit_inj [of 16 x y] by auto
  have ph: "pair_hash u b = (let z = (u XOR c) * 0x603a32a7; z = (z XOR drop_bit 16 z) * 0x5a522677
      in z XOR drop_bit 16 z)" for u
    by (simp only: pair_hash_def c_def Let_def xor.assoc)
  from h have "a XOR c = a' XOR c"
    by (simp only: ph Let_def x m1 m2)
  then show "a = a'" by (simp only: word_xor_cancel)
qed simp

lemma rotl_rotl:
  assumes "0 < k" "k < 32"
  shows "rotl (rotl x k) (32 - k) = x"
proof (rule bit_word_eqI)
  fix n assume "n < LENGTH(32)"
  then have n: "n < 32" by simp
  show "bit (rotl (rotl x k) (32 - k)) n = bit x n"
  proof (cases "n < 32 - k")
    case True
    then have "bit (rotl (rotl x k) (32 - k)) n = bit (rotl x k) (k + n)"
      using n assms by (simp add: rotl_def bit_simps)
    also have "\<dots> = bit x n"
      using True assms by (auto simp: rotl_def bit_simps dest: bit_imp_le_length)
    finally show ?thesis .
  next
    case False
    then have "bit (rotl (rotl x k) (32 - k)) n = bit (rotl x k) (n - (32 - k))"
      using n assms by (auto simp: rotl_def bit_simps dest: bit_imp_le_length)
    also have "\<dots> = bit x n"
      using False n assms by (auto simp: rotl_def bit_simps)
    finally show ?thesis .
  qed
qed

lemma rotl_inj: "0 < k \<Longrightarrow> k < 32 \<Longrightarrow> rotl x k = rotl y k \<longleftrightarrow> x = y"
  using rotl_rotl by metis

lemma next_rand_inj:
  assumes "fst (next_rand lo hi tick s) = fst (next_rand lo hi tick s')" "s \<noteq> (0, 0)" "s' \<noteq> (0, 0)"
  shows "s = s'"
proof -
  obtain nx ny nx' ny' where p: "s = (nx, ny)" "s' = (nx', ny')" by (cases s, cases s')
  have st: "fst (next_rand lo hi tick (a, b))
      = (b, (b XOR drop_bit 22 b) XOR ((a XOR push_bit 8 a XOR tick) XOR drop_bit 9 (a XOR push_bit 8 a XOR tick)))"
    if "(a, b) \<noteq> (0, 0)" for a b
    using that by (auto simp: next_rand_def Let_def simp del: drop_bit_eq_div push_bit_eq_mult)
  have ne: "(nx, ny) \<noteq> (0, 0)" "(nx', ny') \<noteq> (0, 0)" using assms(2,3) p by auto
  have "fst (next_rand lo hi tick (nx, ny)) = fst (next_rand lo hi tick (nx', ny'))"
    using assms(1) p by simp
  then have e: "ny = ny'" "(ny XOR drop_bit 22 ny) XOR ((nx XOR push_bit 8 nx XOR tick) XOR drop_bit 9 (nx XOR push_bit 8 nx XOR tick))
     = (ny' XOR drop_bit 22 ny') XOR ((nx' XOR push_bit 8 nx' XOR tick) XOR drop_bit 9 (nx' XOR push_bit 8 nx' XOR tick))"
    unfolding st [OF ne(1)] st [OF ne(2)] prod.inject by blast+
  have y: "ny = ny'" by (rule e(1))
  from e(2) have "(nx XOR push_bit 8 nx XOR tick) XOR drop_bit 9 (nx XOR push_bit 8 nx XOR tick)
       = (nx' XOR push_bit 8 nx' XOR tick) XOR drop_bit 9 (nx' XOR push_bit 8 nx' XOR tick)"
    unfolding y word_xor_cancel_left .
  then have nxe: "nx XOR push_bit 8 nx XOR tick = nx' XOR push_bit 8 nx' XOR tick"
    by (rule xor_drop_bit_inj [of 9, rotated]) simp
  then have "nx XOR push_bit 8 nx = nx' XOR push_bit 8 nx'"
    unfolding xor.assoc [symmetric] word_xor_cancel .
  then have "nx = nx'"
    by (rule xor_push_bit_inj [of 8, rotated]) simp
  with y p show ?thesis by simp
qed

lemma sipround_inj: "sipround s = sipround t \<longleftrightarrow> s = t"
proof
  assume h: "sipround s = sipround t"
  obtain a b c d a' b' c' d' where p: "s = (a, b, c, d)" "t = (a', b', c', d')"
    by (cases s, cases t) 
  note r = rotl_inj word_xor_cancel
  let ?x0 = "a + b" and ?x0' = "a' + b'" and ?x2 = "c + d" and ?x2' = "c' + d'"
  let ?y1 = "rotl b 5 XOR ?x0" and ?y1' = "rotl b' 5 XOR ?x0'"
  let ?y3 = "rotl d 8 XOR ?x2" and ?y3' = "rotl d' 8 XOR ?x2'"
  let ?z0 = "rotl ?x0 16 + ?y3" and ?z0' = "rotl ?x0' 16 + ?y3'"
  let ?z2 = "?x2 + ?y1" and ?z2' = "?x2' + ?y1'"
  from h have "?z0 = ?z0' \<and> rotl ?y1 13 XOR ?z2 = rotl ?y1' 13 XOR ?z2'
      \<and> rotl ?z2 16 = rotl ?z2' 16 \<and> rotl ?y3 7 XOR ?z0 = rotl ?y3' 7 XOR ?z0'"
    unfolding p sipround_def Let_def prod.case prod.inject .
  then have e: "?z0 = ?z0'" "rotl ?y1 13 XOR ?z2 = rotl ?y1' 13 XOR ?z2'"
      "rotl ?z2 16 = rotl ?z2' 16" "rotl ?y3 7 XOR ?z0 = rotl ?y3' 7 XOR ?z0'"
    by blast+
  then have z2: "?z2 = ?z2'" by (simp only: rotl_inj)
  with e(2) have y1: "?y1 = ?y1'" by (simp only: r)
  with z2 have x2: "?x2 = ?x2'" by simp
  from e(4) e(1) have y3: "?y3 = ?y3'" by (simp only: r)
  with e(1) have x0: "?x0 = ?x0'" by (simp add: r)
  from y1 x0 have "b = b'" by (simp only: r)
  moreover from y3 x2 have "d = d'" by (simp only: r)
  ultimately show "s = t" using x0 x2 p by simp
qed simp

lemma sip_absorb_inj: "sip_absorb m s = sip_absorb m t \<longleftrightarrow> s = t"
proof
  assume h: "sip_absorb m s = sip_absorb m t"
  obtain a b c d a' b' c' d' where p: "s = (a, b, c, d)" "t = (a', b', c', d')"
    by (cases s, cases t)
  obtain w x y z w' x' y' z' where q: "(sipround ^^ 2) (a, b, c, d XOR m) = (w, x, y, z)"
      "(sipround ^^ 2) (a', b', c', d' XOR m) = (w', x', y', z')"
    by (metis prod_cases4)
  from h have "(w, x, y, z) = (w', x', y', z')"
    by (simp add: sip_absorb_def p q Let_def word_xor_cancel)
  with q have "(sipround ^^ 2) (a, b, c, d XOR m) = (sipround ^^ 2) (a', b', c', d' XOR m)" by simp
  then show "s = t"
    by (simp add: numeral_2_eq_2 sipround_inj word_xor_cancel p)
qed simp

lemma length_U32TO8_LE [simp]: "length (U32TO8_LE v) = 4"
  by (simp add: U32TO8_LE_def)

lemma U8TO32_LE_roundtrip: "U8TO32_LE (U32TO8_LE v @ rest) = v"
proof (rule bit_word_eqI)
  fix n assume "n < LENGTH(32)"
  then consider "n < 8" | "8 \<le> n \<and> n < 16" | "16 \<le> n \<and> n < 24" | "24 \<le> n \<and> n < 32" by force
  then show "bit (U8TO32_LE (U32TO8_LE v @ rest)) n = bit v n"
    by cases (auto simp: U8TO32_LE_def U32TO8_LE_def bit_simps)
qed

lemma U32TO8_LE_roundtrip:
  assumes "length p = 4"
  shows "U32TO8_LE (U8TO32_LE p) = p"
proof -
  obtain a b c d where p: "p = [a, b, c, d]"
    using assms by (auto simp: numeral_eq_Suc length_Suc_conv)
  have "(ucast (U8TO32_LE p) :: u8) = a" "(ucast (drop_bit 8 (U8TO32_LE p)) :: u8) = b"
     "(ucast (drop_bit 16 (U8TO32_LE p)) :: u8) = c" "(ucast (drop_bit 24 (U8TO32_LE p)) :: u8) = d"
    by (rule bit_word_eqI, auto simp: p U8TO32_LE_def bit_simps dest: bit_imp_le_length)+
  then show ?thesis by (simp add: U32TO8_LE_def p)
qed

lemma length_halfsiphash: "outlen = 4 \<or> outlen = 8 \<Longrightarrow> length (halfsiphash inp k outlen) = outlen"
  by (auto simp: halfsiphash_def Let_def split: prod.splits)

subsection \<open>Properties\<close>

text \<open>For every limit from 1 to 65536 the values \<open>random(limit)\<close> can return, over all seeds,
  are exactly the integers from 0 up to and excluding the limit.\<close>

theorem random_limit_range:
  assumes "0 < n" "n \<le> 65536"
  shows "range (\<lambda>seed. snd (random_limit seed n)) = {0..<n}"
proof
  show "range (\<lambda>seed. snd (random_limit seed n)) \<subseteq> {0..<n}"
    using assms rnd.draw_ge rnd.draw_lt by auto
  show "{0..<n} \<subseteq> range (\<lambda>seed. snd (random_limit seed n))"
    using assms random_limit_onto by (fastforce simp: image_iff)
qed

theorem random_limit_range_witness: "range (\<lambda>seed. snd (random_limit seed 6)) = {0..<6}"
  by (rule random_limit_range) simp_all

text \<open>\<open>random_get(low, high)\<close> does not depend on the order of its bounds, returns \<open>low\<close> when
  they are equal, and otherwise stays in the half-open interval between them; the class
  \<open>GameRandom\<close> draws the same numbers from the same state.\<close>

theorem random_get_range:
  assumes "0 < high - low" "high - low \<le> 65536" "- 2147483648 \<le> low" "high < 2147483648"
  shows "low \<le> snd (random_get seed low high) \<and> snd (random_get seed low high) < high
    \<and> random_get seed high low = random_get seed low high
    \<and> snd (random_get seed low low) = low
    \<and> snd (GameRandom_get_range \<lparr>gr_state = seed\<rparr> low high) = snd (random_get seed low high)"
proof -
  have "random_get seed high low = random_get seed low high"
    using assms by (simp add: random_get_def)
  moreover have "snd (random_get seed low high) = low + uint (lcg_step seed) mod 65536 * (high - low) div 65536"
    using assms by (subst random_get_value) auto
  moreover have "snd (random_get seed low low) = low"
    using assms by (subst random_get_value) auto
  ultimately show ?thesis
    using scaled_below [OF assms(1), of "uint (lcg_step seed)"] by (simp add: GameRandom_get_range_random)
qed

theorem random_get_range_witness:
  "0 < (5::int) - 2 \<and> 2 \<le> snd (random_get 1 2 5) \<and> snd (random_get 1 2 5) < 5"
  using random_get_range [of 5 2 1] by simp

text \<open>For a fixed second argument \<open>pair_hash\<close> is a permutation of the 32-bit words, so two
  tiles that share it never collide, and the start-up generator \<open>next_rand\<close> loses no state:
  distinct non-zero states have distinct successors.\<close>

theorem pair_hash_permutation:
  "bij (\<lambda>a. pair_hash a b) \<and> inj_on (\<lambda>s. fst (next_rand lo hi tick s)) (- {(0, 0)})"
proof
  have "inj (\<lambda>a. pair_hash a b)" by (rule injI) (simp add: pair_hash_inj_left)
  then show "bij (\<lambda>a. pair_hash a b)" by (simp add: bij_def finite_UNIV_inj_surj)
  show "inj_on (\<lambda>s. fst (next_rand lo hi tick s)) (- {(0, 0)})"
    by (rule inj_onI) (use next_rand_inj in auto)
qed

text \<open>The hash functions of the debug build return exactly the bytes HalfSipHash wrote:
  splitting the 32-bit or 64-bit value into little-endian bytes gives the output buffer back,
  4 or 8 bytes long; and absorbing a message word is a permutation of the hash state.\<close>

theorem hash_bytes_roundtrip:
  "U32TO8_LE (hash32 input seed) = halfsiphash input (seed_bytes seed) 4
   \<and> length (halfsiphash input (seed_bytes seed) 8) = 8
   \<and> seed_bytes (hash64 input seed) = halfsiphash input (seed_bytes seed) 8
   \<and> inj (sip_absorb m)"
proof (intro conjI)
  let ?o = "halfsiphash input (seed_bytes seed) 8"
  show "U32TO8_LE (hash32 input seed) = halfsiphash input (seed_bytes seed) 4"
    unfolding hash32_def by (rule U32TO8_LE_roundtrip) (simp add: length_halfsiphash)
  show len: "length ?o = 8" by (simp add: length_halfsiphash)
  have lo: "ucast (hash64 input seed) = U8TO32_LE (take 4 ?o)"
    by (rule bit_word_eqI)
      (use len in \<open>auto simp: hash64_def Let_def bit_simps U8TO32_LE_def dest: bit_imp_le_length\<close>)
  have hi: "ucast (drop_bit 32 (hash64 input seed)) = U8TO32_LE (drop 4 ?o)"
    by (rule bit_word_eqI) (auto simp: hash64_def Let_def bit_simps dest: bit_imp_le_length)
  have "U32TO8_LE (U8TO32_LE (take 4 ?o)) @ U32TO8_LE (U8TO32_LE (drop 4 ?o)) = ?o"
    using len by (simp add: U32TO8_LE_roundtrip)
  with lo hi show "seed_bytes (hash64 input seed) = ?o"
    by (simp add: seed_bytes_def)
  show "inj (sip_absorb m)" by (rule injI) (simp add: sip_absorb_inj)
qed

end
