(* ===== verification/Tech_Tree.thy ===== *)
theory Tech_Tree
  imports Entities Rand
begin

section \<open>Technologies (tech.cpp)\<close>

text \<open>
  Ownership, level and availability of technologies, what they add to a faction's production, and the
  cost of research. The recursions over prerequisites carry the bound the code carries, so they are
  total; what the bound means is stated by \<open>tech_is_preq_reach\<close> and \<open>tech_level_height\<close>.
\<close>

subsection \<open>Ownership and prerequisites\<close>

definition has_tech :: "game \<Rightarrow> int \<Rightarrow> int \<Rightarrow> bool" where
  "has_tech g tech_id faction_id =
     (if faction_id \<le> 0 then False
      else if tech_id = TECH_None then True
      else if tech_id < 0 \<or> tech_id \<ge> TECH_TranT \<or> ctech_preq_tech1 (Tech g tech_id) = TECH_Disable
        \<or> (ctech_preq_tech2 (Tech g tech_id) = TECH_Disable
           \<and> ctech_preq_tech1 (Tech g tech_id) \<noteq> TECH_None) then False
      else bit (TechOwners g tech_id) (nat faction_id))"

function tech_level :: "game \<Rightarrow> int \<Rightarrow> int \<Rightarrow> int" where
  "tech_level g tech_id lvl =
     (if tech_id < 0 \<or> tech_id > TECH_TranT \<or> lvl > TECH_TranT then lvl
      else max (tech_level g (ctech_preq_tech1 (Tech g tech_id)) (lvl + 1))
               (tech_level g (ctech_preq_tech2 (Tech g tech_id)) (lvl + 1)))"
  by pat_completeness auto
termination by (relation "measure (\<lambda>(g, t, lvl). nat (89 - lvl))") auto

declare tech_level.simps [simp del]

definition tech_category :: "game \<Rightarrow> int \<Rightarrow> int" where
  "tech_category g tech_id =
     (if tech_id < 0 \<or> tech_id > TECH_TranT then TCAT_GROWTH
      else let tech = Tech g tech_id; label = TCAT_GROWTH; value = ctech_AI_growth tech;
           (label, value) = (if ctech_AI_tech tech > value then (TCAT_TECH, ctech_AI_tech tech)
              else (label, value));
           (label, value) = (if ctech_AI_wealth tech > value then (TCAT_WEALTH, ctech_AI_wealth tech)
              else (label, value))
         in if ctech_AI_power tech > value then TCAT_POWER else label)"

definition tech_avail :: "game \<Rightarrow> int \<Rightarrow> int \<Rightarrow> bool" where
  "tech_avail g tech_id faction_id =
     (if has_tech g tech_id faction_id \<or> tech_id \<ge> MaxTechnologyNum
         \<or> (\<not> ExpansionEnabled g
            \<and> (tech_id = TECH_PrPsych \<or> tech_id = TECH_FldMod \<or> tech_id = TECH_AdapDoc
               \<or> tech_id = TECH_AdapEco \<or> tech_id = TECH_Bioadap \<or> tech_id = TECH_SentRes
               \<or> tech_id = TECH_SecMani \<or> tech_id = TECH_NewMiss \<or> tech_id = TECH_BFG9000))
      then False
      else let preq_tech_1 = ctech_preq_tech1 (Tech g tech_id); preq_tech_2 = ctech_preq_tech2 (Tech g tech_id)
        in if preq_tech_1 \<le> TECH_Disable \<or> preq_tech_2 \<le> TECH_Disable then False
           else has_tech g preq_tech_1 faction_id \<and> has_tech g preq_tech_2 faction_id)"

function tech_is_preq :: "game \<Rightarrow> int \<Rightarrow> int \<Rightarrow> int \<Rightarrow> bool" where
  "tech_is_preq g preq_tech_id parent_tech_id rng =
     (if preq_tech_id < 0 \<or> parent_tech_id < 0 then False
      else if preq_tech_id = parent_tech_id then True
      else if rng \<le> 0 then False
      else tech_is_preq g preq_tech_id (ctech_preq_tech1 (Tech g parent_tech_id)) (rng - 1)
        \<or> tech_is_preq g preq_tech_id (ctech_preq_tech2 (Tech g parent_tech_id)) (rng - 1))"
  by pat_completeness auto
termination by (relation "measure (\<lambda>(g, p, t, r). nat r)") auto

declare tech_is_preq.simps [simp del]

subsection \<open>Effects of technologies\<close>

definition tech_flag_bonus :: "u32 \<Rightarrow> faction \<Rightarrow> faction" where
  "tech_flag_bonus flags f =
     (let f = (if flags AND TFLAG_INC_NUTRIENT_FUNGUS \<noteq> 0
               then f\<lparr>f_tech_fungus_nutrient := f_tech_fungus_nutrient f + 1\<rparr> else f);
          f = (if flags AND TFLAG_INC_MINERALS_FUNGUS \<noteq> 0
               then f\<lparr>f_tech_fungus_mineral := f_tech_fungus_mineral f + 1\<rparr> else f);
          f = (if flags AND TFLAG_INC_ENERGY_FUNGUS \<noteq> 0
               then f\<lparr>f_tech_fungus_energy := f_tech_fungus_energy f + 1\<rparr> else f)
      in if flags AND TFLAG_INC_COMMERCE \<noteq> 0
         then f\<lparr>f_tech_commerce_bonus := f_tech_commerce_bonus f + 1\<rparr> else f)"

definition rule_fungus_bonus :: "int \<Rightarrow> int \<Rightarrow> faction \<Rightarrow> faction" where
  "rule_fungus_bonus bonus_id val1 f =
     (if bonus_id = RULE_FUNGNUTRIENT then f\<lparr>f_tech_fungus_nutrient := f_tech_fungus_nutrient f + val1\<rparr>
      else if bonus_id = RULE_FUNGMINERALS then f\<lparr>f_tech_fungus_mineral := f_tech_fungus_mineral f + val1\<rparr>
      else if bonus_id = RULE_FUNGENERGY then f\<lparr>f_tech_fungus_energy := f_tech_fungus_energy f + val1\<rparr>
      else f)"

definition tech_effects :: "game \<Rightarrow> int \<Rightarrow> game" where
  "tech_effects g faction_id = upd_faction faction_id (\<lambda>f.
     let m = MFactions g faction_id;
         f = f\<lparr>f_tech_commerce_bonus := mf_rule_commerce m, f_tech_fungus_nutrient := 0,
               f_tech_fungus_mineral := 0, f_tech_fungus_energy := 0, f_tech_fungus_unused := 0\<rparr>;
         f = fold (\<lambda>tech_id f. if has_tech g tech_id faction_id
                 then tech_flag_bonus (ctech_flags (Tech g tech_id)) f else f) [0..MaxTechnologyNum - 1] f;
         f = fold (\<lambda>i. rule_fungus_bonus (mf_faction_bonus_id m i) (mf_faction_bonus_val1 m i))
               [0..mf_faction_bonus_count m - 1] f;
         f = f\<lparr>f_tech_fungus_nutrient := max 0 (f_tech_fungus_nutrient f),
               f_tech_fungus_mineral := max 0 (f_tech_fungus_mineral f),
               f_tech_fungus_energy := max 0 (f_tech_fungus_energy f)\<rparr>;
         e = f_SE_economy_pending f
     in if e > 2
        then f\<lparr>f_tech_commerce_bonus := f_tech_commerce_bonus f + 1
               + (if e > 3 then 1 + (if e > 4 then 1 else 0) else 0)\<rparr>
        else f) g"

subsection \<open>Cost of research\<close>

definition revised_tech_cost :: "game \<Rightarrow> bool" where
  "revised_tech_cost g \<longleftrightarrow> conf_revised_tech_cost (conf g) \<noteq> 0 \<and> \<not> MultiplayerActive g"

text \<open>The formula of the original game, before the final clamp; \<open>cost\<close> is a 64-bit integer there.\<close>

definition classic_tech_cost :: "game \<Rightarrow> int \<Rightarrow> int" where
  "classic_tech_cost g faction_id =
    (let plr = Factions g faction_id;
       plr_tech_rating = clamp (f_tech_ranking plr + 2 * f_earned_techs_saved plr - f_unk_27 plr) 2 9999;
       max_tech = fold (\<lambda>i m. max m (f_tech_ranking (Factions g i) + 2 * f_earned_techs_saved (Factions g i)))
          [0..MaxPlayerNum - 1] 0;
       is_plr = is_human g faction_id;
       is_stagnate = (GameRules g AND RULES_TECH_STAGNATION \<noteq> 0);
       half_max_tech = max_tech sdiv 2;
       half_plr_tech = plr_tech_rating sdiv 2;
       diff = (if is_plr then f_diff_level plr else DiffLevel g);
       diff_adj = (if diff < 3 then diff + 1 else diff);
       diff_val = (if is_plr then 3 else DiffLevel g);
       factor = (if is_plr then 4 * diff_adj + 8 else 29 - 3 * diff_adj);
       factor = clamp factor (12 - half_plr_tech) (12 + half_plr_tech);
       turn_penalty = half_plr_tech - (CurrentTurn g sdiv (if is_stagnate then 12 else 8));
       turn_penalty = clamp turn_penalty 0 ((factor * (if is_stagnate then 3 else 2)) sdiv 2);
       factor_adj = turn_penalty + factor;
       reduction = (half_max_tech - diff_val - half_plr_tech + 7) sdiv (8 - diff_val);
       reduction = clamp reduction 0 ((diff_val * factor_adj sdiv 10) + 1);
       tech_multiplier = clamp (half_plr_tech - clamp (f_SE_research_base plr) (- 1) 1) 1 99999;
       cost = (factor_adj - reduction) * tech_multiplier;
       cost = (if rule_tech_discovery_rate (Rules g) \<noteq> 100
               then (cost * 100) sdiv rule_tech_discovery_rate (Rules g) else cost);
       cost = (if mf_rule_techcost (MFactions g faction_id) \<noteq> 100
               then (cost * mf_rule_techcost (MFactions g faction_id)) sdiv 100 else cost);
       cost = cost * MapAreaSqRoot g sdiv 56
     in if is_stagnate then cost + cost sdiv 2 else cost)"

definition mod_tech_rate :: "game \<Rightarrow> int \<Rightarrow> int" where
  "mod_tech_rate g faction_id =
    (let plr = Factions g faction_id in
     if revised_tech_cost g then (if f_tech_cost plr > 0 then f_tech_cost plr else 9999)
     else if f_tech_cost plr \<ge> 0 then f_tech_cost plr
     else if rule_tech_discovery_rate (Rules g) = 0 then 999999999
     else clamp (classic_tech_cost g faction_id) 1 99999999)"

subsection \<open>What the recursions compute\<close>

text \<open>The relation from a technology to its prerequisites, among the identifiers of technologies.\<close>

definition preq_edge :: "game \<Rightarrow> (int \<times> int) set" where
  "preq_edge g = {(t, p). 0 \<le> t \<and> 0 \<le> p \<and> (p = ctech_preq_tech1 (Tech g t) \<or> p = ctech_preq_tech2 (Tech g t))}"

lemma tech_is_preq_nonneg: "tech_is_preq g p t r \<Longrightarrow> 0 \<le> p \<and> 0 \<le> t"
  by (simp add: tech_is_preq.simps split: if_splits)

lemma tech_is_preq_relpow:
  "0 \<le> p \<Longrightarrow> 0 \<le> t \<Longrightarrow> tech_is_preq g p t (int n) \<longleftrightarrow> (\<exists>k \<le> n. (t, p) \<in> preq_edge g ^^ k)"
proof (induction n arbitrary: t)
  case 0
  then show ?case by (simp add: tech_is_preq.simps)
next
  case (Suc n)
  let ?a = "ctech_preq_tech1 (Tech g t)" and ?b = "ctech_preq_tech2 (Tech g t)"
  have e: "(\<exists>k \<le> Suc n. (t, p) \<in> preq_edge g ^^ k)
      \<longleftrightarrow> p = t \<or> (\<exists>u. (t, u) \<in> preq_edge g \<and> (\<exists>k \<le> n. (u, p) \<in> preq_edge g ^^ k))"
    by (metis (no_types, lifting) Suc_le_mono le0 not0_implies_Suc relpow_0_E relpow_0_I relpow_Suc_D2 relpow_Suc_I2)
  have step: "tech_is_preq g p u (int n) \<longleftrightarrow> 0 \<le> u \<and> (\<exists>k \<le> n. (u, p) \<in> preq_edge g ^^ k)" for u
    using Suc.IH [of u] Suc.prems(1) tech_is_preq_nonneg by blast
  have "tech_is_preq g p t (int (Suc n)) \<longleftrightarrow> p = t \<or> tech_is_preq g p ?a (int n) \<or> tech_is_preq g p ?b (int n)"
    using Suc.prems by (subst tech_is_preq.simps) auto
  also have "\<dots> \<longleftrightarrow> p = t \<or> (\<exists>u. (t, u) \<in> preq_edge g \<and> (\<exists>k \<le> n. (u, p) \<in> preq_edge g ^^ k))"
    unfolding step using Suc.prems(2) by (auto simp: preq_edge_def)
  finally show ?case unfolding e .
qed

lemma tech_level_ge: "lvl \<le> tech_level g t lvl"
proof (induction g t lvl rule: tech_level.induct)
  case (1 g t lvl)
  then show ?case by (subst tech_level.simps) (auto simp: le_max_iff_disj)
qed

text \<open>The length of the longest chain of prerequisites below a technology, for a tree in which every
  prerequisite has a smaller rank.\<close>

function chain_height :: "game \<Rightarrow> (int \<Rightarrow> nat) \<Rightarrow> int \<Rightarrow> nat" where
  "chain_height g rk t =
     (if t < 0 \<or> TECH_TranT < t then 0
      else Suc (max
        (if rk (ctech_preq_tech1 (Tech g t)) < rk t then chain_height g rk (ctech_preq_tech1 (Tech g t)) else 0)
        (if rk (ctech_preq_tech2 (Tech g t)) < rk t then chain_height g rk (ctech_preq_tech2 (Tech g t)) else 0)))"
  by pat_completeness auto
termination by (relation "measure (\<lambda>(g, rk, t). rk t)") auto

declare chain_height.simps [simp del]

definition ranked_tree :: "game \<Rightarrow> (int \<Rightarrow> nat) \<Rightarrow> bool" where
  "ranked_tree g rk \<longleftrightarrow> (\<forall>t. 0 \<le> t \<and> t \<le> TECH_TranT \<longrightarrow>
     rk (ctech_preq_tech1 (Tech g t)) < rk t \<and> rk (ctech_preq_tech2 (Tech g t)) < rk t \<and> rk t \<le> 89)"

lemma tech_level_height:
  "ranked_tree g rk \<Longrightarrow> 0 \<le> lvl \<Longrightarrow> lvl + int (rk t) \<le> 89 \<Longrightarrow> tech_level g t lvl = lvl + int (chain_height g rk t)"
proof (induction g rk t arbitrary: lvl rule: chain_height.induct)
  case (1 g rk t)
  show ?case
  proof (cases "t < 0 \<or> TECH_TranT < t")
    case True
    then show ?thesis by (subst chain_height.simps, subst tech_level.simps) auto
  next
    case False
    let ?a = "ctech_preq_tech1 (Tech g t)" and ?b = "ctech_preq_tech2 (Tech g t)"
    have r: "rk ?a < rk t" "rk ?b < rk t" using False 1(3) by (auto simp: ranked_tree_def)
    have "tech_level g ?a (lvl + 1) = lvl + 1 + int (chain_height g rk ?a)"
      "tech_level g ?b (lvl + 1) = lvl + 1 + int (chain_height g rk ?b)"
      using False r 1(3-5) by (intro 1(1); simp) (use False r 1(3-5) in \<open>intro 1(2); simp\<close>)
    then show ?thesis using False r 1(4,5) by (subst chain_height.simps, subst tech_level.simps) simp
  qed
qed


lemma tech_level_le: "tech_level g t lvl \<le> max lvl 89"
proof (induction g t lvl rule: tech_level.induct)
  case (1 g t lvl)
  then show ?case by (subst tech_level.simps) auto
qed

subsection \<open>What the effects add up to\<close>

definition tech_flag_count :: "game \<Rightarrow> int \<Rightarrow> u32 \<Rightarrow> int list \<Rightarrow> int" where
  "tech_flag_count g faction_id flag ts =
     int (length (filter (\<lambda>t. has_tech g t faction_id \<and> ctech_flags (Tech g t) AND flag \<noteq> 0) ts))"

definition rule_bonus_sum :: "mfaction \<Rightarrow> int \<Rightarrow> int list \<Rightarrow> int" where
  "rule_bonus_sum m rule xs = sum_list (map (\<lambda>i. if mf_faction_bonus_id m i = rule then mf_faction_bonus_val1 m i else 0) xs)"

lemma fold_flag_bonus:
  fixes g i defines "F \<equiv> \<lambda>t f. if has_tech g t i then tech_flag_bonus (ctech_flags (Tech g t)) f else f"
  shows "f_tech_fungus_nutrient (fold F ts f) = f_tech_fungus_nutrient f + tech_flag_count g i TFLAG_INC_NUTRIENT_FUNGUS ts"
    and "f_tech_fungus_mineral (fold F ts f) = f_tech_fungus_mineral f + tech_flag_count g i TFLAG_INC_MINERALS_FUNGUS ts"
    and "f_tech_fungus_energy (fold F ts f) = f_tech_fungus_energy f + tech_flag_count g i TFLAG_INC_ENERGY_FUNGUS ts"
    and "f_tech_commerce_bonus (fold F ts f) = f_tech_commerce_bonus f + tech_flag_count g i TFLAG_INC_COMMERCE ts"
    and "f_SE_economy_pending (fold F ts f) = f_SE_economy_pending f"
  by (induction ts arbitrary: f) (simp_all add: F_def tech_flag_count_def tech_flag_bonus_def Let_def)

lemma fold_rule_bonus:
  fixes m defines "R \<equiv> \<lambda>i. rule_fungus_bonus (mf_faction_bonus_id m i) (mf_faction_bonus_val1 m i)"
  shows "f_tech_fungus_nutrient (fold R xs f) = f_tech_fungus_nutrient f + rule_bonus_sum m RULE_FUNGNUTRIENT xs"
    and "f_tech_fungus_mineral (fold R xs f) = f_tech_fungus_mineral f + rule_bonus_sum m RULE_FUNGMINERALS xs"
    and "f_tech_fungus_energy (fold R xs f) = f_tech_fungus_energy f + rule_bonus_sum m RULE_FUNGENERGY xs"
    and "f_tech_commerce_bonus (fold R xs f) = f_tech_commerce_bonus f"
    and "f_SE_economy_pending (fold R xs f) = f_SE_economy_pending f"
  by (induction xs arbitrary: f) (simp_all add: R_def rule_bonus_sum_def rule_fungus_bonus_def)

subsection \<open>Properties\<close>

text \<open>C38: \<open>tech_is_preq\<close> decides reachability: within range r, the first technology is the second one or
  reachable from it by at most r steps to a prerequisite.\<close>

theorem tech_is_preq_reach:
  assumes "0 \<le> p" "0 \<le> t" "0 \<le> r"
  shows "tech_is_preq g p t r \<longleftrightarrow> (\<exists>k \<le> nat r. (t, p) \<in> preq_edge g ^^ k)"
  using tech_is_preq_relpow [OF assms(1,2), of g "nat r"] assms(3) by simp

definition chain_game :: game where
  "chain_game = blank_game\<lparr>Tech := (\<lambda>t. blank_ctech\<lparr>ctech_preq_tech1 := t - 1, ctech_preq_tech2 := - 1\<rparr>)\<rparr>"

lemma tech_is_preq_reach_witness:
  "tech_is_preq chain_game 3 5 2 \<and> (\<exists>k \<le> 2. (5, 3) \<in> preq_edge chain_game ^^ k)"
proof -
  have "tech_is_preq chain_game 3 5 2" by (simp add: tech_is_preq.simps chain_game_def)
  then show ?thesis using tech_is_preq_reach [of 3 5 2 chain_game] by simp
qed

text \<open>C37: \<open>tech_level\<close> is the length of the longest chain of prerequisites when every prerequisite has a
  smaller rank (at most 89 levels), and on any table, cyclic ones included, it returns at most 89.\<close>

theorem tech_level_longest_chain:
  "(ranked_tree g rk \<and> 0 \<le> t \<and> t \<le> 88 \<longrightarrow> tech_level g t 0 = int (chain_height g rk t))
    \<and> 0 \<le> tech_level g t 0 \<and> tech_level g t 0 \<le> 89"
  using tech_level_height [of g rk 0 t] tech_level_ge [of 0 g t] tech_level_le [of g t 0]
  by (auto simp: ranked_tree_def)

lemma tech_level_longest_chain_witness:
  "tech_level chain_game 7 0 = int (chain_height chain_game (\<lambda>t. nat (t + 1)) 7) \<and> tech_level chain_game 7 0 = 8"
proof -
  have "ranked_tree chain_game (\<lambda>t. nat (t + 1))"
    by (auto simp: ranked_tree_def chain_game_def nat_less_iff nat_le_iff)
  moreover have "tech_level chain_game 7 0 = 8"
    by (simp add: tech_level.simps chain_game_def)
  ultimately show ?thesis using tech_level_longest_chain [of chain_game "\<lambda>t. nat (t + 1)" 7] by simp
qed

text \<open>After \<open>tech_effects\<close> the fungus and commerce bonuses of the faction are the number of its technologies
  with the flag, plus the faction's own rules, never negative for the resources; the economy setting
  adds one commerce for each step above +2, at most three.\<close>

theorem tech_effects_totals:
  defines "ts \<equiv> [0..MaxTechnologyNum - 1]"
  shows "let f = Factions (tech_effects g i) i; m = MFactions g i; xs = [0..mf_faction_bonus_count m - 1] in
    f_tech_fungus_nutrient f = max 0 (tech_flag_count g i TFLAG_INC_NUTRIENT_FUNGUS ts + rule_bonus_sum m RULE_FUNGNUTRIENT xs)
    \<and> f_tech_fungus_mineral f = max 0 (tech_flag_count g i TFLAG_INC_MINERALS_FUNGUS ts + rule_bonus_sum m RULE_FUNGMINERALS xs)
    \<and> f_tech_fungus_energy f = max 0 (tech_flag_count g i TFLAG_INC_ENERGY_FUNGUS ts + rule_bonus_sum m RULE_FUNGENERGY xs)
    \<and> f_tech_commerce_bonus f = mf_rule_commerce m + tech_flag_count g i TFLAG_INC_COMMERCE ts
         + clamp (f_SE_economy_pending (Factions g i) - 2) 0 3
    \<and> (\<forall>j. j \<noteq> i \<longrightarrow> Factions (tech_effects g i) j = Factions g j)"
  by (simp add: tech_effects_def Let_def fold_flag_bonus fold_rule_bonus ts_def clamp_def)

text \<open>A researchable technology is not owned yet and has both prerequisites; no technology is ever
  available to the native life, and the expansion's technologies are not in the original game.\<close>

theorem tech_avail_sound:
  assumes "tech_avail g t f"
  shows "\<not> has_tech g t f \<and> t < MaxTechnologyNum \<and> 0 < f
    \<and> has_tech g (ctech_preq_tech1 (Tech g t)) f \<and> has_tech g (ctech_preq_tech2 (Tech g t)) f
    \<and> (ExpansionEnabled g \<or> t \<notin> {TECH_PrPsych, TECH_FldMod, TECH_AdapDoc, TECH_AdapEco,
         TECH_Bioadap, TECH_SentRes, TECH_SecMani, TECH_NewMiss, TECH_BFG9000})"
proof -
  let ?a = "ctech_preq_tech1 (Tech g t)" and ?b = "ctech_preq_tech2 (Tech g t)"
  have "has_tech g ?a f" "has_tech g ?b f"
    using assms unfolding tech_avail_def Let_def by presburger+
  moreover have "0 < f" using \<open>has_tech g ?a f\<close> by (simp add: has_tech_def split: if_split_asm)
  moreover have "\<not> has_tech g t f" "t < MaxTechnologyNum"
    "ExpansionEnabled g \<or> t \<notin> {TECH_PrPsych, TECH_FldMod, TECH_AdapDoc, TECH_AdapEco,
       TECH_Bioadap, TECH_SentRes, TECH_SecMani, TECH_NewMiss, TECH_BFG9000}"
    using assms unfolding tech_avail_def insert_iff empty_iff not_le [symmetric] by argo+
  ultimately show ?thesis by blast
qed

lemma tech_avail_sound_witness:
  "\<not> has_tech (blank_game\<lparr>Tech := (\<lambda>_. blank_ctech\<lparr>ctech_preq_tech1 := - 1, ctech_preq_tech2 := - 1\<rparr>)\<rparr>) 3 1"
  by (rule tech_avail_sound [THEN conjunct1]) (simp add: tech_avail_def has_tech_def blank_game_def)

text \<open>When the cost is computed (classic formula, cost not cached, a discovery rate set), the price of the next
  technology lies between 1 and 99999999; a cached non-negative cost is returned as it is.\<close>

theorem tech_rate_bounds:
  assumes "\<not> revised_tech_cost g"
  shows "if 0 \<le> f_tech_cost (Factions g i) then mod_tech_rate g i = f_tech_cost (Factions g i)
    else if rule_tech_discovery_rate (Rules g) = 0 then mod_tech_rate g i = 999999999
    else 1 \<le> mod_tech_rate g i \<and> mod_tech_rate g i \<le> 99999999"
  using assms clamp_bounds [of 1 99999999] by (simp add: mod_tech_rate_def Let_def)

lemma tech_rate_bounds_witness:
  "mod_tech_rate (blank_game\<lparr>conf := default_conf\<lparr>conf_revised_tech_cost := 0\<rparr>\<rparr>) 1 = 0"
  using tech_rate_bounds [of "blank_game\<lparr>conf := default_conf\<lparr>conf_revised_tech_cost := 0\<rparr>\<rparr>" 1]
  by (simp add: revised_tech_cost_def blank_game_def blank_faction_def)

theorem tech_effects_totals_witness:
  "f_tech_commerce_bonus (Factions (tech_effects blank_game 1) 1) = 0 \<and> Factions (tech_effects blank_game 1) 2 = Factions blank_game 2"
proof -
  have "Tech blank_game t = blank_ctech" for t by (simp add: blank_game_def)
  then have z: "tech_flag_count blank_game 1 TFLAG_INC_COMMERCE xs = 0" for xs
    by (simp add: tech_flag_count_def blank_ctech_def)
  show ?thesis
    using tech_effects_totals [of blank_game 1]
    by (simp add: z Let_def clamp_def) (simp add: blank_game_def blank_mfaction_def blank_faction_def)
qed

end
