(* ===== verification/Offsets.thy ===== *)
theory Offsets
  imports Tile
begin

section \<open>The offset tables of path.h enumerate the balls of the map metric\<close>

text \<open>
  The first \<open>TableRange[r]\<close> entries of the offset tables are exactly the displacements with
  even coordinate sum and \<open>(|dx| + |dy|) / 2 <= r\<close>. Each ring is checked by evaluation in the
  rotated coordinates \<open>u = (dx + dy) / 2\<close>, \<open>v = (dx - dy) / 2\<close>, and the rings are put together by
  induction.
\<close>

definition offsets :: "(int \<times> int) list" where
  "offsets = zip TableOffsetX TableOffsetY"

definition range_count :: "nat \<Rightarrow> nat" where
  "range_count r = nat (TableRange ! r)"

definition uv_code :: "int \<Rightarrow> int \<times> int \<Rightarrow> int" where
  "uv_code r p = ((fst p + snd p) div 2 + r) * (2 * r + 1) + ((fst p - snd p) div 2 + r)"

definition in_ball :: "int \<Rightarrow> int \<times> int \<Rightarrow> bool" where
  "in_ball r p \<longleftrightarrow> even (fst p + snd p) \<and> \<bar>fst p\<bar> + \<bar>snd p\<bar> \<le> 2 * r"

definition ring_slice :: "nat \<Rightarrow> (int \<times> int) list" where
  "ring_slice r = drop (range_count (r - 1)) (take (range_count r) offsets)"

definition ring_codes :: "int \<Rightarrow> int list" where
  "ring_codes r = filter (\<lambda>c. max \<bar>c div (2 * r + 1) - r\<bar> \<bar>c mod (2 * r + 1) - r\<bar> = r)
     [0..(2 * r + 1) * (2 * r + 1) - 1]"

definition ring_ok :: "nat \<Rightarrow> bool" where
  "ring_ok r \<longleftrightarrow> sort (map (uv_code (int r)) (ring_slice r)) = ring_codes (int r)
     \<and> list_all (in_ball (int r)) (ring_slice r)"

lemma rings_ok: "list_all ring_ok [1, 2, 3, 4, 5, 6, 7, 8]"
  by code_simp

lemma uv_split:
  assumes "even (x + y :: int)"
  shows "x = (x + y) div 2 + (x - y) div 2" "y = (x + y) div 2 - (x - y) div 2"
proof -
  obtain k where "x + y = 2 * k" using assms by blast
  then have "x = 2 * k - y" by simp
  then show "x = (x + y) div 2 + (x - y) div 2" "y = (x + y) div 2 - (x - y) div 2" by simp_all
qed

lemma abs_uv: "\<bar>u + v\<bar> + \<bar>u - v\<bar> \<le> 2 * r \<longleftrightarrow> \<bar>u\<bar> \<le> r \<and> \<bar>v\<bar> \<le> (r::int)"
  by linarith

lemma uv_ball: "even (x + y) \<Longrightarrow> \<bar>x\<bar> + \<bar>y\<bar> \<le> 2 * r \<longleftrightarrow> \<bar>(x + y) div 2\<bar> \<le> r \<and> \<bar>(x - y) div 2\<bar> \<le> (r::int)"
  using abs_uv [of "(x + y) div 2" "(x - y) div 2" r] uv_split [of x y] by simp

lemma digit_pair: "0 \<le> b \<Longrightarrow> b < m \<Longrightarrow> (a * m + b) div m = (a::int) \<and> (a * m + b) mod m = b"
  by (simp add: add.commute [of "a * m"])

lemma uv_code_parts:
  assumes "in_ball r p"
  shows "uv_code r p div (2 * r + 1) - r = (fst p + snd p) div 2"
    "uv_code r p mod (2 * r + 1) - r = (fst p - snd p) div 2"
    "0 \<le> uv_code r p" "uv_code r p \<le> (2 * r + 1) * (2 * r + 1) - 1"
proof -
  define u v m where "u = (fst p + snd p) div 2" and "v = (fst p - snd p) div 2" and "m = 2 * r + 1"
  have "\<bar>u\<bar> \<le> r" "\<bar>v\<bar> \<le> r"
    using assms uv_ball [of "fst p" "snd p" r] unfolding in_ball_def u_def v_def by blast+
  then have m: "0 \<le> v + r" "v + r < m" "0 \<le> u + r" "u + r \<le> m - 1" unfolding m_def by linarith+
  have c: "uv_code r p = (u + r) * m + (v + r)" by (simp only: uv_code_def u_def v_def m_def)
  show "uv_code r p div (2 * r + 1) - r = (fst p + snd p) div 2"
    using digit_pair [OF m(1,2), of "u + r"] unfolding c m_def [symmetric] u_def [symmetric] by simp
  show "uv_code r p mod (2 * r + 1) - r = (fst p - snd p) div 2"
    using digit_pair [OF m(1,2), of "u + r"] unfolding c m_def [symmetric] v_def [symmetric] by simp
  show "0 \<le> uv_code r p" using m unfolding c by simp
  have "(u + r) * m \<le> (m - 1) * m" using m by (intro mult_right_mono) auto
  then have "uv_code r p \<le> (m - 1) * m + (m - 1)"
    unfolding c using m(2) by linarith
  also have "(m - 1) * m + (m - 1) = m * m - 1" by (simp add: algebra_simps)
  finally show "uv_code r p \<le> (2 * r + 1) * (2 * r + 1) - 1" unfolding m_def .
qed

lemma uv_code_inj:
  assumes "in_ball r p" "in_ball r q" "uv_code r p = uv_code r q"
  shows "p = q"
proof -
  have "(fst p + snd p) div 2 = (fst q + snd q) div 2" "(fst p - snd p) div 2 = (fst q - snd q) div 2"
    using uv_code_parts(1,2) [OF assms(1)] uv_code_parts(1,2) [OF assms(2)] assms(3) by metis+
  moreover have "even (fst p + snd p)" "even (fst q + snd q)" using assms by (auto simp: in_ball_def)
  ultimately show ?thesis
    using uv_split [of "fst p" "snd p"] uv_split [of "fst q" "snd q"] by (metis prod_eq_iff)
qed

lemma max_abs_ring:
  "\<bar>u\<bar> \<le> r \<and> \<bar>v\<bar> \<le> r \<Longrightarrow> \<not> (\<bar>u\<bar> \<le> r - 1 \<and> \<bar>v\<bar> \<le> r - 1) \<Longrightarrow> max \<bar>u\<bar> \<bar>v\<bar> = (r::int)"
  by linarith

lemma ring_member:
  assumes "ring_ok r" "in_ball (int r) p" "\<not> in_ball (int r - 1) p"
  shows "p \<in> set (ring_slice r)"
proof -
  let ?u = "(fst p + snd p) div 2" and ?v = "(fst p - snd p) div 2"
  have e: "even (fst p + snd p)" using assms(2) by (simp add: in_ball_def)
  have "max \<bar>?u\<bar> \<bar>?v\<bar> = int r"
    using assms(2,3) unfolding in_ball_def uv_ball [OF e]
    by (intro max_abs_ring) (use e in blast)+
  then have "uv_code (int r) p \<in> set (ring_codes (int r))"
    using uv_code_parts(3,4) [OF assms(2)]
    unfolding ring_codes_def set_filter mem_Collect_eq uv_code_parts(1,2) [OF assms(2)] set_upto by simp
  also have "set (ring_codes (int r)) = uv_code (int r) ` set (ring_slice r)"
    using assms(1) unfolding ring_ok_def by (metis set_map set_sort)
  finally obtain q where "q \<in> set (ring_slice r)" "uv_code (int r) q = uv_code (int r) p" by auto
  moreover from this have "in_ball (int r) q" using assms(1) by (auto simp: ring_ok_def list_all_iff)
  ultimately show ?thesis using uv_code_inj assms(2) by metis
qed

lemma range_count_mono: "r < 8 \<Longrightarrow> range_count r \<le> range_count (Suc r)"
  by (auto simp: range_count_def TableRange_def less_Suc_eq eval_nat_numeral)

lemma take_ring:
  assumes "r < 8"
  shows "take (range_count (Suc r)) offsets = take (range_count r) offsets @ ring_slice (Suc r)"
proof -
  have "take (range_count r) (take (range_count (Suc r)) offsets) = take (range_count r) offsets"
    using range_count_mono [OF assms] by simp
  then show ?thesis unfolding ring_slice_def
    by (metis append_take_drop_id diff_Suc_1)
qed

lemma ring_ok_le8: "0 < r \<Longrightarrow> r \<le> 8 \<Longrightarrow> ring_ok r"
proof -
  assume "0 < r" "r \<le> 8"
  then have "r \<in> set [1, 2, 3, 4, 5, 6, 7, 8]" by (auto simp: le_Suc_eq eval_nat_numeral)
  then show ?thesis using rings_ok unfolding list_all_iff by blast
qed

lemma offsets_ball: "r \<le> 8 \<Longrightarrow> set (take (range_count r) offsets) = Collect (in_ball (int r))"
proof (induction r)
  case 0
  have "take (range_count 0) offsets = [(0, 0)]"
    by (simp add: range_count_def TableRange_def offsets_def TableOffsetX_def TableOffsetY_def)
  then show ?case by (auto simp: in_ball_def)
next
  case (Suc r)
  then have ok: "ring_ok (Suc r)" and IH: "set (take (range_count r) offsets) = Collect (in_ball (int r))"
    by (simp_all add: ring_ok_le8)
  have sub: "in_ball (int r) p \<Longrightarrow> in_ball (int (Suc r)) p" for p by (auto simp: in_ball_def)
  show ?case
  proof
    show "set (take (range_count (Suc r)) offsets) \<subseteq> Collect (in_ball (int (Suc r)))"
      using Suc.prems ok IH sub by (auto simp: take_ring ring_ok_def list_all_iff)
    show "Collect (in_ball (int (Suc r))) \<subseteq> set (take (range_count (Suc r)) offsets)"
      using ring_member [OF ok] Suc.prems IH by (auto simp: take_ring)
  qed
qed

lemma range_count_le: "r \<le> 8 \<Longrightarrow> range_count r \<le> 289"
proof -
  have "list_all (\<lambda>r. range_count r \<le> 289) [0, 1, 2, 3, 4, 5, 6, 7, 8]"
    by (simp add: range_count_def TableRange_def)
  moreover assume "r \<le> 8"
  then have "r \<in> set [0, 1, 2, 3, 4, 5, 6, 7, 8]" by (auto simp: le_Suc_eq eval_nat_numeral)
  ultimately show ?thesis unfolding list_all_iff by blast
qed

lemma offset_index:
  assumes "r \<le> 8"
  shows "(\<exists>i < range_count r. TableOffsetX ! i = dx \<and> TableOffsetY ! i = dy) \<longleftrightarrow> in_ball (int r) (dx, dy)"
proof -
  have l: "length TableOffsetX = 289" "length TableOffsetY = 289"
    by (simp_all add: TableOffsetX_def TableOffsetY_def)
  have n: "range_count r \<le> 289" using assms range_count_le by blast
  have "set (take (range_count r) offsets) = (\<lambda>i. (TableOffsetX ! i, TableOffsetY ! i)) ` {..<range_count r}"
    using l n by (force simp: set_conv_nth offsets_def)
  then have "(dx, dy) \<in> set (take (range_count r) offsets)
      \<longleftrightarrow> (\<exists>i < range_count r. TableOffsetX ! i = dx \<and> TableOffsetY ! i = dy)"
    by auto
  then show ?thesis using offsets_ball [OF assms] by auto
qed

end
