(* ===== verification/MapGrid.thy ===== *)
theory MapGrid
  imports Offsets Rand Entities
begin

section \<open>Map geometry, square access and landmarks (map.cpp, path.cpp)\<close>

text \<open>
  Coordinates, distances, the pointer arithmetic of \<open>mapsq\<close>, reads and writes of squares,
  locks, the occupancy bits rebuilt from the bases and units, and the landmark table.
  A write through a NULL square is skipped where the code tests for it; a function that
  dereferences without a test returns \<open>None\<close> there.
\<close>

subsection \<open>Coordinates and distances\<close>

definition map_is_flat :: "game \<Rightarrow> bool" where
  "map_is_flat g \<longleftrightarrow> MapToggleFlat g AND 1 \<noteq> 0"

definition mapsq :: "game \<Rightarrow> int \<Rightarrow> int \<Rightarrow> int option" where
  "mapsq g x y =
     (if x \<ge> 0 \<and> y \<ge> 0 \<and> x < MapAreaX g \<and> y < MapAreaY g \<and> even (x + y)
      then Some ((x + MapAreaX g * y) sdiv 2) else None)"

definition wrap :: "game \<Rightarrow> int \<Rightarrow> int" where
  "wrap g x =
     (if \<not> map_is_flat g
      then (if x \<ge> 0 then (if x \<ge> MapAreaX g then x - MapAreaX g else x) else x + MapAreaX g)
      else x)"

definition next_tile :: "game \<Rightarrow> int \<Rightarrow> int \<Rightarrow> nat \<Rightarrow> int \<times> int \<times> int option" where
  "next_tile g x y offset =
     (let tx = wrap g (x + TableOffsetX ! offset); ty = y + TableOffsetY ! offset
      in (tx, ty, mapsq g tx ty))"

definition x_dist :: "game \<Rightarrow> int \<Rightarrow> int \<Rightarrow> int" where
  "x_dist g x1 x2 =
     (let dx = \<bar>x1 - x2\<bar>
      in if \<not> map_is_flat g \<and> dx > MapHalfX g then MapAreaX g - dx else dx)"

definition map_range :: "game \<Rightarrow> int \<Rightarrow> int \<Rightarrow> int \<Rightarrow> int \<Rightarrow> int" where
  "map_range g x1 y1 x2 y2 =
     (let dx = \<bar>x1 - x2\<bar>; dy = \<bar>y1 - y2\<bar>;
          dx = (if \<not> map_is_flat g \<and> dx > MapHalfX g then MapAreaX g - dx else dx)
      in (dx + dy) sdiv 2)"

definition vector_dist :: "game \<Rightarrow> int \<Rightarrow> int \<Rightarrow> int \<Rightarrow> int \<Rightarrow> int" where
  "vector_dist g x1 y1 x2 y2 =
     (let dx = \<bar>x1 - x2\<bar>; dy = \<bar>y1 - y2\<bar>;
          dx = (if \<not> map_is_flat g \<and> dx > MapHalfX g then MapAreaX g - dx else dx)
      in max dx dy - (((dx + dy) sdiv 2) - min dx dy + 1) sdiv 2)"

text \<open>The \<open>std::set\<close> of points is the list of its elements in iteration order.\<close>

definition min_range :: "game \<Rightarrow> (int \<times> int) list \<Rightarrow> int \<Rightarrow> int \<Rightarrow> int" where
  "min_range g S x y = fold (\<lambda>(px, py) v. min v (map_range g x y px py)) S 9999"

definition min_vector :: "game \<Rightarrow> (int \<times> int) list \<Rightarrow> int \<Rightarrow> int \<Rightarrow> int" where
  "min_vector g S x y = fold (\<lambda>(px, py) v. min v (vector_dist g x y px py)) S 9999"

definition avg_range :: "game \<Rightarrow> (int \<times> int) list \<Rightarrow> int \<Rightarrow> int \<Rightarrow> int" where
  "avg_range g S x y =
     (let (n, sum) = fold (\<lambda>(px, py) (n, sum). (n + 1, sum + word_of_int (map_range g x y px py)))
        S (0 :: u32, 0 :: u32)
      in if n > 0 then sint (push_bit 8 sum div n) else 0)"

definition on_map :: "game \<Rightarrow> int \<Rightarrow> int \<Rightarrow> bool" where
  "on_map g x y \<longleftrightarrow> x \<ge> 0 \<and> x < MapAreaX g \<and> y \<ge> 0 \<and> y < MapAreaY g"

definition bad_reg :: "int \<Rightarrow> bool" where
  "bad_reg region \<longleftrightarrow> region AND RegionBounds = RegionBounds \<or> region AND RegionBounds = 0"

definition iterate_tiles :: "game \<Rightarrow> int \<Rightarrow> int \<Rightarrow> nat \<Rightarrow> nat \<Rightarrow> (int \<times> int \<times> nat \<times> int) list" where
  "iterate_tiles g x y start_index end_index =
     concat (map (\<lambda>i. (let x2 = wrap g (x + TableOffsetX ! i); y2 = y + TableOffsetY ! i
        in (case mapsq g x2 y2 of None \<Rightarrow> [] | Some sq \<Rightarrow> [(x2, y2, i, sq)])))
       [start_index..<end_index])"

definition GameRandom_pick_tile :: "game \<Rightarrow> game_random \<Rightarrow> int \<Rightarrow> game_random \<times> int \<times> int \<times> int option" where
  "GameRandom_pick_tile g r dy =
     (let (r, v) = GameRandom_get r (MapAreaY g - 2 * dy);
          y = v + dy;
          (r, x) = GameRandom_get r (MapAreaX g);
          x = ((x XOR y) AND 1) XOR x
      in (r, x, y, mapsq g x y))"

text \<open>The random source of map generation: the engine's generator in a multiplayer game.\<close>

definition mapgen_rand ::
    "game \<Rightarrow> ('s \<Rightarrow> 's \<times> int) \<Rightarrow> 's \<times> game_random \<Rightarrow> int \<Rightarrow> ('s \<times> game_random) \<times> int" where
  "mapgen_rand g game_rand st value =
     (if MultiplayerActive g
      then (let (s', r) = game_randv game_rand (fst st) value in ((s', snd st), r))
      else (if value > 1
            then (let (m', r) = GameRandom_get (snd st) value in ((fst st, m'), r)) else (st, 0)))"

subsection \<open>Reading squares\<close>

definition sq_at :: "game \<Rightarrow> int \<Rightarrow> int \<Rightarrow> tile option" where
  "sq_at g x y = map_option (MapTiles g) (mapsq g x y)"

definition is_ocean_sq :: "tile option \<Rightarrow> bool" where
  "is_ocean_sq sq = (case sq of None \<Rightarrow> True
     | Some t \<Rightarrow> uint (drop_bit 5 (sq_climate t)) < ALT_SHORE_LINE)"

definition is_ocean :: "game \<Rightarrow> int \<Rightarrow> int \<Rightarrow> bool" where
  "is_ocean g x y = is_ocean_sq (sq_at g x y)"

definition is_ocean_base :: "game \<Rightarrow> base \<Rightarrow> bool" where
  "is_ocean_base g base = is_ocean_sq (sq_at g (base_x base) (base_y base))"

definition is_ocean_shelf :: "tile option \<Rightarrow> bool" where
  "is_ocean_shelf sq = (case sq of None \<Rightarrow> False
     | Some t \<Rightarrow> uint (drop_bit 5 (sq_climate t)) = ALT_OCEAN_SHELF)"

definition is_shore_level :: "tile option \<Rightarrow> bool" where
  "is_shore_level sq = (case sq of None \<Rightarrow> False
     | Some t \<Rightarrow> uint (drop_bit 5 (sq_climate t)) = ALT_SHORE_LINE)"

definition map_is_known :: "game \<Rightarrow> int \<Rightarrow> bool" where
  "map_is_known g faction_id \<longleftrightarrow> f_player_flags (Factions g faction_id) AND PFLAG_MAP_REVEALED \<noteq> 0"

definition MAP_is_known :: "game \<Rightarrow> tile \<Rightarrow> int \<Rightarrow> bool" where
  "MAP_is_known g sq faction_id \<longleftrightarrow> MAP_is_visible sq faction_id \<or> map_is_known g faction_id"

definition is_known :: "game \<Rightarrow> int \<Rightarrow> int \<Rightarrow> int \<Rightarrow> bool" where
  "is_known g x y faction_id \<longleftrightarrow> faction_id \<ge> 0 \<and> faction_id < MaxPlayerNum
     \<and> (f_player_flags (Factions g faction_id) AND PFLAG_MAP_REVEALED \<noteq> 0
        \<or> (case sq_at g x y of None \<Rightarrow> False | Some sq \<Rightarrow> bit (sq_visibility sq) (nat faction_id)))"

definition adjacent_region :: "game \<Rightarrow> int \<Rightarrow> int \<Rightarrow> int \<Rightarrow> int \<Rightarrow> bool \<Rightarrow> bool" where
  "adjacent_region g x y owner threshold ocean =
     list_ex (\<lambda>(x2, y2, i, m). (let sq = MapTiles g m
        in is_ocean_sq (Some sq) = ocean
           \<and> (owner < 0 \<or> sq_owner sq < 0 \<or> sq_owner sq = owner) \<and> \<not> bad_reg (uint (sq_region sq))
           \<and> con_tile_count (Continents g (uint (sq_region sq))) \<ge> threshold))
       (iterate_tiles g x y 1 9)"

definition is_coast :: "game \<Rightarrow> int \<Rightarrow> int \<Rightarrow> bool \<Rightarrow> nat" where
  "is_coast g x y is_base_radius =
     (let radius = (if is_base_radius then 21 else 9)
      in (case List.find (\<lambda>i. (let x2 = wrap g (x + TableOffsetX ! i); y2 = y + TableOffsetY ! i
              in mapsq g x2 y2 \<noteq> None \<and> is_ocean_sq (sq_at g x2 y2))) [1..<radius]
          of None \<Rightarrow> 0 | Some i \<Rightarrow> i))"

definition is_port :: "game \<Rightarrow> int \<Rightarrow> bool \<Rightarrow> nat" where
  "is_port g base_id is_base_radius =
     is_coast g (base_x (Bases g base_id)) (base_y (Bases g base_id)) is_base_radius"

definition region_at :: "game \<Rightarrow> int \<Rightarrow> int \<Rightarrow> int" where
  "region_at g x y = (case sq_at g x y of None \<Rightarrow> 0 | Some sq \<Rightarrow> uint (sq_region sq))"

definition alt_at :: "game \<Rightarrow> int \<Rightarrow> int \<Rightarrow> int" where
  "alt_at g x y = (case sq_at g x y of None \<Rightarrow> 0 | Some sq \<Rightarrow> MAP_alt_level sq)"

definition alt_detail_at :: "game \<Rightarrow> int \<Rightarrow> int \<Rightarrow> int" where
  "alt_detail_at g x y = (case sq_at g x y of None \<Rightarrow> 0 | Some sq \<Rightarrow> uint (sq_contour sq))"

fun alt_natural_loop :: "(int \<Rightarrow> int) \<Rightarrow> int \<Rightarrow> nat \<Rightarrow> nat" where
  "alt_natural_loop natural detail 0 = 0"
| "alt_natural_loop natural detail (Suc alt) =
     (if detail < natural (int (Suc alt)) then alt_natural_loop natural detail alt else Suc alt)"

definition alt_natural :: "game \<Rightarrow> int \<Rightarrow> int \<Rightarrow> int" where
  "alt_natural g x y =
     (let detail = alt_detail_at g x y - MapSeaLevel g; alt = conf_altitude_limit (conf g)
      in if alt > 0 then int (alt_natural_loop (AltNatural g) detail (nat alt)) else alt)"

definition ElevDetail :: "int list" where
  "ElevDetail = [0, 20, 40, 60, 80, 100, 120, 140, 160, 180, 200]"

definition elev_at :: "game \<Rightarrow> int \<Rightarrow> int \<Rightarrow> int" where
  "elev_at g x y =
     (let contour = alt_detail_at g x y;
          elev = 50 * (contour - ElevDetail ! 3 - MapSeaLevel g);
          elev = elev + (if contour \<le> ElevDetail ! nat (alt_at g x y) then 10
                   else (x * 113 + y * 217 + MapSeaLevel g * 301) smod 50)
      in clamp elev (- 3000)
           (if conf_altitude_limit (conf g) > ALT_THREE_ABOVE_SEA then 4500 else 3500))"

definition bit_at :: "game \<Rightarrow> int \<Rightarrow> int \<Rightarrow> u32" where
  "bit_at g x y = (case sq_at g x y of None \<Rightarrow> 0 | Some sq \<Rightarrow> sq_items sq)"

definition bit2_at :: "game \<Rightarrow> int \<Rightarrow> int \<Rightarrow> u32" where
  "bit2_at g x y = (case sq_at g x y of None \<Rightarrow> 0 | Some sq \<Rightarrow> sq_landmarks sq)"

definition code_at :: "game \<Rightarrow> int \<Rightarrow> int \<Rightarrow> int" where
  "code_at g x y = (case sq_at g x y of None \<Rightarrow> 0 | Some sq \<Rightarrow> MAP_code_at sq)"

definition temp_at :: "game \<Rightarrow> int \<Rightarrow> int \<Rightarrow> int option" where
  "temp_at g x y = map_option get_temp (sq_at g x y)"

definition using_at :: "game \<Rightarrow> int \<Rightarrow> int \<Rightarrow> int option" where
  "using_at g x y = map_option get_using (sq_at g x y)"

definition lock_at :: "game \<Rightarrow> int \<Rightarrow> int \<Rightarrow> int option" where
  "lock_at g x y = map_option get_lock (sq_at g x y)"

definition nearby_items :: "game \<Rightarrow> int \<Rightarrow> int \<Rightarrow> nat \<Rightarrow> nat \<Rightarrow> u32 \<Rightarrow> nat" where
  "nearby_items g x y start_index end_index item =
     length (filter (\<lambda>i. bit_at g (wrap g (x + TableOffsetX ! i)) (y + TableOffsetY ! i) AND item \<noteq> 0)
       [start_index..<end_index])"

subsection \<open>Writing squares\<close>

definition upd_sq :: "game \<Rightarrow> int \<Rightarrow> int \<Rightarrow> (tile \<Rightarrow> tile) \<Rightarrow> game" where
  "upd_sq g x y f = (case mapsq g x y of None \<Rightarrow> g
     | Some i \<Rightarrow> g\<lparr>MapTiles := (MapTiles g)(i := f (MapTiles g i))\<rparr>)"

definition owner_set :: "game \<Rightarrow> int \<Rightarrow> int \<Rightarrow> int \<Rightarrow> game" where
  "owner_set g x y faction_id = upd_sq g x y (put_occupant faction_id)"

definition site_set :: "game \<Rightarrow> int \<Rightarrow> int \<Rightarrow> u8 \<Rightarrow> game" where
  "site_set g x y site = upd_sq g x y (put_site site)"

definition region_set :: "game \<Rightarrow> int \<Rightarrow> int \<Rightarrow> u8 \<Rightarrow> game" where
  "region_set g x y region = upd_sq g x y (\<lambda>sq. sq\<lparr>sq_region := region\<rparr>)"

definition alt_put_detail :: "game \<Rightarrow> int \<Rightarrow> int \<Rightarrow> u8 \<Rightarrow> game" where
  "alt_put_detail g x y detail = upd_sq g x y (\<lambda>sq. sq\<lparr>sq_contour := detail\<rparr>)"

definition world_alt_put_detail :: "game \<Rightarrow> int \<Rightarrow> int \<Rightarrow> game" where
  "world_alt_put_detail g x y = alt_put_detail g x y (word_of_int (AltNatural g 3))"

definition bit_put :: "game \<Rightarrow> int \<Rightarrow> int \<Rightarrow> u32 \<Rightarrow> game" where
  "bit_put g x y items = upd_sq g x y (\<lambda>sq. sq\<lparr>sq_items := items\<rparr>)"

definition bit_set :: "game \<Rightarrow> int \<Rightarrow> int \<Rightarrow> u32 \<Rightarrow> bool \<Rightarrow> game" where
  "bit_set g x y items add = upd_sq g x y (\<lambda>sq. sq\<lparr>sq_items :=
     (if add then sq_items sq OR items else sq_items sq AND NOT items)\<rparr>)"

definition bit2_set :: "game \<Rightarrow> int \<Rightarrow> int \<Rightarrow> u32 \<Rightarrow> bool \<Rightarrow> game" where
  "bit2_set g x y items add = upd_sq g x y (\<lambda>sq. sq\<lparr>sq_landmarks :=
     (if add then sq_landmarks sq OR items else sq_landmarks sq AND NOT items)\<rparr>)"

definition code_set :: "game \<Rightarrow> int \<Rightarrow> int \<Rightarrow> int \<Rightarrow> game" where
  "code_set g x y code = (case mapsq g x y of None \<Rightarrow> g
     | Some _ \<Rightarrow> (upd_sq g x y (put_code code))\<lparr>GameDrawState := GameDrawState g OR 4\<rparr>)"

definition synch_bit :: "game \<Rightarrow> int \<Rightarrow> int \<Rightarrow> int \<Rightarrow> game" where
  "synch_bit g x y faction_id =
     (if faction_id > 0 \<and> faction_id < MaxPlayerNum
      then upd_sq g x y (\<lambda>sq. sq\<lparr>sq_visible_items :=
             (sq_visible_items sq)(faction_id - 1 := sq_items sq)\<rparr>)
      else g)"

definition temp_set :: "game \<Rightarrow> int \<Rightarrow> int \<Rightarrow> u8 \<Rightarrow> game option" where
  "temp_set g x y value = map_option (\<lambda>_. upd_sq g x y (put_temp value)) (mapsq g x y)"

definition set_dirty :: "tile \<Rightarrow> tile" where
  "set_dirty sq = sq\<lparr>sq_landmarks := sq_landmarks sq OR LM_UNK_400000\<rparr>"

definition climate_set :: "game \<Rightarrow> int \<Rightarrow> int \<Rightarrow> u8 \<Rightarrow> game option" where
  "climate_set g x y rainfall = map_option (\<lambda>_.
     (upd_sq g x y (\<lambda>sq. set_dirty (put_rainfall rainfall sq)))\<lparr>GameDrawState := GameDrawState g OR 1\<rparr>)
     (mapsq g x y)"

definition rocky_set :: "game \<Rightarrow> int \<Rightarrow> int \<Rightarrow> u8 \<Rightarrow> game option" where
  "rocky_set g x y rocky = map_option (\<lambda>_.
     (upd_sq g x y (\<lambda>sq. set_dirty (put_rocky rocky sq)))\<lparr>GameDrawState := GameDrawState g OR 1\<rparr>)
     (mapsq g x y)"

definition using_set :: "game \<Rightarrow> int \<Rightarrow> int \<Rightarrow> int \<Rightarrow> game option" where
  "using_set g x y faction_id = map_option (\<lambda>_. upd_sq g x y (put_using faction_id)) (mapsq g x y)"

definition lock_set :: "game \<Rightarrow> int \<Rightarrow> int \<Rightarrow> int \<Rightarrow> game option" where
  "lock_set g x y faction_id = map_option (\<lambda>_. upd_sq g x y (put_lock faction_id)) (mapsq g x y)"

text \<open>The Boolean is the code's return value: locked by another faction.\<close>

definition lock_map :: "game \<Rightarrow> int \<Rightarrow> int \<Rightarrow> int \<Rightarrow> (game \<times> bool) option" where
  "lock_map g x y faction_id =
     (case lock_at g x y of None \<Rightarrow> None
      | Some lock_id \<Rightarrow>
          if lock_id \<noteq> faction_id
          then (if lock_id \<noteq> 0 then Some (g, True)
                else map_option (\<lambda>g'. (g', False)) (lock_set g x y faction_id))
          else Some (g, False))"

definition unlock_map :: "game \<Rightarrow> int \<Rightarrow> int \<Rightarrow> int \<Rightarrow> game option" where
  "unlock_map g x y faction_id =
     (case lock_at g x y of None \<Rightarrow> None
      | Some lock_id \<Rightarrow>
          if lock_id = faction_id
          then Some (upd_sq g x y (\<lambda>sq. sq\<lparr>sq_val3 := sq_val3 sq AND 0xC7\<rparr>)) else Some g)"

definition site_radius :: "game \<Rightarrow> int \<Rightarrow> int \<Rightarrow> game" where
  "site_radius g x y =
     fold (\<lambda>i g. upd_sq g (wrap g (x + TableOffsetX ! i)) (y + TableOffsetY ! i)
         (\<lambda>sq. sq\<lparr>sq_val2 := sq_val2 sq AND 0x0F\<rparr>)) [0..<21] g"

subsection \<open>Occupancy bits\<close>

text \<open>The nested loops over all squares: \<open>y\<close>, then \<open>x\<close> from \<open>y&1\<close> in steps of two.\<close>

definition map_coords :: "game \<Rightarrow> (int \<times> int) list" where
  "map_coords g = concat (map (\<lambda>y. map (\<lambda>x. (x, y)) (filter (\<lambda>x. even (x + y)) [0..MapAreaX g - 1]))
     [0..MapAreaY g - 1])"

definition base_at_xy :: "game \<Rightarrow> int \<Rightarrow> int \<Rightarrow> int option" where
  "base_at_xy g x y =
     List.find (\<lambda>i. base_x (Bases g i) = x \<and> base_y (Bases g i) = y) [0..BaseCount g - 1]"

definition veh_at_xy :: "game \<Rightarrow> int \<Rightarrow> int \<Rightarrow> int option" where
  "veh_at_xy g x y =
     List.find (\<lambda>i. veh_x (Vehs g i) = x \<and> veh_y (Vehs g i) = y) [0..VehCount g - 1]"

definition rebuild_base_bits :: "game \<Rightarrow> game" where
  "rebuild_base_bits g =
     fold (\<lambda>(x, y) g.
        (let g = bit_set g x y BIT_BASE_IN_TILE False
         in (case base_at_xy g x y of None \<Rightarrow> g
             | Some base_id \<Rightarrow>
                 owner_set (bit_set g x y BIT_BASE_IN_TILE True) x y (base_faction_id (Bases g base_id)))))
       (map_coords g) g"

definition rebuild_vehicle_bits :: "game \<Rightarrow> game" where
  "rebuild_vehicle_bits g =
     fold (\<lambda>(x, y) g.
        (let g = bit_set g x y BIT_VEH_IN_TILE False
         in (case veh_at_xy g x y of None \<Rightarrow> g
             | Some veh_id \<Rightarrow>
                 (let g = bit_set g x y BIT_VEH_IN_TILE True
                  in if \<not> (bit_at g x y AND BIT_BASE_IN_TILE \<noteq> 0)
                     then owner_set g x y (veh_faction_id (Vehs g veh_id)) else g))))
       (map_coords g) g"

definition base_at :: "game \<Rightarrow> int \<Rightarrow> int \<Rightarrow> game \<times> int" where
  "base_at g x y =
     (case sq_at g x y of None \<Rightarrow> (g, - 1)
      | Some sq \<Rightarrow>
          if MAP_is_base sq
          then (if BaseCount g \<le> 0 then (rebuild_base_bits g, - 1)
                else (g, (case base_at_xy g x y of None \<Rightarrow> - 1 | Some i \<Rightarrow> i)))
          else (g, - 1))"

definition has_temple :: "game \<Rightarrow> int \<Rightarrow> bool" where
  "has_temple g faction_id =
     list_ex (\<lambda>(x, y). (case sq_at g x y of None \<Rightarrow> False
        | Some sq \<Rightarrow> sq_landmarks sq AND LM_NEXUS \<noteq> 0 \<and> MAP_code_at sq = 0
             \<and> sq_owner sq = faction_id \<and> bit (sq_visibility sq) (nat faction_id)))
       (map_coords g)"

subsection \<open>Nearest base\<close>

definition base_find :: "game \<Rightarrow> int \<Rightarrow> int \<Rightarrow> int \<times> int" where
  "base_find g x y =
     fold (\<lambda>i (base_dist, base_id).
        (let dist = vector_dist g x y (base_x (Bases g i)) (base_y (Bases g i))
         in if dist \<le> base_dist then (dist, i) else (base_dist, base_id)))
       [0..BaseCount g - 1] (9999, - 1)"

definition base_find_2 :: "game \<Rightarrow> int \<Rightarrow> int \<Rightarrow> int \<Rightarrow> int \<times> int" where
  "base_find_2 g x y faction_id =
     fold (\<lambda>i (base_dist, base_id).
        (if base_faction_id (Bases g i) = faction_id
         then (let dist = vector_dist g x y (base_x (Bases g i)) (base_y (Bases g i))
               in if dist \<le> base_dist then (dist, i) else (base_dist, base_id))
         else (base_dist, base_id)))
       [0..BaseCount g - 1] (9999, - 1)"

subsection \<open>Landmarks\<close>

definition landmark_hits :: "game \<Rightarrow> int \<Rightarrow> int \<Rightarrow> nat \<Rightarrow> int list" where
  "landmark_hits g x y range_offset =
     concat (map (\<lambda>i.
         (let x2 = wrap g (x + TableOffsetX ! i); y2 = y + TableOffsetY ! i
          in if mapsq g x2 y2 \<noteq> None
             then filter (\<lambda>lm. x2 = lm_x (Landmarks g lm) \<and> y2 = lm_y (Landmarks g lm))
                    [0..MapLandmarkCount g - 1] else []))
       [0..<nat (TableRange ! range_offset)])"

definition find_landmark :: "game \<Rightarrow> int \<Rightarrow> int \<Rightarrow> nat \<Rightarrow> int" where
  "find_landmark g x y range_offset =
     (case landmark_hits g x y range_offset of [] \<Rightarrow> - 1 | lm # _ \<Rightarrow> lm)"

definition new_landmark :: "game \<Rightarrow> int \<Rightarrow> int \<Rightarrow> string \<Rightarrow> game \<times> int" where
  "new_landmark g x y name =
     (let offset = MapLandmarkCount g
      in if offset \<ge> MaxLandmarkNum then (g, - 1)
         else (g\<lparr>MapLandmarkCount := offset + 1,
                 Landmarks := (Landmarks g)(offset := \<lparr>lm_x = x, lm_y = y, lm_name = take 31 name\<rparr>)\<rparr>,
               offset))"

definition kill_landmark :: "game \<Rightarrow> int \<Rightarrow> int \<Rightarrow> game" where
  "kill_landmark g x y =
     (let remove_id = find_landmark g x y 1
      in if remove_id \<ge> 0
         then (let g = (if remove_id < MapLandmarkCount g - 1
                        then g\<lparr>Landmarks := (\<lambda>i. if remove_id \<le> i \<and> i < MapLandmarkCount g - 1
                               then Landmarks g (i + 1) else Landmarks g i)\<rparr> else g)
               in g\<lparr>MapLandmarkCount := MapLandmarkCount g - 1\<rparr>)
         else g)"

subsection \<open>Squares are stored apart\<close>

lemma mapsq_Some_iff: "mapsq g x y = Some i \<longleftrightarrow> 0 \<le> x \<and> 0 \<le> y \<and> x < MapAreaX g \<and> y < MapAreaY g
    \<and> even (x + y) \<and> i = (x + MapAreaX g * y) div 2"
  by (auto simp: mapsq_def sdiv_nonneg)

lemma mapsq_None_iff: "mapsq g x y = None \<longleftrightarrow> \<not> (0 \<le> x \<and> 0 \<le> y \<and> x < MapAreaX g \<and> y < MapAreaY g \<and> even (x + y))"
  by (auto simp: mapsq_def)

lemma div2_succ: "(a::int) div 2 = (a + 1) div 2 \<Longrightarrow> even a"
  by presburger

lemma div2_less: "(a::int) < b \<Longrightarrow> even b \<Longrightarrow> a div 2 < b div 2"
  by presburger

lemma div2_eq: "(a::int) div 2 = b div 2 \<Longrightarrow> (even a \<longleftrightarrow> even b) \<Longrightarrow> a = b"
  by presburger

lemma div2_close: "(a::int) div 2 = b div 2 \<Longrightarrow> b \<le> a + 1"
  by presburger

lemma row_order:
  assumes "0 \<le> x" "x < W" "0 \<le> x'" "x' < W" "even (x + y)" "even (x' + y')"
    and "(x + W * y) div 2 = (x' + W * y') div 2"
  shows "\<not> y < (y'::int)"
proof
  assume "y < y'"
  then have "W * y + W \<le> W * y'"
    using mult_left_mono [of "y + 1" y' W] assms by (simp add: algebra_simps)
  then have d: "x' + W * y' = x + W * y + 1" "x = W - 1" "x' = 0" "W * y' = W * y + W"
    using assms div2_close [OF assms(7)] by linarith+
  have "y' = y + 1"
  proof -
    have "W * (y' - (y + 1)) = 0" using d(4) by (simp add: algebra_simps)
    moreover have "W \<noteq> 0" using assms by simp
    ultimately show ?thesis by simp
  qed
  have e: "even (x + W * y)" using assms(7) d(1) by (intro div2_succ) simp
  have "odd y" using assms(6) d(3) \<open>y' = y + 1\<close> by simp
  with assms(5) d(2) have "even W" by simp
  with e d(2) show False by simp
qed

lemma mapsq_inj:
  assumes "mapsq g x y = Some i" "mapsq g x' y' = Some i"
  shows "x = x' \<and> y = y'"
proof -
  have a: "0 \<le> x" "x < MapAreaX g" "even (x + y)" "0 \<le> x'" "x' < MapAreaX g" "even (x' + y')"
    and e: "(x + MapAreaX g * y) div 2 = (x' + MapAreaX g * y') div 2"
    using assms by (auto simp: mapsq_Some_iff)
  have "y = y'"
    using row_order [OF a(1,2,4,5,3,6) e] row_order [OF a(4,5,1,2,6,3) e [symmetric]] by simp
  moreover have "x = x'"
    using div2_eq [OF e] a(3,6) \<open>y = y'\<close> by auto
  ultimately show ?thesis by simp
qed

lemma mapsq_bounds:
  assumes "mapsq g x y = Some i" "even (MapAreaX g)"
  shows "0 \<le> i \<and> i < MapAreaX g * MapAreaY g div 2"
proof -
  let ?W = "MapAreaX g" and ?H = "MapAreaY g"
  have a: "0 \<le> x" "0 \<le> y" "x < ?W" "y < ?H" "i = (x + ?W * y) div 2"
    using assms by (auto simp: mapsq_Some_iff)
  have "?W * (y + 1) \<le> ?W * ?H" using a by (intro mult_left_mono) auto
  then have "x + ?W * y < ?W * ?H" using a by (simp add: algebra_simps)
  moreover have "even (?W * ?H)" using assms(2) by simp
  ultimately have "i < ?W * ?H div 2" using a(5) by (simp only: div2_less)
  moreover have "0 \<le> x + ?W * y" using a by simp
  ultimately show ?thesis using a(5) by (simp add: pos_imp_zdiv_nonneg_iff)
qed

subsection \<open>Square writes\<close>

lemma mapsq_upd_sq [simp]: "mapsq (upd_sq g a b f) = mapsq g"
  by (auto simp: upd_sq_def mapsq_def fun_eq_iff split: option.splits)

lemma map_globals_upd_sq [simp]:
  "MapAreaX (upd_sq g a b f) = MapAreaX g" "MapAreaY (upd_sq g a b f) = MapAreaY g"
  "MapHalfX (upd_sq g a b f) = MapHalfX g" "MapToggleFlat (upd_sq g a b f) = MapToggleFlat g"
  "BaseCount (upd_sq g a b f) = BaseCount g" "Bases (upd_sq g a b f) = Bases g"
  "VehCount (upd_sq g a b f) = VehCount g" "Vehs (upd_sq g a b f) = Vehs g"
  "Factions (upd_sq g a b f) = Factions g" "conf (upd_sq g a b f) = conf g"
  by (auto simp: upd_sq_def split: option.splits)

lemma sq_at_upd_sq:
  "sq_at (upd_sq g a b f) x y = (if x = a \<and> y = b then map_option f (sq_at g x y) else sq_at g x y)"
proof (cases "mapsq g a b")
  case None
  then show ?thesis by (cases "x = a \<and> y = b") (simp_all add: upd_sq_def sq_at_def)
next
  case (Some i)
  show ?thesis
  proof (cases "mapsq g x y")
    case None
    then show ?thesis by (auto simp: sq_at_def)
  next
    case s: (Some j)
    have ij: "j = i \<longleftrightarrow> x = a \<and> y = b" using mapsq_inj [OF Some, of x y] s Some by auto
    have "MapTiles (upd_sq g a b f) = (MapTiles g)(i := f (MapTiles g i))"
      by (simp add: upd_sq_def Some)
    then show ?thesis using ij s Some by (auto simp: sq_at_def)
  qed
qed

lemma upd_sq_off: "mapsq g x y = None \<Longrightarrow> upd_sq g x y f = g"
  by (simp add: upd_sq_def)

lemma sq_at_None_iff [simp]: "sq_at g x y = None \<longleftrightarrow> mapsq g x y = None"
  by (simp add: sq_at_def)

lemma upd_sq_upd_sq: "upd_sq (upd_sq g x y f) x y h = upd_sq g x y (\<lambda>t. h (f t))"
  by (auto simp: upd_sq_def mapsq_def split: option.splits)

locale square_field =
  fixes rd :: "game \<Rightarrow> int \<Rightarrow> int \<Rightarrow> 'v" and wr :: "game \<Rightarrow> int \<Rightarrow> int \<Rightarrow> 'w \<Rightarrow> game" and dec :: "'w \<Rightarrow> 'v"
  assumes rd_wr: "mapsq g x y \<noteq> None \<Longrightarrow> rd (wr g x y v) x y = dec v"
    and rd_other: "x' \<noteq> x \<or> y' \<noteq> y \<Longrightarrow> rd (wr g x y v) x' y' = rd g x' y'"
    and wr_off: "mapsq g x y = None \<Longrightarrow> wr g x y v = g"
    and mapsq_wr: "mapsq (wr g x y v) = mapsq g"
begin

lemma rd_fold_other:
  "(x, y) \<notin> set (map fst ws) \<Longrightarrow> rd (fold (\<lambda>((a, b), v) g. wr g a b v) ws g) x y = rd g x y"
  by (induction ws arbitrary: g) (force simp: rd_other)+

lemma mapsq_fold: "mapsq (fold (\<lambda>((a, b), v) g. wr g a b v) ws g) = mapsq g"
  by (induction ws arbitrary: g) (auto simp: mapsq_wr)

lemma rd_fold:
  assumes "distinct (map fst ws)" "((x, y), v) \<in> set ws" "mapsq g x y \<noteq> None"
  shows "rd (fold (\<lambda>((a, b), v) g. wr g a b v) ws g) x y = dec v"
  using assms
proof (induction ws arbitrary: g)
  case (Cons w ws)
  show ?case
  proof (cases "w = ((x, y), v)")
    case True
    with Cons.prems have "(x, y) \<notin> set (map fst ws)" by auto
    with True Cons.prems show ?thesis by (simp add: rd_fold_other rd_wr)
  next
    case False
    then show ?thesis using Cons by (cases w) (auto simp: mapsq_wr)
  qed
qed simp

end

lemmas square_field_defs = bit_at_def bit_put_def region_at_def region_set_def alt_detail_at_def
  alt_put_detail_def sq_at_upd_sq upd_sq_off

interpretation items: square_field bit_at bit_put "\<lambda>v. v"
  by unfold_locales (auto simp: square_field_defs split: option.splits)

interpretation region: square_field region_at region_set uint
  by unfold_locales (auto simp: square_field_defs split: option.splits)

interpretation contour: square_field alt_detail_at alt_put_detail uint
  by unfold_locales (auto simp: square_field_defs split: option.splits)

subsection \<open>A pass over all squares\<close>

lemma set_map_coords: "set (map_coords g) = {(x, y). mapsq g x y \<noteq> None}"
  by (auto simp: map_coords_def mapsq_def)

lemma distinct_map_coords: "distinct (map_coords g)"
proof -
  have "distinct (concat (map (\<lambda>y. map (\<lambda>x. (x, y)) (filter (\<lambda>x. even (x + y)) xs)) ys))"
    if "distinct xs" "distinct ys" for xs ys :: "int list"
    using that(2) by (induction ys) (auto simp: distinct_map inj_on_def that(1))
  then show ?thesis unfolding map_coords_def by simp
qed

lemma fold_upd_sq_other:
  "(x, y) \<notin> set cs \<Longrightarrow> sq_at (fold (\<lambda>(a, b) g. upd_sq g a b (h a b)) cs g) x y = sq_at g x y"
  by (induction cs arbitrary: g) (force simp: sq_at_upd_sq)+

lemma fold_upd_sq:
  "distinct cs \<Longrightarrow> (x, y) \<in> set cs \<Longrightarrow>
    sq_at (fold (\<lambda>(a, b) g. upd_sq g a b (h a b)) cs g) x y = map_option (h x y) (sq_at g x y)"
proof (induction cs arbitrary: g)
  case (Cons c cs)
  then show ?case
    by (cases c) (auto simp: fold_upd_sq_other sq_at_upd_sq)
qed simp

lemma fold_cong_inv:
  assumes "\<And>g c. P g \<Longrightarrow> f c g = f' c g" "\<And>g c. P g \<Longrightarrow> P (f' c g)" "P g"
  shows "fold f cs g = fold f' cs g"
  using assms(3) by (induction cs arbitrary: g) (auto simp: assms)

definition base_bits :: "game \<Rightarrow> int \<Rightarrow> int \<Rightarrow> tile \<Rightarrow> tile" where
  "base_bits g x y sq = (case base_at_xy g x y of None \<Rightarrow> sq\<lparr>sq_items := sq_items sq AND NOT BIT_BASE_IN_TILE\<rparr>
     | Some i \<Rightarrow> put_occupant (base_faction_id (Bases g i))
         (sq\<lparr>sq_items := (sq_items sq AND NOT BIT_BASE_IN_TILE) OR BIT_BASE_IN_TILE\<rparr>))"

lemma base_at_xy_cong: "BaseCount g' = BaseCount g \<Longrightarrow> Bases g' = Bases g \<Longrightarrow> base_at_xy g' = base_at_xy g"
  by (simp add: base_at_xy_def fun_eq_iff)

lemma rebuild_base_bits_fold:
  "rebuild_base_bits g = fold (\<lambda>(x, y) g'. upd_sq g' x y (base_bits g x y)) (map_coords g) g"
  unfolding rebuild_base_bits_def
proof (rule fold_cong_inv [where P = "\<lambda>g'. BaseCount g' = BaseCount g \<and> Bases g' = Bases g"])
  fix g' :: game and c :: "int \<times> int"
  assume P: "BaseCount g' = BaseCount g \<and> Bases g' = Bases g"
  obtain x y where c: "c = (x, y)" by (cases c)
  have "base_at_xy (bit_set g' x y BIT_BASE_IN_TILE False) = base_at_xy g"
    using P by (intro base_at_xy_cong) (simp_all add: bit_set_def)
  then show "(case c of (x, y) \<Rightarrow> \<lambda>g.
        (let g = bit_set g x y BIT_BASE_IN_TILE False
         in (case base_at_xy g x y of None \<Rightarrow> g
             | Some base_id \<Rightarrow>
                 owner_set (bit_set g x y BIT_BASE_IN_TILE True) x y (base_faction_id (Bases g base_id))))) g'
     = (case c of (x, y) \<Rightarrow> \<lambda>g'. upd_sq g' x y (base_bits g x y)) g'"
    using P c by (auto simp: bit_set_def owner_set_def upd_sq_upd_sq base_bits_def [abs_def] Let_def split: option.splits)
qed (auto split: prod.splits)

lemma sq_at_rebuild_base_bits:
  "sq_at (rebuild_base_bits g) x y = map_option (base_bits g x y) (sq_at g x y)"
proof (cases "mapsq g x y = None")
  case True
  then have "(x, y) \<notin> set (map_coords g)" by (simp add: set_map_coords)
  then show ?thesis using True
    unfolding rebuild_base_bits_fold by (subst fold_upd_sq_other) (simp_all add: sq_at_def)
next
  case False
  then show ?thesis
    unfolding rebuild_base_bits_fold
    by (intro fold_upd_sq) (auto simp: distinct_map_coords set_map_coords)
qed


lemma base_at_xy_Some: "base_at_xy g x y = Some i \<Longrightarrow>
    0 \<le> i \<and> i < BaseCount g \<and> base_x (Bases g i) = x \<and> base_y (Bases g i) = y"
  by (auto simp: base_at_xy_def find_Some_iff dest!: nth_mem)

lemma base_at_xy_None: "base_at_xy g x y = None \<longleftrightarrow>
    (\<forall>i. 0 \<le> i \<and> i < BaseCount g \<longrightarrow> \<not> (base_x (Bases g i) = x \<and> base_y (Bases g i) = y))"
  by (auto simp: base_at_xy_def find_None_iff)

lemma put_occupant_frame [simp]:
  "sq_items (put_occupant f t) = sq_items t" "sq_owner (put_occupant f t) = sq_owner t"
  "sq_visibility (put_occupant f t) = sq_visibility t" "sq_landmarks (put_occupant f t) = sq_landmarks t"
  "sq_climate (put_occupant f t) = sq_climate t" "sq_val3 (put_occupant f t) = sq_val3 t"
  by (simp_all add: put_occupant_def)

lemma flag_clear [simp]: "(w AND NOT b) AND b = (0 :: 'a::len word)"
  by (rule bit_word_eqI) (simp add: bit_simps)

lemma flag_set [simp]: "(w OR b) AND b = (b :: 'a::len word)"
  by (rule bit_word_eqI) (auto simp: bit_simps)

lemma veh_owner_put: "0 \<le> f \<Longrightarrow> f < 8 \<Longrightarrow> MAP_veh_owner (put_occupant f t) = f"
proof -
  assume f: "0 \<le> f" "f < 8"
  then have "f AND 15 = f"
    using take_bit_eq_mask [of 4 f] by (simp add: mask_eq_exp_minus_1 take_bit_int_eq_self)
  then have "uint (sq_val2 (put_occupant f t) AND 0xF) = f"
    using val2.a.get_put [of f t] f by (simp add: MAP_occupant_def uint_word_of_int)
  then show ?thesis using f by (simp add: MAP_veh_owner_def)
qed

subsection \<open>Locks\<close>

lemma sq_at_Some: "mapsq g x y = Some i \<Longrightarrow> sq_at g x y = Some (MapTiles g i)"
  by (simp add: sq_at_def)

lemma lock_at_upd: "lock_at (upd_sq g a b f) x y =
    (if x = a \<and> y = b then map_option (\<lambda>t. get_lock (f t)) (sq_at g x y) else lock_at g x y)"
  by (simp add: lock_at_def sq_at_upd_sq option.map_comp o_def)

lemma get_lock_clear: "get_lock (sq\<lparr>sq_val3 := sq_val3 sq AND 0xC7\<rparr>) = 0"
proof -
  have "drop_bit 3 (sq_val3 sq AND 0xC7) AND 7 = 0"
    by (rule word8_eqI) (auto simp: bit_simps simp del: drop_bit_eq_div)
  then show ?thesis by (simp add: get_lock_def del: drop_bit_eq_div)
qed

lemma get_lock_put: "0 \<le> f \<Longrightarrow> f < 8 \<Longrightarrow> get_lock (put_lock f sq) = f"
  by (simp add: val3.a.get_put lock_decode)

lemma lock_map_result:
  assumes "lock_map g x y f = Some (g', b)" "0 < f" "f < 8"
  shows "(b \<longrightarrow> g' = g \<and> lock_at g x y \<noteq> Some 0 \<and> lock_at g x y \<noteq> Some f)
    \<and> (\<not> b \<longrightarrow> lock_at g' x y = Some f \<and> (lock_at g x y = Some 0 \<or> lock_at g x y = Some f))
    \<and> (\<forall>u v. (u, v) \<noteq> (x, y) \<longrightarrow> sq_at g' u v = sq_at g u v)"
  using assms
  by (auto simp: lock_map_def lock_set_def lock_at_upd sq_at_upd_sq get_lock_put sq_at_Some
      split: option.splits if_splits)

lemma unlock_map_result:
  assumes "unlock_map g x y f = Some g'"
  shows "(lock_at g x y = Some f \<longrightarrow> lock_at g' x y = Some 0) \<and> (lock_at g x y \<noteq> Some f \<longrightarrow> g' = g)
    \<and> (\<forall>u v. (u, v) \<noteq> (x, y) \<longrightarrow> sq_at g' u v = sq_at g u v)"
  using assms
  by (auto simp: unlock_map_def lock_at_upd sq_at_upd_sq get_lock_clear lock_at_def split: option.splits if_splits)

subsection \<open>Landmark table\<close>

definition landmark_list :: "game \<Rightarrow> landmark list" where
  "landmark_list g = map (Landmarks g) [0..MapLandmarkCount g - 1]"

definition landmarks_ok :: "game \<Rightarrow> bool" where
  "landmarks_ok g \<longleftrightarrow> 0 \<le> MapLandmarkCount g \<and> MapLandmarkCount g \<le> MaxLandmarkNum"

lemma length_landmark_list: "0 \<le> MapLandmarkCount g \<Longrightarrow> length (landmark_list g) = nat (MapLandmarkCount g)"
  by (simp add: landmark_list_def)

lemma new_landmark_list:
  assumes "landmarks_ok g" "MapLandmarkCount g < MaxLandmarkNum"
  shows "landmark_list (fst (new_landmark g x y name))
      = landmark_list g @ [\<lparr>lm_x = x, lm_y = y, lm_name = take 31 name\<rparr>]"
  using assms by (auto simp: new_landmark_def landmark_list_def landmarks_ok_def Let_def upto_rec2)

lemma landmark_hits_range: "lm \<in> set (landmark_hits g x y r) \<Longrightarrow> 0 \<le> lm \<and> lm < MapLandmarkCount g"
  by (auto simp: landmark_hits_def Let_def split: if_splits)

lemma find_landmark_range:
  "find_landmark g x y r = - 1 \<or> (0 \<le> find_landmark g x y r \<and> find_landmark g x y r < MapLandmarkCount g)"
  using landmark_hits_range [of _ g x y r] by (auto simp: find_landmark_def split: list.splits)

lemma kill_landmark_list:
  assumes "landmarks_ok g" "find_landmark g x y 1 = k" "0 \<le> k"
  shows "landmark_list (kill_landmark g x y)
      = take (nat k) (landmark_list g) @ drop (Suc (nat k)) (landmark_list g)"
proof (rule nth_equalityI)
  let ?n = "MapLandmarkCount g"
  have k: "k < ?n" using find_landmark_range [of g x y 1] assms by auto
  have c: "MapLandmarkCount (kill_landmark g x y) = ?n - 1"
    using assms by (simp add: kill_landmark_def Let_def)
  show len: "length (landmark_list (kill_landmark g x y)) =
      length (take (nat k) (landmark_list g) @ drop (Suc (nat k)) (landmark_list g))"
    using k assms c by (simp add: landmark_list_def)
  fix j assume "j < length (landmark_list (kill_landmark g x y))"
  then have j: "int j < ?n - 1" using c by (simp add: landmark_list_def)
  have "landmark_list (kill_landmark g x y) ! j = (if int j < k then Landmarks g (int j) else Landmarks g (int j + 1))"
    using j k assms by (auto simp: landmark_list_def kill_landmark_def Let_def)
  moreover have "(take (nat k) (landmark_list g) @ drop (Suc (nat k)) (landmark_list g)) ! j
      = (if int j < k then Landmarks g (int j) else Landmarks g (int j + 1))"
    using j k assms by (auto simp: landmark_list_def nth_append add.commute)
  ultimately show "landmark_list (kill_landmark g x y) ! j
     = (take (nat k) (landmark_list g) @ drop (Suc (nat k)) (landmark_list g)) ! j" by simp
qed

subsection \<open>Distances\<close>

text \<open>A map whose columns are the circle of even circumference that the code assumes, or flat.\<close>

definition map_ok :: "game \<Rightarrow> bool" where
  "map_ok g \<longleftrightarrow> 0 < MapAreaX g \<and> 0 < MapAreaY g \<and> even (MapAreaX g) \<and> MapHalfX g = MapAreaX g div 2"

definition col_dist :: "game \<Rightarrow> int \<Rightarrow> int \<Rightarrow> int" where
  "col_dist g x1 x2 = (let dx = \<bar>x1 - x2\<bar> in
     if \<not> map_is_flat g \<and> dx > MapHalfX g then MapAreaX g - dx else dx)"

lemma col_dist_sym: "col_dist g a b = col_dist g b a"
  by (simp add: col_dist_def abs_minus_commute)

lemma col_dist_bounds:
  "map_ok g \<Longrightarrow> 0 \<le> a \<Longrightarrow> a < MapAreaX g \<Longrightarrow> 0 \<le> b \<Longrightarrow> b < MapAreaX g \<Longrightarrow>
    0 \<le> col_dist g a b \<and> (col_dist g a b = 0 \<longleftrightarrow> a = b) \<and> (\<not> map_is_flat g \<longrightarrow> col_dist g a b \<le> MapHalfX g)"
  by (auto simp: col_dist_def map_ok_def Let_def)

lemma vector_dist_col: "vector_dist g x1 y1 x2 y2 =
    (let dx = col_dist g x1 x2; dy = \<bar>y1 - y2\<bar> in max dx dy - (((dx + dy) sdiv 2) - min dx dy + 1) sdiv 2)"
  by (simp add: vector_dist_def col_dist_def Let_def)

lemma map_range_col: "map_range g x1 y1 x2 y2 = (col_dist g x1 x2 + \<bar>y1 - y2\<bar>) sdiv 2"
  by (simp add: map_range_def col_dist_def Let_def)

lemma octile_bounds:
  assumes "0 \<le> dx" "0 \<le> (dy::int)" "even (dx + dy)"
  shows "(dx + dy) sdiv 2 \<le> max dx dy - (((dx + dy) sdiv 2) - min dx dy + 1) sdiv 2"
    and "max dx dy - (((dx + dy) sdiv 2) - min dx dy + 1) sdiv 2 \<le> max dx dy"
proof -
  obtain k where k: "dx + dy = 2 * k" using assms(3) by blast
  have m: "min dx dy \<le> k" "max dx dy = 2 * k - min dx dy" using k assms by auto
  have s: "(dx + dy) sdiv 2 = k" using k assms by (simp add: sdiv_nonneg)
  have t: "(k - min dx dy + 1) sdiv 2 = (k - min dx dy + 1) div 2" using m by (simp add: sdiv_nonneg)
  have "(k - min dx dy + 1) div 2 \<le> k - min dx dy" using m(1) by linarith
  then show "(dx + dy) sdiv 2 \<le> max dx dy - (((dx + dy) sdiv 2) - min dx dy + 1) sdiv 2"
    unfolding s t m(2) by linarith
  have "0 \<le> (k - min dx dy + 1) div 2" using m(1) by simp
  then show "max dx dy - (((dx + dy) sdiv 2) - min dx dy + 1) sdiv 2 \<le> max dx dy"
    unfolding s t by linarith
qed

lemma even_col_dist: "map_ok g \<Longrightarrow> even (col_dist g a b) \<longleftrightarrow> even (a + b)"
  by (auto simp: col_dist_def map_ok_def Let_def)

subsection \<open>Nearest base\<close>

lemma base_find_fold:
  assumes "fold (\<lambda>i (bd, bi). (let dist = d i in if dist \<le> bd then (dist, i) else (bd, bi))) xs (bd0, bi0) = (bd, bi)"
  shows "(bi = bi0 \<and> bd = bd0 \<and> (\<forall>i \<in> set xs. bd0 < d i)) \<or>
     (bi \<in> set xs \<and> bd = d bi \<and> bd \<le> (bd0 :: int) \<and> (\<forall>i \<in> set xs. bd \<le> d i))"
  using assms
proof (induction xs arbitrary: bd0 bi0)
  case (Cons i xs)
  show ?case
  proof (cases "d i \<le> bd0")
    case True
    with Cons.prems Cons.IH [of "d i" i] show ?thesis by (fastforce simp: Let_def)
  next
    case False
    with Cons.prems Cons.IH [of bd0 bi0] show ?thesis by (fastforce simp: Let_def)
  qed
qed simp

lemma base_find_nearest:
  assumes "base_find g x y = (bd, bi)"
  shows "(bi = - 1 \<and> (\<forall>i. 0 \<le> i \<and> i < BaseCount g \<longrightarrow> 9999 < vector_dist g x y (base_x (Bases g i)) (base_y (Bases g i))))
    \<or> (0 \<le> bi \<and> bi < BaseCount g \<and> bd = vector_dist g x y (base_x (Bases g bi)) (base_y (Bases g bi))
       \<and> (\<forall>i. 0 \<le> i \<and> i < BaseCount g \<longrightarrow> bd \<le> vector_dist g x y (base_x (Bases g i)) (base_y (Bases g i))))"
  using base_find_fold [OF assms [unfolded base_find_def]] by (auto simp: base_find_def)

subsection \<open>Tiles in range\<close>

lemma in_ball_iff: "in_ball r (dx, dy) \<longleftrightarrow> even (dx + dy) \<and> \<bar>dx\<bar> + \<bar>dy\<bar> \<le> 2 * r"
  by (simp add: in_ball_def)

lemma in_iterate_tiles: "(x2, y2, i, m) \<in> set (iterate_tiles g x y a b) \<longleftrightarrow>
    a \<le> i \<and> i < b \<and> x2 = wrap g (x + TableOffsetX ! i) \<and> y2 = y + TableOffsetY ! i \<and> mapsq g x2 y2 = Some m"
  by (auto simp: iterate_tiles_def Let_def split: option.splits)

lemma set_iterate_tiles:
  "(x2, y2) \<in> (\<lambda>(a, b, i, m). (a, b)) ` set (iterate_tiles g x y 0 n) \<longleftrightarrow>
    mapsq g x2 y2 \<noteq> None \<and> (\<exists>i < n. x2 = wrap g (x + TableOffsetX ! i) \<and> y2 = y + TableOffsetY ! i)"
    (is "?L \<longleftrightarrow> ?R")
proof
  assume ?L
  then obtain i m where "(x2, y2, i, m) \<in> set (iterate_tiles g x y 0 n)" by auto
  then show ?R by (auto simp: in_iterate_tiles)
next
  assume ?R
  then obtain i m where "(x2, y2, i, m) \<in> set (iterate_tiles g x y 0 n)" by (auto simp: in_iterate_tiles)
  then show ?L by (rule rev_image_eqI) simp
qed

lemma wrap_cases: "wrap g x = x \<or> (\<not> map_is_flat g \<and> x < 0 \<and> wrap g x = x + MapAreaX g)
    \<or> (\<not> map_is_flat g \<and> MapAreaX g \<le> x \<and> wrap g x = x - MapAreaX g)"
  by (simp add: wrap_def)

lemma even_wrap: "even (MapAreaX g) \<Longrightarrow> even (wrap g x + e) \<longleftrightarrow> even (x + e)"
  by (simp add: wrap_def)

lemma col_dist_wrap:
  assumes "map_ok g" "0 \<le> x" "x < MapAreaX g" "0 \<le> wrap g (x + dx)" "wrap g (x + dx) < MapAreaX g"
    and "map_is_flat g \<or> 2 * \<bar>dx\<bar> \<le> MapAreaX g"
  shows "col_dist g x (wrap g (x + dx)) \<le> \<bar>dx\<bar>"
proof -
  obtain k where k: "MapAreaX g = 2 * k" "MapHalfX g = k" "0 < k"
    using assms(1) by (auto simp: map_ok_def elim: evenE)
  let ?c = "\<bar>x - wrap g (x + dx)\<bar>"
  have c: "col_dist g x (wrap g (x + dx)) = (if \<not> map_is_flat g \<and> ?c > k then 2 * k - ?c else ?c)"
    by (simp add: col_dist_def k Let_def)
  from wrap_cases [of g "x + dx"] show ?thesis
  proof (elim disjE conjE)
    assume "wrap g (x + dx) = x + dx"
    then show ?thesis unfolding c by (cases "?c > k") auto
  next
    assume a: "\<not> map_is_flat g" "wrap g (x + dx) = x + dx + MapAreaX g"
    then have "?c = \<bar>dx + 2 * k\<bar>" "2 * \<bar>dx\<bar> \<le> 2 * k" using assms(6) k by simp_all
    then show ?thesis using a(1) unfolding c by (simp only: not_False_eq_True simp_thms split: if_split) linarith
  next
    assume a: "\<not> map_is_flat g" "wrap g (x + dx) = x + dx - MapAreaX g"
    then have "?c = \<bar>2 * k - dx\<bar>" "2 * \<bar>dx\<bar> \<le> 2 * k" using assms(6) k by simp_all
    then show ?thesis using a(1) unfolding c by (simp only: not_False_eq_True simp_thms split: if_split) linarith
  qed
qed

lemma wrap_shift:
  assumes "map_ok g" "0 \<le> x" "x < MapAreaX g" "0 \<le> x2" "x2 < MapAreaX g"
  obtains dx where "x2 = wrap g (x + dx)" "\<bar>dx\<bar> = col_dist g x x2"
proof -
  define dx where "dx = (if map_is_flat g \<or> \<bar>x - x2\<bar> \<le> MapHalfX g then x2 - x
     else if x < x2 then x2 - x - MapAreaX g else x2 - x + MapAreaX g)"
  have "x2 = wrap g (x + dx)" using assms by (auto simp: dx_def wrap_def map_ok_def)
  moreover have "\<bar>dx\<bar> = col_dist g x x2" using assms by (auto simp: dx_def col_dist_def map_ok_def Let_def)
  ultimately show ?thesis by (rule that)
qed

lemma wrap_reach:
  assumes "map_ok g" "0 \<le> x" "x < MapAreaX g" "0 \<le> x2" "x2 < MapAreaX g"
    and "map_is_flat g \<or> 4 * r \<le> MapAreaX g" "0 \<le> d"
  shows "(\<exists>dx. x2 = wrap g (x + dx) \<and> \<bar>dx\<bar> \<le> 2 * r - d \<and> even (dx + e)) \<longleftrightarrow>
     col_dist g x x2 \<le> 2 * r - d \<and> even (x + x2 + e)"
proof
  assume "\<exists>dx. x2 = wrap g (x + dx) \<and> \<bar>dx\<bar> \<le> 2 * r - d \<and> even (dx + e)"
  then obtain dx where dx: "x2 = wrap g (x + dx)" "\<bar>dx\<bar> \<le> 2 * r - d" "even (dx + e)" by blast
  have "col_dist g x x2 \<le> \<bar>dx\<bar>"
    using col_dist_wrap [of g x dx] assms dx(1,2) by auto
  moreover have "even (x + x2 + e)"
    using even_wrap [of g "x + dx" "x + e"] assms(1) dx(1,3) by (auto simp: map_ok_def)
  ultimately show "col_dist g x x2 \<le> 2 * r - d \<and> even (x + x2 + e)" using dx(2) by simp
next
  assume h: "col_dist g x x2 \<le> 2 * r - d \<and> even (x + x2 + e)"
  obtain dx where dx: "x2 = wrap g (x + dx)" "\<bar>dx\<bar> = col_dist g x x2"
    using wrap_shift [OF assms(1-5)] .
  have "even (dx + e)"
    using even_wrap [of g "x + dx" "x + e"] assms(1) dx(1) h by (auto simp: map_ok_def)
  with h dx show "\<exists>dx. x2 = wrap g (x + dx) \<and> \<bar>dx\<bar> \<le> 2 * r - d \<and> even (dx + e)" by metis
qed

lemma shift_out: "(\<exists>dx dy. (even (dx + dy) \<and> \<bar>dx\<bar> + \<bar>dy\<bar> \<le> 2 * k) \<and> P dx \<and> y2 = y + dy)
    \<longleftrightarrow> (\<exists>dx. P dx \<and> \<bar>dx\<bar> \<le> 2 * k - \<bar>y - y2\<bar> \<and> even (dx + (y2 - y)))" for k :: int
proof
  assume "\<exists>dx. P dx \<and> \<bar>dx\<bar> \<le> 2 * k - \<bar>y - y2\<bar> \<and> even (dx + (y2 - y))"
  then obtain dx where "P dx" "\<bar>dx\<bar> \<le> 2 * k - \<bar>y - y2\<bar>" "even (dx + (y2 - y))" by blast
  then have "(even (dx + (y2 - y)) \<and> \<bar>dx\<bar> + \<bar>y2 - y\<bar> \<le> 2 * k) \<and> P dx \<and> y2 = y + (y2 - y)" by simp
  then show "\<exists>dx dy. (even (dx + dy) \<and> \<bar>dx\<bar> + \<bar>dy\<bar> \<le> 2 * k) \<and> P dx \<and> y2 = y + dy" by blast
qed fastforce

lemma half_le: "even (n :: int) \<Longrightarrow> n div 2 \<le> k \<longleftrightarrow> n \<le> 2 * k"
  by (auto elim!: evenE)

lemma iterate_ball:
  assumes "map_ok g" "mapsq g x y \<noteq> None" "r \<le> 8" "map_is_flat g \<or> 4 * int r \<le> MapAreaX g"
  shows "(x2, y2) \<in> (\<lambda>(a, b, i, m). (a, b)) ` set (iterate_tiles g x y 0 (nat (TableRange ! r)))
    \<longleftrightarrow> mapsq g x2 y2 \<noteq> None \<and> map_range g x y x2 y2 \<le> int r"
proof (cases "mapsq g x2 y2 = None")
  case True
  then show ?thesis by (simp add: set_iterate_tiles)
next
  case False
  have xy: "0 \<le> x" "x < MapAreaX g" "even (x + y)" "0 \<le> x2" "x2 < MapAreaX g" "even (x2 + y2)"
    using assms(2) False by (auto simp: mapsq_def split: if_splits)
  let ?d = "\<bar>y - y2\<bar>"
  have "(\<exists>i < nat (TableRange ! r). x2 = wrap g (x + TableOffsetX ! i) \<and> y2 = y + TableOffsetY ! i)
     \<longleftrightarrow> (\<exists>dx dy. in_ball (int r) (dx, dy) \<and> x2 = wrap g (x + dx) \<and> y2 = y + dy)"
    using offset_index [OF assms(3)] by (metis range_count_def)
  also have "\<dots> \<longleftrightarrow> (\<exists>dx. x2 = wrap g (x + dx) \<and> \<bar>dx\<bar> \<le> 2 * int r - ?d \<and> even (dx + (y2 - y)))"
    unfolding in_ball_iff by (rule shift_out)
  also have "\<dots> \<longleftrightarrow> col_dist g x x2 \<le> 2 * int r - ?d \<and> even (x + x2 + (y2 - y))"
    using assms xy by (intro wrap_reach) auto
  also have "\<dots> \<longleftrightarrow> map_range g x y x2 y2 \<le> int r"
  proof -
    have "even (x + x2 + (y2 - y))" using xy(3,6) by presburger
    moreover have "even (col_dist g x x2 + ?d)"
      using even_col_dist [OF assms(1), of x x2] xy(3,6) by simp
    moreover have "0 \<le> col_dist g x x2" using col_dist_bounds [OF assms(1), of x x2] xy by simp
    ultimately show ?thesis using half_le [of "col_dist g x x2 + ?d" "int r"]
      by (simp add: map_range_col sdiv_nonneg) linarith
  qed
  finally show ?thesis using False by (simp add: set_iterate_tiles)
qed


subsection \<open>Properties\<close>

text \<open>Distinct coordinates of the map are stored in distinct squares, inside the allocation:
  \<open>mapsq\<close> is injective on the squares it accepts, and on a map of even width its result is
  below \<open>MapAreaX * MapAreaY / 2\<close>.\<close>

theorem mapsq_injective:
  assumes "mapsq g x y = Some i" "mapsq g x' y' = Some j" "even (MapAreaX g)"
  shows "(i = j \<longleftrightarrow> x = x' \<and> y = y') \<and> 0 \<le> i \<and> i < MapAreaX g * MapAreaY g div 2"
  using assms mapsq_inj [of g x y i x' y'] mapsq_bounds [of g x y i] by auto

text \<open>C32: The table-driven walk reaches exactly a disc: for a range index of at most 8 on a map
  without a seam, or at least four times as wide as the range, the squares visited by
  \<open>iterate_tiles(x, y, 0, TableRange[r])\<close> are the squares of the map within \<open>map_range\<close> r of the
  centre, across the seam included.\<close>

theorem iterate_tiles_exact:
  assumes "map_ok g" "mapsq g x y \<noteq> None" "r \<le> 8" "map_is_flat g \<or> 4 * int r \<le> MapAreaX g"
  shows "(\<lambda>(a, b, i, m). (a, b)) ` set (iterate_tiles g x y 0 (nat (TableRange ! r)))
    = {(a, b). mapsq g a b \<noteq> None \<and> map_range g x y a b \<le> int r}"
  using iterate_ball [OF assms] by blast

lemma iterate_tiles_exact_witness:
  "(\<lambda>(a, b, i, m). (a, b)) ` set (iterate_tiles (blank_game\<lparr>MapAreaX := 16, MapAreaY := 8, MapHalfX := 8\<rparr>) 15 3 0 25)
    = {(a, b). mapsq (blank_game\<lparr>MapAreaX := 16, MapAreaY := 8, MapHalfX := 8\<rparr>) a b \<noteq> None
         \<and> map_range (blank_game\<lparr>MapAreaX := 16, MapAreaY := 8, MapHalfX := 8\<rparr>) 15 3 a b \<le> 2}"
  using iterate_tiles_exact [of "blank_game\<lparr>MapAreaX := 16, MapAreaY := 8, MapHalfX := 8\<rparr>" 15 3 2]
  by (simp add: map_ok_def mapsq_def TableRange_def map_is_flat_def)

lemma mapsq_injective_witness:
  "mapsq (blank_game\<lparr>MapAreaX := 16, MapAreaY := 8\<rparr>) 15 3 = Some 31
    \<and> 31 \<noteq> the (mapsq (blank_game\<lparr>MapAreaX := 16, MapAreaY := 8\<rparr>) 0 4) \<and> (31::int) < 16 * 8 div 2"
proof -
  let ?g = "blank_game\<lparr>MapAreaX := 16, MapAreaY := 8\<rparr>"
  have a: "mapsq ?g 15 3 = Some 31" "mapsq ?g 0 4 = Some 32" by (simp_all add: mapsq_def sdiv_nonneg)
  with mapsq_injective [OF a] show ?thesis by simp
qed

text \<open>C40: Locks are exclusive: once a faction holds the lock of a square, another faction is refused and
  cannot release it; the owner's release makes the square free for the other, and no step touches any
  other square.\<close>

theorem lock_protocol:
  assumes "lock_map g x y f = Some (g1, False)" "0 < f" "f < 8" "0 < h" "h < 8" "f \<noteq> h"
  shows "lock_map g1 x y h = Some (g1, True) \<and> unlock_map g1 x y h = Some g1
    \<and> (\<exists>g2 g3. unlock_map g1 x y f = Some g2 \<and> lock_map g2 x y h = Some (g3, False)
         \<and> lock_at g3 x y = Some h
         \<and> (\<forall>u v. (u, v) \<noteq> (x, y) \<longrightarrow> sq_at g3 u v = sq_at g u v))"
proof -
  have l1: "lock_at g1 x y = Some f" and o1: "\<forall>u v. (u, v) \<noteq> (x, y) \<longrightarrow> sq_at g1 u v = sq_at g u v"
    using lock_map_result [OF assms(1-3)] by auto
  obtain g2 where g2: "unlock_map g1 x y f = Some g2" using l1 by (simp add: unlock_map_def)
  have l2: "lock_at g2 x y = Some 0" and o2: "\<forall>u v. (u, v) \<noteq> (x, y) \<longrightarrow> sq_at g2 u v = sq_at g1 u v"
    using unlock_map_result [OF g2] l1 by auto
  obtain k where "mapsq g2 x y = Some k" using l2 by (auto simp: lock_at_def sq_at_def)
  then obtain g3 where g3: "lock_map g2 x y h = Some (g3, False)"
    using l2 assms(4-6) by (auto simp: lock_map_def lock_set_def)
  have "lock_at g3 x y = Some h" "\<forall>u v. (u, v) \<noteq> (x, y) \<longrightarrow> sq_at g3 u v = sq_at g2 u v"
    using lock_map_result [OF g3] assms by auto
  moreover have "lock_map g1 x y h = Some (g1, True)" "unlock_map g1 x y h = Some g1"
    using l1 assms by (auto simp: lock_map_def unlock_map_def)
  ultimately show ?thesis using g2 g3 o1 o2 by metis
qed

lemma lock_protocol_witness:
  "\<exists>g1. lock_map (blank_game\<lparr>MapAreaX := 16, MapAreaY := 8\<rparr>) 3 1 2 = Some (g1, False)
     \<and> lock_map g1 3 1 5 = Some (g1, True)"
proof -
  have "\<exists>g1. lock_map (blank_game\<lparr>MapAreaX := 16, MapAreaY := 8\<rparr>) 3 1 2 = Some (g1, False)"
    by (simp add: lock_map_def lock_set_def lock_at_def sq_at_def mapsq_def get_lock_def
        blank_game_def blank_tile_def)
  then show ?thesis using lock_protocol [where f = 2 and h = 5 and x = 3 and y = 1] by fastforce
qed

text \<open>C36: \<open>rebuild_base_bits\<close> makes the squares agree with the base list: afterwards a square of the map has
  the base bit iff some base stands on it, its occupant is then the owner of the first such base, and
  squares without a base change only that bit.\<close>

theorem rebuild_base_bits_correct:
  assumes "sq_at g x y = Some t" "\<And>i. 0 \<le> base_faction_id (Bases g i) \<and> base_faction_id (Bases g i) < 8"
  shows "\<exists>t'. sq_at (rebuild_base_bits g) x y = Some t'
    \<and> (MAP_is_base t' \<longleftrightarrow> (\<exists>i. 0 \<le> i \<and> i < BaseCount g \<and> base_x (Bases g i) = x \<and> base_y (Bases g i) = y))
    \<and> (\<forall>i. base_at_xy g x y = Some i \<longrightarrow> MAP_base_who t' = base_faction_id (Bases g i))
    \<and> (base_at_xy g x y = None \<longrightarrow> t' = t\<lparr>sq_items := sq_items t AND NOT BIT_BASE_IN_TILE\<rparr>)"
proof (cases "base_at_xy g x y")
  case None
  have "(sq_items t AND NOT BIT_BASE_IN_TILE) AND BIT_BASE_IN_TILE = 0" by (rule flag_clear)
  then show ?thesis
    using assms(1) None base_at_xy_None [of g x y]
    by (simp add: sq_at_rebuild_base_bits base_bits_def MAP_is_base_def)
next
  case (Some i)
  have b: "((sq_items t AND NOT BIT_BASE_IN_TILE) OR BIT_BASE_IN_TILE) AND BIT_BASE_IN_TILE = BIT_BASE_IN_TILE"
    by (rule flag_set)
  have f: "MAP_veh_owner (put_occupant (base_faction_id (Bases g i)) s) = base_faction_id (Bases g i)" for s
    using veh_owner_put assms(2) [of i] by simp
  show ?thesis
    using Some base_at_xy_Some [OF Some] assms b
    by (auto simp: sq_at_rebuild_base_bits base_bits_def MAP_is_base_def MAP_base_who_def f)
qed

lemma rebuild_base_bits_correct_witness:
  "\<exists>t'. sq_at (rebuild_base_bits (blank_game\<lparr>MapAreaX := 16, MapAreaY := 8, BaseCount := 1,
      Bases := (\<lambda>_. blank_base\<lparr>base_x := 3, base_y := 1, base_faction_id := 4\<rparr>)\<rparr>)) 3 1 = Some t' \<and> MAP_is_base t'"
proof -
  let ?g = "blank_game\<lparr>MapAreaX := 16, MapAreaY := 8, BaseCount := 1,
      Bases := (\<lambda>_. blank_base\<lparr>base_x := 3, base_y := 1, base_faction_id := 4\<rparr>)\<rparr>"
  have "sq_at ?g 3 1 = Some (MapTiles ?g 9)" by (simp add: sq_at_def mapsq_def sdiv_nonneg)
  from rebuild_base_bits_correct [OF this] show ?thesis by fastforce
qed

text \<open>The landmark table stays within its 64 entries; a new landmark is appended unless the table is full,
  in which case nothing changes and -1 is returned; removing one closes the gap and keeps the order
  of the others.\<close>

theorem landmark_table_ops:
  assumes "landmarks_ok g"
  shows "landmarks_ok (fst (new_landmark g x y name)) \<and> landmarks_ok (kill_landmark g x y)
    \<and> (if MapLandmarkCount g < MaxLandmarkNum
       then landmark_list (fst (new_landmark g x y name))
              = landmark_list g @ [\<lparr>lm_x = x, lm_y = y, lm_name = take 31 name\<rparr>]
            \<and> snd (new_landmark g x y name) = MapLandmarkCount g
       else new_landmark g x y name = (g, - 1))
    \<and> landmark_list (kill_landmark g x y) =
       (if find_landmark g x y 1 < 0 then landmark_list g
        else take (nat (find_landmark g x y 1)) (landmark_list g)
             @ drop (Suc (nat (find_landmark g x y 1))) (landmark_list g))"
  using assms new_landmark_list [OF assms, of x y name] kill_landmark_list [OF assms refl, of x y]
    find_landmark_range [of g x y 1]
  by (auto simp: landmarks_ok_def new_landmark_def kill_landmark_def Let_def)

lemma landmark_table_ops_witness:
  "landmark_list (fst (new_landmark blank_game 4 2 ''Uranium Flats''))
    = [\<lparr>lm_x = 4, lm_y = 2, lm_name = ''Uranium Flats''\<rparr>]"
  using landmark_table_ops [of blank_game 4 2 "''Uranium Flats''"]
  by (simp add: landmarks_ok_def blank_game_def landmark_list_def)

text \<open>\<open>base_find\<close> returns a nearest base: either there is none within distance 9999, or the result is a
  base, the distance reported is its distance, and no other base is nearer.\<close>

theorem base_find_is_nearest:
  "(case base_find g x y of (bd, bi) \<Rightarrow>
     if bi = - 1
     then (\<forall>i. 0 \<le> i \<and> i < BaseCount g \<longrightarrow> 9999 < vector_dist g x y (base_x (Bases g i)) (base_y (Bases g i)))
     else 0 \<le> bi \<and> bi < BaseCount g \<and> bd = vector_dist g x y (base_x (Bases g bi)) (base_y (Bases g bi))
       \<and> (\<forall>i. 0 \<le> i \<and> i < BaseCount g \<longrightarrow> bd \<le> vector_dist g x y (base_x (Bases g i)) (base_y (Bases g i))))"
  using base_find_nearest by (cases "base_find g x y") fastforce

lemma flip_low: "(a AND 1) XOR x = (if odd a then (if even x then x + 1 else x - 1) else (x :: int))"
proof -
  have "a AND 1 = a mod 2" by (simp add: and_one_eq)
  moreover have "1 XOR x = (if even x then x + 1 else x - 1)"
    by (auto simp: one_xor_eq)
  ultimately show ?thesis by (cases "odd a") (auto simp: odd_iff_mod_2_eq_one)
qed

text \<open>On a map of even width, \<open>pick_tile\<close> always returns a square of the map, at least dy rows from
  either edge, whatever the state of the generator.\<close>

theorem pick_tile_valid:
  assumes "even (MapAreaX g)" "0 < MapAreaX g" "MapAreaX g \<le> 65536" "0 \<le> dy" "2 * dy < MapAreaY g" "MapAreaY g \<le> 65536"
  shows "case GameRandom_pick_tile g r dy of (r', x, y, sq) \<Rightarrow>
     sq = mapsq g x y \<and> sq \<noteq> None \<and> dy \<le> y \<and> y < MapAreaY g - dy"
proof -
  define v where "v = snd (GameRandom_get r (MapAreaY g - 2 * dy))"
  define r1 where "r1 = fst (GameRandom_get r (MapAreaY g - 2 * dy))"
  define x where "x = snd (GameRandom_get r1 (MapAreaX g))"
  have v: "0 \<le> v" "v < MapAreaY g - 2 * dy" unfolding v_def using assms by (simp_all add: grnd.draw_ge grnd.draw_lt)
  have x: "0 \<le> x" "x < MapAreaX g" unfolding x_def using assms by (simp_all add: grnd.draw_ge grnd.draw_lt)
  let ?x = "((x XOR (v + dy)) AND 1) XOR x"
  have e: "?x = (if odd (x + (v + dy)) then (if even x then x + 1 else x - 1) else x)"
    unfolding flip_low by (simp add: even_xor_iff)
  have "0 \<le> ?x" using x by (cases "x = 0") (auto simp: e)
  moreover have "even x \<Longrightarrow> x + 1 \<noteq> MapAreaX g" using assms(1) by (metis even_plus_one_iff)
  then have "?x < MapAreaX g" using x by (auto simp: e)
  moreover have "even (?x + (v + dy))" by (simp add: e)
  ultimately have "mapsq g ?x (v + dy) \<noteq> None" using v assms by (simp add: mapsq_None_iff)
  moreover have "GameRandom_pick_tile g r dy = (fst (GameRandom_get r1 (MapAreaX g)), ?x, v + dy, mapsq g ?x (v + dy))"
    by (simp add: GameRandom_pick_tile_def split_beta Let_def v_def r1_def x_def)
  ultimately show ?thesis using v assms by simp
qed

lemma pick_tile_valid_witness:
  "case GameRandom_pick_tile (blank_game\<lparr>MapAreaX := 16, MapAreaY := 8\<rparr>) \<lparr>gr_state = 5\<rparr> 2 of (r', x, y, sq) \<Rightarrow>
     sq \<noteq> None \<and> 2 \<le> y \<and> y < 6"
  using pick_tile_valid [of "blank_game\<lparr>MapAreaX := 16, MapAreaY := 8\<rparr>" 2 "\<lparr>gr_state = 5\<rparr>"] by (auto split: prod.splits)

text \<open>The fields packed into one byte of a square are independent: occupant and site, temperature and
  rainfall, lock and user, lock and rockiness each read back what was stored, whichever is stored last,
  for every byte and value.\<close>

theorem packed_fields_independent:
  "MAP_occupant (put_occupant f (put_site s t)) = word_of_int (f AND 0xF)
    \<and> MAP_site (put_occupant f (put_site s t)) = s AND 0xF
    \<and> put_occupant f (put_site s t) = put_site s (put_occupant f t)
    \<and> get_temp (put_temp v (put_rainfall w t)) = uint (v AND 7)
    \<and> MAP_rainfall (put_temp v (put_rainfall w t)) = w AND 3
    \<and> put_temp v (put_rainfall w t) = put_rainfall w (put_temp v t)
    \<and> get_lock (put_lock f (put_using h t)) = uint (word_of_int (f AND 7) :: u8)
    \<and> get_using (put_lock f (put_using h t)) = uint (word_of_int (h AND 7) :: u8)
    \<and> get_lock (put_lock f (put_rocky s t)) = uint (word_of_int (f AND 7) :: u8)
    \<and> MAP_rocky_level (put_lock f (put_rocky s t)) = uint (s AND 3)"
  using val2.both_read_back [of f s t] val2.commute [of f s t] climate.both_read_back [of v w t]
    climate.commute [of v w t] val3.both_read_back [of f h t] rock.both_read_back [of f s t] by simp

theorem base_find_is_nearest_witness:
  "snd (base_find (blank_game\<lparr>BaseCount := 1\<rparr>) 2 2) = 0"
proof -
  let ?g = "blank_game\<lparr>BaseCount := 1\<rparr>"
  have "vector_dist ?g 2 2 (base_x (Bases ?g 0)) (base_y (Bases ?g 0)) \<le> 9999"
    by (simp add: vector_dist_def blank_game_def blank_base_def map_is_flat_def)
  then show ?thesis
    using base_find_is_nearest [of ?g 2 2] by (cases "base_find ?g 2 2") (auto split: if_split_asm)
qed

end
