(* ===== verification/Facilities.thy ===== *)
theory Facilities
  imports Tech_Tree MapGrid
begin

section \<open>Facilities, projects and prototypes a faction has (base.cpp, faction.cpp, veh.cpp, game.cpp)\<close>

text \<open>
  Which base holds a secret project, which facilities stand in a base, what a faction may build and
  which abilities its prototypes have. The facility bits of a base and the status bits of the factions
  are two providers of one interface, \<open>bit_set_store\<close>.
\<close>

subsection \<open>Game state (game.cpp)\<close>

definition victory_done :: "game \<Rightarrow> bool" where
  "victory_done g \<longleftrightarrow> GameState g AND STATE_GAME_DONE \<noteq> 0"

definition un_charter :: "game \<Rightarrow> bool" where
  "un_charter g \<longleftrightarrow> ProposalPassCount g PROP_REPEAL_UN_CHARTER \<le> ProposalPassCount g PROP_REINSTATE_UN_CHARTER"

definition global_trade_pact :: "game \<Rightarrow> bool" where
  "global_trade_pact g \<longleftrightarrow> ProposalPassCount g PROP_REPEAL_GLOBAL_TRADE_PACT < ProposalPassCount g PROP_GLOBAL_TRADE_PACT"

definition full_game_turn :: "game \<Rightarrow> bool" where
  "full_game_turn g \<longleftrightarrow> \<not> (GameState g AND STATE_GAME_DONE \<noteq> 0) \<or> GameState g AND STATE_FINAL_SCORE_DONE \<noteq> 0"

definition valid_player :: "int \<Rightarrow> bool" where
  "valid_player faction_id \<longleftrightarrow> faction_id > 0 \<and> faction_id < MaxPlayerNum"

definition valid_triad :: "int \<Rightarrow> bool" where
  "valid_triad triad \<longleftrightarrow> triad = TRIAD_LAND \<or> triad = TRIAD_SEA \<or> triad = TRIAD_AIR"

subsection \<open>Secret projects\<close>

definition project_base :: "game \<Rightarrow> int \<Rightarrow> int" where
  "project_base g item_id =
     (if item_id \<ge> SP_ID_First \<and> item_id \<le> SP_ID_Last then SecretProjects g (item_id - SP_ID_First)
      else SP_Unbuilt)"

definition has_project_any :: "game \<Rightarrow> int \<Rightarrow> bool" where
  "has_project_any g item_id \<longleftrightarrow> project_base g item_id \<ge> 0"

definition has_project :: "game \<Rightarrow> int \<Rightarrow> int \<Rightarrow> bool" where
  "has_project g item_id faction_id \<longleftrightarrow> (let base_id = project_base g item_id
     in base_id \<ge> 0 \<and> faction_id \<ge> 0 \<and> base_faction_id (Bases g base_id) = faction_id)"

definition voice_of_planet :: "game \<Rightarrow> bool" where
  "voice_of_planet g \<longleftrightarrow> project_base g FAC_VOICE_OF_PLANET \<noteq> SP_Unbuilt"

subsection \<open>Facilities of a base\<close>

definition has_fac_built :: "game \<Rightarrow> int \<Rightarrow> int \<Rightarrow> bool" where
  "has_fac_built g item_id base_id \<longleftrightarrow> base_id \<ge> 0 \<and> base_id < MaxBaseNum \<and> item_id \<ge> 0 \<and> item_id \<le> Fac_ID_Last
     \<and> base_facilities_built (Bases g base_id) (item_id sdiv 8) AND push_bit (nat (item_id smod 8)) 1 \<noteq> 0"

definition set_fac :: "game \<Rightarrow> int \<Rightarrow> int \<Rightarrow> bool \<Rightarrow> game" where
  "set_fac g item_id base_id add =
     (if base_id \<ge> 0 \<and> base_id < MaxBaseNum \<and> item_id \<ge> 0 \<and> item_id \<le> Fac_ID_Last
      then upd_base base_id (\<lambda>b. b\<lparr>base_facilities_built := (base_facilities_built b)(item_id sdiv 8 :=
             (if add then base_facilities_built b (item_id sdiv 8) OR push_bit (nat (item_id smod 8)) 1
              else base_facilities_built b (item_id sdiv 8) AND NOT (push_bit (nat (item_id smod 8)) 1)))\<rparr>) g
      else g)"

definition redundant_project :: "int \<Rightarrow> int option" where
  "redundant_project item_id =
     (if item_id = FAC_NAVAL_YARD then Some FAC_MARITIME_CONTROL_CENTER
      else if item_id = FAC_PERIMETER_DEFENSE then Some FAC_CITIZENS_DEFENSE_FORCE
      else if item_id = FAC_COMMAND_CENTER then Some FAC_COMMAND_NEXUS
      else if item_id = FAC_BIOENHANCEMENT_CENTER then Some FAC_CYBORG_FACTORY
      else if item_id = FAC_QUANTUM_CONVERTER then Some FAC_SINGULARITY_INDUCTOR
      else if item_id = FAC_AEROSPACE_COMPLEX then Some FAC_CLOUDBASE_ACADEMY
      else if item_id = FAC_ENERGY_BANK then Some FAC_PLANETARY_ENERGY_GRID
      else None)"

definition redundant :: "game \<Rightarrow> int \<Rightarrow> int \<Rightarrow> bool" where
  "redundant g item_id faction_id = (case redundant_project item_id of None \<Rightarrow> False
     | Some project_id \<Rightarrow> has_project g project_id faction_id)"

definition has_fac :: "game \<Rightarrow> int \<Rightarrow> int \<Rightarrow> int \<Rightarrow> bool" where
  "has_fac g item_id base_id queue_count =
     (if base_id < 0 \<or> base_id \<ge> BaseCount g then False
      else if item_id \<ge> FAC_SKY_HYDRO_LAB then False
      else let is_built = has_fac_built g item_id base_id in
        if is_built \<or> queue_count = 0 then is_built
        else if queue_count \<le> 0 then False
        else list_ex (\<lambda>i. base_queue_items (Bases g base_id) i = - item_id) [0..min queue_count 10 - 1])"

definition has_facility :: "game \<Rightarrow> int \<Rightarrow> int \<Rightarrow> bool" where
  "has_facility g item_id base_id =
     (if item_id \<le> 0 then False
      else if item_id \<ge> SP_ID_First then project_base g item_id = base_id
      else has_fac_built g item_id base_id \<or> redundant g item_id (base_faction_id (Bases g base_id)))"

definition has_free_facility :: "game \<Rightarrow> int \<Rightarrow> int \<Rightarrow> bool" where
  "has_free_facility g item_id faction_id = (let m = MFactions g faction_id in
     list_ex (\<lambda>i. mf_faction_bonus_val1 m i = item_id
        \<and> (mf_faction_bonus_id m i = RULE_FACILITY
           \<or> (mf_faction_bonus_id m i = RULE_FREEFAC \<and> has_tech g (cfac_preq_tech (Facility g item_id)) faction_id)))
       [0..mf_faction_bonus_count m - 1])"

definition fac_maint :: "game \<Rightarrow> int \<Rightarrow> int \<Rightarrow> int" where
  "fac_maint g facility_id faction_id = (let facility = Facility g facility_id; m = MFactions g faction_id in
     if list_ex (\<lambda>i. mf_faction_bonus_val1 m i = facility_id
        \<and> (mf_faction_bonus_id m i = RULE_FACILITY
           \<or> (mf_faction_bonus_id m i = RULE_FREEFAC \<and> has_tech g (cfac_preq_tech facility) faction_id)))
       [0..mf_faction_bonus_count m - 1]
     then 0 else cfac_maint facility)"

definition facility_count :: "game \<Rightarrow> int \<Rightarrow> int \<Rightarrow> int" where
  "facility_count g item_id faction_id =
     int (length (filter (\<lambda>i. base_faction_id (Bases g i) = faction_id \<and> has_fac_built g item_id i)
       [0..BaseCount g - 1]))"

definition prod_count :: "game \<Rightarrow> int \<Rightarrow> int \<Rightarrow> int \<Rightarrow> int" where
  "prod_count g item_id faction_id base_skip_id =
     int (length (filter (\<lambda>i. base_faction_id (Bases g i) = faction_id \<and> BASE_item (Bases g i) = item_id
        \<and> i \<noteq> base_skip_id) [0..BaseCount g - 1]))"

definition find_hq :: "game \<Rightarrow> int \<Rightarrow> int" where
  "find_hq g faction_id =
     (case List.find (\<lambda>i. base_faction_id (Bases g i) = faction_id \<and> has_fac_built g FAC_HEADQUARTERS i)
        [0..BaseCount g - 1] of None \<Rightarrow> - 1 | Some i \<Rightarrow> i)"

definition has_plr_rule :: "game \<Rightarrow> int \<Rightarrow> int \<Rightarrow> (int \<times> int) option" where
  "has_plr_rule g faction_id rule = (let m = MFactions g faction_id in
     map_option (\<lambda>i. (mf_faction_bonus_val1 m i, mf_faction_bonus_val2 m i))
       (List.find (\<lambda>i. rule = mf_faction_bonus_id m i) [0..mf_faction_bonus_count m - 1]))"

definition has_active_veh :: "game \<Rightarrow> int \<Rightarrow> int \<Rightarrow> bool" where
  "has_active_veh g faction_id plan =
     list_ex (\<lambda>i. veh_faction_id (Vehs g i) = faction_id \<and> unit_plan (Units g (veh_unit_id (Vehs g i))) = plan)
       [0..VehCount g - 1]"

definition veh_count_of :: "game \<Rightarrow> int \<Rightarrow> int \<Rightarrow> int" where
  "veh_count_of g faction_id unit_id =
     int (length (filter (\<lambda>i. veh_faction_id (Vehs g i) = faction_id \<and> veh_unit_id (Vehs g i) = unit_id)
       [0..VehCount g - 1]))"

subsection \<open>Riots, growth and special facilities\<close>

definition can_staple :: "game \<Rightarrow> int \<Rightarrow> bool" where
  "can_staple g base_id \<longleftrightarrow> base_id \<ge> 0 \<and> conf_nerve_staple_turns (conf g) > 0
     \<and> BASE_SE_police g (Bases g base_id) False \<ge> 0"

definition base_can_riot :: "game \<Rightarrow> int \<Rightarrow> bool \<Rightarrow> bool" where
  "base_can_riot g base_id allow_staple \<longleftrightarrow> (let b = Bases g base_id in
     (\<not> allow_staple \<or> base_nerve_staple_turns_left b = 0)
     \<and> \<not> has_project g FAC_TELEPATHIC_MATRIX (base_faction_id b)
     \<and> \<not> has_fac_built g FAC_PUNISHMENT_SPHERE base_id)"

definition base_maybe_riot :: "game \<Rightarrow> int \<Rightarrow> bool" where
  "base_maybe_riot g base_id \<longleftrightarrow> BASE_drone_riots (Bases g base_id) \<and> base_can_riot g base_id True"

definition base_pop_boom :: "game \<Rightarrow> int \<Rightarrow> bool" where
  "base_pop_boom g base_id = (let b = Bases g base_id; f = Factions g (base_faction_id b) in
     if base_nutrient_surplus b < rule_nutrient_intake_req_citizen (Rules g) then False
     else has_project g FAC_CLONING_VATS (base_faction_id b)
        \<or> f_SE_growth_pending f + (if has_fac_built g FAC_CHILDREN_CRECHE base_id then 2 else 0)
            + (if BASE_golden_age b then 2 else 0) \<ge> GrowthPopBoom)"

definition can_use_teleport :: "game \<Rightarrow> int \<Rightarrow> bool" where
  "can_use_teleport g base_id \<longleftrightarrow> has_fac_built g FAC_PSI_GATE base_id
     \<and> \<not> (base_state_flags (Bases g base_id) AND BSTATE_PSI_GATE_USED \<noteq> 0)"

definition can_link_artifact :: "game \<Rightarrow> int \<Rightarrow> bool" where
  "can_link_artifact g base_id \<longleftrightarrow> base_id \<ge> 0
     \<and> ((has_fac_built g FAC_NETWORK_NODE base_id \<and> \<not> (base_state_flags (Bases g base_id) AND BSTATE_ARTIFACT_LINKED \<noteq> 0))
        \<or> project_base g FAC_UNIVERSAL_TRANSLATOR = base_id)"

subsection \<open>Availability of facilities\<close>

definition to_lower :: "char \<Rightarrow> char" where
  "to_lower c = (let n = of_char c :: nat in if 65 \<le> n \<and> n \<le> 90 then char_of (n + 32) else c)"

definition stricmp_equal :: "string \<Rightarrow> string \<Rightarrow> bool" where
  "stricmp_equal a b \<longleftrightarrow> map to_lower a = map to_lower b"

text \<open>The \<open>switch\<close> over the facilities that need more than their technology.\<close>

definition facility_special :: "game \<Rightarrow> int \<Rightarrow> int \<Rightarrow> int \<Rightarrow> int \<Rightarrow> bool" where
  "facility_special g item_id faction_id base_id queue_count =
    (let has = (\<lambda>fac. has_fac g fac base_id queue_count); proj = (\<lambda>sp. has_project g sp faction_id);
         coast = is_coast g (base_x (Bases g base_id)) (base_y (Bases g base_id)) False \<noteq> 0
     in if item_id = FAC_RECYCLING_TANKS then \<not> has FAC_PRESSURE_DOME
     else if item_id = FAC_TACHYON_FIELD then has FAC_PERIMETER_DEFENSE \<or> proj FAC_CITIZENS_DEFENSE_FORCE
     else if item_id = FAC_SKUNKWORKS then \<not> (mf_rule_flags (MFactions g faction_id) AND RFLAG_FREEPROTO \<noteq> 0)
     else if item_id = FAC_HOLOGRAM_THEATRE then has FAC_RECREATION_COMMONS \<and> \<not> proj FAC_VIRTUAL_WORLD
     else if item_id = FAC_HYBRID_FOREST then has FAC_TREE_FARM
     else if item_id = FAC_QUANTUM_LAB then has FAC_FUSION_LAB
     else if item_id = FAC_NANOHOSPITAL then has FAC_RESEARCH_HOSPITAL
     else if item_id = FAC_PARADISE_GARDEN then \<not> has FAC_PUNISHMENT_SPHERE
     else if item_id = FAC_PUNISHMENT_SPHERE then \<not> has FAC_PARADISE_GARDEN
     else if item_id = FAC_NANOREPLICATOR then has FAC_ROBOTIC_ASSEMBLY_PLANT \<or> has FAC_GENEJACK_FACTORY
     else if item_id = FAC_HABITATION_DOME then has FAC_HAB_COMPLEX
     else if item_id = FAC_TEMPLE_OF_PLANET then has FAC_CENTAURI_PRESERVE
     else if item_id = FAC_QUANTUM_CONVERTER then has FAC_ROBOTIC_ASSEMBLY_PLANT
     else if item_id = FAC_NAVAL_YARD then coast
     else if item_id = FAC_AQUAFARM \<or> item_id = FAC_SUBSEA_TRUNKLINE \<or> item_id = FAC_THERMOCLINE_TRANSDUCER then
       ExpansionEnabled g \<and> coast
     else if item_id = FAC_COVERT_OPS_CENTER \<or> item_id = FAC_BROOD_PIT \<or> item_id = FAC_FLECHETTE_DEFENSE_SYS then
       ExpansionEnabled g
     else if item_id = FAC_GEOSYNC_SURVEY_POD then
       ExpansionEnabled g \<and> (has FAC_AEROSPACE_COMPLEX \<or> proj FAC_CLOUDBASE_ACADEMY \<or> proj FAC_SPACE_ELEVATOR)
     else if item_id = FAC_SKY_HYDRO_LAB \<or> item_id = FAC_NESSUS_MINING_STATION
          \<or> item_id = FAC_ORBITAL_POWER_TRANS \<or> item_id = FAC_ORBITAL_DEFENSE_POD then
       has FAC_AEROSPACE_COMPLEX \<or> proj FAC_CLOUDBASE_ACADEMY \<or> proj FAC_SPACE_ELEVATOR
     else if item_id = FAC_SUBSPACE_GENERATOR then is_alien g faction_id
     else True)"

definition mod_facility_avail :: "game \<Rightarrow> int \<Rightarrow> int \<Rightarrow> int \<Rightarrow> int \<Rightarrow> bool" where
  "mod_facility_avail g item_id faction_id base_id queue_count =
    (let caretake = stricmp_equal (mf_filename (MFactions g faction_id)) ''CARETAKE''
     in if item_id = 0 \<or> (item_id = FAC_SKUNKWORKS \<and> DiffLevel g \<le> DIFF_SPECIALIST)
          \<or> (item_id \<ge> SP_ID_First \<and> GameRules g AND RULES_SCN_NO_BUILDING_SP \<noteq> 0) then False
     else if item_id = FAC_ASCENT_TO_TRANSCENDENCE then
       voice_of_planet g \<and> GameRules g AND RULES_VICTORY_TRANSCENDENCE \<noteq> 0 \<and> \<not> caretake
     else if \<not> has_tech g (cfac_preq_tech (Facility g item_id)) faction_id then False
     else if \<not> ExpansionEnabled g \<and> (item_id = FAC_MANIFOLD_HARMONICS \<or> item_id = FAC_NETHACK_TERMINUS
          \<or> item_id = FAC_CLOUDBASE_ACADEMY \<or> item_id = FAC_PLANETARY_ENERGY_GRID) then False
     else if item_id = FAC_VOICE_OF_PLANET \<and> caretake then False
     else if item_id \<ge> SP_ID_First then project_base g item_id = SP_Unbuilt
     else if base_id < 0 then True
     else if has_fac g item_id base_id queue_count then False
     else if redundant g item_id faction_id then False
     else facility_special g item_id faction_id base_id queue_count)"

subsection \<open>Prototypes and abilities\<close>

definition mod_veh_avail :: "game \<Rightarrow> int \<Rightarrow> int \<Rightarrow> int \<Rightarrow> bool" where
  "mod_veh_avail g unit_id faction_id base_id = (let u = Units g unit_id in
     if \<not> UNIT_is_active u \<or> bit (unit_obsolete_factions u) (nat faction_id) then False
     else if unit_id < MaxProtoFactionNum \<and> \<not> has_tech g (unit_preq_tech u) faction_id then False
     else if unit_plan u = PLAN_COLONY \<and> GameRules g AND RULES_SCN_NO_COLONY_PODS \<noteq> 0 then False
     else if base_id \<ge> 0 \<and> UNIT_triad g u = TRIAD_SEA
        \<and> is_coast g (base_x (Bases g base_id)) (base_y (Bases g base_id)) False = 0 then False
     else let wpn_id = unit_weapon_id u; abls = unit_ability_flags u in
       if \<not> ExpansionEnabled g \<and> (unit_armor_id u > ARM_PSI_DEFENSE
          \<or> wpn_id = WPN_RESONANCE_LASER \<or> wpn_id = WPN_RESONANCE_BOLT \<or> wpn_id = WPN_STRING_DISRUPTOR
          \<or> wpn_id = WPN_TECTONIC_PAYLOAD \<or> wpn_id = WPN_FUNGAL_PAYLOAD
          \<or> abls AND ABL_SOPORIFIC_GAS \<noteq> 0 \<or> abls AND ABL_DISSOCIATIVE_WAVE \<noteq> 0
          \<or> abls AND ABL_MARINE_DETACHMENT \<noteq> 0 \<or> abls AND ABL_FUEL_NANOCELLS \<noteq> 0
          \<or> abls AND ABL_ALGO_ENHANCEMENT \<noteq> 0
          \<or> unit_id = BSC_SEALURK \<or> unit_id = BSC_SPORE_LAUNCHER \<or> unit_id = BSC_BATTLE_OGRE_MK1
          \<or> unit_id = BSC_BATTLE_OGRE_MK2 \<or> unit_id = BSC_BATTLE_OGRE_MK3 \<or> unit_id = BSC_FUNGAL_TOWER
          \<or> unit_id = BSC_UNITY_MINING_LASER) then False
       else if unit_id < MaxProtoFactionNum then True
       else unit_id sdiv MaxProtoFactionNum = faction_id)"

definition has_chassis :: "game \<Rightarrow> int \<Rightarrow> int \<Rightarrow> bool" where
  "has_chassis g faction_id chs = has_tech g (cchs_preq_tech (Chassis g chs)) faction_id"

definition has_weapon :: "game \<Rightarrow> int \<Rightarrow> int \<Rightarrow> bool" where
  "has_weapon g faction_id wpn = has_tech g (cwpn_preq_tech (Weapon g wpn)) faction_id"

definition has_wmode :: "game \<Rightarrow> int \<Rightarrow> int \<Rightarrow> bool" where
  "has_wmode g faction_id mode \<longleftrightarrow>
     list_ex (\<lambda>i. cwpn_mode (Weapon g i) = mode \<and> has_tech g (cwpn_preq_tech (Weapon g i)) faction_id)
       [0..MaxWeaponNum - 1]
     \<or> list_ex (\<lambda>i. mod_veh_avail g i faction_id (- 1) \<and> UNIT_weapon_mode g (Units g i) = mode)
       [0..MaxProtoFactionNum - 1]"

definition has_aircraft :: "game \<Rightarrow> int \<Rightarrow> bool" where
  "has_aircraft g faction_id \<longleftrightarrow>
     list_ex (\<lambda>i. cchs_triad (Chassis g i) = TRIAD_AIR \<and> cchs_missile (Chassis g i) = 0
        \<and> has_tech g (cchs_preq_tech (Chassis g i)) faction_id) [0..MaxChassisNum - 1]
     \<or> list_ex (\<lambda>i. mod_veh_avail g i faction_id (- 1) \<and> UNIT_triad g (Units g i) = TRIAD_AIR
        \<and> UNIT_is_missile g (Units g i) = 0) [0..MaxProtoFactionNum - 1]"

definition has_ships :: "game \<Rightarrow> int \<Rightarrow> bool" where
  "has_ships g faction_id \<longleftrightarrow>
     list_ex (\<lambda>i. cchs_triad (Chassis g i) = TRIAD_SEA
        \<and> has_tech g (cchs_preq_tech (Chassis g i)) faction_id) [0..MaxChassisNum - 1]
     \<or> list_ex (\<lambda>i. mod_veh_avail g i faction_id (- 1) \<and> UNIT_triad g (Units g i) = TRIAD_SEA)
       [0..MaxProtoFactionNum - 1]"

definition has_abil :: "game \<Rightarrow> int \<Rightarrow> u32 \<Rightarrow> bool" where
  "has_abil g unit_id ability = (let faction_id = unit_id sdiv MaxProtoFactionNum; m = MFactions g faction_id in
     if unit_id < 0 \<or> unit_id \<ge> MaxProtoNum then False
     else if unit_ability_flags (Units g unit_id) AND ability \<noteq> 0 then True
     else if faction_id = 0 then False
     else if is_alien g faction_id \<and> ability = ABL_DEEP_RADAR then True
     else if list_ex (\<lambda>i. mf_faction_bonus_id m i = RULE_FREEABIL
            \<and> has_tech g (cabl_preq_tech (Ability g (mf_faction_bonus_val1 m i))) faction_id
            \<and> bit ability (nat (mf_faction_bonus_val1 m i)))
          [0..mf_faction_bonus_count m - 1] then True
     else ability = ABL_ALGO_ENHANCEMENT \<and> UNIT_is_probe (Units g unit_id)
        \<and> has_project g FAC_NETHACK_TERMINUS faction_id)"

definition can_arty :: "game \<Rightarrow> int \<Rightarrow> bool \<Rightarrow> bool" where
  "can_arty g unit_id allow_sea_arty = (let u = Units g unit_id in
     if unit_id < 0 \<or> unit_id \<ge> MaxProtoNum then False
     else if (UNIT_offense_value g u \<le> 0 \<or> UNIT_defense_value g u < 0) \<and> unit_id \<noteq> BSC_SPORE_LAUNCHER then False
     else let triad = UNIT_triad g u in
       if triad = TRIAD_SEA then allow_sea_arty
       else if triad = TRIAD_AIR then False
       else has_abil g unit_id ABL_ARTILLERY)"

definition arty_range :: "game \<Rightarrow> int \<Rightarrow> int" where
  "arty_range g unit_id = (let u = Units g unit_id in
     if can_arty g unit_id True
     then (if MultiplayerActive g then rule_artillery_max_rng (Rules g)
           else min MaxTableRange (rule_artillery_max_rng (Rules g)
             + (if conf_long_range_artillery (conf g) > 0 \<and> UNIT_triad g u = TRIAD_SEA
                  \<and> UNIT_offense_value g u > 0 \<and> unit_ability_flags u AND ABL_ARTILLERY \<noteq> 0
                then conf_long_range_artillery (conf g) else 0)))
     else 0)"

definition has_orbital_drops :: "game \<Rightarrow> int \<Rightarrow> bool" where
  "has_orbital_drops g faction_id \<longleftrightarrow> has_tech g (rule_tech_preq_orb_insert_wo_space (Rules g)) faction_id
     \<or> has_project g FAC_SPACE_ELEVATOR faction_id"

definition drop_range :: "game \<Rightarrow> int \<Rightarrow> int" where
  "drop_range g faction_id =
     (if \<not> has_orbital_drops g faction_id then max 0 (rule_max_airdrop_rng_wo_orbital_insert (Rules g))
      else max (MapAreaX g) (MapAreaY g))"

definition has_ability :: "game \<Rightarrow> int \<Rightarrow> int \<Rightarrow> int \<Rightarrow> int \<Rightarrow> bool" where
  "has_ability g faction_id abl chs wpn =
    (let F = cabl_flags (Ability g abl); allowed = (\<lambda>flag. F AND flag \<noteq> 0);
         triad = cchs_triad (Chassis g chs); w = Weapon g wpn;
         is_combat = cwpn_offense_value w \<noteq> 0; is_former = (cwpn_mode w = WMODE_TERRAFORM);
         is_probe = (cwpn_mode w = WMODE_PROBE)
     in if (triad = TRIAD_LAND \<and> \<not> allowed AFLAG_ALLOWED_LAND_UNIT)
          \<or> (triad = TRIAD_SEA \<and> \<not> allowed AFLAG_ALLOWED_SEA_UNIT)
          \<or> (triad = TRIAD_AIR \<and> \<not> allowed AFLAG_ALLOWED_AIR_UNIT) then False
     else if (\<not> allowed AFLAG_ALLOWED_COMBAT_UNIT \<and> is_combat)
          \<or> (\<not> allowed AFLAG_ALLOWED_TERRAFORM_UNIT \<and> is_former)
          \<or> (\<not> allowed AFLAG_ALLOWED_NONCOMBAT_UNIT \<and> \<not> is_combat \<and> \<not> is_former) then False
     else if (allowed AFLAG_NOT_ALLOWED_PROBE_TEAM \<and> is_probe) \<or> (allowed AFLAG_ONLY_PROBE_TEAM \<and> \<not> is_probe) then False
     else if allowed AFLAG_TRANSPORT_ONLY_UNIT \<and> cwpn_mode w \<noteq> WMODE_TRANSPORT then False
     else if allowed AFLAG_NOT_ALLOWED_FAST_UNIT \<and> cchs_speed (Chassis g chs) > 1 then False
     else if allowed AFLAG_NOT_ALLOWED_PSI_UNIT \<and> cwpn_offense_value w < 0 then False
     else has_tech g (cabl_preq_tech (Ability g abl)) faction_id)"

definition allow_expand :: "game \<Rightarrow> int \<Rightarrow> bool" where
  "allow_expand g faction_id =
     (if GameRules g AND RULES_SCN_NO_COLONY_PODS \<noteq> 0 \<or> BaseCount g \<ge> MaxBaseNum then False
      else if is_human g faction_id then True
      else let bases = (if conf_expansion_autoscale (conf g) > 0
              then fold (\<lambda>i bases. if is_human g i \<and> is_alive g i
                     then max bases (f_base_count (Factions g i)) else bases) [1..MaxPlayerNum - 1] 0
              else 0)
        in if conf_expansion_limit (conf g) > 0
           then let pods = int (length (filter (\<lambda>i. veh_faction_id (Vehs g i) = faction_id
                      \<and> VEH_is_colony g (Vehs g i)) [0..VehCount g - 1]))
             in f_base_count (Factions g faction_id) + pods < max bases (conf_expansion_limit (conf g))
           else True)"

subsection \<open>Bit sets as an interface\<close>

locale bit_set_store =
  fixes has :: "'g \<Rightarrow> 'i \<Rightarrow> bool" and put :: "'i \<Rightarrow> bool \<Rightarrow> 'g \<Rightarrow> 'g" and valid :: "'i \<Rightarrow> bool"
  assumes has_put: "valid i \<Longrightarrow> has (put i b g) j = (if j = i then b else has g j)"
    and put_invalid: "\<not> valid i \<Longrightarrow> put i b g = g"
begin

lemma has_fold: "has (fold (\<lambda>(i, b). put i b) ops g) j =
    (case find (\<lambda>(i, b). i = j \<and> valid i) (rev ops) of None \<Rightarrow> has g j | Some (_, b) \<Rightarrow> b)"
proof (induction ops rule: rev_induct)
  case (snoc op ops)
  then show ?case by (cases op; cases "valid (fst op)") (auto simp: has_put put_invalid split: option.splits)
qed simp

lemma has_put_all: "\<forall>i \<in> set xs. valid i \<Longrightarrow> has (fold (\<lambda>i. put i b) xs g) j = (if j \<in> set xs then b else has g j)"
  by (induction xs arbitrary: g) (auto simp: has_put)

lemma put_restores: "valid i \<Longrightarrow> has (put i (has g i) (put i b g)) j = has g j"
  by (simp add: has_put)

end

lemma and_bit_iff: "w AND push_bit n 1 \<noteq> 0 \<longleftrightarrow> bit w n" for w :: "'a::len word"
  by (simp add: push_bit_eq_mult and_exp_eq_0_iff_not_bit)

lemma bit_put_status: "i < 8 \<Longrightarrow> bit (put_status w (int i) b) j = (if j = i then b else bit w j)"
  by (cases "j < 8") (auto simp: put_status_def bit_simps simp del: push_bit_eq_mult)

lemma has_fac_built_bit: "has_fac_built g item base_id \<longleftrightarrow>
    0 \<le> base_id \<and> base_id < MaxBaseNum \<and> 0 \<le> item \<and> item \<le> Fac_ID_Last
    \<and> bit (base_facilities_built (Bases g base_id) (item div 8)) (nat (item mod 8))"
  by (auto simp: has_fac_built_def and_exp_eq_0_iff_not_bit sdiv_nonneg smod_nonneg)

definition valid_fac :: "int \<times> int \<Rightarrow> bool" where
  "valid_fac = (\<lambda>(item, base_id). 0 \<le> base_id \<and> base_id < MaxBaseNum \<and> 0 \<le> item \<and> item \<le> Fac_ID_Last)"

lemma bit_or_clear: "m < 8 \<Longrightarrow> n < 8 \<Longrightarrow>
    bit (if b then w OR push_bit m 1 else w AND NOT (push_bit m 1)) n = (if n = m then b else bit (w :: u8) n)"
  by (auto simp: bit_simps simp del: push_bit_eq_mult)

lemma set_fac_facilities:
  assumes "valid_fac (item, base_id)"
  shows "base_facilities_built (Bases (set_fac g item base_id b) base_id') k =
    (if base_id' = base_id \<and> k = item div 8
     then (if b then base_facilities_built (Bases g base_id) (item div 8) OR push_bit (nat (item mod 8)) 1
           else base_facilities_built (Bases g base_id) (item div 8) AND NOT (push_bit (nat (item mod 8)) 1))
     else base_facilities_built (Bases g base_id') k)"
  using assms by (auto simp: set_fac_def valid_fac_def sdiv_nonneg smod_nonneg)

lemma has_set_fac:
  assumes "valid_fac (item, base_id)"
  shows "has_fac_built (set_fac g item base_id b) item' base_id' =
    (if (item', base_id') = (item, base_id) then b else has_fac_built g item' base_id')"
proof -
  have m: "nat (item mod 8) < 8" "nat (item' mod 8) < 8" by (simp_all add: nat_less_iff)
  have e: "item' = item \<longleftrightarrow> item' div 8 = item div 8 \<and> nat (item' mod 8) = nat (item mod 8)"
    by (metis mult_div_mod_eq nat_eq_iff pos_mod_sign zero_less_numeral)
  show ?thesis
  proof (cases "base_id' = base_id \<and> item' div 8 = item div 8")
    case True
    then show ?thesis
      using assms e by (simp add: has_fac_built_bit set_fac_facilities bit_or_clear [OF m] del: push_bit_eq_mult)
        (auto simp: valid_fac_def)
  next
    case False
    then show ?thesis using assms e by (auto simp: has_fac_built_bit set_fac_facilities)
  qed
qed

interpretation facs: bit_set_store "\<lambda>g (item, base_id). has_fac_built g item base_id"
    "\<lambda>(item, base_id) b g. set_fac g item base_id b" valid_fac
  by unfold_locales (auto simp: has_set_fac, auto simp: set_fac_def valid_fac_def)

interpretation human: bit_set_store "\<lambda>g n. is_human g (int n)" "\<lambda>n b g. if n < 8 then set_human g (int n) b else g" "\<lambda>n. n < 8"
  by unfold_locales (auto simp: is_human_def set_human_def bit_put_status)

interpretation alive: bit_set_store "\<lambda>g n. is_alive g (int n)" "\<lambda>n b g. if n < 8 then set_alive g (int n) b else g" "\<lambda>n. n < 8"
  by unfold_locales (auto simp: is_alive_def set_alive_def bit_put_status)

text \<open>Facility bits: building or removing a facility of a base changes exactly that facility of that base;
  identifiers out of range change nothing and are reported as absent, whatever the stored bytes are.\<close>

theorem set_fac_exact:
  "has_fac_built (set_fac g item base_id b) item' base_id' =
     (if (item', base_id') = (item, base_id) \<and> valid_fac (item, base_id) then b else has_fac_built g item' base_id')
   \<and> (has_fac_built g item base_id \<longrightarrow> valid_fac (item, base_id))"
proof (cases "valid_fac (item, base_id)")
  case True
  then show ?thesis using has_set_fac [OF True] by (simp add: valid_fac_def)
next
  case False
  then show ?thesis using facs.put_invalid [of "(item, base_id)" b g]
    by (auto simp: has_fac_built_bit valid_fac_def)
qed

lemma set_fac_exact_witness: "has_fac_built (set_fac blank_game FAC_TREE_FARM 3 True) FAC_TREE_FARM 3"
  using set_fac_exact [of blank_game FAC_TREE_FARM 3 True FAC_TREE_FARM 3] by (simp add: valid_fac_def)

text \<open>A facility the rules offer for a base is neither standing nor queued there nor made redundant by a
  project, its technology is known, and the two antithetical facilities never both become available
  in a base that has the other.\<close>

theorem facility_avail_sound:
  assumes "mod_facility_avail g item f base_id q" "item \<noteq> FAC_ASCENT_TO_TRANSCENDENCE"
  shows "has_tech g (cfac_preq_tech (Facility g item)) f
    \<and> (SP_ID_First \<le> item \<longrightarrow> project_base g item = SP_Unbuilt)
    \<and> (item < SP_ID_First \<and> 0 \<le> base_id \<longrightarrow> \<not> has_fac g item base_id q \<and> \<not> redundant g item f)
    \<and> (item = FAC_PARADISE_GARDEN \<and> 0 \<le> base_id \<longrightarrow> \<not> has_fac g FAC_PUNISHMENT_SPHERE base_id q)
    \<and> (item = FAC_PUNISHMENT_SPHERE \<and> 0 \<le> base_id \<longrightarrow> \<not> has_fac g FAC_PARADISE_GARDEN base_id q)"
  using assms by (auto simp: mod_facility_avail_def facility_special_def Let_def split: if_split_asm)

lemma facility_avail_sound_witness:
  "\<not> has_fac (blank_game\<lparr>BaseCount := 1, Facility := (\<lambda>_. blank_cfacility\<lparr>cfac_preq_tech := - 1\<rparr>)\<rparr>) FAC_TREE_FARM 0 0"
proof -
  let ?g = "blank_game\<lparr>BaseCount := 1, Facility := (\<lambda>_. blank_cfacility\<lparr>cfac_preq_tech := - 1\<rparr>)\<rparr>"
  have "mod_facility_avail ?g FAC_TREE_FARM 1 0 0"
    by (simp add: mod_facility_avail_def facility_special_def has_tech_def has_fac_def has_fac_built_def redundant_def
        redundant_project_def blank_game_def blank_base_def)
  from facility_avail_sound [OF this] show ?thesis by simp
qed

end
