(* ===== verification/Diplo.thy ===== *)
theory Diplo
  imports Facilities
begin

section \<open>Treaties, reputation and the council (faction.cpp, probe.cpp)\<close>

text \<open>
  What factions are to each other: two 32-bit words per ordered pair, \<open>diplo_status\<close> and
  \<open>diplo_agenda\<close>, changed on both sides by \<open>treaty_on\<close> and \<open>treaty_off\<close> and on one side by
  \<open>set_treaty\<close>; atrocities, betrayals and their consequences; the votes of the planetary council and
  the tests for a faction that is close to victory. Dialogs, messages and redraws, and the globals that
  only they read, are left out. \<open>pact_ends\<close> and \<open>game_rand\<close> are routines of
  the game's executable and parameters of the definitions that call them.
\<close>

subsection \<open>Status words\<close>

definition DiploExcludeTruce :: u32 where
  "DiploExcludeTruce = DIPLO_UNK_100000 OR DIPLO_UNK_10000 OR DIPLO_UNK_8000 OR DIPLO_UNK_40 OR DIPLO_VENDETTA"

definition DiploExcludeFight :: u32 where
  "DiploExcludeFight = DIPLO_UNK_4000000 OR DIPLO_UNK_1000000 OR DIPLO_UNK_100000 OR DIPLO_UNK_10000
     OR DIPLO_UNK_800 OR DIPLO_SHALL_BETRAY OR DIPLO_UNK_80 OR DIPLO_TRUCE OR DIPLO_TREATY OR DIPLO_PACT"

definition upd_status :: "int \<Rightarrow> int \<Rightarrow> (u32 \<Rightarrow> u32) \<Rightarrow> game \<Rightarrow> game" where
  "upd_status i j h = upd_faction i (\<lambda>f. f\<lparr>f_diplo_status := (f_diplo_status f)(j := h (f_diplo_status f j))\<rparr>)"

definition upd_agenda :: "int \<Rightarrow> int \<Rightarrow> (u32 \<Rightarrow> u32) \<Rightarrow> game \<Rightarrow> game" where
  "upd_agenda i j h = upd_faction i (\<lambda>f. f\<lparr>f_diplo_agenda := (f_diplo_agenda f)(j := h (f_diplo_agenda f j))\<rparr>)"

definition both_status :: "int \<Rightarrow> int \<Rightarrow> (u32 \<Rightarrow> u32) \<Rightarrow> game \<Rightarrow> game" where
  "both_status i j h g = upd_status j i h (upd_status i j h g)"

definition both_agenda :: "int \<Rightarrow> int \<Rightarrow> (u32 \<Rightarrow> u32) \<Rightarrow> game \<Rightarrow> game" where
  "both_agenda i j h g = upd_agenda j i h (upd_agenda i j h g)"

definition valid_pair :: "int \<Rightarrow> int \<Rightarrow> bool" where
  "valid_pair i j \<longleftrightarrow> i \<ge> 0 \<and> i < MaxPlayerNum \<and> j \<ge> 0 \<and> j < MaxPlayerNum"

definition treaty_off :: "int \<Rightarrow> int \<Rightarrow> u32 \<Rightarrow> game \<Rightarrow> game" where
  "treaty_off faction_id_1 faction_id_2 status g =
     (let status = (if status AND (DIPLO_TRUCE OR DIPLO_TREATY OR DIPLO_PACT) \<noteq> 0
                    then status OR (DIPLO_UNK_1000000 OR DIPLO_UNK_100000) else status);
          status = (if status AND DIPLO_VENDETTA \<noteq> 0 then status OR (DIPLO_UNK_8000 OR DIPLO_UNK_40) else status);
          g = (if status AND DIPLO_WANT_REVENGE \<noteq> 0
               then both_agenda faction_id_1 faction_id_2 (\<lambda>a. a AND NOT (AGENDA_UNK_800 OR AGENDA_UNK_400)) g else g)
      in both_status faction_id_1 faction_id_2 (\<lambda>s. s AND NOT status) g)"

definition agenda_off :: "int \<Rightarrow> int \<Rightarrow> u32 \<Rightarrow> game \<Rightarrow> game" where
  "agenda_off faction_id_1 faction_id_2 status = both_agenda faction_id_1 faction_id_2 (\<lambda>a. a AND NOT status)"

definition reset_unk_4 :: "int \<Rightarrow> int \<Rightarrow> game \<Rightarrow> game" where
  "reset_unk_4 i j = upd_faction i (\<lambda>f. f\<lparr>f_diplo_unk_4 := (f_diplo_unk_4 f)(j := 0)\<rparr>)"

definition treaty_on :: "int \<Rightarrow> int \<Rightarrow> u32 \<Rightarrow> game \<Rightarrow> game" where
  "treaty_on faction_id_1 faction_id_2 status g =
     (if \<not> valid_pair faction_id_1 faction_id_2 then g
      else let
        is_player = (faction_id_1 = CurrentPlayerFaction g \<or> faction_id_2 = CurrentPlayerFaction g);
        peace = (status AND (DIPLO_TRUCE OR DIPLO_TREATY OR DIPLO_PACT) \<noteq> 0);
        g = (if peace \<and> is_player \<and> f_diplo_status (Factions g faction_id_1) faction_id_2 AND DIPLO_VENDETTA \<noteq> 0
             then g\<lparr>dword_74DA9C := dword_74DA9C g AND NOT 1\<rparr> else g);
        g = (if peace then both_status faction_id_1 faction_id_2 (\<lambda>s. s AND NOT DiploExcludeTruce) g else g);
        status = (if status AND DIPLO_PACT \<noteq> 0 then status OR DIPLO_TREATY else status);
        fight = (status AND DIPLO_VENDETTA \<noteq> 0);
        g = (if fight \<and> f_diplo_status (Factions g faction_id_1) faction_id_2
                  AND (DIPLO_TRUCE OR DIPLO_TREATY OR DIPLO_PACT) \<noteq> 0
             then reset_unk_4 faction_id_2 faction_id_1 (reset_unk_4 faction_id_1 faction_id_2 g) else g);
        status = (if fight then status OR (DIPLO_UNK_80000000 OR DIPLO_UNK_100 OR DIPLO_COMMLINK) else status);
        g = (if fight then both_status faction_id_1 faction_id_2 (\<lambda>s. s AND NOT DiploExcludeFight) g else g);
        g = (if fight \<and> is_player then g\<lparr>dword_74DA9C := dword_74DA9C g OR 1\<rparr> else g);
        g = (if status AND (DIPLO_VENDETTA OR DIPLO_TRUCE OR DIPLO_TREATY OR DIPLO_PACT) \<noteq> 0
             then both_status faction_id_1 faction_id_2 (\<lambda>s. s AND NOT DIPLO_UNK_800000) g else g)
      in both_status faction_id_1 faction_id_2 (\<lambda>s. s OR status) g)"

definition agenda_on :: "int \<Rightarrow> int \<Rightarrow> u32 \<Rightarrow> game \<Rightarrow> game" where
  "agenda_on faction_id_1 faction_id_2 status g =
     (if \<not> valid_pair faction_id_1 faction_id_2 then g
      else let g = (if status AND AGENDA_UNK_20 \<noteq> 0
             then both_agenda faction_id_1 faction_id_2 (\<lambda>a. a AND NOT AGENDA_UNK_40) g else g)
        in both_agenda faction_id_1 faction_id_2 (\<lambda>a. a OR status) g)"

definition has_treaty :: "game \<Rightarrow> int \<Rightarrow> int \<Rightarrow> u32 \<Rightarrow> u32" where
  "has_treaty g faction_id_1 faction_id_2 status =
     (if valid_pair faction_id_1 faction_id_2
      then f_diplo_status (Factions g faction_id_1) faction_id_2 AND status else 0)"

definition has_agenda :: "game \<Rightarrow> int \<Rightarrow> int \<Rightarrow> u32 \<Rightarrow> u32" where
  "has_agenda g faction_id_1 faction_id_2 status =
     (if valid_pair faction_id_1 faction_id_2
      then f_diplo_agenda (Factions g faction_id_1) faction_id_2 AND status else 0)"

abbreviation treaty :: "game \<Rightarrow> int \<Rightarrow> int \<Rightarrow> u32 \<Rightarrow> bool" where
  "treaty g i j status \<equiv> has_treaty g i j status \<noteq> 0"

abbreviation agenda :: "game \<Rightarrow> int \<Rightarrow> int \<Rightarrow> u32 \<Rightarrow> bool" where
  "agenda g i j status \<equiv> has_agenda g i j status \<noteq> 0"

definition at_war :: "game \<Rightarrow> int \<Rightarrow> int \<Rightarrow> bool" where
  "at_war g faction1 faction2 \<longleftrightarrow> faction1 \<noteq> faction2 \<and> faction1 \<ge> 0 \<and> faction2 \<ge> 0
     \<and> f_diplo_status (Factions g faction1) faction2 AND DIPLO_VENDETTA \<noteq> 0"

definition has_pact :: "game \<Rightarrow> int \<Rightarrow> int \<Rightarrow> bool" where
  "has_pact g faction1 faction2 \<longleftrightarrow> faction1 \<ge> 0 \<and> faction2 \<ge> 0
     \<and> f_diplo_status (Factions g faction1) faction2 AND DIPLO_PACT \<noteq> 0"

definition both_neutral :: "game \<Rightarrow> int \<Rightarrow> int \<Rightarrow> bool" where
  "both_neutral g faction1 faction2 \<longleftrightarrow> faction1 \<ge> 0 \<and> faction2 \<ge> 0 \<and> faction1 \<noteq> faction2
     \<and> \<not> (f_diplo_status (Factions g faction1) faction2 AND (DIPLO_PACT OR DIPLO_VENDETTA) \<noteq> 0)"

definition both_non_enemy :: "game \<Rightarrow> int \<Rightarrow> int \<Rightarrow> bool" where
  "both_non_enemy g faction1 faction2 \<longleftrightarrow> faction1 \<ge> 0 \<and> faction2 \<ge> 0 \<and> faction1 \<noteq> faction2
     \<and> \<not> (f_diplo_status (Factions g faction1) faction2 AND DIPLO_VENDETTA \<noteq> 0)"

definition want_revenge :: "game \<Rightarrow> int \<Rightarrow> int \<Rightarrow> bool" where
  "want_revenge g faction1 faction2 \<longleftrightarrow> faction1 \<ge> 0 \<and> faction2 \<ge> 0 \<and> faction1 \<noteq> faction2
     \<and> f_diplo_status (Factions g faction1) faction2 AND (DIPLO_ATROCITY_VICTIM OR DIPLO_WANT_REVENGE) \<noteq> 0"

subsection \<open>Infiltration (probe.cpp)\<close>

definition probe_renew_set :: "int \<Rightarrow> int \<Rightarrow> int \<Rightarrow> game \<Rightarrow> game" where
  "probe_renew_set faction_id faction_id_tgt turns g =
     (if valid_pair faction_id faction_id_tgt
      then g\<lparr>MFactions := (MFactions g)(faction_id := (let m = MFactions g faction_id in
        if turns > 0
        then m\<lparr>mf_thinker_probe_end_turn := (mf_thinker_probe_end_turn m)(faction_id_tgt := s16 (CurrentTurn g + turns)),
               mf_thinker_probe_renew := mf_thinker_probe_renew m OR push_bit (nat faction_id_tgt) 1\<rparr>
        else m\<lparr>mf_thinker_probe_renew := mf_thinker_probe_renew m AND NOT (push_bit (nat faction_id_tgt) 1)\<rparr>))\<rparr>
      else g)"

definition probe_has_renew :: "game \<Rightarrow> int \<Rightarrow> int \<Rightarrow> bool" where
  "probe_has_renew g faction_id faction_id_tgt \<longleftrightarrow> faction_id \<ge> 0 \<and> faction_id < MaxPlayerNum
     \<and> bit (mf_thinker_probe_renew (MFactions g faction_id)) (nat faction_id_tgt)"

definition probe_roll_value :: "game \<Rightarrow> int \<Rightarrow> int" where
  "probe_roll_value g faction_id =
     (let techs = int (length (filter (\<lambda>i. ctech_preq_tech1 (Tech g i) \<noteq> TECH_Disable \<and> has_tech g i faction_id
                 \<and> ctech_flags (Tech g i) AND TFLAG_IMPROVE_PROBE \<noteq> 0) [Tech_ID_First..Tech_ID_Last]));
          f = Factions g faction_id
      in 2 * techs + 2 * clamp (f_SE_probe f) (- 3) 3 + clamp (f_SE_probe_base f) (- 3) 3
         + clamp (f_SE_police f) (- 3) 3)"

definition probe_active_turns :: "game \<Rightarrow> int \<Rightarrow> int \<Rightarrow> int" where
  "probe_active_turns g faction1 faction2 =
     (let value = clamp (15 + probe_roll_value g faction1 - probe_roll_value g faction2) 5 50;
          value = value * (4 + of_bool (MapAreaTiles g \<ge> 4000) + of_bool (MapAreaTiles g \<ge> 8000)) sdiv 4;
          value = value * (4 + of_bool (DiffLevel g < DIFF_TRANSCEND) + of_bool (DiffLevel g < DIFF_THINKER)) sdiv 4
      in clamp value 5 50)"

definition set_treaty :: "int \<Rightarrow> int \<Rightarrow> u32 \<Rightarrow> bool \<Rightarrow> game \<Rightarrow> game" where
  "set_treaty faction_id_1 faction_id_2 status add g =
     (if valid_pair faction_id_1 faction_id_2
      then (if add
        then let g = upd_status faction_id_1 faction_id_2 (\<lambda>s. s OR status) g;
                 g = (if status AND DIPLO_UNK_40 \<noteq> 0
                      then upd_faction faction_id_1 (\<lambda>f. f\<lparr>f_diplo_merc := (f_diplo_merc f)(faction_id_2 := 50)\<rparr>) g
                      else g)
          in if status AND DIPLO_HAVE_INFILTRATOR \<noteq> 0 \<and> conf_counter_espionage (conf g) \<noteq> 0
             then probe_renew_set faction_id_1 faction_id_2 (probe_active_turns g faction_id_1 faction_id_2) g
             else g
        else upd_status faction_id_1 faction_id_2 (\<lambda>s. s AND NOT status) g)
      else g)"

definition set_agenda :: "int \<Rightarrow> int \<Rightarrow> u32 \<Rightarrow> bool \<Rightarrow> game \<Rightarrow> game" where
  "set_agenda faction_id_1 faction_id_2 status add g =
     (if valid_pair faction_id_1 faction_id_2
      then upd_agenda faction_id_1 faction_id_2 (\<lambda>a. if add then a OR status else a AND NOT status) g
      else g)"

subsection \<open>Mood, reputation and patience\<close>

definition cause_friction :: "int \<Rightarrow> int \<Rightarrow> int \<Rightarrow> game \<Rightarrow> game" where
  "cause_friction faction_id faction_id_with friction g =
     (let g = upd_faction faction_id (\<lambda>f. f\<lparr>f_diplo_friction := (f_diplo_friction f)(faction_id_with :=
                clamp (f_diplo_friction f faction_id_with + friction) 0 20)\<rparr>) g
      in if DiploFrictionFactionID g = faction_id \<and> DiploFrictionFactionIDWith g = faction_id_with
         then g\<lparr>DiploFriction := clamp (DiploFriction g + friction) 0 20\<rparr> else g)"

definition get_mood :: "int \<Rightarrow> int" where
  "get_mood friction =
     (if friction \<le> 0 then MOOD_MAGNANIMOUS else if friction \<le> 2 then MOOD_SOLICITOUS
      else if friction \<le> 4 then MOOD_COOPERATIVE else if friction \<le> 8 then MOOD_NONCOMMITTAL
      else if friction \<le> 12 then MOOD_AMBIVALENT else if friction \<le> 15 then MOOD_OBSTINATE
      else if friction \<le> 17 then MOOD_QUARRELSOME else of_bool (friction > 19) + MOOD_BELLIGERENT)"

definition reputation :: "game \<Rightarrow> int \<Rightarrow> int \<Rightarrow> int" where
  "reputation g faction_id faction_id_with =
     clamp (f_integrity_blemishes (Factions g faction_id) - f_diplo_gifts (Factions g faction_id) faction_id_with) 0 99"

definition get_patience :: "game \<Rightarrow> int \<Rightarrow> int \<Rightarrow> int" where
  "get_patience g faction_id_with faction_id =
     (if treaty g faction_id faction_id_with DIPLO_VENDETTA then 1
      else if treaty g faction_id faction_id_with DIPLO_PACT
      then (if treaty g faction_id faction_id_with DIPLO_HAVE_SURRENDERED then 500 else 6)
      else of_bool (treaty g faction_id faction_id_with DIPLO_TREATY) - ((DiploFriction g + 3) sdiv 8) + 3)"

function energy_loop :: "int \<Rightarrow> int \<Rightarrow> int \<Rightarrow> int \<Rightarrow> int" where
  "energy_loop goodwill divisor weight energy =
     (if energy > 0 \<and> weight > 0
      then energy_loop (goodwill + (if energy > weight then weight else energy) sdiv divisor) (divisor + 1) 20 (energy - weight)
      else goodwill)"
  by pat_completeness auto
termination by (relation "measure (\<lambda>(gw, d, w, e). nat e)") auto

declare energy_loop.simps [simp del]

text \<open>\<open>weight\<close> is 10 in the first round and 20 afterwards, so the test \<open>weight >= 0\<close> always holds.\<close>

definition energy_value :: "int \<Rightarrow> int" where
  "energy_value loan_principal = (energy_loop 0 2 10 (loan_principal sdiv 5) + 4) sdiv 5"

subsection \<open>The council and the end of the game\<close>

definition council_votes :: "game \<Rightarrow> int \<Rightarrow> int" where
  "council_votes g faction_id =
     (if is_alien g faction_id then 0
      else let votes = sum_list (map (\<lambda>i. if base_faction_id (Bases g i) = faction_id then base_pop_size (Bases g i) else 0)
                 [0..BaseCount g - 1]);
               votes = (if has_project g FAC_EMPATH_GUILD faction_id then votes + votes sdiv 2 else votes);
               votes = (if has_project g FAC_CLINICAL_IMMORTALITY faction_id then votes * 2 else votes);
               m = MFactions g faction_id
        in fold (\<lambda>i votes. if mf_faction_bonus_id m i = RULE_VOTES \<and> mf_faction_bonus_val1 m i \<ge> 0
               then votes * mf_faction_bonus_val1 m i else votes) [0..mf_faction_bonus_count m - 1] votes)"

definition eligible :: "game \<Rightarrow> int \<Rightarrow> bool" where
  "eligible g faction_id =
     (if is_alien g faction_id then False
      else let votes = council_votes g faction_id in
        length (filter (\<lambda>i. faction_id \<noteq> i \<and> is_alive g i \<and> council_votes g i > votes) [1..MaxPlayerNum - 1]) < 2)"

definition great_beelzebub :: "game \<Rightarrow> int \<Rightarrow> bool \<Rightarrow> bool" where
  "great_beelzebub g faction_id is_aggressive =
     (if is_human g faction_id \<and> FactionRankings g 7 = faction_id
      then let bases_threat = max 4 ((CurrentTurn g + 25) sdiv 50); f = Factions g faction_id in
        f_base_count f > bases_threat
        \<and> (f_diff_level f > DIFF_SPECIALIST \<or> GameRules g AND RULES_INTENSE_RIVALRY \<noteq> 0 \<or> is_aggressive)
      else False)"

definition climactic_battle :: "game \<Rightarrow> bool" where
  "climactic_battle g \<longleftrightarrow>
     list_ex (\<lambda>i. is_human g i \<and> f_corner_market_turn (Factions g i) > CurrentTurn g) [1..MaxPlayerNum - 1]
     \<or> (voice_of_planet g \<and> list_ex (\<lambda>i. is_human g i
          \<and> (has_tech g (cfac_preq_tech (Facility g FAC_PSI_GATE)) i
             \<or> has_tech g (cfac_preq_tech (Facility g FAC_VOICE_OF_PLANET)) i)) [1..MaxPlayerNum - 1])"

definition aah_ooga :: "game \<Rightarrow> int \<Rightarrow> int \<Rightarrow> int" where
  "aah_ooga g faction_id pact_faction_id =
     (if \<not> GameRules g AND RULES_VICTORY_DIPLOMATIC \<noteq> 0 then 0
      else let votes_total = sum_list (map (council_votes g) [1..MaxPlayerNum - 1]);
               proposal_preq = cprop_preq_tech (Proposal g PROP_UNITE_SUPREME_LEADER)
        in fold (\<lambda>i value.
             if i \<noteq> pact_faction_id
                \<and> (pact_faction_id \<le> 0 \<or> \<not> treaty g i pact_faction_id DIPLO_PACT
                   \<or> \<not> (GameRules g AND RULES_VICTORY_COOPERATIVE \<noteq> 0))
                \<and> (has_tech g proposal_preq faction_id
                   \<or> (proposal_preq \<ge> 0 \<and> (has_tech g (ctech_preq_tech1 (Tech g proposal_preq)) faction_id
                        \<or> has_tech g (ctech_preq_tech2 (Tech g proposal_preq)) faction_id)))
                \<and> council_votes g i * 2 \<ge> votes_total \<and> (value = 0 \<or> i = faction_id)
             then i else value) [1..MaxPlayerNum - 1] 0)"

definition great_satan :: "game \<Rightarrow> int \<Rightarrow> bool \<Rightarrow> bool" where
  "great_satan g faction_id is_aggressive =
     (if great_beelzebub g faction_id is_aggressive
      then let intense_rivalry = (GameRules g AND RULES_INTENSE_RIVALRY \<noteq> 0); f = Factions g faction_id in
        if CurrentTurn g \<le> (if intense_rivalry then 0 else (DIFF_TRANSCEND - f_diff_level f) * 50) + 100 then False
        else if climactic_battle g \<and> aah_ooga g faction_id (- 1) = faction_id then True
        else let (factor, diff_factor) =
               (if intense_rivalry then (4, DIFF_TRANSCEND)
                else if f_diff_level f \<ge> DIFF_LIBRARIAN \<or> GameRules g AND RULES_VICTORY_CONQUEST \<noteq> 0
                  \<or> ObjectiveReqVictory g \<le> 1000 then (2, DIFF_LIBRARIAN)
                else (1, DIFF_TALENT))
          in factor * FactionRankingsUnk g (FactionRankings g 7) \<ge> diff_factor * FactionRankingsUnk g (FactionRankings g 6)
      else False)"

definition at_climax :: "game \<Rightarrow> int \<Rightarrow> bool" where
  "at_climax g faction_id =
     (if is_human g faction_id \<or> GameState g AND STATE_GAME_DONE \<noteq> 0 \<or> DiffLevel g = DIFF_CITIZEN
         \<or> \<not> climactic_battle g then False
      else if aah_ooga g faction_id faction_id \<noteq> 0 then True
      else if list_ex (\<lambda>i. i \<noteq> faction_id \<and> f_corner_market_turn (Factions g faction_id) > CurrentTurn g
             \<and> (\<not> treaty g faction_id i DIPLO_PACT \<or> \<not> (GameRules g AND RULES_VICTORY_COOPERATIVE \<noteq> 0)))
           [1..MaxPlayerNum - 1] then True
      else let (own, them) = fold (\<lambda>i (own, them).
             (let b = Bases g i; min_accum = base_minerals_accumulated b in
              if base_queue_items b 0 = - FAC_ASCENT_TO_TRANSCENDENCE
              then (if base_faction_id b = faction_id
                    then (if own \<le> min_accum then min_accum else own, them)
                    else (own, if them \<le> min_accum then min_accum else them))
              else (own, them))) [0..BaseCount g - 1] (0, 0)
        in them \<noteq> 0 \<and> them > own)"

definition spying :: "game \<Rightarrow> int \<Rightarrow> bool" where
  "spying g faction_id \<longleftrightarrow> treaty g (MapWin_cOwner g) faction_id DIPLO_HAVE_INFILTRATOR
     \<or> has_project g FAC_EMPATH_GUILD (MapWin_cOwner g)
     \<or> (MapWin_cOwner g = GovernorFaction g
        \<and> \<not> (mf_rule_flags (MFactions g faction_id) AND RFLAG_ALIEN \<noteq> 0))"

subsection \<open>Atrocities and betrayals\<close>

text \<open>The Boolean is the outcome of the random test, the state of the generator is threaded through.\<close>

definition atrocity_outrage ::
    "('s \<Rightarrow> 's \<times> int) \<Rightarrow> int \<Rightarrow> int \<Rightarrow> game \<Rightarrow> 's \<Rightarrow> 's \<times> bool" where
  "atrocity_outrage game_rand faction_id i g s =
     (if treaty g i faction_id DIPLO_WANT_REVENGE then (s, True)
      else if great_satan g faction_id False
      then (let (s, v) = game_randv game_rand s 16 in (s, v \<le> f_atrocities (Factions g faction_id) + 8))
      else (let val = (if GameRules g AND RULES_INTENSE_RIVALRY \<noteq> 0 then 5 else DiffLevel g);
                (s, v) = game_randv game_rand s (2 * (8 - val))
            in (s, v = 0)))"

definition upd_merc :: "int \<Rightarrow> int \<Rightarrow> game \<Rightarrow> game" where
  "upd_merc i j = upd_faction i (\<lambda>f. f\<lparr>f_diplo_merc := (f_diplo_merc f)(j := 50)\<rparr>)"

text \<open>One round of the loop of \<open>atrocity\<close> over the other factions.\<close>

definition atrocity_witness ::
    "('s \<Rightarrow> 's \<times> int) \<Rightarrow> int \<Rightarrow> int \<Rightarrow> bool \<Rightarrow> bool \<Rightarrow> int \<Rightarrow> game \<times> 's \<Rightarrow> game \<times> 's" where
  "atrocity_witness game_rand faction_id faction_id_tgt skip_human_check prev_victim i = (\<lambda>(g, s).
     let alien = (\<lambda>j. mf_rule_flags (MFactions g j) AND RFLAG_ALIEN \<noteq> 0) in
     if i \<noteq> faction_id \<and> i \<noteq> faction_id_tgt \<and> treaty g i faction_id DIPLO_COMMLINK
        \<and> (\<not> ExpansionEnabled g \<or> \<not> skip_human_check \<or> alien faction_id \<or> \<not> alien i)
     then let (g, s) =
            (if treaty g i faction_id DIPLO_UNK_200000
             then let g = cause_friction i faction_id 5 g in
               if \<not> is_human g i \<and> is_human g faction_id \<and> \<not> prev_victim
                  \<and> treaty g faction_id i DIPLO_COMMLINK \<and> \<not> treaty g faction_id i (DIPLO_VENDETTA OR DIPLO_PACT)
               then let (s, toggle) = atrocity_outrage game_rand faction_id i g s in
                 if toggle
                 then (upd_merc i faction_id (upd_status i faction_id (\<lambda>w. w OR DIPLO_UNK_40)
                         (treaty_on faction_id i DIPLO_VENDETTA g)), s)
                 else (g, s)
               else (g, s)
             else (g, s))
       in if \<not> treaty g i faction_id DIPLO_VENDETTA then (treaty_on i faction_id DIPLO_UNK_400000 g, s) else (g, s)
     else (g, s))"

definition major_atrocity_vs ::
    "(int \<Rightarrow> int \<Rightarrow> game \<Rightarrow> game) \<Rightarrow> int \<Rightarrow> int \<Rightarrow> int \<Rightarrow> game \<Rightarrow> game" where
  "major_atrocity_vs pact_ends faction_id faction_id_tgt i g =
     (if i \<noteq> faction_id \<and> i \<noteq> faction_id_tgt \<and> \<not> is_human g i \<and> is_alive g i
         \<and> \<not> treaty g faction_id i DIPLO_VENDETTA
      then let g = (if treaty g faction_id i DIPLO_PACT then pact_ends faction_id i g else g);
               g = treaty_on i faction_id (DIPLO_VENDETTA OR DIPLO_COMMLINK) g;
               g = upd_merc i faction_id (upd_status i faction_id (\<lambda>w. w OR DIPLO_UNK_40) g)
        in upd_faction faction_id (\<lambda>f. f\<lparr>f_diplo_spoke := (f_diplo_spoke f)(i := CurrentTurn g)\<rparr>) g
      else g)"

definition major_atrocity ::
    "(int \<Rightarrow> int \<Rightarrow> game \<Rightarrow> game) \<Rightarrow> int \<Rightarrow> int \<Rightarrow> game \<Rightarrow> game" where
  "major_atrocity pact_ends faction_id faction_id_tgt g =
     (let g = (if faction_id_tgt \<ge> 0
               then set_agenda faction_id_tgt faction_id AGENDA_UNK_4 True
                 (set_treaty faction_id_tgt faction_id
                    (DIPLO_MAJOR_ATROCITY_VICTIM OR DIPLO_ATROCITY_VICTIM OR DIPLO_WANT_REVENGE) True g)
               else g)
      in if un_charter g
         then let g = (if faction_id_tgt < 0
                       then upd_faction faction_id (\<lambda>f. f\<lparr>f_integrity_blemishes := f_integrity_blemishes f + 2\<rparr>) g
                       else if \<not> treaty g faction_id faction_id_tgt DIPLO_MAJOR_ATROCITY_VICTIM
                       then upd_faction faction_id (\<lambda>f. f\<lparr>f_integrity_blemishes :=
                              clamp (f_integrity_blemishes f + 2) 6 99\<rparr>) g
                       else g);
                  g = upd_faction faction_id (\<lambda>f. f\<lparr>f_major_atrocities := f_major_atrocities f + 1\<rparr>) g
           in fold (major_atrocity_vs pact_ends faction_id faction_id_tgt) [1..MaxPlayerNum - 1] g
         else g)"

text \<open>Sanctions after the loop: a minor atrocity is punished in turns, beyond the limit it counts as major.\<close>

definition atrocity_sanction ::
    "(int \<Rightarrow> int \<Rightarrow> game \<Rightarrow> game) \<Rightarrow> int \<Rightarrow> int \<Rightarrow> bool \<Rightarrow> bool \<Rightarrow> game \<Rightarrow> game" where
  "atrocity_sanction pact_ends faction_id faction_id_tgt skip_init_check prev_victim g =
     (let g = (if skip_init_check \<or> f_atrocities (Factions g faction_id) = 0
               then let g = upd_faction faction_id (\<lambda>f. f\<lparr>f_atrocities := f_atrocities f + 1\<rparr>) g in
                 if \<not> treaty g faction_id faction_id_tgt DIPLO_ATROCITY_VICTIM
                 then upd_faction faction_id (\<lambda>f. f\<lparr>f_integrity_blemishes := f_integrity_blemishes f + 1\<rparr>) g
                 else g
               else g);
          plr = Factions g faction_id
      in if f_atrocities plr \<le> 4 * (8 - f_diff_level plr)
         then let turns = 10 * f_atrocities plr;
                  g = (if is_human g faction_id \<and> \<not> is_human g faction_id_tgt \<and> \<not> prev_victim \<and> f_atrocities plr \<ge> 5
                       then upd_faction faction_id_tgt (\<lambda>f. f\<lparr>f_player_flags :=
                              f_player_flags f OR PFLAG_COMMIT_ATROCITIES_WANTONLY\<rparr>) g
                       else g)
           in upd_faction faction_id (\<lambda>f. f\<lparr>f_sanction_turns := f_sanction_turns f + turns\<rparr>) g
         else major_atrocity pact_ends faction_id faction_id_tgt g)"

definition atrocity ::
    "(int \<Rightarrow> int \<Rightarrow> game \<Rightarrow> game) \<Rightarrow> ('s \<Rightarrow> 's \<times> int) \<Rightarrow> int \<Rightarrow> int \<Rightarrow> bool \<Rightarrow> bool \<Rightarrow> game \<times> 's \<Rightarrow> game \<times> 's" where
  "atrocity pact_ends game_rand faction_id faction_id_tgt skip_init_check skip_human_check = (\<lambda>(g, s).
     let prev_victim = treaty g faction_id_tgt faction_id DIPLO_ATROCITY_VICTIM;
         g = set_treaty faction_id_tgt faction_id (DIPLO_ATROCITY_VICTIM OR DIPLO_WANT_REVENGE) True g;
         g = set_agenda faction_id_tgt faction_id AGENDA_UNK_4 True g;
         alien = (\<lambda>j. mf_rule_flags (MFactions g j) AND RFLAG_ALIEN \<noteq> 0)
     in if un_charter g \<and> \<not> SunspotDuration g > 0
          \<and> (\<not> ExpansionEnabled g \<or> skip_human_check \<or> (\<not> alien faction_id \<and> \<not> alien faction_id_tgt))
        then let (g, s) = fold (atrocity_witness game_rand faction_id faction_id_tgt skip_human_check prev_victim)
                   [1..MaxPlayerNum - 1] (g, s)
          in (atrocity_sanction pact_ends faction_id faction_id_tgt skip_init_check prev_victim g, s)
        else (g, s))"

definition intervention :: "int \<Rightarrow> int \<Rightarrow> game \<Rightarrow> game" where
  "intervention faction_id_def faction_id_atk g =
     fold (\<lambda>i g.
        if i \<noteq> faction_id_def \<and> i \<noteq> faction_id_atk \<and> is_alive g i
           \<and> f_diplo_status (Factions g i) faction_id_def AND DIPLO_PACT \<noteq> 0
           \<and> \<not> (f_diplo_status (Factions g i) faction_id_atk AND (DIPLO_VENDETTA OR DIPLO_PACT) \<noteq> 0)
           \<and> (is_human g faction_id_atk \<or> is_human g faction_id_def)
        then let g = (if is_human g faction_id_atk
                      then upd_faction faction_id_atk (\<lambda>f. f\<lparr>f_diplo_spoke := (f_diplo_spoke f)(i := CurrentTurn g)\<rparr>) g
                      else g)
          in set_treaty i faction_id_atk DIPLO_UNK_40 True
               (treaty_on i faction_id_atk (DIPLO_UNK_80000000 OR DIPLO_VENDETTA OR DIPLO_COMMLINK) g)
        else g) [1..MaxPlayerNum - 1] g"

subsection \<open>Breaking a treaty by attack\<close>

definition blemish :: "int \<Rightarrow> game \<Rightarrow> game" where
  "blemish i = upd_faction i (\<lambda>f. f\<lparr>f_integrity_blemishes := f_integrity_blemishes f + 1\<rparr>)"

definition lose_reputation :: "int \<Rightarrow> game \<Rightarrow> game" where
  "lose_reputation i = upd_faction i (\<lambda>f. f\<lparr>f_diplo_reputation := max 0 (f_diplo_reputation f - 1)\<rparr>)"

definition add_betrayed :: "int \<Rightarrow> int \<Rightarrow> game \<Rightarrow> game" where
  "add_betrayed i j = upd_faction i (\<lambda>f. f\<lparr>f_diplo_betrayed := (f_diplo_betrayed f)(j := f_diplo_betrayed f j + 1)\<rparr>)"

definition add_wrong :: "int \<Rightarrow> int \<Rightarrow> game \<Rightarrow> game" where
  "add_wrong i j = upd_faction i (\<lambda>f. f\<lparr>f_diplo_wrongs := (f_diplo_wrongs f)(j := f_diplo_wrongs f j + 1)\<rparr>)"

text \<open>The victim's memory of a betrayal by a human player, the same statements in both cases.\<close>

definition vow_revenge :: "int \<Rightarrow> int \<Rightarrow> game \<Rightarrow> game" where
  "vow_revenge faction_id_def faction_id_atk g =
     (if is_human g faction_id_atk
      then let g = (if agenda g faction_id_def faction_id_atk AGENDA_UNK_400
                    then set_agenda faction_id_def faction_id_atk AGENDA_UNK_800 True g else g);
               g = (if treaty g faction_id_def faction_id_atk DIPLO_WANT_REVENGE
                    then set_agenda faction_id_def faction_id_atk AGENDA_UNK_400 True g else g)
        in set_treaty faction_id_def faction_id_atk DIPLO_WANT_REVENGE True g
      else g)"

text \<open>Whether the attack on one faction at the wish of another is covered by a closer treaty.\<close>

definition cross_allowed :: "game \<Rightarrow> int \<Rightarrow> int \<Rightarrow> int \<Rightarrow> bool" where
  "cross_allowed g atk def other =
     (other \<ge> 0 \<and>
      (if treaty g atk other DIPLO_PACT then \<not> treaty g atk def DIPLO_PACT
       else if \<not> treaty g atk other DIPLO_TREATY
       then treaty g atk other DIPLO_TRUCE \<and> \<not> treaty g atk def DIPLO_TRUCE
       else \<not> treaty g atk def DIPLO_TREATY))"

definition cross_pact :: "int \<Rightarrow> int \<Rightarrow> int \<Rightarrow> bool \<Rightarrow> bool \<Rightarrow> game \<Rightarrow> game" where
  "cross_pact atk def other is_victim is_allowed g =
     (if \<not> agenda g atk def AGENDA_UNK_20
      then let g = lose_reputation atk g;
               g = (if f_diff_level (Factions g atk) \<noteq> 0 \<and> \<not> is_victim \<and> \<not> is_allowed
                    then add_betrayed def atk (blemish atk g) else g);
               g = (if other \<ge> 0 then cause_friction other atk (- 4) g
                    else add_betrayed def atk (add_wrong atk def (if \<not> is_victim then blemish atk g else g)))
        in vow_revenge def atk g
      else g)"

definition cross_treaty :: "int \<Rightarrow> int \<Rightarrow> int \<Rightarrow> bool \<Rightarrow> bool \<Rightarrow> game \<Rightarrow> game" where
  "cross_treaty atk def other is_victim is_allowed g =
     (if \<not> agenda g atk def AGENDA_UNK_20
      then let has_truce = treaty g atk def (DIPLO_TRUCE OR DIPLO_TREATY);
               g = (if has_truce
                    then let g = (if \<not> treaty g atk def DIPLO_UNK_10000
                                  then let g = lose_reputation atk g in
                                    if (great_satan g atk False
                                        \<or> (f_ranking (Factions g atk) \<ge> 6 \<and> f_ranking (Factions g def) \<le> 4))
                                       \<and> other < 0 \<and> \<not> is_victim
                                    then add_betrayed def atk (blemish atk g) else g
                                  else g);
                             g = (if f_diff_level (Factions g atk) \<noteq> 0 \<and> \<not> is_victim \<and> \<not> is_allowed
                                  then add_betrayed def atk (blemish atk g) else g)
                      in if other < 0 then add_wrong atk def g else g
                    else g)
        in if has_truce \<or> other \<ge> 0
           then let g = vow_revenge def atk g in if other \<ge> 0 then cause_friction other atk (- 2) g else g
           else g
      else g)"

definition double_cross :: "(int \<Rightarrow> int \<Rightarrow> game \<Rightarrow> game) \<Rightarrow> int \<Rightarrow> int \<Rightarrow> int \<Rightarrow> game \<Rightarrow> game" where
  "double_cross pact_ends atk def other g =
     (let g = upd_faction def (\<lambda>f. f\<lparr>f_loan_balance := (f_loan_balance f)(atk := 0)\<rparr>) g;
          is_victim = (treaty g atk def DIPLO_ATROCITY_VICTIM \<or> f_major_atrocities (Factions g def) \<noteq> 0);
          is_allowed = cross_allowed g atk def other;
          g = (if other \<ge> 0
               then upd_faction atk (\<lambda>f. f\<lparr>f_diplo_gifts := (f_diplo_gifts f)(other := f_diplo_gifts f other + 1)\<rparr>) g
               else g)
      in if treaty g atk def DIPLO_PACT
         then treaty_on atk def DIPLO_VENDETTA (pact_ends atk def (cross_pact atk def other is_victim is_allowed g))
         else let g = treaty_on atk def DIPLO_VENDETTA (cross_treaty atk def other is_victim is_allowed g) in
           if \<not> agenda g atk def AGENDA_UNK_20
           then let g = (if is_human g atk \<noteq> is_human g def
                         then upd_faction atk (\<lambda>f. f\<lparr>f_diplo_spoke := (f_diplo_spoke f)(def := CurrentTurn g)\<rparr>)
                                (set_treaty atk def DIPLO_UNK_40 True g)
                         else g)
             in intervention def atk g
           else g)"

definition act_of_aggression :: "(int \<Rightarrow> int \<Rightarrow> game \<Rightarrow> game) \<Rightarrow> int \<Rightarrow> int \<Rightarrow> game \<Rightarrow> game \<times> int" where
  "act_of_aggression pact_ends atk def g =
     (let (g, value) = (if treaty g def atk (DIPLO_TRUCE OR DIPLO_TREATY OR DIPLO_PACT)
                        then (double_cross pact_ends atk def (- 1) g, 1) else (g, 0))
      in (treaty_on atk def (DIPLO_UNK_8000 OR DIPLO_VENDETTA) g, value))"

subsection \<open>What the primitive operations do to one status word\<close>

text \<open>The treaty bits of a status word: pact, treaty, truce (bits 0 to 2) and vendetta (bit 4).\<close>

abbreviation st :: "game \<Rightarrow> int \<Rightarrow> int \<Rightarrow> u32" where
  "st g i j \<equiv> f_diplo_status (Factions g i) j"

lemma treaty_bit_simps [bit_facts]:
  "(w::u32) AND DIPLO_PACT = 0 \<longleftrightarrow> \<not> bit w 0" "w AND DIPLO_TREATY = 0 \<longleftrightarrow> \<not> bit w 1"
  "w AND DIPLO_TRUCE = 0 \<longleftrightarrow> \<not> bit w 2" "w AND DIPLO_VENDETTA = 0 \<longleftrightarrow> \<not> bit w 4"
  using and_exp_eq_0_iff_not_bit [of w 0] and_exp_eq_0_iff_not_bit [of w 1]
    and_exp_eq_0_iff_not_bit [of w 2] and_exp_eq_0_iff_not_bit [of w 4] by simp_all

lemma and_or_zero: "(w::u32) AND (a OR b) = 0 \<longleftrightarrow> w AND a = 0 \<and> w AND b = 0"
  by (metis (no_types, opaque_lifting) bit.conj_disj_distrib or_eq_0_iff)

lemma peace_bits [bit_facts]:
  "(w::u32) AND (DIPLO_TRUCE OR DIPLO_TREATY OR DIPLO_PACT) = 0 \<longleftrightarrow> \<not> bit w 0 \<and> \<not> bit w 1 \<and> \<not> bit w 2"
  unfolding and_or_zero treaty_bit_simps by blast

lemma both_status_st:
  "a \<noteq> b \<Longrightarrow> st (both_status i j h g) a b = (if (a = i \<and> b = j) \<or> (a = j \<and> b = i) then h (st g a b) else st g a b)"
  by (auto simp: both_status_def upd_status_def)

lemma upd_status_st:
  "st (upd_status i j h g) a b = (if a = i \<and> b = j then h (st g a b) else st g a b)"
  by (auto simp: upd_status_def)

lemma st_unchanged [simp]:
  "st (both_agenda i j h g) a b = st g a b" "st (upd_agenda i j h g) a b = st g a b"
  "st (reset_unk_4 i j g) a b = st g a b" "st (g\<lparr>dword_74DA9C := w\<rparr>) a b = st g a b"
  "st (upd_merc i j g) a b = st g a b" "st (blemish i g) a b = st g a b"
  "st (lose_reputation i g) a b = st g a b" "st (add_betrayed i j g) a b = st g a b"
  "st (add_wrong i j g) a b = st g a b" "st (probe_renew_set i j t g) a b = st g a b"
  "st (cause_friction i j v g) a b = st g a b"
  "st (set_agenda i j s add g) a b = st g a b"
  by (auto simp: both_agenda_def upd_agenda_def reset_unk_4_def upd_merc_def blemish_def lose_reputation_def
      add_betrayed_def add_wrong_def probe_renew_set_def cause_friction_def set_agenda_def Let_def)

definition treaty_on_word :: "u32 \<Rightarrow> u32 \<Rightarrow> u32" where
  "treaty_on_word status w =
     (let peace = (bit status 0 \<or> bit status 1 \<or> bit status 2); fight = bit status 4;
          w = (if peace then w AND NOT DiploExcludeTruce else w);
          w = (if fight then w AND NOT DiploExcludeFight else w);
          w = (if peace \<or> fight then w AND NOT DIPLO_UNK_800000 else w);
          s = (if bit status 0 then status OR DIPLO_TREATY else status)
      in w OR (if fight then s OR (DIPLO_UNK_80000000 OR DIPLO_UNK_100 OR DIPLO_COMMLINK) else s))"

definition treaty_off_word :: "u32 \<Rightarrow> u32 \<Rightarrow> u32" where
  "treaty_off_word status w =
     (let s = (if bit status 0 \<or> bit status 1 \<or> bit status 2
               then status OR (DIPLO_UNK_1000000 OR DIPLO_UNK_100000) else status)
      in w AND NOT (if bit status 4 then s OR (DIPLO_UNK_8000 OR DIPLO_UNK_40) else s))"

lemma bit_or_const:
  "bit ((s::u32) OR (DIPLO_UNK_80000000 OR DIPLO_UNK_100 OR DIPLO_COMMLINK)) 0 = bit s 0"
  "bit (s OR (DIPLO_UNK_80000000 OR DIPLO_UNK_100 OR DIPLO_COMMLINK)) 1 = bit s 1"
  "bit (s OR (DIPLO_UNK_80000000 OR DIPLO_UNK_100 OR DIPLO_COMMLINK)) 2 = bit s 2"
  "bit (s OR (DIPLO_UNK_80000000 OR DIPLO_UNK_100 OR DIPLO_COMMLINK)) 4 = bit s 4"
  "bit (s OR DIPLO_TREATY) 0 = bit s 0" "bit (s OR DIPLO_TREATY) 1"
  "bit (s OR DIPLO_TREATY) 2 = bit s 2" "bit (s OR DIPLO_TREATY) 4 = bit s 4"
  "bit (s OR (DIPLO_UNK_1000000 OR DIPLO_UNK_100000)) 4 = bit s 4"
  by (simp_all add: bit_simps)

lemma group_bits [bit_facts]:
  "(w::u32) AND (DIPLO_VENDETTA OR DIPLO_TRUCE OR DIPLO_TREATY OR DIPLO_PACT) = 0
     \<longleftrightarrow> \<not> bit w 0 \<and> \<not> bit w 1 \<and> \<not> bit w 2 \<and> \<not> bit w 4"
  unfolding and_or_zero treaty_bit_simps by blast

lemma treaty_on_st:
  assumes "a \<noteq> b"
  shows "st (treaty_on i j s g) a b =
    (if valid_pair i j \<and> ((a = i \<and> b = j) \<or> (a = j \<and> b = i)) then treaty_on_word s (st g a b) else st g a b)"
proof (cases "valid_pair i j")
  case True
  show ?thesis
    unfolding treaty_on_def Let_def treaty_on_word_def peace_bits group_bits treaty_bit_simps
    using True assms
    by (cases "bit s 0"; cases "bit s 1"; cases "bit s 2"; cases "bit s 4")
      (simp_all only: bit_or_const simp_thms if_True if_False both_status_st st_unchanged not_False_eq_True if_distrib [of "\<lambda>g. st g a b"] cong: if_cong, auto?)
qed (simp add: treaty_on_def)

lemma treaty_off_st:
  assumes "a \<noteq> b"
  shows "st (treaty_off i j s g) a b =
    (if (a = i \<and> b = j) \<or> (a = j \<and> b = i) then treaty_off_word s (st g a b) else st g a b)"
  unfolding treaty_off_def Let_def treaty_off_word_def peace_bits treaty_bit_simps
  using assms
  by (cases "bit s 0"; cases "bit s 1"; cases "bit s 2"; cases "bit s 4")
    (simp_all only: bit_or_const simp_thms if_True if_False both_status_st st_unchanged not_False_eq_True
      if_distrib [of "\<lambda>g. st g a b"] cong: if_cong, auto?)

lemma set_treaty_st:
  "st (set_treaty i j s add g) a b =
    (if valid_pair i j \<and> a = i \<and> b = j then (if add then st g a b OR s else st g a b AND NOT s) else st g a b)"
  by (auto simp: set_treaty_def Let_def upd_status_st)

lemma on_word_bits:
  "bit (treaty_on_word s w) 0 = (bit s 0 \<or> (bit w 0 \<and> \<not> bit s 4))"
  "bit (treaty_on_word s w) 1 = (bit s 0 \<or> bit s 1 \<or> (bit w 1 \<and> \<not> bit s 4))"
  "bit (treaty_on_word s w) 2 = (bit s 2 \<or> (bit w 2 \<and> \<not> bit s 4))"
  "bit (treaty_on_word s w) 3 = (bit s 3 \<or> bit s 4 \<or> bit w 3)"
  "bit (treaty_on_word s w) 4 = (bit s 4 \<or> (bit w 4 \<and> \<not> (bit s 0 \<or> bit s 1 \<or> bit s 2)))"
  by (auto simp: treaty_on_word_def Let_def DiploExcludeTruce_def DiploExcludeFight_def bit_simps)

lemma off_word_bits:
  "bit (treaty_off_word s w) 0 = (bit w 0 \<and> \<not> bit s 0)" "bit (treaty_off_word s w) 1 = (bit w 1 \<and> \<not> bit s 1)"
  "bit (treaty_off_word s w) 2 = (bit w 2 \<and> \<not> bit s 2)" "bit (treaty_off_word s w) 4 = (bit w 4 \<and> \<not> bit s 4)"
  by (auto simp: treaty_off_word_def Let_def bit_simps)

subsection \<open>Consistent diplomacy\<close>

text \<open>A status word is consistent when vendetta excludes the three treaties; the relations of the eight
  factions are consistent when every word is and the two words of a pair agree on the treaty bits.\<close>

definition word_ok :: "u32 \<Rightarrow> bool" where
  "word_ok w \<longleftrightarrow> \<not> (bit w 4 \<and> (bit w 0 \<or> bit w 1 \<or> bit w 2))"

definition same_treaty :: "u32 \<Rightarrow> u32 \<Rightarrow> bool" where
  "same_treaty v w \<longleftrightarrow> (bit v 0 = bit w 0) \<and> (bit v 1 = bit w 1) \<and> (bit v 2 = bit w 2) \<and> (bit v 4 = bit w 4)"

definition diplo_ok :: "game \<Rightarrow> bool" where
  "diplo_ok g \<longleftrightarrow> (\<forall>i j. i \<noteq> j \<longrightarrow> word_ok (st g i j) \<and> same_treaty (st g i j) (st g j i))"

text \<open>The primitive diplomatic events. A step of the game is a sequence of them; marks are the status
  bits outside the treaty group, which may differ between the two sides.\<close>

inductive diplo_event :: "game \<Rightarrow> game \<Rightarrow> bool" where
  made: "word_ok s \<Longrightarrow> diplo_event g (treaty_on i j s g)"
| ended: "diplo_event g (treaty_off i j s g)"
| marked: "s AND (DIPLO_VENDETTA OR DIPLO_TRUCE OR DIPLO_TREATY OR DIPLO_PACT) = 0
    \<Longrightarrow> diplo_event g (upd_status i j (\<lambda>w. w OR s) g)"
| other: "(\<And>a b. st g' a b = st g a b) \<Longrightarrow> diplo_event g g'"

lemma word_ok_preserved:
  "word_ok s \<Longrightarrow> word_ok w \<Longrightarrow> word_ok (treaty_on_word s w)"
  "word_ok w \<Longrightarrow> word_ok (treaty_off_word s w)"
  "s AND (DIPLO_VENDETTA OR DIPLO_TRUCE OR DIPLO_TREATY OR DIPLO_PACT) = 0 \<Longrightarrow> word_ok w \<Longrightarrow> word_ok (w OR s)"
  unfolding word_ok_def on_word_bits off_word_bits group_bits bit_or_iff by argo+

lemma same_treaty_preserved:
  "same_treaty v w \<Longrightarrow> same_treaty (treaty_on_word s v) (treaty_on_word s w)"
  "same_treaty v w \<Longrightarrow> same_treaty (treaty_off_word s v) (treaty_off_word s w)"
  "s AND (DIPLO_VENDETTA OR DIPLO_TRUCE OR DIPLO_TREATY OR DIPLO_PACT) = 0 \<Longrightarrow> same_treaty (w OR s) v = same_treaty w v"
  "s AND (DIPLO_VENDETTA OR DIPLO_TRUCE OR DIPLO_TREATY OR DIPLO_PACT) = 0 \<Longrightarrow> same_treaty v (w OR s) = same_treaty v w"
  unfolding same_treaty_def on_word_bits off_word_bits group_bits bit_or_iff by argo+

lemma diplo_event_ok:
  assumes "diplo_event g g'" "diplo_ok g"
  shows "diplo_ok g'"
  using assms
proof (induction rule: diplo_event.induct)
  case (made s g i j)
  have "word_ok (st (treaty_on i j s g) a b) \<and> same_treaty (st (treaty_on i j s g) a b) (st (treaty_on i j s g) b a)"
    if "a \<noteq> b" for a b
    using made that
    by (cases "valid_pair i j \<and> ((a = i \<and> b = j) \<or> (a = j \<and> b = i))")
      (auto simp: diplo_ok_def treaty_on_st word_ok_preserved same_treaty_preserved)
  then show ?case by (simp add: diplo_ok_def)
next
  case (ended g i j s)
  have "word_ok (st (treaty_off i j s g) a b) \<and> same_treaty (st (treaty_off i j s g) a b) (st (treaty_off i j s g) b a)"
    if "a \<noteq> b" for a b
    using ended that
    by (cases "(a = i \<and> b = j) \<or> (a = j \<and> b = i)")
      (auto simp: diplo_ok_def treaty_off_st word_ok_preserved same_treaty_preserved)
  then show ?case by (simp add: diplo_ok_def)
next
  case (marked s g i j)
  then show ?case
    by (simp add: diplo_ok_def upd_status_st word_ok_preserved same_treaty_preserved)
next
  case (other g' g)
  then show ?case by (simp add: diplo_ok_def)
qed

abbreviation diplo_run :: "game \<Rightarrow> game \<Rightarrow> bool" where
  "diplo_run \<equiv> diplo_event\<^sup>*\<^sup>*"

lemma diplo_run_ok: "diplo_run g g' \<Longrightarrow> diplo_ok g \<Longrightarrow> diplo_ok g'"
  by (induction rule: rtranclp_induct) (auto intro: diplo_event_ok)

lemma diplo_run_stepI:
  "diplo_event g g' \<Longrightarrow> diplo_run g' g'' \<Longrightarrow> diplo_run g g''"
  by (rule converse_rtranclp_into_rtranclp)

subsection \<open>The compound operations are sequences of events\<close>

named_theorems runs \<open>backward rules for \<open>diplo_run\<close>, one for each form of a definition's body\<close>

lemma run_refl [runs]: "diplo_run g g"
  by simp

lemma run_other: "(\<And>a b. st g'' a b = st g' a b) \<Longrightarrow> diplo_run g g' \<Longrightarrow> diplo_run g g''"
  by (rule rtranclp.rtrancl_into_rtrancl) (auto intro: other)

lemma run_made [runs]: "diplo_run g g' \<Longrightarrow> word_ok s \<Longrightarrow> diplo_run g (treaty_on i j s g')"
  by (rule rtranclp.rtrancl_into_rtrancl) (auto intro: made)

lemma run_ended [runs]: "diplo_run g g' \<Longrightarrow> diplo_run g (treaty_off i j s g')"
  by (rule rtranclp.rtrancl_into_rtrancl) (auto intro: ended)

lemma run_marked [runs]:
  "diplo_run g g' \<Longrightarrow> s AND (DIPLO_VENDETTA OR DIPLO_TRUCE OR DIPLO_TREATY OR DIPLO_PACT) = 0
     \<Longrightarrow> diplo_run g (upd_status i j (\<lambda>w. w OR s) g')"
  by (rule rtranclp.rtrancl_into_rtrancl) (auto intro: marked)

lemma run_set_treaty [runs]:
  assumes "diplo_run g g'" "s AND (DIPLO_VENDETTA OR DIPLO_TRUCE OR DIPLO_TREATY OR DIPLO_PACT) = 0"
  shows "diplo_run g (set_treaty i j s True g')"
proof (cases "valid_pair i j")
  case True
  then have "st (set_treaty i j s True g') a b = st (upd_status i j (\<lambda>w. w OR s) g') a b" for a b
    by (simp add: set_treaty_st upd_status_st)
  with run_marked [OF assms] show ?thesis by (rule run_other [rotated])
qed (use assms in \<open>simp add: set_treaty_def\<close>)

lemma run_if [runs]: "(c \<Longrightarrow> diplo_run g a) \<Longrightarrow> (\<not> c \<Longrightarrow> diplo_run g b) \<Longrightarrow> diplo_run g (if c then a else b)"
  by simp

lemma run_let [runs]:
  "diplo_run g v \<Longrightarrow> (\<And>x. diplo_run g x \<Longrightarrow> diplo_run g (f x)) \<Longrightarrow> diplo_run g (let x = v in f x)"
  "(\<And>x. diplo_run g (h x)) \<Longrightarrow> diplo_run g (let x = u in h x)"
  by simp_all

lemma run_field [runs]:
  "diplo_run g g' \<Longrightarrow> diplo_run g (set_agenda i j s add g')"
  "diplo_run g g' \<Longrightarrow> diplo_run g (upd_merc i j g')" "diplo_run g g' \<Longrightarrow> diplo_run g (blemish i g')"
  "diplo_run g g' \<Longrightarrow> diplo_run g (lose_reputation i g')" "diplo_run g g' \<Longrightarrow> diplo_run g (add_betrayed i j g')"
  "diplo_run g g' \<Longrightarrow> diplo_run g (add_wrong i j g')" "diplo_run g g' \<Longrightarrow> diplo_run g (cause_friction i j v g')"
  by (erule run_other [rotated], simp)+

lemma run_upd_faction [runs]:
  "diplo_run g g' \<Longrightarrow> (\<And>f. f_diplo_status (h f) = f_diplo_status f) \<Longrightarrow> diplo_run g (upd_faction i h g')"
  by (erule run_other [rotated]) simp

lemma run_fold [runs]:
  "diplo_run g g' \<Longrightarrow> (\<And>i x. diplo_run g x \<Longrightarrow> diplo_run g (h i x)) \<Longrightarrow> diplo_run g (fold h xs g')"
  by (induction xs arbitrary: g') simp_all

lemma run_trans: "diplo_run g g' \<Longrightarrow> diplo_run g' g'' \<Longrightarrow> diplo_run g g''"
  by (rule rtranclp_trans)

lemma run_vow_revenge [runs]: "diplo_run g g' \<Longrightarrow> diplo_run g (vow_revenge i j g')"
  unfolding vow_revenge_def by (intro runs; (assumption | simp))

lemma run_intervention [runs]: "diplo_run g g' \<Longrightarrow> diplo_run g (intervention i j g')"
  unfolding intervention_def by (intro runs; (assumption | simp add: word_ok_def bit_simps))

lemma run_cross_pact [runs]: "diplo_run g g' \<Longrightarrow> diplo_run g (cross_pact i j k v a g')"
  unfolding cross_pact_def by (intro runs; (assumption | simp))

lemma run_cross_treaty [runs]: "diplo_run g g' \<Longrightarrow> diplo_run g (cross_treaty i j k v a g')"
  unfolding cross_treaty_def by (intro runs; (assumption | simp))

lemma run_double_cross:
  assumes "\<And>i j x. diplo_run x (pact_ends i j x)" "diplo_run g g'"
  shows "diplo_run g (double_cross pact_ends i j k g')"
proof -
  have ends [runs]: "diplo_run g x \<Longrightarrow> diplo_run g (pact_ends i j x)" for i j x
    using assms(1) run_trans by blast
  show ?thesis
    unfolding double_cross_def
    by (intro runs ends; (rule assms(2) | assumption | simp add: word_ok_def bit_simps))
qed

lemma run_act_of_aggression:
  assumes "\<And>i j x. diplo_run x (pact_ends i j x)"
  shows "diplo_run g (fst (act_of_aggression pact_ends i j g))"
  unfolding act_of_aggression_def Let_def
  by (auto intro!: run_made run_double_cross [OF assms] simp: word_ok_def bit_simps split: prod.splits)

text \<open>The same for the operations that thread the random generator through.\<close>

lemma run_pair:
  "diplo_run g x \<Longrightarrow> diplo_run g (fst (x, s))"
  "(c \<Longrightarrow> diplo_run g (fst p)) \<Longrightarrow> (\<not> c \<Longrightarrow> diplo_run g (fst q)) \<Longrightarrow> diplo_run g (fst (if c then p else q))"
  "diplo_run g v \<Longrightarrow> (\<And>x. diplo_run g x \<Longrightarrow> diplo_run g (fst (f x))) \<Longrightarrow> diplo_run g (fst (let x = v in f x))"
  "diplo_run g (fst r) \<Longrightarrow> (\<And>x s. diplo_run g x \<Longrightarrow> diplo_run g (fst (k x s)))
     \<Longrightarrow> diplo_run g (fst (let (x, s) = r in k x s))"
  by (auto split: prod.splits)

lemma run_pair_other:
  "(\<And>x. diplo_run g (fst (h x))) \<Longrightarrow> diplo_run g (fst (let x = u in h x))"
  "(\<And>s x. diplo_run g (fst (m s x))) \<Longrightarrow> diplo_run g (fst (let (s, x) = w in m s x))"
  by (auto split: prod.splits)

lemma run_pair_fold:
  "diplo_run g (fst p) \<Longrightarrow> (\<And>i x s. diplo_run g x \<Longrightarrow> diplo_run g (fst (h i (x, s))))
     \<Longrightarrow> diplo_run g (fst (fold h xs p))"
  by (induction xs arbitrary: p) (simp_all, metis prod.collapse)

lemma run_atrocity_witness:
  "diplo_run g x \<Longrightarrow> diplo_run g (fst (atrocity_witness game_rand f v sk pv i (x, s)))"
  unfolding atrocity_witness_def prod.case
  by (intro run_pair run_pair_other runs; (assumption | simp add: word_ok_def bit_simps))

lemma run_major_atrocity [runs]:
  assumes "\<And>i j x. diplo_run x (pact_ends i j x)" "diplo_run g g'"
  shows "diplo_run g (major_atrocity pact_ends f v g')"
proof -
  have ends: "diplo_run g x \<Longrightarrow> diplo_run g (pact_ends i j x)" for i j x
    using assms(1) run_trans by blast
  show ?thesis
    unfolding major_atrocity_def major_atrocity_vs_def
    by (intro runs ends; (rule assms(2) | assumption | simp add: word_ok_def bit_simps))
qed

lemma run_atrocity:
  assumes "\<And>i j x. diplo_run x (pact_ends i j x)"
  shows "diplo_run g (fst (atrocity pact_ends game_rand f v si sh (g, s)))"
  unfolding atrocity_def atrocity_sanction_def prod.case
  by (intro run_pair run_pair_other run_pair_fold run_atrocity_witness run_major_atrocity [OF assms] runs;
    (assumption | simp add: bit_simps))

subsection \<open>Correctness of the diplomatic operations\<close>

lemma comm_bit: "(w::u32) AND DIPLO_COMMLINK = 0 \<longleftrightarrow> \<not> bit w 3"
  using and_exp_eq_0_iff_not_bit [of w 3] by simp

lemma has_treaty_bits [bit_facts]:
  assumes "valid_pair i j"
  shows "has_treaty g i j DIPLO_VENDETTA = 0 \<longleftrightarrow> \<not> bit (st g i j) 4"
    "has_treaty g i j DIPLO_PACT = 0 \<longleftrightarrow> \<not> bit (st g i j) 0"
    "has_treaty g i j DIPLO_TREATY = 0 \<longleftrightarrow> \<not> bit (st g i j) 1"
    "has_treaty g i j DIPLO_COMMLINK = 0 \<longleftrightarrow> \<not> bit (st g i j) 3"
    "has_treaty g i j (DIPLO_TRUCE OR DIPLO_TREATY OR DIPLO_PACT) = 0
       \<longleftrightarrow> \<not> bit (st g i j) 0 \<and> \<not> bit (st g i j) 1 \<and> \<not> bit (st g i j) 2"
  unfolding has_treaty_def using assms by (simp_all only: treaty_bit_simps peace_bits comm_bit if_True)

lemma valid_pair_sym: "valid_pair i j = valid_pair j i"
  by (auto simp: valid_pair_def)

lemma at_war_bit: "valid_pair i j \<Longrightarrow> i \<noteq> j \<Longrightarrow> at_war g i j \<longleftrightarrow> bit (st g i j) 4"
  by (simp add: at_war_def valid_pair_def treaty_bit_simps)

lemma has_pact_bit: "valid_pair i j \<Longrightarrow> has_pact g i j \<longleftrightarrow> bit (st g i j) 0"
  by (simp add: has_pact_def valid_pair_def treaty_bit_simps)

lemmas diplo_bits = has_treaty_bits [simplified] at_war_bit has_pact_bit treaty_on_st on_word_bits [simplified]



text \<open>What \<open>treaty_on\<close> promises: a declared vendetta holds on both sides with contact and without any
  peace treaty; a signed pact holds on both sides together with a treaty and ends the vendetta;
  relations between other factions are untouched.\<close>

theorem treaty_on_effect:
  assumes "valid_pair i j" "i \<noteq> j"
  shows "(let g' = treaty_on i j DIPLO_VENDETTA g in at_war g' i j \<and> at_war g' j i
      \<and> \<not> treaty g' i j (DIPLO_TRUCE OR DIPLO_TREATY OR DIPLO_PACT)
      \<and> \<not> treaty g' j i (DIPLO_TRUCE OR DIPLO_TREATY OR DIPLO_PACT)
      \<and> treaty g' i j DIPLO_COMMLINK \<and> treaty g' j i DIPLO_COMMLINK)
    \<and> (let g' = treaty_on i j DIPLO_PACT g in has_pact g' i j \<and> has_pact g' j i
      \<and> treaty g' i j DIPLO_TREATY \<and> treaty g' j i DIPLO_TREATY \<and> \<not> at_war g' i j \<and> \<not> at_war g' j i)
    \<and> (\<forall>s a b. a \<noteq> b \<and> {a, b} \<noteq> {i, j} \<longrightarrow> has_treaty (treaty_on i j s g) a b = has_treaty g a b)"
proof -
  have sym: "valid_pair j i" using assms(1) valid_pair_sym by blast
  have "has_treaty (treaty_on i j s g) a b = has_treaty g a b" if "a \<noteq> b" "{a, b} \<noteq> {i, j}" for s a b
    using that by (auto simp: has_treaty_def treaty_on_st fun_eq_iff)
  then show ?thesis
    unfolding Let_def using assms sym by (simp add: diplo_bits bit_simps)
qed

theorem treaty_on_effect_witness:
  "at_war (treaty_on 1 2 DIPLO_VENDETTA blank_game) 2 1 \<and> has_pact (treaty_on 1 2 DIPLO_PACT blank_game) 2 1"
  using treaty_on_effect [of 1 2 blank_game] by (simp add: valid_pair_def Let_def)

text \<open>C39: An act of aggression always ends in open war on both sides, whatever bound the two factions and
  whatever the routine that ends pacts does; it reports 1 exactly when the victim was bound by a treaty.\<close>

theorem aggression_means_war:
  assumes "valid_pair atk def" "atk \<noteq> def"
  shows "case act_of_aggression pact_ends atk def g of (g', v) \<Rightarrow>
    at_war g' atk def \<and> at_war g' def atk \<and> \<not> has_pact g' atk def \<and> \<not> has_pact g' def atk
    \<and> \<not> treaty g' atk def (DIPLO_TRUCE OR DIPLO_TREATY OR DIPLO_PACT)
    \<and> v = of_bool (treaty g def atk (DIPLO_TRUCE OR DIPLO_TREATY OR DIPLO_PACT))"
proof -
  have sym: "valid_pair def atk" using assms(1) valid_pair_sym by blast
  show ?thesis
    unfolding act_of_aggression_def Let_def
    using assms sym by (simp add: diplo_bits bit_simps split: prod.splits)
qed

theorem aggression_means_war_witness:
  "at_war (fst (act_of_aggression (\<lambda>i j. treaty_off i j DIPLO_PACT) 1 2 (treaty_on 1 2 DIPLO_PACT blank_game))) 2 1"
  using aggression_means_war [of 1 2 "treaty_on 1 2 DIPLO_PACT blank_game" "\<lambda>i j. treaty_off i j DIPLO_PACT"]
  by (simp add: valid_pair_def split: prod.splits)

lemma eligible_mono:
  assumes "eligible g i" "\<not> is_alien g j" "council_votes g i \<le> council_votes g j"
  shows "eligible g j"
proof -
  let ?P = "\<lambda>i k. i \<noteq> k \<and> is_alive g k \<and> council_votes g k > council_votes g i"
  have "length (filter (?P j) xs) \<le> length (filter (?P i) xs)" for xs
    by (induction xs) (use assms(3) in auto)
  moreover from assms(1) have "length (filter (?P i) [1..MaxPlayerNum - 1]) < 2"
    by (auto simp: eligible_def Let_def split: if_splits)
  ultimately show ?thesis
    using assms(2) order_le_less_trans unfolding eligible_def Let_def by (metis (no_types, lifting))
qed

lemma eligible_top:
  assumes "\<not> is_alien g j" "\<And>k. 1 \<le> k \<Longrightarrow> k < MaxPlayerNum \<Longrightarrow> is_alive g k \<Longrightarrow> council_votes g k \<le> council_votes g j"
  shows "eligible g j"
proof -
  have "filter (\<lambda>k. j \<noteq> k \<and> is_alive g k \<and> council_votes g k > council_votes g j) [1..MaxPlayerNum - 1] = []"
    using assms(2) by (fastforce simp: filter_empty_conv)
  then have "length (filter (\<lambda>k. j \<noteq> k \<and> is_alive g k \<and> council_votes g k > council_votes g j) [1..MaxPlayerNum - 1]) < 2"
    by simp
  with assms(1) show ?thesis unfolding eligible_def Let_def by presburger
qed

text \<open>Candidates of the planetary council: at most one living faction may have more votes than a
  candidate, so eligibility goes with votes: a faction with at least as many votes as an eligible one
  is eligible unless it is alien, and a living faction with the most votes always is.\<close>

theorem council_candidates:
  assumes "\<not> is_alien g j"
  shows "(\<forall>i. eligible g i \<and> council_votes g i \<le> council_votes g j \<longrightarrow> eligible g j)
    \<and> ((\<forall>k. 1 \<le> k \<and> k < MaxPlayerNum \<and> is_alive g k \<longrightarrow> council_votes g k \<le> council_votes g j) \<longrightarrow> eligible g j)"
  using eligible_mono eligible_top assms by blast

theorem council_candidates_witness:
  "eligible blank_game 3"
proof -
  have v: "council_votes blank_game k = 0" for k
    by (simp add: council_votes_def blank_game_def blank_mfaction_def is_alien_def Let_def has_project_def
        has_project_any_def)
  have "\<not> is_alien blank_game 3"
    by (simp add: is_alien_def blank_game_def blank_mfaction_def)
  from council_candidates [OF this] show ?thesis by (simp add: v)
qed

lemma aah_ooga_fold:
  fixes c :: "int \<Rightarrow> bool" and fid :: int
  defines "F \<equiv> fold (\<lambda>i value. if c i \<and> (value = 0 \<or> i = fid) then i else value)"
  shows "F xs v0 = v0 \<or> (F xs v0 \<in> set xs \<and> c (F xs v0))"
proof (induction xs arbitrary: v0)
  case (Cons a xs)
  define v1 where "v1 = (if c a \<and> (v0 = 0 \<or> a = fid) then a else v0)"
  have "F (a # xs) v0 = F xs v1" by (simp add: F_def v1_def)
  moreover have "v1 = v0 \<or> (v1 = a \<and> c a)" by (simp add: v1_def)
  ultimately show ?case using Cons.IH [of v1] by (metis list.set_intros(1) list.set_intros(2))
qed (simp add: F_def)

text \<open>\<open>aah_ooga\<close> names a faction close to a diplomatic victory: its result is 0 or one of the seven
  factions other than the pact faction that holds at least half of all votes, and is 0 when the
  diplomatic victory is switched off. Without a faction, as the comment on
  \<open>climactic_battle\<close> says of the original game's call, it is always 0.\<close>

theorem aah_ooga_sound:
  "(let v = aah_ooga g f p in v = 0 \<or> (1 \<le> v \<and> v < MaxPlayerNum \<and> v \<noteq> p
      \<and> 2 * council_votes g v \<ge> sum_list (map (council_votes g) [1..MaxPlayerNum - 1])
      \<and> GameRules g AND RULES_VICTORY_DIPLOMATIC \<noteq> 0))
    \<and> aah_ooga g 0 p = 0"
proof -
  let ?pp = "cprop_preq_tech (Proposal g PROP_UNITE_SUPREME_LEADER)"
  let ?c = "\<lambda>f i. i \<noteq> p \<and> (p \<le> 0 \<or> \<not> treaty g i p DIPLO_PACT
                   \<or> \<not> (GameRules g AND RULES_VICTORY_COOPERATIVE \<noteq> 0))
                \<and> (has_tech g ?pp f
                   \<or> (?pp \<ge> 0 \<and> (has_tech g (ctech_preq_tech1 (Tech g ?pp)) f
                        \<or> has_tech g (ctech_preq_tech2 (Tech g ?pp)) f)))
                \<and> council_votes g i * 2 \<ge> sum_list (map (council_votes g) [1..MaxPlayerNum - 1])"
  have eq: "aah_ooga g f p = (if GameRules g AND RULES_VICTORY_DIPLOMATIC = 0 then 0
     else fold (\<lambda>i value. if ?c f i \<and> (value = 0 \<or> i = f) then i else value) [1..MaxPlayerNum - 1] 0)" for f
    unfolding aah_ooga_def Let_def by (simp only: conj_assoc not_not)
  have "aah_ooga g 0 p = 0"
    unfolding eq using aah_ooga_fold [of "?c 0" 0 "[1..MaxPlayerNum - 1]" 0]
    by (auto simp: Let_def has_tech_def)
  moreover have "let v = aah_ooga g f p in v = 0 \<or> (v \<in> set [1..MaxPlayerNum - 1] \<and> ?c f v \<and> GameRules g AND RULES_VICTORY_DIPLOMATIC \<noteq> 0)"
    unfolding eq using aah_ooga_fold [of "?c f" f "[1..MaxPlayerNum - 1]" 0]
    by (simp add: Let_def)
  ultimately show ?thesis by (auto simp: Let_def)
qed

text \<open>Friction between two factions always stays between 0 and 20, and the mood it stands for runs over the
  eight moods in order: more friction never gives a better mood.\<close>

theorem friction_mood:
  "0 \<le> f_diplo_friction (Factions (cause_friction i j v g) i) j
    \<and> f_diplo_friction (Factions (cause_friction i j v g) i) j \<le> 20
    \<and> MOOD_MAGNANIMOUS \<le> get_mood x \<and> get_mood x \<le> MOOD_BELLIGERENT + 1
    \<and> get_mood x \<le> get_mood (x + int k)"
  by (auto simp: cause_friction_def Let_def clamp_def get_mood_def)

lemma probe_active_turns_bounds: "5 \<le> probe_active_turns g i j \<and> probe_active_turns g i j \<le> 50"
  unfolding probe_active_turns_def Let_def by (rule clamp_bounds) simp

text \<open>With counter espionage, a planted infiltrator is renewable and lasts between 5 and 50 turns from now;
  the infiltrators in other factions and of other factions are as before.\<close>

theorem infiltrator_lasts:
  assumes "valid_pair i j" "conf_counter_espionage (conf g) \<noteq> 0" "0 \<le> CurrentTurn g" "CurrentTurn g < 32000"
  shows "let g' = set_treaty i j DIPLO_HAVE_INFILTRATOR True g in
    treaty g' i j DIPLO_HAVE_INFILTRATOR \<and> probe_has_renew g' i j
    \<and> CurrentTurn g + 5 \<le> mf_thinker_probe_end_turn (MFactions g' i) j
    \<and> mf_thinker_probe_end_turn (MFactions g' i) j \<le> CurrentTurn g + 50
    \<and> (\<forall>a b. valid_pair a b \<and> (a, b) \<noteq> (i, j) \<longrightarrow> probe_has_renew g' a b = probe_has_renew g a b)"
proof -
  let ?g = "upd_status i j (\<lambda>s. s OR DIPLO_HAVE_INFILTRATOR) g"
  let ?t = "probe_active_turns ?g i j"
  let ?m = "MFactions g i"
  have t: "5 \<le> ?t" "?t \<le> 50" using probe_active_turns_bounds by blast+
  have c: "CurrentTurn ?g = CurrentTurn g" "MFactions ?g = MFactions g" "conf ?g = conf g"
    by (simp_all add: upd_status_def upd_faction_def)
  have eq: "set_treaty i j DIPLO_HAVE_INFILTRATOR True g = probe_renew_set i j ?t ?g"
    using assms(1,2) c by (simp add: set_treaty_def Let_def)
  have m: "MFactions (probe_renew_set i j ?t ?g) i = ?m\<lparr>
      mf_thinker_probe_end_turn := (mf_thinker_probe_end_turn ?m)(j := CurrentTurn g + ?t),
      mf_thinker_probe_renew := mf_thinker_probe_renew ?m OR push_bit (nat j) 1\<rparr>"
    "a \<noteq> i \<Longrightarrow> MFactions (probe_renew_set i j ?t ?g) a = MFactions g a" for a
    using assms t c by (auto simp: probe_renew_set_def s16_id Let_def)
  have "st (probe_renew_set i j ?t ?g) i j = st g i j OR DIPLO_HAVE_INFILTRATOR"
    by (simp add: upd_status_st)
  then have "treaty (probe_renew_set i j ?t ?g) i j DIPLO_HAVE_INFILTRATOR"
    using assms(1) and_exp_eq_0_iff_not_bit [of "st g i j OR DIPLO_HAVE_INFILTRATOR" 12]
    by (simp add: has_treaty_def bit_simps)
  moreover have "probe_has_renew (probe_renew_set i j ?t ?g) a b = probe_has_renew g a b"
    if "valid_pair a b" "(a, b) \<noteq> (i, j)" for a b
    using that assms(1) m by (cases "a = i") (auto simp: probe_has_renew_def bit_simps valid_pair_def nat_eq_iff)
  moreover have "probe_has_renew (probe_renew_set i j ?t ?g) i j"
    using assms(1) m by (auto simp: probe_has_renew_def bit_simps valid_pair_def)
  ultimately show ?thesis using m t unfolding Let_def eq by auto
qed

theorem infiltrator_lasts_witness:
  "probe_has_renew (set_treaty 1 2 DIPLO_HAVE_INFILTRATOR True
     (blank_game\<lparr>conf := default_conf\<lparr>conf_counter_espionage := 1\<rparr>, CurrentTurn := 100\<rparr>)) 1 2"
proof -
  let ?g = "blank_game\<lparr>conf := default_conf\<lparr>conf_counter_espionage := 1\<rparr>, CurrentTurn := 100\<rparr>"
  have "valid_pair 1 2" "conf_counter_espionage (conf ?g) \<noteq> 0" "0 \<le> CurrentTurn ?g" "CurrentTurn ?g < 32000"
    by (simp_all add: valid_pair_def)
  from infiltrator_lasts [OF this] show ?thesis by (simp add: Let_def)
qed

end
