(* ===== verification/Bridge_Observe.thy ===== *)
theory Bridge_Observe
  imports Bridge_Json Diplo
begin

section \<open>Observations, identities and chat of the agent bridge (agent_bridge.cpp)\<close>

text \<open>
  The bridge's own state beside the game: the ring of observation events, the chat log, the private
  handles that give every unit row a stable identity, and the shadow of what the current faction saw
  at the last sample. The timer compares the game with the shadow and appends events; the feed
  delivers them to the agent by sequence number. Sequence numbers are unbounded here (64 bits in the
  code). The text of the current popup, the revision token and the identity of the match come from
  other parts of the program and are arguments.
\<close>

subsection \<open>State\<close>

text \<open>\<open>NativeObservationEvent\<close>.\<close>

record obs_event =
  oe_sequence :: nat
  oe_turn :: int
  oe_subject_a :: int
  oe_subject_b :: int
  oe_from_tile_id :: int
  oe_to_tile_id :: int
  oe_value_before :: int
  oe_value_after :: int
  oe_continuous_visibility :: bool
  oe_kind :: string
  oe_item_name :: string
  oe_relationship :: string

record chat_event =
  ce_sequence :: nat
  ce_outbound :: bool
  ce_broadcast :: bool
  ce_sender_faction_id :: int
  ce_recipient_faction_id :: int
  ce_turn :: int
  ce_text :: string
  ce_client_message_id :: string

record veh_shadow =
  vs_present :: bool
  vs_visible :: bool
  vs_faction_id :: int
  vs_unit_id :: int
  vs_x :: int
  vs_y :: int
  vs_hitpoints :: int

record base_shadow =
  bs_present :: bool
  bs_visible :: bool
  bs_faction_id :: int
  bs_x :: int
  bs_y :: int
  bs_population :: int

record tile_shadow =
  ts_sampled :: bool
  ts_known :: bool
  ts_visible :: bool
  ts_items :: u32
  ts_altitude :: int
  ts_climate :: int
  ts_owner :: int

record bridge =
  observation_events :: "nat \<Rightarrow> obs_event"
  observation_event_start :: nat
  observation_event_count :: nat
  next_observation_sequence :: nat
  lost_after_observation_sequence :: nat
  last_observed_action_revision :: string
  last_observed_popup_generation :: nat
  known_project_builder :: "int \<Rightarrow> int"
  known_project_builder_valid :: "int \<Rightarrow> bool"
  observed_vehicles :: "veh_shadow list"
  observed_bases :: "base_shadow list"
  observed_tiles :: "tile_shadow list"
  sampled_vehicles :: "veh_shadow list"
  sampled_bases :: "base_shadow list"
  observed_tile_cursor :: nat
  semantic_observation_shadow_ready :: bool
  semantic_vehicle_handles :: "int list"
  next_semantic_vehicle_handle :: int
  semantic_observation_faction :: int
  chat_events :: "chat_event list"
  next_chat_sequence :: nat
  support_loss_handle :: int
  lock_initialized :: bool

definition MaxObservationEvents :: nat where
  "MaxObservationEvents = 1024"

definition MaxChatEvents :: nat where
  "MaxChatEvents = 64"

definition blank_event :: obs_event where
  "blank_event = \<lparr>oe_sequence = 0, oe_turn = 0, oe_subject_a = 0, oe_subject_b = 0, oe_from_tile_id = 0,
     oe_to_tile_id = 0, oe_value_before = 0, oe_value_after = 0, oe_continuous_visibility = False,
     oe_kind = [], oe_item_name = [], oe_relationship = []\<rparr>"

text \<open>The initialisers of the globals.\<close>

definition initial_bridge :: bridge where
  "initial_bridge = \<lparr>
     observation_events = (\<lambda>_. blank_event), observation_event_start = 0, observation_event_count = 0,
     next_observation_sequence = 1, lost_after_observation_sequence = 0, last_observed_action_revision = [],
     last_observed_popup_generation = 0, known_project_builder = (\<lambda>_. 0),
     known_project_builder_valid = (\<lambda>_. False), observed_vehicles = [], observed_bases = [], observed_tiles = [],
     sampled_vehicles = [], sampled_bases = [], observed_tile_cursor = 0, semantic_observation_shadow_ready = False,
     semantic_vehicle_handles = [], next_semantic_vehicle_handle = 1, semantic_observation_faction = - 1,
     chat_events = [], next_chat_sequence = 1, support_loss_handle = - 1, lock_initialized = False\<rparr>"

subsection \<open>Game status and tile identities\<close>

definition active_faction :: "game \<Rightarrow> bool" where
  "active_faction g \<longleftrightarrow> CurrentPlayerFaction g \<ge> 1 \<and> CurrentPlayerFaction g \<le> 7"

text \<open>The map is always allocated in the model, so the test of the map pointer is left out.\<close>

definition game_active :: "game \<Rightarrow> bool" where
  "game_active g \<longleftrightarrow> active_faction g \<and> MapAreaTiles g > 0 \<and> MapAreaX g > 0 \<and> MapAreaY g > 0 \<and> BaseCount g > 0"

definition semantic_tile_id :: "game \<Rightarrow> int \<Rightarrow> int \<Rightarrow> int" where
  "semantic_tile_id g x y =
     (if mapsq g x y = None \<or> MapAreaX g \<le> 0 then - 1 else (x + MapAreaX g * y) sdiv 2)"

definition semantic_tile_coords :: "game \<Rightarrow> int \<Rightarrow> (int \<times> int) option" where
  "semantic_tile_coords g tile_id =
     (if MapAreaX g \<le> 0 \<or> MapAreaY g \<le> 0 \<or> tile_id < 0 \<or> tile_id \<ge> (MapAreaX g * MapAreaY g) sdiv 2 then None
      else let row_width = MapAreaX g sdiv 2 in
        if row_width \<le> 0 then None
        else let ty = tile_id sdiv row_width; tx = 2 * (tile_id smod row_width) + (ty AND 1) in
          if mapsq g tx ty = None then None else Some (tx, ty))"

definition semantic_request_tile :: "game \<Rightarrow> string \<Rightarrow> (int \<times> int \<times> int) option" where
  "semantic_request_tile g request =
     (let requested = field_int request ''target_tile_id'' (- 1)
      in map_option (\<lambda>(x, y). (requested, x, y)) (semantic_tile_coords g requested))"

subsection \<open>The ring of observation events\<close>

definition observed_event_relationship :: "game \<Rightarrow> int \<Rightarrow> int \<Rightarrow> string" where
  "observed_event_relationship g faction_id oth =
     (if oth = faction_id then ''self''
      else if oth = 0 \<or> f_diplo_status (Factions g faction_id) oth AND DIPLO_VENDETTA \<noteq> 0 then ''hostile''
      else if f_diplo_status (Factions g faction_id) oth AND DIPLO_PACT \<noteq> 0 then ''allied''
      else ''neutral'')"

text \<open>The default arguments of \<open>append_observation_event\<close>.\<close>

definition new_event :: "string \<Rightarrow> int \<Rightarrow> obs_event" where
  "new_event kind turn = \<lparr>oe_sequence = 0, oe_turn = turn, oe_subject_a = - 1, oe_subject_b = - 1,
     oe_from_tile_id = - 1, oe_to_tile_id = - 1, oe_value_before = - 1, oe_value_after = - 1,
     oe_continuous_visibility = False, oe_kind = kind, oe_item_name = [], oe_relationship = ''unknown''\<rparr>"

text \<open>\<open>lstrcpynA\<close> keeps one byte less than the size of the field.\<close>

definition stored_event :: "nat \<Rightarrow> obs_event \<Rightarrow> obs_event" where
  "stored_event n e = e\<lparr>oe_sequence := n, oe_kind := take 31 (oe_kind e),
     oe_item_name := take 63 (oe_item_name e), oe_relationship := take 11 (oe_relationship e)\<rparr>"

definition append_observation_event :: "obs_event \<Rightarrow> bridge \<Rightarrow> bridge" where
  "append_observation_event e b =
     (if oe_kind e = [] then b
      else let (b, index) =
          (if observation_event_count b < MaxObservationEvents
           then (b\<lparr>observation_event_count := observation_event_count b + 1\<rparr>,
                 (observation_event_start b + observation_event_count b) mod MaxObservationEvents)
           else let lost = oe_sequence (observation_events b (observation_event_start b));
                    start = (observation_event_start b + 1) mod MaxObservationEvents
             in (b\<lparr>lost_after_observation_sequence := lost, observation_event_start := start\<rparr>,
                 (start + observation_event_count b - 1) mod MaxObservationEvents))
        in b\<lparr>observation_events := (observation_events b)(index := stored_event (next_observation_sequence b) e),
             next_observation_sequence := next_observation_sequence b + 1\<rparr>)"

text \<open>The feed: the data of the response, before it is printed.\<close>

record feed =
  feed_incomplete :: bool
  feed_lost_after :: "nat option"
  feed_events :: "obs_event list"
  feed_next_sequence :: nat
  feed_has_more :: bool

definition ring_events :: "bridge \<Rightarrow> obs_event list" where
  "ring_events b = map (\<lambda>offset. observation_events b ((observation_event_start b + offset) mod MaxObservationEvents))
     [0..<observation_event_count b]"

definition feed_page :: "bridge \<Rightarrow> nat \<Rightarrow> nat \<Rightarrow> feed" where
  "feed_page b after limit =
     (let oldest = (if observation_event_count b \<noteq> 0
            then oe_sequence (observation_events b (observation_event_start b)) else next_observation_sequence b);
          incomplete = (after \<noteq> 0 \<and> after + 1 < oldest);
          events = take limit (filter (\<lambda>e. \<not> oe_sequence e \<le> after) (ring_events b));
          lst = (if events = [] then after else oe_sequence (last events));
          newest = observation_events b ((observation_event_start b + observation_event_count b - 1) mod MaxObservationEvents)
      in \<lparr>feed_incomplete = incomplete,
          feed_lost_after = (if incomplete then Some after
             else if lost_after_observation_sequence b \<noteq> 0 then Some (lost_after_observation_sequence b) else None),
          feed_events = events, feed_next_sequence = lst,
          feed_has_more = (observation_event_count b \<noteq> 0 \<and> oe_sequence newest > lst)\<rparr>)"

definition observation_feed_response :: "game \<Rightarrow> string \<Rightarrow> string \<Rightarrow> bridge \<Rightarrow> bridge \<times> feed" where
  "observation_feed_response g current_revision request b =
     (let b = (if current_revision \<noteq> last_observed_action_revision b
               then (append_observation_event (new_event ''perspective_changed''
                       (if game_active g then CurrentTurn g else - 1)) b)\<lparr>last_observed_action_revision := current_revision\<rparr>
               else b);
          after = nat (max 0 (field_int request ''after_sequence'' 0));
          limit = nat (min 256 (max 1 (field_int request ''limit'' 128)))
      in (b, feed_page b after limit))"

subsection \<open>Handles of unit rows\<close>

definition ensure_semantic_vehicle_handles :: "game \<Rightarrow> bridge \<Rightarrow> bridge" where
  "ensure_semantic_vehicle_handles g b =
     (let count = nat (max 0 (VehCount g));
          b = (if length (semantic_vehicle_handles b) > count
               then b\<lparr>semantic_vehicle_handles := [], observed_vehicles := [],
                      semantic_observation_shadow_ready := False\<rparr> else b)
      in b\<lparr>semantic_vehicle_handles := semantic_vehicle_handles b
            @ replicate (count - length (semantic_vehicle_handles b)) 0\<rparr>)"

definition semantic_vehicle_handle :: "game \<Rightarrow> int \<Rightarrow> bridge \<Rightarrow> bridge \<times> int" where
  "semantic_vehicle_handle g row b =
     (let b = ensure_semantic_vehicle_handles g b; handles = semantic_vehicle_handles b in
      if row < 0 \<or> row \<ge> int (length handles) then (b, - 1)
      else if handles ! nat row = 0
      then (b\<lparr>semantic_vehicle_handles := handles[nat row := next_semantic_vehicle_handle b],
              next_semantic_vehicle_handle := next_semantic_vehicle_handle b + 1\<rparr>, next_semantic_vehicle_handle b)
      else (b, handles ! nat row))"

text \<open>The FNV-1a style hash of the layout; the cast to 32 bits is the wrap of the word.\<close>

definition hash_mix :: "u64 \<Rightarrow> u64 \<Rightarrow> u64" where
  "hash_mix h v = (h XOR v) * 1099511628211"

definition hash_int :: "u64 \<Rightarrow> int \<Rightarrow> u64" where
  "hash_int h i = hash_mix h (ucast (word_of_int i :: u32))"

definition layout_row :: "game \<Rightarrow> int \<Rightarrow> int list" where
  "layout_row g row = (let v = Vehs g row in
     [veh_faction_id v, veh_unit_id v, veh_x v, veh_y v, veh_home_base_id v + 1, veh_order v,
      veh_moves_spent v, VEH_cur_hitpoints g v])"

definition semantic_vehicle_layout_fields :: "game \<Rightarrow> int list" where
  "semantic_vehicle_layout_fields g =
     [CurrentTurn g, CurrentPlayerFaction g, VehCount g] @ concat (map (layout_row g) [0..VehCount g - 1])"

definition semantic_vehicle_layout_hash :: "game \<Rightarrow> u64" where
  "semantic_vehicle_layout_hash g =
     (let h = hash_int 1469598103934665603 (CurrentTurn g);
          h = hash_int h (CurrentPlayerFaction g);
          h = hash_int h (VehCount g)
      in fold (\<lambda>row h. fold (\<lambda>i h. hash_int h i) (layout_row g row) h) [0..VehCount g - 1] h)"

definition reset_semantic_observation_shadow :: "bridge \<Rightarrow> bridge" where
  "reset_semantic_observation_shadow b = b\<lparr>observed_vehicles := [], observed_bases := [], observed_tiles := [],
     sampled_vehicles := [], sampled_bases := [], observed_tile_cursor := 0,
     semantic_observation_shadow_ready := False, semantic_observation_faction := - 1\<rparr>"

text \<open>Quotation marks are written as \<open>~\<close> in the literals below.\<close>

definition json_text :: "string \<Rightarrow> string" where
  "json_text s = map (\<lambda>c. if c = CHR ''~'' then Quote else c) s"

definition identity_export :: "game \<Rightarrow> bridge \<Rightarrow> bridge \<times> string" where
  "identity_export g b =
     (let b = ensure_semantic_vehicle_handles g b in
      (b, json_text ''{~ok~:true,~schema~:~smacx.private-vehicle-identity.v1~,~turn~:'' @ to_string (CurrentTurn g)
        @ json_text '',~faction_id~:'' @ to_string (CurrentPlayerFaction g)
        @ json_text '',~native_validation_hash~:~'' @ decimal (unat (semantic_vehicle_layout_hash g))
        @ json_text ''~,~next_semantic_vehicle_handle~:'' @ to_string (next_semantic_vehicle_handle b)
        @ json_text '',~semantic_vehicle_handles~:['' @ int_list_text (semantic_vehicle_handles b)
        @ json_text ''],~native_validation_fields~:['' @ int_list_text (semantic_vehicle_layout_fields g) @ '']}''))"

definition handles_valid :: "int list \<Rightarrow> int \<Rightarrow> bool" where
  "handles_valid handles next_handle =
     (let assigned = filter (\<lambda>h. \<not> h \<le> 0) handles; maximum = fold max assigned 0
      in \<not> (card (set assigned) \<noteq> length assigned \<or> next_handle \<le> maximum))"

definition identity_import :: "game \<Rightarrow> string \<Rightarrow> bridge \<Rightarrow> bridge \<times> string" where
  "identity_import g request b =
     (if field_string request ''schema'' \<noteq> ''smacx.private-vehicle-identity.v1''
      then (b, error_response ''identity_schema_mismatch'' ''Unsupported identity capsule.'')
      else let expected = field_string request ''native_validation_hash'' in
        if expected = [] \<or> expected \<noteq> decimal (unat (semantic_vehicle_layout_hash g))
        then (b, error_response ''identity_native_state_mismatch''
                ''Identity capsule does not match the restored native state.'')
        else let next_handle = field_int request ''next_semantic_vehicle_handle'' (- 1) in
          (case field_int_array request ''semantic_vehicle_handles'' of
             None \<Rightarrow> (b, error_response ''identity_handle_count_mismatch'' ''Identity capsule handle count is invalid.'')
           | Some handles \<Rightarrow>
               if int (length handles) \<noteq> VehCount g
               then (b, error_response ''identity_handle_count_mismatch'' ''Identity capsule handle count is invalid.'')
               else if \<not> handles_valid handles next_handle
               then (b, error_response ''identity_handle_set_invalid''
                       ''Identity capsule handles are not unique and monotonic.'')
               else (reset_semantic_observation_shadow
                       (b\<lparr>semantic_vehicle_handles := handles, next_semantic_vehicle_handle := next_handle\<rparr>),
                     json_text ''{~ok~:true,~restored~:true,~handle_count~:'' @ to_string (int (length handles)) @ ''}'')))"

definition semantic_identity_state_response :: "game \<Rightarrow> string \<Rightarrow> bridge \<Rightarrow> bridge \<times> string" where
  "semantic_identity_state_response g request b =
     (if \<not> game_active g
      then (b, error_response ''game_not_active'' ''Semantic identity state requires an active game.'')
      else let action = field_string request ''action'' in
        if action = ''export'' then identity_export g b
        else if action = ''import'' then identity_import g request b
        else (b, error_response ''bad_identity_action'' ''Use export or import.''))"

subsection \<open>Comparing the game with the shadow\<close>

definition shadow_unit :: "game \<Rightarrow> int \<Rightarrow> veh \<Rightarrow> veh_shadow" where
  "shadow_unit g faction_id v = \<lparr>vs_present = True,
     vs_visible = (veh_faction_id v = faction_id \<or> bit (veh_visibility v) (nat faction_id)),
     vs_faction_id = veh_faction_id v, vs_unit_id = veh_unit_id v, vs_x = veh_x v, vs_y = veh_y v,
     vs_hitpoints = VEH_cur_hitpoints g v\<rparr>"

text \<open>The events for one row, in the order of the code; the handle is filled in when they are appended.\<close>

definition unit_events :: "game \<Rightarrow> int \<Rightarrow> veh_shadow \<Rightarrow> veh_shadow \<Rightarrow> obs_event list" where
  "unit_events g faction_id prior current =
     (let ev = (\<lambda>kind. (new_event kind (CurrentTurn g))\<lparr>oe_subject_b := vs_faction_id current\<rparr>);
          here = semantic_tile_id g (vs_x current) (vs_y current);
          there = semantic_tile_id g (vs_x prior) (vs_y prior);
          appeared = (ev ''visible_unit_appeared'')\<lparr>oe_to_tile_id := here\<rparr>
      in if \<not> (vs_present prior \<and> vs_faction_id prior = vs_faction_id current \<and> vs_unit_id prior = vs_unit_id current)
         then (if vs_visible current then [appeared] else [])
         else (if vs_visible prior \<and> vs_visible current \<and> (vs_x prior \<noteq> vs_x current \<or> vs_y prior \<noteq> vs_y current)
               then [(ev ''visible_unit_moved'')\<lparr>oe_from_tile_id := there, oe_to_tile_id := here,
                       oe_continuous_visibility := True,
                       oe_relationship := observed_event_relationship g faction_id (vs_faction_id current)\<rparr>] else [])
            @ (if vs_visible prior \<and> vs_visible current \<and> vs_hitpoints prior \<noteq> vs_hitpoints current
               then [(ev ''visible_unit_damaged'')\<lparr>oe_from_tile_id := here, oe_to_tile_id := here,
                       oe_value_before := vs_hitpoints prior, oe_value_after := vs_hitpoints current,
                       oe_continuous_visibility := True\<rparr>] else [])
            @ (if vs_visible prior \<and> \<not> vs_visible current
               then [(ev ''visible_unit_lost'')\<lparr>oe_from_tile_id := there\<rparr>]
               else if \<not> vs_visible prior \<and> vs_visible current then [appeared] else []))"

definition emit_unit_event :: "game \<Rightarrow> int \<Rightarrow> obs_event \<Rightarrow> bridge \<Rightarrow> bridge" where
  "emit_unit_event g index e b =
     (let (b, handle) = semantic_vehicle_handle g index b
      in append_observation_event (e\<lparr>oe_subject_a := handle\<rparr>) b)"

definition observe_unit :: "game \<Rightarrow> int \<Rightarrow> int \<Rightarrow> bridge \<Rightarrow> bridge" where
  "observe_unit g faction_id index b =
     (let current = shadow_unit g faction_id (Vehs g index);
          b = b\<lparr>sampled_vehicles := sampled_vehicles b @ [current]\<rparr>
      in if \<not> semantic_observation_shadow_ready b \<or> index \<ge> int (length (observed_vehicles b)) then b
         else fold (emit_unit_event g index) (unit_events g faction_id (observed_vehicles b ! nat index) current) b)"

definition shadow_base :: "game \<Rightarrow> int \<Rightarrow> base \<Rightarrow> base_shadow" where
  "shadow_base g faction_id base = \<lparr>bs_present = True,
     bs_visible = (base_faction_id base = faction_id
       \<or> (case sq_at g (base_x base) (base_y base) of None \<Rightarrow> False | Some sq \<Rightarrow> MAP_is_visible sq faction_id)),
     bs_faction_id = base_faction_id base, bs_x = base_x base, bs_y = base_y base,
     bs_population = base_pop_size base\<rparr>"

definition base_events :: "game \<Rightarrow> int \<Rightarrow> base_shadow \<Rightarrow> base_shadow \<Rightarrow> obs_event list" where
  "base_events g index prior current =
     (let here = semantic_tile_id g (bs_x current) (bs_y current);
          ev = (\<lambda>kind old new. (new_event kind (CurrentTurn g))\<lparr>oe_subject_a := index, oe_subject_b := bs_faction_id current,
                  oe_from_tile_id := here, oe_to_tile_id := here, oe_value_before := old, oe_value_after := new,
                  oe_continuous_visibility := True\<rparr>)
      in if bs_present prior \<and> bs_x prior = bs_x current \<and> bs_y prior = bs_y current \<and> bs_visible prior \<and> bs_visible current
         then (if bs_faction_id prior \<noteq> bs_faction_id current
               then [ev ''visible_base_captured'' (bs_faction_id prior) (bs_faction_id current)]
               else if bs_population prior \<noteq> bs_population current
               then [ev ''visible_base_changed'' (bs_population prior) (bs_population current)]
               else [])
         else [])"

definition observe_base :: "game \<Rightarrow> int \<Rightarrow> int \<Rightarrow> bridge \<Rightarrow> bridge" where
  "observe_base g faction_id index b =
     (let current = shadow_base g faction_id (Bases g index);
          b = b\<lparr>sampled_bases := sampled_bases b @ [current]\<rparr>
      in if \<not> semantic_observation_shadow_ready b \<or> index \<ge> int (length (observed_bases b)) then b
         else fold append_observation_event (base_events g index (observed_bases b ! nat index) current) b)"

definition blank_tile_shadow :: tile_shadow where
  "blank_tile_shadow = \<lparr>ts_sampled = False, ts_known = False, ts_visible = False, ts_items = 0,
     ts_altitude = - 1, ts_climate = - 1, ts_owner = - 1\<rparr>"

definition shadow_tile :: "game \<Rightarrow> int \<Rightarrow> int \<Rightarrow> int \<Rightarrow> tile \<Rightarrow> tile_shadow" where
  "shadow_tile g faction_id x y sq =
     (let current = blank_tile_shadow\<lparr>ts_sampled := True, ts_known := is_known g x y faction_id\<rparr> in
      if ts_known current
      then let visible = MAP_is_visible sq faction_id in
        current\<lparr>ts_visible := visible,
          ts_items := (if visible then sq_items sq else sq_visible_items sq (faction_id - 1)),
          ts_altitude := (if visible then MAP_alt_level sq else - 1),
          ts_climate := (if visible then uint (sq_climate sq) else - 1),
          ts_owner := (if visible then sq_owner sq else - 1)\<rparr>
      else current)"

text \<open>The cast of the item bits to \<open>int\<close> is the signed reading of the word.\<close>

definition tile_events :: "game \<Rightarrow> int \<Rightarrow> tile_shadow \<Rightarrow> tile_shadow \<Rightarrow> obs_event list" where
  "tile_events g tile_id prior current =
     (let ev = (\<lambda>kind old new. (new_event kind (CurrentTurn g))\<lparr>oe_subject_a := tile_id, oe_from_tile_id := tile_id,
                  oe_to_tile_id := tile_id, oe_value_before := old, oe_value_after := new,
                  oe_continuous_visibility := True\<rparr>);
          known = (ts_sampled prior \<and> ts_known prior \<and> ts_known current)
      in if known \<and> ts_visible prior \<noteq> ts_visible current
         then [ev ''known_tile_visibility'' (of_bool (ts_visible prior)) (of_bool (ts_visible current))]
         else if known \<and> ts_visible prior = ts_visible current
            \<and> (ts_items prior \<noteq> ts_items current \<or> ts_altitude prior \<noteq> ts_altitude current
               \<or> ts_climate prior \<noteq> ts_climate current \<or> ts_owner prior \<noteq> ts_owner current)
         then [ev ''known_tile_changed'' (sint (ts_items prior)) (sint (ts_items current))]
         else [])"

definition observe_tile :: "game \<Rightarrow> int \<Rightarrow> nat \<Rightarrow> bridge \<Rightarrow> bridge" where
  "observe_tile g faction_id tile_id b =
     (case semantic_tile_coords g (int tile_id) of None \<Rightarrow> b
      | Some (x, y) \<Rightarrow> (case sq_at g x y of None \<Rightarrow> b
         | Some sq \<Rightarrow>
             (let current = shadow_tile g faction_id x y sq;
                  b = (if semantic_observation_shadow_ready b
                       then fold append_observation_event (tile_events g (int tile_id) (observed_tiles b ! tile_id) current) b
                       else b)
              in b\<lparr>observed_tiles := (observed_tiles b)[tile_id := current]\<rparr>)))"

text \<open>What the last started popup shows: its generation, label and substituted strings (gui_dialog.cpp).\<close>

record popup_view =
  pv_generation :: nat
  pv_label :: string
  pv_parse_string :: "nat \<Rightarrow> string"

definition semantic_project_id_from_name :: "game \<Rightarrow> string \<Rightarrow> int" where
  "semantic_project_id_from_name g name =
     (if name = [] then - 1
      else (case List.find (\<lambda>i. name = cfac_name (Facility g i)) [SP_ID_First..SP_ID_Last] of
              None \<Rightarrow> - 1 | Some i \<Rightarrow> i))"

definition semantic_faction_id_from_report_name :: "game \<Rightarrow> string \<Rightarrow> int" where
  "semantic_faction_id_from_report_name g name =
     (if name = [] then - 1
      else (case List.find (\<lambda>i. let m = MFactions g i in name = mf_noun_faction m \<or> name = mf_adj_name_faction m
                  \<or> name = mf_formal_name_faction m \<or> name = mf_name_leader m) [1..MaxPlayerNum - 1] of
              None \<Rightarrow> - 1 | Some i \<Rightarrow> i))"

text \<open>The kind of event, the project, the abandoned project and the faction a project report is about.\<close>

definition project_report :: "game \<Rightarrow> popup_view \<Rightarrow> (string \<times> int \<times> int \<times> int) option" where
  "project_report g p =
     (let project = (\<lambda>n. semantic_project_id_from_name g (pv_parse_string p n));
          faction = (\<lambda>n. semantic_faction_id_from_report_name g (pv_parse_string p n))
      in if pv_label p = ''BEGINPROJECT'' then Some (''project_race_started'', project 3, - 1, faction 2)
         else if pv_label p = ''CHANGEPROJECT'' then Some (''project_race_changed'', project 3, project 1, faction 2)
         else if pv_label p = ''HALTPROJECT'' then Some (''project_race_halted'', project 3, - 1, faction 2)
         else if pv_label p = ''SURVIVEPROJECT'' then Some (''project_race_continued'', project 1, - 1, faction 0)
         else if pv_label p = ''DONEPROJECT'' then Some (''project_race_nearing_completion'', project 1, - 1, faction 0)
         else None)"

definition capture_project_report_popup :: "game \<Rightarrow> popup_view \<Rightarrow> bridge \<Rightarrow> bridge" where
  "capture_project_report_popup g p b =
     (if pv_generation p = 0 \<or> pv_generation p = last_observed_popup_generation b then b
      else let b = b\<lparr>last_observed_popup_generation := pv_generation p\<rparr> in
        (case project_report g p of None \<Rightarrow> b
         | Some (kind, project_id, prior_project_id, faction_id) \<Rightarrow>
             if project_id < SP_ID_First \<or> project_id > SP_ID_Last then b
             else let b = (if prior_project_id \<ge> SP_ID_First \<and> prior_project_id \<le> SP_ID_Last
                           then b\<lparr>known_project_builder_valid := (known_project_builder_valid b)(prior_project_id := False)\<rparr>
                           else b);
                      b = (if kind \<noteq> ''project_race_halted''
                           then b\<lparr>known_project_builder := (known_project_builder b)(project_id := faction_id),
                                  known_project_builder_valid := (known_project_builder_valid b)(project_id := (faction_id \<ge> 1))\<rparr>
                           else b\<lparr>known_project_builder_valid := (known_project_builder_valid b)(project_id := False)\<rparr>)
               in append_observation_event ((new_event kind (CurrentTurn g))\<lparr>oe_subject_a := project_id,
                    oe_subject_b := faction_id, oe_value_before := prior_project_id, oe_value_after := project_id\<rparr>) b))"

definition reset_project_report_memory :: "bridge \<Rightarrow> bridge" where
  "reset_project_report_memory b = b\<lparr>last_observed_popup_generation := 0,
     known_project_builder := (\<lambda>_. 0), known_project_builder_valid := (\<lambda>_. False)\<rparr>"

definition semantic_observation_timer_proc :: "game \<Rightarrow> popup_view \<Rightarrow> bridge \<Rightarrow> bridge" where
  "semantic_observation_timer_proc g p b =
     (if \<not> lock_initialized b \<or> \<not> game_active g
      then (reset_project_report_memory (reset_semantic_observation_shadow b))\<lparr>semantic_vehicle_handles := []\<rparr>
      else let faction_id = CurrentPlayerFaction g in
        if faction_id < 1 \<or> faction_id \<ge> MaxPlayerNum then reset_semantic_observation_shadow b
        else let
          b = (if semantic_observation_faction b \<noteq> faction_id
               then (reset_project_report_memory (reset_semantic_observation_shadow b))\<lparr>semantic_observation_faction := faction_id\<rparr>
               else b);
          b = capture_project_report_popup g p b;
          b = ensure_semantic_vehicle_handles g b;
          b = fold (observe_unit g faction_id) [0..VehCount g - 1] (b\<lparr>sampled_vehicles := []\<rparr>);
          b = fold (observe_base g faction_id) [0..BaseCount g - 1] (b\<lparr>sampled_bases := []\<rparr>);
          tiles = nat (max 0 (MapAreaTiles g));
          b = (if length (observed_tiles b) \<noteq> tiles
               then b\<lparr>observed_tiles := replicate tiles blank_tile_shadow, observed_tile_cursor := 0\<rparr> else b);
          sample_count = min 512 tiles; cursor = observed_tile_cursor b;
          b = fold (\<lambda>scanned. observe_tile g faction_id ((cursor + scanned) mod tiles)) [0..<sample_count] b;
          b = (if tiles \<noteq> 0 then b\<lparr>observed_tile_cursor := (cursor + sample_count) mod tiles\<rparr> else b)
        in b\<lparr>observed_vehicles := sampled_vehicles b, sampled_vehicles := observed_vehicles b,
             observed_bases := sampled_bases b, sampled_bases := observed_bases b,
             semantic_observation_shadow_ready := True\<rparr>)"

subsection \<open>Hooks called by the rules of the game\<close>

definition erase_row :: "int \<Rightarrow> 'a list \<Rightarrow> 'a list" where
  "erase_row i xs = (if i < int (length xs) then take (nat i) xs @ drop (Suc (nat i)) xs else xs)"

definition agent_observe_unit_destroyed :: "game \<Rightarrow> int \<Rightarrow> bridge \<Rightarrow> bridge" where
  "agent_observe_unit_destroyed g veh_id b =
     (if \<not> lock_initialized b \<or> \<not> game_active g \<or> veh_id < 0 \<or> veh_id \<ge> VehCount g then b
      else let perspective = CurrentPlayerFaction g; v = Vehs g veh_id;
          b = ensure_semantic_vehicle_handles g b;
          b = (if perspective \<ge> 1 \<and> perspective < MaxPlayerNum
                  \<and> (veh_faction_id v = perspective \<or> bit (veh_visibility v) (nat perspective))
               then (let (b, stable_handle) = semantic_vehicle_handle g veh_id b;
                         tile_id = semantic_tile_id g (veh_x v) (veh_y v)
                 in append_observation_event ((new_event ''visible_unit_destroyed'' (CurrentTurn g))\<lparr>
                      oe_subject_a := stable_handle, oe_subject_b := veh_faction_id v, oe_from_tile_id := tile_id,
                      oe_to_tile_id := tile_id, oe_value_before := VEH_cur_hitpoints g v, oe_value_after := 0,
                      oe_continuous_visibility := True,
                      oe_item_name := (if veh_faction_id v = perspective \<and> stable_handle = support_loss_handle b
                        then ''support_shortage'' else [])\<rparr>) b)
               else b)
      in b\<lparr>semantic_vehicle_handles := erase_row veh_id (semantic_vehicle_handles b),
           observed_vehicles := erase_row veh_id (observed_vehicles b),
           sampled_vehicles := erase_row veh_id (sampled_vehicles b)\<rparr>)"

text \<open>The guard shared by the hooks about an owned base, and the one of the hooks about a visible base.\<close>

definition own_base_hook :: "game \<Rightarrow> bridge \<Rightarrow> int \<Rightarrow> bool" where
  "own_base_hook g b base_id \<longleftrightarrow> \<not> (\<not> lock_initialized b \<or> \<not> game_active g \<or> base_id < 0 \<or> base_id \<ge> BaseCount g
     \<or> CurrentPlayerFaction g < 1 \<or> CurrentPlayerFaction g \<ge> MaxPlayerNum
     \<or> base_faction_id (Bases g base_id) \<noteq> CurrentPlayerFaction g)"

definition seen_base_hook :: "game \<Rightarrow> bridge \<Rightarrow> int \<Rightarrow> bool \<Rightarrow> bool" where
  "seen_base_hook g b base_id own \<longleftrightarrow>
     \<not> (\<not> lock_initialized b \<or> \<not> game_active g \<or> base_id < 0 \<or> base_id \<ge> BaseCount g)
     \<and> (let perspective = CurrentPlayerFaction g; base = Bases g base_id in
          \<not> (perspective < 1 \<or> perspective \<ge> MaxPlayerNum
             \<or> (\<not> own \<and> \<not> (case sq_at g (base_x base) (base_y base) of None \<Rightarrow> False
                         | Some sq \<Rightarrow> MAP_is_visible sq perspective))))"

definition base_event :: "game \<Rightarrow> int \<Rightarrow> string \<Rightarrow> obs_event" where
  "base_event g base_id kind =
     (let base = Bases g base_id; tile_id = semantic_tile_id g (base_x base) (base_y base)
      in (new_event kind (CurrentTurn g))\<lparr>oe_subject_a := base_id, oe_from_tile_id := tile_id, oe_to_tile_id := tile_id,
           oe_continuous_visibility := True\<rparr>)"

definition prod_name :: "game \<Rightarrow> int \<Rightarrow> string" where
  "prod_name g item_id = (if item_id \<ge> 0 then unit_name (Units g item_id) else cfac_name (Facility g (- item_id)))"

definition agent_observe_production_completed :: "game \<Rightarrow> int \<Rightarrow> int \<Rightarrow> int \<Rightarrow> int \<Rightarrow> bridge \<Rightarrow> bridge" where
  "agent_observe_production_completed g base_id production_id category veh_id b =
     (if \<not> own_base_hook g b base_id then b
      else let (b, handle) = (if veh_id \<ge> 0 \<and> veh_id < VehCount g then semantic_vehicle_handle g veh_id b else (b, - 1))
        in append_observation_event ((base_event g base_id ''owned_production_completed'')\<lparr>oe_subject_b := production_id,
             oe_value_before := category, oe_value_after := handle, oe_item_name := prod_name g production_id\<rparr>) b)"

definition agent_observe_native_raid_effect :: "game \<Rightarrow> int \<Rightarrow> string \<Rightarrow> int \<Rightarrow> int \<Rightarrow> bridge \<Rightarrow> bridge" where
  "agent_observe_native_raid_effect g base_id effect before after b =
     (if \<not> own_base_hook g b base_id then b
      else append_observation_event ((base_event g base_id ''owned_native_raid_effect'')\<lparr>oe_value_before := before,
             oe_value_after := after, oe_item_name := effect\<rparr>) b)"

definition agent_observe_project_interrupted :: "game \<Rightarrow> int \<Rightarrow> int \<Rightarrow> bridge \<Rightarrow> bridge" where
  "agent_observe_project_interrupted g base_id production_id b =
     (if \<not> own_base_hook g b base_id then b
      else append_observation_event ((base_event g base_id ''owned_project_interrupted'')\<lparr>oe_subject_b := production_id,
             oe_value_before := 0, oe_value_after := 0, oe_item_name := prod_name g production_id\<rparr>) b)"

definition queue_event :: "game \<Rightarrow> int \<Rightarrow> string \<Rightarrow> obs_event" where
  "queue_event g base_id kind = (let base = Bases g base_id in
     (base_event g base_id kind)\<lparr>oe_subject_b := base_queue_items base 0, oe_value_before := base_queue_size base,
        oe_item_name := prod_name g (base_queue_items base 0)\<rparr>)"

definition agent_observe_production_queue :: "game \<Rightarrow> int \<Rightarrow> bool \<Rightarrow> bridge \<Rightarrow> bridge" where
  "agent_observe_production_queue g base_id advanced b =
     (if \<not> own_base_hook g b base_id then b
      else append_observation_event (queue_event g base_id
             (if advanced then ''owned_queue_advanced'' else ''owned_queue_exhausted'')) b)"

definition agent_observe_production_selection :: "game \<Rightarrow> int \<Rightarrow> bool \<Rightarrow> bridge \<Rightarrow> bridge" where
  "agent_observe_production_selection g base_id repeat b =
     (if \<not> own_base_hook g b base_id then b
      else append_observation_event (queue_event g base_id
             (if repeat then ''owned_production_repeat'' else ''owned_production_fallback'')) b)"

definition agent_observe_base_founded :: "game \<Rightarrow> int \<Rightarrow> bridge \<Rightarrow> bridge" where
  "agent_observe_base_founded g base_id b =
     (let base = Bases g base_id in
      if \<not> seen_base_hook g b base_id (base_faction_id base = CurrentPlayerFaction g) then b
      else append_observation_event ((base_event g base_id ''visible_base_founded'')\<lparr>oe_subject_b := base_faction_id base,
             oe_from_tile_id := - 1, oe_value_after := base_pop_size base\<rparr>) b)"

definition drop_base_shadow :: "bridge \<Rightarrow> bridge" where
  "drop_base_shadow b = b\<lparr>observed_bases := [], semantic_observation_shadow_ready := False\<rparr>"

definition agent_observe_base_destroyed :: "game \<Rightarrow> int \<Rightarrow> bridge \<Rightarrow> bridge" where
  "agent_observe_base_destroyed g base_id b =
     (let base = Bases g base_id in
      if \<not> seen_base_hook g b base_id (base_faction_id base = CurrentPlayerFaction g) then b
      else drop_base_shadow (append_observation_event ((base_event g base_id ''visible_base_destroyed'')\<lparr>
             oe_subject_b := base_faction_id base, oe_value_before := base_pop_size base, oe_value_after := 0\<rparr>) b))"

definition agent_observe_base_captured :: "game \<Rightarrow> int \<Rightarrow> int \<Rightarrow> int \<Rightarrow> bridge \<Rightarrow> bridge" where
  "agent_observe_base_captured g base_id old_faction_id new_faction_id b =
     (if \<not> seen_base_hook g b base_id (old_faction_id = CurrentPlayerFaction g \<or> new_faction_id = CurrentPlayerFaction g) then b
      else drop_base_shadow (append_observation_event ((base_event g base_id ''visible_base_captured'')\<lparr>
             oe_subject_b := new_faction_id, oe_value_before := old_faction_id, oe_value_after := new_faction_id\<rparr>) b))"

subsection \<open>Chat\<close>

definition append_chat_event :: "game \<Rightarrow> bool \<Rightarrow> bool \<Rightarrow> int \<Rightarrow> int \<Rightarrow> string \<Rightarrow> string \<Rightarrow> bridge \<Rightarrow> bridge" where
  "append_chat_event g outbound broadcast sender recipient txt client_message_id b =
     (let log = (if length (chat_events b) = MaxChatEvents then drop 1 (chat_events b) else chat_events b);
          turn = (if game_active g then CurrentTurn g else - 1);
          e = \<lparr>ce_sequence = next_chat_sequence b, ce_outbound = outbound, ce_broadcast = broadcast,
               ce_sender_faction_id = sender, ce_recipient_faction_id = recipient, ce_turn = turn, ce_text = txt,
               ce_client_message_id = client_message_id\<rparr>
      in append_observation_event ((new_event (if outbound then ''chat_outbound'' else ''chat_inbound'') turn)\<lparr>
           oe_subject_a := sender, oe_subject_b := recipient\<rparr>)
           (b\<lparr>chat_events := log @ [e], next_chat_sequence := next_chat_sequence b + 1\<rparr>))"

definition find_outbound_chat :: "bridge \<Rightarrow> string \<Rightarrow> chat_event option" where
  "find_outbound_chat b client_message_id =
     (if client_message_id = [] then None
      else List.find (\<lambda>e. ce_outbound e \<and> ce_client_message_id e = client_message_id) (chat_events b))"

text \<open>\<open>smac_chat(send)\<close>. The identity of the match and session, the player table of the lobby and the packet
  sender of the network library are arguments; the result says what the response reports.\<close>

datatype chat_result = ChatError string | ChatDuplicate chat_event | ChatSent int chat_event

definition chat_send ::
    "string \<Rightarrow> string \<Rightarrow> (int \<Rightarrow> int) \<Rightarrow> (int \<Rightarrow> int \<Rightarrow> string \<Rightarrow> int)
     \<Rightarrow> game \<Rightarrow> string \<Rightarrow> bridge \<Rightarrow> bridge \<times> chat_result" where
  "chat_send match_id session_id player_index message_chat g request b =
     (let match = field_string request ''match_id''; session = field_string request ''session_id'';
          message_id = field_string request ''client_message_id'';
          txt = field_string request ''text''; sender = CurrentPlayerFaction g;
          recipient = field_int request ''recipient_faction_id'' 0; broadcast = (recipient = 0)
      in if match = [] \<or> session = [] then (b, ChatError ''missing_chat_identity'')
         else if match \<noteq> match_id \<or> session \<noteq> session_id then (b, ChatError ''wrong_game_identity'')
         else if \<not> game_active g \<or> \<not> MultiplayerActive g then (b, ChatError ''multiplayer_chat_unavailable'')
         else if \<not> valid_chat_identifier message_id then (b, ChatError ''invalid_client_message_id'')
         else (case find_outbound_chat b message_id of
             Some duplicate \<Rightarrow> (b, ChatDuplicate duplicate)
           | None \<Rightarrow>
               if \<not> valid_chat_text txt then (b, ChatError ''invalid_chat_text'')
               else if sender < 1 \<or> sender \<ge> MaxPlayerNum \<or> player_index sender < 1
               then (b, ChatError ''local_player_not_connected'')
               else if \<not> broadcast \<and> (recipient < 1 \<or> recipient \<ge> MaxPlayerNum \<or> recipient = sender
                        \<or> player_index recipient < 1 \<or> \<not> treaty g sender recipient DIPLO_COMMLINK)
               then (b, ChatError ''chat_recipient_unavailable'')
               else let sent = message_chat (if broadcast then 0x4E00 else 0x1E00) recipient txt in
                 if sent \<le> 0 then (b, ChatError ''native_chat_send_failed'')
                 else let b = append_chat_event g True broadcast sender (if broadcast then - 1 else recipient) txt message_id b
                   in (b, ChatSent sent (last (chat_events b)))))"

subsection \<open>The guard of mutating commands\<close>

text \<open>The empty text accepts the command. The revision is the token of the current state.\<close>

definition validate_semantic_guard :: "string \<Rightarrow> string \<Rightarrow> string \<Rightarrow> string \<Rightarrow> string" where
  "validate_semantic_guard agent_match_id agent_session_id revision request =
     (let session = field_string request ''session_id''; match = field_string request ''match_id'';
          expected = field_string request ''expected_revision''
      in if session = [] \<or> match = [] \<or> expected = []
         then error_response ''missing_state_guard''
           ''Mutating commands require match_id, session_id, and expected_revision from the latest snapshot.''
         else if session \<noteq> agent_session_id \<or> match \<noteq> agent_match_id
         then json_text ''{~ok~:false,~error~:{~code~:~wrong_game_identity~,~message~:~The command targets a different match or process session. Observe again.~},~current_match_id~:''
           @ json_string agent_match_id @ json_text '',~current_session_id~:'' @ json_string agent_session_id @ ''}''
         else if expected \<noteq> revision
         then json_text ''{~ok~:false,~error~:{~code~:~stale_state~,~message~:~Fair game state changed after observation; inspect a fresh snapshot and choices.~},~current_revision~:''
           @ json_string revision @ ''}''
         else [])"

subsection \<open>The ring refines a log\<close>

lemma mod_apart:
  assumes "i \<noteq> j" "i < n" "j < n"
  shows "(s + i) mod n \<noteq> (s + j) mod (n::nat)"
proof -
  have "(s + a) mod n \<noteq> (s + b) mod n" if "a < b" "b < n" for a b
  proof
    assume "(s + a) mod n = (s + b) mod n"
    then have "n dvd (s + b) - (s + a)" using that by (metis add_le_cancel_left less_imp_le mod_eq_dvd_iff_nat)
    with that show False by (auto dest: dvd_imp_le)
  qed
  with assms show ?thesis by (metis linorder_neqE_nat)
qed

definition log_ring_ok :: "bridge \<Rightarrow> bool" where
  "log_ring_ok b \<longleftrightarrow> observation_event_count b \<le> MaxObservationEvents
     \<and> next_observation_sequence b = lost_after_observation_sequence b + observation_event_count b + 1
     \<and> map oe_sequence (ring_events b) = [lost_after_observation_sequence b + 1 ..< next_observation_sequence b]"

lemma length_ring_events [simp]: "length (ring_events b) = observation_event_count b"
  by (simp add: ring_events_def)

lemma ring_events_append:
  assumes "oe_kind e \<noteq> []" "observation_event_count b \<le> MaxObservationEvents"
  shows "ring_events (append_observation_event e b) =
    (if observation_event_count b < MaxObservationEvents then ring_events b else tl (ring_events b))
      @ [stored_event (next_observation_sequence b) e]"
proof (cases "observation_event_count b < MaxObservationEvents")
  case True
  let ?s = "observation_event_start b" and ?c = "observation_event_count b"
  have "(?s + i) mod MaxObservationEvents \<noteq> (?s + ?c) mod MaxObservationEvents" if "i < ?c" for i
    using mod_apart [of i ?c MaxObservationEvents ?s] that True by simp
  with True assms(1) show ?thesis
    by (simp add: append_observation_event_def ring_events_def Let_def)
next
  case False
  let ?s = "observation_event_start b" and ?n = MaxObservationEvents
  have c: "observation_event_count b = ?n" using False assms(2) by simp
  have n: "0 < ?n" by (simp add: MaxObservationEvents_def)
  then have up: "[0..<?n] = [0..<?n - 1] @ [?n - 1]" by (metis Suc_diff_1 upt_Suc_append zero_le)
  have last: "((?s + 1) mod ?n + ?n - 1) mod ?n = ?s mod ?n"
  proof -
    have "((?s + 1) mod ?n + (?n - 1)) mod ?n = (?s + 1 + (?n - 1)) mod ?n" by (rule mod_add_left_eq)
    then show ?thesis using n by simp
  qed
  have apart: "(?s + Suc i) mod ?n \<noteq> ?s mod ?n" if "i < ?n - 1" for i
    using mod_apart [of "Suc i" 0 ?n ?s] that n by simp
  have tl: "tl (ring_events b) = map (\<lambda>i. observation_events b ((?s + Suc i) mod ?n)) [0..<?n - 1]"
  proof -
    have "[Suc 0..<?n] = map Suc [0..<?n - 1]" using n by (simp add: map_Suc_upt)
    then show ?thesis unfolding ring_events_def c by (simp add: map_tl [symmetric] tl_upt comp_def)
  qed
  let ?e = "stored_event (next_observation_sequence b) e" and ?s' = "(?s + 1) mod ?n"
  have "ring_events (append_observation_event e b) =
      map (\<lambda>i. ((observation_events b)((?s' + ?n - 1) mod ?n := ?e)) ((?s' + i) mod ?n)) [0..<?n]"
    using False assms(1) c by (simp add: append_observation_event_def ring_events_def Let_def)
  also have "\<dots> = map (\<lambda>i. ((observation_events b)(?s mod ?n := ?e)) ((?s + Suc i) mod ?n)) [0..<?n]"
    unfolding last by (simp add: mod_add_left_eq mod_Suc_eq)
  also have "\<dots> = tl (ring_events b) @ [?e]"
    unfolding tl up using apart n by simp
  finally show ?thesis using False by simp
qed

lemma lost_after_append:
  assumes "oe_kind e \<noteq> []"
  shows "lost_after_observation_sequence (append_observation_event e b) =
      (if observation_event_count b < MaxObservationEvents then lost_after_observation_sequence b
       else oe_sequence (observation_events b (observation_event_start b)))"
    "observation_event_count (append_observation_event e b) =
      (if observation_event_count b < MaxObservationEvents then observation_event_count b + 1 else observation_event_count b)"
    "next_observation_sequence (append_observation_event e b) = next_observation_sequence b + 1"
  using assms by (simp_all add: append_observation_event_def Let_def)

lemma append_nothing [simp]: "oe_kind e = [] \<Longrightarrow> append_observation_event e b = b"
  by (simp add: append_observation_event_def)

lemma oldest_sequence:
  assumes "log_ring_ok b" "observation_event_count b \<noteq> 0"
  shows "oe_sequence (hd (ring_events b)) = lost_after_observation_sequence b + 1"
    "oe_sequence (observation_events b (observation_event_start b mod MaxObservationEvents)) = lost_after_observation_sequence b + 1"
proof -
  have ne: "ring_events b \<noteq> []" using assms(2) by (metis length_0_conv length_ring_events)
  then have "oe_sequence (hd (ring_events b)) = hd (map oe_sequence (ring_events b))" by (simp add: hd_map)
  also have "\<dots> = lost_after_observation_sequence b + 1" using assms by (simp add: log_ring_ok_def hd_upt del: upt_Suc)
  finally show "oe_sequence (hd (ring_events b)) = lost_after_observation_sequence b + 1" .
  moreover have "hd (ring_events b) = observation_events b (observation_event_start b mod MaxObservationEvents)"
    using assms(2) by (simp add: ring_events_def hd_map)
  ultimately show "oe_sequence (observation_events b (observation_event_start b mod MaxObservationEvents))
      = lost_after_observation_sequence b + 1" by simp
qed

definition start_ok :: "bridge \<Rightarrow> bool" where
  "start_ok b \<longleftrightarrow> observation_event_start b < MaxObservationEvents"

lemma start_ok_append: "start_ok b \<Longrightarrow> start_ok (append_observation_event e b)"
  by (simp add: append_observation_event_def start_ok_def Let_def MaxObservationEvents_def)

lemma ring_ok_append:
  assumes "log_ring_ok b" "start_ok b"
  shows "log_ring_ok (append_observation_event e b)"
proof (cases "oe_kind e = []")
  case False
  let ?b = "append_observation_event e b"
  let ?lost = "lost_after_observation_sequence b" and ?next = "next_observation_sequence b"
  have r: "observation_event_count b \<le> MaxObservationEvents" "?next = ?lost + observation_event_count b + 1"
    "map oe_sequence (ring_events b) = [?lost + 1..<?next]"
    using assms(1) by (simp_all add: log_ring_ok_def)
  note ev = ring_events_append [OF False r(1)] and st = lost_after_append [OF False, of b]
  show ?thesis
  proof (cases "observation_event_count b < MaxObservationEvents")
    case True
    then show ?thesis using r ev st by (simp add: log_ring_ok_def stored_event_def)
  next
    case full: False
    then have "observation_event_count b \<noteq> 0" by (simp add: MaxObservationEvents_def)
    then have "oe_sequence (observation_events b (observation_event_start b)) = ?lost + 1"
      using oldest_sequence(2) [OF assms(1)] assms(2) by (simp add: start_ok_def)
    moreover have "map oe_sequence (tl (ring_events b)) = [?lost + 2..<?next]"
      by (simp add: map_tl r(3) tl_upt del: upt_Suc)
    ultimately show ?thesis using full r ev st
      by (simp add: log_ring_ok_def stored_event_def) (simp add: MaxObservationEvents_def)
  qed
qed (use assms in simp)

lemma initial_ring_ok: "log_ring_ok initial_bridge" "start_ok initial_bridge"
  by (simp_all add: log_ring_ok_def start_ok_def initial_bridge_def ring_events_def MaxObservationEvents_def)

text \<open>The abstract log: every event ever appended, numbered from 1.\<close>

definition event_log :: "obs_event list \<Rightarrow> obs_event list" where
  "event_log es = map2 stored_event [1..<length es + 1] es"

lemma event_log_snoc: "event_log (es @ [e]) = event_log es @ [stored_event (length es + 1) e]"
proof -
  have "[1..<length (es @ [e]) + 1] = [1..<length es + 1] @ [length es + 1]" by simp
  then show ?thesis unfolding event_log_def by (simp add: zip_append del: upt_Suc)
qed

lemma length_event_log [simp]: "length (event_log es) = length es"
  by (simp add: event_log_def del: upt_Suc)

lemma ring_refines_log:
  assumes "\<forall>e \<in> set es. oe_kind e \<noteq> []"
  shows "ring_events (fold append_observation_event es initial_bridge) = drop (length es - MaxObservationEvents) (event_log es)
    \<and> log_ring_ok (fold append_observation_event es initial_bridge)
    \<and> start_ok (fold append_observation_event es initial_bridge)
    \<and> next_observation_sequence (fold append_observation_event es initial_bridge) = length es + 1
    \<and> observation_event_count (fold append_observation_event es initial_bridge) = min (length es) MaxObservationEvents"
  using assms
proof (induction es rule: rev_induct)
  case Nil
  then show ?case
    using initial_ring_ok by (simp add: event_log_def) (simp add: initial_bridge_def ring_events_def)
next
  case (snoc e es)
  let ?b = "fold append_observation_event es initial_bridge"
  have IH: "ring_events ?b = drop (length es - MaxObservationEvents) (event_log es)" "log_ring_ok ?b" "start_ok ?b"
    "next_observation_sequence ?b = length es + 1" "observation_event_count ?b = min (length es) MaxObservationEvents"
    using snoc by simp_all
  have k: "oe_kind e \<noteq> []" using snoc.prems by simp
  have "ring_events (append_observation_event e ?b) = drop (length (es @ [e]) - MaxObservationEvents) (event_log (es @ [e]))"
  proof (cases "length es < MaxObservationEvents")
    case True
    then show ?thesis using ring_events_append [OF k, of ?b] IH by (simp add: event_log_snoc)
  next
    case False
    have "tl (drop (length es - MaxObservationEvents) (event_log es)) = drop (Suc (length es) - MaxObservationEvents) (event_log es)"
      using False by (simp add: drop_Suc tl_drop Suc_diff_le)
    then show ?thesis using False ring_events_append [OF k, of ?b] IH by (simp add: event_log_snoc MaxObservationEvents_def)
  qed
  with IH k show ?case
    using ring_ok_append start_ok_append lost_after_append(2,3) [OF k, of ?b] by auto
qed

end
