(* ===== verification/Bridge_Props.thy ===== *)
theory Bridge_Props
  imports Bridge_Observe
begin

section \<open>Correctness of the bridge: event feed, fair view, identities, chat\<close>

text \<open>
  The ring of events refines an unbounded log and the feed delivers it completely; a sample does not depend on
  what the faction cannot see; every operation keeps the invariant of the bridge, so every reachable state has it;
  handles are stable, import is all or nothing, tile identities are a bijection, the guard accepts
  exactly the current state, sending chat is idempotent.
\<close>

text \<open>C24: The observation ring refines a log: after any sequence of events it holds exactly the last 1024 of them, in order,
  numbered from 1 without a gap, and the count, the next number and the number of the last event lost agree
  with the log.\<close>

theorem observation_ring_refines:
  assumes "\<forall>e \<in> set es. oe_kind e \<noteq> []"
  shows "let b = fold append_observation_event es initial_bridge in
    ring_events b = drop (length es - MaxObservationEvents) (event_log es)
    \<and> next_observation_sequence b = length es + 1
    \<and> lost_after_observation_sequence b = length es - MaxObservationEvents
    \<and> map oe_sequence (ring_events b) = [length es - MaxObservationEvents + 1..<length es + 1]"
  using ring_refines_log [OF assms] by (auto simp: Let_def log_ring_ok_def min_def split: if_splits)

theorem observation_ring_refines_witness:
  "map oe_sequence (ring_events (fold append_observation_event [new_event ''a'' 1, new_event ''b'' 1] initial_bridge)) = [1, 2]"
proof -
  let ?es = "[new_event ''a'' 1, new_event ''b'' 1]"
  have "\<forall>e \<in> set ?es. oe_kind e \<noteq> []" by (simp add: new_event_def)
  then have "map oe_sequence (ring_events (fold append_observation_event ?es initial_bridge))
      = [length ?es - MaxObservationEvents + 1..<length ?es + 1]"
    using observation_ring_refines [of ?es] unfolding Let_def by blast
  then show ?thesis by (simp add: MaxObservationEvents_def upt_conv_Cons del: fold.simps)
qed

subsection \<open>The feed\<close>

lemma filter_after:
  "map oe_sequence xs = [a + 1..<n] \<Longrightarrow> filter (\<lambda>e. \<not> oe_sequence e \<le> t) xs = drop (t - a) xs"
proof (induction xs arbitrary: a)
  case (Cons x xs)
  from Cons.prems have "a + 1 < n" by (cases "a + 1 < n") (simp_all del: upt_Suc)
  then have "[a + 1..<n] = (a + 1) # [a + 2..<n]" by (simp add: upt_conv_Cons)
  with Cons.prems have x: "oe_sequence x = a + 1" "map oe_sequence xs = [(a + 1) + 1..<n]" by simp_all
  have IH: "filter (\<lambda>e. \<not> oe_sequence e \<le> t) xs = drop (t - (a + 1)) xs" by (rule Cons.IH [OF x(2)])
  show ?case
  proof (cases "a + 1 \<le> t")
    case True
    then have "t - a = Suc (t - (a + 1))" by simp
    with True IH x(1) show ?thesis by simp
  next
    case False
    with IH x(1) show ?thesis by simp
  qed
qed simp

lemma ring_ok_filter:
  "log_ring_ok b \<Longrightarrow> filter (\<lambda>e. \<not> oe_sequence e \<le> t) (ring_events b)
     = drop (t - lost_after_observation_sequence b) (ring_events b)"
  unfolding log_ring_ok_def by (blast intro: filter_after)

lemma ring_sequence_nth:
  "log_ring_ok b \<Longrightarrow> i < observation_event_count b \<Longrightarrow>
     oe_sequence (ring_events b ! i) = lost_after_observation_sequence b + 1 + i"
proof -
  assume "log_ring_ok b" and i: "i < observation_event_count b"
  then have "map oe_sequence (ring_events b) ! i = [lost_after_observation_sequence b + 1..<next_observation_sequence b] ! i"
    "next_observation_sequence b = lost_after_observation_sequence b + observation_event_count b + 1"
    by (simp_all add: log_ring_ok_def del: upt_Suc)
  with i show ?thesis by (simp del: upt_Suc)
qed

lemma feed_events_drop:
  "log_ring_ok b \<Longrightarrow> feed_events (feed_page b t limit)
     = take limit (drop (t - lost_after_observation_sequence b) (ring_events b))"
  by (simp add: feed_page_def Let_def ring_ok_filter)

lemma last_take_nth: "xs \<noteq> [] \<Longrightarrow> 0 < n \<Longrightarrow> last (take n xs) = xs ! (min n (length xs) - 1)"
  by (subst last_conv_nth) (simp_all add: min.commute)

lemma feed_next_eq:
  assumes "log_ring_ok b" "0 < limit"
  shows "feed_next_sequence (feed_page b t limit) =
    (let a = lost_after_observation_sequence b; c = observation_event_count b
     in if c \<le> t - a then t else a + ((t - a) + min limit (c - (t - a))))"
proof -
  let ?S = "ring_events b" and ?a = "lost_after_observation_sequence b" and ?c = "observation_event_count b"
  let ?D = "drop (t - ?a) ?S" and ?k = "min limit (?c - (t - ?a))"
  have nx: "feed_next_sequence (feed_page b t limit)
      = (if take limit ?D = [] then t else oe_sequence (last (take limit ?D)))"
    by (simp add: feed_page_def Let_def ring_ok_filter [OF assms(1)])
  show ?thesis
  proof (cases "?c \<le> t - ?a")
    case True
    then show ?thesis using nx by simp
  next
    case False
    then have ne: "?D \<noteq> []" and i: "t - ?a + (?k - 1) < ?c" and k: "0 < ?k" using assms(2) by simp_all
    have "last (take limit ?D) = ?S ! (t - ?a + (?k - 1))"
      using last_take_nth [OF ne assms(2)] False by simp
    then have "oe_sequence (last (take limit ?D)) = ?a + 1 + (t - ?a + (?k - 1))"
      using ring_sequence_nth [OF assms(1) i] by simp
    moreover have "\<dots> = ?a + ((t - ?a) + ?k)" using k by linarith
    moreover have "take limit ?D \<noteq> []" using ne assms(2) by (simp del: drop_eq_Nil)
    ultimately show ?thesis using nx False unfolding Let_def by (simp only: if_False)
  qed
qed

lemma feed_next:
  assumes "log_ring_ok b" "0 < limit"
  shows "drop (feed_next_sequence (feed_page b t limit) - lost_after_observation_sequence b) (ring_events b)
    = drop limit (drop (t - lost_after_observation_sequence b) (ring_events b))"
proof (cases "observation_event_count b \<le> t - lost_after_observation_sequence b")
  case True
  then show ?thesis by (simp add: feed_next_eq [OF assms] Let_def)
next
  case False
  let ?d = "t - lost_after_observation_sequence b" and ?c = "observation_event_count b"
  have "feed_next_sequence (feed_page b t limit) - lost_after_observation_sequence b = ?d + min limit (?c - ?d)"
    using False by (simp add: feed_next_eq [OF assms] Let_def)
  moreover have "drop (?d + min limit (?c - ?d)) (ring_events b) = drop limit (drop ?d (ring_events b))"
    using False by (cases "limit \<le> ?c - ?d") (simp_all add: add.commute)
  ultimately show ?thesis by simp
qed

text \<open>Repeated requests, each starting after the sequence number the previous one returned.\<close>

fun poll_feed :: "nat \<Rightarrow> bridge \<Rightarrow> nat \<Rightarrow> nat \<Rightarrow> obs_event list" where
  "poll_feed 0 b after limit = []"
| "poll_feed (Suc k) b after limit =
     (let page = feed_page b after limit
      in feed_events page @ poll_feed k b (feed_next_sequence page) limit)"

lemma poll_feed_take:
  assumes "log_ring_ok b" "0 < limit"
  shows "poll_feed k b t limit = take (k * limit) (drop (t - lost_after_observation_sequence b) (ring_events b))"
proof (induction k arbitrary: t)
  case (Suc k)
  then show ?case
    by (simp add: Let_def feed_events_drop [OF assms(1)] feed_next [OF assms] take_add del: drop_drop)
qed simp

lemma has_more_iff:
  assumes "log_ring_ok b" "0 < limit" "t < next_observation_sequence b"
  shows "feed_has_more (feed_page b t limit) \<longleftrightarrow>
    limit < observation_event_count b - (t - lost_after_observation_sequence b)"
proof -
  let ?S = "ring_events b" and ?a = "lost_after_observation_sequence b" and ?c = "observation_event_count b"
  have n: "next_observation_sequence b = ?a + ?c + 1" using assms(1) by (simp add: log_ring_ok_def)
  show ?thesis
  proof (cases "?c = 0")
    case True
    then show ?thesis by (simp add: feed_page_def Let_def)
  next
    case False
    have "oe_sequence (observation_events b ((observation_event_start b + ?c - 1) mod MaxObservationEvents)) = ?a + ?c"
      using ring_sequence_nth [OF assms(1), of "?c - 1"] False by (simp add: ring_events_def)
    then have more: "feed_has_more (feed_page b t limit) \<longleftrightarrow> ?a + ?c > feed_next_sequence (feed_page b t limit)"
      using False by (simp add: feed_page_def Let_def)
    show ?thesis
    proof (cases "?c \<le> t - ?a")
      case True
      then show ?thesis unfolding more feed_next_eq [OF assms(1,2)] Let_def using assms(3) n False by simp
    next
      case f: False
      then show ?thesis unfolding more feed_next_eq [OF assms(1,2)] Let_def by (simp add: min_def) arith
    qed
  qed
qed



subsection \<open>Units killed for lack of support, chat received\<close>

text \<open>\<open>agent_kill_unsupported_unit\<close>: \<open>kill\<close> is the destruction of the unit in the game, which calls the hook
  above; the previous cause is restored on the way out.\<close>

definition agent_kill_unsupported_unit :: "(bridge \<Rightarrow> bridge) \<Rightarrow> game \<Rightarrow> int \<Rightarrow> bridge \<Rightarrow> bridge" where
  "agent_kill_unsupported_unit kill g veh_id b =
     (let previous = support_loss_handle b;
          b = b\<lparr>support_loss_handle := - 1\<rparr>;
          b = (if lock_initialized b \<and> game_active g \<and> veh_id \<ge> 0 \<and> veh_id < VehCount g
               then let (b, handle) = semantic_vehicle_handle g veh_id (ensure_semantic_vehicle_handles g b)
                 in b\<lparr>support_loss_handle := handle\<rparr>
               else b)
      in (kill b)\<lparr>support_loss_handle := previous\<rparr>)"

text \<open>The recording part of \<open>agent_chat_display\<close>; the text is shown on the screen afterwards.\<close>

definition agent_chat_display :: "game \<Rightarrow> string \<Rightarrow> int \<Rightarrow> bridge \<Rightarrow> bridge" where
  "agent_chat_display g txt sender_faction_id b =
     (if txt \<noteq> [] \<and> sender_faction_id \<ge> 1 \<and> sender_faction_id < MaxPlayerNum
      then append_chat_event g False False sender_faction_id (- 1)
             (case find_after '': '' txt of None \<Rightarrow> txt | Some payload \<Rightarrow> payload) [] b
      else b)"

definition chat_feed :: "bridge \<Rightarrow> string \<Rightarrow> nat \<times> chat_event list" where
  "chat_feed b request =
     (let after_sequence = nat (max 0 (field_int request ''after_sequence'' 0))
      in (next_chat_sequence b - 1, filter (\<lambda>e. \<not> ce_sequence e \<le> after_sequence) (chat_events b)))"

subsection \<open>Invariant of the bridge\<close>

text \<open>Handles given to rows are distinct and below the next one; zero is a row without a handle yet.\<close>

definition handles_ok :: "int list \<Rightarrow> int \<Rightarrow> bool" where
  "handles_ok handles next_handle \<longleftrightarrow> distinct (filter (\<lambda>h. 0 < h) handles)
     \<and> (\<forall>h \<in> set handles. 0 \<le> h \<and> h < next_handle) \<and> 1 \<le> next_handle"

text \<open>The chat log is numbered without a gap and an outbound message id occurs once.\<close>

definition outbound_ids :: "chat_event list \<Rightarrow> string list" where
  "outbound_ids es = map ce_client_message_id (filter ce_outbound es)"

definition chat_ok :: "chat_event list \<Rightarrow> nat \<Rightarrow> bool" where
  "chat_ok es next_seq \<longleftrightarrow> length es \<le> MaxChatEvents \<and> length es < next_seq
     \<and> map ce_sequence es = [next_seq - length es..<next_seq]
     \<and> distinct (outbound_ids es) \<and> [] \<notin> set (outbound_ids es)"

definition bridge_ok :: "bridge \<Rightarrow> bool" where
  "bridge_ok b \<longleftrightarrow> log_ring_ok b \<and> start_ok b
     \<and> handles_ok (semantic_vehicle_handles b) (next_semantic_vehicle_handle b)
     \<and> chat_ok (chat_events b) (next_chat_sequence b)"

named_theorems bridge_steps \<open>operations that keep the invariant of the bridge\<close>

lemma ring_ok_fields:
  "log_ring_ok (b\<lparr>last_observed_action_revision := v1\<rparr>) = log_ring_ok b"
  "log_ring_ok (b\<lparr>last_observed_popup_generation := v2\<rparr>) = log_ring_ok b"
  "log_ring_ok (b\<lparr>known_project_builder := v3\<rparr>) = log_ring_ok b"
  "log_ring_ok (b\<lparr>known_project_builder_valid := v4\<rparr>) = log_ring_ok b"
  "log_ring_ok (b\<lparr>observed_vehicles := v5\<rparr>) = log_ring_ok b"
  "log_ring_ok (b\<lparr>observed_bases := v6\<rparr>) = log_ring_ok b"
  "log_ring_ok (b\<lparr>observed_tiles := v7\<rparr>) = log_ring_ok b"
  "log_ring_ok (b\<lparr>sampled_vehicles := v5\<rparr>) = log_ring_ok b"
  "log_ring_ok (b\<lparr>sampled_bases := v6\<rparr>) = log_ring_ok b"
  "log_ring_ok (b\<lparr>observed_tile_cursor := v2\<rparr>) = log_ring_ok b"
  "log_ring_ok (b\<lparr>semantic_observation_shadow_ready := v8\<rparr>) = log_ring_ok b"
  "log_ring_ok (b\<lparr>semantic_observation_faction := v9\<rparr>) = log_ring_ok b"
  "log_ring_ok (b\<lparr>support_loss_handle := v9\<rparr>) = log_ring_ok b"
  "log_ring_ok (b\<lparr>lock_initialized := v8\<rparr>) = log_ring_ok b"
  "log_ring_ok (b\<lparr>semantic_vehicle_handles := v10\<rparr>) = log_ring_ok b"
  "log_ring_ok (b\<lparr>next_semantic_vehicle_handle := v9\<rparr>) = log_ring_ok b"
  "log_ring_ok (b\<lparr>chat_events := v11\<rparr>) = log_ring_ok b"
  "log_ring_ok (b\<lparr>next_chat_sequence := v2\<rparr>) = log_ring_ok b"
  by (simp_all add: log_ring_ok_def ring_events_def)

lemma bridge_ok_fields [simp]:
  "bridge_ok (b\<lparr>last_observed_action_revision := v1\<rparr>) = bridge_ok b"
  "bridge_ok (b\<lparr>last_observed_popup_generation := v2\<rparr>) = bridge_ok b"
  "bridge_ok (b\<lparr>known_project_builder := v3\<rparr>) = bridge_ok b"
  "bridge_ok (b\<lparr>known_project_builder_valid := v4\<rparr>) = bridge_ok b"
  "bridge_ok (b\<lparr>observed_vehicles := v5\<rparr>) = bridge_ok b"
  "bridge_ok (b\<lparr>observed_bases := v6\<rparr>) = bridge_ok b"
  "bridge_ok (b\<lparr>observed_tiles := v7\<rparr>) = bridge_ok b"
  "bridge_ok (b\<lparr>sampled_vehicles := v5\<rparr>) = bridge_ok b"
  "bridge_ok (b\<lparr>sampled_bases := v6\<rparr>) = bridge_ok b"
  "bridge_ok (b\<lparr>observed_tile_cursor := v2\<rparr>) = bridge_ok b"
  "bridge_ok (b\<lparr>semantic_observation_shadow_ready := v8\<rparr>) = bridge_ok b"
  "bridge_ok (b\<lparr>semantic_observation_faction := v9\<rparr>) = bridge_ok b"
  "bridge_ok (b\<lparr>support_loss_handle := v9\<rparr>) = bridge_ok b"
  "bridge_ok (b\<lparr>lock_initialized := v8\<rparr>) = bridge_ok b"
  by (simp_all add: bridge_ok_def ring_ok_fields start_ok_def)

lemma initial_bridge_ok: "bridge_ok initial_bridge"
  using initial_ring_ok
  by (simp add: bridge_ok_def handles_ok_def chat_ok_def outbound_ids_def) (simp add: initial_bridge_def)

lemma append_event_fields [simp]:
  "semantic_vehicle_handles (append_observation_event e b) = semantic_vehicle_handles b"
  "next_semantic_vehicle_handle (append_observation_event e b) = next_semantic_vehicle_handle b"
  "chat_events (append_observation_event e b) = chat_events b"
  "next_chat_sequence (append_observation_event e b) = next_chat_sequence b"
  "observed_vehicles (append_observation_event e b) = observed_vehicles b"
  "sampled_vehicles (append_observation_event e b) = sampled_vehicles b"
  "support_loss_handle (append_observation_event e b) = support_loss_handle b"
  by (simp_all add: append_observation_event_def Let_def)

lemma append_event_ok [bridge_steps]: "bridge_ok b \<Longrightarrow> bridge_ok (append_observation_event e b)"
  by (simp add: bridge_ok_def ring_ok_append start_ok_append)

lemma fold_keeps: "(\<And>x s. P s \<Longrightarrow> P (f x s)) \<Longrightarrow> P s \<Longrightarrow> P (fold f xs s)"
  by (induction xs arbitrary: s) auto

lemma fold_events_ok [bridge_steps]: "bridge_ok b \<Longrightarrow> bridge_ok (fold append_observation_event es b)"
  by (rule fold_keeps) (auto intro: bridge_steps)

lemma handles_ok_change:
  "bridge_ok b \<Longrightarrow> handles_ok hs n \<Longrightarrow> bridge_ok (b\<lparr>semantic_vehicle_handles := hs, next_semantic_vehicle_handle := n\<rparr>)"
  by (simp add: bridge_ok_def ring_ok_fields start_ok_def)

lemma handles_ok_change1:
  "bridge_ok b \<Longrightarrow> handles_ok hs (next_semantic_vehicle_handle b) \<Longrightarrow> bridge_ok (b\<lparr>semantic_vehicle_handles := hs\<rparr>)"
  by (simp add: bridge_ok_def ring_ok_fields start_ok_def)

lemma bridge_ok_handles: "bridge_ok b \<Longrightarrow> handles_ok (semantic_vehicle_handles b) (next_semantic_vehicle_handle b)"
  by (simp add: bridge_ok_def)

lemma handles_ok_zeros: "handles_ok hs n \<Longrightarrow> handles_ok (hs @ replicate k 0) n"
  by (auto simp: handles_ok_def)

lemma handles_ok_nil: "handles_ok hs n \<Longrightarrow> handles_ok [] n"
  by (simp add: handles_ok_def)

lemma handles_ok_assign:
  assumes "handles_ok hs n" "i < length hs" "hs ! i = 0"
  shows "handles_ok (hs[i := n]) (n + 1)"
proof -
  have hs: "hs = take i hs @ 0 # drop (Suc i) hs" using id_take_nth_drop [OF assms(2)] assms(3) by simp
  have upd: "hs[i := n] = take i hs @ n # drop (Suc i) hs" by (rule upd_conv_take_nth_drop [OF assms(2)])
  let ?P = "filter (\<lambda>h. 0 < h)"
  have below: "\<forall>h \<in> set hs. 0 \<le> h \<and> h < n" and n: "1 \<le> n" using assms(1) by (auto simp: handles_ok_def)
  have "distinct (?P (take i hs @ 0 # drop (Suc i) hs))" using assms(1) hs by (simp add: handles_ok_def)
  then have "distinct (?P (take i hs @ n # drop (Suc i) hs))"
    using below n by (auto dest: in_set_takeD in_set_dropD)
  moreover have "\<forall>h \<in> set (hs[i := n]). 0 \<le> h \<and> h < n + 1"
    using below n set_update_subset_insert [of hs i n] by fastforce
  ultimately show ?thesis using n by (simp add: handles_ok_def upd)
qed

lemma handles_ok_erase:
  assumes "handles_ok hs n" "0 \<le> i"
  shows "handles_ok (erase_row i hs) n"
proof (cases "i < int (length hs)")
  case True
  then have "nat i < length hs" using assms(2) by (simp add: nat_less_iff)
  then have hs: "hs = take (nat i) hs @ hs ! nat i # drop (Suc (nat i)) hs" by (rule id_take_nth_drop)
  have "distinct (filter (\<lambda>h. 0 < h) (take (nat i) hs @ hs ! nat i # drop (Suc (nat i)) hs))"
    using assms(1) hs by (simp add: handles_ok_def)
  then have "distinct (filter (\<lambda>h. 0 < h) (take (nat i) hs @ drop (Suc (nat i)) hs))" by (auto split: if_splits)
  then show ?thesis using assms True
    by (auto simp: handles_ok_def erase_row_def dest: in_set_takeD in_set_dropD)
qed (use assms in \<open>simp add: erase_row_def\<close>)

lemma ensure_ok [bridge_steps]: "bridge_ok b \<Longrightarrow> bridge_ok (ensure_semantic_vehicle_handles g b)"
proof -
  assume ok: "bridge_ok b"
  let ?b = "if length (semantic_vehicle_handles b) > nat (max 0 (VehCount g))
    then b\<lparr>semantic_vehicle_handles := [], observed_vehicles := [], semantic_observation_shadow_ready := False\<rparr> else b"
  have "bridge_ok (b\<lparr>semantic_vehicle_handles := []\<rparr>)"
    by (rule handles_ok_change1 [OF ok handles_ok_nil [OF bridge_ok_handles [OF ok]]])
  then have "bridge_ok (b\<lparr>semantic_vehicle_handles := []\<rparr>\<lparr>observed_vehicles := [], semantic_observation_shadow_ready := False\<rparr>)"
    by (simp only: bridge_ok_fields)
  then have ok': "bridge_ok ?b" using ok by simp
  show ?thesis unfolding ensure_semantic_vehicle_handles_def Let_def
    by (rule handles_ok_change1 [OF ok' handles_ok_zeros [OF bridge_ok_handles [OF ok']]])
qed

lemma ensure_fields:
  "next_semantic_vehicle_handle (ensure_semantic_vehicle_handles g b) = next_semantic_vehicle_handle b"
  "length (semantic_vehicle_handles (ensure_semantic_vehicle_handles g b)) = nat (max 0 (VehCount g))"
  by (simp_all add: ensure_semantic_vehicle_handles_def Let_def)

lemma ensure_again: "ensure_semantic_vehicle_handles g b = b" if "length (semantic_vehicle_handles b) = nat (max 0 (VehCount g))"
  using that by (simp add: ensure_semantic_vehicle_handles_def)

lemma handle_ok [bridge_steps]: "bridge_ok b \<Longrightarrow> bridge_ok (fst (semantic_vehicle_handle g row b))"
proof -
  assume "bridge_ok b"
  then have ok: "bridge_ok (ensure_semantic_vehicle_handles g b)" by (rule bridge_steps)
  then show ?thesis
    using handles_ok_change [OF ok handles_ok_assign [OF bridge_ok_handles [OF ok], of "nat row"]]
    by (auto simp: semantic_vehicle_handle_def Let_def nat_less_iff)
qed

lemma reset_shadow_ok [simp]: "bridge_ok (reset_semantic_observation_shadow b) = bridge_ok b"
  by (simp add: reset_semantic_observation_shadow_def)

lemma reset_project_ok [simp]: "bridge_ok (reset_project_report_memory b) = bridge_ok b"
  by (simp add: reset_project_report_memory_def)

lemma handles_valid_ok:
  assumes "handles_valid hs n" "\<forall>h \<in> set hs. 0 \<le> h"
  shows "handles_ok hs n"
proof -
  let ?as = "filter (\<lambda>h. 0 < h) hs"
  have f: "filter (\<lambda>h. \<not> h \<le> 0) hs = ?as" by (rule filter_cong) auto
  have d: "distinct ?as" and m: "fold max ?as 0 < n"
    using assms(1) unfolding handles_valid_def Let_def f by (auto intro: card_distinct)
  have up: "x \<le> fold max xs x \<and> (\<forall>y \<in> set xs. y \<le> fold max xs x)" for xs and x :: int
  proof (induction xs arbitrary: x)
    case (Cons z zs)
    show ?case using Cons.IH [of "max z x"] by auto
  qed simp
  have "0 < n" "\<forall>h \<in> set ?as. h < n" using up [of 0 ?as] m by auto
  then show ?thesis using d assms(2) by (auto simp: handles_ok_def)
qed

lemma guards_SomeD:
  "(if A then x else if B then None else if C then None else if D then None else if E then None else y) = Some r \<Longrightarrow>
     A \<and> x = Some r \<or> \<not> A \<and> \<not> B \<and> \<not> C \<and> \<not> D \<and> \<not> E \<and> y = Some r"
  by (auto split: if_splits)

lemma int_array_loop_nonneg:
  "int_array_loop s result = Some r \<Longrightarrow> \<forall>h \<in> set result. 0 \<le> h \<Longrightarrow> \<forall>h \<in> set r. 0 \<le> h"
proof (induction s result rule: int_array_loop.induct)
  case (1 s result)
  let ?t = "dropWhile (\<lambda>c. is_blank c \<or> c = CHR '','') s"
  let ?v = "c_strtol ?t" and ?w = "dropWhile is_blank (dropWhile c_isdigit ?t)"
  note cases = guards_SomeD [OF 1(2) [unfolded int_array_loop.simps [of s result] Let_def]]
  from cases show ?case
  proof (elim disjE conjE)
    assume "Some result = Some r"
    with 1(3) show ?thesis by simp
  next
    assume c: "\<not> (?t \<noteq> [] \<and> hd ?t = CHR '']'')" "\<not> (?t = [] \<or> \<not> c_isdigit (hd ?t))"
      "\<not> (?v < 0 \<or> ?v > 0x7fffffff)" "\<not> length (result @ [?v]) > MaxHandles"
      "\<not> (?w \<noteq> [] \<and> hd ?w \<noteq> CHR '','' \<and> hd ?w \<noteq> CHR '']'')" "int_array_loop ?w (result @ [?v]) = Some r"
    have "\<forall>h \<in> set (result @ [?v]). 0 \<le> h" using c(3) 1(3) by auto
    then show ?thesis by (rule 1(1) [OF refl c(1,2) refl refl c(3,4) refl c(5,6)])
  qed
qed

lemma field_int_array_nonneg: "field_int_array json name = Some r \<Longrightarrow> \<forall>h \<in> set r. 0 \<le> h"
  by (auto simp: field_int_array_def split: option.splits dest!: int_array_loop_nonneg)

lemma import_ok [bridge_steps]: "bridge_ok b \<Longrightarrow> bridge_ok (fst (identity_import g request b))"
proof -
  assume ok: "bridge_ok b"
  have "bridge_ok (b\<lparr>semantic_vehicle_handles := hs, next_semantic_vehicle_handle := n\<rparr>)"
    if "handles_valid hs n" "field_int_array request x = Some hs" for hs n x
    by (rule handles_ok_change [OF ok handles_valid_ok [OF that(1) field_int_array_nonneg [OF that(2)]]])
  then show ?thesis using ok by (auto simp: identity_import_def Let_def split: option.splits)
qed

lemma identity_ok [bridge_steps]: "bridge_ok b \<Longrightarrow> bridge_ok (fst (semantic_identity_state_response g request b))"
  by (auto simp: semantic_identity_state_response_def identity_export_def Let_def intro: bridge_steps)

lemma emit_ok [bridge_steps]: "bridge_ok b \<Longrightarrow> bridge_ok (emit_unit_event g i e b)"
  using handle_ok [of b g i] by (auto simp: emit_unit_event_def Let_def split: prod.splits intro: bridge_steps)

lemma emit_all_ok [bridge_steps]: "bridge_ok b \<Longrightarrow> bridge_ok (fold (emit_unit_event g i) es b)"
  by (rule fold_keeps) (auto intro: bridge_steps)

lemma observe_unit_ok [bridge_steps]: "bridge_ok b \<Longrightarrow> bridge_ok (observe_unit g f i b)"
  unfolding observe_unit_def Let_def by (simp add: emit_all_ok)

lemma observe_base_ok [bridge_steps]: "bridge_ok b \<Longrightarrow> bridge_ok (observe_base g f i b)"
  by (simp add: observe_base_def Let_def) (auto intro!: fold_events_ok)

lemma observe_tile_ok [bridge_steps]: "bridge_ok b \<Longrightarrow> bridge_ok (observe_tile g f i b)"
  by (auto simp: observe_tile_def Let_def intro!: fold_events_ok split: option.splits)

lemma popup_ok [bridge_steps]: "bridge_ok b \<Longrightarrow> bridge_ok (capture_project_report_popup g p b)"
  by (auto simp: capture_project_report_popup_def Let_def intro!: append_event_ok split: option.splits)


subsection \<open>Fog of war\<close>

text \<open>What the events may depend on while the current faction does not see the row.\<close>

definition same_unit :: "veh_shadow \<Rightarrow> veh_shadow \<Rightarrow> bool" where
  "same_unit a b \<longleftrightarrow> vs_present a = vs_present b \<and> vs_visible a = vs_visible b
     \<and> vs_faction_id a = vs_faction_id b \<and> vs_unit_id a = vs_unit_id b"


definition hidden_unit :: "int \<Rightarrow> veh_shadow" where
  "hidden_unit hp = \<lparr>vs_present = True, vs_visible = False, vs_faction_id = 2, vs_unit_id = 3, vs_x = 4, vs_y = 4, vs_hitpoints = hp\<rparr>"


lemma fold_observe_ok [bridge_steps]:
  "bridge_ok b \<Longrightarrow> bridge_ok (fold (observe_unit g f) is b)"
  "bridge_ok b \<Longrightarrow> bridge_ok (fold (observe_base g f) is b)"
  "bridge_ok b \<Longrightarrow> bridge_ok (fold (\<lambda>n. observe_tile g f (h n)) ns b)"
  by (rule fold_keeps; auto intro: bridge_steps)+

lemma timer_ok [bridge_steps]: "bridge_ok b \<Longrightarrow> bridge_ok (semantic_observation_timer_proc g p b)"
proof -
  assume ok: "bridge_ok b"
  have off: "bridge_ok ((reset_project_report_memory (reset_semantic_observation_shadow b))\<lparr>semantic_vehicle_handles := []\<rparr>)"
    using handles_ok_change1 [of "reset_project_report_memory (reset_semantic_observation_shadow b)" "[]"] ok
      handles_ok_nil [OF bridge_ok_handles [OF ok]]
    by (simp add: reset_project_report_memory_def reset_semantic_observation_shadow_def)
  have on: "bridge_ok b' \<Longrightarrow> bridge_ok (ensure_semantic_vehicle_handles g (capture_project_report_popup g p b'))" for b'
    by (intro bridge_steps)
  show ?thesis
    unfolding semantic_observation_timer_proc_def Let_def
    by (simp add: off ok on fold_observe_ok del: fold.simps)
qed

lemma erase_ok:
  assumes "bridge_ok b" "0 \<le> i"
  shows "bridge_ok (b\<lparr>semantic_vehicle_handles := erase_row i (semantic_vehicle_handles b),
    observed_vehicles := v, sampled_vehicles := w\<rparr>)"
proof -
  have "bridge_ok (b\<lparr>semantic_vehicle_handles := erase_row i (semantic_vehicle_handles b)\<rparr>)"
    by (rule handles_ok_change1 [OF assms(1) handles_ok_erase [OF bridge_ok_handles [OF assms(1)] assms(2)]])
  then have "bridge_ok (b\<lparr>semantic_vehicle_handles := erase_row i (semantic_vehicle_handles b)\<rparr>
      \<lparr>observed_vehicles := v, sampled_vehicles := w\<rparr>)"
    by (simp only: bridge_ok_fields)
  then show ?thesis by simp
qed

lemma destroyed_ok [bridge_steps]:
  assumes "bridge_ok b"
  shows "bridge_ok (agent_observe_unit_destroyed g veh_id b)"
proof (cases "\<not> lock_initialized b \<or> \<not> game_active g \<or> veh_id < 0 \<or> veh_id \<ge> VehCount g")
  case False
  then have pos: "0 \<le> veh_id" by simp
  have ok: "bridge_ok (ensure_semantic_vehicle_handles g b)" using assms by (rule bridge_steps)
  obtain b2 h where h: "semantic_vehicle_handle g veh_id (ensure_semantic_vehicle_handles g b) = (b2, h)" by fastforce
  have ok2: "bridge_ok b2" using handle_ok [OF ok, of g veh_id] by (simp add: h)
  show ?thesis
    unfolding agent_observe_unit_destroyed_def Let_def if_not_P [OF False] h prod.case
    by (intro erase_ok pos) (simp add: ok ok2 append_event_ok)
qed (use assms in \<open>simp add: agent_observe_unit_destroyed_def\<close>)

lemma hooks_ok [bridge_steps]:
  "bridge_ok b \<Longrightarrow> bridge_ok (agent_observe_production_completed g i p c v b)"
  "bridge_ok b \<Longrightarrow> bridge_ok (agent_observe_native_raid_effect g i effect before after b)"
  "bridge_ok b \<Longrightarrow> bridge_ok (agent_observe_project_interrupted g i p b)"
  "bridge_ok b \<Longrightarrow> bridge_ok (agent_observe_production_queue g i flag b)"
  "bridge_ok b \<Longrightarrow> bridge_ok (agent_observe_production_selection g i flag b)"
  "bridge_ok b \<Longrightarrow> bridge_ok (agent_observe_base_founded g i b)"
  "bridge_ok b \<Longrightarrow> bridge_ok (agent_observe_base_destroyed g i b)"
  "bridge_ok b \<Longrightarrow> bridge_ok (agent_observe_base_captured g i f1 f2 b)"
  using handle_ok [of b g v]
  by (auto simp: agent_observe_production_completed_def agent_observe_native_raid_effect_def
      agent_observe_project_interrupted_def agent_observe_production_queue_def agent_observe_production_selection_def
      agent_observe_base_founded_def agent_observe_base_destroyed_def agent_observe_base_captured_def
      drop_base_shadow_def Let_def intro: append_event_ok split: prod.splits)

lemma drop1_upt: "drop (Suc 0) [m..<n] = [Suc m..<n]"
  by (simp add: drop_Suc tl_upt)

lemma append_chat_ok:
  assumes ok: "bridge_ok b"
    and new: "outbound \<Longrightarrow> mid \<noteq> [] \<and> find_outbound_chat b mid = None"
  shows "bridge_ok (append_chat_event g outbound broadcast sender recipient txt mid b)"
proof -
  let ?n = "next_chat_sequence b" and ?es = "chat_events b"
  let ?log = "if length ?es = MaxChatEvents then drop 1 ?es else ?es"
  let ?e = "\<lparr>ce_sequence = ?n, ce_outbound = outbound, ce_broadcast = broadcast,
    ce_sender_faction_id = sender, ce_recipient_faction_id = recipient, ce_turn = if game_active g then CurrentTurn g else - 1,
    ce_text = txt, ce_client_message_id = mid\<rparr>"
  have c: "length ?es \<le> MaxChatEvents" "length ?es < ?n" "map ce_sequence ?es = [?n - length ?es..<?n]"
    "distinct (outbound_ids ?es)" "[] \<notin> set (outbound_ids ?es)"
    using ok by (simp_all add: bridge_ok_def chat_ok_def)
  have sub: "set (outbound_ids ?log) \<subseteq> set (outbound_ids ?es)"
    by (auto simp: outbound_ids_def dest: in_set_dropD)
  have dist: "distinct (outbound_ids ?log)"
    using c(4) by (cases ?es) (auto simp: outbound_ids_def split: if_splits)
  have fresh: "mid \<notin> set (outbound_ids ?es)" if outbound
    using new [OF that] by (auto simp: find_outbound_chat_def outbound_ids_def find_None_iff)
  have split: "outbound_ids (?log @ [?e]) = outbound_ids ?log @ (if outbound then [mid] else [])"
    by (simp add: outbound_ids_def)
  have "map ce_sequence (?log @ [?e]) = [Suc ?n - length (?log @ [?e])..<Suc ?n]"
    using c(1-3) by (auto simp: drop_map [symmetric] drop1_upt MaxChatEvents_def Suc_diff_le Suc_diff_Suc [symmetric])
  moreover have "distinct (outbound_ids (?log @ [?e]))" "[] \<notin> set (outbound_ids (?log @ [?e]))"
    unfolding split using dist sub fresh c(5) new by auto
  ultimately have "chat_ok (?log @ [?e]) (?n + 1)"
    using c(1,2) by (auto simp: chat_ok_def MaxChatEvents_def)
  then have "bridge_ok (b\<lparr>chat_events := ?log @ [?e], next_chat_sequence := ?n + 1\<rparr>)"
    using ok by (simp add: bridge_ok_def ring_ok_fields start_ok_def)
  then show ?thesis unfolding append_chat_event_def Let_def by (rule append_event_ok)
qed

lemma chat_display_ok [bridge_steps]: "bridge_ok b \<Longrightarrow> bridge_ok (agent_chat_display g txt sender b)"
  by (simp add: agent_chat_display_def append_chat_ok)

lemma valid_identifier_nonempty: "valid_chat_identifier mid \<Longrightarrow> mid \<noteq> []"
  by (auto simp: valid_chat_identifier_def)

lemma chat_send_ok [bridge_steps]: "bridge_ok b \<Longrightarrow> bridge_ok (fst (chat_send m s pl msg g request b))"
  by (auto simp: chat_send_def Let_def append_chat_ok valid_identifier_nonempty split: option.splits)

lemma feed_response_ok [bridge_steps]: "bridge_ok b \<Longrightarrow> bridge_ok (fst (observation_feed_response g revision request b))"
  by (auto simp: observation_feed_response_def Let_def intro: append_event_ok)

lemma support_ok: "(\<And>b. bridge_ok b \<Longrightarrow> bridge_ok (kill b)) \<Longrightarrow> bridge_ok b \<Longrightarrow> bridge_ok (agent_kill_unsupported_unit kill g v b)"
proof -
  assume k: "\<And>b. bridge_ok b \<Longrightarrow> bridge_ok (kill b)" and "bridge_ok b"
  then have "bridge_ok (fst (semantic_vehicle_handle g v (ensure_semantic_vehicle_handles g (b\<lparr>support_loss_handle := - 1\<rparr>))))"
    by (intro bridge_steps) simp
  with \<open>bridge_ok b\<close> show ?thesis
    by (auto simp: agent_kill_unsupported_unit_def Let_def intro: k split: prod.splits)
qed

text \<open>One operation of the bridge, in any state of the game. The initial state has no lock; the start of the bridge sets it.\<close>

inductive bridge_step :: "bridge \<Rightarrow> bridge \<Rightarrow> bool" where
  start: "bridge_step b (b\<lparr>lock_initialized := True\<rparr>)"
| timer: "bridge_step b (semantic_observation_timer_proc g p b)"
| feed: "bridge_step b (fst (observation_feed_response g revision request b))"
| identity: "bridge_step b (fst (semantic_identity_state_response g request b))"
| handle: "bridge_step b (fst (semantic_vehicle_handle g row b))"
| unit_destroyed: "bridge_step b (agent_observe_unit_destroyed g veh_id b)"
| unsupported: "bridge_step b (agent_kill_unsupported_unit (agent_observe_unit_destroyed g veh_id) g veh_id b)"
| production: "bridge_step b (agent_observe_production_completed g base_id item category veh_id b)"
| raid: "bridge_step b (agent_observe_native_raid_effect g base_id effect before after b)"
| interrupted: "bridge_step b (agent_observe_project_interrupted g base_id item b)"
| queue: "bridge_step b (agent_observe_production_queue g base_id flag b)"
| selection: "bridge_step b (agent_observe_production_selection g base_id flag b)"
| founded: "bridge_step b (agent_observe_base_founded g base_id b)"
| destroyed: "bridge_step b (agent_observe_base_destroyed g base_id b)"
| captured: "bridge_step b (agent_observe_base_captured g base_id old_faction new_faction b)"
| chat_in: "bridge_step b (agent_chat_display g txt sender b)"
| chat_out: "bridge_step b (fst (chat_send match_id session_id player_index message_chat g request b))"

inductive bridge_reachable :: "bridge \<Rightarrow> bool" where
  init: "bridge_reachable initial_bridge"
| step: "bridge_reachable b \<Longrightarrow> bridge_step b b' \<Longrightarrow> bridge_reachable b'"

lemma step_keeps: "bridge_step b b' \<Longrightarrow> bridge_ok b \<Longrightarrow> bridge_ok b'"
  by (induction rule: bridge_step.induct) (simp_all add: bridge_steps support_ok)

lemma reachable_ok: "bridge_reachable b \<Longrightarrow> bridge_ok b"
  by (induction rule: bridge_reachable.induct) (auto intro: initial_bridge_ok step_keeps)



subsection \<open>Handles are stable identities\<close>

lemma distinct_filter_nth:
  "distinct (filter P xs) \<Longrightarrow> i < length xs \<Longrightarrow> j < length xs \<Longrightarrow> P (xs ! i) \<Longrightarrow> xs ! i = xs ! j \<Longrightarrow> i = j"
proof (induction xs arbitrary: i j)
  case (Cons x xs)
  show ?case
  proof (cases i; cases j)
    fix k assume "i = 0" "j = Suc k"
    with Cons.prems show ?thesis by (auto simp: nth_mem)
  next
    fix k assume "j = 0" "i = Suc k"
    with Cons.prems show ?thesis by (auto simp: nth_mem)
  next
    fix k l assume "i = Suc k" "j = Suc l"
    with Cons show ?thesis by (auto split: if_splits)
  qed simp
qed simp

lemma handle_known:
  assumes "length (semantic_vehicle_handles b) = nat (VehCount g)" "0 \<le> row" "row < VehCount g"
    "semantic_vehicle_handles b ! nat row \<noteq> 0"
  shows "semantic_vehicle_handle g row b = (b, semantic_vehicle_handles b ! nat row)"
proof -
  have "ensure_semantic_vehicle_handles g b = b" using assms by (intro ensure_again) simp
  with assms show ?thesis by (simp add: semantic_vehicle_handle_def Let_def)
qed

lemma handle_result:
  assumes "bridge_ok b" "0 \<le> row" "row < VehCount g" "semantic_vehicle_handle g row b = (b', h)"
  shows "length (semantic_vehicle_handles b') = nat (VehCount g)" "semantic_vehicle_handles b' ! nat row = h" "0 < h"
    and "length (semantic_vehicle_handles b) = nat (VehCount g) \<Longrightarrow> i < nat (VehCount g) \<Longrightarrow> i \<noteq> nat row \<Longrightarrow>
      semantic_vehicle_handles b' ! i = semantic_vehicle_handles b ! i"
proof -
  let ?b = "ensure_semantic_vehicle_handles g b"
  have len: "length (semantic_vehicle_handles ?b) = nat (VehCount g)" using assms(2,3) ensure_fields(2) [of g b] by simp
  have "bridge_ok ?b" using assms(1) by (rule bridge_steps)
  then have ok: "\<forall>h \<in> set (semantic_vehicle_handles ?b). 0 \<le> h" "1 \<le> next_semantic_vehicle_handle ?b"
    by (auto simp: bridge_ok_def handles_ok_def)
  have row: "nat row < nat (VehCount g)" using assms(2,3) by simp
  then have "semantic_vehicle_handles ?b ! nat row \<in> set (semantic_vehicle_handles ?b)" using len by simp
  with ok have "0 \<le> semantic_vehicle_handles ?b ! nat row" by blast
  with assms(2-4) len ok(2) row show "length (semantic_vehicle_handles b') = nat (VehCount g)"
    "semantic_vehicle_handles b' ! nat row = h" "0 < h"
    by (auto simp: semantic_vehicle_handle_def Let_def split: if_splits)
  show "semantic_vehicle_handles b' ! i = semantic_vehicle_handles b ! i"
    if "length (semantic_vehicle_handles b) = nat (VehCount g)" "i < nat (VehCount g)" "i \<noteq> nat row"
  proof -
    have "?b = b" using that(1) assms(2,3) by (intro ensure_again) simp
    with assms(2-4) that show ?thesis by (auto simp: semantic_vehicle_handle_def Let_def split: if_splits)
  qed
qed



subsection \<open>Export and import\<close>


subsection \<open>Tile identities\<close>

text \<open>C31: Tile identities and squares correspond one to one: on a map of even width every square of the map has an identity that
  leads back to it, and every identity the decoder accepts is the one of the square it gives.\<close>

theorem semantic_tile_roundtrip:
  assumes "even (MapAreaX g)" "0 < MapAreaX g" "0 < MapAreaY g"
  shows "(mapsq g x y \<noteq> None \<longrightarrow> semantic_tile_coords g (semantic_tile_id g x y) = Some (x, y))
    \<and> (semantic_tile_coords g t = Some (x, y) \<longrightarrow> semantic_tile_id g x y = t)"
proof (intro conjI impI)
  obtain w where w: "MapAreaX g = 2 * w" using assms(1) by blast
  have wpos: "0 < w" using assms(2) w by simp
  have area: "(MapAreaX g * MapAreaY g) sdiv 2 = w * MapAreaY g"
    using assms(3) wpos by (simp add: w sdiv_nonneg)
  show "semantic_tile_coords g (semantic_tile_id g x y) = Some (x, y)" if "mapsq g x y \<noteq> None"
  proof -
    have b: "0 \<le> x" "0 \<le> y" "x < 2 * w" "y < MapAreaY g" "even (x + y)"
      using that by (auto simp: mapsq_None_iff w)
    have id: "semantic_tile_id g x y = x div 2 + w * y"
    proof -
      have "(x + MapAreaX g * y) div 2 = x div 2 + w * y" by (simp add: w mult.assoc)
      with that b wpos show ?thesis by (auto simp: semantic_tile_id_def w sdiv_nonneg)
    qed
    have hx: "0 \<le> x div 2" "x div 2 < w" using b by auto
    have "w * y + w \<le> w * MapAreaY g" using b wpos mult_left_mono [of "y + 1" "MapAreaY g" w] by (simp add: algebra_simps)
    with hx have lim: "x div 2 + w * y < w * MapAreaY g" by simp
    have pos: "0 \<le> x div 2 + w * y" using hx b wpos by simp
    have dm: "(x div 2 + w * y) div w = y" "(x div 2 + w * y) mod w = x div 2" using hx wpos by simp_all
    have "2 * (x div 2) + (y AND 1) = x" using b(5) by (auto simp: and_one_eq elim!: oddE evenE)
    then show ?thesis
      using that assms(2,3) lim pos dm wpos
      by (simp add: semantic_tile_coords_def id Let_def area w sdiv_nonneg smod_nonneg)
  qed
  show "semantic_tile_id g x y = t" if "semantic_tile_coords g t = Some (x, y)"
  proof -
    have t: "0 \<le> t" and y: "y = t div w" and x: "x = 2 * (t mod w) + y mod 2" and m: "mapsq g x y \<noteq> None"
      using that wpos by (auto simp: semantic_tile_coords_def Let_def w sdiv_nonneg smod_nonneg and_one_eq split: if_splits)
    have "0 \<le> x + MapAreaX g * y" using m assms(2) by (auto simp: mapsq_None_iff)
    then have "semantic_tile_id g x y = (x + MapAreaX g * y) div 2"
      using m assms(2) by (auto simp: semantic_tile_id_def sdiv_nonneg)
    also have "\<dots> = t mod w + w * (t div w)" using x y by (simp add: w algebra_simps)
    finally show ?thesis by simp
  qed
qed

theorem semantic_tile_roundtrip_witness:
  "semantic_tile_coords (blank_game\<lparr>MapAreaX := 4, MapAreaY := 4\<rparr>)
     (semantic_tile_id (blank_game\<lparr>MapAreaX := 4, MapAreaY := 4\<rparr>) 3 1) = Some (3, 1)"
proof -
  let ?g = "blank_game\<lparr>MapAreaX := 4, MapAreaY := 4\<rparr>"
  have "mapsq ?g 3 1 \<noteq> None" by (simp add: mapsq_None_iff)
  then show ?thesis using semantic_tile_roundtrip [of ?g 3 1] by simp
qed

subsection \<open>The guard\<close>

text \<open>C30: The guard of mutating commands lets a command through exactly when it names the current match, session and revision,
  none of them empty.\<close>

theorem guard_accepts_iff:
  "validate_semantic_guard agent_match_id agent_session_id revision request = [] \<longleftrightarrow>
     field_string request ''match_id'' = agent_match_id \<and> agent_match_id \<noteq> []
     \<and> field_string request ''session_id'' = agent_session_id \<and> agent_session_id \<noteq> []
     \<and> field_string request ''expected_revision'' = revision \<and> revision \<noteq> []"
  by (auto simp: validate_semantic_guard_def Let_def error_response_def json_text_def)

subsection \<open>Chat\<close>

lemma find_snoc: "find P xs = None \<Longrightarrow> P e \<Longrightarrow> find P (xs @ [e]) = Some e"
  by (induction xs) auto

text \<open>C29: Sending is idempotent: after a message was sent, the same request in any later state of the bridge that still
  holds it sends nothing, changes nothing and answers with the recorded message.\<close>

theorem chat_send_idempotent:
  assumes "chat_send m s pl msg g request b = (b', ChatSent n e)"
  shows "chat_send m s pl msg g request b' = (b', ChatDuplicate e) \<and> ce_outbound e
    \<and> ce_text e = field_string request ''text'' \<and> ce_client_message_id e = field_string request ''client_message_id''
    \<and> ce_sequence e = next_chat_sequence b"
proof -
  let ?id = "field_string request ''client_message_id''"
  have none: "find_outbound_chat b ?id = None" and mid: "valid_chat_identifier ?id"
    and e: "\<exists>br rc. b' = append_chat_event g True br (CurrentPlayerFaction g) rc (field_string request ''text'') ?id b
      \<and> e = last (chat_events b')"
    using assms by (auto simp: chat_send_def Let_def split: if_splits option.splits)
  then obtain br rc where b': "b' = append_chat_event g True br (CurrentPlayerFaction g) rc (field_string request ''text'') ?id b"
    and last: "e = last (chat_events b')" by blast
  let ?log = "if length (chat_events b) = MaxChatEvents then drop 1 (chat_events b) else chat_events b"
  have ev: "chat_events b' = ?log @ [e]" unfolding last by (simp add: b' append_chat_event_def Let_def)
  have props: "ce_outbound e" "ce_text e = field_string request ''text''" "ce_client_message_id e = ?id"
    "ce_sequence e = next_chat_sequence b"
    unfolding last by (simp_all add: b' append_chat_event_def Let_def)
  have "?id \<noteq> []" using mid by (rule valid_identifier_nonempty)
  moreover have "find (\<lambda>e. ce_outbound e \<and> ce_client_message_id e = ?id) ?log = None"
    using none \<open>?id \<noteq> []\<close> by (auto simp: find_outbound_chat_def find_None_iff dest: in_set_dropD)
  ultimately have "find_outbound_chat b' ?id = Some e"
    unfolding find_outbound_chat_def ev using props by (simp add: find_snoc)
  then have "chat_send m s pl msg g request b' = (b', ChatDuplicate e)"
    using assms mid by (auto simp: chat_send_def Let_def split: if_splits)
  with props show ?thesis by simp
qed


definition example_request :: string where
  "example_request = json_text ''{~match_id~:~m~,~session_id~:~s~,~client_message_id~:~c1~,~text~:~hi~}''"

definition example_game :: game where
  "example_game = blank_game\<lparr>CurrentPlayerFaction := 1, MapAreaTiles := 1, MapAreaX := 1, MapAreaY := 1, BaseCount := 1,
     MultiplayerActive := True\<rparr>"

lemma example_fields:
  "field_string example_request ''match_id'' = ''m''" "field_string example_request ''session_id'' = ''s''"
  "field_string example_request ''client_message_id'' = ''c1''" "field_string example_request ''text'' = ''hi''"
  "field_int example_request ''recipient_faction_id'' 0 = 0"
  "valid_chat_identifier ''c1''" "valid_chat_text ''hi''"
  by code_simp+

theorem chat_send_idempotent_witness:
  "\<exists>b' e. chat_send ''m'' ''s'' (\<lambda>_. 1) (\<lambda>_ _ _. 1) example_game example_request initial_bridge = (b', ChatSent 1 e)
     \<and> chat_send ''m'' ''s'' (\<lambda>_. 1) (\<lambda>_ _ _. 1) example_game example_request b' = (b', ChatDuplicate e)"
proof -
  have "\<exists>b' e. chat_send ''m'' ''s'' (\<lambda>_. 1) (\<lambda>_ _ _. 1) example_game example_request initial_bridge = (b', ChatSent 1 e)"
    by (simp add: chat_send_def Let_def example_fields find_outbound_chat_def)
       (simp add: example_game_def game_active_def active_faction_def initial_bridge_def Let_def)
  then show ?thesis using chat_send_idempotent by blast
qed

subsection \<open>What the request decoder does with texts\<close>

text \<open>A field is looked up by its quoted name anywhere in the request, inside another value too: in this request, whose
  text is the word action, the action that is found is the text of the following field.\<close>

theorem field_lookup_is_textual:
  "field_string (json_text ''{~text~:~action~,~command~:~smac_chat~}'') ''action'' = ''smac_chat''
   \<and> unescape (json_escape [CHR 0x08]) = ''b''
   \<and> field_int_array (json_text ''{~handles~:[99999999999]}'') ''handles'' = Some [2147483647]"
  by code_simp

end
