(* ===== verification/Veh_Stack.thy ===== *)
theory Veh_Stack
  imports Bridge_Props "HOL-Library.Monad_Syntax"
begin

text \<open>
  The doubly linked stacks of units of veh.cpp and what they promise: a family of lists, one for each
  square, that the links and the squares agree with (\<open>stacks_ok\<close>). Lifting, dropping, promoting, demoting,
  moving and sorting are shown to implement the corresponding operations on lists.
\<close>

section \<open>Stacks of units (veh.cpp)\<close>

text \<open>
  The units on one square form a doubly linked list through the rows of the unit table, with the row that
  is drawn at the top first. A unit is lifted off its list and dropped on top of the list of another
  square; squares outside the map hold units that are being moved or carried. The loops of the source
  follow links, so they end only when the links are sound: they are partial functions, and \<open>None\<close> is a loop
  that never ends.
\<close>

subsection \<open>Following the links\<close>

partial_function (option) veh_top_from :: "game \<Rightarrow> int \<Rightarrow> int option" where
  [code]: "veh_top_from g i =
     (if veh_prev_veh_id_stack (Vehs g i) \<ge> 0 then veh_top_from g (veh_prev_veh_id_stack (Vehs g i)) else Some i)"

definition veh_top :: "game \<Rightarrow> int \<Rightarrow> int option" where
  "veh_top g veh_id = (if veh_id < 0 then Some (- 1) else veh_top_from g veh_id)"

partial_function (option) stack_last :: "game \<Rightarrow> int \<Rightarrow> int option" where
  [code]: "stack_last g i =
     (if veh_next_veh_id_stack (Vehs g i) \<ge> 0 then stack_last g (veh_next_veh_id_stack (Vehs g i)) else Some i)"

text \<open>The scan of the unit table; when the square claims a unit that is not in the table the bits are rebuilt.\<close>

definition veh_bits_broken :: "game \<Rightarrow> game" where
  "veh_bits_broken g =
     (if GameState g AND STATE_SCENARIO_EDITOR \<noteq> 0 \<or> GameState g AND STATE_DEBUG_MODE \<noteq> 0 \<or> MultiplayerActive g
      then (if VehBitError g \<noteq> 0 then g else rebuild_vehicle_bits (g\<lparr>VehBitError := 1\<rparr>))
      else rebuild_vehicle_bits g)"

definition veh_at :: "game \<Rightarrow> int \<Rightarrow> int \<Rightarrow> (game \<times> int) option" where
  "veh_at g x y =
     (if (case sq_at g x y of None \<Rightarrow> False | Some sq \<Rightarrow> \<not> MAP_veh_in_tile sq) then Some (g, - 1)
      else (case veh_at_xy g x y of
          Some i \<Rightarrow> map_option (Pair g) (veh_top g i)
        | None \<Rightarrow> if mapsq g x y = None then Some (g, - 1) else Some (veh_bits_broken g, - 1)))"

definition veh_who :: "game \<Rightarrow> int \<Rightarrow> int \<Rightarrow> int" where
  "veh_who g x y = (case sq_at g x y of None \<Rightarrow> - 1 | Some sq \<Rightarrow> MAP_veh_who sq)"

subsection \<open>Moving one unit\<close>

definition veh_lift :: "int \<Rightarrow> game \<Rightarrow> game" where
  "veh_lift veh_id g =
     (let v = Vehs g veh_id; prev = veh_prev_veh_id_stack v; nxt = veh_next_veh_id_stack v; x = veh_x v; y = veh_y v;
          g = (if prev \<ge> 0 then upd_veh prev (\<lambda>w. w\<lparr>veh_next_veh_id_stack := nxt\<rparr>) g else g);
          g = (if nxt \<ge> 0 then upd_veh nxt (\<lambda>w. w\<lparr>veh_prev_veh_id_stack := prev\<rparr>) g
               else if \<not> prev \<ge> 0 \<and> on_map g x y then bit_set g x y BIT_VEH_IN_TILE False
               else g);
          g = g\<lparr>VehDropLiftVehID := veh_id, VehLiftX := x, VehLiftY := y\<rparr>
      in upd_veh veh_id (\<lambda>w. w\<lparr>veh_x := - 1, veh_y := - 1, veh_next_veh_id_stack := - 1, veh_prev_veh_id_stack := - 1\<rparr>) g)"

text \<open>The part of \<open>veh_drop\<close> after the destination was looked up.\<close>

definition place_on :: "int \<Rightarrow> int \<Rightarrow> int \<Rightarrow> int \<Rightarrow> game \<Rightarrow> game" where
  "place_on dest veh_id x y g =
     (let g = upd_veh veh_id (\<lambda>w. w\<lparr>veh_next_veh_id_stack := s16 dest, veh_prev_veh_id_stack := - 1,
                veh_x := s16 x, veh_y := s16 y\<rparr>) g;
          g = g\<lparr>VehDropLiftVehID := - 1\<rparr>
      in if dest < 0 \<and> y < 0 then g
         else let
           g = (if dest < 0
                then (if on_map g x y \<and> \<not> bit_at g x y AND BIT_BASE_IN_TILE \<noteq> 0
                      then owner_set g x y (veh_faction_id (Vehs g veh_id)) else g)
                else upd_veh dest (\<lambda>w. w\<lparr>veh_prev_veh_id_stack := s16 veh_id\<rparr>) g);
           v = Vehs g veh_id;
           flags = (if veh_faction_id v \<noteq> 0 \<and> VEH_triad g v \<noteq> TRIAD_AIR
                    then BIT_VEH_IN_TILE OR BIT_SUPPLY_REMOVE else BIT_VEH_IN_TILE)
         in if on_map g x y then bit_set g x y flags True else g)"

definition veh_drop :: "int \<Rightarrow> int \<Rightarrow> int \<Rightarrow> game \<Rightarrow> game option" where
  "veh_drop veh_id x y g = map_option (\<lambda>(g, dest). place_on dest veh_id x y g) (veh_at g x y)"

definition veh_put :: "int \<Rightarrow> int \<Rightarrow> int \<Rightarrow> game \<Rightarrow> game option" where
  "veh_put veh_id x y g = veh_drop veh_id x y (veh_lift veh_id g)"

definition veh_promote :: "int \<Rightarrow> game \<Rightarrow> game option" where
  "veh_promote veh_id g = do {
     top \<leftarrow> veh_top g veh_id;
     if top \<ge> 0 \<and> top \<noteq> veh_id then veh_put veh_id (veh_x (Vehs g top)) (veh_y (Vehs g top)) g else Some g
   }"

definition veh_demote :: "int \<Rightarrow> game \<Rightarrow> game option" where
  "veh_demote veh_id g =
     (if veh_id \<ge> 0 \<and> veh_next_veh_id_stack (Vehs g veh_id) \<ge> 0
      then do {
        last \<leftarrow> stack_last g (veh_next_veh_id_stack (Vehs g veh_id));
        Some (if last \<noteq> veh_id
          then let g = veh_lift veh_id g;
                   g = upd_veh last (\<lambda>w. w\<lparr>veh_next_veh_id_stack := s16 veh_id\<rparr>) g;
                   v = Vehs g last
               in upd_veh veh_id (\<lambda>w. w\<lparr>veh_prev_veh_id_stack := s16 last, veh_next_veh_id_stack := - 1,
                    veh_x := veh_x v, veh_y := veh_y v\<rparr>) g
          else g)
      }
      else Some g)"

subsection \<open>Moving and sorting a stack\<close>

partial_function (option) stack_put_loop :: "int \<Rightarrow> int \<Rightarrow> int \<Rightarrow> game \<Rightarrow> game option" where
  [code]: "stack_put_loop nxt x y g = do {
     let next_id = veh_next_veh_id_stack (Vehs g nxt);
     g \<leftarrow> veh_put nxt x y g;
     if next_id \<ge> 0 then stack_put_loop next_id x y g else Some g
   }"

definition stack_put :: "int \<Rightarrow> int \<Rightarrow> int \<Rightarrow> game \<Rightarrow> game option" where
  "stack_put veh_id x y g = do {
     top \<leftarrow> veh_top g veh_id;
     if top \<ge> 0 then stack_put_loop top x y g else Some g
   }"

text \<open>The loop both sorts share: the units that match are put aside at (-3, -3); the last one moved is returned.\<close>

partial_function (option) set_aside ::
    "(game \<Rightarrow> int \<Rightarrow> bool) \<Rightarrow> int \<Rightarrow> int \<Rightarrow> game \<Rightarrow> (game \<times> int) option" where
  [code]: "set_aside match nxt put g = do {
     let next_id = veh_next_veh_id_stack (Vehs g nxt);
     (g, put) \<leftarrow> (if match g nxt then map_option (\<lambda>g. (g, nxt)) (veh_put nxt (- 3) (- 3) g) else Some (g, put));
     if next_id \<ge> 0 then set_aside match next_id put g else Some (g, put)
   }"

definition veh_cargo :: "game \<Rightarrow> int \<Rightarrow> int" where
  "veh_cargo g veh_id =
     (let v = Vehs g veh_id; u = Units g (veh_unit_id v)
      in if unit_carry_capacity u \<noteq> 0 \<and> veh_unit_id v < MaxProtoFactionNum \<and> UNIT_offense_value g u < 0
         then veh_morale v + 1 else unit_carry_capacity u)"

definition carries :: "game \<Rightarrow> int \<Rightarrow> bool" where
  "carries g i \<longleftrightarrow> veh_cargo g i \<noteq> 0 \<or> has_abil g (veh_unit_id (Vehs g i)) ABL_CARRIER"

definition stack_sort :: "int \<Rightarrow> game \<Rightarrow> game option" where
  "stack_sort veh_id g = do {
     let x = veh_x (Vehs g veh_id);
     let y = veh_y (Vehs g veh_id);
     top \<leftarrow> veh_top g veh_id;
     if veh_id \<ge> 0 \<and> top \<ge> 0
     then do { (g, put) \<leftarrow> set_aside carries top (- 1) g; stack_put put x y g }
     else Some g
   }"

definition proto_plan :: "game \<Rightarrow> int \<Rightarrow> int" where
  "proto_plan g i = unit_plan (Units g (veh_unit_id (Vehs g i)))"

definition stack_sort_2 :: "int \<Rightarrow> game \<Rightarrow> game option" where
  "stack_sort_2 veh_id g = do {
     let x = veh_x (Vehs g veh_id);
     let y = veh_y (Vehs g veh_id);
     top \<leftarrow> veh_top g veh_id;
     (g, put) \<leftarrow> (if top \<ge> 0 then set_aside (\<lambda>g i. proto_plan g i = PLAN_COLONY) top (- 1) g else Some (g, - 1));
     (g, top) \<leftarrow> veh_at g x y;
     (g, put) \<leftarrow> (if top \<ge> 0 then set_aside (\<lambda>g i. proto_plan g i \<le> PLAN_COMBAT) top put g else Some (g, put));
     stack_put put x y g
   }"

definition stack_fix :: "int \<Rightarrow> game \<Rightarrow> (game \<times> int) option" where
  "stack_fix veh_id g =
     (if veh_id < 0 \<or> \<not> MultiplayerActive g
         \<or> (veh_next_veh_id_stack (Vehs g veh_id) < 0 \<and> veh_prev_veh_id_stack (Vehs g veh_id) < 0)
      then Some (g, veh_id)
      else do {
        g \<leftarrow> fold (\<lambda>i r. do {
            g \<leftarrow> r;
            if veh_x (Vehs g veh_id) = veh_x (Vehs g i) \<and> veh_y (Vehs g veh_id) = veh_y (Vehs g i)
            then Option.bind (veh_promote i g) (stack_sort veh_id) else Some g
          }) [0..VehCount g - 1] (Some g);
        map_option (Pair g) (veh_top g veh_id)
      })"

definition sleep :: "int \<Rightarrow> game \<Rightarrow> game" where
  "sleep veh_id g = upd_veh veh_id (\<lambda>v. v\<lparr>veh_order := ORDER_SENTRY_BOARD,
     veh_waypoint_x := (veh_waypoint_x v)(0 := - 1), veh_waypoint_y := (veh_waypoint_y v)(0 := 0)\<rparr>) g"

subsection \<open>The abstract stacks\<close>

text \<open>A stack is the list of its rows from the top. \<open>seg\<close> is a segment of a linked list with the row before it and the
  row after it.\<close>

type_synonym stacks = "int \<times> int \<Rightarrow> int list"

definition hd_or :: "int \<Rightarrow> int list \<Rightarrow> int" where
  "hd_or b xs = (case xs of [] \<Rightarrow> b | x # _ \<Rightarrow> x)"

definition last_or :: "int \<Rightarrow> int list \<Rightarrow> int" where
  "last_or a xs = (if xs = [] then a else last xs)"

definition links :: "game \<Rightarrow> int \<Rightarrow> int \<times> int \<times> int \<times> int" where
  "links g i = (let v = Vehs g i in (veh_x v, veh_y v, veh_prev_veh_id_stack v, veh_next_veh_id_stack v))"

fun seg :: "game \<Rightarrow> int \<times> int \<Rightarrow> int \<Rightarrow> int list \<Rightarrow> int \<Rightarrow> bool" where
  "seg g p a [] b = True"
| "seg g p a (i # xs) b \<longleftrightarrow> 0 \<le> i \<and> i < VehCount g \<and> links g i = (fst p, snd p, a, hd_or b xs) \<and> seg g p i xs b"

definition stacks_ok :: "game \<Rightarrow> stacks \<Rightarrow> bool" where
  "stacks_ok g S \<longleftrightarrow> VehCount g \<le> 32768
     \<and> (\<forall>p. distinct (S p) \<and> seg g p (- 1) (S p) (- 1))
     \<and> (\<forall>i. 0 \<le> i \<and> i < VehCount g \<longrightarrow> i \<in> set (S (veh_x (Vehs g i), veh_y (Vehs g i))))
     \<and> (\<forall>x y sq. sq_at g x y = Some sq \<longrightarrow> (MAP_veh_in_tile sq \<longleftrightarrow> S (x, y) \<noteq> []))"

lemma hd_or_simps [simp]: "hd_or b [] = b" "hd_or b (x # xs) = x"
  by (simp_all add: hd_or_def)

lemma last_or_simps [simp]: "last_or a [] = a" "last_or a (xs @ [x]) = x" "last_or a (x # xs) = last_or x xs"
  by (simp_all add: last_or_def)

lemma seg_append [simp]:
  "seg g p a (xs @ ys) b \<longleftrightarrow> seg g p a xs (hd_or b ys) \<and> seg g p (last_or a xs) ys b"
proof (induction xs arbitrary: a)
  case (Cons x xs)
  then show ?case by (cases xs) auto
qed simp

lemma seg_cong:
  "VehCount g' = VehCount g \<Longrightarrow> (\<And>i. i \<in> set xs \<Longrightarrow> links g' i = links g i) \<Longrightarrow> seg g' p a xs b = seg g p a xs b"
  by (induction xs arbitrary: a) auto

lemma seg_member:
  "seg g p a xs b \<Longrightarrow> i \<in> set xs \<Longrightarrow> 0 \<le> i \<and> i < VehCount g \<and> veh_x (Vehs g i) = fst p \<and> veh_y (Vehs g i) = snd p"
  by (induction xs arbitrary: a) (auto simp: links_def Let_def)

lemma stacks_ok_seg: "stacks_ok g S \<Longrightarrow> distinct (S p)" "stacks_ok g S \<Longrightarrow> seg g p (- 1) (S p) (- 1)"
  unfolding stacks_ok_def by blast+

lemma stacks_ok_mem:
  "stacks_ok g S \<Longrightarrow> i \<in> set (S p) \<longleftrightarrow> 0 \<le> i \<and> i < VehCount g \<and> p = (veh_x (Vehs g i), veh_y (Vehs g i))"
  using seg_member [OF stacks_ok_seg(2), of g S i p] unfolding stacks_ok_def by (cases p) auto

lemma stacks_ok_bit: "stacks_ok g S \<Longrightarrow> sq_at g x y = Some sq \<Longrightarrow> MAP_veh_in_tile sq \<longleftrightarrow> S (x, y) \<noteq> []"
  by (simp add: stacks_ok_def)

lemma veh_top_from_seg: "seg g p (- 1) (xs @ i # ys) b \<Longrightarrow> veh_top_from g i = Some (hd (xs @ [i]))"
proof (induction xs arbitrary: i ys rule: rev_induct)
  case Nil
  then show ?case by (subst veh_top_from.simps) (simp add: links_def Let_def)
next
  case (snoc x xs)
  then have "seg g p (- 1) (xs @ x # i # ys) b" by simp
  then have IH: "veh_top_from g x = Some (hd (xs @ [x]))" and "0 \<le> x" and "veh_prev_veh_id_stack (Vehs g i) = x"
    using snoc.IH [of x "i # ys"] by (simp_all add: links_def Let_def)
  then show ?case by (subst veh_top_from.simps) (cases xs; simp)
qed

lemma stack_last_seg: "seg g p a (i # ys) (- 1) \<Longrightarrow> stack_last g i = Some (last (i # ys))"
proof (induction ys arbitrary: a i)
  case Nil
  then show ?case by (subst stack_last.simps) (simp add: links_def Let_def)
next
  case (Cons y ys)
  then have "seg g p i (y # ys) (- 1)" "veh_next_veh_id_stack (Vehs g i) = y" "0 \<le> y"
    by (simp_all add: links_def Let_def)
  with Cons.IH [of i y] show ?case by (subst stack_last.simps) simp
qed

lemma veh_top_ok:
  assumes "stacks_ok g S" "i \<in> set (S p)"
  shows "veh_top g i = Some (hd (S p))"
proof -
  obtain xs ys where S: "S p = xs @ i # ys" using assms(2) by (auto simp: in_set_conv_decomp)
  have "veh_top_from g i = Some (hd (xs @ [i]))" using stacks_ok_seg(2) [OF assms(1), of p] unfolding S by (rule veh_top_from_seg)
  moreover have "hd (S p) = hd (xs @ [i])" unfolding S by (cases xs) simp_all
  moreover have "0 \<le> i" using stacks_ok_mem [OF assms(1), of i p] assms(2) by simp
  ultimately show ?thesis by (simp add: veh_top_def)
qed

lemma veh_at_ok:
  assumes ok: "stacks_ok g S"
  shows "veh_at g x y = Some (g, hd_or (- 1) (S (x, y)))"
proof (cases "veh_at_xy g x y")
  case None
  have "i \<notin> set (S (x, y))" for i
    using None stacks_ok_mem [OF ok, of i "(x, y)"] by (auto simp: veh_at_xy_def find_None_iff)
  then have "S (x, y) = []" by (metis list.set_intros(1) neq_Nil_conv)
  then show ?thesis
    using None stacks_ok_bit [OF ok] by (auto simp: veh_at_def sq_at_def split: option.splits)
next
  case (Some i)
  then have i: "i \<in> set (S (x, y))"
    using stacks_ok_mem [OF ok, of i "(x, y)"] by (auto simp: veh_at_xy_def find_Some_iff dest!: nth_mem)
  then have "S (x, y) \<noteq> []" by auto
  then have "sq_at g x y = Some sq \<Longrightarrow> MAP_veh_in_tile sq" for sq using stacks_ok_bit [OF ok] by simp
  moreover have "hd_or (- 1) (S (x, y)) = hd (S (x, y))" using \<open>S (x, y) \<noteq> []\<close> by (cases "S (x, y)") simp_all
  ultimately show ?thesis using Some veh_top_ok [OF ok i] by (simp add: veh_at_def split: option.split)
qed

text \<open>What moving units leaves alone: everything but the links, the squares and the record of the last lift.\<close>

definition unlinked :: "game \<Rightarrow> game" where
  "unlinked g = g\<lparr>Vehs := (\<lambda>i. (Vehs g i)\<lparr>veh_x := 0, veh_y := 0, veh_prev_veh_id_stack := 0, veh_next_veh_id_stack := 0\<rparr>),
     MapTiles := (\<lambda>_. blank_tile), VehDropLiftVehID := 0, VehLiftX := 0, VehLiftY := 0\<rparr>"

lemma links_upd_veh: "links (upd_veh j f g) i = (if i = j then (let v = f (Vehs g j) in
    (veh_x v, veh_y v, veh_prev_veh_id_stack v, veh_next_veh_id_stack v)) else links g i)"
  by (simp add: links_def)

lemma links_upd_sq [simp]: "links (upd_sq g x y f) i = links g i"
  by (simp add: links_def)

lemma upd_veh_map [simp]:
  "sq_at (upd_veh j f g) = sq_at g" "mapsq (upd_veh j f g) = mapsq g" "on_map (upd_veh j f g) = on_map g"
  "bit_at (upd_veh j f g) = bit_at g"
  by (auto simp: upd_veh_def sq_at_def mapsq_def on_map_def bit_at_def fun_eq_iff split: option.splits)

lemma lift_record [simp]:
  "sq_at (g\<lparr>VehDropLiftVehID := a\<rparr>) = sq_at g" "sq_at (g\<lparr>VehLiftX := a\<rparr>) = sq_at g" "sq_at (g\<lparr>VehLiftY := a\<rparr>) = sq_at g"
  "mapsq (g\<lparr>VehDropLiftVehID := a\<rparr>) = mapsq g" "mapsq (g\<lparr>VehLiftX := a\<rparr>) = mapsq g" "mapsq (g\<lparr>VehLiftY := a\<rparr>) = mapsq g"
  "links (g\<lparr>VehDropLiftVehID := a\<rparr>) = links g" "links (g\<lparr>VehLiftX := a\<rparr>) = links g" "links (g\<lparr>VehLiftY := a\<rparr>) = links g"
  "on_map (g\<lparr>VehDropLiftVehID := a\<rparr>) = on_map g"
  by (auto simp: sq_at_def mapsq_def links_def on_map_def fun_eq_iff split: option.splits)

lemma on_map_upd_sq [simp]: "on_map (upd_sq g a b f) = on_map g"
  by (simp add: on_map_def fun_eq_iff)

lemma on_map_off: "\<not> on_map g x y \<Longrightarrow> mapsq g x y = None"
  by (auto simp: mapsq_None_iff on_map_def)

lemma stacks_okI:
  assumes "VehCount g \<le> 32768" "\<And>p. distinct (S p)" "\<And>p. seg g p (- 1) (S p) (- 1)"
    "\<And>i. 0 \<le> i \<Longrightarrow> i < VehCount g \<Longrightarrow> \<exists>p. i \<in> set (S p)"
    "\<And>x y sq. sq_at g x y = Some sq \<Longrightarrow> MAP_veh_in_tile sq \<longleftrightarrow> S (x, y) \<noteq> []"
  shows "stacks_ok g S"
proof -
  have "i \<in> set (S (veh_x (Vehs g i), veh_y (Vehs g i)))" if i: "0 \<le> i" "i < VehCount g" for i
  proof -
    obtain p where p: "i \<in> set (S p)" using assms(4) [OF i] by blast
    with seg_member [OF assms(3) p] show ?thesis by (metis prod.collapse)
  qed
  with assms show ?thesis unfolding stacks_ok_def by blast
qed

lemma seg_snoc: "seg g p a (xs @ [l]) b \<longleftrightarrow> seg g p a xs l \<and> 0 \<le> l \<and> l < VehCount g
    \<and> links g l = (fst p, snd p, last_or a xs, b)"
  by auto

lemma veh_count_simps [simp]: "VehCount (veh_lift i g) = VehCount g"
  by (simp add: veh_lift_def Let_def bit_set_def)

text \<open>The links after a unit was lifted: only the unit itself and its two neighbours change.\<close>

lemma links_lift:
  assumes "links g i = (x, y, a, b)" "a \<noteq> i" "b \<noteq> i" "a < 0 \<or> a \<noteq> b"
  shows "links (veh_lift i g) j =
    (if j = i then (- 1, - 1, - 1, - 1)
     else if 0 \<le> a \<and> j = a then (case links g a of (x, y, p, _) \<Rightarrow> (x, y, p, b))
     else if 0 \<le> b \<and> j = b then (case links g b of (x, y, _, n) \<Rightarrow> (x, y, a, n))
     else links g j)"
proof -
  have v: "veh_prev_veh_id_stack (Vehs g i) = a" "veh_next_veh_id_stack (Vehs g i) = b"
    using assms(1) by (simp_all add: links_def Let_def)
  show ?thesis unfolding veh_lift_def Let_def v
    using assms(2-4)
    by (cases "0 \<le> a"; cases "0 \<le> b") (auto simp: links_upd_veh bit_set_def links_def Let_def)
qed

lemma sq_at_lift:
  "sq_at (veh_lift i g) x y =
     (if veh_prev_veh_id_stack (Vehs g i) < 0 \<and> veh_next_veh_id_stack (Vehs g i) < 0
         \<and> (x, y) = (veh_x (Vehs g i), veh_y (Vehs g i)) \<and> on_map g x y
      then map_option (\<lambda>sq. sq\<lparr>sq_items := sq_items sq AND NOT BIT_VEH_IN_TILE\<rparr>) (sq_at g x y) else sq_at g x y)"
  by (auto simp: veh_lift_def Let_def bit_set_def sq_at_upd_sq)

lemma unlinked_upd_veh:
  "(\<And>v. \<exists>a b c d. f v = v\<lparr>veh_x := a, veh_y := b, veh_prev_veh_id_stack := c, veh_next_veh_id_stack := d\<rparr>)
    \<Longrightarrow> unlinked (upd_veh i f g) = unlinked g"
proof -
  assume f: "\<And>v. \<exists>a b c d. f v = v\<lparr>veh_x := a, veh_y := b, veh_prev_veh_id_stack := c, veh_next_veh_id_stack := d\<rparr>"
  have "(f v)\<lparr>veh_x := 0, veh_y := 0, veh_prev_veh_id_stack := 0, veh_next_veh_id_stack := 0\<rparr>
      = v\<lparr>veh_x := 0, veh_y := 0, veh_prev_veh_id_stack := 0, veh_next_veh_id_stack := 0\<rparr>" for v
    using f [of v] by auto
  then show ?thesis by (simp add: unlinked_def upd_veh_def fun_eq_iff)
qed

lemma unlinked_links [simp]:
  "unlinked (upd_veh i (\<lambda>w. w\<lparr>veh_next_veh_id_stack := a\<rparr>) g) = unlinked g"
  "unlinked (upd_veh i (\<lambda>w. w\<lparr>veh_prev_veh_id_stack := b\<rparr>) g) = unlinked g"
  "unlinked (upd_veh i (\<lambda>w. w\<lparr>veh_x := c, veh_y := d, veh_next_veh_id_stack := a, veh_prev_veh_id_stack := b\<rparr>) g) = unlinked g"
  "unlinked (upd_veh i (\<lambda>w. w\<lparr>veh_next_veh_id_stack := a, veh_prev_veh_id_stack := b, veh_x := c, veh_y := d\<rparr>) g) = unlinked g"
  "unlinked (upd_veh i (\<lambda>w. w\<lparr>veh_prev_veh_id_stack := b, veh_next_veh_id_stack := a, veh_x := c, veh_y := d\<rparr>) g) = unlinked g"
  by (simp_all add: unlinked_def upd_veh_def fun_eq_iff)

lemma unlinked_other [simp]:
  "unlinked (upd_sq g x y f) = unlinked g" "unlinked (g\<lparr>VehDropLiftVehID := a\<rparr>) = unlinked g"
  "unlinked (g\<lparr>VehLiftX := a\<rparr>) = unlinked g" "unlinked (g\<lparr>VehLiftY := a\<rparr>) = unlinked g"
  by (auto simp: unlinked_def upd_sq_def split: option.splits)

lemma unlinked_lift [simp]: "unlinked (veh_lift i g) = unlinked g"
  by (simp add: veh_lift_def Let_def bit_set_def)

lemma unlinked_count: "unlinked g' = unlinked g \<Longrightarrow> VehCount g' = VehCount g"
proof -
  have "VehCount (unlinked h) = VehCount h" for h by (simp add: unlinked_def)
  then show "unlinked g' = unlinked g \<Longrightarrow> VehCount g' = VehCount g" by metis
qed

lemma veh_bit_clear: "\<not> MAP_veh_in_tile (sq\<lparr>sq_items := sq_items sq AND NOT BIT_VEH_IN_TILE\<rparr>)"
  by (simp add: MAP_veh_in_tile_def and.assoc)

subsection \<open>Lifting a unit removes it from its stack\<close>

lemma stack_split:
  assumes ok: "stacks_ok g S" and i: "i \<in> set (S p)"
  obtains as bs where "S p = as @ i # bs" "distinct (as @ i # bs)" "remove1 i (S p) = as @ bs"
    "seg g p (- 1) as i" "seg g p i bs (- 1)" "0 \<le> i" "i < VehCount g"
    "links g i = (fst p, snd p, last_or (- 1) as, hd_or (- 1) bs)" "\<forall>j \<in> set as \<union> set bs. 0 \<le> j"
proof -
  obtain as bs where Sp: "S p = as @ i # bs" using i by (auto simp: in_set_conv_decomp)
  have d: "distinct (as @ i # bs)" using stacks_ok_seg(1) [OF ok, of p] Sp by simp
  moreover have "remove1 i (S p) = as @ bs" using d by (simp add: Sp remove1_append)
  moreover have "\<forall>j \<in> set as \<union> set bs. 0 \<le> j" using stacks_ok_mem [OF ok, of _ p] Sp by auto
  ultimately show thesis using stacks_ok_seg(2) [OF ok, of p] Sp by (intro that) simp_all
qed

lemma neighbours:
  assumes "distinct (as @ i # bs)" "\<forall>j \<in> set as \<union> set bs. 0 \<le> j" "0 \<le> i"
  shows "last_or (- 1) as \<noteq> i" "hd_or (- 1) bs \<noteq> i" "last_or (- 1) as < 0 \<or> last_or (- 1) as \<noteq> hd_or (- 1) bs"
    "last_or (- 1) as < 0 \<longleftrightarrow> as = []" "hd_or (- 1) bs < 0 \<longleftrightarrow> bs = []"
    "last_or (- 1) as \<notin> set bs" "hd_or (- 1) bs \<notin> set as" "i \<notin> set as" "i \<notin> set bs"
  proof -
  have nn: "x \<in> set as \<Longrightarrow> \<not> x < 0" "x \<in> set bs \<Longrightarrow> \<not> x < 0" for x using assms(2) by (metis UnI1 not_le, metis UnI2 not_le)
  obtain a b where ab: "a = last_or (- 1) as" "b = hd_or (- 1) bs" by blast
  have "a = - 1 \<and> as = [] \<or> a \<in> set as \<and> as \<noteq> [] \<and> 0 \<le> a" using nn(1) [of a]
    by (auto simp: ab last_or_def)
  moreover have "b = - 1 \<and> bs = [] \<or> b \<in> set bs \<and> bs \<noteq> [] \<and> 0 \<le> b" using nn(2) [of b]
    by (auto simp: ab hd_or_def split: list.splits)
  ultimately show "last_or (- 1) as \<noteq> i" "hd_or (- 1) bs \<noteq> i" "last_or (- 1) as < 0 \<or> last_or (- 1) as \<noteq> hd_or (- 1) bs"
    "last_or (- 1) as < 0 \<longleftrightarrow> as = []" "hd_or (- 1) bs < 0 \<longleftrightarrow> bs = []"
    "last_or (- 1) as \<notin> set bs" "hd_or (- 1) bs \<notin> set as" "i \<notin> set as" "i \<notin> set bs"
    using assms(1,3) nn [of "- 1"] unfolding ab [symmetric] by auto
qed

lemma seg_lift:
  assumes "distinct (as @ i # bs)" "\<forall>j \<in> set as \<union> set bs. 0 \<le> j" "0 \<le> i"
    and "seg g p (- 1) as i" "seg g p i bs (- 1)" "links g i = (fst p, snd p, last_or (- 1) as, hd_or (- 1) bs)"
  shows "seg (veh_lift i g) p (- 1) (as @ bs) (- 1)"
proof -
  note N = neighbours [OF assms(1-3)]
  note L = links_lift [OF assms(6) N(1-3)]
  have "seg (veh_lift i g) p (- 1) as (hd_or (- 1) bs)"
  proof (cases as rule: rev_cases)
    case (snoc as' l)
    have "seg (veh_lift i g) p (- 1) as' l = seg g p (- 1) as' l"
      by (rule seg_cong) (use N assms(1) in \<open>auto simp: snoc L\<close>)
    with assms(2,4) N L [of l] show ?thesis by (simp add: snoc seg_snoc)
  qed simp
  moreover have "seg (veh_lift i g) p (last_or (- 1) as) bs (- 1)"
  proof (cases bs)
    case (Cons h bs')
    have "seg (veh_lift i g) p h bs' (- 1) = seg g p h bs' (- 1)"
      by (rule seg_cong) (use N assms(1) in \<open>auto simp: Cons L\<close>)
    with assms(2,5) N L [of h] show ?thesis by (simp add: Cons)
  qed simp
  ultimately show ?thesis by simp
qed

lemma seg_lift_other:
  assumes ok: "stacks_ok g S" and i: "i \<in> set (S p)" and q: "q \<noteq> p"
  shows "seg (veh_lift i g) q (- 1) (S q) (- 1)"
proof -
  from stack_split [OF ok i] obtain as bs where s: "S p = as @ i # bs" "distinct (as @ i # bs)"
    "links g i = (fst p, snd p, last_or (- 1) as, hd_or (- 1) bs)" "\<forall>j \<in> set as \<union> set bs. 0 \<le> j" "0 \<le> i" by metis
  note N = neighbours [OF s(2,4,5)]
  have m: "last_or (- 1) as \<in> insert (- 1) (set (S p))" "hd_or (- 1) bs \<in> insert (- 1) (set (S p))"
    by (auto simp: s(1) last_or_def hd_or_def split: list.splits)
  have "seg (veh_lift i g) q (- 1) (S q) (- 1) = seg g q (- 1) (S q) (- 1)"
  proof (rule seg_cong)
    fix j assume j: "j \<in> set (S q)"
    then have "0 \<le> j" "j \<notin> set (S p)" using stacks_ok_mem [OF ok] q by auto
    then have "j \<noteq> i" "j \<noteq> last_or (- 1) as" "j \<noteq> hd_or (- 1) bs" using m i by auto
    then show "links (veh_lift i g) j = links g j" by (simp add: links_lift [OF s(3) N(1-3)])
  qed simp
  then show ?thesis using stacks_ok_seg(2) [OF ok] by simp
qed

lemma lift_squares:
  assumes ok: "stacks_ok g S" and i: "i \<in> set (S p)" and sq: "sq_at (veh_lift i g) x y = Some sq"
  shows "MAP_veh_in_tile sq \<longleftrightarrow> (S(p := remove1 i (S p))) (x, y) \<noteq> []" "mapsq g x y \<noteq> None"
proof -
  from stack_split [OF ok i] obtain as bs where s: "S p = as @ i # bs" "distinct (as @ i # bs)" "remove1 i (S p) = as @ bs"
    "links g i = (fst p, snd p, last_or (- 1) as, hd_or (- 1) bs)" "\<forall>j \<in> set as \<union> set bs. 0 \<le> j" "0 \<le> i" by metis
  note N = neighbours [OF s(2,5,6)]
  have v: "veh_prev_veh_id_stack (Vehs g i) = last_or (- 1) as" "veh_next_veh_id_stack (Vehs g i) = hd_or (- 1) bs"
    "p = (veh_x (Vehs g i), veh_y (Vehs g i))"
    using s(4) by (auto simp: links_def Let_def)
  note sq' = sq [unfolded sq_at_lift v(1,2) v(3) [symmetric] N(4,5)]
  then show on: "mapsq g x y \<noteq> None" by (auto simp: sq_at_def split: if_splits)
  show "MAP_veh_in_tile sq \<longleftrightarrow> (S(p := remove1 i (S p))) (x, y) \<noteq> []"
  proof (cases "as = [] \<and> bs = [] \<and> (x, y) = p")
    case True
    have "on_map g x y" using on by (rule contrapos_np) (rule on_map_off)
    with True have "\<not> MAP_veh_in_tile sq" using sq' veh_bit_clear by (auto simp: sq_at_def)
    with True s(3) show ?thesis by auto
  next
    case False
    then have "sq_at g x y = Some sq" using sq' by (auto split: if_splits)
    with stacks_ok_bit [OF ok this] False s(1,3) show ?thesis by auto
  qed
qed

lemma lift_ok:
  assumes ok: "stacks_ok g S" and i: "i \<in> set (S p)" and free: "S (- 1, - 1) = []"
  shows "stacks_ok (veh_lift i g) (S(p := remove1 i (S p), (- 1, - 1) := [i]))"
proof (rule stacks_okI)
  let ?S = "S(p := remove1 i (S p), (- 1, - 1) := [i])"
  have pm: "p \<noteq> (- 1, - 1)" using free i by auto
  from stack_split [OF ok i] obtain as bs where s: "S p = as @ i # bs" "distinct (as @ i # bs)" "remove1 i (S p) = as @ bs"
    "seg g p (- 1) as i" "seg g p i bs (- 1)" "0 \<le> i" "i < VehCount g"
    "links g i = (fst p, snd p, last_or (- 1) as, hd_or (- 1) bs)" "\<forall>j \<in> set as \<union> set bs. 0 \<le> j" by metis
  show "VehCount (veh_lift i g) \<le> 32768" using ok by (simp add: stacks_ok_def)
  show "distinct (?S q)" for q using stacks_ok_seg(1) [OF ok] by (simp add: distinct_remove1)
  have "seg (veh_lift i g) (- 1, - 1) (- 1) [i] (- 1)"
    using s(6,7) by (simp add: links_lift [OF s(8) neighbours(1-3) [OF s(2,9,6)]])
  then show "seg (veh_lift i g) q (- 1) (?S q) (- 1)" for q
    using seg_lift [OF s(2,9,6,4,5,8)] seg_lift_other [OF ok i] pm by (auto simp: s(3))
  show "\<exists>q. j \<in> set (?S q)" if j: "0 \<le> j" "j < VehCount (veh_lift i g)" for j
  proof (cases "j = i")
    case True
    then show ?thesis by (intro exI [of _ "(- 1, - 1)"]) simp
  next
    case False
    let ?q = "(veh_x (Vehs g j), veh_y (Vehs g j))"
    have m: "j \<in> set (S ?q)" using stacks_ok_mem [OF ok] j by simp
    then have "?q \<noteq> (- 1, - 1)" using free by auto
    with m False show ?thesis by (intro exI [of _ ?q]) auto
  qed
  show "MAP_veh_in_tile sq \<longleftrightarrow> ?S (x, y) \<noteq> []" if "sq_at (veh_lift i g) x y = Some sq" for x y sq
    using lift_squares [OF ok i that] by (auto simp: mapsq_None_iff)
qed

subsection \<open>Dropping a unit puts it on top\<close>

lemma veh_bit_owner [simp]: "MAP_veh_in_tile (put_occupant f sq) = MAP_veh_in_tile sq"
  by (simp add: MAP_veh_in_tile_def)

lemma veh_bit_set [simp]:
  "MAP_veh_in_tile (sq\<lparr>sq_items := w OR 2\<rparr>)" "MAP_veh_in_tile (sq\<lparr>sq_items := w OR 1048578\<rparr>)"
proof -
  have "(w OR f) AND 2 \<noteq> 0" if "bit f 1" for f :: u32
  proof
    assume "(w OR f) AND 2 = 0"
    then have "\<not> bit ((w OR f) AND 2) 1" by simp
    with that show False by (simp add: bit_simps)
  qed
  from this [of 2] this [of 1048578] show "MAP_veh_in_tile (sq\<lparr>sq_items := w OR 2\<rparr>)"
    "MAP_veh_in_tile (sq\<lparr>sq_items := w OR 1048578\<rparr>)"
    by (simp_all add: MAP_veh_in_tile_def)
qed

lemma place_fields [simp]:
  "VehCount (place_on d i x y g) = VehCount g" "mapsq (place_on d i x y g) = mapsq g"
  "unlinked (place_on d i x y g) = unlinked g"
  by (simp_all add: place_on_def Let_def owner_set_def bit_set_def)

lemma links_place:
  assumes "s16 x = x" "s16 y = y" "s16 i = i" "s16 d = d" "d \<noteq> i"
  shows "links (place_on d i x y g) j =
    (if j = i then (x, y, - 1, d)
     else if 0 \<le> d \<and> j = d then (case links g d of (x, y, _, n) \<Rightarrow> (x, y, i, n)) else links g j)"
  using assms
  by (cases "0 \<le> d") (auto simp: place_on_def Let_def owner_set_def bit_set_def links_upd_veh links_def)

lemma sq_at_place:
  assumes "sq_at (place_on d i x y g) u v = Some sq'" "d < 0 \<Longrightarrow> y < 0 \<Longrightarrow> mapsq g x y = None"
  shows "\<exists>sq. sq_at g u v = Some sq \<and> (MAP_veh_in_tile sq' \<longleftrightarrow> (u, v) = (x, y) \<or> MAP_veh_in_tile sq)"
proof -
  show ?thesis
  proof (cases "on_map g x y")
    case True
    then have "\<not> (d < 0 \<and> y < 0)" by (auto simp: on_map_def)
    with True assms(1) show ?thesis
      by (auto simp: place_on_def Let_def owner_set_def bit_set_def sq_at_upd_sq split: if_splits)
  next
    case False
    then have "sq_at (place_on d i x y g) = sq_at g" "sq_at g x y = None"
      using on_map_off by (auto simp: place_on_def Let_def fun_eq_iff)
    with assms(1) show ?thesis by (auto simp: sq_at_def)
  qed
qed

lemma drop_ok:
  assumes ok: "stacks_ok g S" and S: "S p = [i]" and off: "mapsq g (fst p) (snd p) = None"
    and q: "p \<noteq> (x, y)" and s16: "s16 x = x" "s16 y = y"
  shows "\<exists>g'. veh_drop i x y g = Some g' \<and> unlinked g' = unlinked g \<and> mapsq g' = mapsq g
    \<and> stacks_ok g' (S(p := [], (x, y) := i # S (x, y)))"
proof -
  define d where "d = hd_or (- 1) (S (x, y))"
  let ?g = "place_on d i x y g" and ?S = "S(p := [], (x, y) := i # S (x, y))"
  have i: "0 \<le> i" "i < VehCount g" "p = (veh_x (Vehs g i), veh_y (Vehs g i))"
    using stacks_ok_mem [OF ok, of i p] S by auto
  have dm: "d = - 1 \<and> S (x, y) = [] \<or> d \<in> set (S (x, y)) \<and> 0 \<le> d \<and> d < VehCount g"
    using stacks_ok_mem [OF ok, of d "(x, y)"] by (auto simp: d_def hd_or_def split: list.splits)
  have ni: "i \<notin> set (S (x, y))" using stacks_ok_mem [OF ok, of i "(x, y)"] i(3) q by auto
  have c: "VehCount g \<le> 32768" using ok by (simp add: stacks_ok_def)
  have s: "s16 i = i" "s16 d = d" "d \<noteq> i" using i c dm ni by (auto intro!: s16_id)
  note L = links_place [OF s16 s, where g = g]
  have same: "links ?g j = links g j" if "j \<noteq> i" "j \<notin> set (S (x, y))" for j
    using that dm by (auto simp: L)
  have "stacks_ok ?g ?S"
  proof (rule stacks_okI)
    show "VehCount ?g \<le> 32768" using c by simp
    show "distinct (?S r)" for r using stacks_ok_seg(1) [OF ok] ni by simp
    have "seg ?g (x, y) (- 1) (i # S (x, y)) (- 1)"
    proof (cases "S (x, y)")
      case Nil
      then show ?thesis using i L [of i] by (simp add: d_def)
    next
      case (Cons h t)
      have sg: "0 \<le> h" "h < VehCount g" "links g h = (x, y, - 1, hd_or (- 1) t)" "seg g (x, y) h t (- 1)" "h \<notin> set t" "i \<notin> set t"
        using stacks_ok_seg [OF ok, of "(x, y)"] ni by (simp_all add: Cons)
      have dh: "d = h" by (simp add: d_def Cons)
      have "seg ?g (x, y) h t (- 1) = seg g (x, y) h t (- 1)"
      proof (rule seg_cong)
        show "links ?g j = links g j" if "j \<in> set t" for j using L [of j] that sg dh by (auto split: if_splits)
      qed simp
      with sg i s dh L [of i] L [of h] show ?thesis by (simp add: Cons)
    qed
    moreover have "seg ?g r (- 1) (S r) (- 1)" if "r \<noteq> p" "r \<noteq> (x, y)" for r
    proof -
      have "seg ?g r (- 1) (S r) (- 1) = seg g r (- 1) (S r) (- 1)"
      proof (rule seg_cong)
        fix j assume "j \<in> set (S r)"
        then have "r = (veh_x (Vehs g j), veh_y (Vehs g j))" using stacks_ok_mem [OF ok] by simp
        then show "links ?g j = links g j" using that i(3) stacks_ok_mem [OF ok, of j "(x, y)"] by (intro same) auto
      qed simp
      then show ?thesis using stacks_ok_seg(2) [OF ok] by simp
    qed
    ultimately show "seg ?g r (- 1) (?S r) (- 1)" for r by simp
    show "\<exists>r. j \<in> set (?S r)" if j: "0 \<le> j" "j < VehCount ?g" for j
    proof -
      have m: "j \<in> set (S (veh_x (Vehs g j), veh_y (Vehs g j)))" using stacks_ok_mem [OF ok] j by simp
      show ?thesis
      proof (cases "(veh_x (Vehs g j), veh_y (Vehs g j)) = p")
        case True
        with m S have "j = i" by simp
        then show ?thesis by (intro exI [of _ "(x, y)"]) simp
      next
        case False
        with m show ?thesis by (intro exI [of _ "(veh_x (Vehs g j), veh_y (Vehs g j))"]) auto
      qed
    qed
    show "MAP_veh_in_tile sq' \<longleftrightarrow> ?S (u, v) \<noteq> []" if sq': "sq_at ?g u v = Some sq'" for u v sq'
    proof -
      obtain sq where sq: "sq_at g u v = Some sq" "MAP_veh_in_tile sq' \<longleftrightarrow> (u, v) = (x, y) \<or> MAP_veh_in_tile sq"
        using sq_at_place [OF sq'] by (auto simp: mapsq_None_iff)
      have "(u, v) \<noteq> p" using sq(1) off by (auto simp: sq_at_def)
      with sq stacks_ok_bit [OF ok sq(1)] show ?thesis by auto
    qed
  qed
  then show ?thesis by (simp add: veh_drop_def veh_at_ok [OF ok] d_def)
qed

subsection \<open>Moving units refines moving list elements\<close>

text \<open>One unit to the top of the stack of a square.\<close>

definition put_top :: "int \<Rightarrow> int \<times> int \<Rightarrow> stacks \<Rightarrow> stacks" where
  "put_top i q S = (\<lambda>r. if r = q then i # remove1 i (S r) else remove1 i (S r))"

text \<open>The units that are being moved stand nowhere: the square of a lifted unit is empty between operations.\<close>

definition settled :: "game \<Rightarrow> stacks \<Rightarrow> bool" where
  "settled g S \<longleftrightarrow> stacks_ok g S \<and> S (- 1, - 1) = []"

lemma settled_ok: "settled g S \<Longrightarrow> stacks_ok g S"
  by (simp add: settled_def)

lemma put_ok:
  assumes ok: "settled g S" and i: "0 \<le> i" "i < VehCount g" and q: "(x, y) \<noteq> (- 1, - 1)" and s16: "s16 x = x" "s16 y = y"
  shows "\<exists>g'. veh_put i x y g = Some g' \<and> settled g' (put_top i (x, y) S) \<and> unlinked g' = unlinked g"
proof -
  let ?p = "(veh_x (Vehs g i), veh_y (Vehs g i))"
  have ok': "stacks_ok g S" and free: "S (- 1, - 1) = []" using ok by (simp_all add: settled_def)
  have ip: "i \<in> set (S ?p)" using stacks_ok_mem [OF ok'] i by simp
  have rem: "remove1 i (S r) = S r" if "r \<noteq> ?p" for r
    using that stacks_ok_mem [OF ok', of i r] by (auto intro: remove1_idem)
  have pm: "?p \<noteq> (- 1, - 1)" using ip free by auto
  define S1 where "S1 = S(?p := remove1 i (S ?p), (- 1, - 1) := [i])"
  have l: "stacks_ok (veh_lift i g) S1" unfolding S1_def by (rule lift_ok [OF ok' ip free])
  obtain g' where g': "veh_drop i x y (veh_lift i g) = Some g'" "unlinked g' = unlinked g"
      "stacks_ok g' (S1((- 1, - 1) := [], (x, y) := i # S1 (x, y)))"
    using drop_ok [OF l, of "(- 1, - 1)" i x y] q s16 by (auto simp: S1_def mapsq_None_iff)
  have "S1((- 1, - 1) := [], (x, y) := i # S1 (x, y)) = put_top i (x, y) S"
    using rem pm q free by (auto simp: S1_def put_top_def fun_eq_iff)
  with g' have "settled g' (put_top i (x, y) S)" using q free by (auto simp: settled_def put_top_def)
  with g' show ?thesis by (auto simp: veh_put_def)
qed

lemma next_in_stack:
  assumes "stacks_ok g S" "S p = ks @ i # rest"
  shows "veh_next_veh_id_stack (Vehs g i) = hd_or (- 1) rest" "0 \<le> i" "i < VehCount g"
    "hd_or (- 1) rest \<ge> 0 \<longleftrightarrow> rest \<noteq> []"
proof -
  have "seg g p (- 1) (ks @ i # rest) (- 1)" using stacks_ok_seg(2) [OF assms(1), of p] assms(2) by simp
  then show "veh_next_veh_id_stack (Vehs g i) = hd_or (- 1) rest" "0 \<le> i" "i < VehCount g"
    by (simp_all add: links_def Let_def)
  show "hd_or (- 1) rest \<ge> 0 \<longleftrightarrow> rest \<noteq> []"
    using stacks_ok_mem [OF assms(1), of _ p] assms(2) by (cases rest) auto
qed

lemma put_top_split:
  assumes ok: "stacks_ok g S" and S: "S p = ks @ i # rest" and q: "q \<noteq> p"
  shows "put_top i q S = S(p := ks @ rest, q := i # S q)"
proof -
  have d: "distinct (ks @ i # rest)" using stacks_ok_seg(1) [OF ok, of p] S by simp
  have "i \<in> set (S p)" using S by simp
  then have p: "p = (veh_x (Vehs g i), veh_y (Vehs g i))" using stacks_ok_mem [OF ok, of i p] by simp
  have "remove1 i (S r) = S r" if "r \<noteq> p" for r
    using that p stacks_ok_mem [OF ok, of i r] by (auto intro: remove1_idem)
  moreover have "remove1 i (S p) = ks @ rest" using d by (simp add: S remove1_append)
  ultimately show ?thesis using q by (auto simp: put_top_def fun_eq_iff)
qed

lemmas next_of_top = next_in_stack [where ks = "[]", unfolded append_Nil]

lemma put_loop_ok:
  assumes "settled g S" "S p = i # rest" "p \<noteq> (x, y)" "(x, y) \<noteq> (- 1, - 1)" "s16 x = x" "s16 y = y"
  shows "\<exists>g'. stack_put_loop i x y g = Some g' \<and> settled g' (S(p := [], (x, y) := rev (S p) @ S (x, y))) \<and> unlinked g' = unlinked g"
  using assms
proof (induction rest arbitrary: i g S)
  case Nil
  note N = next_of_top [OF settled_ok [OF Nil(1)] Nil(2)]
  obtain g' where g': "veh_put i x y g = Some g'" "settled g' (put_top i (x, y) S)" "unlinked g' = unlinked g"
    using put_ok [OF Nil(1) N(2,3) Nil(4-6)] by blast
  moreover have "put_top i (x, y) S = S(p := [], (x, y) := rev (S p) @ S (x, y))"
    using put_top_split [OF settled_ok [OF Nil(1)], of p "[]" i "[]" "(x, y)"] Nil by simp
  ultimately show ?case by (subst stack_put_loop.simps) (simp add: N(1))
next
  case (Cons j rest)
  note N = next_of_top [OF settled_ok [OF Cons.prems(1)] Cons.prems(2)]
  obtain g1 where g1: "veh_put i x y g = Some g1" "settled g1 (put_top i (x, y) S)" "unlinked g1 = unlinked g"
    using put_ok [OF Cons.prems(1) N(2,3) Cons.prems(4-6)] by blast
  let ?S = "put_top i (x, y) S"
  have S1: "?S = S(p := j # rest, (x, y) := i # S (x, y))"
    using put_top_split [OF settled_ok [OF Cons.prems(1)], of p "[]" i "j # rest" "(x, y)"] Cons.prems by simp
  have "?S p = j # rest" using Cons.prems(3) by (simp add: S1)
  from Cons.IH [OF g1(2) this Cons.prems(3-6)] obtain g' where g': "stack_put_loop j x y g1 = Some g'"
    "settled g' (?S(p := [], (x, y) := rev (?S p) @ ?S (x, y)))" "unlinked g' = unlinked g1" by blast
  have "?S(p := [], (x, y) := rev (?S p) @ ?S (x, y)) = S(p := [], (x, y) := rev (S p) @ S (x, y))"
    using Cons.prems(2,3) by (auto simp: S1 fun_eq_iff)
  moreover have "0 \<le> j" using N(4) by simp
  ultimately show ?case using g' g1 by (subst stack_put_loop.simps) (simp add: N(1))
qed

lemma set_aside_ok:
  assumes "settled g S" "S p = ks @ i # rest" "p \<noteq> (- 3, - 3)"
    and P: "\<And>h j. unlinked h = unlinked g0 \<Longrightarrow> match h j = P j" and g0: "unlinked g = unlinked g0"
  shows "\<exists>g' put'. set_aside match i put g = Some (g', put')
    \<and> settled g' (S(p := ks @ filter (\<lambda>j. \<not> P j) (i # rest), (- 3, - 3) := rev (filter P (i # rest)) @ S (- 3, - 3)))
    \<and> unlinked g' = unlinked g0 \<and> put' = last_or put (filter P (i # rest))"
  using assms(1-3) g0
proof (induction rest arbitrary: i ks g S put)
  case Nil
  note N = next_in_stack [OF settled_ok [OF Nil(1)] Nil(2)]
  show ?case
  proof (cases "P i")
    case True
    have "s16 (- 3) = - 3" by (simp add: s16_id)
    then obtain g' where g': "veh_put i (- 3) (- 3) g = Some g'" "settled g' (put_top i (- 3, - 3) S)" "unlinked g' = unlinked g"
      using put_ok [OF Nil(1) N(2,3), of "- 3" "- 3"] by auto
    moreover have "put_top i (- 3, - 3) S = S(p := ks @ [], (- 3, - 3) := i # S (- 3, - 3))"
      using put_top_split [OF settled_ok [OF Nil(1)] Nil(2), of "(- 3, - 3)"] Nil(3) by simp
    ultimately show ?thesis using True P [OF Nil(4), of i] Nil(4)
      by (subst set_aside.simps) (simp add: N(1))
  next
    case False
    have "S(p := ks @ [i], (- 3, - 3) := S (- 3, - 3)) = S" using Nil by (auto simp: fun_eq_iff)
    with False P [OF Nil(4), of i] Nil show ?thesis
      by (subst set_aside.simps) (simp add: N(1))
  qed
next
  case (Cons j rest)
  note N = next_in_stack [OF settled_ok [OF Cons.prems(1)] Cons.prems(2)]
  have j: "0 \<le> j" using N(4) by simp
  show ?case
  proof (cases "P i")
    case True
    have "s16 (- 3) = - 3" by (simp add: s16_id)
    then obtain g1 where g1: "veh_put i (- 3) (- 3) g = Some g1" "settled g1 (put_top i (- 3, - 3) S)" "unlinked g1 = unlinked g"
      using put_ok [OF Cons.prems(1) N(2,3), of "- 3" "- 3"] by auto
    let ?S = "put_top i (- 3, - 3) S"
    have S1: "?S = S(p := ks @ j # rest, (- 3, - 3) := i # S (- 3, - 3))"
      using put_top_split [OF settled_ok [OF Cons.prems(1)] Cons.prems(2), of "(- 3, - 3)"] Cons.prems(3) by simp
    have "?S p = ks @ j # rest" "unlinked g1 = unlinked g0" using Cons.prems(3,4) g1(3) by (simp_all add: S1)
    from Cons.IH [OF g1(2) this(1) Cons.prems(3) this(2), of i] obtain g' put' where g': "set_aside match j i g1 = Some (g', put')"
      "settled g' (?S(p := ks @ filter (\<lambda>j. \<not> P j) (j # rest), (- 3, - 3) := rev (filter P (j # rest)) @ ?S (- 3, - 3)))"
      "unlinked g' = unlinked g0" "put' = last_or i (filter P (j # rest))" by blast
    have "?S(p := ks @ filter (\<lambda>j. \<not> P j) (j # rest), (- 3, - 3) := rev (filter P (j # rest)) @ ?S (- 3, - 3))
        = S(p := ks @ filter (\<lambda>j. \<not> P j) (i # j # rest), (- 3, - 3) := rev (filter P (i # j # rest)) @ S (- 3, - 3))"
      using True by (simp add: S1 fun_eq_iff)
    with g' g1 True j P [OF Cons.prems(4), of i] show ?thesis by (subst set_aside.simps) (simp add: N(1))
  next
    case False
    have "S p = (ks @ [i]) @ j # rest" using Cons.prems(2) by simp
    from Cons.IH [OF Cons.prems(1) this Cons.prems(3,4), of put] obtain g' put' where g': "set_aside match j put g = Some (g', put')"
      "settled g' (S(p := (ks @ [i]) @ filter (\<lambda>j. \<not> P j) (j # rest), (- 3, - 3) := rev (filter P (j # rest)) @ S (- 3, - 3)))"
      "unlinked g' = unlinked g0" "put' = last_or put (filter P (j # rest))" by blast
    with False j P [OF Cons.prems(4), of i] show ?thesis by (subst set_aside.simps) (simp add: N(1))
  qed
qed

lemma same_units: "unlinked h = unlinked g \<Longrightarrow> carries h i = carries g i"
  "unlinked h = unlinked g \<Longrightarrow> proto_plan h i = proto_plan g i"
proof -
  have "carries k i = carries (unlinked k) i" "proto_plan k i = proto_plan (unlinked k) i" for k
    by (simp_all add: carries_def proto_plan_def veh_cargo_def unlinked_def has_abil_def is_alien_def has_tech_def has_project_def
      has_project_any_def project_base_def UNIT_offense_value_def Let_def)
  then show "unlinked h = unlinked g \<Longrightarrow> carries h i = carries g i"
    "unlinked h = unlinked g \<Longrightarrow> proto_plan h i = proto_plan g i" by metis+
qed

lemma veh_top_hd: "settled g S \<Longrightarrow> S p \<noteq> [] \<Longrightarrow> veh_top g (hd (S p)) = Some (hd (S p))"
  using veh_top_ok [of g S "hd (S p)" p] by (simp add: settled_def)

lemma hd_row: "settled g S \<Longrightarrow> S p \<noteq> [] \<Longrightarrow> 0 \<le> hd (S p) \<and> hd (S p) < VehCount g"
  using stacks_ok_mem [of g S "hd (S p)" p] by (simp add: settled_def)

text \<open>Putting back what was set aside.\<close>

lemma stack_put_aside:
  assumes ok: "settled g S" and q: "(x, y) \<noteq> (- 1, - 1)" "(x, y) \<noteq> (- 3, - 3)" and s16: "s16 x = x" "s16 y = y"
    and put: "put = hd_or (- 1) (S (- 3, - 3))"
  shows "\<exists>g'. stack_put put x y g = Some g' \<and> unlinked g' = unlinked g
    \<and> settled g' (S((- 3, - 3) := [], (x, y) := rev (S (- 3, - 3)) @ S (x, y)))"
proof (cases "S (- 3, - 3)")
  case Nil
  then have "S((- 3, - 3) := [], (x, y) := rev (S (- 3, - 3)) @ S (x, y)) = S" by (auto simp: fun_eq_iff)
  then show ?thesis using Nil put ok by (simp add: stack_put_def veh_top_def)
next
  case (Cons i rest)
  have "veh_top g i = Some i" "0 \<le> i" using veh_top_hd [OF ok, of "(- 3, - 3)"] hd_row [OF ok, of "(- 3, - 3)"] by (simp_all add: Cons)
  then show ?thesis
    using put_loop_ok [OF ok Cons q(2) [symmetric] q(1) s16] put by (auto simp: stack_put_def Cons)
qed

lemma last_or_rev: "last_or a xs = hd_or a (rev xs)"
  by (cases xs rule: rev_cases) simp_all

definition sorted_stack :: "(int \<Rightarrow> bool) \<Rightarrow> int list \<Rightarrow> int list" where
  "sorted_stack P xs = filter P xs @ filter (\<lambda>i. \<not> P i) xs"

text \<open>C3: Sorting a stack is a stable partition: in every state whose links and squares agree with a family of stacks,
  \<open>stack_sort\<close> returns, the transports and carriers of the stack come first, both groups in their old order,
  all other stacks are as before, and no unit changed in anything but its links.\<close>

theorem stack_sort_stable:
  assumes ok: "settled g S" and i: "i \<in> set (S (x, y))" and aside: "S (- 3, - 3) = []" "(x, y) \<noteq> (- 3, - 3)"
    and s16: "s16 x = x" "s16 y = y"
  shows "\<exists>g'. stack_sort i g = Some g' \<and> unlinked g' = unlinked g
    \<and> settled g' (S((x, y) := sorted_stack (carries g) (S (x, y))))"
proof -
  have m: "0 \<le> i" "veh_x (Vehs g i) = x" "veh_y (Vehs g i) = y" using stacks_ok_mem [OF settled_ok [OF ok], of i "(x, y)"] i by auto
  obtain h t where S: "S (x, y) = h # t" using i by (cases "S (x, y)") auto
  have q: "(x, y) \<noteq> (- 1, - 1)" using ok S by (auto simp: settled_def)
  have top: "veh_top g i = Some h" "0 \<le> h" using veh_top_ok [OF settled_ok [OF ok] i] hd_row [OF ok, of "(x, y)"] by (simp_all add: S)
  have S': "S (x, y) = [] @ h # t" by (simp add: S)
  have "carries k j = carries g j" if "unlinked k = unlinked g" for k j using that by (rule same_units(1))
  from set_aside_ok [where put = "- 1" and match = carries and P = "carries g", OF ok S' aside(2) this refl, unfolded append_Nil aside(1) append_Nil2]
  obtain g1 put where g1: "set_aside carries h (- 1) g = Some (g1, put)" "unlinked g1 = unlinked g"
      "put = last_or (- 1) (filter (carries g) (h # t))"
    "settled g1 (S((x, y) := filter (\<lambda>j. \<not> carries g j) (h # t), (- 3, - 3) := rev (filter (carries g) (h # t))))"
    by blast
  let ?S = "S((x, y) := filter (\<lambda>j. \<not> carries g j) (h # t), (- 3, - 3) := rev (filter (carries g) (h # t)))"
  have "put = hd_or (- 1) (?S (- 3, - 3))" using g1(3) by (simp only: last_or_rev fun_upd_same)
  from stack_put_aside [OF g1(4) q aside(2) s16 this] obtain g' where g': "stack_put put x y g1 = Some g'" "unlinked g' = unlinked g1"
    "settled g' (?S((- 3, - 3) := [], (x, y) := rev (?S (- 3, - 3)) @ ?S (x, y)))" by blast
  moreover have "?S((- 3, - 3) := [], (x, y) := rev (?S (- 3, - 3)) @ ?S (x, y))
      = S((x, y) := sorted_stack (carries g) (S (x, y)))"
    using aside by (auto simp: S sorted_stack_def fun_eq_iff)
  ultimately show ?thesis using g1 m top by (simp add: stack_sort_def)
qed

subsection \<open>Top and bottom of a stack\<close>

lemma put_top_same:
  assumes "settled g S" "S p = i # t"
  shows "put_top i p S = S"
proof -
  have "i \<notin> set (S r)" if "r \<noteq> p" for r
    using that assms stacks_ok_mem [OF settled_ok [OF assms(1)], of i r] stacks_ok_mem [OF settled_ok [OF assms(1)], of i p] by auto
  then show ?thesis using assms(2) by (auto simp: put_top_def fun_eq_iff remove1_idem)
qed

lemma promote_ok:
  assumes ok: "settled g S" and i: "i \<in> set (S (x, y))" and s16: "s16 x = x" "s16 y = y"
  shows "\<exists>g'. veh_promote i g = Some g' \<and> settled g' (put_top i (x, y) S) \<and> unlinked g' = unlinked g"
proof -
  let ?h = "hd (S (x, y))"
  have ne: "S (x, y) \<noteq> []" using i by auto
  have h: "veh_top g i = Some ?h" "0 \<le> ?h" "?h \<in> set (S (x, y))"
    using veh_top_ok [OF settled_ok [OF ok] i] hd_row [OF ok ne] ne by simp_all
  show ?thesis
  proof (cases "?h = i")
    case True
    then obtain t where "S (x, y) = i # t" using ne by (cases "S (x, y)") auto
    then have "put_top i (x, y) S = S" by (rule put_top_same [OF ok])
    with True h ok show ?thesis by (simp add: veh_promote_def)
  next
    case False
    have at: "veh_x (Vehs g ?h) = x" "veh_y (Vehs g ?h) = y" "0 \<le> i" "i < VehCount g"
      using stacks_ok_mem [OF settled_ok [OF ok], of _ "(x, y)"] h(3) i by auto
    have q: "(x, y) \<noteq> (- 1, - 1)" using ok ne by (auto simp: settled_def)
    from put_ok [OF ok at(3,4) q s16] show ?thesis using False h(1,2) by (auto simp: veh_promote_def at)
  qed
qed

text \<open>The update at the end of \<open>veh_demote\<close>.\<close>

lemma links_append_last:
  "i \<noteq> l \<Longrightarrow> s16 i = i \<Longrightarrow> s16 l = l \<Longrightarrow>
   links (upd_veh i (\<lambda>w. w\<lparr>veh_prev_veh_id_stack := s16 l, veh_next_veh_id_stack := - 1, veh_x := veh_x (Vehs g l), veh_y := veh_y (Vehs g l)\<rparr>)
     (upd_veh l (\<lambda>w. w\<lparr>veh_next_veh_id_stack := s16 i\<rparr>) g)) j
   = (if j = i then (veh_x (Vehs g l), veh_y (Vehs g l), l, - 1)
      else if j = l then (case links g l of (x, y, p, _) \<Rightarrow> (x, y, p, i)) else links g j)"
  by (simp add: links_upd_veh links_def Let_def)

lemma append_ok:
  assumes ok: "stacks_ok g S" and S: "S (- 1, - 1) = [i]" "S (x, y) = as @ [l]" and q: "(x, y) \<noteq> (- 1, - 1)"
  defines "g' \<equiv> upd_veh i (\<lambda>w. w\<lparr>veh_prev_veh_id_stack := s16 l, veh_next_veh_id_stack := - 1,
      veh_x := veh_x (Vehs g l), veh_y := veh_y (Vehs g l)\<rparr>) (upd_veh l (\<lambda>w. w\<lparr>veh_next_veh_id_stack := s16 i\<rparr>) g)"
  shows "settled g' (S((- 1, - 1) := [], (x, y) := S (x, y) @ [i]))"
proof -
  let ?S = "S((- 1, - 1) := [], (x, y) := S (x, y) @ [i])"
  have il: "0 \<le> i" "i < VehCount g" "0 \<le> l" "l < VehCount g" "veh_x (Vehs g l) = x" "veh_y (Vehs g l) = y"
    "i \<notin> set (S (x, y))" "i \<noteq> l"
    using stacks_ok_mem [OF ok, of i "(- 1, - 1)"] stacks_ok_mem [OF ok, of i "(x, y)"] stacks_ok_mem [OF ok, of l "(x, y)"] S q by auto
  have c: "VehCount g \<le> 32768" using ok by (simp add: stacks_ok_def)
  then have s: "s16 i = i" "s16 l = l" using il by (auto intro!: s16_id)
  note L = links_append_last [OF il(8) s, of g, folded g'_def, unfolded il(5,6)]
  have cnt: "VehCount g' = VehCount g" "sq_at g' = sq_at g" by (simp_all add: g'_def)
  have "seg g (x, y) (- 1) as l" "links g l = (x, y, last_or (- 1) as, - 1)" "distinct (as @ [l])"
    using stacks_ok_seg [OF ok, of "(x, y)"] by (simp_all add: S)
  moreover have "seg g' (x, y) (- 1) as l = seg g (x, y) (- 1) as l"
    by (rule seg_cong) (use calculation(3) il(7) S cnt in \<open>auto simp: L\<close>)
  ultimately have new: "seg g' (x, y) (- 1) (S (x, y) @ [i]) (- 1)" using il L [of l] L [of i] cnt by (simp add: S)
  have other: "seg g' r (- 1) (S r) (- 1)" if "r \<noteq> (x, y)" "r \<noteq> (- 1, - 1)" for r
  proof -
    have "seg g' r (- 1) (S r) (- 1) = seg g r (- 1) (S r) (- 1)"
    proof (rule seg_cong)
      fix j assume "j \<in> set (S r)"
      then have "r = (veh_x (Vehs g j), veh_y (Vehs g j))" using stacks_ok_mem [OF ok] by simp
      with that il stacks_ok_mem [OF ok, of i "(- 1, - 1)"] S have "j \<noteq> i" "j \<noteq> l" by auto
      then show "links g' j = links g j" by (simp add: L)
    qed (simp add: cnt)
    then show ?thesis using stacks_ok_seg(2) [OF ok] by simp
  qed
  have "stacks_ok g' ?S"
  proof (rule stacks_okI)
    show "VehCount g' \<le> 32768" using c cnt by simp
    show "distinct (?S r)" for r using stacks_ok_seg(1) [OF ok] il(7) by simp
    show "seg g' r (- 1) (?S r) (- 1)" for r using new other [of r] by auto
    show "\<exists>r. j \<in> set (?S r)" if "0 \<le> j" "j < VehCount g'" for j
    proof (cases "j = i")
      case False
      let ?r = "(veh_x (Vehs g j), veh_y (Vehs g j))"
      have "j \<in> set (S ?r)" using stacks_ok_mem [OF ok] that cnt by simp
      then have "j \<in> set (?S ?r)" using False S by (cases "?r = (- 1, - 1)") auto
      then show ?thesis by blast
    next
      case True
      then show ?thesis by (intro exI [of _ "(x, y)"]) simp
    qed
    show "MAP_veh_in_tile sq \<longleftrightarrow> ?S (u, v) \<noteq> []" if "sq_at g' u v = Some sq" for u v sq
    proof -
      have sq: "sq_at g u v = Some sq" using that cnt by simp
      then have "(u, v) \<noteq> (- 1, - 1)" by (auto simp: sq_at_def mapsq_Some_iff split: option.splits)
      then show ?thesis using stacks_ok_bit [OF ok sq] S by auto
    qed
  qed
  then show ?thesis using q by (auto simp: settled_def)
qed

lemma demote_ok:
  assumes ok: "settled g S" and i: "i \<in> set (S (x, y))"
  shows "\<exists>g'. veh_demote i g = Some g' \<and> settled g' (S((x, y) := remove1 i (S (x, y)) @ [i])) \<and> unlinked g' = unlinked g"
proof -
  obtain as bs where s: "S (x, y) = as @ i # bs" "remove1 i (S (x, y)) = as @ bs" "0 \<le> i" "distinct (as @ i # bs)"
    using stack_split [OF settled_ok [OF ok] i] by metis
  note N = next_in_stack [OF settled_ok [OF ok] s(1)]
  show ?thesis
  proof (cases bs rule: rev_cases)
    case Nil
    then have "S((x, y) := remove1 i (S (x, y)) @ [i]) = S" using s by (auto simp: fun_eq_iff)
    with Nil N s(3) ok show ?thesis by (simp add: veh_demote_def)
  next
    case (snoc cs l)
    then obtain h t where ht: "bs = h # t" by (metis append_is_Nil_conv list.exhaust not_Cons_self2)
    have "seg g (x, y) i bs (- 1)" using stacks_ok_seg(2) [OF settled_ok [OF ok], of "(x, y)"] s(1) by simp
    then have last: "stack_last g h = Some l" using stack_last_seg [of g "(x, y)" i h t] ht snoc by (metis last_snoc)
    have q: "(x, y) \<noteq> (- 1, - 1)" using ok s(1) by (auto simp: settled_def)
    have free: "S (- 1, - 1) = []" using ok by (simp add: settled_def)
    let ?S = "S((x, y) := remove1 i (S (x, y)), (- 1, - 1) := [i])"
    have l: "stacks_ok (veh_lift i g) ?S" by (rule lift_ok [OF settled_ok [OF ok] i free])
    have "?S (x, y) = (as @ cs) @ [l]" using s(2) snoc q by auto
    note A = append_ok [OF l _ this q, of i, simplified fun_upd_same, OF refl]
    have "?S((- 1, - 1) := [], (x, y) := ?S (x, y) @ [i]) = S((x, y) := remove1 i (S (x, y)) @ [i])"
      using free q by (auto simp: fun_eq_iff)
    note A = A [unfolded this]
    have "l \<noteq> i" using s(4) snoc by auto
    moreover have "0 \<le> h" using N(4) by (simp add: ht)
    ultimately show ?thesis using A N(1) last s(3) ht by (simp add: veh_demote_def Let_def)
  qed
qed

lemma put_top_here:
  assumes "settled g S" "i \<in> set (S p)"
  shows "put_top i p S = S(p := i # remove1 i (S p))"
proof -
  have "i \<notin> set (S r)" if "r \<noteq> p" for r
    using that assms(2) stacks_ok_mem [OF settled_ok [OF assms(1)], of i r] stacks_ok_mem [OF settled_ok [OF assms(1)], of i p] by auto
  then show ?thesis by (auto simp: put_top_def fun_eq_iff remove1_idem)
qed

text \<open>C4: The link-following loops end: in a state with sound links, \<open>veh_top\<close> returns the head of the stack, \<open>veh_promote\<close> moves
  the unit to the front, \<open>veh_demote\<close> to the end, and \<open>stack_put\<close> carries the whole stack to another square, where it
  lies in reversed order on top of what was there; in each case the other stacks are as before and nothing but links
  and positions changed.\<close>

theorem stack_loops_return:
  assumes "settled g S" "i \<in> set (S (x, y))" "s16 x = x" "s16 y = y"
    and "(a, b) \<noteq> (x, y)" "(a, b) \<noteq> (- 1, - 1)" "s16 a = a" "s16 b = b"
  shows "veh_top g i = Some (hd (S (x, y)))
    \<and> (\<exists>g'. veh_promote i g = Some g' \<and> unlinked g' = unlinked g \<and> settled g' (S((x, y) := i # remove1 i (S (x, y)))))
    \<and> (\<exists>g'. veh_demote i g = Some g' \<and> unlinked g' = unlinked g \<and> settled g' (S((x, y) := remove1 i (S (x, y)) @ [i])))
    \<and> (\<exists>g'. stack_put i a b g = Some g' \<and> unlinked g' = unlinked g
        \<and> settled g' (S((x, y) := [], (a, b) := rev (S (x, y)) @ S (a, b))))"
proof -
  note top = veh_top_ok [OF settled_ok [OF assms(1)] assms(2)]
  obtain h t where S: "S (x, y) = h # t" using assms(2) by (cases "S (x, y)") auto
  have "put_top i (x, y) S = S((x, y) := i # remove1 i (S (x, y)))"
    using assms(1,2) by (rule put_top_here)
  moreover have "0 \<le> h" using hd_row [OF assms(1), of "(x, y)"] by (simp add: S)
  ultimately show ?thesis
    using promote_ok [OF assms(1-4)] demote_ok [OF assms(1,2)] put_loop_ok [OF assms(1) S assms(5) [symmetric] assms(6-8)] top
    by (auto simp: stack_put_def S)
qed

text \<open>A game with a soldier drawn on top of a transport, both carried off the map, to apply the two theorems to.\<close>

definition ferry_game :: game where
  "ferry_game = blank_game\<lparr>VehCount := 2, MapAreaX := 1, MapAreaY := 1, MapAreaTiles := 1, BaseCount := 1,
     CurrentPlayerFaction := 1, conf := default_conf\<lparr>conf_max_veh_num := 100\<rparr>,
     Units := (\<lambda>_. blank_unit_proto)(128 := blank_unit_proto\<lparr>unit_carry_capacity := 4\<rparr>),
     Vehs := (\<lambda>_. blank_veh)(0 := blank_veh\<lparr>veh_x := 5, veh_y := 5, veh_prev_veh_id_stack := - 1, veh_next_veh_id_stack := 1\<rparr>,
        1 := blank_veh\<lparr>veh_x := 5, veh_y := 5, veh_unit_id := 128, veh_prev_veh_id_stack := 0, veh_next_veh_id_stack := - 1\<rparr>)\<rparr>"

definition ferry_stacks :: stacks where
  "ferry_stacks = (\<lambda>p. if p = (5, 5) then [0, 1] else [])"

lemma ferry_settled: "settled ferry_game ferry_stacks"
  by (auto simp: settled_def stacks_ok_def ferry_game_def ferry_stacks_def links_def blank_game_def blank_tile_def blank_veh_def
     sq_at_def mapsq_def MAP_veh_in_tile_def split: if_splits)

lemma ferry_carries: "carries ferry_game 1" "\<not> carries ferry_game 0"
  by (auto simp: carries_def veh_cargo_def ferry_game_def blank_game_def blank_veh_def has_abil_def Let_def
     blank_unit_proto_def)

lemma stack_sort_stable_witness:
  "\<exists>g'. stack_sort 0 ferry_game = Some g' \<and> unlinked g' = unlinked ferry_game
     \<and> settled g' (ferry_stacks((5, 5) := [1, 0]))"
  using stack_sort_stable [OF ferry_settled, of 0 5 5]
  by (simp add: ferry_stacks_def sorted_stack_def ferry_carries s16_def)

lemma stack_loops_return_witness:
  "veh_top ferry_game 1 = Some 0
    \<and> (\<exists>g'. veh_promote 1 ferry_game = Some g' \<and> settled g' (ferry_stacks((5, 5) := [1, 0])))
    \<and> (\<exists>g'. stack_put 1 9 9 ferry_game = Some g' \<and> settled g' (ferry_stacks((5, 5) := [], (9, 9) := [1, 0])))"
  using stack_loops_return [OF ferry_settled, of 1 5 5 9 9] by (auto simp: ferry_stacks_def s16_def)

end
