(* ===== verification/Veh_Kill.thy ===== *)
theory Veh_Kill
  imports Veh_Stack
begin

text \<open>
  The destruction of a unit (veh.cpp): its row is removed from the table, all later rows move down, every
  reference to a row is renumbered, and the bridge keeps its handles in step.
\<close>

subsection \<open>Killing a unit\<close>

definition shift_row :: "int \<Rightarrow> int \<Rightarrow> int" where
  "shift_row k i = (if i > k then i - 1 else i)"

text \<open>A reference to a row from elsewhere: dropped when the row is gone.\<close>

definition shift_ref :: "int \<Rightarrow> int \<Rightarrow> int" where
  "shift_ref k i = (if i = k then - 1 else if i > k then i - 1 else i)"

text \<open>The loop over the remaining rows.\<close>

definition renumber_veh :: "int \<Rightarrow> veh \<Rightarrow> veh" where
  "renumber_veh k v =
     (let v = v\<lparr>veh_prev_veh_id_stack := shift_row k (veh_prev_veh_id_stack v),
                veh_next_veh_id_stack := shift_row k (veh_next_veh_id_stack v)\<rparr>
      in if veh_order v = ORDER_SENTRY_BOARD
         then (if veh_waypoint_x v 0 = k then v\<lparr>veh_order := ORDER_NONE\<rparr>
               else if veh_waypoint_x v 0 > k then v\<lparr>veh_waypoint_x := (veh_waypoint_x v)(0 := veh_waypoint_x v 0 - 1)\<rparr>
               else v)
         else v)"

definition compact_vehs :: "int \<Rightarrow> game \<Rightarrow> game" where
  "compact_vehs veh_id g =
     (let g = (if veh_id < VehCount g - 1
               then g\<lparr>Vehs := (\<lambda>i. if veh_id \<le> i \<and> i < VehCount g - 1 then Vehs g (i + 1) else Vehs g i)\<rparr> else g);
          g = (if veh_id < conf_max_veh_num (conf g) then g\<lparr>VehCount := VehCount g - 1\<rparr> else g)
      in g\<lparr>Vehs := (\<lambda>i. if 0 \<le> i \<and> i < VehCount g then renumber_veh veh_id (Vehs g i) else Vehs g i)\<rparr>)"

definition kill_counters :: "veh \<Rightarrow> game \<Rightarrow> game" where
  "kill_counters v g =
     (let unit_id = veh_unit_id v; faction_id = veh_faction_id v;
          g = (if unit_plan (Units g unit_id) \<le> PLAN_NAVAL_TRANSPORT
               then upd_faction faction_id (\<lambda>f. f\<lparr>f_total_combat_units := f_total_combat_units f - 1\<rparr>) g else g)
      in upd_faction faction_id (\<lambda>f. f\<lparr>f_units_active :=
           (f_units_active f)(unit_id := (f_units_active f unit_id - 1) mod 256)\<rparr>) g)"

definition kill_refs :: "int \<Rightarrow> game \<Rightarrow> game" where
  "kill_refs veh_id g =
     (let g = g\<lparr>MapWin_iUnit := shift_ref veh_id (MapWin_iUnit g), MapWin_field_23BE0 := shift_ref veh_id (MapWin_field_23BE0 g),
                StatusWin_dword_8C6B2C := shift_ref veh_id (StatusWin_dword_8C6B2C g),
                StatusWin_dword_8C6B34 := shift_ref veh_id (StatusWin_dword_8C6B34 g)\<rparr>
      in if CurrentVehID g \<noteq> 0 \<and> CurrentVehID g \<ge> veh_id then g\<lparr>CurrentVehID := CurrentVehID g - 1\<rparr> else g)"

text \<open>\<open>veh_kill\<close> with the hook of the bridge. The deletion list of the network, the network's pointer to a row,
  the windows of the base and the enemy counts of the movement planner are left out.\<close>

definition veh_kill :: "int \<Rightarrow> game \<times> bridge \<Rightarrow> game \<times> bridge" where
  "veh_kill veh_id = (\<lambda>(g, b).
     if veh_id < 0 then (g, b)
     else let b = agent_observe_unit_destroyed g veh_id b;
              g = kill_counters (Vehs g veh_id) g;
              g = compact_vehs veh_id (veh_lift veh_id g)
          in (kill_refs veh_id g, b))"

partial_function (option) stack_kill_loop :: "int \<Rightarrow> game \<times> bridge \<Rightarrow> (game \<times> bridge) option" where
  [code]: "stack_kill_loop cur_id gb =
     (if cur_id < 0 then Some gb
      else let next_id = veh_next_veh_id_stack (Vehs (fst gb) cur_id);
               gb = veh_kill cur_id gb
        in stack_kill_loop (if next_id > cur_id then next_id - 1 else next_id) gb)"

definition stack_kill :: "int \<Rightarrow> game \<times> bridge \<Rightarrow> (game \<times> bridge) option" where
  "stack_kill veh_id gb =
     (if veh_id < 0 then Some gb else Option.bind (veh_top (fst gb) veh_id) (\<lambda>top. stack_kill_loop top gb))"

lemma seg_map:
  assumes "seg g p a xs b" "\<And>j. j \<in> set xs \<Longrightarrow> 0 \<le> f j \<and> f j < VehCount g'"
    and "\<And>j. j \<in> set xs \<Longrightarrow> links g' (f j) = (case links g j of (x, y, p, n) \<Rightarrow> (x, y, f p, f n))"
  shows "seg g' p (f a) (map f xs) (f b)"
  using assms
proof (induction xs arbitrary: a)
  case (Cons j xs)
  have "hd_or (f b) (map f xs) = f (hd_or b xs)" by (cases xs) simp_all
  with Cons show ?case by auto
qed simp

lemma shift_row_inj: "i \<noteq> k \<Longrightarrow> j \<noteq> k \<Longrightarrow> shift_row k i = shift_row k j \<Longrightarrow> i = j"
  by (auto simp: shift_row_def split: if_splits)

definition removed :: "int \<Rightarrow> stacks \<Rightarrow> stacks" where
  "removed k S = (\<lambda>r. map (shift_row k) (remove1 k (S r)))"

lemma compact_facts:
  assumes "0 \<le> k" "k < VehCount g" "VehCount g \<le> conf_max_veh_num (conf g)"
  shows "VehCount (compact_vehs k g) = VehCount g - 1"
    and "sq_at (compact_vehs k g) = sq_at g"
    and "0 \<le> j \<Longrightarrow> j < VehCount g \<Longrightarrow> j \<noteq> k \<Longrightarrow> Vehs (compact_vehs k g) (shift_row k j) = renumber_veh k (Vehs g j)"
proof -
  show "VehCount (compact_vehs k g) = VehCount g - 1" using assms by (simp add: compact_vehs_def Let_def)
  show "sq_at (compact_vehs k g) = sq_at g"
    by (auto simp: compact_vehs_def Let_def sq_at_def mapsq_def fun_eq_iff split: option.splits)
  show "0 \<le> j \<Longrightarrow> j < VehCount g \<Longrightarrow> j \<noteq> k \<Longrightarrow> Vehs (compact_vehs k g) (shift_row k j) = renumber_veh k (Vehs g j)"
    using assms by (auto simp: compact_vehs_def Let_def shift_row_def)
qed

lemma renumber_links:
  "veh_x (renumber_veh k v) = veh_x v" "veh_y (renumber_veh k v) = veh_y v"
  "veh_prev_veh_id_stack (renumber_veh k v) = shift_row k (veh_prev_veh_id_stack v)"
  "veh_next_veh_id_stack (renumber_veh k v) = shift_row k (veh_next_veh_id_stack v)"
  "veh_unit_id (renumber_veh k v) = veh_unit_id v" "veh_faction_id (renumber_veh k v) = veh_faction_id v"
  by (simp_all add: renumber_veh_def Let_def)

lemma compact_ok:
  assumes ok: "stacks_ok g S" and k: "S (- 1, - 1) = [k]" and c: "VehCount g \<le> conf_max_veh_num (conf g)"
  shows "settled (compact_vehs k g) (\<lambda>r. map (shift_row k) ((S((- 1, - 1) := [])) r))"
proof -
  let ?g = "compact_vehs k g" and ?S = "\<lambda>r. map (shift_row k) ((S((- 1, - 1) := [])) r)"
  have kr: "0 \<le> k" "k < VehCount g" using stacks_ok_mem [OF ok, of k "(- 1, - 1)"] k by auto
  note F = compact_facts [OF kr c]
  have mem: "j \<noteq> k \<and> 0 \<le> j \<and> j < VehCount g" if "r \<noteq> (- 1, - 1)" "j \<in> set (S r)" for r j
    using that stacks_ok_mem [OF ok, of j r] stacks_ok_mem [OF ok, of k "(- 1, - 1)"] k by auto
  have "stacks_ok ?g ?S"
  proof (rule stacks_okI)
    show "VehCount ?g \<le> 32768" using ok F(1) by (simp add: stacks_ok_def)
    show "distinct (?S r)" for r
    proof (cases "r = (- 1, - 1)")
      case False
      have "inj_on (shift_row k) (set (S r))" using mem [OF False] by (intro inj_onI) (blast intro: shift_row_inj)
      with False stacks_ok_seg(1) [OF ok, of r] show ?thesis by (simp add: distinct_map)
    qed simp
    show "seg ?g r (- 1) (?S r) (- 1)" for r
    proof (cases "r = (- 1, - 1)")
      case False
      have m1: "shift_row k (- 1) = - 1" using kr by (simp add: shift_row_def)
      have "seg ?g r (shift_row k (- 1)) (map (shift_row k) (S r)) (shift_row k (- 1))"
      proof (rule seg_map [OF stacks_ok_seg(2) [OF ok, of r]])
        fix j assume "j \<in> set (S r)"
        note j = mem [OF False this]
        then show "0 \<le> shift_row k j \<and> shift_row k j < VehCount ?g" using kr F(1) by (auto simp: shift_row_def)
        show "links ?g (shift_row k j) = (case links g j of (x, y, p, n) \<Rightarrow> (x, y, shift_row k p, shift_row k n))"
          using F(3) [of j] j by (simp add: links_def Let_def renumber_links)
      qed
      with False m1 show ?thesis by simp
    qed simp
    show "\<exists>r. j \<in> set (?S r)" if "0 \<le> j" "j < VehCount ?g" for j
    proof -
      have "\<exists>i. 0 \<le> i \<and> i < VehCount g \<and> i \<noteq> k \<and> shift_row k i = j"
        by (rule exI [of _ "if j \<ge> k then j + 1 else j"]) (use that F(1) in \<open>auto simp: shift_row_def\<close>)
      then obtain i where i: "0 \<le> i" "i < VehCount g" "i \<noteq> k" "shift_row k i = j" by blast
      then have "i \<in> set (S (veh_x (Vehs g i), veh_y (Vehs g i)))" using stacks_ok_mem [OF ok] by simp
      then obtain r where r: "i \<in> set (S r)" by blast
      then have "r \<noteq> (- 1, - 1)" using k i(3) by auto
      with r have "shift_row k i \<in> set (?S r)" by simp
      with i(4) show ?thesis by metis
    qed
    show "MAP_veh_in_tile sq \<longleftrightarrow> ?S (u, v) \<noteq> []" if "sq_at ?g u v = Some sq" for u v sq
    proof -
      have sq: "sq_at g u v = Some sq" using that F(2) by simp
      then have "(u, v) \<noteq> (- 1, - 1)" by (auto simp: sq_at_def mapsq_Some_iff split: option.splits)
      then show ?thesis using stacks_ok_bit [OF ok sq] by auto
    qed
  qed
  then show ?thesis by (simp add: settled_def)
qed

text \<open>What \<open>veh_kill\<close> does to the counters and references is invisible to the stacks.\<close>

lemma settled_cong:
  "settled g S \<Longrightarrow> VehCount g' = VehCount g \<Longrightarrow> Vehs g' = Vehs g \<Longrightarrow> sq_at g' = sq_at g \<Longrightarrow> settled g' S"
proof -
  assume a: "settled g S" "VehCount g' = VehCount g" "Vehs g' = Vehs g" "sq_at g' = sq_at g"
  have "seg g' p u xs v = seg g p u xs v" for p u xs v by (rule seg_cong) (simp_all add: a(2,3) links_def)
  with a show ?thesis unfolding settled_def stacks_ok_def by simp
qed

lemma sq_at_cong: "MapTiles g' = MapTiles g \<Longrightarrow> MapAreaX g' = MapAreaX g \<Longrightarrow> MapAreaY g' = MapAreaY g \<Longrightarrow> sq_at g' = sq_at g"
  by (auto simp: sq_at_def mapsq_def fun_eq_iff split: option.splits)

lemma lift_conf [simp]: "conf (veh_lift i g) = conf g"
  by (simp add: veh_lift_def Let_def bit_set_def)

lemma counters_fields [simp]:
  "VehCount (kill_counters v g) = VehCount g" "Vehs (kill_counters v g) = Vehs g" "conf (kill_counters v g) = conf g"
  "sq_at (kill_counters v g) = sq_at g"
  by (auto simp: kill_counters_def Let_def upd_faction_def intro!: sq_at_cong)

lemma refs_fields [simp]:
  "VehCount (kill_refs i g) = VehCount g" "Vehs (kill_refs i g) = Vehs g" "conf (kill_refs i g) = conf g"
  "sq_at (kill_refs i g) = sq_at g"
  by (auto simp: kill_refs_def Let_def intro!: sq_at_cong)

lemma removed_lift:
  assumes "stacks_ok g S" "i \<in> set (S p)" "S (- 1, - 1) = []"
  shows "(\<lambda>r. map (shift_row i) ((S(p := remove1 i (S p), (- 1, - 1) := [], (- 1, - 1) := [])) r)) = removed i S"
proof -
  have "remove1 i (S r) = S r" if "r \<noteq> p" for r
    using that stacks_ok_mem [OF assms(1), of i r] stacks_ok_mem [OF assms(1), of i p] assms(2) by (auto intro: remove1_idem)
  then show ?thesis using assms(3) by (auto simp: removed_def fun_eq_iff)
qed

lemma kill_ok:
  assumes ok: "settled g S" and i: "0 \<le> i" "i < VehCount g" and c: "VehCount g \<le> conf_max_veh_num (conf g)"
  shows "settled (fst (veh_kill i (g, b))) (removed i S)"
proof -
  let ?p = "(veh_x (Vehs g i), veh_y (Vehs g i))" and ?g = "kill_counters (Vehs g i) g"
  have ok': "settled ?g S" by (rule settled_cong [OF ok]) simp_all
  have m: "i \<in> set (S ?p)" using stacks_ok_mem [OF settled_ok [OF ok]] i by simp
  have free: "S (- 1, - 1) = []" using ok by (simp add: settled_def)
  let ?S = "S(?p := remove1 i (S ?p), (- 1, - 1) := [i])"
  have "settled (compact_vehs i (veh_lift i ?g)) (\<lambda>r. map (shift_row i) ((?S((- 1, - 1) := [])) r))"
    by (rule compact_ok [OF lift_ok [OF settled_ok [OF ok'] m free]]) (use c in simp_all)
  then have "settled (compact_vehs i (veh_lift i ?g)) (removed i S)"
    using removed_lift [OF settled_ok [OF ok] m free] by simp
  then show ?thesis using i by (auto simp: veh_kill_def Let_def intro: settled_cong)
qed

lemma lift_veh:
  "veh_unit_id (Vehs (veh_lift i g) j) = veh_unit_id (Vehs g j)"
  "veh_faction_id (Vehs (veh_lift i g) j) = veh_faction_id (Vehs g j)"
  "j \<noteq> i \<Longrightarrow> veh_x (Vehs (veh_lift i g) j) = veh_x (Vehs g j)"
  "j \<noteq> i \<Longrightarrow> veh_y (Vehs (veh_lift i g) j) = veh_y (Vehs g j)"
  by (auto simp: veh_lift_def Let_def bit_set_def)

lemma kill_veh:
  assumes i: "0 \<le> i" "i < VehCount g" and c: "VehCount g \<le> conf_max_veh_num (conf g)"
    and j: "0 \<le> j" "j < VehCount g" "j \<noteq> i"
  shows "VehCount (fst (veh_kill i (g, b))) = VehCount g - 1"
    and "veh_unit_id (Vehs (fst (veh_kill i (g, b))) (shift_row i j)) = veh_unit_id (Vehs g j)"
    and "veh_faction_id (Vehs (fst (veh_kill i (g, b))) (shift_row i j)) = veh_faction_id (Vehs g j)"
    and "veh_x (Vehs (fst (veh_kill i (g, b))) (shift_row i j)) = veh_x (Vehs g j)"
    and "veh_y (Vehs (fst (veh_kill i (g, b))) (shift_row i j)) = veh_y (Vehs g j)"
  using i j compact_facts(1,3) [of i "veh_lift i (kill_counters (Vehs g i) g)"] c
  by (auto simp: veh_kill_def Let_def renumber_links lift_veh)

subsection \<open>Identities survive the destruction of other units\<close>

lemma erase_nth:
  assumes "0 \<le> i" "i < int (length xs)" "0 \<le> j" "j < int (length xs)" "j \<noteq> i"
  shows "erase_row i xs ! nat (shift_row i j) = xs ! nat j" "length (erase_row i xs) = length xs - 1"
proof -
  show "length (erase_row i xs) = length xs - 1" using assms by (simp add: erase_row_def nat_less_iff)
  show "erase_row i xs ! nat (shift_row i j) = xs ! nat j"
  proof (cases "j < i")
    case True
    then show ?thesis using assms by (simp add: erase_row_def shift_row_def nth_append nat_less_iff)
  next
    case False
    then have "nat (j - 1) - nat i = nat (j - 1 - i)" "Suc (nat i) + nat (j - 1 - i) = nat j" "nat i \<le> nat (j - 1)"
      "nat i < length xs" using assms by auto
    with False assms show ?thesis by (simp add: erase_row_def shift_row_def nth_append min_def)
  qed
qed

lemma destroyed_handles:
  assumes "lock_initialized b" "game_active g" "0 \<le> i" "i < VehCount g" "length (semantic_vehicle_handles b) = nat (VehCount g)"
  shows "\<exists>h. semantic_vehicle_handles (agent_observe_unit_destroyed g i b) = erase_row i ((semantic_vehicle_handles b)[nat i := h])"
proof -
  let ?hs = "semantic_vehicle_handles b"
  have ens: "ensure_semantic_vehicle_handles g b = b" using assms by (intro ensure_again) simp
  obtain b2 k where k: "semantic_vehicle_handle g i b = (b2, k)" by fastforce
  then have "\<exists>h. semantic_vehicle_handles b2 = ?hs[nat i := h]"
    using assms(3-5) unfolding semantic_vehicle_handle_def ens Let_def
    by (auto split: if_splits intro: exI [of _ "?hs ! nat i"])
  moreover have "\<exists>h. erase_row i ?hs = erase_row i (?hs[nat i := h])" by (metis list_update_id)
  ultimately show ?thesis using assms
    by (auto simp: agent_observe_unit_destroyed_def ens k Let_def split: if_splits)
qed

text \<open>C1: Identity survives destruction: when a unit is killed, the stacks lose exactly its row and every other row moves
  down past it; the unit in each new row is the one that was in the old row, on the same square, and the bridge,
  whose hook runs first, still gives it the handle it had.\<close>

theorem kill_keeps_identity:
  assumes "settled g S" "0 \<le> i" "i < VehCount g" "VehCount g \<le> conf_max_veh_num (conf g)"
    and "lock_initialized b" "game_active g" "length (semantic_vehicle_handles b) = nat (VehCount g)"
    and "0 \<le> j" "j < VehCount g" "j \<noteq> i" "semantic_vehicle_handles b ! nat j \<noteq> 0"
    and "veh_kill i (g, b) = (g', b')"
  shows "settled g' (removed i S) \<and> VehCount g' = VehCount g - 1
    \<and> veh_unit_id (Vehs g' (shift_row i j)) = veh_unit_id (Vehs g j)
    \<and> (veh_x (Vehs g' (shift_row i j)), veh_y (Vehs g' (shift_row i j))) = (veh_x (Vehs g j), veh_y (Vehs g j))
    \<and> semantic_vehicle_handle g' (shift_row i j) b' = (b', semantic_vehicle_handles b ! nat j)"
proof -
  let ?hs = "semantic_vehicle_handles b"
  have g': "g' = fst (veh_kill i (g, b))" and b': "b' = agent_observe_unit_destroyed g i b"
    using assms(2,12) by (auto simp: veh_kill_def Let_def)
  note K = kill_veh [OF assms(2,3,4,8,9,10), of b, folded g']
  obtain h where h: "semantic_vehicle_handles b' = erase_row i (?hs[nat i := h])"
    using destroyed_handles [OF assms(5,6,2,3,7)] unfolding b' by blast
  have "int (length (?hs[nat i := h])) = VehCount g" using assms(2,3,7) by simp
  with erase_nth [of i "?hs[nat i := h]" j] assms(2,3,8,9,10)
  have "semantic_vehicle_handles b' ! nat (shift_row i j) = ?hs ! nat j" "length (semantic_vehicle_handles b') = nat (VehCount g')"
    by (auto simp: h K(1) nat_diff_distrib assms(7))
  moreover have "0 \<le> shift_row i j" "shift_row i j < VehCount g'" using assms(2,3,8-10) by (auto simp: shift_row_def K(1))
  ultimately have "semantic_vehicle_handle g' (shift_row i j) b' = (b', ?hs ! nat j)"
    using handle_known [of b' g' "shift_row i j"] assms(11) by simp
  with K kill_ok [OF assms(1-4), of b, folded g'] show ?thesis by simp
qed

lemma kill_keeps_identity_witness:
  "\<exists>g' b'. veh_kill 0 (ferry_game, initial_bridge\<lparr>lock_initialized := True, semantic_vehicle_handles := [7, 8]\<rparr>) = (g', b')
     \<and> settled g' (removed 0 ferry_stacks) \<and> semantic_vehicle_handle g' 0 b' = (b', 8)"
proof -
  let ?b = "initial_bridge\<lparr>lock_initialized := True, semantic_vehicle_handles := [7, 8]\<rparr>"
  obtain g' b' where k: "veh_kill 0 (ferry_game, ?b) = (g', b')" by fastforce
  have "game_active ferry_game" "VehCount ferry_game = 2" "VehCount ferry_game \<le> conf_max_veh_num (conf ferry_game)"
    by (simp_all add: ferry_game_def game_active_def active_faction_def)
  with kill_keeps_identity [OF ferry_settled _ _ _ _ _ _ _ _ _ _ k, of 1] k show ?thesis by (simp add: shift_row_def)
qed

end
