(* ===== verification/Yield.thy ===== *)
theory Yield
  imports Veh_Kill
begin

text \<open>
  What a square yields (map.cpp): nutrients, minerals and energy with terrain, improvements, landmarks, limits and
  events, the scattered resources of the map, and the owner of a territory.
\<close>

section \<open>Resources of a square (map.cpp)\<close>

text \<open>
  The engine's function \<open>bonus_at\<close> is not part of the repository; it is a parameter. The yields leave a trace in two
  globals, \<open>BaseTerraformReduce\<close> and \<open>BaseTerraformEnergy\<close>, so they return the state as well.
\<close>

type_synonym square_fun = "game \<Rightarrow> int \<Rightarrow> int \<Rightarrow> int"

definition ManifoldHarmonicsBonus :: "int list list" where
  "ManifoldHarmonicsBonus = [[0, 0, 0], [0, 0, 1], [1, 0, 1], [1, 1, 1], [1, 1, 2]]"

definition harmonics_bonus :: "game \<Rightarrow> int \<Rightarrow> nat \<Rightarrow> int" where
  "harmonics_bonus g faction_id k =
     (if has_project g FAC_MANIFOLD_HARMONICS faction_id
      then ManifoldHarmonicsBonus ! nat (clamp (f_SE_planet_pending (Factions g faction_id) + 1) 0 4) ! k else 0)"

definition item_on :: "tile \<Rightarrow> u32 \<Rightarrow> bool" where
  "item_on sq flags \<longleftrightarrow> sq_items sq AND flags \<noteq> 0"

definition lm_on :: "tile \<Rightarrow> u32 \<Rightarrow> bool" where
  "lm_on sq flags \<longleftrightarrow> sq_landmarks sq AND flags \<noteq> 0"

definition has_recycling :: "game \<Rightarrow> int \<Rightarrow> bool" where
  "has_recycling g base_id \<longleftrightarrow> has_fac_built g FAC_PRESSURE_DOME base_id \<or> has_fac_built g FAC_RECYCLING_TANKS base_id"

definition fungus_value :: "game \<Rightarrow> int \<Rightarrow> int \<Rightarrow> int" where
  "fungus_value g faction_id tech_fungus =
     clamp (clamp (f_SE_planet_pending (Factions g faction_id)) (- 3) 0 + tech_fungus) 0 99"

text \<open>The cut at the limit of a square, and the events of the base, in which the three functions end.\<close>

definition limit_yield :: "game \<Rightarrow> int \<Rightarrow> bool \<Rightarrow> int \<Rightarrow> int \<Rightarrow> int \<Rightarrow> game \<times> int" where
  "limit_yield g k exempt preq_tech faction_id v =
     (let limit = conf_tile_output_limit (conf g) k
      in if v > limit \<and> \<not> exempt \<and> (faction_id < 0 \<or> \<not> has_tech g preq_tech faction_id)
         then (g\<lparr>BaseTerraformReduce := BaseTerraformReduce g + (v - limit)\<rparr>, limit) else (g, v))"

definition event_yield :: "game \<Rightarrow> int \<Rightarrow> u32 \<Rightarrow> u32 \<Rightarrow> int \<Rightarrow> int" where
  "event_yield g base_id good bad v =
     (if base_id \<ge> 0
      then (let flags = base_event_flags (Bases g base_id);
                v = (if flags AND good \<noteq> 0 then v + 1 else v)
            in if flags AND bad \<noteq> 0 \<and> v \<noteq> 0 then v - 1 else v)
      else v)"

subsection \<open>Nutrients\<close>

definition crop_landmark :: "tile \<Rightarrow> bool" where
  "crop_landmark sq \<longleftrightarrow> (MAP_alt_level sq \<ge> ALT_SHORE_LINE \<and> lm_on sq LM_JUNGLE \<and> \<not> lm_on sq LM_DISABLE)
     \<or> (MAP_alt_level sq < ALT_SHORE_LINE \<and> lm_on sq LM_FRESH)"

definition crop_sea :: "game \<Rightarrow> int \<Rightarrow> tile \<Rightarrow> bool \<Rightarrow> int" where
  "crop_sea g base_id sq bonus =
     (let R = ResInfo g; v = res_nutrient (ri_ocean_sq R);
          v = (if bonus then res_nutrient (ri_bonus_sq R) + res_nutrient (ri_ocean_sq R) else v);
          v = v + of_bool (crop_landmark sq)
      in if MAP_alt_level sq = ALT_OCEAN_SHELF \<or> ExpansionEnabled g
         then (let v = (if item_on sq BIT_FARM
                        then v + res_nutrient (ri_improved_sea R) + of_bool (has_fac_built g FAC_AQUAFARM base_id) else v)
               in if item_on sq BIT_MINE \<and> v > 1 then v + rule_nutrient_effect_mine_sq (Rules g) else v)
         else v)"

definition crop_land :: "game \<Rightarrow> int \<Rightarrow> tile \<Rightarrow> bool \<Rightarrow> int" where
  "crop_land g base_id sq bonus =
     (let R = ResInfo g
      in if item_on sq BIT_FOREST
         then res_nutrient (ri_forest_sq R) + (if bonus then res_nutrient (ri_bonus_sq R) else 0)
              + of_bool (has_fac_built g FAC_TREE_FARM base_id) + of_bool (has_fac_built g FAC_HYBRID_FOREST base_id)
              + of_bool (crop_landmark sq)
         else let v = (if MAP_is_rocky sq then 0 else if MAP_is_rainy sq then 2 else if MAP_is_moist sq then 1 else 0);
                  v = (if bonus then v + res_nutrient (ri_bonus_sq R) else v);
                  v = v + of_bool (crop_landmark sq);
                  v = (if v < 0 then 0 else v);
                  v = (if item_on sq BIT_FARM \<and> \<not> MAP_is_rocky sq then v + res_nutrient (ri_improved_land R) else v)
              in if item_on sq BIT_MINE \<and> v > 1 then v + rule_nutrient_effect_mine_sq (Rules g) else v)"

definition soil_improved :: "game \<Rightarrow> int \<Rightarrow> int" where
  "soil_improved g v = v + (if conf_soil_improve_value (conf g) \<noteq> 0 then conf_soil_improve_value (conf g) else v sdiv 2)"

text \<open>The value of the square and whether it is subject to the limit.\<close>

definition crop_square :: "game \<Rightarrow> int \<Rightarrow> int \<Rightarrow> tile \<Rightarrow> bool \<Rightarrow> bool \<Rightarrow> int \<times> bool" where
  "crop_square g faction_id base_id sq bonus flag =
     (let R = ResInfo g
      in if MAP_is_base sq
         then ((if bonus then 2 * res_nutrient (ri_base_sq R) else res_nutrient (ri_base_sq R)) + of_bool (crop_landmark sq)
               + (if has_recycling g base_id then res_nutrient (ri_recycling_tanks R) else 0), False)
         else if item_on sq BIT_THERMAL_BORE
         then (res_nutrient (ri_borehole_sq R) + (if bonus then res_nutrient (ri_bonus_sq R) else 0), False)
         else if item_on sq BIT_MONOLITH
         then (res_nutrient (ri_monolith_sq R) + (if bonus then res_nutrient (ri_bonus_sq R) else 0)
               + harmonics_bonus g faction_id 0, False)
         else if \<not> flag \<and> MAP_is_fungus sq
         then (fungus_value g faction_id (f_tech_fungus_nutrient (Factions g faction_id)) + harmonics_bonus g faction_id 0, False)
         else let v = (if MAP_alt_level sq < ALT_SHORE_LINE then crop_sea g base_id sq bonus else crop_land g base_id sq bonus);
                  v = (if item_on sq BIT_SOIL_ENRICHER then soil_improved g v else v)
              in (if item_on sq BIT_CONDENSER then soil_improved g v else v, True))"

definition mod_crop_yield :: "square_fun \<Rightarrow> game \<Rightarrow> int \<Rightarrow> int \<Rightarrow> int \<Rightarrow> int \<Rightarrow> bool \<Rightarrow> game \<times> int" where
  "mod_crop_yield bonus_at g faction_id base_id x y flag =
     (case sq_at g x y of None \<Rightarrow> (g, 0)
      | Some sq \<Rightarrow>
         (let bonus = (bonus_at g x y = RES_NUTRIENT);
              (v, has_limit) = crop_square g faction_id base_id sq bonus flag;
              (g, v) = limit_yield g 0 (\<not> has_limit \<or> bonus \<or> item_on sq BIT_CONDENSER)
                         (rule_tech_preq_allow_3_nutrients_sq (Rules g)) faction_id v
          in (g, event_yield g base_id BEVENT_BUMPER BEVENT_FAMINE v)))"

subsection \<open>Minerals\<close>

definition mine_landmark :: "tile \<Rightarrow> bool" where
  "mine_landmark sq \<longleftrightarrow>
     ((lm_on sq LM_CRATER \<and> MAP_code_at sq < 9) \<or> (lm_on sq LM_VOLCANO \<and> MAP_code_at sq < 9)
      \<or> (lm_on sq LM_FOSSIL \<and> MAP_code_at sq < 6) \<or> lm_on sq LM_CANYON) \<and> \<not> lm_on sq LM_DISABLE"

text \<open>A land square without forest: the mine yields more with a road; what is lost without one is recorded.\<close>

definition mine_land :: "game \<Rightarrow> tile \<Rightarrow> bool \<Rightarrow> bool \<Rightarrow> int \<Rightarrow> game \<times> int" where
  "mine_land g sq bonus flag v =
     (let modifier = MAP_rocky_level sq; limit = rule_limit_mineral_inc_for_mine_wo_road (Rules g)
      in if item_on sq BIT_FOREST then (g, v + res_mineral (ri_forest_sq (ResInfo g)))
         else if \<not> item_on sq BIT_MINE \<and> \<not> flag then (g, v + of_bool (modifier > 0))
         else let v = v + modifier;
                  modifier = (if modifier = 0 then 1 else modifier);
                  modifier = (if bonus \<or> mine_landmark sq then modifier + 1 else modifier)
              in if \<not> item_on sq BIT_ROAD \<and> \<not> flag \<and> modifier > limit
                 then (g\<lparr>BaseTerraformReduce := BaseTerraformReduce g + (modifier - limit)\<rparr>, v + limit)
                 else (g, v + modifier))"

definition MFACTION_is_aquatic :: "mfaction \<Rightarrow> bool" where
  "MFACTION_is_aquatic m \<longleftrightarrow> mf_rule_flags m AND RFLAG_AQUATIC \<noteq> 0"

definition mine_sea :: "game \<Rightarrow> int \<Rightarrow> int \<Rightarrow> tile \<Rightarrow> bool \<Rightarrow> int \<Rightarrow> int" where
  "mine_sea g faction_id base_id sq flag v =
     (let v = v + res_mineral (ri_ocean_sq (ResInfo g));
          v = v + of_bool (MAP_alt_level sq = ALT_OCEAN_SHELF \<and> MFACTION_is_aquatic (MFactions g faction_id)
                \<and> conf_aquatic_bonus_minerals (conf g) \<noteq> 0)
      in if (MAP_alt_level sq = ALT_OCEAN_SHELF \<or> ExpansionEnabled g) \<and> (item_on sq BIT_MINE \<or> flag)
         then v + res_mineral (ri_improved_sea (ResInfo g))
              + of_bool (has_tech g (rule_tech_preq_mining_platform_bonus (Rules g)) faction_id)
              + of_bool (has_fac_built g FAC_SUBSEA_TRUNKLINE base_id)
         else v)"

definition mine_square :: "game \<Rightarrow> int \<Rightarrow> int \<Rightarrow> tile \<Rightarrow> bool \<Rightarrow> bool \<Rightarrow> game \<times> int \<times> bool" where
  "mine_square g faction_id base_id sq bonus flag =
     (let R = ResInfo g; extra = (if bonus then res_mineral (ri_bonus_sq R) else 0);
          v = of_bool (mine_landmark sq) + extra
      in if MAP_is_base sq
         then (g, v + res_mineral (ri_base_sq R) + (if has_recycling g base_id then res_mineral (ri_recycling_tanks R) else 0), False)
         else if item_on sq BIT_MONOLITH
         then (g, res_mineral (ri_monolith_sq R) + extra + harmonics_bonus g faction_id 1, False)
         else if item_on sq BIT_THERMAL_BORE then (g, res_mineral (ri_borehole_sq R) + extra, True)
         else if MAP_is_fungus sq
         then (g, fungus_value g faction_id (f_tech_fungus_mineral (Factions g faction_id)) + harmonics_bonus g faction_id 1, False)
         else if MAP_alt_level sq \<ge> ALT_SHORE_LINE
         then (let (g, v) = mine_land g sq bonus flag v in (g, v, True))
         else (g, mine_sea g faction_id base_id sq flag v, True))"

definition mod_mine_yield :: "square_fun \<Rightarrow> game \<Rightarrow> int \<Rightarrow> int \<Rightarrow> int \<Rightarrow> int \<Rightarrow> bool \<Rightarrow> game \<times> int" where
  "mod_mine_yield bonus_at g faction_id base_id x y flag =
     (case sq_at g x y of None \<Rightarrow> (g, 0)
      | Some sq \<Rightarrow>
         (let bonus = (bonus_at g x y = RES_MINERAL);
              (g, v, has_limit) = mine_square g faction_id base_id sq bonus flag;
              (g, v) = limit_yield g 1 (\<not> has_limit \<or> bonus) (rule_tech_preq_allow_3_minerals_sq (Rules g)) faction_id v
          in (g, event_yield g base_id BEVENT_INDUSTRY BEVENT_BUST v)))"

subsection \<open>Energy\<close>

definition energy_economy :: "game \<Rightarrow> int \<Rightarrow> int \<Rightarrow> int" where
  "energy_economy g faction_id base_id =
     f_SE_economy_pending (Factions g faction_id) + of_bool (base_id \<ge> 0 \<and> BASE_golden_age_active (Bases g base_id))"

definition energy_base :: "game \<Rightarrow> int \<Rightarrow> int \<Rightarrow> int" where
  "energy_base g faction_id base_id =
     (let economy = energy_economy g faction_id base_id; is_hq = has_fac_built g FAC_HEADQUARTERS base_id;
          v = (if has_recycling g base_id then res_energy (ri_recycling_tanks (ResInfo g)) else 0);
          v = (if economy > 4 then v + 4 else if economy > 3 then v + 2
               else if economy \<ge> 0 then v + of_bool (economy = 1)
               else v + economy + of_bool (\<not> is_hq \<or> economy < - 1 \<or> f_base_count (Factions g faction_id) = 1))
      in v + res_energy (ri_base_sq (ResInfo g)) + of_bool is_hq + of_bool (GovernorFaction g = faction_id))"

definition energy_sea :: "game \<Rightarrow> int \<Rightarrow> tile \<Rightarrow> bool \<Rightarrow> int" where
  "energy_sea g base_id sq flag =
     (if MAP_alt_level sq = ALT_OCEAN_SHELF \<or> ExpansionEnabled g
      then res_energy (ri_ocean_sq (ResInfo g))
           + (if item_on sq BIT_SOLAR \<or> flag
              then res_energy (ri_improved_sea (ResInfo g)) + of_bool (has_fac_built g FAC_THERMOCLINE_TRANSDUCER base_id)
              else 0)
      else 0) - of_bool (item_on sq BIT_FOREST)"

text \<open>Echelon mirrors next to a solar collector, of the faction of the current base if there is one.\<close>

definition mirror_count :: "game \<Rightarrow> int \<Rightarrow> int \<Rightarrow> int" where
  "mirror_count g x y =
     (case CurrentBase g of None \<Rightarrow> 0
      | Some cur \<Rightarrow> int (length (filter (\<lambda>(_, _, _, m). item_on (MapTiles g m) BIT_ECH_MIRROR
            \<and> sq_owner (MapTiles g m) = base_faction_id (Bases g cur)) (iterate_tiles g x y 1 9))))"

definition energy_land :: "game \<Rightarrow> int \<Rightarrow> int \<Rightarrow> tile \<Rightarrow> bool \<Rightarrow> int" where
  "energy_land g x y sq flag =
     (if item_on sq (BIT_ECH_MIRROR OR BIT_SOLAR) \<or> flag then 1 + max 0 (MAP_alt_level sq - ALT_SHORE_LINE) else 0)
     + (if item_on sq BIT_SOLAR then mirror_count g x y else 0)"

definition energy_square :: "game \<Rightarrow> int \<Rightarrow> int \<Rightarrow> int \<Rightarrow> int \<Rightarrow> tile \<Rightarrow> bool \<Rightarrow> int \<times> bool \<times> bool" where
  "energy_square g faction_id base_id x y sq flag =
     (let R = ResInfo g
      in if MAP_is_base sq then (energy_base g faction_id base_id, False, False)
         else if item_on sq BIT_MONOLITH
         then (res_energy (ri_monolith_sq R) + harmonics_bonus g faction_id 2, False, False)
         else if item_on sq BIT_THERMAL_BORE then (res_energy (ri_borehole_sq R), True, False)
         else if MAP_is_fungus sq
         then (fungus_value g faction_id (f_tech_fungus_energy (Factions g faction_id)) + harmonics_bonus g faction_id 2, False, True)
         else if MAP_alt_level sq < ALT_SHORE_LINE then (energy_sea g base_id sq flag, True, False)
         else if item_on sq BIT_FOREST
         then (res_energy (ri_forest_sq R) + of_bool (has_fac_built g FAC_HYBRID_FOREST base_id), True, False)
         else (energy_land g x y sq flag, True, False))"

definition energy_landmark :: "tile \<Rightarrow> bool" where
  "energy_landmark sq \<longleftrightarrow>
     ((lm_on sq LM_VOLCANO \<and> MAP_code_at sq < 9) \<or> lm_on sq (LM_URANIUM OR LM_GEOTHERMAL OR LM_RIDGE)) \<and> \<not> lm_on sq LM_DISABLE"

text \<open>The additions that fungus does not get; a base square is cut to 0 to 99 and recorded.\<close>

definition energy_extras :: "game \<Rightarrow> int \<Rightarrow> int \<Rightarrow> tile \<Rightarrow> bool \<Rightarrow> int \<Rightarrow> game \<times> int" where
  "energy_extras g faction_id base_id sq bonus v =
     (let v = v + of_bool (item_on sq BIT_RIVER \<and> MAP_alt_level sq \<ge> ALT_SHORE_LINE);
          v = (if bonus then v + res_energy (ri_bonus_sq (ResInfo g)) else v);
          v = v + of_bool (energy_landmark sq) + of_bool (base_id \<ge> 0 \<and> project_base g FAC_MERCHANT_EXCHANGE = base_id)
              + of_bool (energy_economy g faction_id base_id \<ge> 2)
      in if MAP_is_base sq then (let v = clamp v 0 99 in (g\<lparr>BaseTerraformEnergy := v\<rparr>, v)) else (g, v))"

definition energy_weather :: "game \<Rightarrow> int \<Rightarrow> int" where
  "energy_weather g v =
     (let v = (if DustCloudDuration g \<noteq> 0 \<and> v \<noteq> 0 then v - 1 else v);
          solar_flares = (if ControlUpkeepA g \<noteq> 0 then SolarFlaresEvent g AND 2 \<noteq> 0 else SolarFlaresEvent g AND 1 \<noteq> 0)
      in if solar_flares then 3 * v else v)"

definition mod_energy_yield :: "square_fun \<Rightarrow> game \<Rightarrow> int \<Rightarrow> int \<Rightarrow> int \<Rightarrow> int \<Rightarrow> bool \<Rightarrow> game \<times> int" where
  "mod_energy_yield bonus_at g faction_id base_id x y flag =
     (case sq_at g x y of None \<Rightarrow> (g, 0)
      | Some sq \<Rightarrow>
         (let bonus = (bonus_at g x y = RES_ENERGY);
              (v, has_limit, is_fungus) = energy_square g faction_id base_id x y sq flag;
              (g, v) = (if is_fungus then (g, v) else energy_extras g faction_id base_id sq bonus v);
              (g, v) = limit_yield g 2 (\<not> has_limit \<or> bonus) (rule_tech_preq_allow_3_energy_sq (Rules g)) faction_id v
          in (g, energy_weather g (event_yield g base_id BEVENT_HEAT_WAVE BEVENT_CLOUD_COVER v))))"

definition resource_yield :: "square_fun \<Rightarrow> game \<Rightarrow> int \<Rightarrow> int \<Rightarrow> int \<Rightarrow> int \<Rightarrow> int \<Rightarrow> game \<times> int" where
  "resource_yield bonus_at g type faction_id base_id x y =
     (if type = RSC_NUTRIENT then mod_crop_yield bonus_at g faction_id base_id x y False
      else if type = RSC_MINERAL then mod_mine_yield bonus_at g faction_id base_id x y False
      else if type = RSC_ENERGY then mod_energy_yield bonus_at g faction_id base_id x y False
      else if type = RSC_UNUSED then (g\<lparr>BaseTerraformReduce := 0\<rparr>, 0)
      else (g, 0))"

definition total_yield :: "square_fun \<Rightarrow> game \<Rightarrow> int \<Rightarrow> int \<Rightarrow> int \<Rightarrow> game \<times> int" where
  "total_yield bonus_at g x y faction_id =
     (let (g, n) = mod_crop_yield bonus_at g faction_id (- 1) x y False;
          (g, m) = mod_mine_yield bonus_at g faction_id (- 1) x y False;
          (g, e) = mod_energy_yield bonus_at g faction_id (- 1) x y False
      in (g, n + m + e))"

subsection \<open>Estimates for the planner\<close>

definition bonus_yield :: "game \<Rightarrow> int \<Rightarrow> int" where
  "bonus_yield g res_type =
     (let R = ri_bonus_sq (ResInfo g)
      in if res_type = RES_NUTRIENT then res_nutrient R else if res_type = RES_MINERAL then res_mineral R
         else if res_type = RES_ENERGY then res_energy R else 0)"

definition fungus_yield :: "game \<Rightarrow> int \<Rightarrow> int \<Rightarrow> int" where
  "fungus_yield g faction_id res_type =
     (let f = Factions g faction_id; p = clamp (f_SE_planet_pending f) (- 3) 0;
          n = clamp (f_tech_fungus_nutrient f + p) 0 99 + harmonics_bonus g faction_id 0;
          m = clamp (f_tech_fungus_mineral f + p) 0 99 + harmonics_bonus g faction_id 1;
          e = clamp (f_tech_fungus_energy f + p + of_bool (f_SE_economy_pending f \<ge> 2)) 0 99 + harmonics_bonus g faction_id 2
      in if res_type = RES_NUTRIENT then n else if res_type = RES_MINERAL then m else if res_type = RES_ENERGY then e
         else n + m + e)"

definition item_extras :: "game \<Rightarrow> int \<Rightarrow> tile \<Rightarrow> int \<Rightarrow> int \<times> int \<times> int" where
  "item_extras g faction_id sq bonus =
     (let R = ri_bonus_sq (ResInfo g); ocean = is_ocean_sq (Some sq);
          volcano = (lm_on sq LM_VOLCANO \<and> MAP_code_at sq < 9)
      in ((if bonus = RES_NUTRIENT then res_nutrient R else 0) + of_bool (lm_on sq LM_JUNGLE) + of_bool (lm_on sq LM_FRESH \<and> ocean),
          (if bonus = RES_MINERAL then res_mineral R else 0) + of_bool (lm_on sq LM_CRATER \<and> MAP_code_at sq < 9)
            + of_bool volcano + of_bool (lm_on sq LM_CANYON) + of_bool (lm_on sq LM_FOSSIL \<and> MAP_code_at sq < 6),
          (if bonus = RES_ENERGY then res_energy R else 0) + of_bool (item_on sq BIT_RIVER \<and> \<not> ocean) + of_bool volcano
            + of_bool (lm_on sq LM_URANIUM) + of_bool (lm_on sq LM_GEOTHERMAL) + of_bool (lm_on sq LM_RIDGE)
            + of_bool (f_SE_economy_pending (Factions g faction_id) \<ge> 2)))"

definition item_square :: "game \<Rightarrow> int \<Rightarrow> tile \<Rightarrow> u32 \<Rightarrow> int \<times> int \<times> int \<Rightarrow> int \<times> int \<times> int" where
  "item_square g faction_id sq item = (\<lambda>(n, m, e).
     let R = ResInfo g
     in if item = BIT_FOREST
        then (n + res_nutrient (ri_forest_sq R), m + res_mineral (ri_forest_sq R), e + res_energy (ri_forest_sq R))
        else if item = BIT_THERMAL_BORE
        then (let n = n + res_nutrient (ri_borehole_sq R)
              in (n - of_bool (n > 0), m + res_mineral (ri_borehole_sq R), e + res_energy (ri_borehole_sq R)))
        else if item = BIT_FUNGUS
        then (fungus_yield g faction_id RES_NUTRIENT, fungus_yield g faction_id RES_MINERAL, fungus_yield g faction_id RES_ENERGY)
        else if item = BIT_FARM \<and> is_ocean_sq (Some sq)
        then (let n = n + res_nutrient (ri_ocean_sq R) + res_nutrient (ri_improved_sea R);
                  m = m + res_mineral (ri_ocean_sq R); e = e + res_energy (ri_ocean_sq R);
                  (n, m) = (if item_on sq BIT_MINE
                     then (n - of_bool (n > 0), m + res_mineral (ri_improved_sea R)
                             + of_bool (has_tech g (rule_tech_preq_mining_platform_bonus (Rules g)) faction_id))
                     else (n, m))
              in (n, m, if item_on sq BIT_SOLAR then e + res_energy (ri_improved_sea R) else e))
        else (n, m, e))"

definition item_limit :: "game \<Rightarrow> int \<Rightarrow> bool \<Rightarrow> int \<Rightarrow> int \<Rightarrow> int \<Rightarrow> int" where
  "item_limit g k exempt preq_tech faction_id v =
     (if v > conf_tile_output_limit (conf g) k \<and> \<not> exempt \<and> \<not> has_tech g preq_tech faction_id
      then conf_tile_output_limit (conf g) k else v)"

definition item_yield :: "game \<Rightarrow> int \<Rightarrow> int \<Rightarrow> int \<Rightarrow> int \<Rightarrow> u32 \<Rightarrow> int" where
  "item_yield g x y faction_id bonus item =
     (case sq_at g x y of None \<Rightarrow> 0
      | Some sq \<Rightarrow>
         (let (n, m, e) = item_square g faction_id sq item (if item \<noteq> BIT_FUNGUS then item_extras g faction_id sq bonus else (0, 0, 0))
          in item_limit g 0 (bonus = RES_NUTRIENT) (rule_tech_preq_allow_3_nutrients_sq (Rules g)) faction_id n
             + item_limit g 1 (bonus = RES_MINERAL) (rule_tech_preq_allow_3_minerals_sq (Rules g)) faction_id m
             + item_limit g 2 (bonus = RES_ENERGY) (rule_tech_preq_allow_3_energy_sq (Rules g)) faction_id e))"

subsection \<open>Rocks, bonus resources and supply pods by position\<close>

text \<open>The replacements of the engine's functions, which are only called on squares of the map. \<open>(byte)x\<close> is the value
  modulo 256; a shift to the right rounds down.\<close>

definition mod_minerals_at :: "game \<Rightarrow> int \<Rightarrow> int \<Rightarrow> int option" where
  "mod_minerals_at g x y =
     (if y = 0 \<or> y = MapAreaY g - 1 then Some 2
      else case sq_at g x y of None \<Rightarrow> None
      | Some sq \<Rightarrow>
         (let alt = MAP_alt_level sq; avg = (x + y) sdiv 2;
              val1 = (x - avg) sdiv 2 + 2 * ((x - avg) sdiv 2) + 2 * (avg sdiv 2) + MapRandomSeed g;
              val2 = (val1 mod 256 - 2 * ((x mod 256 - avg mod 256) AND 1) - (avg AND 1)) AND 3;
              val3 = (if alt - 3 \<ge> 0 then alt - 3 else 3 - alt) - of_bool (alt < 3)
          in Some (if val3 = 0
              then (if val2 = 0 then 1 else if val2 = 1 \<or> val2 = 3 then 0 else if val1 AND 4 \<noteq> 0 then 2 else 1)
              else if val3 = 1 then (if val2 = 0 then 0 else if val2 = 1 then 1 else if val2 \<noteq> 2 then 2 else 1)
              else if val3 = 2 then (if val2 = 0 then 0 else if val2 = 1 then 1 else 2)
              else if val3 = 3 then (if val2 < 0 \<or> val2 > 1 then 2 else 1)
              else NOT val2 AND 1)))"

definition mod_bonus_at :: square_fun where
  "mod_bonus_at g x y =
     (case sq_at g x y of None \<Rightarrow> 0
      | Some sq \<Rightarrow>
         (let alt = MAP_alt_level sq; has_rsc_bonus = item_on sq BIT_BONUS_RES; avg = (x + y) div 2; x = x - avg;
              chk = (avg AND 3) + 4 * (x AND 3)
          in if \<not> has_rsc_bonus \<and> (MapRandomSeed g = 0 \<or> (alt \<ge> ALT_SHORE_LINE \<and> conf_rare_supply_pods (conf g) = 0
                 \<and> GameRules g AND RULES_NO_UNITY_SCATTERING = 0)) then 0
             else if \<not> has_rsc_bonus \<and> chk \<noteq> (MapRandomSeed g + - 5 * (avg div 4) - 3 * (x div 4)) AND 0xF then 0
             else if alt < ALT_OCEAN_SHELF then 0
             else (let ret = (if alt < ALT_SHORE_LINE then chk smod 3 + 1 else (chk smod 5) AND 3)
                   in if ret = 0 \<or> item_on sq BIT_NUTRIENT_RES
                      then (if item_on sq BIT_ENERGY_RES then 3 else of_bool (item_on sq BIT_MINERAL_RES) + 1)
                      else ret)))"

definition mod_goody_at :: square_fun where
  "mod_goody_at g x y =
     (case sq_at g x y of None \<Rightarrow> 0
      | Some sq \<Rightarrow>
         (let avg = (x + y) div 2; x_diff = x - avg; cmp = (avg AND 3) + 4 * (x_diff AND 3)
          in if item_on sq (BIT_SUPPLY_REMOVE OR BIT_MONOLITH) then 0
             else if GameRules g AND RULES_NO_UNITY_SCATTERING \<noteq> 0
             then (if item_on sq (BIT_UNK_4000000 OR BIT_UNK_8000000) then 2 else 0)
             else if item_on sq BIT_SUPPLY_POD then 1
             else if MapRandomSeed g = 0 then 0
             else if conf_rare_supply_pods (conf g) = 0 \<and> MAP_alt_level sq \<ge> ALT_SHORE_LINE
                \<and> cmp = (- 5 * (avg div 4) - 3 * (x_diff div 4) + MapRandomSeed g) AND 0xF then 2
             else of_bool (cmp = (11 * (avg sdiv 4) + 61 * (x_diff sdiv 4) + MapRandomSeed g + 8) AND 0x1F)))"

subsection \<open>Ownership of a square\<close>

definition base_find_3 :: "game \<Rightarrow> int \<Rightarrow> int \<Rightarrow> int \<Rightarrow> int \<Rightarrow> int \<Rightarrow> int \<Rightarrow> int \<times> int" where
  "base_find_3 g x y faction_id region faction_id_2 faction_id_3 =
     (let fix_border = (conf_territory_border_fix (conf g) \<noteq> 0);
          border_fix = (fix_border \<and> region \<ge> MaxRegionLandNum);
          (dist, id) = fold (\<lambda>i (base_dist, base_id).
            let b = Bases g i
            in if (border_fix \<or> region < 0 \<or> region_at g (base_x b) (base_y b) = region)
                  \<and> (if faction_id < 0 then faction_id_2 < 0 \<or> base_faction_id b \<noteq> faction_id_2
                     else faction_id = base_faction_id b
                        \<or> (if faction_id_2 = - 2 then has_treaty g faction_id (base_faction_id b) DIPLO_PACT \<noteq> 0
                           else faction_id_2 \<ge> 0 \<and> faction_id_2 = base_faction_id b))
                  \<and> (faction_id_3 < 0 \<or> base_faction_id b = faction_id_3 \<or> bit (base_visibility b) (nat faction_id_3))
               then (let d = vector_dist g x y (base_x b) (base_y b)
                     in if (if fix_border then d < base_dist else d \<le> base_dist) then (d, i) else (base_dist, base_id))
               else (base_dist, base_id)) [0..BaseCount g - 1] (9999, - 1)
      in (id, if id \<ge> 0 then dist else 9999))"

text \<open>The last component is the base nearest to the square, when the caller asked for it.\<close>

definition whose_territory :: "game \<Rightarrow> int \<Rightarrow> int \<Rightarrow> int \<Rightarrow> bool \<Rightarrow> int \<times> int option" where
  "whose_territory g faction_id x y ignore_comm =
     (case sq_at g x y of None \<Rightarrow> (- 1, None)
      | Some sq \<Rightarrow>
         if sq_owner sq < 0 then (- 1, None)
         else if faction_id \<noteq> sq_owner sq
         then (if \<not> ignore_comm \<and> \<not> (GameState g AND STATE_OMNISCIENT_VIEW \<noteq> 0)
                  \<and> (has_treaty g faction_id (sq_owner sq) DIPLO_COMMLINK = 0
                     \<or> has_treaty g faction_id (sq_owner sq) DIPLO_UNK_8000000 = 0)
               then (- 1, None)
               else (sq_owner sq, Some (fst (base_find_3 g x y (- 1) (uint (sq_region sq)) (- 1) (- 1)))))
         else (sq_owner sq, None))"

subsection \<open>Bounds\<close>

text \<open>Tables whose entries are not negative, as the rule file has them, except the loss of nutrients to a mine.\<close>

definition res_ok :: "resvalue \<Rightarrow> bool" where
  "res_ok r \<longleftrightarrow> 0 \<le> res_nutrient r \<and> 0 \<le> res_mineral r \<and> 0 \<le> res_energy r"

definition tables_ok :: "game \<Rightarrow> bool" where
  "tables_ok g \<longleftrightarrow> list_all res_ok [ri_ocean_sq (ResInfo g), ri_base_sq (ResInfo g), ri_bonus_sq (ResInfo g), ri_forest_sq (ResInfo g),
       ri_recycling_tanks (ResInfo g), ri_improved_land (ResInfo g), ri_improved_sea (ResInfo g), ri_monolith_sq (ResInfo g),
       ri_borehole_sq (ResInfo g)]
     \<and> - 2 \<le> rule_nutrient_effect_mine_sq (Rules g) \<and> 0 \<le> rule_limit_mineral_inc_for_mine_wo_road (Rules g)
     \<and> 0 \<le> conf_soil_improve_value (conf g) \<and> (\<forall>k \<in> {0, 1, 2}. 0 \<le> conf_tile_output_limit (conf g) k)"

lemma harmonics_nonneg: "k < 3 \<Longrightarrow> 0 \<le> harmonics_bonus g f k"
proof -
  assume k: "k < 3"
  have "clamp (f_SE_planet_pending (Factions g f) + 1) 0 4 \<in> {0, 1, 2, 3, 4}" by (auto simp: clamp_def)
  moreover have "k \<in> {0, 1, 2}" using k by auto
  ultimately show ?thesis by (auto simp: harmonics_bonus_def ManifoldHarmonicsBonus_def)
qed

lemma fungus_nonneg: "0 \<le> fungus_value g f t"
  by (auto simp: fungus_value_def clamp_def)

lemma limit_nonneg: "0 \<le> conf_tile_output_limit (conf g) k \<Longrightarrow> 0 \<le> v \<Longrightarrow> 0 \<le> snd (limit_yield g k e t f v)"
  by (auto simp: limit_yield_def Let_def)

lemma event_nonneg: "0 \<le> v \<Longrightarrow> 0 \<le> event_yield g b u w v"
  by (auto simp: event_yield_def Let_def)

lemma soil_nonneg: "tables_ok g \<Longrightarrow> 0 \<le> v \<Longrightarrow> 0 \<le> soil_improved g v"
  by (auto simp: soil_improved_def tables_ok_def sdiv_nonneg)

lemma crop_square_nonneg: "tables_ok g \<Longrightarrow> 0 \<le> fst (crop_square g f b sq bonus flag)"
proof -
  assume ok: "tables_ok g"
  have "0 \<le> crop_sea g b sq bonus" "0 \<le> crop_land g b sq bonus"
    using ok by (auto simp: crop_sea_def crop_land_def tables_ok_def res_ok_def Let_def)
  then show ?thesis using ok fungus_nonneg [of g f "f_tech_fungus_nutrient (Factions g f)"] harmonics_nonneg [of 0 g f]
    by (auto simp: crop_square_def Let_def soil_nonneg tables_ok_def res_ok_def)
qed

lemma mine_land_nonneg: "tables_ok g \<Longrightarrow> 0 \<le> v \<Longrightarrow> 0 \<le> snd (mine_land g sq bonus flag v)"
  by (auto simp: mine_land_def tables_ok_def res_ok_def Let_def MAP_rocky_level_def)

lemma mine_square_nonneg: "tables_ok g \<Longrightarrow> 0 \<le> fst (snd (mine_square g f b sq bonus flag))"
proof -
  assume ok: "tables_ok g"
  let ?v = "of_bool (mine_landmark sq) + (if bonus then res_mineral (ri_bonus_sq (ResInfo g)) else 0)"
  have v: "0 \<le> ?v" using ok by (auto simp: tables_ok_def res_ok_def)
  have "0 \<le> mine_sea g f b sq flag ?v" using ok v by (auto simp: mine_sea_def tables_ok_def res_ok_def Let_def)
  moreover obtain g' w where w: "mine_land g sq bonus flag ?v = (g', w)" by fastforce
  moreover have "0 \<le> w" using mine_land_nonneg [OF ok v, of sq bonus flag] w by simp
  ultimately show ?thesis using ok v fungus_nonneg [of g f "f_tech_fungus_mineral (Factions g f)"] harmonics_nonneg [of 1 g f]
    by (auto simp: mine_square_def Let_def tables_ok_def res_ok_def)
qed

lemma mine_square_conf: "conf (fst (mine_square g f b sq bonus flag)) = conf g"
  by (auto simp: mine_square_def mine_land_def Let_def split: prod.splits)



subsection \<open>Scattered resources\<close>

text \<open>A block of 16 squares: coordinates along the two diagonals, divided by four.\<close>

definition bonus_block :: "int \<Rightarrow> int \<Rightarrow> int \<times> int" where
  "bonus_block x y = ((x + y) div 2 div 4, (x - (x + y) div 2) div 4)"

definition natural_ground :: "game \<Rightarrow> tile \<Rightarrow> bool" where
  "natural_ground g sq \<longleftrightarrow> MAP_alt_level sq \<ge> ALT_OCEAN_SHELF \<and> \<not> item_on sq BIT_BONUS_RES
     \<and> (MAP_alt_level sq < ALT_SHORE_LINE \<or> conf_rare_supply_pods (conf g) \<noteq> 0 \<or> GameRules g AND RULES_NO_UNITY_SCATTERING \<noteq> 0)"

lemma and_3: "(x::int) AND 3 = x mod 4"
  using take_bit_eq_mask [of 2 x] by (simp add: mask_eq_exp_minus_1 take_bit_eq_mod)

lemma and_15: "(x::int) AND 15 = x mod 16"
  using take_bit_eq_mask [of 4 x] by (simp add: mask_eq_exp_minus_1 take_bit_eq_mod)

lemma one_in_block:
  assumes "0 \<le> k" "k < (16::int)"
  shows "a div 4 = A \<and> d div 4 = B \<and> (a AND 3) + 4 * (d AND 3) = k \<longleftrightarrow> a = 4 * A + k mod 4 \<and> d = 4 * B + k div 4"
proof -
  have "k div 4 < 4" "0 \<le> k div 4" using assms by linarith+
  then show ?thesis using assms unfolding and_3 by (auto simp: div_mult_mod_eq) (presburger+)?
qed

lemma bonus_spot:
  assumes "sq_at g x y = Some sq" "natural_ground g sq" "MapRandomSeed g \<noteq> 0"
  shows "mod_bonus_at g x y \<noteq> 0 \<longleftrightarrow> ((x + y) div 2 AND 3) + 4 * ((x - (x + y) div 2) AND 3)
    = (MapRandomSeed g + - 5 * ((x + y) div 2 div 4) - 3 * ((x - (x + y) div 2) div 4)) AND 15"
proof -
  have "0 \<le> ((x + y) div 2 AND 3) + 4 * ((x - (x + y) div 2) AND 3)" by (simp add: and_3)
  then have "(((x + y) div 2 AND 3) + 4 * ((x - (x + y) div 2) AND 3)) smod 3 + 1 \<noteq> 0" by (simp add: smod_nonneg)
  then show ?thesis using assms by (auto simp: mod_bonus_at_def natural_ground_def Let_def)
qed

text \<open>Resources are scattered evenly: when every square of a diagonal block of 16 squares is natural ground of the map and
  the seed is set, exactly one of them carries a resource.\<close>

theorem one_bonus_per_block:
  assumes "MapRandomSeed g \<noteq> 0"
    and "\<forall>x y. even (x + y) \<and> bonus_block x y = (A, B) \<longrightarrow> (\<exists>sq. sq_at g x y = Some sq \<and> natural_ground g sq)"
  shows "\<exists>!p. even (fst p + snd p) \<and> bonus_block (fst p) (snd p) = (A, B) \<and> mod_bonus_at g (fst p) (snd p) \<noteq> 0"
proof -
  let ?k = "(MapRandomSeed g + - 5 * A - 3 * B) AND 15"
  have k: "0 \<le> ?k" "?k < 16" unfolding and_15 by simp_all
  have spot: "bonus_block x y = (A, B) \<and> mod_bonus_at g x y \<noteq> 0
      \<longleftrightarrow> (x + y) div 2 = 4 * A + ?k mod 4 \<and> x - (x + y) div 2 = 4 * B + ?k div 4" if "even (x + y)" for x y
  proof (cases "bonus_block x y = (A, B)")
    case True
    then obtain sq where "sq_at g x y = Some sq" "natural_ground g sq" using assms(2) \<open>even (x + y)\<close> by blast
    with bonus_spot [OF this assms(1)] one_in_block [OF k, of "(x + y) div 2" A "x - (x + y) div 2" B] True
    show ?thesis by (simp add: bonus_block_def)
  next
    case False
    with one_in_block [OF k, of "(x + y) div 2" A "x - (x + y) div 2" B] show ?thesis by (auto simp: bonus_block_def)
  qed
  let ?a = "4 * A + ?k mod 4" and ?d = "4 * B + ?k div 4"
  have "even (x + y) \<and> (x + y) div 2 = a \<and> x - (x + y) div 2 = d \<longleftrightarrow> x = a + d \<and> y = a - d" for x y a d :: int by presburger
  with spot have "even (x + y) \<and> bonus_block x y = (A, B) \<and> mod_bonus_at g x y \<noteq> 0 \<longleftrightarrow> x = ?a + ?d \<and> y = ?a - ?d" for x y by blast
  then show ?thesis by (intro ex1I [of _ "(?a + ?d, ?a - ?d)"]) (auto simp: prod_eq_iff)
qed

definition shelf_game :: game where
  "shelf_game = blank_game\<lparr>MapAreaX := 16, MapAreaY := 16, MapRandomSeed := 7, MapTiles := (\<lambda>_. blank_tile\<lparr>sq_climate := 64\<rparr>)\<rparr>"

lemma one_bonus_per_block_witness:
  "\<exists>!p. even (fst p + snd p) \<and> bonus_block (fst p) (snd p) = (2, 0) \<and> mod_bonus_at shelf_game (fst p) (snd p) \<noteq> 0"
proof (rule one_bonus_per_block)
  show "MapRandomSeed shelf_game \<noteq> 0" by (simp add: shelf_game_def)
  have "0 \<le> x \<and> x < 16 \<and> 0 \<le> y \<and> y < 16" if "even (x + y)" "bonus_block x y = (2, 0)" for x y
  proof -
    have "(x + y) div 2 div 4 = 2" "(x - (x + y) div 2) div 4 = 0" using that(2) by (simp_all add: bonus_block_def)
    then have "8 \<le> (x + y) div 2" "(x + y) div 2 < 12" "0 \<le> x - (x + y) div 2" "x - (x + y) div 2 < 4" by linarith+
    moreover have "2 * ((x + y) div 2) = x + y" using that(1) by simp
    ultimately show ?thesis by linarith
  qed
  moreover have "natural_ground shelf_game (blank_tile\<lparr>sq_climate := 64\<rparr>)"
    by (simp add: natural_ground_def MAP_alt_level_def item_on_def blank_tile_def)
  ultimately show "\<forall>x y. even (x + y) \<and> bonus_block x y = (2, 0) \<longrightarrow> (\<exists>sq. sq_at shelf_game x y = Some sq \<and> natural_ground shelf_game sq)"
    by (auto simp: sq_at_def mapsq_def shelf_game_def)
qed

end
