(* ===== verification/Base_Cost.thy ===== *)
theory Base_Cost
  imports Yield
begin

text \<open>
  Costs and allowances (base.cpp, veh.cpp): cost factors, retooling, inefficiency, support, growth space, satellites,
  the ranking of bases, the choice of specialists and the costs of units and facilities.
\<close>

section \<open>Costs and allowances of a base (base.cpp, veh.cpp)\<close>

subsection \<open>Cost factors\<close>

definition base_stats_upkeep :: "game \<Rightarrow> bool" where
  "base_stats_upkeep g \<longleftrightarrow> \<not> base_yield_active g \<and> BaseUpkeepState g = 1"

text \<open>What both factors share: the multiplier of a human or of an AI faction at the difficulty, and the size of the map.\<close>

definition plain_factor :: "game \<Rightarrow> int \<Rightarrow> int \<Rightarrow> int" where
  "plain_factor g faction_id multiplier =
     (let v = (if is_human g faction_id then multiplier
          else let v = conf_cost_factor (conf g) (DiffLevel g);
                   v = (if conf_simple_cost_factor (conf g) = 0
                        then v - of_bool (great_satan g (FactionRankings g 7) False)
                               - of_bool (\<not> MultiplayerActive g \<and> is_human g (FactionRankings g 7))
                        else v)
               in (multiplier * v) sdiv 10)
      in if MapSizePlanet g = 0 then (8 * v) sdiv 10 else if MapSizePlanet g = 1 then (9 * v) sdiv 10 else v)"

definition industry_factor :: "int \<Rightarrow> int \<Rightarrow> int" where
  "industry_factor industry v =
     (let i = max industry (- 3)
      in if i = - 3 then (13 * v + 9) sdiv 10
         else if i = - 2 then (6 * v + 4) sdiv 5
         else if i = - 1 then (11 * v + 9) sdiv 10
         else if i = 0 then v
         else if i = 1 then (9 * v + 9) sdiv 10
         else if i = 2 then (4 * v + 4) sdiv 5
         else if i = 3 then (7 * v + 9) sdiv 10
         else if i = 4 then (3 * v + 4) sdiv 5
         else (v + 1) sdiv 2)"

definition mod_cost_factor :: "game \<Rightarrow> int \<Rightarrow> int \<Rightarrow> int \<Rightarrow> int" where
  "mod_cost_factor g faction_id type base_id =
     (let v = plain_factor g faction_id (if type = RSC_NUTRIENT then rule_nutrient_cost_multi (Rules g) else rule_mineral_cost_multi (Rules g));
          v = (if type = RSC_MINERAL then industry_factor (f_SE_industry_pending (Factions g faction_id)) v
               else if type = RSC_NUTRIENT
               then (let growth = (if base_id \<ge> 0 then BASE_SE_growth g (Bases g base_id) True
                                   else f_SE_growth_pending (Factions g faction_id))
                     in (v * (10 - clamp growth (- 2) 5) + 9) sdiv 10)
               else v)
      in max v 1)"

definition mineral_factor :: "game \<Rightarrow> int \<Rightarrow> int \<Rightarrow> int" where
  "mineral_factor g faction_id SE_industry =
     max (industry_factor SE_industry (plain_factor g faction_id (rule_mineral_cost_multi (Rules g)))) 1"

subsection \<open>Retooling\<close>

definition mod_base_making :: "game \<Rightarrow> int \<Rightarrow> int \<Rightarrow> int" where
  "mod_base_making g item_id base_id =
     (if base_id < 0 \<or> base_id \<ge> BaseCount g then 0
      else let b = Bases g base_id; retool = rule_retool_strictness (Rules g); faction_id = base_faction_id b;
               retool = (if (has_fac_built g FAC_SKUNKWORKS base_id
                             \<or> (mf_rule_flags (MFactions g faction_id) AND RFLAG_FREEPROTO \<noteq> 0
                                \<and> has_tech g (cfac_preq_tech (Facility g FAC_SKUNKWORKS)) faction_id))
                            \<and> retool \<ge> RETOOL_FREE_CATEGORY then RETOOL_FREE_CATEGORY else retool);
               queue_id = base_queue_items b 0
      in if item_id < 0 \<and> queue_id < 0 \<and> queue_id \<ge> - Fac_ID_Last \<and> has_fac_built g (- queue_id) base_id then - 1
         else if retool = RETOOL_ALWAYS_FREE then 0
         else if retool = RETOOL_FREE_CATEGORY
         then (if item_id \<ge> 0 then 0 else if item_id > - SP_ID_First then of_bool (item_id \<ge> - Fac_ID_Last) + 2 else 1)
         else if retool = RETOOL_FREE_PROJECT then (if item_id \<le> - SP_ID_First then - SP_ID_First else item_id)
         else if retool = RETOOL_NEVER_FREE then item_id
         else 1)"

definition mod_base_lose_minerals :: "game \<Rightarrow> int \<Rightarrow> int" where
  "mod_base_lose_minerals g base_id =
     (if base_id < 0 \<or> base_id \<ge> BaseCount g then 0
      else let b = Bases g base_id; R = Rules g; min_accum = base_minerals_accumulated_2 b
      in if rule_retool_penalty_prod_change R \<noteq> 0 \<and> is_human g (base_faction_id b)
            \<and> min_accum > rule_retool_exemption R
            \<and> mod_base_making g (base_production_id_last b) base_id \<noteq> mod_base_making g (base_queue_items b 0) base_id
         then min_accum - ((100 - rule_retool_penalty_prod_change R) * (min_accum - rule_retool_exemption R)) sdiv 100
              - rule_retool_exemption R
         else 0)"

subsection \<open>Inefficiency\<close>

definition hq_distance :: "game \<Rightarrow> base \<Rightarrow> int option" where
  "hq_distance g b =
     fold (\<lambda>i d. if base_faction_id (Bases g i) = base_faction_id b \<and> has_fac_built g FAC_HEADQUARTERS i
                 then Some (let dist = vector_dist g (base_x (Bases g i)) (base_y (Bases g i)) (base_x b) (base_y b)
                            in case d of None \<Rightarrow> min dist 9999 | Some e \<Rightarrow> min dist e)
                 else d) [0..BaseCount g - 1] None"

text \<open>The table of losses per level of efficiency, for the planner.\<close>

definition effic_stats :: "int \<Rightarrow> int \<Rightarrow> int \<Rightarrow> faction \<Rightarrow> faction" where
  "effic_stats energy dist_hq creche f = f\<lparr>f_social_effic := (\<lambda>i.
     if 0 \<le> i \<and> i < 9
     then (let factor = 8 + creche - i
           in if factor \<le> 0 then f_social_effic f i + energy else f_social_effic f i + (energy * dist_hq) sdiv (8 * factor))
     else f_social_effic f i)\<rparr>"

definition mod_black_market :: "game \<Rightarrow> int \<Rightarrow> int \<Rightarrow> game \<times> int" where
  "mod_black_market g base_id energy =
     (let b = Bases g base_id; faction_id = base_faction_id b; f = Factions g faction_id;
          found = (if energy > 0 then hq_distance g b else None)
      in if found = Some 0 then (g, 0)
         else if energy > 0
         then (let dist_hq = (case found of Some d \<Rightarrow> d | None \<Rightarrow> clamp (f_base_count f sdiv 4 + 8) 16 32);
                   creche = 2 * of_bool (has_fac_built g FAC_CHILDREN_CRECHE base_id);
                   g = (if base_stats_upkeep g then upd_faction faction_id (effic_stats energy dist_hq creche) g else g);
                   factor = 4 + f_SE_effic_pending f + creche
               in (g, if factor \<le> 0 then energy else clamp ((energy * dist_hq) sdiv (8 * factor)) 0 energy))
         else (g, 0))"

subsection \<open>Population, support and output\<close>

definition base_psych_content_pop :: "game \<Rightarrow> int" where
  "base_psych_content_pop g =
     (if 0 \<le> DiffLevel g \<and> DiffLevel g < MaxDiffNum
      then (case CurrentBase g of
           Some cur \<Rightarrow> if is_human g (base_faction_id (Bases g cur)) then conf_content_pop_player (conf g) (DiffLevel g)
                       else conf_content_pop_computer (conf g) (DiffLevel g)
         | None \<Rightarrow> conf_content_pop_computer (conf g) (DiffLevel g))
      else 0)"

definition mod_psych_check :: "game \<Rightarrow> int \<Rightarrow> int \<times> int" where
  "mod_psych_check g faction_id =
     (if faction_id \<ge> 0 \<and> faction_id < MaxPlayerNum \<and> 0 \<le> DiffLevel g \<and> DiffLevel g < MaxDiffNum
      then (let content_pop = (if is_human g faction_id then conf_content_pop_player (conf g) (DiffLevel g)
                               else conf_content_pop_computer (conf g) (DiffLevel g))
            in (content_pop, (((content_pop + 2) * max 4 (4 + f_SE_effic_pending (Factions g faction_id)) * MapAreaSqRoot g) sdiv 56) sdiv 2))
      else (0, 0))"

definition unit_support_plan :: "game \<Rightarrow> int" where
  "unit_support_plan g = (if conf_modify_unit_support (conf g) = 1 then PLAN_SUPPLY
     else if conf_modify_unit_support (conf g) = 2 then PLAN_PROBE else PLAN_TERRAFORM)"

definition BaseSupportCosts :: "(int \<times> int) list" where
  "BaseSupportCosts = [(2, 0), (1, 0), (1, 1), (1, 1), (1, 2), (1, 3), (1, 4), (1, - 4)]"

definition unit_support_cost :: "int \<Rightarrow> int" where
  "unit_support_cost SE_support = fst (BaseSupportCosts ! nat (clamp (SE_support + 4) 0 7))"

definition unit_support_free :: "int \<Rightarrow> int \<Rightarrow> int" where
  "unit_support_free SE_support pop_size =
     (let v = snd (BaseSupportCosts ! nat (clamp (SE_support + 4) 0 7)) in if v \<ge> 0 then v else max \<bar>v\<bar> pop_size)"

definition base_unused_space :: "game \<Rightarrow> int \<Rightarrow> int" where
  "base_unused_space g base_id =
     (let b = Bases g base_id;
          limit_mod = (if has_project g FAC_ASCETIC_VIRTUES (base_faction_id b) then 2 else 0)
            - mf_rule_population (MFactions g (base_faction_id b))
      in if \<not> has_fac_built g FAC_HAB_COMPLEX base_id
         then max 0 (rule_pop_limit_wo_hab_complex (Rules g) + limit_mod - base_pop_size b)
         else if \<not> has_fac_built g FAC_HABITATION_DOME base_id
         then max 0 (rule_pop_limit_wo_hab_dome (Rules g) + limit_mod - base_pop_size b)
         else max 0 (MaxBasePopSize - base_pop_size b))"

definition base_growth_goal :: "game \<Rightarrow> int \<Rightarrow> int" where
  "base_growth_goal g base_id = clamp ((32 - base_pop_size (Bases g base_id)) sdiv 2) 0 (base_unused_space g base_id)"

definition stockpile_energy :: "game \<Rightarrow> int \<Rightarrow> int" where
  "stockpile_energy g base_id =
     (let b = Bases g base_id; m = base_mineral_surplus b
      in if base_id \<ge> 0 \<and> m > 0
         then (if has_project g FAC_PLANETARY_ENERGY_GRID (base_faction_id b)
               then (5 * ((m + 1) sdiv 2) + 3) sdiv 4 else (m + 1) sdiv 2)
         else 0)"

definition stockpile_energy_active :: "game \<Rightarrow> int \<Rightarrow> int" where
  "stockpile_energy_active g base_id =
     (if base_id \<ge> 0 \<and> BASE_item (Bases g base_id) = - FAC_STOCKPILE_ENERGY then stockpile_energy g base_id else 0)"

definition pop_count :: "u32 \<Rightarrow> nat" where
  "pop_count w = length (filter (bit w) [0..<32])"

definition terraform_eco_damage :: "game \<Rightarrow> int \<Rightarrow> int" where
  "terraform_eco_damage g base_id =
     (let b = Bases g base_id;
          modifier = of_bool (has_fac_built g FAC_TREE_FARM base_id) + of_bool (has_fac_built g FAC_HYBRID_FOREST base_id)
      in if modifier = 2 then 0
         else sum_list (map (\<lambda>(_, _, i, m).
           (let sq = MapTiles g m;
                num = int (pop_count (sq_items sq AND (BIT_THERMAL_BORE OR BIT_ECH_MIRROR OR BIT_CONDENSER OR BIT_SOIL_ENRICHER
                  OR BIT_FARM OR BIT_SOLAR OR BIT_MINE OR BIT_MAGTUBE OR BIT_ROAD)));
                num = (if bit (base_worked_tiles b) i then num * 2 else num);
                num = num + 8 * of_bool (item_on sq BIT_THERMAL_BORE) + 6 * of_bool (item_on sq BIT_ECH_MIRROR)
                  + 4 * of_bool (item_on sq BIT_CONDENSER) - of_bool (item_on sq BIT_FOREST)
            in (num * (2 - modifier)) sdiv 2)) (iterate_tiles g (base_x b) (base_y b) 0 21)))"

definition mineral_output_modifier :: "game \<Rightarrow> int \<Rightarrow> int" where
  "mineral_output_modifier g base_id =
     of_bool (has_facility g FAC_QUANTUM_CONVERTER base_id) + of_bool (has_fac_built g FAC_ROBOTIC_ASSEMBLY_PLANT base_id)
     + of_bool (has_fac_built g FAC_GENEJACK_FACTORY base_id) + of_bool (has_fac_built g FAC_NANOREPLICATOR base_id)
     + of_bool (has_project g FAC_BULK_MATTER_TRANSMITTER (base_faction_id (Bases g base_id)))"

definition energy_grid_output :: "game \<Rightarrow> int \<Rightarrow> int" where
  "energy_grid_output g base_id =
     (int (length (filter (\<lambda>i. has_fac_built g i base_id) [1..MaxFacilityNum]))
      + 5 * int (length (filter (\<lambda>i. project_base g i = base_id) [SP_ID_First..SP_ID_Last]))) sdiv 2"

definition satellite_output :: "int \<Rightarrow> int \<Rightarrow> bool \<Rightarrow> int" where
  "satellite_output satellites pop_size full_value =
     max 0 (min pop_size (if full_value then satellites else (satellites + 1) sdiv 2))"

definition satellite_bonus :: "game \<Rightarrow> int \<Rightarrow> int \<times> int \<times> int \<Rightarrow> (int \<times> int \<times> int) \<times> bool" where
  "satellite_bonus g base_id = (\<lambda>(n, m, e).
     let b = Bases g base_id; f = Factions g (base_faction_id b)
     in if f_satellites_nutrient f > 0 \<or> f_satellites_mineral f > 0 \<or> f_satellites_energy f > 0
        then (let full_value = (has_facility g FAC_AEROSPACE_COMPLEX base_id \<or> has_project g FAC_SPACE_ELEVATOR (base_faction_id b))
              in ((n + satellite_output (f_satellites_nutrient f) (base_pop_size b) full_value,
                   m + satellite_output (f_satellites_mineral f) (base_pop_size b) full_value,
                   e + satellite_output (f_satellites_energy f) (base_pop_size b) full_value), True))
        else ((n, m, e), f_satellites_ODP f > 0))"

definition morale_mod :: "game \<Rightarrow> int \<Rightarrow> int \<Rightarrow> int \<Rightarrow> int" where
  "morale_mod g base_id faction_id triad =
     (let v = (if triad = TRIAD_LAND
                  \<and> (has_fac_built g FAC_COMMAND_CENTER base_id \<or> has_project g FAC_COMMAND_NEXUS faction_id)
               \<or> triad = TRIAD_SEA
                  \<and> (has_fac_built g FAC_NAVAL_YARD base_id \<or> has_project g FAC_MARITIME_CONTROL_CENTER faction_id)
               \<or> triad = TRIAD_AIR
                  \<and> (has_fac_built g FAC_AEROSPACE_COMPLEX base_id \<or> has_project g FAC_CLOUDBASE_ACADEMY faction_id)
               then 2 else 0);
          v = (if has_fac_built g FAC_BIOENHANCEMENT_CENTER base_id \<or> has_project g FAC_CYBORG_FACTORY faction_id then v + 2 else v)
      in if f_SE_morale_pending (Factions g faction_id) < - 1 then v sdiv 2 else v)"

definition breed_mod :: "game \<Rightarrow> int \<Rightarrow> int \<Rightarrow> int" where
  "breed_mod g base_id faction_id =
     of_bool (has_project g FAC_XENOEMPATHY_DOME faction_id) + of_bool (has_project g FAC_PHOLUS_MUTAGEN faction_id)
     + of_bool (has_project g FAC_VOICE_OF_PLANET faction_id) + of_bool (has_fac_built g FAC_CENTAURI_PRESERVE base_id)
     + of_bool (has_fac_built g FAC_TEMPLE_OF_PLANET base_id) + of_bool (has_fac_built g FAC_BIOLOGY_LAB base_id)
     + of_bool (has_fac_built g FAC_BROOD_PIT base_id)
     + of_bool (has_fac_built g FAC_BIOENHANCEMENT_CENTER base_id \<or> has_project g FAC_CYBORG_FACTORY faction_id)"

definition worm_mod :: "game \<Rightarrow> int \<Rightarrow> int \<Rightarrow> int" where
  "worm_mod g base_id faction_id =
     breed_mod g base_id faction_id + of_bool (mf_rule_psi (MFactions g faction_id) \<noteq> 0)
     + of_bool (has_project g FAC_DREAM_TWISTER faction_id) + of_bool (has_project g FAC_NEURAL_AMPLIFIER faction_id)"

subsection \<open>Bases ranked by energy\<close>

definition rank_score :: "game \<Rightarrow> int \<Rightarrow> int" where
  "rank_score g i = base_energy_intake (Bases g i) * MaxBaseNum + i"

definition own_base_rank :: "game \<Rightarrow> int \<Rightarrow> int" where
  "own_base_rank g base_id =
     int (length (filter (\<lambda>i. base_faction_id (Bases g i) = base_faction_id (Bases g base_id)
        \<and> rank_score g i > rank_score g base_id) [0..BaseCount g - 1]))"

text \<open>The priority queue of the source yields the bases of the faction by falling score; all scores differ.\<close>

definition base_rank :: "game \<Rightarrow> int \<Rightarrow> int \<Rightarrow> int" where
  "base_rank g faction_id position =
     (let intake = filter (\<lambda>i. base_faction_id (Bases g i) = faction_id) [0..BaseCount g - 1]
      in if position < 0 \<or> int (length intake) \<le> position then - 1
         else List.rev (sort_key (rank_score g) intake) ! nat position)"

subsection \<open>Specialists\<close>

definition specialist_open :: "game \<Rightarrow> base \<Rightarrow> int \<Rightarrow> bool" where
  "specialist_open g b i \<longleftrightarrow> has_tech g (ccit_preq_tech (Citizen g i)) (base_faction_id b)
     \<and> \<not> has_tech g (ccit_obsol_tech (Citizen g i)) (base_faction_id b)
     \<and> (ccit_psych_bonus (Citizen g i) \<ge> 2 \<or> base_pop_size b \<ge> rule_min_base_size_specialists (Rules g))"

definition pick_specialist :: "game \<Rightarrow> base \<Rightarrow> int \<Rightarrow> int \<Rightarrow> int \<Rightarrow> int" where
  "pick_specialist g b econ_val labs_val psych_val =
     snd (fold (\<lambda>i (best_score, citizen_id).
        if specialist_open g b i
        then (let score = econ_val * ccit_econ_bonus (Citizen g i) + labs_val * ccit_labs_bonus (Citizen g i)
                + psych_val * ccit_psych_bonus (Citizen g i)
              in if score > best_score then (score, i) else (best_score, citizen_id))
        else (best_score, citizen_id)) [0..MaxSpecialistNum - 1] (- 2147483648, 0))"

definition best_specialist :: "game \<Rightarrow> int" where
  "best_specialist g = pick_specialist g (Bases g (CurrentBaseID g)) 1 1 2"

subsection \<open>Costs of units\<close>

definition proto_speed :: "game \<Rightarrow> int \<Rightarrow> int" where
  "proto_speed g unit_id =
     (if unit_id = BSC_FUNGAL_TOWER then 0
      else let u = Units g unit_id; triad = UNIT_triad g u; mode = cwpn_mode (Weapon g (unit_weapon_id u));
               v = UNIT_speed g u;
               v = (if triad = TRIAD_AIR then v + unit_reactor_id u * 2 else v);
               v = v - of_bool (mode = WMODE_TRANSPORT) - of_bool (has_abil g unit_id ABL_SLOW);
               v = (if has_abil g unit_id ABL_ANTIGRAV_STRUTS then v + (if triad = TRIAD_AIR then unit_reactor_id u * 2 else 1) else v);
               v = (if triad = TRIAD_AIR
                    then (let v = v + 2 * of_bool (has_abil g unit_id ABL_FUEL_NANOCELLS)
                                + 2 * of_bool (has_project g FAC_CLOUDBASE_ACADEMY (unit_id sdiv MaxProtoFactionNum));
                              v = (if has_abil g unit_id ABL_AIR_SUPERIORITY then (v * 4) sdiv 5 else v)
                          in if mode = WMODE_TRANSPORT then v sdiv 2 else v)
                    else v)
           in clamp v 1 99 * rule_move_rate_roads (Rules g))"

definition transport_val :: "game \<Rightarrow> int \<Rightarrow> u32 \<Rightarrow> int \<Rightarrow> int" where
  "transport_val g chassis_id abls reactor_id =
     (let v = cchs_cargo (Chassis g chassis_id);
          v = (if cchs_triad (Chassis g chassis_id) = TRIAD_SEA then v * reactor_id else v);
          v = (if abls AND ABL_SLOW \<noteq> 0 then v sdiv 2 else v)
      in if abls AND ABL_HEAVY_TRANSPORT \<noteq> 0 then (3 * v + 1) sdiv 2 else v)"

definition prototype_factor :: "game \<Rightarrow> int \<Rightarrow> int" where
  "prototype_factor g unit_id =
     (let faction_id = unit_id sdiv MaxProtoFactionNum; triad = UNIT_triad g (Units g unit_id)
      in if mf_rule_flags (MFactions g faction_id) AND RFLAG_FREEPROTO \<noteq> 0 \<or> f_diff_level (Factions g faction_id) \<le> DIFF_SPECIALIST
         then 0
         else if triad = TRIAD_SEA then rule_extra_cost_prototype_sea (Rules g)
         else if triad = TRIAD_AIR then rule_extra_cost_prototype_air (Rules g)
         else rule_extra_cost_prototype_land (Rules g))"

text \<open>The share of one ability in the cost: a straight cost, or one of seven rules.\<close>

definition ability_cost :: "int \<Rightarrow> int \<Rightarrow> int \<Rightarrow> int \<Rightarrow> int" where
  "ability_cost weap_cost armor_cost speed_cost factor =
     (if factor > 0 then factor
      else if factor = - 1 then (if armor_cost \<noteq> 0 then clamp (weap_cost sdiv armor_cost) 0 2 else 0)
      else if factor = - 2 then weap_cost - 1
      else if factor = - 3 then armor_cost - 1
      else if factor = - 4 then speed_cost - 1
      else if factor = - 5 then weap_cost + armor_cost - 2
      else if factor = - 6 then weap_cost + speed_cost - 2
      else if factor = - 7 then armor_cost + speed_cost - 2
      else 0)"

definition abil_modifier :: "game \<Rightarrow> int \<Rightarrow> int \<Rightarrow> int \<Rightarrow> int \<Rightarrow> u32 \<Rightarrow> int" where
  "abil_modifier g triad weap_cost armor_cost speed_cost ability =
     (let (abil, flags) = fold (\<lambda>i (abil, flags).
        if bit ability (nat i)
        then ((if abil \<noteq> 0 then abil + 1 else abil) + ability_cost weap_cost armor_cost speed_cost (cabl_cost (Ability g i)),
              if cabl_flags (Ability g i) AND AFLAG_COST_INC_LAND_UNIT \<noteq> 0 \<and> triad = TRIAD_LAND then flags + 1 else flags)
        else (abil, flags)) [0..MaxAbilityNum - 1] (0, 0)
      in abil + flags)"

text \<open>The unsigned quantities of the source are not negative, so that integer arithmetic is the same.\<close>

definition mod_proto_cost :: "game \<Rightarrow> int \<Rightarrow> int \<Rightarrow> int \<Rightarrow> u32 \<Rightarrow> int \<Rightarrow> int" where
  "mod_proto_cost g chassis_id weapon_id armor_id ability reactor_id =
     (let C = Chassis g chassis_id; W = Weapon g weapon_id; A = Armor g armor_id; weap_cost = cwpn_cost W; triad = cchs_triad C
      in if cchs_missile C \<noteq> 0 \<and> cwpn_offense_value W \<ge> 99 then weap_cost
         else let armor_cost = carm_cost A; speed_cost = cchs_cost C;
                  abil = abil_modifier g triad weap_cost armor_cost speed_cost ability;
                  (armor_cost, speed_cost) =
                    (if triad = TRIAD_SEA then (armor_cost sdiv 2, speed_cost + reactor_id)
                     else if triad = TRIAD_AIR
                     then (if armor_cost > 1 then armor_cost * (reactor_id * 2) else armor_cost, speed_cost + reactor_id * 2)
                     else (armor_cost, speed_cost));
                  combat_mod = max (armor_cost sdiv 2 + 1) weap_cost;
                  proto_mod =
                    (if combat_mod = 1 \<and> armor_cost = 1 \<and> speed_cost = 1 \<and> reactor_id = REC_FISSION then 1
                     else let d = push_bit (nat reactor_id) 2;
                              p = ((speed_cost + armor_cost) * combat_mod + d sdiv 2) sdiv d;
                              p = (if speed_cost = 1 then p sdiv 2 + 1 else p);
                              p = (if weap_cost > 1 \<and> carm_cost A > 1 then p + 1 + of_bool (triad = TRIAD_LAND \<and> speed_cost > 1) else p);
                              p = (if triad = TRIAD_SEA \<and> cwpn_mode W \<noteq> WMODE_PROBE then (p + 1) sdiv 2
                                   else if triad = TRIAD_AIR then p sdiv (if cwpn_mode W > WMODE_MISSILE then 2 else 4) else p)
                          in max p ((reactor_id * 3 + 1) sdiv 2))
              in (proto_mod * (abil + 4) + 2) sdiv 4)"

definition mod_base_cost :: "game \<Rightarrow> int \<Rightarrow> int" where
  "mod_base_cost g unit_id =
     (let u = Units g unit_id
      in mod_proto_cost g (unit_chassis_id u) (unit_weapon_id u) (unit_armor_id u) ABL_NONE (unit_reactor_id u))"

text \<open>The cost and whether a part of it is for the first unit of the prototype.\<close>

definition mod_veh_cost :: "game \<Rightarrow> int \<Rightarrow> int \<Rightarrow> int \<times> bool" where
  "mod_veh_cost g unit_id base_id =
     (let u = Units g unit_id; cost = unit_cost u;
          cost = (if base_id \<ge> 0 \<and> unit_id < MaxProtoFactionNum \<and> (UNIT_offense_value g u < 0 \<or> unit_id = BSC_SPORE_LAUNCHER)
                     \<and> has_fac_built g FAC_BROOD_PIT base_id then (cost * 3) sdiv 4 else cost);
          cost = (if unit_plan u = PLAN_COLONY \<and> base_id \<ge> 0 then clamp cost 1 999 else cost);
          first = (if unit_id \<ge> MaxProtoFactionNum \<and> \<not> UNIT_is_prototyped u
                   then (if base_id \<ge> 0 \<and> has_fac_built g FAC_SKUNKWORKS base_id then 0
                         else (prototype_factor g unit_id * mod_base_cost g unit_id + 50) sdiv 100)
                   else 0)
      in (cost + first, first \<noteq> 0))"

definition mod_upgrade_cost :: "game \<Rightarrow> int \<Rightarrow> int \<Rightarrow> int \<Rightarrow> int" where
  "mod_upgrade_cost g faction_id new_unit_id old_unit_id =
     (let old = Units g old_unit_id; new = Units g new_unit_id; oc = unit_cost old; nc = unit_cost new;
          proto = (new_unit_id \<ge> MaxProtoFactionNum \<and> \<not> UNIT_is_prototyped new);
          cost = (if conf_modify_upgrade_cost (conf g) \<noteq> 0
                  then (let c = max nc ((if UNIT_is_supply new then 4 else 2) * max 1 (nc - oc)) in if proto then c * 2 else c)
                  else (let modifier = (if proto then ((nc + 1) sdiv 2 + nc) * ((nc + 1) sdiv 2 + nc + 1) else nc)
                        in max 0 (UNIT_speed g new - UNIT_speed g old) + max 0 (UNIT_armor_cost g new - UNIT_armor_cost g old)
                           + max 0 (UNIT_weapon_cost g new - UNIT_weapon_cost g old) + modifier))
      in if has_project g FAC_NANO_FACTORY faction_id then cost sdiv 2 else cost)"

definition mineral_cost :: "game \<Rightarrow> int \<Rightarrow> int \<Rightarrow> int" where
  "mineral_cost g base_id item_id =
     (if base_id \<ge> 0 \<and> base_id < BaseCount g \<and> item_id \<ge> - SP_ID_Last \<and> item_id < MaxProtoNum
      then (let factor = mod_cost_factor g (base_faction_id (Bases g base_id)) RSC_MINERAL (- 1)
            in (if item_id \<ge> 0 then fst (mod_veh_cost g item_id base_id) else cfac_cost (Facility g (- item_id))) * factor)
      else 0)"

definition hurry_cost :: "game \<Rightarrow> int \<Rightarrow> int \<Rightarrow> int \<Rightarrow> int" where
  "hurry_cost g base_id item_id hurry_mins =
     (let b = Bases g base_id; m = MFactions g (base_faction_id b);
          mins = max 0 (mineral_cost g base_id item_id - base_minerals_accumulated b);
          cost = (if item_id < 0 then 2 * mins else (mins * mins) sdiv 20 + 2 * mins);
          cost = (if conf_simple_hurry_cost (conf g) = 0 \<and> base_minerals_accumulated b < rule_retool_exemption (Rules g)
                  then cost * 2 else cost);
          cost = (if item_id \<le> - SP_ID_First
                  then cost * (if base_minerals_accumulated b < 4 * mod_cost_factor g (base_faction_id b) RSC_MINERAL (- 1) then 4 else 2)
                  else cost);
          cost = (if has_project_any g FAC_VOICE_OF_PLANET then cost * 2 else cost);
          cost = (cost * mf_rule_hurry m) sdiv 100
      in if hurry_mins > 0 \<and> mins > 0
         then (hurry_mins * cost) sdiv mins + of_bool ((hurry_mins * cost) smod mins \<noteq> 0) else 0)"

subsection \<open>Ranks and positions are inverse\<close>

definition intake_of :: "game \<Rightarrow> int \<Rightarrow> int list" where
  "intake_of g faction_id = filter (\<lambda>i. base_faction_id (Bases g i) = faction_id) [0..BaseCount g - 1]"

definition ranked :: "game \<Rightarrow> int \<Rightarrow> int list" where
  "ranked g faction_id = List.rev (sort_key (rank_score g) (intake_of g faction_id))"

lemma rank_score_inj:
  assumes "0 \<le> i" "i < MaxBaseNum" "0 \<le> j" "j < MaxBaseNum" "rank_score g i = rank_score g j"
  shows "i = j"
proof -
  have "rank_score g k mod 512 = k" if "0 \<le> k" "k < 512" for k
    unfolding rank_score_def using that by (simp only: mod_mult_self3 mod_pos_pos_trivial)
  then show ?thesis using assms by metis
qed

lemma ranked_sorted:
  assumes "BaseCount g \<le> MaxBaseNum"
  shows "sorted_wrt (\<lambda>i j. rank_score g i > rank_score g j) (ranked g f)"
proof -
  let ?xs = "sort_key (rank_score g) (intake_of g f)"
  have m: "0 \<le> i \<and> i < 512" if "i \<in> set ?xs" for i using that assms by (auto simp: intake_of_def)
  have "distinct ?xs" by (simp add: intake_of_def)
  then have "distinct (map (rank_score g) ?xs)" using m by (auto simp: distinct_map intro!: inj_onI intro: rank_score_inj)
  then have "sorted_wrt (<) (map (rank_score g) ?xs)" by (simp add: strict_sorted_iff)
  then show ?thesis by (simp add: ranked_def sorted_wrt_rev sorted_wrt_map)
qed

lemma filter_above:
  assumes "sorted_wrt (\<lambda>i j. s i > (s j :: int)) xs" "k < length xs"
  shows "length (filter (\<lambda>i. s i > s (xs ! k)) xs) = k"
  using assms
proof (induction xs arbitrary: k)
  case (Cons x xs)
  show ?case
  proof (cases k)
    case 0
    then show ?thesis using Cons.prems by (auto simp: filter_empty_conv)
  next
    case (Suc n)
    then have "s x > s (xs ! n)" using Cons.prems by simp
    then show ?thesis using Cons.IH [of n] Cons.prems Suc by simp
  qed
qed simp

lemma own_rank_filter: "own_base_rank g b = int (length (filter (\<lambda>i. rank_score g i > rank_score g b)
    (ranked g (base_faction_id (Bases g b)))))"
proof -
  have "length (filter P (ranked g f)) = length (filter P (intake_of g f))" for P f
    by (simp add: ranked_def rev_filter [symmetric] filter_sort)
  then show ?thesis by (simp add: own_base_rank_def intake_of_def conj_commute)
qed

lemma base_rank_ranked: "0 \<le> p \<Longrightarrow> p < int (length (ranked g f)) \<Longrightarrow> base_rank g f p = ranked g f ! nat p"
  by (simp add: base_rank_def ranked_def intake_of_def Let_def)

text \<open>The two rankings of bases agree: \<open>base_rank\<close> at the rank of a base gives back that base, every position below the
  number of bases of a faction holds one of its bases, and the rank of that base is the position.\<close>

theorem base_rank_inverse:
  assumes "BaseCount g \<le> MaxBaseNum" "0 \<le> b" "b < BaseCount g" "base_faction_id (Bases g b) = f"
    and "0 \<le> p" "p < int (length (filter (\<lambda>i. base_faction_id (Bases g i) = f) [0..BaseCount g - 1]))"
  shows "base_rank g f (own_base_rank g b) = b
    \<and> base_faction_id (Bases g (base_rank g f p)) = f \<and> own_base_rank g (base_rank g f p) = p"
proof -
  note s = ranked_sorted [OF assms(1), of f]
  have "b \<in> set (ranked g f)" using assms(2-4) by (simp add: ranked_def intake_of_def)
  then obtain k where k: "k < length (ranked g f)" "ranked g f ! k = b" by (auto simp: in_set_conv_nth)
  then have "own_base_rank g b = int k" using filter_above [OF s k(1)] assms(4) by (simp add: own_rank_filter)
  then have 1: "base_rank g f (own_base_rank g b) = b" using k by (simp add: base_rank_ranked)
  have p: "nat p < length (ranked g f)" using assms(5,6) by (simp add: ranked_def intake_of_def nat_less_iff)
  then have r: "base_rank g f p = ranked g f ! nat p" using assms(5) by (simp add: base_rank_ranked nat_less_iff)
  have "ranked g f ! nat p \<in> set (ranked g f)" using p by simp
  then have 2: "base_faction_id (Bases g (base_rank g f p)) = f" unfolding r by (simp add: ranked_def intake_of_def)
  then have "own_base_rank g (base_rank g f p) = p" using filter_above [OF s p] assms(5) by (simp add: own_rank_filter r)
  with 1 2 show ?thesis by simp
qed

lemma base_rank_inverse_witness:
  "base_rank (blank_game\<lparr>BaseCount := 2\<rparr>) 0 (own_base_rank (blank_game\<lparr>BaseCount := 2\<rparr>) 1) = 1"
  using base_rank_inverse [of "blank_game\<lparr>BaseCount := 2\<rparr>" 1 0 0]
  by (simp add: blank_game_def blank_base_def upto.simps)

subsection \<open>Cost factors\<close>

lemma industry_factor_div:
  "0 \<le> v \<Longrightarrow> industry_factor k v =
     (if k \<le> - 3 then (13 * v + 9) div 10 else if k = - 2 then (6 * v + 4) div 5 else if k = - 1 then (11 * v + 9) div 10
      else if k = 0 then v else if k = 1 then (9 * v + 9) div 10 else if k = 2 then (4 * v + 4) div 5
      else if k = 3 then (7 * v + 9) div 10 else if k = 4 then (3 * v + 4) div 5 else (v + 1) div 2)"
  by (simp add: industry_factor_def Let_def max_def sdiv_nonneg)

lemma industry_factor_step:
  assumes v: "0 \<le> v"
  shows "industry_factor (k + 1) v \<le> industry_factor k v"
proof -
  have "k + 1 \<le> - 3 \<or> k = - 3 \<or> k = - 2 \<or> k = - 1 \<or> k = 0 \<or> k = 1 \<or> k = 2 \<or> k = 3 \<or> k = 4 \<or> 5 \<le> k" by linarith
  then show ?thesis unfolding industry_factor_div [OF v] using v
    by (elim disjE; simp; linarith)
qed

lemma industry_factor_mono: "0 \<le> v \<Longrightarrow> i \<le> j \<Longrightarrow> industry_factor j v \<le> industry_factor i v"
proof -
  assume v: "0 \<le> v" and ij: "i \<le> j"
  have "industry_factor (i + int n) v \<le> industry_factor i v" for n
  proof (induction n)
    case (Suc n)
    then show ?case using industry_factor_step [OF v, of "i + int n"] by (simp add: algebra_simps)
  qed simp
  from this [of "nat (j - i)"] show ?thesis using ij by simp
qed

text \<open>The two computations of the price of minerals agree: \<open>mineral_factor\<close> at the industry rating that is pending is
  \<open>mod_cost_factor\<close>; the factor is never below one, and, when the plain factor is not negative, a better industry
  rating never makes minerals more expensive.\<close>

theorem mineral_factor_agrees:
  assumes "0 \<le> plain_factor g f (rule_mineral_cost_multi (Rules g))" "i \<le> j"
  shows "mineral_factor g f (f_SE_industry_pending (Factions g f)) = mod_cost_factor g f RSC_MINERAL b
    \<and> 1 \<le> mod_cost_factor g f t b \<and> mineral_factor g f j \<le> mineral_factor g f i"
  using industry_factor_mono [OF assms] by (auto simp: mineral_factor_def mod_cost_factor_def Let_def)

lemma mineral_factor_agrees_witness:
  "mineral_factor blank_game 1 3 \<le> mineral_factor blank_game 1 0"
proof -
  have "0 \<le> plain_factor blank_game 1 (rule_mineral_cost_multi (Rules blank_game))"
    by (simp add: plain_factor_def blank_game_def blank_crules_def Let_def)
  then show ?thesis using mineral_factor_agrees [of blank_game 1 0 3] by auto
qed

subsection \<open>Choosing a specialist\<close>

definition spec_score :: "game \<Rightarrow> int \<Rightarrow> int \<Rightarrow> int \<Rightarrow> int \<Rightarrow> int" where
  "spec_score g econ labs psych i = econ * ccit_econ_bonus (Citizen g i) + labs * ccit_labs_bonus (Citizen g i)
     + psych * ccit_psych_bonus (Citizen g i)"

lemma best_fold:
  fixes s :: "int \<Rightarrow> int"
  assumes "\<And>i. i \<in> set xs \<Longrightarrow> P i \<Longrightarrow> m < s i"
  shows "let (best, c) = fold (\<lambda>i (best, c). if P i then (if s i > best then (s i, i) else (best, c)) else (best, c)) xs (m, d)
    in (\<forall>i \<in> set xs. P i \<longrightarrow> s i \<le> best) \<and> (if \<exists>i \<in> set xs. P i then c \<in> set xs \<and> P c \<and> s c = best else best = m \<and> c = d)"
  using assms
proof (induction xs rule: rev_induct)
  case (snoc x xs)
  from snoc.IH snoc.prems show ?case
    by (auto simp: Let_def split: prod.splits if_splits; force)
qed simp

text \<open>\<open>pick_specialist\<close> is right: when some specialist is open to the base and the weighted values are above the
  smallest integer, it picks an open one and no open one has a higher weighted value.\<close>

theorem pick_specialist_best:
  assumes "specialist_open g b k" "0 \<le> k" "k < MaxSpecialistNum" "\<forall>i. - 2147483648 < spec_score g econ labs psych i"
  shows "specialist_open g b (pick_specialist g b econ labs psych)
    \<and> 0 \<le> pick_specialist g b econ labs psych \<and> pick_specialist g b econ labs psych < MaxSpecialistNum
    \<and> spec_score g econ labs psych k \<le> spec_score g econ labs psych (pick_specialist g b econ labs psych)"
proof -
  have k: "k \<in> set [0..MaxSpecialistNum - 1]" using assms(2,3) by simp
  show ?thesis
    using best_fold [where P = "specialist_open g b" and s = "spec_score g econ labs psych" and m = "- 2147483648"
        and xs = "[0..MaxSpecialistNum - 1]" and d = 0] assms(1,4) k
    unfolding pick_specialist_def spec_score_def [symmetric] Let_def by (auto split: prod.splits if_splits)
qed

lemma pick_specialist_best_witness:
  "let g = blank_game\<lparr>Citizen := (\<lambda>i. blank_ccitizen\<lparr>ccit_preq_tech := - 1, ccit_obsol_tech := - 2,
      ccit_psych_bonus := (if i = 3 then 5 else 2)\<rparr>)\<rparr>
    in 15 \<le> spec_score g 1 2 3 (pick_specialist g (blank_base\<lparr>base_faction_id := 1\<rparr>) 1 2 3)"
proof -
  let ?g = "blank_game\<lparr>Citizen := (\<lambda>i. blank_ccitizen\<lparr>ccit_preq_tech := - 1, ccit_obsol_tech := - 2,
      ccit_psych_bonus := (if i = 3 then 5 else 2)\<rparr>)\<rparr>"
  have o: "specialist_open ?g (blank_base\<lparr>base_faction_id := 1\<rparr>) 3" by (simp add: specialist_open_def has_tech_def)
  have s: "spec_score ?g 1 2 3 i = (if i = 3 then 15 else 6)" for i by (simp add: spec_score_def blank_ccitizen_def)
  have "spec_score ?g 1 2 3 3 \<le> spec_score ?g 1 2 3 (pick_specialist ?g (blank_base\<lparr>base_faction_id := 1\<rparr>) 1 2 3)"
    using pick_specialist_best [OF o, of 1 2 3] by (simp add: s)
  then show ?thesis by (simp add: s Let_def)
qed

end
