(* ===== verification/Base_Psych.thy ===== *)
theory Base_Psych
  imports Base_Cost
begin

text \<open>
  Talents and drones of a base (base.cpp): the five steps of the psych computation and their bounds.
\<close>

section \<open>Talents and drones (base.cpp)\<close>

text \<open>
  The mood of a base is its counts of talents, drones and superdrones. The two loops that bring the counts below the
  number of citizens end: one of the counts falls in each round.
\<close>

type_synonym mood = "int \<times> int \<times> int"

function psych_shrink :: "int \<Rightarrow> mood \<Rightarrow> mood" where
  "psych_shrink pop_size (t, d, s) =
     (if t + d + s > pop_size
      then if t > 0
           then psych_shrink pop_size (t - 1, if s > 0 then d else if d > 0 then d - 1 else d, if s > 0 then s - 1 else s)
           else if d \<le> pop_size then (t, d, max 0 (min d s))
           else psych_shrink pop_size (t, d - 1, s)
      else (t, d, s))"
  by pat_completeness auto
termination
  by (relation "measure (\<lambda>(pop_size, t, d, s). nat t + nat (d - pop_size))") auto

declare psych_shrink.simps [simp del]

text \<open>Talents that displace drones, one at a time.\<close>

primrec psych_force :: "nat \<Rightarrow> int \<Rightarrow> mood \<Rightarrow> mood" where
  "psych_force 0 pop_size m = m"
| "psych_force (Suc n) pop_size m =
     (let (t, d, s) = m;
          t = (if t < pop_size then t + 1 else t)
      in psych_force n pop_size
           (if t + d + s > pop_size then (if s > 0 then (t, d, s - 1) else if d > 0 then (t, d - 1, s) else (t, d, s)) else (t, d, s)))"

definition adjust_psych :: "base \<Rightarrow> int \<Rightarrow> bool \<Rightarrow> mood \<Rightarrow> mood" where
  "adjust_psych b talent_val force m =
     (let pop_size = base_pop_size b - base_specialist_total b;
          (t, d, s) = (if force then psych_force (nat talent_val) pop_size m else m);
          t = (if \<not> force \<and> talent_val > 0 then t + talent_val else t);
          d = max 0 (min d (base_pop_size b))
      in psych_shrink pop_size (t, d, s))"

text \<open>Psych energy beyond twice the size of the base, at a rising price of two, four, six and so on.\<close>

function psych_addon :: "nat \<Rightarrow> int \<Rightarrow> int \<Rightarrow> mood \<Rightarrow> mood" where
  "psych_addon k addon_val pop_size (t, d, s) =
     (if addon_val \<ge> 2 * int k + 2 \<and> t < pop_size
      then psych_addon (Suc k) (addon_val - (2 * int k + 2)) pop_size (psych_shrink pop_size (t + 1, d, s))
      else (t, d, s))"
  by pat_completeness auto
termination
  by (relation "measure (\<lambda>(k, addon_val, pop_size, m). nat addon_val)") auto

declare psych_addon.simps [simp del]

subsection \<open>The five steps\<close>

definition effic_drones :: "game \<Rightarrow> int \<Rightarrow> int" where
  "effic_drones g base_id =
     (let b = Bases g base_id; base_limit = snd (mod_psych_check g (base_faction_id b))
      in if base_limit \<noteq> 0
         then max 0 (min ((base_id smod base_limit + f_base_count (Factions g (base_faction_id b)) - base_limit) sdiv base_limit)
                         (base_pop_size b))
         else 0)"

definition rule_drones :: "game \<Rightarrow> int \<Rightarrow> int" where
  "rule_drones g base_id =
     (let b = Bases g base_id; faction_id = base_faction_id b; m = MFactions g faction_id; pop = base_pop_size b;
          drones = max 0 (pop - fst (mod_psych_check g faction_id));
          drones = (if base_assimilation_turns_left b > 0
            then drones + max 0 (min ((pop + (if is_human g faction_id then f_diff_level (Factions g faction_id) else 3) - 2) sdiv 4)
                                     ((base_assimilation_turns_left b + 9) sdiv 10))
            else drones);
          drones = (if mf_rule_drone m \<noteq> 0 then drones + pop sdiv mf_rule_drone m else drones)
      in (case List.find (\<lambda>i. mf_faction_bonus_id m i = RULE_NODRONE) [0..mf_faction_bonus_count m - 1] of
              Some i \<Rightarrow> max 0 (drones - mf_faction_bonus_val1 m i) | None \<Rightarrow> drones))"

definition rule_talents :: "game \<Rightarrow> int \<Rightarrow> int" where
  "rule_talents g base_id =
     (let b = Bases g base_id; r = mf_rule_talent (MFactions g (base_faction_id b))
      in if r \<noteq> 0 then (r + base_pop_size b - 1) sdiv r else 0)"

definition psych_start :: "game \<Rightarrow> int \<Rightarrow> int \<Rightarrow> mood" where
  "psych_start g base_id SE_talent =
     (let b = Bases g base_id; pop = base_pop_size b;
          t = (if SE_talent \<ge> 0 then rule_talents g base_id + SE_talent else rule_talents g base_id);
          d = (if SE_talent \<ge> 0 then rule_drones g base_id else rule_drones g base_id - SE_talent);
          d = max 0 (min d pop) + effic_drones g base_id;
          s = max 0 (min (d - pop) pop)
      in adjust_psych b 0 False (t, max 0 (min d pop), s))"

definition psych_energy :: "game \<Rightarrow> base \<Rightarrow> mood \<Rightarrow> mood" where
  "psych_energy g b m =
     (let psych_val = max 0 (min (base_psych_total b sdiv 2) (base_pop_size b - fst m));
          addon_val = base_psych_total b sdiv 2 - psych_val;
          m = adjust_psych b psych_val False m
      in if conf_base_psych (conf g) \<noteq> 0 then psych_addon 0 addon_val (base_pop_size b - base_specialist_total b) m else m)"

definition psych_facilities :: "game \<Rightarrow> int \<Rightarrow> mood \<Rightarrow> mood" where
  "psych_facilities g base_id = (\<lambda>(t, d, s).
     let b = Bases g base_id; faction_id = base_faction_id b;
         d = d + rule_drones_induced_genejack_factory (Rules g) * of_bool (has_fac_built g FAC_GENEJACK_FACTORY base_id)
           - 2 * of_bool (has_fac_built g FAC_RECREATION_COMMONS base_id)
           - 2 * of_bool (has_fac_built g FAC_HOLOGRAM_THEATRE base_id
               \<or> (has_project g FAC_VIRTUAL_WORLD faction_id \<and> has_fac_built g FAC_NETWORK_NODE base_id))
           - of_bool (has_project g FAC_PLANETARY_TRANSIT_SYSTEM faction_id \<and> base_pop_size b \<le> PlanetaryTransitPopSize)
           - of_bool (has_fac_built g FAC_RESEARCH_HOSPITAL base_id) - of_bool (has_fac_built g FAC_NANOHOSPITAL base_id);
         m = (if has_fac_built g FAC_PARADISE_GARDEN base_id
              then adjust_psych b (conf_facility_talent_value (conf g) 1) (conf_facility_talent_value (conf g) 0 \<noteq> 0) (t, d, s)
              else (t, d, s))
     in adjust_psych b 0 False m)"

definition police_units :: "game \<Rightarrow> int \<Rightarrow> int \<Rightarrow> int list" where
  "police_units g base_id SE_police =
     (let b = Bases g base_id; faction_id = base_faction_id b; val_police = 1 + of_bool (SE_police \<ge> 3);
          worm_police = (mf_rule_flags (MFactions g faction_id) AND RFLAG_WORMPOLICE \<noteq> 0)
      in (if has_project g FAC_SELF_AWARE_COLONY faction_id then [val_police] else [])
         @ map (\<lambda>i. let v = Vehs g i in val_police + of_bool (has_abil g (veh_unit_id v) ABL_POLICE_2X)
               + of_bool (worm_police \<and> VEH_triad g v = TRIAD_LAND \<and> VEH_is_native_unit g v))
             (filter (\<lambda>i. let v = Vehs g i in veh_x v = base_x b \<and> veh_y v = base_y b \<and> VEH_plan g v \<le> PLAN_RECON
                \<and> VEH_triad g v \<noteq> TRIAD_SEA) [0..VehCount g - 1]))"

text \<open>The strongest units act first; their number depends on the police rating.\<close>

definition police_total :: "game \<Rightarrow> int \<Rightarrow> int \<Rightarrow> int" where
  "police_total g base_id SE_police =
     sum_list (take (nat (clamp (of_bool (SE_police = - 1) + SE_police + 1) 0 3)) (List.rev (sort (police_units g base_id SE_police))))"

definition psych_police :: "game \<Rightarrow> int \<Rightarrow> int \<Rightarrow> mood \<Rightarrow> mood" where
  "psych_police g base_id SE_police = (\<lambda>(t, d, s).
     let b = Bases g base_id; pop = base_pop_size b; n = BaseVehPacifismCount g;
         d = (if SE_police \<ge> - 1 then max 0 (d - police_total g base_id SE_police) else d);
         d = (if SE_police = - 3 \<and> n > 1 then min pop (d + n - 1)
              else if SE_police = - 4 \<and> n > 0 then min pop (d + n)
              else if SE_police \<le> - 5 \<and> n > 0 then min pop (d + n * 2) else d)
     in adjust_psych b 0 False (t, d, s))"

definition psych_projects :: "game \<Rightarrow> int \<Rightarrow> mood \<Rightarrow> mood" where
  "psych_projects g base_id = (\<lambda>(t, d, s).
     let b = Bases g base_id; faction_id = base_faction_id b; economics = f_SE_Economics_pending (Factions g faction_id)
     in if base_nerve_staple_turns_left b > 0 \<or> has_fac_built g FAC_PUNISHMENT_SPHERE base_id
        then adjust_psych b 0 False (0, 0, s)
        else let d = (if has_project g FAC_LONGEVITY_VACCINE faction_id
                 then (let d = (if d > 0 \<and> economics = SOCIAL_M_PLANNED then d - 1 else d)
                       in if d > 0 \<and> economics \<noteq> SOCIAL_M_FREE_MARKET then d - 1 else d)
                 else d);
                 talents = (if has_project g FAC_HUMAN_GENOME_PROJECT faction_id then conf_facility_talent_value (conf g) 2 else 0)
                   + (if has_project g FAC_CLINICAL_IMMORTALITY faction_id then conf_facility_talent_value (conf g) 3 else 0)
             in adjust_psych b talents (conf_facility_talent_value (conf g) 0 \<noteq> 0) (t, d, s))"

definition add_psych_row :: "int \<Rightarrow> mood \<Rightarrow> game \<Rightarrow> game" where
  "add_psych_row num = (\<lambda>(t, d, s) g.
     g\<lparr>BasePsychTalents := (BasePsychTalents g)(num := t), BasePsychNDrones := (BasePsychNDrones g)(num := d),
       BasePsychSDrones := (BasePsychSDrones g)(num := s)\<rparr>)"

definition put_mood :: "mood \<Rightarrow> base \<Rightarrow> base" where
  "put_mood = (\<lambda>(t, d, s) b. b\<lparr>base_talent_total := t, base_drone_total := d, base_superdrone_total := s\<rparr>)"

definition mod_base_psych :: "int \<Rightarrow> int \<Rightarrow> int \<Rightarrow> game \<Rightarrow> game" where
  "mod_base_psych base_id SE_talent SE_police g =
     (let b = Bases g base_id
      in if base_specialist_total b \<ge> base_pop_size b
         then fold (\<lambda>i. add_psych_row i (0, 0, 0)) [0..4] (upd_base base_id (put_mood (0, 0, 0)) g)
         else let m0 = psych_start g base_id SE_talent; m1 = psych_energy g b m0; m2 = psych_facilities g base_id m1;
                  m3 = psych_police g base_id SE_police m2; m4 = psych_projects g base_id m3
              in add_psych_row 4 m4 (add_psych_row 3 m3 (add_psych_row 2 m2 (add_psych_row 1 m1 (add_psych_row 0 m0
                   (upd_base base_id (put_mood m4) g))))))"

subsection \<open>The mood stays within the population\<close>

definition mood_ok :: "base \<Rightarrow> mood \<Rightarrow> bool" where
  "mood_ok b = (\<lambda>(t, d, s). 0 \<le> t \<and> 0 \<le> d \<and> 0 \<le> s \<and> t + d + base_specialist_total b \<le> base_pop_size b)"

lemma psych_shrink_ok:
  assumes "psych_shrink pop (t, d, s) = (t', d', s')" "0 \<le> t" "0 \<le> d" "0 \<le> s" "0 \<le> pop"
  shows "0 \<le> t' \<and> 0 \<le> d' \<and> 0 \<le> s' \<and> t' + d' \<le> pop"
  using assms
proof (induction pop "(t, d, s)" arbitrary: t d s rule: psych_shrink.induct)
  case (1 pop t d s)
  note ps = psych_shrink.simps [of pop t d s]
  show ?case
  proof (cases "t + d + s > pop")
    case False
    then show ?thesis using 1(3-) ps by auto
  next
    case over: True
    show ?thesis
    proof (cases "t > 0")
      case True
      then show ?thesis using over 1(3-) ps by (intro 1(1) [OF over True]) auto
    next
      case False
      then show ?thesis
      proof (cases "d \<le> pop")
        case True
        then show ?thesis using over False 1(3-) ps by auto
      next
        case gt: False
        then show ?thesis using over False 1(3-) ps by (intro 1(2) [OF over False gt]) auto
      qed
    qed
  qed
qed

definition citizens_ok :: "base \<Rightarrow> bool" where
  "citizens_ok b \<longleftrightarrow> 0 \<le> base_specialist_total b \<and> base_specialist_total b \<le> base_pop_size b"

lemma psych_force_nonneg:
  "psych_force n pop (t, d, s) = (t', d', s') \<Longrightarrow> 0 \<le> t \<Longrightarrow> 0 \<le> s \<Longrightarrow> 0 \<le> t' \<and> 0 \<le> s'"
proof (induction n arbitrary: t d s)
  case (Suc n)
  then show ?case by (auto simp: Let_def split: if_splits)
qed simp

lemma adjust_psych_ok:
  assumes "citizens_ok b" "0 \<le> t" "0 \<le> s"
  shows "mood_ok b (adjust_psych b talent_val force (t, d, s))"
proof -
  obtain t1 d1 s1 where f: "(if force then psych_force (nat talent_val) (base_pop_size b - base_specialist_total b) (t, d, s) else (t, d, s))
      = (t1, d1, s1)" by (metis prod_cases3)
  have n: "0 \<le> t1" "0 \<le> s1" using f assms(2,3) psych_force_nonneg by (auto split: if_splits)
  let ?t = "if \<not> force \<and> talent_val > 0 then t1 + talent_val else t1" and ?d = "max 0 (min d1 (base_pop_size b))"
  obtain t2 d2 s2 where r: "psych_shrink (base_pop_size b - base_specialist_total b) (?t, ?d, s1) = (t2, d2, s2)" by (metis prod_cases3)
  have "0 \<le> t2 \<and> 0 \<le> d2 \<and> 0 \<le> s2 \<and> t2 + d2 \<le> base_pop_size b - base_specialist_total b"
    by (rule psych_shrink_ok [OF r]) (use n assms(1) in \<open>auto simp: citizens_ok_def\<close>)
  then show ?thesis by (simp add: adjust_psych_def f r mood_ok_def Let_def)
qed

lemma psych_addon_ok:
  assumes "psych_addon k v pop (t, d, s) = (t', d', s')" "0 \<le> t" "0 \<le> d" "0 \<le> s" "t + d \<le> pop" "0 \<le> pop"
  shows "0 \<le> t' \<and> 0 \<le> d' \<and> 0 \<le> s' \<and> t' + d' \<le> pop"
  using assms
proof (induction k v pop "(t, d, s)" arbitrary: t d s rule: psych_addon.induct)
  case (1 k v pop t d s)
  note ps = psych_addon.simps [of k v pop t d s]
  show ?case
  proof (cases "v \<ge> 2 * int k + 2 \<and> t < pop")
    case True
    obtain t1 d1 s1 where r: "psych_shrink pop (t + 1, d, s) = (t1, d1, s1)" by (metis prod_cases3)
    have "0 \<le> t1 \<and> 0 \<le> d1 \<and> 0 \<le> s1 \<and> t1 + d1 \<le> pop" by (rule psych_shrink_ok [OF r]) (use 1(3-) in auto)
    then show ?thesis using 1(1) [OF True r] 1(2) 1(7) ps True r by (simp split: if_splits)
  next
    case False
    then show ?thesis using 1(2-) ps by (auto split: if_splits)
  qed
qed

lemma rule_talents_nonneg:
  assumes "0 \<le> base_pop_size (Bases g i)" "0 \<le> mf_rule_talent (MFactions g (base_faction_id (Bases g i)))"
  shows "0 \<le> rule_talents g i"
  using assms by (auto simp: rule_talents_def Let_def sdiv_nonneg pos_imp_zdiv_nonneg_iff)

lemma psych_start_ok:
  assumes "citizens_ok (Bases g i)" "0 \<le> mf_rule_talent (MFactions g (base_faction_id (Bases g i)))"
  shows "mood_ok (Bases g i) (psych_start g i tal)"
proof -
  have "0 \<le> rule_talents g i" using assms by (intro rule_talents_nonneg) (auto simp: citizens_ok_def)
  then show ?thesis unfolding psych_start_def Let_def by (intro adjust_psych_ok assms(1)) auto
qed

lemma psych_energy_ok: "citizens_ok (Bases g i) \<Longrightarrow> mood_ok (Bases g i) m \<Longrightarrow> mood_ok (Bases g i) (psych_energy g (Bases g i) m)"
proof -
  assume c: "citizens_ok (Bases g i)" and m: "mood_ok (Bases g i) m"
  obtain t d s where tds: "m = (t, d, s)" by (metis prod_cases3)
  have a: "mood_ok (Bases g i) (adjust_psych (Bases g i) v False m)" for v
    using m c unfolding tds by (intro adjust_psych_ok) (auto simp: mood_ok_def)
  have "mood_ok (Bases g i) (psych_addon k v (base_pop_size (Bases g i) - base_specialist_total (Bases g i)) q)"
    if "mood_ok (Bases g i) q" for k v q
  proof -
    obtain t1 d1 s1 where q: "q = (t1, d1, s1)" by (metis prod_cases3)
    obtain t2 d2 s2 where r: "psych_addon k v (base_pop_size (Bases g i) - base_specialist_total (Bases g i)) (t1, d1, s1) = (t2, d2, s2)"
      by (metis prod_cases3)
    show ?thesis using psych_addon_ok [OF r] that c by (auto simp: q r mood_ok_def citizens_ok_def)
  qed
  then show ?thesis using a by (auto simp: psych_energy_def Let_def)
qed

lemma psych_later_ok:
  assumes "citizens_ok (Bases g i)" "mood_ok (Bases g i) m"
  shows "mood_ok (Bases g i) (psych_facilities g i m)" "mood_ok (Bases g i) (psych_police g i pol m)" "mood_ok (Bases g i) (psych_projects g i m)"
proof -
  obtain t d s where m: "m = (t, d, s)" by (metis prod_cases3)
  have n: "0 \<le> t" "0 \<le> s" using assms(2) by (auto simp: m mood_ok_def)
  note step = adjust_psych_ok [OF assms(1)]
  have again: "mood_ok (Bases g i) (adjust_psych (Bases g i) v f q)" if "mood_ok (Bases g i) q" for v f q
  proof -
    obtain t' d' s' where q: "q = (t', d', s')" by (metis prod_cases3)
    show ?thesis using that unfolding q by (intro step) (simp_all add: mood_ok_def)
  qed
  have "mood_ok (Bases g i) (adjust_psych (Bases g i) 0 False (if c then adjust_psych (Bases g i) v f (t, x, s) else (t, x, s)))" for c v f x
    using step [OF n] again by simp
  then show "mood_ok (Bases g i) (psych_facilities g i m)" unfolding psych_facilities_def m Let_def prod.case .
  show "mood_ok (Bases g i) (psych_police g i pol m)" unfolding psych_police_def m Let_def prod.case by (rule step [OF n])
  show "mood_ok (Bases g i) (psych_projects g i m)" unfolding psych_projects_def m Let_def prod.case
    by (split if_split, intro conjI impI step) (simp_all add: n)
qed

lemma mood_store:
  assumes "mood_ok (Bases g i) m0" "mood_ok (Bases g i) m1" "mood_ok (Bases g i) m2" "mood_ok (Bases g i) m3" "mood_ok (Bases g i) m4"
  defines "g' \<equiv> add_psych_row 4 m4 (add_psych_row 3 m3 (add_psych_row 2 m2 (add_psych_row 1 m1 (add_psych_row 0 m0
                   (upd_base i (put_mood m4) g)))))"
  shows "mood_ok (Bases g' i) (base_talent_total (Bases g' i), base_drone_total (Bases g' i), base_superdrone_total (Bases g' i))"
    "k \<in> {0, 1, 2, 3, 4} \<Longrightarrow> mood_ok (Bases g' i) (BasePsychTalents g' k, BasePsychNDrones g' k, BasePsychSDrones g' k)"
    "Bases g' i = put_mood (base_talent_total (Bases g' i), base_drone_total (Bases g' i), base_superdrone_total (Bases g' i)) (Bases g i)"
  using assms(1-5) unfolding g'_def
  by (cases m0; cases m1; cases m2; cases m3; cases m4; auto simp: upd_base_def add_psych_row_def put_mood_def mood_ok_def)+

text \<open>C15: The mood of a base is well formed: for every base with no more specialists than citizens and a faction whose talent
  rule is not negative, \<open>mod_base_psych\<close> returns counts of talents, drones and superdrones that are not negative, talents,
  drones and specialists together do not exceed the citizens, each of the five rows of the psych screen is as consistent,
  and nothing else of the base changes.\<close>

theorem base_psych_in_population:
  assumes "citizens_ok (Bases g i)" "0 \<le> mf_rule_talent (MFactions g (base_faction_id (Bases g i)))"
    and "base_specialist_total (Bases g i) < base_pop_size (Bases g i)"
  shows "let g' = mod_base_psych i tal pol g; b = Bases g' i
    in mood_ok b (base_talent_total b, base_drone_total b, base_superdrone_total b)
       \<and> (\<forall>k \<in> {0, 1, 2, 3, 4}. mood_ok b (BasePsychTalents g' k, BasePsychNDrones g' k, BasePsychSDrones g' k))
       \<and> b = put_mood (base_talent_total b, base_drone_total b, base_superdrone_total b) (Bases g i)"
proof -
  note ok = psych_later_ok [OF assms(1)] psych_energy_ok [OF assms(1)] psych_start_ok [OF assms(1,2)]
  let ?m0 = "psych_start g i tal" let ?m1 = "psych_energy g (Bases g i) ?m0" let ?m2 = "psych_facilities g i ?m1"
  let ?m3 = "psych_police g i pol ?m2" let ?m4 = "psych_projects g i ?m3"
  have m: "mood_ok (Bases g i) ?m0" "mood_ok (Bases g i) ?m1" "mood_ok (Bases g i) ?m2" "mood_ok (Bases g i) ?m3" "mood_ok (Bases g i) ?m4"
    by (intro ok)+
  have e: "mod_base_psych i tal pol g = add_psych_row 4 ?m4 (add_psych_row 3 ?m3 (add_psych_row 2 ?m2 (add_psych_row 1 ?m1
      (add_psych_row 0 ?m0 (upd_base i (put_mood ?m4) g)))))"
    using assms(3) by (simp add: mod_base_psych_def Let_def)
  show ?thesis unfolding Let_def e using mood_store [OF m] by blast
qed

lemma put_mood_fields [simp]:
  "base_pop_size (put_mood q b) = base_pop_size b" "base_specialist_total (put_mood q b) = base_specialist_total b"
  by (cases q; simp add: put_mood_def)+

lemma base_psych_in_population_witness:
  "let g = blank_game\<lparr>Bases := (\<lambda>_. blank_base\<lparr>base_pop_size := 4\<rparr>)\<rparr>; b = Bases (mod_base_psych 0 1 0 g) 0
    in base_talent_total b + base_drone_total b \<le> 4"
proof -
  let ?g = "blank_game\<lparr>Bases := (\<lambda>_. blank_base\<lparr>base_pop_size := 4\<rparr>)\<rparr>"
  let ?b = "Bases (mod_base_psych 0 1 0 ?g) 0"
  have g: "Bases ?g 0 = blank_base\<lparr>base_pop_size := 4\<rparr>" by simp
  have "citizens_ok (Bases ?g 0)" "0 \<le> mf_rule_talent (MFactions ?g (base_faction_id (Bases ?g 0)))"
    "base_specialist_total (Bases ?g 0) < base_pop_size (Bases ?g 0)"
    by (simp_all add: citizens_ok_def blank_game_def blank_base_def blank_mfaction_def)
  note r = base_psych_in_population [OF this, of 1 0, unfolded Let_def]
  then have b: "?b = put_mood (base_talent_total ?b, base_drone_total ?b, base_superdrone_total ?b) (Bases ?g 0)" by blast
  have "base_pop_size ?b = 4" "base_specialist_total ?b = 0" by (subst b, simp add: blank_base_def)+
  with r have "base_talent_total ?b + base_drone_total ?b \<le> 4" by (simp add: mood_ok_def)
  then show ?thesis by (simp only: Let_def)
qed

end
