(* ===== verification/Base_Output.thy ===== *)
theory Base_Output
  imports Base_Psych
begin

text \<open>
  Output of a base (base.cpp): units it supports, nutrients, minerals, damage to the ecology and energy.
\<close>

section \<open>Output of a base (base.cpp)\<close>

text \<open>
  The globals \<open>CurrentBase\<close> and \<open>CurrentBaseID\<close> name the base that is computed. \<open>set_base\<close> sets both, so that
  the functions here read the number only.
\<close>

definition set_base :: "int \<Rightarrow> game \<Rightarrow> game" where
  "set_base base_id g = g\<lparr>CurrentBaseID := base_id, CurrentBase := Some base_id\<rparr>"

definition cur_base :: "game \<Rightarrow> base" where
  "cur_base g = Bases g (CurrentBaseID g)"

definition upd_cur :: "(base \<Rightarrow> base) \<Rightarrow> game \<Rightarrow> game" where
  "upd_cur f g = upd_base (CurrentBaseID g) f g"

subsection \<open>Units the base supports\<close>

text \<open>Every unit that is looked at stands on the map; the code does not test its square.\<close>

definition veh_sq :: "game \<Rightarrow> veh \<Rightarrow> (tile \<Rightarrow> bool) \<Rightarrow> bool" where
  "veh_sq g v P = (case sq_at g (veh_x v) (veh_y v) of None \<Rightarrow> False | Some sq \<Rightarrow> P sq)"

definition convoy_step :: "square_fun \<Rightarrow> int \<Rightarrow> veh \<Rightarrow> game \<Rightarrow> game" where
  "convoy_step bonus_at base_id v g =
     (let type = veh_order_auto_type v; b = Bases g base_id
      in if VEH_is_supply g v \<and> veh_order v = ORDER_CONVOY
         then if veh_home_base_id v = base_id \<and> type \<le> RSC_UNUSED
              then if veh_sq g v MAP_is_base
                   then g\<lparr>BaseResourceConvoyFrom := (BaseResourceConvoyFrom g)(type := BaseResourceConvoyFrom g type + ConvoyBaseValue)\<rparr>
                   else (let (g, value) = resource_yield bonus_at g type (veh_faction_id v) base_id (veh_x v) (veh_y v)
                         in g\<lparr>BaseResourceConvoyTo := (BaseResourceConvoyTo g)(type := BaseResourceConvoyTo g type + value)\<rparr>)
              else if veh_x v = base_x b \<and> veh_y v = base_y b \<and> veh_home_base_id v \<ge> 0 \<and> type \<le> RSC_UNUSED
              then g\<lparr>BaseResourceConvoyTo := (BaseResourceConvoyTo g)(type := BaseResourceConvoyTo g type + ConvoyBaseValue)\<rparr>
              else g
         else g)"

text \<open>The minerals of one unit: the first few are free; in the statistics pass the table per level of support is filled.\<close>

definition support_step :: "int \<Rightarrow> int \<Rightarrow> game \<Rightarrow> game" where
  "support_step base_id i g =
     (let b = Bases g base_id; faction_id = base_faction_id b; f = Factions g faction_id; v = Vehs g i;
          support_val = unit_support_cost (f_SE_support_pending f);
          free = unit_support_free (f_SE_support_pending f) (base_pop_size b)
            + (if is_human g faction_id then 0 else conf_unit_support_bonus (conf g) (DiffLevel g))
      in if VEH_plan g v \<le> unit_support_plan g \<and> \<not> has_abil g (veh_unit_id v) ABL_CLEAN_REACTOR
         then let g = (if \<not> VEH_is_native_unit g v \<or> \<not> veh_sq g v MAP_is_fungus
                  then (let g = g\<lparr>BaseForcesSupported := BaseForcesSupported g + 1\<rparr>
                        in if BaseForcesSupported g > free
                           then upd_veh i (\<lambda>v. v\<lparr>veh_state := veh_state v OR VSTATE_REQUIRES_SUPPORT\<rparr>)
                                  (g\<lparr>BaseForcesMaintCount := BaseForcesMaintCount g + 1,
                                     BaseForcesMaintCost := BaseForcesMaintCost g + support_val\<rparr>)
                           else g)
                  else g)
              in if base_stats_upkeep g
                 then upd_faction faction_id (\<lambda>f. f\<lparr>f_social_support := (\<lambda>j.
                        if 0 \<le> j \<and> j < 8 \<and> BaseForcesSupported g > unit_support_free (j - 4) (base_pop_size b)
                        then f_social_support f j + unit_support_cost (j - 4) else f_social_support f j)\<rparr>) g
                 else g
         else g)"

definition pacifism_step :: "int \<Rightarrow> int \<Rightarrow> game \<Rightarrow> game" where
  "pacifism_step base_id i g =
     (let b = Bases g base_id; v = Vehs g i; SE_police = BASE_SE_police g b True
      in if VEH_offense_value g v \<noteq> 0
            \<and> ((\<not> veh_sq g v MAP_is_base \<and> fst (whose_territory g (base_faction_id b) (veh_x v) (veh_y v) False) \<noteq> base_faction_id b)
               \<or> (VEH_triad g v = TRIAD_AIR \<and> VEH_plan g v \<noteq> PLAN_AIR_SUPERIORITY))
         then let g = g\<lparr>BaseVehPacifismCount := BaseVehPacifismCount g + 1\<rparr>
              in if SE_police = - 3 \<and> BaseVehPacifismCount g = 1
                 then upd_veh i (\<lambda>v. v\<lparr>veh_state := veh_state v OR VSTATE_PACIFISM_FREE_SKIP\<rparr>) g
                 else if SE_police \<le> - 3
                 then upd_veh i (\<lambda>v. v\<lparr>veh_state := veh_state v OR VSTATE_PACIFISM_DRONE\<rparr>) g
                 else g
         else g)"

definition home_step :: "int \<Rightarrow> int \<Rightarrow> game \<Rightarrow> game" where
  "home_step base_id i g =
     (if veh_home_base_id (Vehs g i) = base_id
      then let g = upd_veh i (\<lambda>v. v\<lparr>veh_state := veh_state v
                 AND NOT (VSTATE_PACIFISM_FREE_SKIP OR VSTATE_PACIFISM_DRONE OR VSTATE_REQUIRES_SUPPORT)\<rparr>) g;
               v = Vehs g i; offense = VEH_offense_value g v;
               g = (if offense \<noteq> 0 \<and> (offense > 0 \<or> veh_unit_id v \<ge> MaxProtoFactionNum)
                       \<and> VEH_plan g v \<noteq> PLAN_RECON \<and> VEH_plan g v \<noteq> PLAN_PLANET_BUSTER
                    then upd_faction (base_faction_id (Bases g base_id)) (\<lambda>f. f\<lparr>f_unk_46 := f_unk_46 f + 1
                           + of_bool (VEH_plan g v = PLAN_OFFENSE \<or> VEH_plan g v = PLAN_COMBAT)\<rparr>) g
                    else g)
           in pacifism_step base_id i (support_step base_id i g)
      else g)"

definition mod_base_support :: "square_fun \<Rightarrow> game \<Rightarrow> game" where
  "mod_base_support bonus_at g =
     (let base_id = CurrentBaseID g;
          g = g\<lparr>BaseResourceConvoyTo := (\<lambda>k. if 0 \<le> k \<and> k < 4 then 0 else BaseResourceConvoyTo g k),
                BaseResourceConvoyFrom := (\<lambda>k. if 0 \<le> k \<and> k < 4 then 0 else BaseResourceConvoyFrom g k),
                BaseVehPacifismCount := 0, BaseForcesSupported := 0, BaseForcesMaintCost := 0, BaseForcesMaintCount := 0\<rparr>
      in fold (\<lambda>i g. if veh_faction_id (Vehs g i) = base_faction_id (Bases g base_id)
                     then home_step base_id i (convoy_step bonus_at base_id (Vehs g i) g) else g) [0..VehCount g - 1] g)"

subsection \<open>Nutrients\<close>

definition mod_base_nutrient :: "game \<Rightarrow> game" where
  "mod_base_nutrient g =
     (let b = cur_base g; faction_id = base_faction_id b;
          intake = base_nutrient_intake_2 b + BaseResourceConvoyTo g RSC_NUTRIENT;
          consumption = BaseResourceConvoyFrom g RSC_NUTRIENT + base_pop_size b * rule_nutrient_intake_req_citizen (Rules g);
          surplus = intake - consumption; acc = base_nutrients_accumulated b;
          acc = (if surplus \<ge> 0 then (if acc < 0 then 0 else acc) else if acc = 0 then - 1 else acc);
          g = g\<lparr>BaseGrowthRate := BASE_SE_growth g b True\<rparr>;
          g = upd_cur (\<lambda>b. b\<lparr>base_nutrient_intake_2 := intake, base_nutrient_consumption := consumption,
                base_nutrient_surplus := surplus, base_nutrients_accumulated := acc\<rparr>) g
      in if base_stats_upkeep g
         then upd_faction faction_id (\<lambda>f. f\<lparr>f_nutrient_surplus_total := f_nutrient_surplus_total f + clamp surplus 0 99\<rparr>) g
         else g)"

subsection \<open>Minerals and damage to the ecology\<close>

definition eco_reduction :: "game \<Rightarrow> int \<Rightarrow> int" where
  "eco_reduction g base_id =
     (let faction_id = base_faction_id (Bases g base_id);
          converter = (if conf_eco_damage_fix (conf g) \<noteq> 0 then has_facility g FAC_QUANTUM_CONVERTER base_id
            else has_fac_built g FAC_NANOREPLICATOR base_id \<or> has_project g FAC_SINGULARITY_INDUCTOR faction_id)
      in (if converter then 2 else 1) + of_bool (has_fac_built g FAC_CENTAURI_PRESERVE base_id)
         + of_bool (has_fac_built g FAC_TEMPLE_OF_PLANET base_id) + of_bool (has_project g FAC_PHOLUS_MUTAGEN faction_id))"

definition eco_damage :: "game \<Rightarrow> int \<Rightarrow> int \<Rightarrow> int" where
  "eco_damage g base_id mineral_intake_2 =
     (let b = Bases g base_id; faction_id = base_faction_id b; f = Factions g faction_id;
          e = base_eco_damage b sdiv 8;
          clean = conf_clean_minerals (conf g) + f_clean_minerals_modifier f;
          (e, clean) = (if e > 0 then (let m = min e clean in (e - m, clean - m)) else (e, clean));
          red = eco_reduction g base_id;
          e = e + (mineral_intake_2 - clean - clamp (f_satellites_mineral f) 0 (base_pop_size b)) sdiv red;
          e = (if is_human g faction_id
               then e + ((f_major_atrocities f + TectonicDetonationCount g faction_id) * 5)
                      sdiv (clamp (MapSeaLevel g) 0 100 sdiv clamp (WorldBuilder_sea_level_rises g) 1 100 + red)
               else e);
          e = (if e < 0 then 0 else e);
          e = (if voice_of_planet g \<and> GameRules g AND RULES_VICTORY_TRANSCENDENCE \<noteq> 0 then e * 2 else e);
          e = (if GameState g AND STATE_PERIHELION_ACTIVE \<noteq> 0 then e * 2 else e);
          diff = (if conf_eco_damage_fix (conf g) \<noteq> 0 \<or> is_human g faction_id
                  then (let d = f_diff_level f in if d = 0 then DIFF_TALENT else if d \<le> DIFF_LIBRARIAN then DIFF_LIBRARIAN else DIFF_TRANSCEND)
                  else clamp (6 - DiffLevel g) DIFF_SPECIALIST DIFF_LIBRARIAN);
          e = ((f_tech_ranking f - f_tech_count_transcendent f) * (3 - clamp (f_SE_planet_pending f) (- 3) 2)
               * (MapNativeLifeForms g + 1) * e * diff) sdiv 6
      in (e + 50) sdiv 100)"

definition mod_base_minerals :: "game \<Rightarrow> game" where
  "mod_base_minerals g =
     (let base_id = CurrentBaseID g; b = cur_base g; faction_id = base_faction_id b;
          intake = (base_mineral_intake_2 b * (mineral_output_modifier g base_id + 2)) sdiv 2 + BaseResourceConvoyTo g RSC_MINERAL;
          consumption = BaseForcesMaintCost g + BaseResourceConvoyFrom g RSC_MINERAL;
          surplus = intake - consumption; damage = eco_damage g base_id intake; item_id = base_queue_items b 0;
          orbital = (has_project g FAC_SPACE_ELEVATOR faction_id
            \<and> (item_id = - FAC_SKY_HYDRO_LAB \<or> item_id = - FAC_NESSUS_MINING_STATION \<or> item_id = - FAC_ORBITAL_POWER_TRANS
               \<or> item_id = - FAC_ORBITAL_DEFENSE_POD))
      in upd_cur (\<lambda>b. b\<lparr>base_mineral_intake_2 := (if orbital then intake * 2 else intake), base_mineral_consumption := consumption,
           base_mineral_surplus := (if orbital then intake * 2 - consumption else surplus), base_mineral_inefficiency := 0,
           base_mineral_surplus_final := surplus, base_eco_damage := damage\<rparr>) g)"

subsection \<open>Energy\<close>

definition commerce_with :: "game \<Rightarrow> int \<Rightarrow> int \<Rightarrow> int \<times> int" where
  "commerce_with g base_id i =
     (let b = Bases g base_id; faction_id = base_faction_id b; f = Factions g faction_id;
          their_rank = base_rank g i (own_base_rank g base_id)
      in if i \<noteq> faction_id \<and> \<not> is_alien g faction_id \<and> \<not> is_alien g i \<and> f_sanction_turns f = 0
            \<and> f_sanction_turns (Factions g i) = 0 \<and> f_base_count (Factions g i) \<noteq> 0
            \<and> has_treaty g faction_id i DIPLO_TREATY \<noteq> 0 \<and> their_rank \<ge> 0
         then let tech_count = TechCommerceCount g + 1;
                  base_value = (base_energy_intake b + base_energy_intake (Bases g their_rank) + 7) sdiv 8;
                  base_value = (if global_trade_pact g then base_value * 2 else base_value);
                  imp = (tech_count sdiv 2 + base_value * (f_tech_commerce_bonus f + 1)) sdiv tech_count;
                  ex = (tech_count sdiv 2 + base_value * (f_tech_commerce_bonus (Factions g i) + 1)) sdiv tech_count;
                  (imp, ex) = (if has_pact g faction_id i then (imp, ex) else (imp sdiv 2, ex sdiv 2))
              in (imp + of_bool (GovernorFaction g = faction_id), ex + of_bool (GovernorFaction g = i))
         else (0, 0))"

text \<open>The energy that is left is divided by the rates of the faction: psych first, then economy, and labs get the rest.\<close>

definition split_energy :: "faction \<Rightarrow> int \<Rightarrow> int \<times> int \<times> int \<times> int" where
  "split_energy f total_energy =
     (let psych = max 0 (min ((total_energy * f_SE_alloc_psych f + 4) sdiv 10) total_energy);
          econ = max 0 (min (total_energy - psych) ((total_energy * (10 - f_SE_alloc_labs f - f_SE_alloc_psych f) + 4) sdiv 10));
          unk = max 0 (min (total_energy - psych) ((total_energy * (9 - f_SE_alloc_labs f - f_SE_alloc_psych f) + 4) sdiv 10))
      in (psych, econ, unk, total_energy - psych - econ))"

definition current_specialist :: "game \<Rightarrow> base \<Rightarrow> int \<Rightarrow> int" where
  "current_specialist g b i =
     (let citizen_id = (if i < MaxBaseSpecNum then clamp (BASE_specialist_type b i) 0 (MaxSpecialistNum - 1)
            else pick_specialist g b 1 1 2);
          f = base_faction_id b; c = Citizen g citizen_id
      in if has_tech g (ccit_obsol_tech c) f
         then (case List.find (\<lambda>j. has_tech g (ccit_preq_tech (Citizen g j)) f \<and> \<not> has_tech g (ccit_obsol_tech (Citizen g j)) f
                  \<and> ccit_econ_bonus (Citizen g j) \<ge> ccit_econ_bonus c \<and> ccit_psych_bonus (Citizen g j) \<ge> ccit_psych_bonus c
                  \<and> ccit_labs_bonus (Citizen g j) \<ge> ccit_labs_bonus c) [0..MaxSpecialistNum - 1] of
              Some j \<Rightarrow> j | None \<Rightarrow> citizen_id)
         else citizen_id)"

definition add_specialist :: "game \<Rightarrow> int \<Rightarrow> base \<Rightarrow> base" where
  "add_specialist g i b =
     (let citizen_id = current_specialist g b i; c = Citizen g citizen_id; b = BASE_set_specialist_type i citizen_id b
      in b\<lparr>base_economy_total := base_economy_total b + ccit_econ_bonus c, base_psych_total := base_psych_total b + ccit_psych_bonus c,
           base_labs_total := base_labs_total b + ccit_labs_bonus c\<rparr>)"

text \<open>Multipliers in quarters: for labs, economy and psych.\<close>

definition energy_coeffs :: "game \<Rightarrow> int \<Rightarrow> int \<times> int \<times> int" where
  "energy_coeffs g base_id =
     (let has = (\<lambda>fac. of_bool (has_fac_built g fac base_id)); faction_id = base_faction_id (Bases g base_id)
      in (4 + 2 * has FAC_NETWORK_NODE + 2 * has FAC_RESEARCH_HOSPITAL + 2 * has FAC_NANOHOSPITAL + 2 * has FAC_FUSION_LAB
            + 2 * has FAC_QUANTUM_LAB,
          4 + 2 * of_bool (has_facility g FAC_ENERGY_BANK base_id) + 2 * has FAC_TREE_FARM + 2 * has FAC_HYBRID_FOREST
            + 2 * has FAC_FUSION_LAB + 2 * has FAC_QUANTUM_LAB,
          4 + 2 * of_bool (has_fac_built g FAC_HOLOGRAM_THEATRE base_id
                \<or> (has_project g FAC_VIRTUAL_WORLD faction_id \<and> has_fac_built g FAC_NETWORK_NODE base_id))
            + has FAC_RESEARCH_HOSPITAL + has FAC_NANOHOSPITAL + 2 * has FAC_TREE_FARM + 2 * has FAC_HYBRID_FOREST))"

definition project_energy :: "game \<Rightarrow> int \<Rightarrow> int \<Rightarrow> int \<times> int \<Rightarrow> int \<times> int" where
  "project_energy g base_id trade = (\<lambda>(labs, econ).
     let faction_id = base_faction_id (Bases g base_id); built = (\<lambda>p. project_base g p = base_id);
         labs = (if built FAC_SUPERCOLLIDER then labs * 2 else labs);
         labs = (if built FAC_THEORY_OF_EVERYTHING then labs * 2 else labs);
         econ = (if built FAC_SPACE_ELEVATOR then econ * 2 else econ);
         econ = (if built FAC_LONGEVITY_VACCINE \<and> f_SE_Economics_pending (Factions g faction_id) = SOCIAL_M_FREE_MARKET
                 then econ + econ sdiv 2 else econ);
         labs = (if built FAC_NETWORK_BACKBONE
                 then labs + int (length (filter (has_fac_built g FAC_NETWORK_NODE) [0..BaseCount g - 1])) + trade else labs)
     in (labs, econ))"

definition slider_penalty :: "faction \<Rightarrow> int \<times> int \<Rightarrow> int \<times> int" where
  "slider_penalty f = (\<lambda>(labs, econ).
     let alloc_labs = f_SE_alloc_labs f; alloc_psych = f_SE_alloc_psych f; effic_val = 4 - clamp (f_SE_effic_pending f) (- 4) 4;
         psych_val = (if 2 * alloc_labs + alloc_psych - 10 < 0 then (2 * (5 - alloc_labs) - alloc_psych) sdiv 2
                      else (2 * alloc_labs + alloc_psych - 10) sdiv 2);
         penalty = psych_val * effic_val * 2;
         reduce = (\<lambda>v p. (v * (100 - p) + 50) sdiv 100)
     in if psych_val \<noteq> 0 \<and> effic_val \<noteq> 0
        then if 2 * alloc_labs + alloc_psych \<le> 10
             then (reduce labs (clamp (2 * penalty) 0 80), reduce econ (clamp penalty 0 40))
             else (reduce labs (clamp penalty 0 40), reduce econ (clamp (2 * penalty) 0 80))
        else (labs, econ))"

text \<open>In the statistics pass the mood is computed at every level of talent and police.\<close>

definition psych_score :: "base \<Rightarrow> int" where
  "psych_score b =
     (let score = base_talent_total b - base_drone_total b
      in if score > 0
         then (if base_drone_total b \<noteq> 0 \<or> 2 * base_talent_total b < base_pop_size b then score sdiv 2 else score)
         else if score < 0
         then (let score = score - base_pop_size b in if base_pop_size b < 6 then score * 2 else score)
         else 0)"

definition psych_stats :: "int \<Rightarrow> game \<Rightarrow> game" where
  "psych_stats base_id g =
     fold (\<lambda>(tal, pol) g.
       let g = mod_base_psych base_id (tal - 3) (pol - 5) g; score = psych_score (Bases g base_id)
       in upd_faction (base_faction_id (Bases g base_id)) (\<lambda>f. f\<lparr>f_social_psych := (f_social_psych f)(tal :=
            (f_social_psych f tal)(pol := f_social_psych f tal pol + score))\<rparr>) g)
     (concat (map (\<lambda>tal. map (Pair tal) [0..8]) [0..7])) g"

definition energy_psych :: "(game \<Rightarrow> game) \<Rightarrow> int \<Rightarrow> game \<Rightarrow> game" where
  "energy_psych base_psych base_id g =
     (if conf_base_psych (conf g) = 0
      then (let prev = BaseUpkeepState g; g = base_psych (g\<lparr>BaseUpkeepState := of_bool (base_stats_upkeep g)\<rparr>)
            in g\<lparr>BaseUpkeepState := prev\<rparr>)
      else let g = (if base_stats_upkeep g then psych_stats base_id g else g); b = Bases g base_id
           in mod_base_psych base_id (f_SE_talent_pending (Factions g (base_faction_id b))) (BASE_SE_police g b True) g)"

text \<open>What the base takes in, loses and keeps: the imports, exports and the state with the totals before the multipliers.\<close>

definition energy_intake :: "game \<Rightarrow> game \<times> int" where
  "energy_intake g =
     (let base_id = CurrentBaseID g; b = cur_base g; faction_id = base_faction_id b; f = Factions g faction_id;
          trade = commerce_with g base_id;
          commerce = sum_list (map (fst \<circ> trade) [1..MaxPlayerNum - 1]);
          grid = (if f_sanction_turns f = 0 \<and> is_alien g faction_id then energy_grid_output g base_id else 0);
          intake = base_energy_intake_2 b + BaseResourceConvoyTo g RSC_ENERGY + commerce + grid;
          consumption = BaseResourceConvoyFrom g RSC_ENERGY;
          g = g\<lparr>BaseCommerceImport := (\<lambda>i. if 1 \<le> i \<and> i < MaxPlayerNum then fst (trade i) else BaseCommerceImport g i),
                BaseCommerceExport := (\<lambda>i. if 1 \<le> i \<and> i < MaxPlayerNum then snd (trade i) else BaseCommerceExport g i)\<rparr>;
          (g, lost) = mod_black_market g base_id (intake - consumption);
          surplus = intake - consumption - lost;
          g = upd_cur (\<lambda>b. b\<lparr>base_energy_intake_2 := intake, base_energy_consumption := consumption,
                base_energy_inefficiency := lost, base_energy_surplus := surplus\<rparr>) g;
          g = (if base_stats_upkeep g
               then upd_faction faction_id (\<lambda>f. f\<lparr>f_energy_surplus_total := f_energy_surplus_total f + clamp surplus 0 99999\<rparr>) g else g)
      in (g, if is_alien g faction_id then grid else commerce))"

definition mod_base_energy :: "(game \<Rightarrow> game) \<Rightarrow> game \<Rightarrow> game" where
  "mod_base_energy base_psych g =
     (let base_id = CurrentBaseID g; (g, trade) = energy_intake g; b = cur_base g; faction_id = base_faction_id b;
          f = Factions g faction_id;
          (psych, econ, unk, labs) = split_energy f (clamp (base_energy_surplus b) 0 9999);
          b = b\<lparr>base_psych_total := psych, base_economy_total := econ, base_unk_total := unk, base_labs_total := labs\<rparr>;
          b = fold (add_specialist g) [0..base_specialist_total b - 1] b;
          (c_labs, c_econ, c_psych) = energy_coeffs g base_id;
          labs = base_labs_total b
            + (if has_fac_built g FAC_BIOLOGY_LAB base_id then conf_biology_lab_bonus (conf g) else 0);
          labs = (c_labs * labs + 3) sdiv 4; econ = (c_econ * base_economy_total b + 3) sdiv 4;
          (labs, econ) = slider_penalty f (project_energy g base_id trade (labs, econ));
          b = b\<lparr>base_labs_total := labs, base_economy_total := econ, base_psych_total := (c_psych * base_psych_total b + 3) sdiv 4,
                base_unk_total := (c_econ * base_unk_total b + 3) sdiv 4\<rparr>
      in energy_psych base_psych base_id (upd_cur (\<lambda>_. b) g))"

text \<open>A base short of energy recalls the crawlers that carry energy to other bases.\<close>

definition mod_base_energy_costs :: "game \<Rightarrow> game" where
  "mod_base_energy_costs g =
     (case CurrentBase g of None \<Rightarrow> g
      | Some cur \<Rightarrow>
         if base_energy_surplus (Bases g cur) < 0
         then fold (\<lambda>i g. let v = Vehs g i
                in if veh_faction_id v = base_faction_id (Bases g cur) \<and> VEH_plan g v = PLAN_SUPPLY \<and> veh_order v = ORDER_CONVOY
                      \<and> veh_order_auto_type v = RSC_ENERGY \<and> veh_sq g v MAP_is_base
                   then upd_veh i (\<lambda>v. v\<lparr>veh_order := ORDER_NONE\<rparr>) g else g) [0..VehCount g - 1] g
         else g)"

end
