(* ===== verification/Goals.thy ===== *)
theory Goals
  imports MapGrid
begin

section \<open>Goals of the computer players (goal.cpp)\<close>

text \<open>
  Each faction has 75 goal slots and 25 site slots. A slot with a negative type is free. \<open>add_goal\<close>
  raises the priority of an equal goal, or takes the best slot among those that are free or of lower
  priority: a free slot first, otherwise the one of the lowest positive priority. Types and priorities
  are stored in 16 bits.
\<close>

subsection \<open>Operations\<close>

definition ignore_goal :: "int \<Rightarrow> bool" where
  "ignore_goal type \<longleftrightarrow> type = AI_GOAL_COLONIZE \<or> type = AI_GOAL_TERRAFORM_LAND
     \<or> type = AI_GOAL_TERRAFORM_WATER \<or> type = AI_GOAL_CONDENSER \<or> type = AI_GOAL_THERMAL_BOREHOLE
     \<or> type = AI_GOAL_ECHELON_MIRROR \<or> type = AI_GOAL_SENSOR_ARRAY \<or> type = AI_GOAL_DEFEND"

definition set_goal :: "int \<Rightarrow> int \<Rightarrow> (goal \<Rightarrow> goal) \<Rightarrow> game \<Rightarrow> game" where
  "set_goal faction_id i h = upd_faction faction_id (\<lambda>f. f\<lparr>f_goals := (f_goals f)(i := h (f_goals f i))\<rparr>)"

definition set_site :: "int \<Rightarrow> int \<Rightarrow> (goal \<Rightarrow> goal) \<Rightarrow> game \<Rightarrow> game" where
  "set_site faction_id i h = upd_faction faction_id (\<lambda>f. f\<lparr>f_sites := (f_sites f)(i := h (f_sites f i))\<rparr>)"

definition same_goal :: "goal \<Rightarrow> int \<Rightarrow> int \<Rightarrow> int \<Rightarrow> bool" where
  "same_goal goal type x y \<longleftrightarrow> goal_x goal = x \<and> goal_y goal = y \<and> goal_type goal = type"

text \<open>The value of a slot to \<open>add_goal\<close>, \<open>None\<close> when the slot may not be taken.\<close>

definition goal_slot_value :: "goal \<Rightarrow> int \<Rightarrow> int option" where
  "goal_slot_value goal priority =
     (if goal_type goal < 0 \<or> goal_priority goal < priority
      then let value = (if goal_type goal \<ge> 0 then 0 else 1000)
        in Some (if value = 0 then (if goal_priority goal > 0 then 20 - goal_priority goal else goal_priority goal + 100)
                 else value)
      else None)"

definition site_slot_value :: "goal \<Rightarrow> int \<Rightarrow> int option" where
  "site_slot_value site priority =
     (if goal_type site < 0 \<or> goal_priority site < priority
      then Some (if goal_type site \<ge> 0 then 20 - goal_priority site else 1000) else None)"

definition pick_slot :: "(int \<Rightarrow> int option) \<Rightarrow> int list \<Rightarrow> int \<times> int" where
  "pick_slot value slots = fold (\<lambda>i (best_value, goal_id).
      (case value i of Some v \<Rightarrow> if v > best_value then (v, i) else (best_value, goal_id)
       | None \<Rightarrow> (best_value, goal_id))) slots (0, - 1)"

definition add_goal :: "int \<Rightarrow> int \<Rightarrow> int \<Rightarrow> int \<Rightarrow> int \<Rightarrow> int \<Rightarrow> game \<Rightarrow> game" where
  "add_goal faction_id type priority x y base_id g =
     (if thinker_enabled g faction_id \<and> type < Thinker_Goal_ID_First then g
      else if mapsq g x y = None then g
      else let goals = f_goals (Factions g faction_id) in
        (case List.find (\<lambda>i. same_goal (goals i) type x y) [0..MaxGoalsNum - 1] of
           Some i \<Rightarrow> set_goal faction_id i
             (\<lambda>goal. goal\<lparr>goal_priority := max (goal_priority goal) (s16 priority)\<rparr>) g
         | None \<Rightarrow>
             let goal_id = snd (pick_slot (\<lambda>i. goal_slot_value (goals i) priority) [0..MaxGoalsNum - 1])
             in if goal_id \<ge> 0
                then set_goal faction_id goal_id (\<lambda>_. \<lparr>goal_type = s16 type, goal_priority = s16 priority,
                       goal_x = x, goal_y = y, goal_base_id = base_id\<rparr>) g
                else g))"

definition add_site :: "int \<Rightarrow> int \<Rightarrow> int \<Rightarrow> int \<Rightarrow> int \<Rightarrow> game \<Rightarrow> game" where
  "add_site faction_id type priority x y g =
     (if thinker_enabled g faction_id then g
      else if mapsq g x y = None then g
      else let sites = f_sites (Factions g faction_id) in
        (case List.find (\<lambda>i. same_goal (sites i) type x y) [0..MaxSitesNum - 1] of
           Some i \<Rightarrow> set_site faction_id i
             (\<lambda>site. site\<lparr>goal_priority := max (goal_priority site) (s16 priority)\<rparr>) g
         | None \<Rightarrow>
             let site_id = snd (pick_slot (\<lambda>i. site_slot_value (sites i) priority) [0..MaxSitesNum - 1])
             in if site_id \<ge> 0
                then add_goal faction_id type priority x y (- 1)
                  (set_site faction_id site_id (\<lambda>site. site\<lparr>goal_type := s16 type, goal_priority := s16 priority,
                       goal_x := x, goal_y := y\<rparr>) g)
                else g))"

definition decay_goal :: "goal \<Rightarrow> goal" where
  "decay_goal goal =
     (let goal = (if goal_priority goal > 0 then goal\<lparr>goal_priority := goal_priority goal - 1\<rparr> else goal)
      in if goal_priority goal \<le> 0 then goal\<lparr>goal_type := AI_GOAL_UNUSED\<rparr> else goal)"

definition readd_site :: "int \<Rightarrow> int \<Rightarrow> game \<Rightarrow> game" where
  "readd_site faction_id i g = (let site = f_sites (Factions g faction_id) i
     in if goal_type site \<ge> 0
        then add_goal faction_id (goal_type site) (goal_priority site) (goal_x site) (goal_y site) (- 1) g
        else g)"

definition wipe_goals :: "int \<Rightarrow> game \<Rightarrow> game" where
  "wipe_goals faction_id g =
     fold (readd_site faction_id) [0..MaxSitesNum - 1]
       (fold (\<lambda>i. set_goal faction_id i decay_goal) [0..MaxGoalsNum - 1] g)"

definition cleared_goal :: "goal" where
  "cleared_goal = \<lparr>goal_type = - 1, goal_priority = 0, goal_x = 0, goal_y = 0, goal_base_id = 0\<rparr>"

definition clear_goals :: "int \<Rightarrow> game \<Rightarrow> game" where
  "clear_goals faction_id g =
     fold (\<lambda>i. set_site faction_id i (\<lambda>_. cleared_goal)) [0..MaxSitesNum - 1]
       (fold (\<lambda>i. set_goal faction_id i (\<lambda>_. cleared_goal)) [0..MaxGoalsNum - 1] g)"

definition del_site_slot :: "int \<Rightarrow> int \<Rightarrow> int \<Rightarrow> int \<Rightarrow> int \<Rightarrow> int \<Rightarrow> game \<Rightarrow> game" where
  "del_site_slot faction_id type x y max_dist i g = (let site = f_sites (Factions g faction_id) i
     in if goal_type site = type \<and> vector_dist g x y (goal_x site) (goal_y site) \<le> max_dist
        then fold (\<lambda>j. set_goal faction_id j (\<lambda>goal.
               if same_goal goal type (goal_x site) (goal_y site) then goal\<lparr>goal_type := AI_GOAL_UNUSED\<rparr> else goal))
             [0..MaxGoalsNum - 1]
             (set_site faction_id i (\<lambda>s. s\<lparr>goal_type := AI_GOAL_UNUSED, goal_priority := 0\<rparr>) g)
        else g)"

definition del_site :: "int \<Rightarrow> int \<Rightarrow> int \<Rightarrow> int \<Rightarrow> int \<Rightarrow> game \<Rightarrow> game" where
  "del_site faction_id type x y max_dist g =
     fold (del_site_slot faction_id type x y max_dist) [0..MaxSitesNum - 1] g"

definition has_goal :: "game \<Rightarrow> int \<Rightarrow> int \<Rightarrow> int \<Rightarrow> int \<Rightarrow> int" where
  "has_goal g faction_id type x y = (let goals = f_goals (Factions g faction_id) in
     (case List.find (\<lambda>i. goal_priority (goals i) > 0 \<and> same_goal (goals i) type x y) [0..MaxGoalsNum - 1] of
        Some i \<Rightarrow> goal_priority (goals i) | None \<Rightarrow> 0))"

text \<open>The goal found is returned as its slot, \<open>None\<close> for the NULL pointer.\<close>

definition better_goal :: "game \<Rightarrow> (int \<Rightarrow> goal) \<Rightarrow> int \<Rightarrow> int \<Rightarrow> int option \<times> int \<times> int \<times> int \<Rightarrow>
    int option \<times> int \<times> int \<times> int" where
  "better_goal g goals type i = (\<lambda>(value, pp, px, py). (let goal = goals i in
     if goal_type goal = type \<and> goal_priority goal > pp \<and> mapsq g (goal_x goal) (goal_y goal) \<noteq> None
     then (Some i, goal_priority goal, goal_x goal, goal_y goal) else (value, pp, px, py)))"

definition find_priority_goal :: "game \<Rightarrow> int \<Rightarrow> int \<Rightarrow> int option \<times> int \<times> int" where
  "find_priority_goal g faction_id type =
     (let (value, pp, px, py) = fold (better_goal g (f_goals (Factions g faction_id)) type)
            [0..MaxGoalsNum - 1] (None, 0, - 1, - 1)
      in (value, px, py))"

subsection \<open>Slots\<close>

lemma pick_slot_fold:
  assumes "fold (\<lambda>i (best_value, goal_id).
      (case value i of Some v \<Rightarrow> if v > best_value then (v, i) else (best_value, goal_id)
       | None \<Rightarrow> (best_value, goal_id))) xs (b0, i0) = (b, i :: int)"
  shows "b0 \<le> (b :: int) \<and> (\<forall>j \<in> set xs. \<forall>v. value j = Some v \<longrightarrow> v \<le> b)
    \<and> ((i = i0 \<and> b = b0) \<or> (i \<in> set xs \<and> value i = Some b \<and> b0 < b))"
  using assms
proof (induction xs arbitrary: b0 i0)
  case (Cons x xs)
  show ?case
  proof (cases "value x")
    case None
    with Cons.prems Cons.IH [of b0 i0] show ?thesis by auto
  next
    case (Some v)
    with Cons.prems Cons.IH [of b0 i0] Cons.IH [of v x] show ?thesis
      by (cases "v > b0") auto
  qed
qed simp

lemma pick_slot_result:
  assumes "pick_slot value xs = (b, i)" "- 1 \<notin> set xs"
  shows "(i = - 1 \<longrightarrow> (\<forall>j \<in> set xs. \<forall>v. value j = Some v \<longrightarrow> v \<le> 0))
    \<and> (i \<noteq> - 1 \<longrightarrow> i \<in> set xs \<and> value i = Some b \<and> 0 < b \<and> (\<forall>j \<in> set xs. \<forall>v. value j = Some v \<longrightarrow> v \<le> b))"
  using pick_slot_fold [OF assms(1) [unfolded pick_slot_def]] assms(2) by auto

lemma goals_set_goal [simp]:
  "f_goals (Factions (set_goal f i h g) f') = (if f' = f then (f_goals (Factions g f))(i := h (f_goals (Factions g f) i))
     else f_goals (Factions g f'))"
  "f_sites (Factions (set_goal f i h g) f') = f_sites (Factions g f')"
  by (auto simp: set_goal_def)

lemma goals_set_site [simp]:
  "f_sites (Factions (set_site f i h g) f') = (if f' = f then (f_sites (Factions g f))(i := h (f_sites (Factions g f) i))
     else f_sites (Factions g f'))"
  "f_goals (Factions (set_site f i h g) f') = f_goals (Factions g f')"
  by (auto simp: set_site_def)

lemma map_set_goal [simp]:
  "mapsq (set_goal f i h g) = mapsq g" "mapsq (set_site f i h g) = mapsq g"
  "thinker_enabled (set_goal f i h g) = thinker_enabled g" "thinker_enabled (set_site f i h g) = thinker_enabled g"
  "vector_dist (set_goal f i h g) = vector_dist g" "vector_dist (set_site f i h g) = vector_dist g"
  by (simp_all add: mapsq_def set_goal_def set_site_def fun_eq_iff thinker_enabled_def is_human_def vector_dist_def
      map_is_flat_def Let_def)

lemma fold_set_goal:
  "distinct xs \<Longrightarrow> f_goals (Factions (fold (\<lambda>i. set_goal f i h) xs g) f')
     = (if f' = f then (\<lambda>i. if i \<in> set xs then h (f_goals (Factions g f) i) else f_goals (Factions g f) i)
        else f_goals (Factions g f'))"
  "f_sites (Factions (fold (\<lambda>i. set_goal f i h) xs g) f') = f_sites (Factions g f')"
  by (induction xs arbitrary: g) (auto simp: fun_eq_iff)

lemma fold_set_site:
  "distinct xs \<Longrightarrow> f_sites (Factions (fold (\<lambda>i. set_site f i h) xs g) f')
     = (if f' = f then (\<lambda>i. if i \<in> set xs then h (f_sites (Factions g f) i) else f_sites (Factions g f) i)
        else f_sites (Factions g f'))"
  "f_goals (Factions (fold (\<lambda>i. set_site f i h) xs g) f') = f_goals (Factions g f')"
  by (induction xs arbitrary: g) (auto simp: fun_eq_iff)

lemma fold_map_frame [simp]:
  "mapsq (fold (\<lambda>i. set_goal f i h) xs g) = mapsq g" "mapsq (fold (\<lambda>i. set_site f i h) xs g) = mapsq g"
  "thinker_enabled (fold (\<lambda>i. set_goal f i h) xs g) = thinker_enabled g"
  "thinker_enabled (fold (\<lambda>i. set_site f i h) xs g) = thinker_enabled g"
  by (induction xs arbitrary: g) auto

subsection \<open>The table invariant\<close>

text \<open>Used slots hold different goals, all on squares of the map.\<close>

definition goal_table_ok :: "(int \<Rightarrow> int \<Rightarrow> int option) \<Rightarrow> (int \<Rightarrow> goal) \<Rightarrow> bool" where
  "goal_table_ok sq goals \<longleftrightarrow>
     (\<forall>i \<in> {0..<MaxGoalsNum}. goal_type (goals i) \<ge> 0 \<longrightarrow> sq (goal_x (goals i)) (goal_y (goals i)) \<noteq> None)
   \<and> (\<forall>i \<in> {0..<MaxGoalsNum}. \<forall>j \<in> {0..<MaxGoalsNum}. i \<noteq> j \<and> goal_type (goals i) \<ge> 0
        \<longrightarrow> \<not> same_goal (goals j) (goal_type (goals i)) (goal_x (goals i)) (goal_y (goals i)))"

definition goals_ok :: "game \<Rightarrow> int \<Rightarrow> bool" where
  "goals_ok g f \<longleftrightarrow> goal_table_ok (mapsq g) (f_goals (Factions g f))"

lemma goal_table_weaken:
  assumes "goal_table_ok sq goals"
    and "\<And>i. goal_x (goals' i) = goal_x (goals i) \<and> goal_y (goals' i) = goal_y (goals i)
       \<and> (goal_type (goals' i) = goal_type (goals i) \<or> goal_type (goals' i) = - 1)"
  shows "goal_table_ok sq goals'"
  using assms unfolding goal_table_ok_def same_goal_def by (metis neg_0_le_iff_le not_one_le_zero)

lemma goal_table_insert:
  assumes "goal_table_ok sq goals" "sq x y \<noteq> None"
    and "\<forall>i \<in> {0..<MaxGoalsNum}. \<not> same_goal (goals i) t x y" "goal_type new = t" "goal_x new = x" "goal_y new = y"
  shows "goal_table_ok sq (goals(k := new))"
  using assms unfolding goal_table_ok_def same_goal_def by auto

lemma find_goal_None: "List.find P [0..n - 1] = None \<longleftrightarrow> (\<forall>i \<in> {0..<n}. \<not> P (i :: int))"
  by (auto simp: find_None_iff)

lemma find_goal_Some: "List.find P [0..n - 1] = Some i \<Longrightarrow> 0 \<le> (i :: int) \<and> i < n \<and> P i"
  by (auto simp: find_Some_iff dest!: nth_mem)

lemma add_goal_ok:
  assumes "goals_ok g f" "s16 t = t"
  shows "goals_ok (add_goal f t p x y b g) f \<and> mapsq (add_goal f t p x y b g) = mapsq g
    \<and> f_sites (Factions (add_goal f t p x y b g) f') = f_sites (Factions g f')"
proof -
  let ?G = "f_goals (Factions g f)"
  have up: "goal_table_ok (mapsq g) (?G(i := (?G i)\<lparr>goal_priority := v\<rparr>))" for i v
    using assms(1) unfolding goals_ok_def by (rule goal_table_weaken) simp
  have ins: "goal_table_ok (mapsq g) (?G(k := \<lparr>goal_type = s16 t, goal_priority = v, goal_x = x, goal_y = y, goal_base_id = b\<rparr>))"
    if "mapsq g x y \<noteq> None" "List.find (\<lambda>i. same_goal (?G i) t x y) [0..MaxGoalsNum - 1] = None" for k v
    using assms(1) that unfolding goals_ok_def find_goal_None
    by (intro goal_table_insert [where t = t and x = x and y = y]) (simp_all add: assms(2))
  show ?thesis
    using up ins assms(1) by (auto simp: add_goal_def Let_def goals_ok_def split: option.splits)
qed

lemma readd_sites_ok:
  assumes "goals_ok g f" "\<forall>i \<in> set xs. s16 (goal_type (f_sites (Factions g f) i)) = goal_type (f_sites (Factions g f) i)"
  shows "goals_ok (fold (readd_site f) xs g) f"
  using assms
proof (induction xs arbitrary: g)
  case (Cons i xs)
  have "goals_ok (readd_site f i g) f \<and> f_sites (Factions (readd_site f i g) f) = f_sites (Factions g f)"
    using Cons.prems add_goal_ok [OF Cons.prems(1), of "goal_type (f_sites (Factions g f) i)"]
    by (simp add: readd_site_def Let_def)
  then show ?case using Cons by simp
qed simp

lemma wipe_goals_ok:
  assumes "goals_ok g f" "\<And>i. 0 \<le> i \<Longrightarrow> i < MaxSitesNum \<Longrightarrow> s16 (goal_type (f_sites (Factions g f) i)) = goal_type (f_sites (Factions g f) i)"
  shows "goals_ok (wipe_goals f g) f"
proof -
  let ?d = "fold (\<lambda>i. set_goal f i decay_goal) [0..MaxGoalsNum - 1] g"
  have "goals_ok ?d f"
    using goal_table_weaken [OF assms(1) [unfolded goals_ok_def], of "f_goals (Factions ?d f)"]
    by (simp add: goals_ok_def fold_set_goal decay_goal_def Let_def)
  moreover have "f_sites (Factions ?d f) = f_sites (Factions g f)" by (simp add: fold_set_goal)
  ultimately show ?thesis unfolding wipe_goals_def using assms(2) by (intro readd_sites_ok) auto
qed

lemma has_goal_unique:
  assumes "goals_ok g f" "0 \<le> k" "k < MaxGoalsNum" "same_goal (f_goals (Factions g f) k) t x y" "0 \<le> t"
    and "0 < goal_priority (f_goals (Factions g f) k)"
  shows "has_goal g f t x y = goal_priority (f_goals (Factions g f) k)"
proof -
  let ?G = "f_goals (Factions g f)"
  let ?P = "\<lambda>i. goal_priority (?G i) > 0 \<and> same_goal (?G i) t x y"
  obtain i where i: "List.find ?P [0..MaxGoalsNum - 1] = Some i"
    using find_goal_None [of ?P MaxGoalsNum] assms by (cases "List.find ?P [0..MaxGoalsNum - 1]") auto
  have "0 \<le> i \<and> i < MaxGoalsNum \<and> ?P i" using find_goal_Some [OF i] .
  then have "i = k" using assms unfolding goals_ok_def goal_table_ok_def same_goal_def by (metis atLeastLessThan_iff)
  with i show ?thesis by (simp add: has_goal_def)
qed

lemma add_goal_stored:
  assumes "goals_ok g f" "\<not> (thinker_enabled g f \<and> t < Thinker_Goal_ID_First)" "mapsq g x y \<noteq> None"
    and "s16 t = t" "s16 p = p" "0 < p" "0 \<le> t" "0 \<le> k" "k < MaxGoalsNum" "goal_type (f_goals (Factions g f) k) < 0"
  shows "p \<le> has_goal (add_goal f t p x y b g) f t x y"
proof -
  let ?G = "f_goals (Factions g f)" and ?g = "add_goal f t p x y b g"
  have ok: "goals_ok ?g f" using add_goal_ok [OF assms(1,4)] by blast
  have "\<exists>i. 0 \<le> i \<and> i < MaxGoalsNum \<and> same_goal (f_goals (Factions ?g f) i) t x y \<and> p \<le> goal_priority (f_goals (Factions ?g f) i)"
  proof (cases "List.find (\<lambda>i. same_goal (?G i) t x y) [0..MaxGoalsNum - 1]")
    case (Some i)
    moreover have "?g = set_goal f i (\<lambda>goal. goal\<lparr>goal_priority := max (goal_priority goal) (s16 p)\<rparr>) g"
      using assms(2,3) Some unfolding add_goal_def Let_def by auto
    ultimately show ?thesis using find_goal_Some [OF Some] assms(5) by (intro exI [of _ i]) (simp add: same_goal_def)
  next
    case None
    let ?vl = "\<lambda>i. goal_slot_value (?G i) p"
    obtain v i where vi: "pick_slot ?vl [0..MaxGoalsNum - 1] = (v, i)" by fastforce
    have "?vl k = Some 1000" using assms(10) by (simp add: goal_slot_value_def)
    then have i: "0 \<le> i" "i < MaxGoalsNum" using pick_slot_result [OF vi] assms(8,9) by force+
    have "?g = set_goal f i (\<lambda>_. \<lparr>goal_type = s16 t, goal_priority = s16 p, goal_x = x, goal_y = y, goal_base_id = b\<rparr>) g"
      using assms(2,3) None vi i unfolding add_goal_def Let_def by auto
    then show ?thesis using i assms(4,5) by (intro exI [of _ i]) (simp add: same_goal_def)
  qed
  then obtain i where i: "0 \<le> i" "i < MaxGoalsNum" "same_goal (f_goals (Factions ?g f) i) t x y"
    "p \<le> goal_priority (f_goals (Factions ?g f) i)" by blast
  then show ?thesis using has_goal_unique [OF ok i(1-3) assms(7)] assms(6) by simp
qed

lemma del_site_ok:
  assumes "goals_ok g f"
  shows "goals_ok (del_site f t x y d g) f"
proof -
  have mark: "goals_ok (fold (\<lambda>j. set_goal f j (\<lambda>goal. if same_goal goal t u v then goal\<lparr>goal_type := AI_GOAL_UNUSED\<rparr> else goal))
      [0..MaxGoalsNum - 1] h) f" if "goals_ok h f" for h u v
    using goal_table_weaken [OF that [unfolded goals_ok_def]] by (simp add: goals_ok_def fold_set_goal)
  have site: "goals_ok (set_site f i s h) f" if "goals_ok h f" for h i s
    using that by (simp add: goals_ok_def)
  have "goals_ok (del_site_slot f t x y d i h) f" if "goals_ok h f" for h i
    using that mark site by (simp add: del_site_slot_def Let_def)
  then have "goals_ok (fold (del_site_slot f t x y d) xs h) f" if "goals_ok h f" for h xs
    using that by (induction xs arbitrary: h) simp_all
  then show ?thesis using assms unfolding del_site_def by blast
qed

lemma clear_goals_ok: "goals_ok (clear_goals f g) f"
  by (auto simp: goals_ok_def clear_goals_def fold_set_goal fold_set_site goal_table_ok_def cleared_goal_def)

lemma find_priority_fold:
  assumes "fold (better_goal g goals t) xs (v0, p0, x0, y0) = (v, p, x, y)"
  shows "p0 \<le> p \<and> (\<forall>i \<in> set xs. goal_type (goals i) = t \<and> mapsq g (goal_x (goals i)) (goal_y (goals i)) \<noteq> None
        \<longrightarrow> goal_priority (goals i) \<le> p)
    \<and> ((v, p, x, y) = (v0, p0, x0, y0) \<or> (\<exists>i \<in> set xs. v = Some i \<and> p = goal_priority (goals i) \<and> p0 < p
        \<and> x = goal_x (goals i) \<and> y = goal_y (goals i) \<and> goal_type (goals i) = t \<and> mapsq g x y \<noteq> None))"
  using assms
proof (induction xs arbitrary: v0 p0 x0 y0)
  case (Cons i xs)
  let ?c = "goal_type (goals i) = t \<and> goal_priority (goals i) > p0 \<and> mapsq g (goal_x (goals i)) (goal_y (goals i)) \<noteq> None"
  show ?case
  proof (cases ?c)
    case True
    with Cons.prems Cons.IH [of "Some i" "goal_priority (goals i)" "goal_x (goals i)" "goal_y (goals i)"]
    show ?thesis by (auto simp: better_goal_def Let_def)
  next
    case False
    with Cons.prems Cons.IH [of v0 p0 x0 y0] show ?thesis by (auto simp: better_goal_def Let_def)
  qed
qed simp

subsection \<open>Properties\<close>

text \<open>C35: The goal table never holds the same goal twice and every goal in use lies on the map: adding a goal, the
  turn's decay, the removal of sites and the reset all keep this, for goal types that fit the 16-bit field.\<close>

theorem goal_table_invariant:
  assumes "goals_ok g f" "s16 t = t"
    and "\<And>i. 0 \<le> i \<Longrightarrow> i < MaxSitesNum \<Longrightarrow> s16 (goal_type (f_sites (Factions g f) i)) = goal_type (f_sites (Factions g f) i)"
  shows "goals_ok (add_goal f t p x y b g) f \<and> goals_ok (wipe_goals f g) f
    \<and> goals_ok (del_site f t x y d g) f \<and> goals_ok (clear_goals f g) f"
  using add_goal_ok [OF assms(1,2)] wipe_goals_ok [OF assms(1,3)] del_site_ok [OF assms(1)] clear_goals_ok by blast

lemma goal_table_invariant_witness: "goals_ok (wipe_goals 3 (clear_goals 3 blank_game)) 3"
proof -
  have "s16 (goal_type (f_sites (Factions (clear_goals 3 blank_game) 3) i)) = goal_type (f_sites (Factions (clear_goals 3 blank_game) 3) i)"
    if "0 \<le> i" "i < MaxSitesNum" for i
    using that by (simp add: clear_goals_def fold_set_site cleared_goal_def s16_def)
  with goal_table_invariant [OF clear_goals_ok, of 5] show ?thesis by (simp add: s16_def)
qed

text \<open>A goal that is added is found: on a map square, with a positive 16-bit priority and a free slot,
  \<open>has_goal\<close> reports at least the priority that was asked for.\<close>

theorem add_goal_found:
  assumes "goals_ok g f" "\<not> (thinker_enabled g f \<and> t < Thinker_Goal_ID_First)" "mapsq g x y \<noteq> None"
    and "s16 t = t" "s16 p = p" "0 < p" "0 \<le> t" "0 \<le> k" "k < MaxGoalsNum" "goal_type (f_goals (Factions g f) k) < 0"
  shows "p \<le> has_goal (add_goal f t p x y b g) f t x y"
  using add_goal_stored [OF assms] .

lemma add_goal_found_witness:
  "3 \<le> has_goal (add_goal 2 AI_GOAL_RAISE_LAND 3 4 2 (- 1) (clear_goals 2 (blank_game\<lparr>MapAreaX := 16, MapAreaY := 8\<rparr>))) 2 AI_GOAL_RAISE_LAND 4 2"
proof -
  let ?g = "clear_goals 2 (blank_game\<lparr>MapAreaX := 16, MapAreaY := 8\<rparr>)"
  have m: "mapsq ?g 4 2 \<noteq> None" unfolding clear_goals_def fold_map_frame by (simp add: mapsq_def)
  have k: "goal_type (f_goals (Factions ?g 2) 0) < 0" by (simp add: clear_goals_def fold_set_goal fold_set_site cleared_goal_def)
  show ?thesis
    using add_goal_found [OF clear_goals_ok _ m _ _ _ _ _ _ k, of AI_GOAL_RAISE_LAND 3 "- 1"] by (simp add: s16_def)
qed

text \<open>\<open>find_priority_goal\<close> returns a goal of the type with the highest priority among those on the map, and the NULL
  pointer with the point (-1, -1) exactly when none of them has a positive priority.\<close>

theorem find_priority_goal_max:
  "case find_priority_goal g f t of (v, x, y) \<Rightarrow>
     let goals = f_goals (Factions g f); ok = (\<lambda>i. 0 \<le> i \<and> i < MaxGoalsNum \<and> goal_type (goals i) = t
           \<and> mapsq g (goal_x (goals i)) (goal_y (goals i)) \<noteq> None)
     in (case v of
          None \<Rightarrow> x = - 1 \<and> y = - 1 \<and> (\<forall>i. ok i \<longrightarrow> goal_priority (goals i) \<le> 0)
        | Some k \<Rightarrow> ok k \<and> 0 < goal_priority (goals k) \<and> x = goal_x (goals k) \<and> y = goal_y (goals k)
            \<and> (\<forall>i. ok i \<longrightarrow> goal_priority (goals i) \<le> goal_priority (goals k)))"
proof -
  obtain v p x y where r: "fold (better_goal g (f_goals (Factions g f)) t) [0..MaxGoalsNum - 1] (None, 0, - 1, - 1)
      = (v, p, x, y)"
    by (metis prod_cases4)
  then have e: "find_priority_goal g f t = (v, x, y)" by (simp add: find_priority_goal_def)
  from find_priority_fold [OF r] show ?thesis
    by (elim conjE disjE bexE) (simp_all add: e Let_def)
qed

theorem find_priority_goal_max_witness:
  "let g = upd_faction 1 (\<lambda>f. f\<lparr>f_goals := (\<lambda>i. \<lparr>goal_type = 3, goal_priority = i, goal_x = 2, goal_y = 2, goal_base_id = 0\<rparr>)\<rparr>)
       (blank_game\<lparr>MapAreaX := 16, MapAreaY := 8\<rparr>)
   in fst (find_priority_goal g 1 3) = Some (MaxGoalsNum - 1)"
proof -
  let ?g = "upd_faction 1 (\<lambda>f. f\<lparr>f_goals := (\<lambda>i. \<lparr>goal_type = 3, goal_priority = i, goal_x = 2, goal_y = 2, goal_base_id = 0\<rparr>)\<rparr>)
       (blank_game\<lparr>MapAreaX := 16, MapAreaY := 8\<rparr>)"
  have m: "mapsq ?g 2 2 \<noteq> None" by (simp add: mapsq_def)
  obtain v x y where e: "find_priority_goal ?g 1 3 = (v, x, y)" by (metis prod_cases3)
  have "v = Some (MaxGoalsNum - 1)"
    using find_priority_goal_max [of ?g 1 3] m unfolding e Let_def
    by (auto simp: split: option.splits dest!: spec [of _ "MaxGoalsNum - 1"])
  then show ?thesis by (simp add: e)
qed

end
