(* ===== verification/Base_Workers.thy ===== *)
theory Base_Workers
  imports Base_Output Goals
begin

text \<open>
  The computation of a base (base.cpp): the squares it may work, the allocation of its workers, the plans that avoid
  riots, and the proof that citizens, specialists and squares agree afterwards.
\<close>

section \<open>Allocation of workers (base.cpp)\<close>

text \<open>A workable square with its yields (\<open>TileValue\<close> of engine.h).\<close>

record tile_value =
  tv_x :: int
  tv_y :: int
  tv_i :: nat
  tv_nutrient :: int
  tv_mineral :: int
  tv_energy :: int

subsection \<open>The squares of the base\<close>

text \<open>
  Squares other bases work. The statistics pass and the visibility of the base window belong to the engine and the user
  interface: the supply pods of the engine's \<open>goody_at\<close> and \<open>win_visible\<close> are parameters.
\<close>

definition reserved_points :: "game \<Rightarrow> int \<Rightarrow> (int \<times> int) list" where
  "reserved_points g base_id =
     (let base = Bases g base_id
      in concat (map (\<lambda>k. let b = Bases g k
           in if base_id = k \<or> map_range g (base_x base) (base_y base) (base_x b) (base_y b) > 4 then []
              else map (\<lambda>(x, y, i, m). (x, y)) (filter (\<lambda>(x, y, i, m). let owner = sq_owner (MapTiles g m)
                in bit (base_worked_tiles b) i
                   \<and> (owner < 0 \<or> owner = base_faction_id b \<or> fst (whose_territory g (base_faction_id b) x y False) < 0))
                (iterate_tiles g (base_x b) (base_y b) 1 21))) [0..BaseCount g - 1]))"

definition convoy_or_stranger :: "game \<Rightarrow> int \<Rightarrow> int \<Rightarrow> int \<Rightarrow> bool" where
  "convoy_or_stranger g faction_id x y \<longleftrightarrow>
     list_ex (\<lambda>i. let v = Vehs g i
       in veh_x v = x \<and> veh_y v = y
          \<and> (veh_order v = ORDER_CONVOY
             \<or> (veh_faction_id v \<noteq> faction_id \<and> VEH_is_visible v faction_id
                \<and> has_treaty g faction_id (veh_faction_id v) (DIPLO_TREATY OR DIPLO_PACT) = 0))) [0..VehCount g - 1]"

definition tile_flags :: "(int \<times> int) list \<Rightarrow> int \<Rightarrow> nat \<Rightarrow> int \<times> int \<times> int option \<Rightarrow> game \<Rightarrow> (game \<times> u32) option" where
  "tile_flags reserved base_id i = (\<lambda>(x, y, m) g.
     let faction_id = base_faction_id (Bases g base_id);
         has_map = (f_player_flags (Factions g faction_id) AND PFLAG_MAP_REVEALED \<noteq> 0)
     in if i = 0 then Some (g, BR_BASE_IN_TILE)
        else if i \<ge> 21 then Some (g, BR_NOT_AVAILABLE)
        else case m of
            None \<Rightarrow> Some (g, BR_NOT_VISIBLE)
          | Some k \<Rightarrow>
              let sq = MapTiles g k
              in if \<not> has_map \<and> \<not> MAP_is_visible sq faction_id then Some (g, BR_NOT_VISIBLE)
                 else do {
                   let flags = (if MAP_is_base sq then BR_BASE_IN_TILE else 0);
                   (g, veh_id) \<leftarrow> veh_at g x y;
                   (g, top) \<leftarrow> stack_fix veh_id g;
                   let flags = (if top \<ge> 0 \<and> convoy_or_stranger g faction_id x y then flags OR BR_VEH_IN_TILE else flags);
                   Some (g, if sq_owner sq \<ge> 0 \<and> faction_id \<noteq> fst (whose_territory g faction_id x y False)
                            then flags OR BR_FOREIGN_TILE
                            else if (x, y) \<in> set reserved then flags OR BR_WORKER_ACTIVE else flags)
                 })"

definition add_tile :: "square_fun \<Rightarrow> int \<Rightarrow> nat \<Rightarrow> int \<Rightarrow> int \<Rightarrow> game \<Rightarrow> game \<times> tile_value" where
  "add_tile bonus_at base_id i x y g =
     (let faction_id = base_faction_id (Bases g base_id);
          (g, n) = mod_crop_yield bonus_at g faction_id base_id x y False;
          (g, m) = mod_mine_yield bonus_at g faction_id base_id x y False;
          (g, e) = mod_energy_yield bonus_at g faction_id base_id x y False
      in (g, \<lparr>tv_x = x, tv_y = y, tv_i = i, tv_nutrient = n, tv_mineral = m, tv_energy = e\<rparr>))"

text \<open>A supply pod near a base becomes a goal of the engine's AI.\<close>

definition mark_pod :: "square_fun \<Rightarrow> int \<Rightarrow> int \<Rightarrow> int \<Rightarrow> game \<Rightarrow> game" where
  "mark_pod goody_at faction_id x y g =
     (if \<not> is_ocean g x y \<and> base_stats_upkeep g \<and> conf_factions_enabled (conf g) = 0 \<and> goody_at g x y \<noteq> 0
      then add_goal faction_id AI_GOAL_ATTACK 1 x y (- 1) (add_goal faction_id AI_GOAL_DEFEND 1 x y (- 1)
             (add_goal faction_id AI_GOAL_SCOUT 1 x y (- 1) g)) else g)"

text \<open>One square of \<open>base_radius\<close>: the flags, the mask of the squares that are taken and the list of workable squares.\<close>

definition radius_step :: "square_fun \<Rightarrow> square_fun \<Rightarrow> (int \<times> int) list \<Rightarrow> int \<Rightarrow> nat \<Rightarrow>
    game \<times> u32 \<times> tile_value list \<Rightarrow> (game \<times> u32 \<times> tile_value list) option" where
  "radius_step bonus_at goody_at reserved base_id i = (\<lambda>(g, used, tiles). do {
     let base = Bases g base_id;
     let (x, y, m) = next_tile g (base_x base) (base_y base) i;
     (g, flags) \<leftarrow> tile_flags reserved base_id i (x, y, m) g;
     let g = g\<lparr>BaseTileFlags := (BaseTileFlags g)(int i := flags)\<rparr>;
     Some (if i < 21
       then let used = (if flags \<noteq> 0 then set_bit i used else used);
                (g, tiles) = (if m \<noteq> None \<and> (i = 0 \<or> flags = 0)
                  then map_prod id (\<lambda>t. tiles @ [t]) (add_tile bonus_at base_id i x y g) else (g, tiles))
            in (if m \<noteq> None then mark_pod goody_at (base_faction_id base) x y g else g, used, tiles)
       else (g, used, tiles))
   })"

definition base_radius :: "square_fun \<Rightarrow> square_fun \<Rightarrow> int \<Rightarrow> game \<Rightarrow> (game \<times> u32 \<times> tile_value list) option" where
  "base_radius bonus_at goody_at base_id g =
     fold (\<lambda>i r. Option.bind r (radius_step bonus_at goody_at (reserved_points g base_id) base_id i)) [0..<25] (Some (g, 0, []))"

subsection \<open>Choosing squares for workers\<close>

definition base_update :: "tile_value list \<Rightarrow> base \<Rightarrow> base" where
  "base_update tiles b =
     (let worked = filter (\<lambda>m. bit (base_worked_tiles b) (tv_i m)) tiles;
          n = base_nutrient_intake b + sum_list (map tv_nutrient worked);
          m = base_mineral_intake b + sum_list (map tv_mineral worked);
          e = base_energy_intake b + sum_list (map tv_energy worked)
      in b\<lparr>base_nutrient_intake := n, base_mineral_intake := m, base_energy_intake := e, base_nutrient_intake_2 := n,
           base_mineral_intake_2 := m, base_energy_intake_2 := e, base_unused_intake_2 := base_unused_intake b\<rparr>)"

definition base_alloc_score :: "base \<Rightarrow> int" where
  "base_alloc_score b = min 4 (base_nutrient_surplus b) + (if base_nutrient_surplus b \<ge> 0 then 10 else 0)
     + (if base_mineral_surplus b \<ge> 0 then 50 else 0) + 4 * base_mineral_surplus b + base_economy_total b + base_labs_total b"

text \<open>What the scores depend on besides the squares.\<close>

record alloc_env =
  ae_pop_size :: int
  ae_can_grow :: bool
  ae_can_riot :: bool
  ae_effic_val :: int
  ae_alloc_psych :: int
  ae_threshold :: int
  ae_Wmineral :: int
  ae_Wenergy :: int
  ae_spc :: ccitizen
  ae_min_specialists :: int
  ae_maint_cost :: int
  ae_specialist_total :: int

text \<open>Workers so far: the mask of worked squares, the surplus of the three resources, and the choices in order.\<close>

record alloc =
  al_worked :: u32
  al_N :: int
  al_M :: int
  al_E :: int
  al_choices :: "tile_value list"

definition tile_score :: "alloc_env \<Rightarrow> alloc \<Rightarrow> tile_value \<Rightarrow> int" where
  "tile_score e a m =
     (let N = al_N a; M = al_M a;
          energy_val = (if ae_can_riot e \<and> ae_effic_val e \<ge> 12 \<and> ae_alloc_psych e > 0
            \<and> (al_E a * ae_alloc_psych e + 4) sdiv 10 < 2 then 6 else 4);
          nutrient_val = (if ae_can_grow e
            then max (4 + 4 * of_bool (N < 0) + 4 * of_bool (N < ae_threshold e)
                      + (if ae_pop_size e = 1 \<and> N \<le> 0 \<and> M > 0 then 6 else 0)
                      + max 0 (5 - ae_pop_size e) - max 0 (N - 1) sdiv 4) 2
            else if N < 0 then 8 else 2);
          score = tv_nutrient m * nutrient_val + tv_mineral m * (5 + 5 * of_bool (M < 0) + 4 * of_bool (M < 2))
            + ((tv_energy m * ae_effic_val e + 15) sdiv 16) * energy_val
      in 32 * score - int (tv_i m))"

definition best_tile :: "alloc_env \<Rightarrow> alloc \<Rightarrow> tile_value list \<Rightarrow> tile_value option" where
  "best_tile e a tiles =
     fst (fold (\<lambda>m (choice, best_score).
        if \<not> bit (al_worked a) (tv_i m) \<and> tile_score e a m > best_score then (Some m, tile_score e a m) else (choice, best_score))
        tiles (None, 0))"

definition prefer_specialist :: "alloc_env \<Rightarrow> alloc \<Rightarrow> int \<Rightarrow> tile_value \<Rightarrow> bool" where
  "prefer_specialist e a workers m \<longleftrightarrow>
     (let spc = ae_spc e;
          Wnutrient = 1 + of_bool (ae_can_grow e \<or> al_N a < 0 \<or> al_M a < 2) + of_bool (ae_pop_size e < ae_min_specialists e + 2)
      in 2 * (ccit_labs_bonus spc + ccit_econ_bonus spc) + (if ae_can_riot e then 2 else 1) * ccit_psych_bonus spc
           > Wnutrient * tv_nutrient m + ae_Wmineral e * tv_mineral m + ae_Wenergy e * tv_energy m
         \<and> al_N a \<ge> (if ae_can_grow e then ae_threshold e else 0) \<and> al_M a \<ge> 2
         \<and> (al_M a + ae_maint_cost e \<ge> (ae_pop_size e * ae_Wmineral e + 5) sdiv 2
            \<or> (ae_Wmineral e < 5 \<and> ae_specialist_total e + workers < ae_pop_size e sdiv 2
               \<and> tv_nutrient m + tv_mineral m + tv_energy m \<le> 2)))"

definition add_worker :: "tile_value \<Rightarrow> alloc \<Rightarrow> alloc" where
  "add_worker m a = a\<lparr>al_worked := set_bit (tv_i m) (al_worked a), al_N := al_N a + tv_nutrient m, al_M := al_M a + tv_mineral m,
     al_E := al_E a + tv_energy m, al_choices := al_choices a @ [m]\<rparr>"

text \<open>The main loop; it returns the workers that are left.\<close>

primrec allocate :: "nat \<Rightarrow> alloc_env \<Rightarrow> tile_value list \<Rightarrow> alloc \<Rightarrow> alloc \<times> nat" where
  "allocate 0 e tiles a = (a, 0)"
| "allocate (Suc workers) e tiles a =
     (case best_tile e a tiles of
        None \<Rightarrow> (a, Suc workers)
      | Some m \<Rightarrow> if prefer_specialist e a (int (Suc workers)) m then (a, Suc workers)
                  else allocate workers e tiles (add_worker m a))"

subsection \<open>Avoiding riots\<close>

definition drop_worker :: "tile_value \<Rightarrow> base \<Rightarrow> base" where
  "drop_worker m b = b\<lparr>base_worked_tiles := unset_bit (tv_i m) (base_worked_tiles b),
     base_specialist_total := base_specialist_total b + 1, base_specialist_adjust := base_specialist_adjust b + 1\<rparr>"

definition try_plan :: "(game \<Rightarrow> game) \<Rightarrow> int \<Rightarrow> tile_value list \<Rightarrow> base \<Rightarrow> game \<Rightarrow> game" where
  "try_plan base_psych base_id choices initial g =
     mod_base_energy base_psych (mod_base_minerals (mod_base_nutrient (upd_base base_id (\<lambda>_. base_update choices initial) g)))"

text \<open>Workers become specialists, the last one chosen first, until the base no longer riots.\<close>

function gov_loop :: "(game \<Rightarrow> game) \<Rightarrow> int \<Rightarrow> tile_value list \<Rightarrow> base \<Rightarrow> int \<Rightarrow> game \<Rightarrow> base \<times> int \<times> game" where
  "gov_loop base_psych base_id choices initial score g =
     (if length choices \<le> 1 then (initial, score, g)
      else let g = try_plan base_psych base_id choices initial g; b = Bases g base_id; score = base_alloc_score b
           in if base_talent_total b + of_bool (delay_base_riot g) \<ge> base_drone_total b
                 \<or> base_mineral_surplus b - tv_mineral (last choices) < 0
              then (initial, score, g)
              else gov_loop base_psych base_id (butlast choices) (drop_worker (last choices) initial) score g)"
  by pat_completeness auto
termination
  by (relation "measure (\<lambda>(base_psych, base_id, choices, initial, score, g). length choices)") auto

declare gov_loop.simps [simp del]

definition all_specialists :: "int \<Rightarrow> base \<Rightarrow> base" where
  "all_specialists citizen_id b = fold (\<lambda>i. BASE_set_specialist_type i citizen_id) [0..MaxBaseSpecNum - 1] b"

text \<open>With the preferred specialists first, and with the ones for psych when the governor may change them.\<close>

definition settle_riots :: "(game \<Rightarrow> game) \<Rightarrow> int \<Rightarrow> tile_value list \<Rightarrow> int option \<Rightarrow> base \<Rightarrow> game \<Rightarrow> base \<times> game" where
  "settle_riots base_psych base_id choices psych_spc b g =
     (let (b1, score1, g) = gov_loop base_psych base_id choices b 0 g
      in case psych_spc of
           None \<Rightarrow> (b1, g)
         | Some spc \<Rightarrow>
             (let (b2, score2, g) = gov_loop base_psych base_id choices (all_specialists spc b) 0 g
              in (if score2 > score1 then b2 else b1, g)))"

subsection \<open>The whole computation\<close>

text \<open>The 24 fields from \<open>nutrient_intake\<close> to \<open>unk_total\<close> are zeroed at once.\<close>

definition clear_intake :: "base \<Rightarrow> base" where
  "clear_intake b = b\<lparr>base_nutrient_intake := 0, base_mineral_intake := 0, base_energy_intake := 0, base_unused_intake := 0,
     base_nutrient_intake_2 := 0, base_mineral_intake_2 := 0, base_energy_intake_2 := 0, base_unused_intake_2 := 0,
     base_nutrient_surplus := 0, base_mineral_surplus := 0, base_energy_surplus := 0, base_unused_surplus := 0,
     base_nutrient_inefficiency := 0, base_mineral_inefficiency := 0, base_energy_inefficiency := 0, base_unused_inefficiency := 0,
     base_nutrient_consumption := 0, base_mineral_consumption := 0, base_energy_consumption := 0, base_unused_consumption := 0,
     base_economy_total := 0, base_psych_total := 0, base_labs_total := 0, base_unk_total := 0\<rparr>"

definition gov_manages :: "game \<Rightarrow> bool \<Rightarrow> int \<Rightarrow> bool" where
  "gov_manages g win_visible base_id \<longleftrightarrow>
     (let b = Bases g base_id; gov = BASE_gov_config g b; is_visible = (base_id = BaseUpkeepDrawID g \<and> win_visible)
      in base_worked_tiles b = 0
         \<or> (gov AND GOV_ACTIVE \<noteq> 0 \<and> gov AND GOV_MANAGE_CITIZENS \<noteq> 0
            \<and> \<not> (is_visible \<and> GameState g AND STATE_SCENARIO_EDITOR \<noteq> 0 \<and> GameState g AND STATE_OMNISCIENT_VIEW \<noteq> 0)))"

definition clear_base :: "u32 \<Rightarrow> int \<times> int \<times> int \<Rightarrow> base \<Rightarrow> base" where
  "clear_base reserved = (\<lambda>(Ns, Ms, Es) b. (clear_intake
     (b\<lparr>base_worked_tiles := base_worked_tiles b AND (NOT reserved OR 1),
        base_state_flags := base_state_flags b AND NOT BSTATE_UNK_8000\<rparr>))\<lparr>base_nutrient_intake := Ns, base_mineral_intake := Ms,
        base_energy_intake := Es\<rparr>)"

text \<open>The values of economy, labs and psych for the choice of specialists.\<close>

definition specialist_values :: "game \<Rightarrow> int \<Rightarrow> int \<times> int \<times> int" where
  "specialist_values g base_id =
     (let b = Bases g base_id; f = Factions g (base_faction_id b);
          can_riot = base_can_riot g base_id True;
          need_labs = (GameRules g AND RULES_SCN_NO_TECH_ADVANCES = 0 \<and> \<not> has_fac_built g FAC_PUNISHMENT_SPHERE base_id);
          pacifism = (can_riot \<and> BASE_SE_police g b True \<le> - 3 \<and> BaseVehPacifismCount g > 0);
          alloc_econ = 10 - f_SE_alloc_labs f - f_SE_alloc_psych f
      in (4 + of_bool (alloc_econ > f_SE_alloc_labs f),
          2 + 2 * of_bool (need_labs \<and> f_SE_alloc_labs f > 0) + of_bool (alloc_econ \<le> f_SE_alloc_labs f),
          2 + 2 * of_bool can_riot + 4 * of_bool pacifism))"

definition mineral_weight :: "game \<Rightarrow> base \<Rightarrow> int" where
  "mineral_weight g b =
     (let gov = BASE_gov_config g b
      in if is_human g (base_faction_id b)
         then (let w = 3 + of_bool (gov AND GOV_PRIORITY_BUILD \<noteq> 0) + of_bool (gov AND GOV_PRIORITY_CONQUER \<noteq> 0) in w + of_bool (w = 5))
         else if base_defend_range b > 0 then 3 + of_bool (base_defend_goal b > 2) + max 0 (2 - base_defend_range b sdiv 16)
         else 3)"

definition fix_specialists :: "game \<Rightarrow> bool \<Rightarrow> int \<Rightarrow> base \<Rightarrow> base" where
  "fix_specialists g manage_workers best_spc b =
     fold (\<lambda>i b. let c = Citizen g (BASE_specialist_type b i); f = base_faction_id b
        in if manage_workers \<or> has_tech g (ccit_obsol_tech c) f \<or> \<not> has_tech g (ccit_preq_tech c) f
              \<or> (ccit_psych_bonus c < 2 \<and> base_pop_size b < rule_min_base_size_specialists (Rules g))
           then BASE_set_specialist_type i best_spc b else b) [0..MaxBaseSpecNum - 1] b"

text \<open>The workers of the base: all of them are placed anew when the governor manages them or when there are too many.\<close>

definition place_workers :: "bool \<Rightarrow> int \<Rightarrow> alloc_env \<Rightarrow> int \<times> int \<times> int \<Rightarrow> tile_value list \<Rightarrow> base \<Rightarrow> base \<times> tile_value list" where
  "place_workers manage_workers missing e = (\<lambda>(N, M, E) tiles b.
     let anew = (missing < 0 \<or> manage_workers);
         workers = (if anew then base_pop_size b else missing);
         b = (if anew then b\<lparr>base_worked_tiles := 1, base_specialist_total := 0\<rparr> else b);
         worked = filter (\<lambda>m. bit (base_worked_tiles b) (tv_i m)) tiles;
         (a, left) = allocate (nat workers) (e\<lparr>ae_specialist_total := base_specialist_total b\<rparr>) tiles
           \<lparr>al_worked = base_worked_tiles b, al_N = N + sum_list (map tv_nutrient worked), al_M = M + sum_list (map tv_mineral worked),
            al_E = E + sum_list (map tv_energy worked), al_choices = [hd tiles]\<rparr>
     in (b\<lparr>base_worked_tiles := al_worked a,
           base_specialist_total := base_specialist_total b + (if workers > 0 then int left else workers),
           base_specialist_adjust := 0\<rparr>, al_choices a))"

definition settle_citizens :: "(game \<Rightarrow> game) \<Rightarrow> int \<Rightarrow> bool \<Rightarrow> bool \<Rightarrow> int \<Rightarrow> alloc_env \<Rightarrow> int \<times> int \<times> int \<Rightarrow> tile_value list \<Rightarrow>
    int option \<Rightarrow> base \<Rightarrow> game \<Rightarrow> base \<times> game" where
  "settle_citizens base_psych base_id can_riot manage_workers missing e surplus tiles psych_spc b g =
     (if missing \<noteq> 0 \<or> manage_workers
      then (let (b, choices) = place_workers manage_workers missing e surplus tiles b
            in if can_riot then settle_riots base_psych base_id choices psych_spc b g else (b, g))
      else (b, g))"

definition base_env :: "game \<Rightarrow> int \<Rightarrow> int \<Rightarrow> int \<Rightarrow> alloc_env" where
  "base_env g base_id effic_val best_spc =
     (let b = Bases g base_id
      in \<lparr>ae_pop_size = base_pop_size b, ae_can_grow = (base_unused_space g base_id > 0), ae_can_riot = base_can_riot g base_id True,
          ae_effic_val = effic_val, ae_alloc_psych = f_SE_alloc_psych (Factions g (base_faction_id b)),
          ae_threshold = rule_nutrient_intake_req_citizen (Rules g) * (if base_pop_boom g base_id then 1 else 2),
          ae_Wmineral = mineral_weight g b, ae_Wenergy = 1 + of_bool (effic_val \<ge> 6), ae_spc = Citizen g best_spc,
          ae_min_specialists = rule_min_base_size_specialists (Rules g), ae_maint_cost = BaseForcesMaintCost g,
          ae_specialist_total = base_specialist_total b\<rparr>)"

text \<open>Everything after the squares are known; \<open>base_id\<close> is the current base and \<open>tiles\<close> its workable squares.\<close>

definition yield_workers :: "(game \<Rightarrow> game) \<Rightarrow> bool \<Rightarrow> int \<Rightarrow> u32 \<Rightarrow> tile_value list \<Rightarrow> game \<Rightarrow> game" where
  "yield_workers base_psych win_visible base_id reserved tiles g =
     (let manage_workers = gov_manages g win_visible base_id;
          (Ns, Ms, Es) = fst (satellite_bonus g base_id (0, 0, 0));
          g = upd_base base_id (clear_base reserved (Ns, Ms, Es)) g;
          b = Bases g base_id;
          (g, lost) = mod_black_market g base_id 16;
          (econ_val, labs_val, psych_val) = specialist_values g base_id;
          can_riot = base_can_riot g base_id True;
          best_spc = pick_specialist g b econ_val labs_val psych_val;
          psych_spc = (if can_riot then pick_specialist g b econ_val labs_val (3 * psych_val) else best_spc);
          N = Ns - base_pop_size b * rule_nutrient_intake_req_citizen (Rules g)
            + BaseResourceConvoyTo g RSC_NUTRIENT - BaseResourceConvoyFrom g RSC_NUTRIENT;
          M = Ms - BaseForcesMaintCost g + BaseResourceConvoyTo g RSC_MINERAL - BaseResourceConvoyFrom g RSC_MINERAL;
          E = Es + BaseResourceConvoyTo g RSC_ENERGY - BaseResourceConvoyFrom g RSC_ENERGY;
          missing = base_pop_size b + 1 - int (pop_count (base_worked_tiles b)) - base_specialist_total b;
          e = base_env g base_id (16 - lost) best_spc;
          b = fix_specialists g manage_workers best_spc b;
          (b, g) = settle_citizens base_psych base_id can_riot manage_workers missing e (N, M, E) tiles
            (if manage_workers \<and> best_spc \<noteq> psych_spc then Some psych_spc else None) b g;
          b = base_update tiles b
      in upd_base base_id (\<lambda>_. b\<lparr>base_state_flags := base_state_flags b AND NOT BSTATE_UNK_100\<rparr>) g)"

definition mod_base_yield :: "square_fun \<Rightarrow> square_fun \<Rightarrow> (game \<Rightarrow> game) \<Rightarrow> bool \<Rightarrow> game \<Rightarrow> game option" where
  "mod_base_yield bonus_at goody_at base_psych win_visible g =
     (let base_id = CurrentBaseID g
      in map_option (\<lambda>(g, reserved, tiles).
           let g = yield_workers base_psych win_visible base_id reserved tiles g;
               g = upd_base base_id (\<lambda>b. b\<lparr>base_eco_damage := terraform_eco_damage g base_id\<rparr>) g
           in g\<lparr>base_yield_active := False\<rparr>)
         (base_radius bonus_at goody_at base_id (g\<lparr>base_yield_active := True\<rparr>)))"

text \<open>A damaged build queue is emptied before anything is computed.\<close>

definition fix_queue :: "base \<Rightarrow> base" where
  "fix_queue b =
     (if list_ex (\<lambda>i. i > 9 \<or> base_queue_items b i < - SP_ID_Last \<or> base_queue_items b i \<ge> MaxProtoNum) [1..base_queue_size b]
      then b\<lparr>base_queue_size := 0, base_queue_items := (\<lambda>i. if 1 \<le> i \<and> i < 10 then 0 else base_queue_items b i)\<rparr>
      else b)"

definition base_compute :: "square_fun \<Rightarrow> square_fun \<Rightarrow> (game \<Rightarrow> game) \<Rightarrow> bool \<Rightarrow> bool \<Rightarrow> game \<Rightarrow> game option" where
  "base_compute bonus_at goody_at base_psych win_visible update_prev g =
     (let g = (case CurrentBase g of None \<Rightarrow> g | Some cur \<Rightarrow> upd_base cur fix_queue g)
      in if update_prev \<or> ComputeBaseID g \<noteq> CurrentBaseID g
         then do {
           let g = g\<lparr>ComputeBaseID := CurrentBaseID g\<rparr>;
           let g = mod_base_support bonus_at g;
           g \<leftarrow> mod_base_yield bonus_at goody_at base_psych win_visible g;
           Some (mod_base_energy base_psych (mod_base_minerals (mod_base_nutrient g)))
         }
         else Some g)"

subsection \<open>Citizens and squares agree\<close>

lemma pop_count_card: "pop_count w = card {i. bit w i}"
proof -
  have "bit w i \<Longrightarrow> i < 32" for i using bit_imp_le_length [of w i] by simp
  then have "{i. bit w i} = set (filter (bit w) [0..<32])" by (auto simp del: upt_rec_numeral)
  then show ?thesis by (simp add: pop_count_def distinct_card [symmetric] del: upt_rec_numeral)
qed

lemma bits_finite [simp]: "finite {i. bit (w :: u32) i}"
  by (rule finite_subset [of _ "{..<32}"]) (auto dest: bit_imp_le_length)

lemma pop_count_set: "\<not> bit w i \<Longrightarrow> i < 32 \<Longrightarrow> pop_count (set_bit i w) = Suc (pop_count w)"
proof -
  assume i: "\<not> bit w i" "i < 32"
  then have "{j. bit (set_bit i w) j} = insert i {j. bit w j}" by (auto simp: bit_set_bit_iff)
  then show ?thesis using i by (simp add: pop_count_card)
qed

lemma pop_count_unset: "bit w i \<Longrightarrow> Suc (pop_count (unset_bit i w)) = pop_count w"
proof -
  assume i: "bit w i"
  then have "{j. bit w j} = insert i {j. bit (unset_bit i w) j}" by (auto simp: bit_unset_bit_iff)
  moreover have "i \<notin> {j. bit (unset_bit i w) j}" by (simp add: bit_unset_bit_iff)
  ultimately have "card {j. bit w j} = Suc (card {j. bit (unset_bit i w) j})"
    using card_insert_disjoint [OF bits_finite [of "unset_bit i w"], of i] by metis
  then show ?thesis by (simp add: pop_count_card)
qed

lemma pop_count_pos: "bit w i \<Longrightarrow> 0 < pop_count w"
  using card_gt_0_iff [of "{i. bit w i}"] by (auto simp: pop_count_card)

text \<open>The code's own assertion, and workers only on workable squares.\<close>

definition crew_ok :: "tile_value list \<Rightarrow> base \<Rightarrow> bool" where
  "crew_ok tiles b \<longleftrightarrow> base_pop_size b + 1 = int (pop_count (base_worked_tiles b)) + base_specialist_total b
     \<and> 0 \<le> base_specialist_total b \<and> base_specialist_total b \<le> base_pop_size b
     \<and> (\<forall>i. bit (base_worked_tiles b) i \<longrightarrow> i \<in> tv_i ` set tiles)"

definition choices_ok :: "tile_value list \<Rightarrow> u32 \<Rightarrow> tile_value list \<Rightarrow> bool" where
  "choices_ok tiles worked choices \<longleftrightarrow> choices \<noteq> [] \<and> tv_i (hd choices) = 0 \<and> distinct (map tv_i choices)
     \<and> (\<forall>m \<in> set choices. bit worked (tv_i m)) \<and> (\<forall>i. bit worked i \<longrightarrow> i \<in> tv_i ` set tiles)"

definition tiles_ok :: "tile_value list \<Rightarrow> bool" where
  "tiles_ok tiles \<longleftrightarrow> tiles \<noteq> [] \<and> tv_i (hd tiles) = 0 \<and> (\<forall>m \<in> set tiles. tv_i m < 21)"

lemma best_tile_Some:
  assumes "best_tile e a tiles = Some m"
  shows "m \<in> set tiles \<and> \<not> bit (al_worked a) (tv_i m)"
proof -
  let ?f = "\<lambda>m (choice, best_score). if \<not> bit (al_worked a) (tv_i m) \<and> tile_score e a m > best_score
    then (Some m, tile_score e a m) else (choice, best_score)"
  have "fst (fold ?f ts (c, s)) = Some m \<Longrightarrow> c \<noteq> Some m \<Longrightarrow> m \<in> set ts \<and> \<not> bit (al_worked a) (tv_i m)" for ts c s
  proof (induction ts arbitrary: c s)
    case (Cons t ts)
    show ?case
    proof (cases "\<not> bit (al_worked a) (tv_i t) \<and> tile_score e a t > s")
      case True
      then show ?thesis using Cons.IH [of "Some t" "tile_score e a t"] Cons.prems by (cases "t = m") auto
    next
      case False
      then have "?f t (c, s) = (c, s)" by simp
      then show ?thesis using Cons.IH [of c s] Cons.prems by simp
    qed
  qed simp
  from this [of tiles None 0] assms show ?thesis by (simp add: best_tile_def)
qed

lemma allocate_ok:
  assumes "allocate n e tiles a = (a', left)" "choices_ok tiles (al_worked a) (al_choices a)" "tiles_ok tiles"
  shows "choices_ok tiles (al_worked a') (al_choices a') \<and> pop_count (al_worked a') + left = pop_count (al_worked a) + n"
  using assms(1,2)
proof (induction n arbitrary: a)
  case (Suc n)
  show ?case
  proof (cases "best_tile e a tiles")
    case (Some m)
    have m: "m \<in> set tiles" "\<not> bit (al_worked a) (tv_i m)" using best_tile_Some [OF Some] by simp_all
    have lt: "tv_i m < 32" using m(1) assms(3) by (force simp: tiles_ok_def)
    show ?thesis
    proof (cases "prefer_specialist e a (int (Suc n)) m")
      case False
      have "choices_ok tiles (al_worked (add_worker m a)) (al_choices (add_worker m a))"
        using Suc.prems(2) m lt by (auto simp: choices_ok_def add_worker_def bit_set_bit_iff)
      with Suc.IH [of "add_worker m a"] Suc.prems(1) Some False m(2) lt show ?thesis
        by (simp add: add_worker_def pop_count_set)
    qed (use Suc.prems Some in auto)
  qed (use Suc.prems in auto)
qed simp

lemma drop_worker_ok:
  assumes "crew_ok tiles b" "choices_ok tiles (base_worked_tiles b) choices" "length choices > 1"
  shows "crew_ok tiles (drop_worker (last choices) b)
    \<and> choices_ok tiles (base_worked_tiles (drop_worker (last choices) b)) (butlast choices)"
proof -
  obtain c cs x where ch: "choices = c # cs @ [x]" using assms(3) by (cases choices; cases "tl choices" rule: rev_cases; auto)
  have x: "bit (base_worked_tiles b) (tv_i x)" and d: "tv_i c = 0" "tv_i x \<noteq> 0" "tv_i x \<notin> tv_i ` set cs" "bit (base_worked_tiles b) 0"
    using assms(2) by (auto simp: choices_ok_def ch)
  have p: "Suc (pop_count (unset_bit (tv_i x) (base_worked_tiles b))) = pop_count (base_worked_tiles b)" using pop_count_unset [OF x] .
  moreover have "0 < pop_count (unset_bit (tv_i x) (base_worked_tiles b))" by (rule pop_count_pos [of _ 0]) (use d in \<open>simp add: bit_unset_bit_iff\<close>)
  ultimately have "crew_ok tiles (drop_worker x b)"
    using assms(1) by (auto simp: crew_ok_def drop_worker_def bit_unset_bit_iff)
  moreover have "choices_ok tiles (base_worked_tiles (drop_worker x b)) (c # cs)"
    using assms(2) d by (auto simp: choices_ok_def drop_worker_def bit_unset_bit_iff ch image_iff)
  ultimately show ?thesis by (simp add: ch)
qed

lemma gov_loop_ok:
  "crew_ok tiles initial \<Longrightarrow> choices_ok tiles (base_worked_tiles initial) choices
    \<Longrightarrow> crew_ok tiles (fst (gov_loop base_psych base_id choices initial score g))"
proof (induction base_psych base_id choices initial score g rule: gov_loop.induct)
  case (1 base_psych base_id choices initial score g)
  show ?case
  proof (cases "length choices \<le> 1")
    case True
    then show ?thesis using 1(2) by (subst gov_loop.simps) simp
  next
    case False
    then have d: "crew_ok tiles (drop_worker (last choices) initial)"
      "choices_ok tiles (base_worked_tiles (drop_worker (last choices) initial)) (butlast choices)"
      using drop_worker_ok [OF 1(2,3)] by simp_all
    show ?thesis
      by (subst gov_loop.simps, simp only: Let_def False if_False, split if_split)
        (intro conjI impI, use 1(2) in simp, rule 1(1) [OF False refl refl refl _ d])
  qed
qed

text \<open>What the rest of the computation changes of a base: neither its citizens nor its workers.\<close>

definition crew :: "base \<Rightarrow> int \<times> u32 \<times> int" where
  "crew b = (base_pop_size b, base_worked_tiles b, base_specialist_total b)"

lemma crew_ok_cong: "crew b = crew b' \<Longrightarrow> crew_ok tiles b = crew_ok tiles b'"
  by (simp add: crew_def crew_ok_def)

lemma crew_set_specialist [simp]: "crew (BASE_set_specialist_type i c b) = crew b"
  by (simp add: crew_def BASE_set_specialist_type_def Let_def)

lemma crew_fold: "(\<And>i b. crew (h i b) = crew b) \<Longrightarrow> crew (fold h xs b) = crew b"
  by (induction xs arbitrary: b) simp_all

lemma crew_all_specialists [simp]: "crew (all_specialists c b) = crew b"
  unfolding all_specialists_def by (rule crew_fold) simp

lemma crew_fix_specialists [simp]: "crew (fix_specialists g m c b) = crew b"
  unfolding fix_specialists_def by (rule crew_fold) (simp add: Let_def)

lemma crew_base_update [simp]: "crew (base_update tiles b) = crew b"
  by (simp add: crew_def base_update_def Let_def)

lemma settle_riots_ok:
  assumes "crew_ok tiles b" "choices_ok tiles (base_worked_tiles b) choices"
  shows "crew_ok tiles (fst (settle_riots base_psych base_id choices psych_spc b g))"
proof -
  obtain b1 s1 g1 where 1: "gov_loop base_psych base_id choices b 0 g = (b1, s1, g1)" by (metis prod_cases3)
  have ok1: "crew_ok tiles b1" using gov_loop_ok [OF assms, of base_psych base_id 0 g] 1 by simp
  show ?thesis
  proof (cases psych_spc)
    case (Some spc)
    have c: "crew (all_specialists spc b) = crew b" by simp
    then have "crew_ok tiles (all_specialists spc b)" "choices_ok tiles (base_worked_tiles (all_specialists spc b)) choices"
      using crew_ok_cong [OF c] assms by (simp_all add: crew_def)
    note r = gov_loop_ok [OF this, of base_psych base_id 0 g1]
    obtain b2 s2 g2 where 2: "gov_loop base_psych base_id choices (all_specialists spc b) 0 g1 = (b2, s2, g2)" by (metis prod_cases3)
    show ?thesis using r ok1 by (simp add: settle_riots_def 1 2 Some)
  qed (simp add: settle_riots_def 1 ok1)
qed

lemma place_workers_ok:
  assumes "place_workers manage missing e nme tiles b = (b', choices)" "tiles_ok tiles" "0 \<le> base_pop_size b"
    and "0 \<le> base_specialist_total b" "missing = base_pop_size b + 1 - int (pop_count (base_worked_tiles b)) - base_specialist_total b"
    and "manage \<or> bit (base_worked_tiles b) 0" "\<forall>i. bit (base_worked_tiles b) i \<longrightarrow> i \<in> tv_i ` set tiles"
  shows "crew_ok tiles b' \<and> choices_ok tiles (base_worked_tiles b') choices"
proof -
  let ?anew = "missing < 0 \<or> manage"
  let ?workers = "if ?anew then base_pop_size b else missing"
  let ?b = "if ?anew then b\<lparr>base_worked_tiles := 1, base_specialist_total := 0\<rparr> else b"
  obtain N M E where nme: "nme = (N, M, E)" by (metis prod_cases3)
  let ?w = "filter (\<lambda>m. bit (base_worked_tiles ?b) (tv_i m)) tiles"
  let ?a = "\<lparr>al_worked = base_worked_tiles ?b, al_N = N + sum_list (map tv_nutrient ?w), al_M = M + sum_list (map tv_mineral ?w),
            al_E = E + sum_list (map tv_energy ?w), al_choices = [hd tiles]\<rparr>"
  obtain a left where a: "allocate (nat ?workers) (e\<lparr>ae_specialist_total := base_specialist_total ?b\<rparr>) tiles ?a = (a, left)" by fastforce
  have r: "b' = ?b\<lparr>base_worked_tiles := al_worked a,
      base_specialist_total := base_specialist_total ?b + (if ?workers > 0 then int left else ?workers), base_specialist_adjust := 0\<rparr>"
    "choices = al_choices a"
    using assms(1) a unfolding place_workers_def nme prod.case Let_def by simp_all
  have h0: "hd tiles \<in> set tiles" "tv_i (hd tiles) = 0" using assms(2) by (auto simp: tiles_ok_def)
  have w1: "bit (1 :: u32) i \<longleftrightarrow> i = 0" for i by (simp add: bit_1_iff)
  have c: "choices_ok tiles (al_worked ?a) (al_choices ?a)"
    using assms(6,7) h0 by (auto simp: choices_ok_def w1 image_iff intro: bexI [of _ "hd tiles"])
  note al = allocate_ok [OF a c assms(2)]
  have p1: "pop_count 1 = 1" using w1 by (simp add: pop_count_card)
  have w0: "0 \<le> ?workers" using assms(3) by auto
  have sum: "base_pop_size b + 1 = int (pop_count (base_worked_tiles ?b)) + base_specialist_total ?b + ?workers"
    using assms(5) by (auto simp: p1)
  have left0: "left = 0" if "\<not> ?workers > 0" using a w0 that by (auto split: if_splits)
  then have spc: "(if ?workers > 0 then int left else ?workers) = int left" using w0 by auto
  have "bit (al_worked a) 0"
    using al unfolding choices_ok_def by (metis hd_in_set)
  then have "0 < pop_count (al_worked a)" by (rule pop_count_pos)
  moreover have "int (pop_count (al_worked a)) + int left = int (pop_count (base_worked_tiles ?b)) + ?workers"
    using al w0 by (auto split: if_splits)
  moreover have "0 \<le> base_specialist_total ?b" using assms(4) by simp
  ultimately have "crew_ok tiles b'"
    unfolding crew_ok_def r(1) spc using sum al by (auto simp: choices_ok_def split: if_splits)
  then show ?thesis using al r by simp
qed

lemma settle_citizens_ok:
  assumes "tiles_ok tiles" "0 \<le> base_pop_size b" "0 \<le> base_specialist_total b"
    and "missing = base_pop_size b + 1 - int (pop_count (base_worked_tiles b)) - base_specialist_total b"
    and "manage \<or> bit (base_worked_tiles b) 0" "\<forall>i. bit (base_worked_tiles b) i \<longrightarrow> i \<in> tv_i ` set tiles"
  shows "crew_ok tiles (fst (settle_citizens base_psych base_id can_riot manage missing e nme tiles psych_spc b g))"
proof (cases "missing \<noteq> 0 \<or> manage")
  case True
  obtain b' choices where p: "place_workers manage missing e nme tiles b = (b', choices)" by fastforce
  have "crew_ok tiles b'" "choices_ok tiles (base_worked_tiles b') choices"
    using place_workers_ok [OF p assms(1-6)] by simp_all
  then show ?thesis using settle_riots_ok True by (simp add: settle_citizens_def p)
next
  case False
  then have "0 < pop_count (base_worked_tiles b)" using assms(5) by (auto intro: pop_count_pos)
  then have "crew_ok tiles b" using False assms by (simp add: crew_ok_def)
  then show ?thesis using False by (auto simp: settle_citizens_def)
qed

subsection \<open>The squares of the base\<close>

text \<open>What looking at the squares changes: the goals of the AI and the marks for the display.\<close>

definition unlooked :: "game \<Rightarrow> game" where
  "unlooked g = g\<lparr>Factions := (\<lambda>_. blank_faction), BaseTileFlags := (\<lambda>_. 0), BaseTerraformReduce := 0, BaseTerraformEnergy := 0\<rparr>"

lemma unlooked_fields:
  assumes "unlooked g' = unlooked g"
  shows "Vehs g' = Vehs g" "VehCount g' = VehCount g" "MultiplayerActive g' = MultiplayerActive g" "Bases g' = Bases g"
    "MapTiles g' = MapTiles g" "mapsq g' x y = mapsq g x y" "next_tile g' x y i = next_tile g x y i" "stacks_ok g' S = stacks_ok g S"
proof -
  note d = arg_cong [OF assms]
  have 1: "Vehs g' = Vehs g" "VehCount g' = VehCount g" "MultiplayerActive g' = MultiplayerActive g" "Bases g' = Bases g"
    "MapTiles g' = MapTiles g" "MapAreaX g' = MapAreaX g" "MapAreaY g' = MapAreaY g" "map_is_flat g' = map_is_flat g"
    using d [of Vehs] d [of VehCount] d [of MultiplayerActive] d [of Bases] d [of MapTiles] d [of MapAreaX] d [of MapAreaY]
      d [of map_is_flat] by (simp_all add: unlooked_def map_is_flat_def)
  then have m: "mapsq g' x y = mapsq g x y" for x y by (simp add: mapsq_def)
  moreover have "wrap g' x = wrap g x" for x using 1 by (simp add: wrap_def)
  ultimately show "mapsq g' x y = mapsq g x y" "next_tile g' x y i = next_tile g x y i" by (simp_all add: next_tile_def)
  have "links g' i = links g i" for i using 1 by (simp add: links_def)
  then have "seg g' p a xs b = seg g p a xs b" for p a xs b using 1 by (intro seg_cong) simp_all
  then show "stacks_ok g' S = stacks_ok g S" using 1 m by (simp add: stacks_ok_def sq_at_def)
qed (use arg_cong [OF assms, of Vehs] arg_cong [OF assms, of VehCount] arg_cong [OF assms, of MultiplayerActive]
  arg_cong [OF assms, of Bases] arg_cong [OF assms, of MapTiles] in \<open>simp_all add: unlooked_def\<close>)

lemma unlooked_simps [simp]:
  "unlooked (upd_faction f h g) = unlooked g" "unlooked (g\<lparr>BaseTileFlags := t\<rparr>) = unlooked g"
  "unlooked (g\<lparr>BaseTerraformReduce := r\<rparr>) = unlooked g" "unlooked (g\<lparr>BaseTerraformEnergy := r\<rparr>) = unlooked g"
  by (simp_all add: unlooked_def upd_faction_def)

lemma unlooked_limit [simp]: "unlooked (fst (limit_yield g k e t f v)) = unlooked g"
  by (auto simp: limit_yield_def Let_def)

lemma unlooked_mine_square [simp]: "unlooked (fst (mine_square g f b sq bonus flag)) = unlooked g"
proof -
  have "unlooked (fst (mine_land g sq bonus flag v)) = unlooked g" for v by (simp add: mine_land_def Let_def)
  then show ?thesis by (simp add: mine_square_def Let_def split_beta if_distrib [of fst] if_distrib [of unlooked])
qed

lemma unlooked_yields [simp]:
  "unlooked (fst (mod_crop_yield bonus_at g f b x y flag)) = unlooked g"
  "unlooked (fst (mod_mine_yield bonus_at g f b x y flag)) = unlooked g"
  "unlooked (fst (mod_energy_yield bonus_at g f b x y flag)) = unlooked g"
  by (simp_all add: mod_crop_yield_def mod_mine_yield_def mod_energy_yield_def energy_extras_def Let_def split_beta split: option.split)

lemma unlooked_add_goal [simp]: "unlooked (add_goal f type priority x y b g) = unlooked g"
  by (simp add: add_goal_def set_goal_def Let_def split: option.split)

lemma unlooked_mark_pod [simp]: "unlooked (mark_pod goody_at f x y g) = unlooked g"
  by (simp add: mark_pod_def)

lemma add_tile_ok [simp]: "unlooked (fst (add_tile bonus_at base_id i x y g)) = unlooked g" "tv_i (snd (add_tile bonus_at base_id i x y g)) = i"
  by (simp_all add: add_tile_def Let_def split_beta)

lemma stack_fix_alone: "\<not> MultiplayerActive g \<Longrightarrow> stack_fix i g = Some (g, i)"
  by (simp add: stack_fix_def)

text \<open>On settled stacks the flags of a square are found without a change of the state; a square that is off the map or is the
  base itself is flagged.\<close>

lemma tile_flags_ok:
  assumes "stacks_ok g S" "\<not> MultiplayerActive g" "i < 21"
  shows "\<exists>flags. tile_flags reserved base_id i (x, y, m) g = Some (g, flags) \<and> (m = None \<or> i = 0 \<longrightarrow> flags \<noteq> 0)"
  using assms(3) by (cases m) (simp_all add: tile_flags_def Let_def veh_at_ok [OF assms(1)] stack_fix_alone [OF assms(2)])

definition looked :: "int \<Rightarrow> game \<Rightarrow> nat \<Rightarrow> game \<times> u32 \<times> tile_value list \<Rightarrow> bool" where
  "looked base_id g n = (\<lambda>(g', used, tiles). unlooked g' = unlooked g
     \<and> (\<forall>i < 21. i < n \<longrightarrow> bit used i \<or> i \<in> tv_i ` set tiles) \<and> (\<forall>i \<ge> n. \<not> bit used i)
     \<and> (\<forall>m \<in> set tiles. tv_i m < min n 21 \<and> (tv_i m = 0 \<or> \<not> bit used (tv_i m)))
     \<and> (0 < n \<longrightarrow> tiles \<noteq> [] \<and> tv_i (hd tiles) = 0))"

lemma radius_step_ok:
  assumes "stacks_ok g S" "\<not> MultiplayerActive g" "looked base_id g i (g', used, tiles)"
    and "snd (snd (next_tile g (base_x (Bases g base_id)) (base_y (Bases g base_id)) 0)) \<noteq> None"
  shows "\<exists>r. radius_step bonus_at goody_at reserved base_id i (g', used, tiles) = Some r \<and> looked base_id g (Suc i) r"
proof -
  have u: "unlooked g' = unlooked g" using assms(3) by (simp add: looked_def)
  note f = unlooked_fields [OF u]
  have ok: "stacks_ok g' S" "\<not> MultiplayerActive g'" using assms(1,2) f by simp_all
  let ?b = "Bases g' base_id"
  obtain x y m where n: "next_tile g' (base_x ?b) (base_y ?b) i = (x, y, m)" by (metis prod_cases3)
  show ?thesis
  proof (cases "i < 21")
    case False
    then have "tile_flags reserved base_id i (x, y, m) g' = Some (g', BR_NOT_AVAILABLE)" by (simp add: tile_flags_def)
    then show ?thesis using False assms(3) by (auto simp: radius_step_def n looked_def)
  next
    case True
    obtain flags where fl: "tile_flags reserved base_id i (x, y, m) g' = Some (g', flags)" "m = None \<or> i = 0 \<longrightarrow> flags \<noteq> 0"
      using tile_flags_ok [OF ok True] by metis
    let ?used = "if flags \<noteq> 0 then set_bit i used else used"
    let ?free = "m \<noteq> None \<and> (i = 0 \<or> flags = 0)"
    let ?g1 = "g'\<lparr>BaseTileFlags := (BaseTileFlags g')(int i := flags)\<rparr>"
    let ?t = "add_tile bonus_at base_id i x y ?g1"
    define g2 where "g2 = (if m \<noteq> None then mark_pod goody_at (base_faction_id ?b) x y (if ?free then fst ?t else ?g1) else ?g1)"
    define tiles2 where "tiles2 = (if ?free then tiles @ [snd ?t] else tiles)"
    have r: "radius_step bonus_at goody_at reserved base_id i (g', used, tiles) = Some (g2, ?used, tiles2)"
      using True by (cases ?t) (simp add: radius_step_def n fl g2_def tiles2_def)
    have r2: "unlooked g2 = unlooked g'" by (simp add: g2_def)
    have 0: "i = 0 \<Longrightarrow> m \<noteq> None" using n f assms(4) by simp
    have t: "i = 0 \<Longrightarrow> tiles = []" using assms(3) by (cases tiles) (auto simp: looked_def)
    have "looked base_id g (Suc i) (g2, ?used, tiles2)"
      using r2 fl(2) 0 t True assms(3) u
      by (auto simp: looked_def bit_set_bit_iff less_Suc_eq tiles2_def)
    then show ?thesis using r by blast
  qed
qed

lemma base_radius_ok:
  assumes "stacks_ok g S" "\<not> MultiplayerActive g"
    and "snd (snd (next_tile g (base_x (Bases g base_id)) (base_y (Bases g base_id)) 0)) \<noteq> None"
  shows "\<exists>r. base_radius bonus_at goody_at base_id g = Some r \<and> looked base_id g 25 r"
proof -
  let ?step = "\<lambda>i r. Option.bind r (radius_step bonus_at goody_at (reserved_points g base_id) base_id i)"
  have "\<exists>r. fold ?step [0..<n] (Some (g, 0, [])) = Some r \<and> looked base_id g n r" for n
  proof (induction n)
    case 0
    then show ?case by (simp add: looked_def)
  next
    case (Suc n)
    then obtain g' used tiles where "fold ?step [0..<n] (Some (g, 0, [])) = Some (g', used, tiles)"
      "looked base_id g n (g', used, tiles)" by auto
    with radius_step_ok [OF assms(1,2) this(2) assms(3)] show ?case by simp
  qed
  then show ?thesis unfolding base_radius_def .
qed

lemma unlooked_black_market [simp]: "unlooked (fst (mod_black_market g base_id e)) = unlooked g"
  by (simp add: mod_black_market_def Let_def)

text \<open>The base after the computation is the settled one with its intake.\<close>

lemma yield_workers_base:
  assumes "b0 = clear_base reserved nme (Bases g base_id)" "nme = fst (satellite_bonus g base_id (0, 0, 0))"
  shows "\<exists>g1 manage spc can_riot e surplus psych_spc.
    manage = gov_manages g win_visible base_id
    \<and> crew (Bases (yield_workers base_psych win_visible base_id reserved tiles g) base_id)
      = crew (fst (settle_citizens base_psych base_id can_riot manage
          (base_pop_size b0 + 1 - int (pop_count (base_worked_tiles b0)) - base_specialist_total b0) e surplus tiles psych_spc
          (fix_specialists g1 manage spc b0) g1))"
proof -
  obtain Ns Ms Es where nme: "nme = (Ns, Ms, Es)" by (metis prod_cases3)
  let ?g0 = "upd_base base_id (clear_base reserved (Ns, Ms, Es)) g"
  obtain g1 lost where g1: "mod_black_market ?g0 base_id 16 = (g1, lost)" by fastforce
  obtain ev lv pv where v: "specialist_values g1 base_id = (ev, lv, pv)" by (metis prod_cases3)
  have "Bases ?g0 base_id = b0" by (simp add: assms(1) nme upd_base_def)
  then have b: "Bases ?g0 base_id = b0" .
  have fin: "crew (Bases (upd_base base_id (\<lambda>_. c\<lparr>base_state_flags := s\<rparr>) h) base_id) = crew c" for c s h
    by (simp add: upd_base_def crew_def)
  show ?thesis
    unfolding yield_workers_def assms(2) [symmetric] nme Let_def prod.case split_beta fst_conv snd_conv b g1 v fin crew_base_update
    by (intro exI conjI, rule refl, rule refl)
qed

text \<open>The base is well formed when its citizens fit its squares and its squares its radius.\<close>

definition workers_ok :: "base \<Rightarrow> bool" where
  "workers_ok b \<longleftrightarrow> 0 \<le> base_pop_size b \<and> 0 \<le> base_specialist_total b
     \<and> (base_worked_tiles b \<noteq> 0 \<longrightarrow> bit (base_worked_tiles b) 0) \<and> (\<forall>i. bit (base_worked_tiles b) i \<longrightarrow> i < 21)"

text \<open>C14: The computation of a base ends and leaves it well typed: on settled stacks, for a base on the map whose workers stay in
  its radius, \<open>mod_base_yield\<close> returns; afterwards the workers (the base square counts as one more) and the specialists add up
  to the population, as the code asserts, there are at least none and at most as many specialists as citizens, and every worker
  is on a square that was found workable, never on one that is taken by another base, by a unit or by another faction.\<close>

theorem base_yield_well_typed:
  assumes "stacks_ok g S" "\<not> MultiplayerActive g" "workers_ok (Bases g (CurrentBaseID g))"
    and "snd (snd (next_tile g (base_x (Bases g (CurrentBaseID g))) (base_y (Bases g (CurrentBaseID g))) 0)) \<noteq> None"
  shows "\<exists>g' g1 reserved tiles. mod_base_yield bonus_at goody_at base_psych win_visible g = Some g'
    \<and> base_radius bonus_at goody_at (CurrentBaseID g) (g\<lparr>base_yield_active := True\<rparr>) = Some (g1, reserved, tiles)
    \<and> crew_ok tiles (Bases g' (CurrentBaseID g))
    \<and> (\<forall>i. bit (base_worked_tiles (Bases g' (CurrentBaseID g))) i \<longrightarrow> i = 0 \<or> \<not> bit reserved i)
    \<and> \<not> base_yield_active g'"
proof -
  let ?id = "CurrentBaseID g" and ?g = "g\<lparr>base_yield_active := True\<rparr>"
  have m: "mapsq ?g x y = mapsq g x y" for x y by (simp add: mapsq_def)
  have nt: "next_tile ?g x y i = next_tile g x y i" for x y i by (simp add: next_tile_def wrap_def map_is_flat_def m)
  have "seg ?g p a xs b = seg g p a xs b" for p a xs b by (intro seg_cong) (simp_all add: links_def)
  then have ok: "stacks_ok ?g S" using assms(1) m by (simp add: stacks_ok_def sq_at_def)
  obtain g1 reserved tiles where r: "base_radius bonus_at goody_at ?id ?g = Some (g1, reserved, tiles)"
    "looked ?id ?g 25 (g1, reserved, tiles)"
  proof -
    have "\<exists>r. base_radius bonus_at goody_at ?id ?g = Some r \<and> looked ?id ?g 25 r"
      by (rule base_radius_ok [OF ok]) (use assms(2,4) nt in simp_all)
    then show thesis using that by auto
  qed
  have B: "Bases g1 ?id = Bases g ?id" using unlooked_fields(4) [of g1 ?g] r(2) by (simp add: looked_def)
  have tiles: "tiles_ok tiles" and free: "i < 21 \<Longrightarrow> bit reserved i \<or> i \<in> tv_i ` set tiles" for i
    using r(2) by (auto simp: looked_def tiles_ok_def)
  have taken: "i \<in> tv_i ` set tiles \<Longrightarrow> i = 0 \<or> \<not> bit reserved i" for i using r(2) by (auto simp: looked_def)
  define b0 where "b0 = clear_base reserved (fst (satellite_bonus g1 ?id (0, 0, 0))) (Bases g1 ?id)"
  obtain Ns Ms Es where nme: "fst (satellite_bonus g1 ?id (0, 0, 0)) = (Ns, Ms, Es)" by (metis prod_cases3)
  have c0: "crew b0 = (base_pop_size (Bases g ?id), base_worked_tiles (Bases g ?id) AND (NOT reserved OR 1),
      base_specialist_total (Bases g ?id))"
    by (simp add: b0_def nme clear_base_def clear_intake_def crew_def B)
  obtain g2 manage spc can_riot e surplus psych_spc where y: "manage = gov_manages g1 win_visible ?id"
    "crew (Bases (yield_workers base_psych win_visible ?id reserved tiles g1) ?id)
      = crew (fst (settle_citizens base_psych ?id can_riot manage
          (base_pop_size b0 + 1 - int (pop_count (base_worked_tiles b0)) - base_specialist_total b0) e surplus tiles psych_spc
          (fix_specialists g2 manage spc b0) g2))"
    using yield_workers_base [OF b0_def refl] by blast
  let ?b = "fix_specialists g2 manage spc b0"
  have c: "crew ?b = crew b0" by simp
  have w: "workers_ok (Bases g ?id)" by (rule assms(3))
  have bits: "i \<in> tv_i ` set tiles" if "bit (base_worked_tiles b0) i" for i
    using that c0 w free [of i] tiles by (cases "i = 0") (auto simp: crew_def workers_ok_def bit_simps tiles_ok_def bit_1_iff image_iff intro: hd_in_set)
  have first: "manage \<or> bit (base_worked_tiles b0) 0"
    using c0 w by (auto simp: y(1) gov_manages_def B crew_def workers_ok_def bit_simps bit_1_iff Let_def)
  have "crew_ok tiles (fst (settle_citizens base_psych ?id can_riot manage
      (base_pop_size b0 + 1 - int (pop_count (base_worked_tiles b0)) - base_specialist_total b0) e surplus tiles psych_spc ?b g2))"
    by (rule settle_citizens_ok [OF tiles]) (use c c0 w bits first in \<open>auto simp: crew_def workers_ok_def\<close>)
  then have crew: "crew_ok tiles (Bases (yield_workers base_psych win_visible ?id reserved tiles g1) ?id)"
    using crew_ok_cong [OF y(2)] by blast
  define g3 where "g3 = yield_workers base_psych win_visible ?id reserved tiles g1"
  define g4 where "g4 = (upd_base ?id (\<lambda>b. b\<lparr>base_eco_damage := terraform_eco_damage g3 ?id\<rparr>) g3)\<lparr>base_yield_active := False\<rparr>"
  have run: "mod_base_yield bonus_at goody_at base_psych win_visible g = Some g4"
    by (simp add: mod_base_yield_def r g4_def g3_def Let_def)
  have "crew (Bases g4 ?id) = crew (Bases g3 ?id)" by (simp add: g4_def upd_base_def crew_def)
  from crew_ok_cong [OF this] have final: "crew_ok tiles (Bases g4 ?id)" using crew unfolding g3_def by blast
  then have "i = 0 \<or> \<not> bit reserved i" if "bit (base_worked_tiles (Bases g4 ?id)) i" for i
    using that by (intro taken) (simp add: crew_ok_def)
  then have "\<forall>i. bit (base_worked_tiles (Bases g4 ?id)) i \<longrightarrow> i = 0 \<or> \<not> bit reserved i" by blast
  moreover have "\<not> base_yield_active g4" by (simp add: g4_def)
  ultimately show ?thesis using run r(1) final by (intro exI conjI)
qed

text \<open>A base in the middle of a small map, with three citizens.\<close>

definition lone_game :: game where
  "lone_game = blank_game\<lparr>MapAreaX := 16, MapAreaY := 16, VehCount := 0, BaseCount := 1,
     Bases := (\<lambda>_. blank_base\<lparr>base_x := 8, base_y := 8, base_pop_size := 3\<rparr>)\<rparr>"

lemma lone_stacks: "stacks_ok lone_game (\<lambda>_. [])"
  by (simp add: stacks_ok_def lone_game_def blank_game_def sq_at_def MAP_veh_in_tile_def blank_tile_def)

lemma base_yield_well_typed_witness:
  "\<exists>g' tiles. mod_base_yield (\<lambda>_ _ _. 0) (\<lambda>_ _ _. 0) (\<lambda>g. g) False lone_game = Some g' \<and> crew_ok tiles (Bases g' 0)"
proof -
  have b: "Bases lone_game i = blank_base\<lparr>base_x := 8, base_y := 8, base_pop_size := 3\<rparr>" "CurrentBaseID lone_game = 0"
    "\<not> MultiplayerActive lone_game" for i
    by (simp_all add: lone_game_def blank_game_def)
  have w: "workers_ok (Bases lone_game (CurrentBaseID lone_game))" unfolding b by (simp add: workers_ok_def blank_base_def)
  have n: "snd (snd (next_tile lone_game (base_x (Bases lone_game (CurrentBaseID lone_game)))
      (base_y (Bases lone_game (CurrentBaseID lone_game))) 0)) \<noteq> None"
    unfolding b by (simp add: next_tile_def lone_game_def blank_game_def wrap_def map_is_flat_def mapsq_def TableOffsetX_def TableOffsetY_def)
  show ?thesis
    using base_yield_well_typed [OF lone_stacks b(3) w n, of "\<lambda>_ _ _. 0" "\<lambda>_ _ _. 0" "\<lambda>g. g" False] unfolding b by blast
qed

end
