(* ===== verification/Combat.thy ===== *)
theory Combat
  imports Base_Workers
begin

text \<open>
  The computation of a battle (veh_combat.cpp): odds, morale, strengths of attack and defense with every modifier,
  counting in stacks, the choice of the defender, promotion and interception.
\<close>

section \<open>Odds (veh_combat.cpp)\<close>

function gcd_loop :: "int \<Rightarrow> int \<Rightarrow> int" where
  "gcd_loop a b = (if b = 0 then a else gcd_loop b (a smod b))"
  by pat_completeness auto
termination
  by (relation "measure (\<lambda>(a, b). nat \<bar>b\<bar>)") (auto simp: smod_int_alt_def abs_mult abs_sgn_eq)

declare gcd_loop.simps [simp del]

definition integer_gcd :: "int \<Rightarrow> int \<Rightarrow> int" where
  "integer_gcd a b = (let a = gcd_loop \<bar>a\<bar> \<bar>b\<bar> in if a \<noteq> 0 then a else 1)"

text \<open>The odds shown when the power of reactors is ignored.\<close>

definition combat_odds_fix :: "game \<Rightarrow> veh \<Rightarrow> veh \<Rightarrow> int \<times> int \<Rightarrow> int \<times> int" where
  "combat_odds_fix g veh_atk veh_def = (\<lambda>(attack_odds, defend_odds).
     if conf_ignore_reactor_power (conf g) \<noteq> 0 \<and> VEH_offense_value g veh_atk \<ge> 0 \<and> VEH_defense_value g veh_def \<ge> 0
     then let attack_power = VEH_cur_hitpoints g veh_atk; defend_power = VEH_cur_hitpoints g veh_def;
              attack_fp = VEH_reactor_type g veh_def; defend_fp = VEH_reactor_type g veh_atk;
              attack_hp = (attack_power + (defend_fp - 1)) sdiv defend_fp;
              defend_hp = (defend_power + (attack_fp - 1)) sdiv attack_fp;
              attack_odds = attack_odds * attack_hp * defend_power;
              defend_odds = defend_odds * defend_hp * attack_power;
              divisor = integer_gcd attack_odds defend_odds
          in (attack_odds sdiv divisor, defend_odds sdiv divisor)
     else (attack_odds, defend_odds))"

definition psi_factor :: "game \<Rightarrow> int \<Rightarrow> int \<Rightarrow> bool \<Rightarrow> bool \<Rightarrow> int" where
  "psi_factor g v faction_id is_attack is_fungal_twr =
     (let rule_psi = mf_rule_psi (MFactions g faction_id);
          v = (if rule_psi \<noteq> 0 then ((rule_psi + 100) * v) sdiv 100 else v)
      in if is_attack
         then (if has_project g FAC_DREAM_TWISTER faction_id then v + (v * conf_dream_twister_bonus (conf g)) sdiv 100 else v)
         else let v = (if has_project g FAC_NEURAL_AMPLIFIER faction_id
                       then v + (v * conf_neural_amplifier_bonus (conf g)) sdiv 100 else v)
              in if is_fungal_twr then v + (v * conf_fungal_tower_bonus (conf g)) sdiv 100 else v)"

section \<open>Morale\<close>

definition tower_morale :: "game \<Rightarrow> veh \<Rightarrow> int" where
  "tower_morale g v =
     int (length (filter (\<lambda>i. case sq_at g (wrap g (veh_x v + TableOffsetX ! i)) (veh_y v + TableOffsetY ! i) of
        None \<Rightarrow> False | Some sq \<Rightarrow> MAP_is_fungus sq) [1..<9])) - 2"

definition native_level :: "game \<Rightarrow> int" where
  "native_level g = (case List.find (\<lambda>i. CurrentTurn g < conf_native_lifecycle_levels (conf g) i) [0..5] of
     Some i \<Rightarrow> i | None \<Rightarrow> 6)"

definition mod_morale_alien :: "game \<Rightarrow> int \<Rightarrow> int \<Rightarrow> int" where
  "mod_morale_alien g veh_id faction_id_vs_native =
     (let v = Vehs g veh_id
      in clamp (if veh_id \<ge> 0 \<and> veh_unit_id v = BSC_FUNGAL_TOWER then tower_morale g v
         else native_level g
              + (if faction_id_vs_native > 0
                 then of_bool (f_major_atrocities (Factions g faction_id_vs_native) \<noteq> 0)
                      + of_bool (TectonicDetonationCount g faction_id_vs_native \<noteq> 0) else 0)
              + (if veh_id \<ge> 0
                 then of_bool (veh_state v AND VSTATE_MONOLITH_UPGRADED \<noteq> 0) + of_bool (veh_unit_id v = BSC_LOCUSTS_OF_CHIRON)
                      + VEH_lifecycle_value v else 0)) 0 6)"

definition probe_morale :: "game \<Rightarrow> veh \<Rightarrow> int" where
  "probe_morale g v =
     (let faction_id = veh_faction_id v
      in clamp (clamp (f_SE_probe (Factions g faction_id)) 0 3 + (if has_project g FAC_TELEPATHIC_MATRIX faction_id then 2 else 0)
           + int (length (filter (\<lambda>i. ctech_flags (Tech g i) AND TFLAG_IMPROVE_PROBE \<noteq> 0 \<and> has_tech g i faction_id)
                [0..MaxTechnologyNum - 1])) + veh_morale v) 2 6)"

text \<open>Very low and very high social morale count one step less.\<close>

definition morale_modifier :: "game \<Rightarrow> veh \<Rightarrow> bool \<Rightarrow> int" where
  "morale_modifier g v check_drone_riot =
     (let faction_id = veh_faction_id v; m = MFactions g faction_id; home = veh_home_base_id v;
          d = clamp (f_SE_morale (Factions g faction_id)) (- 4) 4;
          d = (if d \<le> - 2 then d + 1 else if d \<ge> 2 then d - 1 else d) + mf_rule_morale m;
          flag = (mf_rule_flags m AND RFLAG_MORALE \<noteq> 0);
          d = (if flag \<and> d < 0 then 0 else d)
      in if check_drone_riot \<and> home \<ge> 0 \<and> base_state_flags (Bases g home) AND BSTATE_DRONE_RIOTS_ACTIVE \<noteq> 0 \<and> \<not> flag
         then d - 1 else d)"

definition mod_morale_veh :: "game \<Rightarrow> int \<Rightarrow> bool \<Rightarrow> int \<Rightarrow> int" where
  "mod_morale_veh g veh_id check_drone_riot faction_id_vs_native =
     (let v = Vehs g veh_id
      in if veh_faction_id v = 0 then mod_morale_alien g veh_id faction_id_vs_native
         else if VEH_plan g v = PLAN_PROBE then probe_morale g v
         else if veh_unit_id v < MaxProtoFactionNum \<and> VEH_offense_value g v < 0 then clamp (veh_morale v) 0 6
         else clamp (veh_morale v + morale_modifier g v check_drone_riot) 0 6)"

text \<open>The name of the morale with the signs of the modifiers (\<open>mod_say_morale2\<close>): the morale, the penalty and the bonus.\<close>

definition morale_climb :: "int \<Rightarrow> int \<Rightarrow> int" where
  "morale_climb active cap = max 0 (min (- active) (MORALE_ELITE - cap))"

definition say_bonus :: "game \<Rightarrow> int \<Rightarrow> int \<Rightarrow> int" where
  "say_bonus g veh_id morale =
     (let v = Vehs g veh_id; f = Factions g (veh_faction_id v); native = VEH_is_native_unit g v;
          base_id = snd (base_at g (veh_x v) (veh_y v));
          bonus = (if base_id \<ge> 0 \<and> morale < MORALE_ELITE
            then (let n = of_bool (has_fac_built g FAC_HEADQUARTERS base_id)
                  in if has_fac_built g FAC_CHILDREN_CRECHE base_id \<or> (native \<and> has_fac_built g FAC_BROOD_PIT base_id)
                     then let n = n + 1; active = clamp (f_SE_morale f) (- 4) 4; active = (if active \<le> - 2 then active + 1 else active)
                          in n + morale_climb active (morale + n)
                     else n)
            else 0);
          bonus = (if \<not> native \<and> (f_SE_morale_pending f = 2 \<or> f_SE_morale_pending f = 3) then bonus + 1 else bonus)
      in if morale = 0 \<and> bonus = 0 then 1 else bonus)"

definition say_penalty :: "game \<Rightarrow> int \<Rightarrow> int \<Rightarrow> bool" where
  "say_penalty g veh_id morale \<longleftrightarrow>
     (let v = Vehs g veh_id
      in \<not> VEH_is_native_unit g v \<and> morale > 0 \<and> veh_home_base_id v \<ge> 0
         \<and> base_state_flags (Bases g (veh_home_base_id v)) AND BSTATE_DRONE_RIOTS_ACTIVE \<noteq> 0
         \<and> \<not> mf_rule_flags (MFactions g (veh_faction_id v)) AND RFLAG_MORALE \<noteq> 0)"

definition mod_say_morale2 :: "game \<Rightarrow> (bool \<Rightarrow> int \<Rightarrow> string) \<Rightarrow> int \<Rightarrow> int \<Rightarrow> string" where
  "mod_say_morale2 g morale_name veh_id faction_id_vs_native =
     (let v = Vehs g veh_id; morale = mod_morale_veh g veh_id False faction_id_vs_native; bonus = say_bonus g veh_id morale;
          penalty = say_penalty g veh_id morale; name = morale_name (VEH_is_native_unit g v) morale
      in if VEH_plan g v < PLAN_COLONY
         then name @ (if penalty then '' (-)'' else [])
              @ (if bonus \<noteq> 0 then (if penalty then ''('' else '' ('') @ replicate (nat bonus) (CHR ''+'') @ '')'' else [])
              @ (if veh_state v AND VSTATE_DESIGNATE_DEFENDER \<noteq> 0
                 then (if penalty \<or> bonus \<noteq> 0 then ''(d)'' else '' (d)'') else [])
         else name)"

section \<open>Values of prototypes\<close>

definition mod_offense_proto :: "game \<Rightarrow> int \<Rightarrow> int \<Rightarrow> bool \<Rightarrow> int" where
  "mod_offense_proto g unit_id veh_id_def is_bombard =
     (let u = Units g unit_id; d = Vehs g veh_id_def
      in if UNIT_weapon_mode g u = WMODE_PROBE \<and> veh_id_def \<ge> 0 \<and> VEH_plan g d = PLAN_PROBE then 16
         else if (is_bombard \<or> (UNIT_offense_value g u \<ge> 0 \<and> (veh_id_def < 0 \<or> VEH_defense_value g d \<ge> 0)))
                 \<and> (veh_id_def < 0 \<or> veh_unit_id d \<noteq> BSC_SPORE_LAUNCHER) \<and> unit_id \<noteq> BSC_SPORE_LAUNCHER
         then let off_rating = \<bar>UNIT_offense_value g u\<bar>;
                  off_rating = (if UNIT_is_missile g u \<noteq> 0 \<and> off_rating < 99 then (off_rating * 3) sdiv 2 else off_rating)
              in if veh_id_def < 0 then off_rating else off_rating * 8
         else if veh_id_def < 0 then rule_psi_combat_ratio_atk (Rules g) TRIAD_LAND
         else rule_psi_combat_ratio_atk (Rules g) (VEH_triad g d) * 8)"

definition mod_armor_proto :: "game \<Rightarrow> int \<Rightarrow> int \<Rightarrow> bool \<Rightarrow> int" where
  "mod_armor_proto g unit_id veh_id_atk is_bombard =
     (let u = Units g unit_id; a = Vehs g veh_id_atk
      in if UNIT_weapon_mode g u = WMODE_PROBE \<and> veh_id_atk \<ge> 0 \<and> VEH_plan g a = PLAN_PROBE then 16
         else if (is_bombard \<and> unit_id \<noteq> BSC_SPORE_LAUNCHER \<and> (veh_id_atk < 0 \<or> veh_unit_id a \<noteq> BSC_SPORE_LAUNCHER))
                 \<or> (UNIT_defense_value g u \<ge> 0 \<and> (veh_id_atk < 0 \<or> VEH_offense_value g a \<ge> 0))
         then let def_rating = clamp (UNIT_defense_value g u) 1 9999
              in if veh_id_atk < 0 then def_rating else def_rating * 8
         else if veh_id_atk < 0 then rule_psi_combat_ratio_def (Rules g) TRIAD_LAND
         else rule_psi_combat_ratio_def (Rules g) (UNIT_triad g u) * 8)"

definition arm_strat :: "game \<Rightarrow> int \<Rightarrow> int \<Rightarrow> int" where
  "arm_strat g armor_id faction_id =
     (if \<not> ExpansionEnabled g \<and> armor_id > ARM_PSI_DEFENSE then 1
      else let v = carm_defense_value (Armor g armor_id)
           in if v < 0
              then psi_factor g ((rule_psi_combat_ratio_def (Rules g) TRIAD_LAND * f_enemy_best_weapon_value (Factions g faction_id))
                     sdiv rule_psi_combat_ratio_atk (Rules g) TRIAD_LAND) faction_id False False
              else v)"

definition weap_strat :: "game \<Rightarrow> int \<Rightarrow> int \<Rightarrow> int" where
  "weap_strat g weapon_id faction_id =
     (if \<not> ExpansionEnabled g \<and> (weapon_id = WPN_RESONANCE_LASER \<or> weapon_id = WPN_RESONANCE_BOLT \<or> weapon_id = WPN_STRING_DISRUPTOR)
      then 1
      else let v = cwpn_offense_value (Weapon g weapon_id)
           in if v < 0
              then psi_factor g ((rule_psi_combat_ratio_atk (Rules g) TRIAD_LAND * f_enemy_best_armor_value (Factions g faction_id))
                     sdiv rule_psi_combat_ratio_def (Rules g) TRIAD_LAND) faction_id True False
              else v)"

section \<open>Counting in a stack\<close>

partial_function (option) stack_list :: "game \<Rightarrow> int \<Rightarrow> int list option" where
  [code]: "stack_list g i =
     (if i < 0 then Some [] else do { xs \<leftarrow> stack_list g (veh_next_veh_id_stack (Vehs g i)); Some (i # xs) })"

text \<open>What one unit counts for, by the type of the question.\<close>

definition stack_value :: "game \<Rightarrow> int \<Rightarrow> int \<Rightarrow> int \<Rightarrow> int \<Rightarrow> int \<Rightarrow> int" where
  "stack_value g type cond1 cond2 cond3 i =
     (let v = Vehs g i; by1 = (cond1 < 0 \<or> veh_faction_id v = cond1); by2 = (cond2 < 0 \<or> veh_faction_id v = cond2)
      in if type = 0 then of_bool (by2 \<and> veh_unit_id v = cond1)
         else if type = 1 then of_bool by1
         else if type = 2 then of_bool (by2 \<and> VEH_plan g v = cond1)
         else if type = 3 then of_bool (by2 \<and> VEH_triad g v = cond1)
         else if type = 4 then (if by1 then VEH_offense_value g v else 0)
         else if type = 5 then (if by1 then VEH_defense_value g v else 0)
         else if type = 6 then of_bool (by2 \<and> has_abil g (veh_unit_id v) (word_of_int cond1))
         else if type = 7 then (if by1 then unit_cost (Units g (veh_unit_id v)) else 0)
         else if type = 8
         then (if by1 then (if VEH_triad g v = TRIAD_LAND then - 1 else if VEH_triad g v = TRIAD_SEA then veh_cargo g i else 0) else 0)
         else if type = 9 then of_bool (by2 \<and> veh_order v = cond1)
         else if type = 10 then of_bool (veh_faction_id v = cond1)
         else if type = 11
         then of_bool ((cond3 < 0 \<or> veh_faction_id v = cond3) \<and> veh_state v AND word_of_int cond1 = word_of_int cond2)
         else if type = 12
         then of_bool (by1 \<and> arm_strat g (unit_armor_id (Units g (veh_unit_id v))) (veh_faction_id v)
                > weap_strat g (unit_weapon_id (Units g (veh_unit_id v))) (veh_faction_id v))
         else if type = 13 then of_bool (by1 \<and> VEH_is_missile g v \<noteq> 0)
         else if type = 14 then of_bool (by1 \<and> (VEH_plan g v = PLAN_COMBAT \<or> VEH_plan g v = PLAN_DEFENSE))
         else if type = 15 then of_bool (by1 \<and> can_arty g (veh_unit_id v) True)
         else if type = 16
         then of_bool (by1 \<and> (VEH_plan g v = PLAN_COMBAT \<or> VEH_plan g v = PLAN_DEFENSE \<or> VEH_plan g v = PLAN_RECON))
         else if type = 17 then of_bool (by2 \<and> unit_group_id (Units g (veh_unit_id v)) = cond1)
         else if type = 18 then of_bool (by1 \<and> VEH_triad g v = TRIAD_AIR \<and> VEH_range g v > 1)
         else if type = 19 then of_bool (by1 \<and> VEH_offense_value g v = 0)
         else 0)"

definition mod_stack_check :: "game \<Rightarrow> int \<Rightarrow> int \<Rightarrow> int \<Rightarrow> int \<Rightarrow> int \<Rightarrow> int option" where
  "mod_stack_check g veh_id type cond1 cond2 cond3 = do {
     top \<leftarrow> veh_top g veh_id;
     xs \<leftarrow> stack_list g top;
     Some (sum_list (map (stack_value g type cond1 cond2 cond3) xs))
   }"

definition stack_kill_check :: "game \<Rightarrow> int \<Rightarrow> int option" where
  "stack_kill_check g veh_id = do {
     n \<leftarrow> mod_stack_check g veh_id 1 (- 1) (- 1) (- 1);
     a \<leftarrow> mod_stack_check g veh_id 2 PLAN_COLONY (- 1) (- 1);
     b \<leftarrow> mod_stack_check g veh_id 2 PLAN_SUPPLY (- 1) (- 1);
     c \<leftarrow> mod_stack_check g veh_id 2 PLAN_PROBE (- 1) (- 1);
     d \<leftarrow> mod_stack_check g veh_id 2 PLAN_ARTIFACT (- 1) (- 1);
     Some (n - a - b - c - d)
   }"

section \<open>Strength of attack and defense\<close>

text \<open>
  In a base the creche undoes part of a bad social morale. Both functions leave the morale of the side in
  \<open>VehBasicBattleMorale\<close>.
\<close>

definition base_morale :: "game \<Rightarrow> int \<Rightarrow> int \<Rightarrow> bool \<Rightarrow> int" where
  "base_morale g base_id faction_id native =
     (if has_fac_built g FAC_CHILDREN_CRECHE base_id
      then (let active = clamp (f_SE_morale (Factions g faction_id)) (- 4) 0; active = (if active \<le> - 2 then active + 1 else active)
            in 1 - (if native then 0 else active))
      else of_bool (native \<and> has_fac_built g FAC_BROOD_PIT base_id))"

definition pending_morale :: "game \<Rightarrow> int \<Rightarrow> bool \<Rightarrow> int" where
  "pending_morale g faction_id native =
     (let p = f_SE_morale_pending (Factions g faction_id) in of_bool (\<not> native \<and> p \<ge> 2 \<and> p \<le> 3))"

definition set_battle_morale :: "int \<Rightarrow> int \<Rightarrow> game \<Rightarrow> game" where
  "set_battle_morale k m g = g\<lparr>VehBasicBattleMorale := (VehBasicBattleMorale g)(k := m)\<rparr>"

definition offense_morale :: "game \<Rightarrow> int \<Rightarrow> int \<Rightarrow> int \<Rightarrow> bool \<Rightarrow> int" where
  "offense_morale g veh_id_atk veh_id_def base_id unk_tgl =
     (let a = Vehs g veh_id_atk; d = Vehs g veh_id_def; f = veh_faction_id a; native = VEH_is_native_unit g a;
          m = (if f \<noteq> 0 then mod_morale_veh g veh_id_atk True 0
               else mod_morale_alien g veh_id_atk (if veh_id_def \<ge> 0 then veh_faction_id d else - 1));
          m = (if base_id \<ge> 0
               then m + base_morale g base_id f native
                    + (if unk_tgl
                       then pending_morale g f native
                            + (if veh_id_def \<ge> 0
                               then if veh_faction_id d \<noteq> 0
                                    then if \<not> native \<and> \<not> has_abil g (veh_unit_id a) ABL_DISSOCIATIVE_WAVE
                                            \<and> has_abil g (veh_unit_id d) ABL_SOPORIFIC_GAS then - 2 else 0
                                    else 1
                               else 0)
                       else 0)
               else m)
      in if unk_tgl then clamp m 1 6 else m)"

definition mod_get_basic_offense :: "int \<Rightarrow> int \<Rightarrow> int \<Rightarrow> bool \<Rightarrow> bool \<Rightarrow> game \<Rightarrow> game \<times> int" where
  "mod_get_basic_offense veh_id_atk veh_id_def psi_combat_type is_bombard unk_tgl g =
     (let a = Vehs g veh_id_atk; (g, base_id) = base_at g (veh_x a) (veh_y a);
          m = offense_morale g veh_id_atk veh_id_def base_id unk_tgl;
          g = set_battle_morale (of_bool unk_tgl) m g;
          offense = mod_offense_proto g (veh_unit_id a) veh_id_def is_bombard;
          offense = (if psi_combat_type \<noteq> 0 then psi_factor g offense (veh_faction_id a) True False else offense)
      in (g, offense * (m + 6) * 4))"

definition defense_morale :: "game \<Rightarrow> int \<Rightarrow> int \<Rightarrow> int \<Rightarrow> int" where
  "defense_morale g veh_id_def veh_id_atk base_id =
     (let d = Vehs g veh_id_def; a = Vehs g veh_id_atk; f = veh_faction_id d; native = VEH_is_native_unit g d;
          m = (if f \<noteq> 0 then mod_morale_veh g veh_id_def True 0
               else mod_morale_alien g veh_id_def (if veh_id_atk \<ge> 0 then veh_faction_id a else - 1));
          m = (if base_id \<ge> 0
               then m + base_morale g base_id f native + of_bool (has_fac_built g FAC_HEADQUARTERS base_id)
                    + pending_morale g f native + of_bool (veh_id_atk \<ge> 0 \<and> veh_faction_id a = 0)
               else m);
          m = (if veh_id_atk \<ge> 0 \<and> veh_faction_id a \<noteq> 0 \<and> has_abil g (veh_unit_id a) ABL_SOPORIFIC_GAS \<and> \<not> native
                  \<and> \<not> has_abil g (veh_unit_id d) ABL_DISSOCIATIVE_WAVE then m - 2 else m)
      in clamp m 1 6)"

definition mod_get_basic_defense :: "int \<Rightarrow> int \<Rightarrow> int \<Rightarrow> bool \<Rightarrow> game \<Rightarrow> game \<times> int" where
  "mod_get_basic_defense veh_id_def veh_id_atk psi_combat_type is_bombard g =
     (let d = Vehs g veh_id_def; a = Vehs g veh_id_atk; u = Units g (veh_unit_id d);
          (g, base_id) = base_at g (veh_x d) (veh_y d);
          m = defense_morale g veh_id_def veh_id_atk base_id;
          g = set_battle_morale 1 m g
      in if unit_plan u = PLAN_ARTIFACT then (g, 1)
         else if unit_plan u = PLAN_PROBE \<and> UNIT_defense_value g u = 1
                 \<and> (veh_id_atk < 0 \<or> unit_plan (Units g (veh_unit_id a)) \<noteq> PLAN_PROBE) then (g, 1)
         else let defense = mod_armor_proto g (veh_unit_id d) veh_id_atk is_bombard;
                  defense = (if psi_combat_type \<noteq> 0
                    then psi_factor g defense (veh_faction_id d) False (veh_unit_id d = BSC_FUNGAL_TOWER) else defense)
              in (g, defense * (m + 6)))"

subsection \<open>Terrain and sensors\<close>

text \<open>Twice the factor of the terrain for the defender; the caption of the terrain is left out.\<close>

definition terrain_defense :: "game \<Rightarrow> veh \<Rightarrow> veh option \<Rightarrow> int" where
  "terrain_defense g d atk =
     (case sq_at g (veh_x d) (veh_y d) of None \<Rightarrow> 2
      | Some sq \<Rightarrow>
         if VEH_triad g d = TRIAD_AIR \<or> is_ocean_sq (Some sq) \<or> MAP_base_who sq \<ge> 0 then 2
         else let native = (case atk of None \<Rightarrow> False
                    | Some a \<Rightarrow> VEH_is_native_unit g a \<or> has_project g FAC_PHOLUS_MUTAGEN (veh_faction_id a))
              in if MAP_is_fungus sq \<and> (case atk of None \<Rightarrow> False | Some a \<Rightarrow> veh_faction_id a = 0 \<or> native) then 2
                 else let t = (if MAP_is_rocky sq then 1 else 0);
                          t = (if \<not> native \<and> t = 0 \<and> MAP_is_fungus sq
                               then (if has_project g FAC_PHOLUS_MUTAGEN (veh_faction_id d) \<or> VEH_is_native_unit g d then 2 else 1)
                               else t);
                          t = (if item_on sq BIT_FOREST \<and> t = 0 \<and> (case atk of None \<Rightarrow> True | Some a \<Rightarrow> VEH_triad g a = TRIAD_LAND)
                               then 1 else t)
                      in t + 2)"

definition is_sensor :: "game \<Rightarrow> int \<Rightarrow> int \<Rightarrow> int" where
  "is_sensor g x y =
     (if (case sq_at g x y of None \<Rightarrow> False | Some sq \<Rightarrow> item_on sq BIT_SENSOR) then 1
      else let base_id = snd (base_find g x y)
           in if base_id < 0 \<or> \<not> has_fac_built g FAC_GEOSYNC_SURVEY_POD base_id then 0
              else let b = Bases g base_id; dx = x_dist g x (base_x b); dy = \<bar>y - base_y b\<bar>
                   in if (dx = 0 \<or> dx = 2) \<and> (dy = 0 \<or> dy = 2) then 2 else 0)"

text \<open>\<open>base_find\<close> with its global.\<close>

definition base_seek :: "int \<Rightarrow> int \<Rightarrow> game \<Rightarrow> game \<times> int" where
  "base_seek x y g = (let (dist, id) = base_find g x y in (if id \<ge> 0 then g\<lparr>BaseFindDist := dist\<rparr> else g, id))"

definition sensor_at :: "int \<Rightarrow> int \<Rightarrow> int \<Rightarrow> int \<Rightarrow> game \<Rightarrow> game \<times> bool" where
  "sensor_at faction_id x y m g =
     (let sq = MapTiles g m
      in if is_sensor g x y > 0
         then if conf_sensor_defense_ocean (conf g) = 0 \<and> is_ocean_sq (Some sq)
              then (let (g, near_id) = base_seek x y g in (g, near_id \<ge> 0 \<and> base_faction_id (Bases g near_id) = faction_id))
              else (g, sq_owner sq < 0 \<or> sq_owner sq = faction_id)
         else (g, False))"

text \<open>The squares around the defender, up to the first survey pod of its faction: whether a sensor and a pod cover it.\<close>

fun sensor_scan :: "int \<Rightarrow> (int \<times> int \<times> nat \<times> int) list \<Rightarrow> game \<Rightarrow> game \<times> bool \<times> bool" where
  "sensor_scan faction_id [] g = (g, False, False)"
| "sensor_scan faction_id ((x, y, i, m) # ts) g =
     (let value = is_sensor g x y; (g, found) = sensor_at faction_id x y m g
      in if found \<and> value > 1 then (g, True, True)
         else let (g, sensor, pod) = sensor_scan faction_id ts g in (g, found \<or> sensor, pod))"

subsection \<open>Nerve gas\<close>

definition use_nerve_gas :: "game \<Rightarrow> int \<Rightarrow> int \<Rightarrow> bool" where
  "use_nerve_gas g faction_id_atk faction_id_def \<longleftrightarrow>
     (let a = Factions g faction_id_atk; d = Factions g faction_id_def;
          value = (if GameRules g AND RULES_INTENSE_RIVALRY \<noteq> 0
              \<and> (f_ranking d > f_ranking a \<or> f_diplo_unk_4 d faction_id_atk > f_diplo_unk_4 a faction_id_def)
            then 3 * (f_AI_fight a + 1) else 0)
      in f_diplo_status a faction_id_def AND DIPLO_ATROCITY_VICTIM \<noteq> 0
         \<or> f_player_flags a AND PFLAG_COMMIT_ATROCITIES_WANTONLY \<noteq> 0
         \<or> (is_human g faction_id_def \<and> \<not> un_charter g)
         \<or> (is_human g faction_id_def \<and> f_diplo_status a faction_id_def AND DIPLO_WANT_REVENGE \<noteq> 0
            \<and> value + f_integrity_blemishes d \<ge> 6))"

definition use_nerve_gas_any :: "game \<Rightarrow> int \<Rightarrow> bool" where
  "use_nerve_gas_any g faction_id_atk \<longleftrightarrow>
     list_ex (\<lambda>i. i \<noteq> faction_id_atk \<and> is_alive g i \<and> \<not> has_pact g faction_id_atk i \<and> use_nerve_gas g faction_id_atk i)
       [1..MaxPlayerNum - 1]"

subsection \<open>The list of modifiers\<close>

definition add_bat :: "int \<Rightarrow> int \<Rightarrow> game \<Rightarrow> game" where
  "add_bat type modifier g =
     (let offset = VehBattleModCount g type
      in if modifier \<noteq> 0 \<and> offset \<ge> 0 \<and> offset < 4 \<and> (type = 0 \<or> type = 1)
         then g\<lparr>VehBattleModifier := (VehBattleModifier g)(type := (VehBattleModifier g type)(offset := modifier)),
                VehBattleModCount := (VehBattleModCount g)(type := offset + 1)\<rparr>
         else g)"

type_synonym battle = "game \<times> int \<times> int"

text \<open>The usual step: a percentage is applied to one side and shown.\<close>

definition boost_offense :: "int \<Rightarrow> battle \<Rightarrow> battle" where
  "boost_offense modifier = (\<lambda>(g, offense, defense). (add_bat 0 modifier g, (offense * (modifier + 100)) sdiv 100, defense))"

definition boost_defense :: "int \<Rightarrow> battle \<Rightarrow> battle" where
  "boost_defense modifier = (\<lambda>(g, offense, defense). (add_bat 1 modifier g, offense, (defense * (modifier + 100)) sdiv 100))"

definition when_b :: "bool \<Rightarrow> (battle \<Rightarrow> battle) \<Rightarrow> battle \<Rightarrow> battle" where
  "when_b c h b = (if c then h b else b)"

definition scale_defense :: "int \<Rightarrow> battle \<Rightarrow> battle" where
  "scale_defense k = (\<lambda>(g, offense, defense). (g, offense, defense * k))"

section \<open>The computation of a battle\<close>

text \<open>
  \<open>mod_battle_compute\<close>, for units that exist, as its assertions demand. A fight is the two rows, the flags of the
  combat, and whether the attacker (1) or the defender (2) fights with psi. Units and squares do not change during the
  computation. The captions of the modifiers are not modelled, the modifiers are.
\<close>

record fight =
  fi_atk :: int
  fi_def :: int
  fi_type :: u32
  fi_psi :: int

abbreviation fi_veh_atk :: "game \<Rightarrow> fight \<Rightarrow> veh" where "fi_veh_atk g w \<equiv> Vehs g (fi_atk w)"
abbreviation fi_veh_def :: "game \<Rightarrow> fight \<Rightarrow> veh" where "fi_veh_def g w \<equiv> Vehs g (fi_def w)"
abbreviation fi_plain :: "fight \<Rightarrow> bool" where "fi_plain w \<equiv> fi_type w = 0"

definition veh_square :: "game \<Rightarrow> veh \<Rightarrow> tile option" where
  "veh_square g v = sq_at g (veh_x v) (veh_y v)"

definition veh_alt :: "game \<Rightarrow> veh \<Rightarrow> int" where
  "veh_alt g v = (case veh_square g v of None \<Rightarrow> 0 | Some sq \<Rightarrow> MAP_alt_level sq)"

definition square_has :: "game \<Rightarrow> veh \<Rightarrow> (tile \<Rightarrow> bool) \<Rightarrow> bool" where
  "square_has g v P = (case veh_square g v of None \<Rightarrow> False | Some sq \<Rightarrow> P sq)"

definition is_bombard :: "game \<Rightarrow> int \<Rightarrow> u32 \<Rightarrow> bool" where
  "is_bombard g veh_id_atk combat_type \<longleftrightarrow> combat_type AND CT_CAN_ARTY \<noteq> 0 \<or> VEH_is_missile g (Vehs g veh_id_atk) \<noteq> 0"

definition psi_kind :: "game \<Rightarrow> int \<Rightarrow> int \<Rightarrow> u32 \<Rightarrow> int" where
  "psi_kind g veh_id_atk veh_id_def combat_type =
     (let a = Vehs g veh_id_atk; d = Vehs g veh_id_def
      in if \<not> is_bombard g veh_id_atk combat_type \<or> veh_unit_id a = BSC_SPORE_LAUNCHER \<or> veh_unit_id d = BSC_SPORE_LAUNCHER
         then of_bool (VEH_offense_value g a < 0) + 2 * of_bool (VEH_defense_value g d < 0)
         else 0)"

definition bat_psi :: "fight \<Rightarrow> game \<Rightarrow> game" where
  "bat_psi w g =
     (let a = veh_faction_id (fi_veh_atk g w); d = veh_faction_id (fi_veh_def g w)
      in if fi_psi w = 0 then g
         else let g = add_bat 0 (mf_rule_psi (MFactions g a)) g;
                  g = (if has_project g FAC_DREAM_TWISTER a then add_bat 0 (conf_dream_twister_bonus (conf g)) g else g);
                  g = add_bat 1 (mf_rule_psi (MFactions g d)) g;
                  g = (if has_project g FAC_NEURAL_AMPLIFIER d then add_bat 1 (conf_neural_amplifier_bonus (conf g)) g else g)
              in if veh_unit_id (fi_veh_def g w) = BSC_FUNGAL_TOWER then add_bat 1 (conf_fungal_tower_bonus (conf g)) g else g)"

text \<open>Percentages the rules of a faction grant, one after the other.\<close>

definition rule_bonuses :: "game \<Rightarrow> int \<Rightarrow> int \<Rightarrow> int list" where
  "rule_bonuses g faction_id rule =
     (let m = MFactions g faction_id
      in map (mf_faction_bonus_val1 m) (filter (\<lambda>i. mf_faction_bonus_id m i = rule) [0..mf_faction_bonus_count m - 1]))"

subsection \<open>Attack\<close>

definition attack_psi :: "fight \<Rightarrow> battle \<Rightarrow> battle" where
  "attack_psi w = (\<lambda>(g, off, def).
     let a = fi_veh_atk g w; d = fi_veh_def g w; empath = rule_combat_bonus_empath_song_vs_psi (Rules g)
     in (when_b (fi_psi w \<noteq> 0 \<and> has_abil g (veh_unit_id a) ABL_EMPATH \<and> \<not> has_abil g (veh_unit_id d) ABL_DISSOCIATIVE_WAVE
           \<and> empath \<noteq> 0) (boost_offense empath)
        \<circ> when_b (fi_psi w \<ge> 2 \<and> VEH_is_resonance_weapon g a) (boost_offense ResonanceWeaponValue)
        \<circ> when_b (square_has g d MAP_is_fungus
             \<and> (VEH_is_native_unit g a \<or> has_project g FAC_PHOLUS_MUTAGEN (veh_faction_id a)) \<and> VEH_offense_value g d \<ge> 0)
             (boost_offense 50)) (g, off, def))"

definition attack_rules :: "fight \<Rightarrow> battle \<Rightarrow> battle" where
  "attack_rules w = (\<lambda>(g, off, def).
     let a = fi_veh_atk g w; f = veh_faction_id a; R = Rules g; planet = f_SE_planet (Factions g f)
     in (when_b (fi_psi w \<noteq> 0 \<and> f \<noteq> 0 \<and> planet \<noteq> 0 \<and> rule_combat_psi_bonus_per_planet R \<noteq> 0)
           (boost_offense (planet * rule_combat_psi_bonus_per_planet R))
        \<circ> fold (\<lambda>v. boost_offense (v - 100)) (rule_bonuses g f RULE_OFFENSE)
        \<circ> when_b (mf_rule_flags (MFactions g f) AND RFLAG_FANATIC \<noteq> 0 \<and> rule_combat_bonus_fanatic R \<noteq> 0 \<and> fi_plain w \<and> fi_psi w = 0)
             (boost_offense (rule_combat_bonus_fanatic R))
        \<circ> when_b (rule_combat_penalty_atk_airdrop R \<noteq> 0 \<and> veh_state a AND VSTATE_MADE_AIRDROP \<noteq> 0
             \<and> has_abil g (veh_unit_id a) ABL_DROP_POD) (boost_offense (- rule_combat_penalty_atk_airdrop R))) (g, off, def))"

definition battle_attack :: "fight \<Rightarrow> battle \<Rightarrow> battle" where
  "battle_attack w = (\<lambda>(g, _, def).
     let (g, off) = mod_get_basic_offense (fi_atk w) (fi_def w) (fi_psi w) (is_bombard g (fi_atk w) (fi_type w)) False g
     in if VEH_is_probe g (fi_veh_atk g w) then (g, off, def)
        else attack_rules w (when_b (fi_plain w) (attack_psi w) (g, off, def)))"

subsection \<open>Duels\<close>

definition battle_duel :: "fight \<Rightarrow> battle \<Rightarrow> battle" where
  "battle_duel w = (\<lambda>(g, off, _).
     let (g, def) = mod_get_basic_offense (fi_def w) (fi_atk w) (fi_psi w) (is_bombard g (fi_atk w) (fi_type w)) True g;
         a = fi_veh_atk g w; d = fi_veh_def g w; R = Rules g; art = rule_combat_land_vs_sea_artillery R;
         height = veh_alt g d - veh_alt g a; up = rule_combat_artillery_bonus_altitude R
     in if fi_type w AND (CT_INTERCEPT OR CT_AIR_DEFENSE) \<noteq> 0 then (g, off, def)
        else if VEH_triad g a = TRIAD_LAND \<and> VEH_triad g d = TRIAD_SEA then when_b (art \<noteq> 0) (boost_offense art) (g, off, def)
        else if VEH_triad g a = TRIAD_SEA \<and> VEH_triad g d = TRIAD_LAND then when_b (art \<noteq> 0) (boost_defense art) (g, off, def)
        else if up \<noteq> 0 \<and> veh_square g a \<noteq> None \<and> veh_square g d \<noteq> None
        then if height > 0 then boost_defense (height * up) (g, off, def)
             else if height < 0 then boost_offense (- height * up) (g, off, def) else (g, off, def)
        else (g, off, def))"

subsection \<open>Defense\<close>

definition defend_psi :: "fight \<Rightarrow> int \<Rightarrow> battle \<Rightarrow> battle" where
  "defend_psi w base_id = (\<lambda>(g, off, def).
     let R = Rules g; f = veh_faction_id (fi_veh_def g w); c = conf_planet_defense_bonus (conf g);
         planet = (f_SE_planet (Factions g f) * rule_combat_psi_bonus_per_planet R) sdiv (if c \<le> 1 then 2 else 1)
     in (scale_defense 4
        \<circ> when_b (c \<noteq> 0 \<and> f \<noteq> 0 \<and> planet \<noteq> 0) (boost_defense planet)
        \<circ> when_b (base_id \<ge> 0 \<and> rule_combat_bonus_intrinsic_base_def R \<noteq> 0)
             (boost_defense (rule_combat_bonus_intrinsic_base_def R))) (g, off, def))"

text \<open>A bombardment of land units from higher ground: the bonus grows with the difference, the modifier that is shown does not.\<close>

definition shell_downhill :: "int \<Rightarrow> int \<Rightarrow> battle \<Rightarrow> battle" where
  "shell_downhill bonus height = (\<lambda>(g, off, def). (add_bat 0 bonus g, (off * (bonus * height + 100)) sdiv 100, def))"

definition land_attack :: "fight \<Rightarrow> int \<Rightarrow> int \<Rightarrow> battle \<Rightarrow> battle" where
  "land_attack w base_id terrain = (\<lambda>(g, off, def).
     let a = fi_veh_atk g w; d = fi_veh_def g w; R = Rules g; plain = (terrain \<le> 2); alt_a = veh_alt g a; alt_d = veh_alt g d;
         speed_atk = proto_speed g (veh_unit_id a); speed_def = proto_speed g (veh_unit_id d)
     in (when_b (rule_combat_bonus_atk_higher_elevation R \<noteq> 0 \<and> fi_plain w \<and> alt_a > alt_d
             \<and> \<not> has_abil g (veh_unit_id d) ABL_ANTIGRAV_STRUTS) (boost_offense (rule_combat_bonus_atk_higher_elevation R))
        \<circ> when_b (rule_combat_penalty_atk_lower_elevation R \<noteq> 0 \<and> fi_plain w \<and> alt_d > alt_a
             \<and> \<not> has_abil g (veh_unit_id a) ABL_ANTIGRAV_STRUTS) (boost_defense (rule_combat_penalty_atk_lower_elevation R))
        \<circ> when_b (rule_combat_bonus_atk_road R \<noteq> 0 \<and> fi_plain w
             \<and> square_has g a (\<lambda>s. \<not> is_ocean_sq (Some s) \<and> item_on s (BIT_BASE_IN_TILE OR BIT_ROAD OR BIT_MAGTUBE))
             \<and> square_has g d (\<lambda>s. \<not> is_ocean_sq (Some s) \<and> \<not> MAP_is_base_or_bunker s \<and> item_on s (BIT_ROAD OR BIT_MAGTUBE)))
             (boost_offense (rule_combat_bonus_atk_road R))
        \<circ> when_b (rule_combat_mobile_def_in_rough R \<noteq> 0 \<and> fi_plain w \<and> (\<not> plain \<or> base_id \<ge> 0) \<and> speed_atk > rule_move_rate_roads R)
             (boost_defense (rule_combat_mobile_def_in_rough R))
        \<circ> when_b (rule_combat_mobile_open_ground R \<noteq> 0 \<and> fi_plain w \<and> base_id < 0 \<and> plain \<and> \<not> square_has g d MAP_is_rocky
             \<and> speed_atk > rule_move_rate_roads R \<and> speed_atk \<ge> speed_def) (boost_offense (rule_combat_mobile_open_ground R))
        \<circ> when_b (rule_combat_artillery_bonus_altitude R \<noteq> 0 \<and> \<not> fi_plain w \<and> VEH_triad g d = TRIAD_LAND \<and> alt_a > alt_d)
             (shell_downhill (rule_combat_artillery_bonus_altitude R) (alt_a - alt_d))) (g, off, def))"

definition base_defense_bonus :: "game \<Rightarrow> int \<Rightarrow> int \<Rightarrow> int" where
  "base_defense_bonus g triad base_id =
     (let values = conf_facility_defense_value (conf g)
      in (if triad = TRIAD_LAND then (if has_facility g FAC_PERIMETER_DEFENSE base_id then values 0 else 0)
          else if triad = TRIAD_SEA then (if has_facility g FAC_NAVAL_YARD base_id then values 1 else 0)
          else if triad = TRIAD_AIR then (if has_facility g FAC_AEROSPACE_COMPLEX base_id then values 2 else 0)
          else 0)
         + (if has_fac_built g FAC_TACHYON_FIELD base_id then values 3 else 0))"

text \<open>The multiplier of a base, a bunker or open ground; without one the defense doubles.\<close>

definition cover_multiplier :: "fight \<Rightarrow> int \<Rightarrow> battle \<Rightarrow> battle \<times> int" where
  "cover_multiplier w base_id = (\<lambda>(g, off, def).
     let a = fi_veh_atk g w; d = fi_veh_def g w; R = Rules g
     in if base_id \<ge> 0
        then let fac = base_defense_bonus g (VEH_triad g a) base_id; blink = has_abil g (veh_unit_id a) ABL_BLINK_DISPLACER;
                 b = when_b (rule_combat_bonus_intrinsic_base_def R \<noteq> 0 \<and> fac = 0 \<and> \<not> blink)
                       (boost_defense (rule_combat_bonus_intrinsic_base_def R)) (g, off, def);
                 fac = (if fac \<noteq> 0 \<and> blink then 0 else fac);
                 b = when_b (rule_combat_infantry_vs_base R \<noteq> 0 \<and> veh_faction_id a \<noteq> 0 \<and> fi_plain w \<and> \<not> VEH_is_native_unit g a
                       \<and> VEH_triad g a = TRIAD_LAND \<and> VEH_speed g a = 1) (boost_offense (rule_combat_infantry_vs_base R)) b
             in (b, 100 + fac)
        else ((g, off, def),
          if square_has g d MAP_is_bunker \<and> VEH_triad g a \<noteq> TRIAD_AIR then 150
          else if fi_type w AND CT_CAN_ARTY \<noteq> 0
                  \<and> square_has g d (\<lambda>s. \<not> MAP_is_rocky s \<and> \<not> item_on s BIT_FOREST \<and> \<not> MAP_is_fungus s) then 150
          else 100))"

definition apply_cover :: "battle \<times> int \<Rightarrow> battle" where
  "apply_cover = (\<lambda>((g, off, def), multi). (if multi > 100 then add_bat 1 (multi - 100) g else g, off, (def * multi) sdiv 50))"

definition defend_ground :: "fight \<Rightarrow> int \<Rightarrow> battle \<Rightarrow> battle" where
  "defend_ground w base_id = (\<lambda>(g, off, def).
     let terrain = terrain_defense g (fi_veh_def g w) (Some (fi_veh_atk g w));
         (g, off, def) = when_b (VEH_triad g (fi_veh_atk g w) = TRIAD_LAND) (land_attack w base_id terrain) (g, off, def);
         g = (if terrain > 2 then add_bat 1 (50 * terrain - 100) g else g)
     in apply_cover (cover_multiplier w base_id (g, off, def * terrain)))"

subsection \<open>Facilities, sensors and abilities of the defender\<close>

definition flechette_count :: "game \<Rightarrow> int \<Rightarrow> veh \<Rightarrow> nat" where
  "flechette_count g faction_id d =
     length (filter (\<lambda>i. base_faction_id (Bases g i) = faction_id
        \<and> map_range g (veh_x d) (veh_y d) (base_x (Bases g i)) (base_y (Bases g i)) \<le> FlechetteDefenseRange
        \<and> has_fac_built g FAC_FLECHETTE_DEFENSE_SYS i) [0..BaseCount g - 1])"

definition flechette_step :: "int \<Rightarrow> int" where
  "flechette_step v = (v * (FlechetteDefenseValue + 100)) sdiv 100"

text \<open>The bonuses of several flechette systems multiply, one modifier shows their product.\<close>

definition defend_flechette :: "fight \<Rightarrow> battle \<Rightarrow> battle" where
  "defend_flechette w = (\<lambda>(g, off, def).
     let d = fi_veh_def g w;
         n = (if VEH_is_missile g (fi_veh_atk g w) \<noteq> 0 then flechette_count g (veh_faction_id d) d else 0)
     in (if n > 0 then add_bat 1 ((flechette_step ^^ n) 100 - 100) g else g, off, (flechette_step ^^ n) def))"

definition defend_sensors :: "fight \<Rightarrow> battle \<Rightarrow> battle" where
  "defend_sensors w = (\<lambda>(g, off, def).
     let d = fi_veh_def g w; R = Rules g;
         (g, sensor, pod) = sensor_scan (veh_faction_id d) (iterate_tiles g (veh_x d) (veh_y d) 0 25) g;
         (g, off, def) = defend_flechette w (g, off, def)
     in (when_b pod (boost_defense (rule_combat_defend_sensor R)) \<circ> when_b sensor (boost_defense (rule_combat_defend_sensor R)))
          (g, off, def))"

definition defend_abilities :: "fight \<Rightarrow> int \<Rightarrow> battle \<Rightarrow> battle" where
  "defend_abilities w base_id = (\<lambda>(g, off, def).
     let a = fi_veh_atk g w; d = fi_veh_def g w; R = Rules g; ta = VEH_triad g a; td = VEH_triad g d;
         psi1 = odd (fi_psi w); wave = has_abil g (veh_unit_id a) ABL_DISSOCIATIVE_WAVE;
         sup_a = has_abil g (veh_unit_id a) ABL_AIR_SUPERIORITY; sup_d = has_abil g (veh_unit_id d) ABL_AIR_SUPERIORITY;
         air = rule_combat_bonus_air_supr_vs_air R; ground = rule_combat_penalty_air_supr_vs_ground R;
         weak = rule_combat_penalty_non_combat_vs_combat R; port = rule_combat_bonus_vs_ship_port R;
         jam = rule_combat_comm_jammer_vs_mobile R; aaa = rule_combat_aaa_bonus_vs_air R; trance = rule_combat_bonus_trance_vs_psi R
     in (when_b (aaa \<noteq> 0 \<and> ta = TRIAD_AIR \<and> has_abil g (veh_unit_id d) ABL_AAA \<and> \<not> wave) (boost_defense aaa)
        \<circ> when_b (jam \<noteq> 0 \<and> has_abil g (veh_unit_id d) ABL_COMM_JAMMER \<and> \<not> wave \<and> ta = TRIAD_LAND \<and> VEH_speed g a > 1)
             (boost_defense jam)
        \<circ> when_b (VEH_is_pulse_armor g d \<and> ta = TRIAD_LAND \<and> VEH_speed g a > 1) (boost_defense PulseArmorValue)
        \<circ> when_b (base_id \<ge> 0 \<and> port \<noteq> 0 \<and> ta \<noteq> TRIAD_SEA \<and> td = TRIAD_SEA) (boost_offense port)
        \<circ> when_b (weak \<noteq> 0 \<and> VEH_offense_value g d = 0 \<and> VEH_defense_value g d = 1 \<and> (veh_faction_id a \<noteq> 0 \<or> base_id < 0))
             (boost_defense (- weak))
        \<circ> when_b (fi_psi w = 0 \<and> air \<noteq> 0 \<and> ta = TRIAD_AIR \<and> td = TRIAD_AIR \<and> \<not> sup_a \<and> sup_d
             \<and> VEH_is_missile g a = 0 \<and> VEH_is_missile g d = 0) (boost_defense air)
        \<circ> when_b (fi_psi w = 0 \<and> ta = TRIAD_AIR \<and> sup_a \<and> td = TRIAD_AIR \<and> air \<noteq> 0 \<and> \<not> sup_d) (boost_offense air)
        \<circ> when_b (fi_psi w = 0 \<and> ta = TRIAD_AIR \<and> sup_a \<and> td \<noteq> TRIAD_AIR \<and> ground \<noteq> 0) (boost_offense (- ground))
        \<circ> when_b (psi1 \<and> VEH_is_resonance_armor g d) (boost_defense ResonanceArmorValue)
        \<circ> when_b (psi1 \<and> trance \<noteq> 0 \<and> has_abil g (veh_unit_id d) ABL_TRANCE \<and> \<not> wave) (boost_defense trance)) (g, off, def))"

definition defend_fully :: "fight \<Rightarrow> battle \<Rightarrow> battle" where
  "defend_fully w = (\<lambda>(g, off, def).
     let d = fi_veh_def g w; (g, base_id) = base_at g (veh_x d) (veh_y d);
         b = (if fi_psi w \<noteq> 0 then defend_psi w base_id (g, off, def) else defend_ground w base_id (g, off, def));
         b = when_b (veh_faction_id d \<noteq> 0) (defend_sensors w) b
     in defend_abilities w base_id b)"

definition battle_defense :: "fight \<Rightarrow> battle \<Rightarrow> battle" where
  "battle_defense w = (\<lambda>(g, off, _).
     let (g, def) = mod_get_basic_defense (fi_def w) (fi_atk w) (fi_psi w) (is_bombard g (fi_atk w) (fi_type w)) g;
         (g, off, def) = fold (\<lambda>v. boost_defense (v - 100)) (rule_bonuses g (veh_faction_id (fi_veh_def g w)) RULE_DEFENSE) (g, off, def)
     in if VEH_is_probe g (fi_veh_atk g w) then (g, off, def * 4) else defend_fully w (g, off, def))"

definition mod_battle_compute :: "int \<Rightarrow> int \<Rightarrow> u32 \<Rightarrow> game \<Rightarrow> battle" where
  "mod_battle_compute veh_id_atk veh_id_def combat_type g =
     (let g = g\<lparr>VehBattleModCount := (VehBattleModCount g)(0 := 0, 1 := 0), VehBattleState := 0\<rparr>;
          w = \<lparr>fi_atk = veh_id_atk, fi_def = veh_id_def, fi_type = combat_type, fi_psi = psi_kind g veh_id_atk veh_id_def combat_type\<rparr>;
          b = battle_attack w (bat_psi w g, 8, 8)
      in if combat_type AND CT_WEAPON_ONLY \<noteq> 0 then battle_duel w b else battle_defense w b)"

section \<open>The best defender\<close>

definition defender_flags :: "game \<Rightarrow> veh \<Rightarrow> veh \<Rightarrow> u32" where
  "defender_flags g a v =
     (let flags = (if can_arty g (veh_unit_id v) True \<and> can_arty g (veh_unit_id a) True then CT_WEAPON_ONLY else 0)
      in if VEH_triad g a = TRIAD_AIR \<and> has_abil g (veh_unit_id v) ABL_AIR_SUPERIORITY \<and> VEH_is_missile g v = 0 \<and> VEH_is_missile g a = 0
            \<and> VEH_offense_value g a > 0 \<and> VEH_defense_value g a > 0 \<and> VEH_offense_value g v > 0
         then flags OR CT_WEAPON_ONLY OR CT_AIR_DEFENSE OR (if VEH_triad g v = TRIAD_AIR then CT_INTERCEPT else 0)
         else flags)"

text \<open>Interceptors, duellers and designated defenders go first. The questions about the stack change nothing and are asked at
  once.\<close>

definition defender_first :: "game \<Rightarrow> veh \<Rightarrow> bool \<Rightarrow> int \<Rightarrow> bool \<Rightarrow> int \<Rightarrow> bool option" where
  "defender_first g a combat_type base_id is_airbase veh_id = do {
     let v = Vehs g veh_id;
     carriers \<leftarrow> mod_stack_check g veh_id 6 (uint ABL_CARRIER) (- 1) (- 1);
     planes \<leftarrow> mod_stack_check g veh_id 3 TRIAD_AIR (- 1) (- 1);
     let scramble = (VEH_triad g v = TRIAD_AIR \<and> VEH_triad g a = TRIAD_AIR \<and> VEH_is_missile g v = 0 \<and> VEH_is_missile g a = 0
        \<and> (has_abil g (veh_unit_id v) ABL_AIR_SUPERIORITY
           \<or> (has_abil g (veh_unit_id a) ABL_AIR_SUPERIORITY \<and> base_id < 0 \<and> \<not> is_airbase \<and> carriers = 0)));
     Some (if scramble then True
           else if combat_type then can_arty g (veh_unit_id v) True
           else veh_state v AND VSTATE_DESIGNATE_DEFENDER \<noteq> 0 \<and> (base_id \<ge> 0 \<or> is_airbase \<or> carriers \<noteq> 0 \<or> planes = 0))
   }"

definition defender_score :: "game \<Rightarrow> int \<Rightarrow> int \<Rightarrow> int \<Rightarrow> veh \<Rightarrow> bool \<Rightarrow> int" where
  "defender_score g offense_val offense_out defense_out v first =
     (let value = (defense_out * VEH_cur_hitpoints g v) sdiv VEH_max_hitpoints g v;
          score = ((offense_val * value) sdiv offense_out) sdiv 8 - VEH_offense_value g v;
          score = (if VEH_plan g v \<le> PLAN_NAVAL_TRANSPORT \<or> VEH_plan g v = PLAN_TERRAFORM then score * 16 else score)
      in score + (if first then 0x80000 else 0))"

definition may_defend :: "game \<Rightarrow> veh \<Rightarrow> bool \<Rightarrow> veh \<Rightarrow> bool" where
  "may_defend g a at_ocean v \<longleftrightarrow> \<not> (VEH_triad g v = TRIAD_LAND \<and> at_ocean) \<and> \<not> (VEH_is_probe g a \<and> \<not> VEH_is_probe g v)"

text \<open>The scan of the stack; it stops at an attacker with no strength. \<open>best\<close> is the best score so far (none for the
  smallest integer) and its unit.\<close>

fun defender_scan :: "int \<Rightarrow> bool \<Rightarrow> int \<Rightarrow> int \<Rightarrow> bool \<Rightarrow> bool \<Rightarrow> int list \<Rightarrow> game \<Rightarrow> int option \<times> int \<Rightarrow> (game \<times> int option \<times> int) option" where
  "defender_scan atk combat_type offense_val base_id at_ocean is_airbase [] g best = Some (g, best)"
| "defender_scan atk combat_type offense_val base_id at_ocean is_airbase (i # is) g best =
     (let a = Vehs g atk; v = Vehs g i
      in if may_defend g a at_ocean v
         then (let (g, offense_out, defense_out) = mod_battle_compute atk i (defender_flags g a v) g
               in if offense_out = 0 then Some (g, best)
                  else do {
                    first \<leftarrow> defender_first g a combat_type base_id is_airbase i;
                    let score = defender_score g offense_val offense_out defense_out v first;
                    defender_scan atk combat_type offense_val base_id at_ocean is_airbase is g
                      (if (case fst best of None \<Rightarrow> True | Some b \<Rightarrow> score > b \<or> (score = b \<and> i > snd best))
                       then (Some score, i) else best)
                  })
         else defender_scan atk combat_type offense_val base_id at_ocean is_airbase is g best)"

definition find_defender :: "int \<Rightarrow> int \<Rightarrow> bool \<Rightarrow> game \<Rightarrow> (game \<times> int) option" where
  "find_defender veh_id_def veh_id_atk combat_type g = do {
     let d = Vehs g veh_id_def;
     let (g, offense_val) = mod_get_basic_offense veh_id_atk veh_id_def 0 False False g;
     let (g, base_id) = base_at g (veh_x d) (veh_y d);
     let at_ocean = (base_id < 0 \<and> is_ocean_sq (veh_square g d));
     let is_airbase = square_has g d (\<lambda>s. item_on s BIT_AIRBASE);
     top \<leftarrow> veh_top g veh_id_def;
     xs \<leftarrow> stack_list g top;
     (g, _, best) \<leftarrow> defender_scan veh_id_atk combat_type offense_val base_id at_ocean is_airbase xs g (None, veh_id_def);
     Some (g, best)
   }"

text \<open>The two rows are kept for the odds that are shown; none are kept for artillery.\<close>

definition mod_best_defender :: "int \<Rightarrow> int \<Rightarrow> bool \<Rightarrow> game \<Rightarrow> (game \<times> int \<times> (int \<times> int)) option" where
  "mod_best_defender veh_id_def veh_id_atk combat_type g =
     map_option (\<lambda>(g, veh_id). (g, veh_id, if combat_type then (- 1, - 1) else (veh_id_atk, veh_id)))
       (find_defender veh_id_def veh_id_atk combat_type g)"

section \<open>Promotion and interception\<close>

text \<open>\<open>coin\<close> is \<open>combat_rand(2)\<close>, drawn only when the morale is above disciplined.\<close>

definition promote :: "int \<Rightarrow> int \<Rightarrow> game \<Rightarrow> game" where
  "promote coin veh_id g =
     (let v = Vehs g veh_id
      in if veh_id \<ge> 0 \<and> VEH_is_missile g v = 0 \<and> (VEH_plan g v < PLAN_COLONY \<or> VEH_defense_value g v > 1)
         then let morale = mod_morale_veh g veh_id True 0
              in if veh_morale v < MORALE_ELITE \<and> morale < MORALE_ELITE \<and> (morale \<le> MORALE_DISCIPLINED \<or> coin = 0)
                 then upd_veh veh_id (\<lambda>v. v\<lparr>veh_morale := veh_morale v + 1\<rparr>) g else g
         else g)"

definition interceptor_score :: "game \<Rightarrow> int \<Rightarrow> int \<Rightarrow> int \<Rightarrow> int" where
  "interceptor_score g tx ty i =
     (let v = Vehs g i in 2 * VEH_cur_hitpoints g v * max 1 (VEH_eval_offense g v + 1) - map_range g (veh_x v) (veh_y v) tx ty)"

definition can_intercept :: "game \<Rightarrow> int \<Rightarrow> int \<Rightarrow> int \<Rightarrow> int \<Rightarrow> bool option" where
  "can_intercept g faction_id tx ty i =
     (let v = Vehs g i
      in if veh_faction_id v = faction_id \<and> VEH_triad g v = TRIAD_AIR \<and> has_abil g (veh_unit_id v) ABL_AIR_SUPERIORITY
            \<and> map_range g (veh_x v) (veh_y v) tx ty \<le> conf_intercept_max_range (conf g) \<and> veh_square g v \<noteq> None
         then if square_has g v MAP_is_airbase then Some True
              else map_option (\<lambda>n. n \<noteq> 0) (mod_stack_check g i 6 (uint ABL_CARRIER) (- 1) (- 1))
         else Some False)"

definition interceptor_step :: "game \<Rightarrow> int \<Rightarrow> int \<Rightarrow> int \<Rightarrow> int \<Rightarrow> (int option \<times> int) option \<Rightarrow> (int option \<times> int) option" where
  "interceptor_step g faction_id_def tx ty i r = do {
     best \<leftarrow> r;
     ok \<leftarrow> can_intercept g faction_id_def tx ty i;
     let score = interceptor_score g tx ty i;
     Some (if ok \<and> (case fst best of None \<Rightarrow> True | Some b \<Rightarrow> score \<ge> b) then (Some score, i) else best)
   }"

text \<open>The flight of the aircraft on the screen of a player is not modelled; the unit is put on the square at once.\<close>

definition interceptor :: "int \<Rightarrow> int \<Rightarrow> int \<Rightarrow> game \<Rightarrow> (game \<times> bool) option" where
  "interceptor faction_id_def tx ty g =
     (case fold (interceptor_step g faction_id_def tx ty) [0..VehCount g - 1] (Some (None, - 1)) of
        None \<Rightarrow> None
      | Some (_, veh_id) \<Rightarrow>
          if veh_id < 0 then Some (g, False)
          else map_option (\<lambda>g. (upd_veh veh_id VEH_reset_order g, True)) (veh_put veh_id tx ty g))"

end
