(* ===== verification/Combat_Props.thy ===== *)
theory Combat_Props
  imports Combat
begin

text \<open>
  What the battle code guarantees: odds in lowest terms, morale within its table, strengths that are not negative and
  a defender from the attacked stack.
\<close>

section \<open>Properties\<close>

subsection \<open>Odds\<close>

lemma gcd_loop_gcd: "0 \<le> a \<Longrightarrow> 0 \<le> b \<Longrightarrow> gcd_loop a b = gcd a b"
proof (induction a b rule: gcd_loop.induct)
  case (1 a b)
  show ?case
  proof (cases "b = 0")
    case True
    then show ?thesis using 1(2) by (subst gcd_loop.simps) simp
  next
    case False
    then have m: "a smod b = a mod b" using 1(2,3) by (simp add: smod_nonneg)
    then have "gcd_loop b (a smod b) = gcd b (a mod b)" using 1 False by simp
    then show ?thesis using False m by (subst gcd_loop.simps) (simp add: gcd_red_int [symmetric] gcd.commute)
  qed
qed

lemma integer_gcd_gcd: "integer_gcd a b = (if a = 0 \<and> b = 0 then 1 else gcd a b)"
  by (simp add: integer_gcd_def gcd_loop_gcd Let_def)

lemma sdiv_gcd: "0 < (d :: int) \<Longrightarrow> d dvd a \<Longrightarrow> (a sdiv d) * d = a"
  by (auto simp: signed_divide_int_def abs_mult sgn_mult dvd_def sgn_mult_abs)



subsection \<open>Morale\<close>

lemma morale_levels: "0 \<le> mod_morale_veh g i riot vs \<and> mod_morale_veh g i riot vs \<le> 6
   \<and> (veh_faction_id (Vehs g i) = 0 \<or> VEH_plan g (Vehs g i) \<noteq> PLAN_PROBE \<or> 2 \<le> mod_morale_veh g i riot vs)"
  using clamp_bounds [of 0 6] clamp_bounds [of 2 6]
  by (simp add: mod_morale_veh_def mod_morale_alien_def probe_morale_def Let_def) (meson order_trans zero_le_numeral)

text \<open>The morale of every unit is a level of the table of morale names, between 0 and 6, whatever the unit, its faction, its
  home and the rules; for probe teams it is at least 2. A unit that defends has a morale between 1 and 6.\<close>

theorem morale_bounds:
  "(if veh_faction_id (Vehs g i) \<noteq> 0 \<and> VEH_plan g (Vehs g i) = PLAN_PROBE then 2 else 0) \<le> mod_morale_veh g i riot vs
   \<and> mod_morale_veh g i riot vs \<le> 6
   \<and> 1 \<le> VehBasicBattleMorale (fst (mod_get_basic_defense i j psi bombard g)) 1
   \<and> VehBasicBattleMorale (fst (mod_get_basic_defense i j psi bombard g)) 1 \<le> 6"
proof -
  obtain h b where b: "base_at g (veh_x (Vehs g i)) (veh_y (Vehs g i)) = (h, b)" by fastforce
  have "VehBasicBattleMorale (fst (mod_get_basic_defense i j psi bombard g)) 1 = defense_morale h i j b"
    by (simp add: mod_get_basic_defense_def b set_battle_morale_def Let_def)
  then have "1 \<le> VehBasicBattleMorale (fst (mod_get_basic_defense i j psi bombard g)) 1"
    "VehBasicBattleMorale (fst (mod_get_basic_defense i j psi bombard g)) 1 \<le> 6"
    by (simp_all add: defense_morale_def Let_def clamp_bounds)
  then show ?thesis using morale_levels [of g i riot vs] by auto
qed

subsection \<open>Strengths are not negative\<close>

text \<open>What a battle computation changes: its own globals.\<close>

definition unfought :: "game \<Rightarrow> game" where
  "unfought g = g\<lparr>VehBattleModCount := (\<lambda>_. 0), VehBattleModifier := (\<lambda>_ _. 0), VehBasicBattleMorale := (\<lambda>_. 0), VehBattleState := 0,
     BaseFindDist := 0\<rparr>"

lemma unfought_fields:
  assumes "unfought g' = unfought g"
  shows "Rules g' = Rules g" "MFactions g' = MFactions g" "Factions g' = Factions g" "conf g' = conf g" "Vehs g' = Vehs g"
    "VehCount g' = VehCount g" "BaseCount g' = BaseCount g" "MapTiles g' = MapTiles g" "sq_at g' x y = sq_at g x y"
proof -
  note d = arg_cong [OF assms]
  show 1: "Rules g' = Rules g" "MFactions g' = MFactions g" "Factions g' = Factions g" "conf g' = conf g" "Vehs g' = Vehs g"
    "VehCount g' = VehCount g" "BaseCount g' = BaseCount g" "MapTiles g' = MapTiles g"
    using d [of Rules] d [of MFactions] d [of Factions] d [of conf] d [of Vehs] d [of VehCount] d [of BaseCount] d [of MapTiles]
    by (simp_all add: unfought_def)
  have "MapAreaX g' = MapAreaX g" "MapAreaY g' = MapAreaY g" using d [of MapAreaX] d [of MapAreaY] by (simp_all add: unfought_def)
  then have "mapsq g' x y = mapsq g x y" by (simp add: mapsq_def)
  then show "sq_at g' x y = sq_at g x y" using 1 by (simp add: sq_at_def)
qed

lemma unfought_simps [simp]:
  "unfought (g\<lparr>VehBattleModCount := a\<rparr>) = unfought g" "unfought (g\<lparr>VehBattleModifier := b\<rparr>) = unfought g"
  "unfought (g\<lparr>VehBasicBattleMorale := c\<rparr>) = unfought g" "unfought (g\<lparr>VehBattleState := d\<rparr>) = unfought g"
  "unfought (g\<lparr>BaseFindDist := e\<rparr>) = unfought g"
  by (simp_all add: unfought_def)

lemma unfought_add_bat [simp]: "unfought (add_bat t m g) = unfought g"
  by (simp add: add_bat_def Let_def)

lemma unfought_set_morale [simp]: "unfought (set_battle_morale k m g) = unfought g"
  by (simp add: set_battle_morale_def)

lemma unfought_base_seek [simp]: "unfought (fst (base_seek x y g)) = unfought g"
  by (simp add: base_seek_def split_beta)

lemma unfought_sensor_at [simp]: "unfought (fst (sensor_at f x y m g)) = unfought g"
  by (simp add: sensor_at_def Let_def split_beta)

lemma unfought_sensor_scan [simp]: "unfought (fst (sensor_scan f ts g)) = unfought g"
proof (induction ts arbitrary: g)
  case (Cons t ts)
  obtain x y i m where t: "t = (x, y, i, m)" by (metis prod_cases4)
  obtain h found where h: "sensor_at f x y m g = (h, found)" by fastforce
  have "unfought h = unfought g" using unfought_sensor_at [of f x y m g] h by simp
  then show ?case using Cons [of h] unfolding t by (simp add: h Let_def split_beta)
qed simp

text \<open>The squares agree with the table of bases, so that looking for a base repairs nothing.\<close>

definition bases_marked :: "game \<Rightarrow> bool" where
  "bases_marked g \<longleftrightarrow> 0 < BaseCount g \<or> (\<forall>k. \<not> MAP_is_base (MapTiles g k))"

lemma base_at_same: "bases_marked g \<Longrightarrow> fst (base_at g x y) = g"
  by (auto simp: base_at_def bases_marked_def sq_at_def split: option.split)

text \<open>Rules as the rule files have them: penalties of at most and bonuses of at least minus one hundred percent.\<close>

definition combat_rules_ok :: "crules \<Rightarrow> bool" where
  "combat_rules_ok R \<longleftrightarrow>
     list_all (\<lambda>v. - 100 \<le> v) [rule_combat_bonus_empath_song_vs_psi R, rule_combat_bonus_fanatic R, - rule_combat_penalty_atk_airdrop R,
       rule_combat_land_vs_sea_artillery R, rule_combat_bonus_atk_road R, rule_combat_mobile_open_ground R,
       rule_combat_mobile_def_in_rough R, rule_combat_penalty_atk_lower_elevation R, rule_combat_bonus_atk_higher_elevation R,
       rule_combat_bonus_intrinsic_base_def R, rule_combat_infantry_vs_base R, rule_combat_defend_sensor R,
       rule_combat_bonus_trance_vs_psi R, - rule_combat_penalty_air_supr_vs_ground R, rule_combat_bonus_air_supr_vs_air R,
       - rule_combat_penalty_non_combat_vs_combat R, rule_combat_bonus_vs_ship_port R, rule_combat_comm_jammer_vs_mobile R,
       rule_combat_aaa_bonus_vs_air R]
     \<and> 0 \<le> rule_combat_artillery_bonus_altitude R \<and> 0 \<le> rule_combat_psi_bonus_per_planet R
     \<and> (\<forall>t. 0 \<le> rule_psi_combat_ratio_atk R t \<and> 0 \<le> rule_psi_combat_ratio_def R t)"

definition combat_ok :: "game \<Rightarrow> bool" where
  "combat_ok g \<longleftrightarrow> bases_marked g \<and> combat_rules_ok (Rules g)
     \<and> (\<forall>f. - 100 \<le> mf_rule_psi (MFactions g f) \<and> (\<forall>i. 0 \<le> mf_faction_bonus_val1 (MFactions g f) i)
          \<and> - 100 \<le> f_SE_planet (Factions g f) * rule_combat_psi_bonus_per_planet (Rules g))
     \<and> 0 \<le> conf_dream_twister_bonus (conf g) \<and> 0 \<le> conf_neural_amplifier_bonus (conf g) \<and> 0 \<le> conf_fungal_tower_bonus (conf g)
     \<and> (\<forall>k \<in> {0, 1, 2, 3}. 0 \<le> conf_facility_defense_value (conf g) k)"

lemma combat_ok_cong: "unfought g' = unfought g \<Longrightarrow> combat_ok g \<Longrightarrow> combat_ok g'"
  using unfought_fields [of g' g] by (simp add: combat_ok_def bases_marked_def)

definition fight_ok :: "game \<Rightarrow> battle \<Rightarrow> bool" where
  "fight_ok g0 = (\<lambda>(g, off, def). unfought g = unfought g0 \<and> combat_ok g \<and> 0 \<le> off \<and> 0 \<le> def)"

lemma fight_ok_bat: "fight_ok g0 (g, off, def) \<Longrightarrow> fight_ok g0 (add_bat t m g, off, def)"
  using combat_ok_cong [of "add_bat t m g" g] by (simp add: fight_ok_def)

lemma fight_ok_boost:
  "fight_ok g0 b \<Longrightarrow> - 100 \<le> m \<Longrightarrow> fight_ok g0 (boost_offense m b)"
  "fight_ok g0 b \<Longrightarrow> - 100 \<le> m \<Longrightarrow> fight_ok g0 (boost_defense m b)"
  using combat_ok_cong [of "add_bat t m g" g for t g]
  by (cases b; simp add: fight_ok_def boost_offense_def boost_defense_def sdiv_nonneg pos_imp_zdiv_nonneg_iff)+

lemma fight_ok_when: "fight_ok g0 b \<Longrightarrow> (c \<Longrightarrow> fight_ok g0 (h b)) \<Longrightarrow> fight_ok g0 (when_b c h b)"
  by (simp add: when_b_def)

lemma fight_ok_scale: "fight_ok g0 b \<Longrightarrow> 0 \<le> k \<Longrightarrow> fight_ok g0 (scale_defense k b)"
  by (cases b) (simp add: fight_ok_def scale_defense_def)

lemma fight_ok_fold:
  "fight_ok g0 b \<Longrightarrow> (\<And>b v. v \<in> set vs \<Longrightarrow> fight_ok g0 b \<Longrightarrow> fight_ok g0 (h v b)) \<Longrightarrow> fight_ok g0 (fold h vs b)"
  by (induction vs arbitrary: b) simp_all

lemma fight_ok_when_boost:
  "fight_ok g0 b \<Longrightarrow> - 100 \<le> m \<Longrightarrow> fight_ok g0 (when_b c (boost_offense m) b)"
  "fight_ok g0 b \<Longrightarrow> - 100 \<le> m \<Longrightarrow> fight_ok g0 (when_b c (boost_defense m) b)"
  by (simp_all add: when_b_def fight_ok_boost)

lemmas fight_ok_steps = fight_ok_when_boost fight_ok_boost fight_ok_scale fight_ok_bat

subsubsection \<open>The two strengths to start with\<close>

lemma sdiv_nonneg_nonneg: "0 \<le> (a :: int) \<Longrightarrow> 0 \<le> b \<Longrightarrow> 0 \<le> a sdiv b"
  by (cases "b = 0") (simp_all add: sdiv_nonneg pos_imp_zdiv_nonneg_iff)

lemma psi_factor_nonneg: "combat_ok g \<Longrightarrow> 0 \<le> v \<Longrightarrow> 0 \<le> psi_factor g v f a t"
proof -
  assume ok: "combat_ok g" and v: "0 \<le> v"
  have "- 100 \<le> mf_rule_psi (MFactions g f)" using ok by (simp add: combat_ok_def)
  then have "0 \<le> ((mf_rule_psi (MFactions g f) + 100) * v) sdiv 100" using v by (intro sdiv_nonneg_nonneg) simp_all
  moreover have "0 \<le> w + (w * b) sdiv 100" if "0 \<le> w" "0 \<le> b" for w b :: int using that by (intro add_nonneg_nonneg sdiv_nonneg_nonneg) simp_all
  ultimately show ?thesis using ok v by (auto simp: psi_factor_def combat_ok_def Let_def)
qed

lemma proto_nonneg:
  assumes "combat_ok g"
  shows "0 \<le> mod_offense_proto g u d b" "0 \<le> mod_armor_proto g u a b"
  using assms
  by (simp_all add: mod_offense_proto_def mod_armor_proto_def combat_ok_def combat_rules_ok_def Let_def clamp_def sdiv_nonneg)

lemma clamp_nonneg: "0 \<le> lo \<Longrightarrow> lo \<le> hi \<Longrightarrow> 0 \<le> clamp v lo (hi :: int)"
  by (simp add: clamp_def)

lemma clamp_low: "clamp v lo (0 :: int) \<le> 0 \<or> 0 < lo"
  by (auto simp: clamp_def)

lemma base_morale_nonneg: "0 \<le> base_morale g b f n"
  using clamp_low [of "f_SE_morale (Factions g f)" "- 4"] by (auto simp: base_morale_def Let_def)

lemma offense_morale_nonneg: "0 \<le> offense_morale g a d b False" "0 \<le> offense_morale g a d b True"
proof -
  have 1: "0 \<le> mod_morale_veh g a True 0" using morale_levels by blast
  have 2: "0 \<le> mod_morale_alien g a v" for v by (simp add: mod_morale_alien_def clamp_nonneg Let_def)
  show "0 \<le> offense_morale g a d b False" using 1 2 base_morale_nonneg by (simp add: offense_morale_def Let_def)
  show "0 \<le> offense_morale g a d b True" by (simp add: offense_morale_def Let_def clamp_nonneg)
qed

lemma defense_morale_nonneg: "0 \<le> defense_morale g d a b"
  by (simp add: defense_morale_def Let_def clamp_nonneg)

lemma basic_offense_ok:
  assumes "combat_ok g" "mod_get_basic_offense a d psi bombard tgl g = (g', v)"
  shows "unfought g' = unfought g \<and> combat_ok g' \<and> 0 \<le> v"
proof -
  obtain h b where b: "base_at g (veh_x (Vehs g a)) (veh_y (Vehs g a)) = (h, b)" by fastforce
  have h: "h = g" using base_at_same [of g] assms(1) b by (metis combat_ok_def fst_conv)
  let ?m = "offense_morale g a d b tgl" let ?g = "set_battle_morale (of_bool tgl) ?m g"
  have u: "unfought ?g = unfought g" by simp
  have ok: "combat_ok ?g" by (rule combat_ok_cong [OF u assms(1)])
  have m: "0 \<le> ?m" by (cases tgl) (simp_all add: offense_morale_nonneg)
  have g': "g' = ?g" using assms(2) by (simp add: mod_get_basic_offense_def b h Let_def)
  have "0 \<le> v" using assms(2) m proto_nonneg [OF ok] psi_factor_nonneg [OF ok]
    by (auto simp: mod_get_basic_offense_def b h Let_def split: if_splits)
  then show ?thesis using g' ok by simp
qed

lemma basic_defense_ok:
  assumes "combat_ok g" "mod_get_basic_defense d a psi bombard g = (g', v)"
  shows "unfought g' = unfought g \<and> combat_ok g' \<and> 0 \<le> v"
proof -
  obtain h b where b: "base_at g (veh_x (Vehs g d)) (veh_y (Vehs g d)) = (h, b)" by fastforce
  have h: "h = g" using base_at_same [of g] assms(1) b by (metis combat_ok_def fst_conv)
  let ?m = "defense_morale g d a b" let ?g = "set_battle_morale 1 ?m g"
  have u: "unfought ?g = unfought g" by simp
  have ok: "combat_ok ?g" by (rule combat_ok_cong [OF u assms(1)])
  have g': "g' = ?g" using assms(2) by (auto simp: mod_get_basic_defense_def b h Let_def split: if_splits)
  have "0 \<le> v" using assms(2) defense_morale_nonneg [of g d a b] proto_nonneg [OF ok] psi_factor_nonneg [OF ok]
    by (auto simp: mod_get_basic_defense_def b h Let_def split: if_splits)
  then show ?thesis using g' ok by simp
qed

subsubsection \<open>The steps\<close>

lemma bat_psi_unfought [simp]: "unfought (bat_psi w g) = unfought g"
  by (simp add: bat_psi_def Let_def)

lemma attack_psi_ok: "fight_ok g0 b \<Longrightarrow> fight_ok g0 (attack_psi w b)"
proof -
  assume f: "fight_ok g0 b"
  obtain g off d where b: "b = (g, off, d)" by (metis prod_cases3)
  have "- 100 \<le> rule_combat_bonus_empath_song_vs_psi (Rules g)" using f by (simp add: b fight_ok_def combat_ok_def combat_rules_ok_def)
  then show ?thesis using f unfolding b attack_psi_def prod.case Let_def o_apply by (intro fight_ok_steps) simp_all
qed

lemma rule_bonuses_ok: "combat_ok g \<Longrightarrow> v \<in> set (rule_bonuses g f r) \<Longrightarrow> - 100 \<le> v - 100"
  by (auto simp: rule_bonuses_def combat_ok_def Let_def)

lemma attack_rules_ok: "fight_ok g0 b \<Longrightarrow> fight_ok g0 (attack_rules w b)"
proof -
  assume f: "fight_ok g0 b"
  obtain g off d where b: "b = (g, off, d)" by (metis prod_cases3)
  have ok: "combat_ok g" using f by (simp add: b fight_ok_def)
  have r: "- 100 \<le> rule_combat_bonus_fanatic (Rules g)" "- 100 \<le> - rule_combat_penalty_atk_airdrop (Rules g)"
    "- 100 \<le> f_SE_planet (Factions g k) * rule_combat_psi_bonus_per_planet (Rules g)" for k
    using ok by (simp_all add: combat_ok_def combat_rules_ok_def)
  show ?thesis using f unfolding b attack_rules_def prod.case Let_def o_apply
    by (intro fight_ok_steps fight_ok_fold r) (auto dest: rule_bonuses_ok [OF ok])
qed

lemma battle_attack_ok: "combat_ok g \<Longrightarrow> 0 \<le> d \<Longrightarrow> fight_ok g (battle_attack w (g, x, d))"
proof -
  assume ok: "combat_ok g" and d: "0 \<le> d"
  obtain g' v where v: "mod_get_basic_offense (fi_atk w) (fi_def w) (fi_psi w) (is_bombard g (fi_atk w) (fi_type w)) False g = (g', v)"
    by fastforce
  have "fight_ok g (g', v, d)" using basic_offense_ok [OF ok v] d by (simp add: fight_ok_def)
  then show ?thesis by (simp add: battle_attack_def v attack_rules_ok attack_psi_ok fight_ok_when)
qed

lemma battle_duel_ok: "fight_ok g0 b \<Longrightarrow> fight_ok g0 (battle_duel w b)"
proof -
  assume f: "fight_ok g0 b"
  obtain g off x where b: "b = (g, off, x)" by (metis prod_cases3)
  obtain g' v where v: "mod_get_basic_offense (fi_def w) (fi_atk w) (fi_psi w) (is_bombard g (fi_atk w) (fi_type w)) True g = (g', v)"
    by fastforce
  have ok: "combat_ok g" using f by (simp add: b fight_ok_def)
  note o = basic_offense_ok [OF ok v]
  have f': "fight_ok g0 (g', off, v)" using o f by (simp add: fight_ok_def b)
  have ok': "combat_ok g'" using o by simp
  have r: "- 100 \<le> rule_combat_land_vs_sea_artillery (Rules g')" "0 \<le> rule_combat_artillery_bonus_altitude (Rules g')"
    using ok' by (simp_all add: combat_ok_def combat_rules_ok_def)
  have m: "- 100 \<le> k * rule_combat_artillery_bonus_altitude (Rules g')" if "0 < k" for k :: int
    using r(2) that mult_nonneg_nonneg [of k "rule_combat_artillery_bonus_altitude (Rules g')"] by linarith
  have mn: "- 100 \<le> - k * rule_combat_artillery_bonus_altitude (Rules g')" if "k < 0" for k :: int using m [of "- k"] that by simp
  show ?thesis unfolding b battle_duel_def prod.case Let_def v
    by (simp only: prod.case split: if_split, intro conjI impI; (intro fight_ok_steps f' r m mn)?; (simp add: f')?)
qed

lemma defend_psi_ok: "fight_ok g0 b \<Longrightarrow> fight_ok g0 (defend_psi w base_id b)"
proof -
  assume f: "fight_ok g0 b"
  obtain g off d where b: "b = (g, off, d)" by (metis prod_cases3)
  have ok: "combat_ok g" using f by (simp add: b fight_ok_def)
  have p: "- 100 \<le> f_SE_planet (Factions g k) * rule_combat_psi_bonus_per_planet (Rules g)" for k
    using ok by (simp add: combat_ok_def)
  have "- 100 \<le> x sdiv 2" if "- 100 \<le> x" for x :: int using that by (cases "0 \<le> x") (simp_all add: c_arith)
  then have m: "- 100 \<le> (f_SE_planet (Factions g k) * rule_combat_psi_bonus_per_planet (Rules g)) sdiv (if c then 2 else 1)" for k c
    using p by simp
  have "- 100 \<le> rule_combat_bonus_intrinsic_base_def (Rules g)" using ok by (simp add: combat_ok_def combat_rules_ok_def)
  then show ?thesis using f unfolding b defend_psi_def prod.case Let_def o_apply by (intro fight_ok_steps m) simp_all
qed

lemma shell_ok: "fight_ok g0 b \<Longrightarrow> 0 \<le> m \<Longrightarrow> 0 \<le> h \<Longrightarrow> fight_ok g0 (shell_downhill m h b)"
proof -
  assume f: "fight_ok g0 b" and m: "0 \<le> m" "0 \<le> h"
  obtain g off d where b: "b = (g, off, d)" by (metis prod_cases3)
  have "0 \<le> (off * (m * h + 100)) sdiv 100" using f m by (intro sdiv_nonneg_nonneg mult_nonneg_nonneg) (simp_all add: b fight_ok_def)
  then show ?thesis using f fight_ok_bat [of g0 g off d 0 m] by (simp add: b shell_downhill_def fight_ok_def)
qed

lemma land_attack_ok: "fight_ok g0 b \<Longrightarrow> fight_ok g0 (land_attack w base_id t b)"
proof -
  assume f: "fight_ok g0 b"
  obtain g off d where b: "b = (g, off, d)" by (metis prod_cases3)
  have ok: "combat_ok g" using f by (simp add: b fight_ok_def)
  have r: "- 100 \<le> rule_combat_bonus_atk_higher_elevation (Rules g)" "- 100 \<le> rule_combat_penalty_atk_lower_elevation (Rules g)"
    "- 100 \<le> rule_combat_bonus_atk_road (Rules g)" "- 100 \<le> rule_combat_mobile_def_in_rough (Rules g)"
    "- 100 \<le> rule_combat_mobile_open_ground (Rules g)" "0 \<le> rule_combat_artillery_bonus_altitude (Rules g)"
    using ok by (simp_all add: combat_ok_def combat_rules_ok_def)
  show ?thesis using f unfolding b land_attack_def prod.case Let_def o_apply by (intro fight_ok_steps fight_ok_when shell_ok r) simp_all
qed

lemma cover_ok:
  assumes "fight_ok g0 b" "cover_multiplier w base_id b = (b', m)"
  shows "fight_ok g0 b' \<and> 0 \<le> m"
proof -
  obtain g off d where b: "b = (g, off, d)" by (metis prod_cases3)
  have ok: "combat_ok g" using assms(1) by (simp add: b fight_ok_def)
  have r: "- 100 \<le> rule_combat_bonus_intrinsic_base_def (Rules g)" "- 100 \<le> rule_combat_infantry_vs_base (Rules g)"
    using ok by (simp_all add: combat_ok_def combat_rules_ok_def)
  have fac: "0 \<le> base_defense_bonus g t i" for t i using ok by (simp add: base_defense_bonus_def combat_ok_def Let_def)
  show ?thesis
  proof (cases "base_id \<ge> 0")
    case True
    have "fight_ok g0 b'" "m = 100 \<or> m = 100 + base_defense_bonus g (VEH_triad g (Vehs g (fi_atk w))) base_id"
      using assms(2) True unfolding b cover_multiplier_def prod.case Let_def
      by (auto intro!: fight_ok_steps r assms(1) [unfolded b] split: if_splits)
    then show ?thesis using fac [of "VEH_triad g (Vehs g (fi_atk w))" base_id] by auto
  next
    case False
    then show ?thesis using assms unfolding b cover_multiplier_def prod.case Let_def by (auto split: if_splits)
  qed
qed

lemma terrain_bounds: "2 \<le> terrain_defense g d a \<and> terrain_defense g d a \<le> 4"
  by (simp add: terrain_defense_def Let_def split: option.split)

lemma defend_ground_ok: "fight_ok g0 b \<Longrightarrow> fight_ok g0 (defend_ground w base_id b)"
proof -
  assume f: "fight_ok g0 b"
  obtain g off d where b: "b = (g, off, d)" by (metis prod_cases3)
  let ?t = "terrain_defense g (Vehs g (fi_def w)) (Some (Vehs g (fi_atk w)))"
  obtain g1 off1 d1 where l: "when_b (VEH_triad g (Vehs g (fi_atk w)) = TRIAD_LAND) (land_attack w base_id ?t) (g, off, d) = (g1, off1, d1)"
    by (metis prod_cases3)
  have 1: "fight_ok g0 (g1, off1, d1)" unfolding l [symmetric] using f land_attack_ok by (intro fight_ok_when) (simp_all add: b)
  define g2 where "g2 = (if ?t > 2 then add_bat 1 (50 * ?t - 100) g1 else g1)"
  have "fight_ok g0 (g2, off1, d1)" using 1 fight_ok_bat [OF 1] by (simp add: g2_def)
  moreover have "0 \<le> ?t" using terrain_bounds [of g "Vehs g (fi_def w)" "Some (Vehs g (fi_atk w))"] by linarith
  ultimately have 2: "fight_ok g0 (g2, off1, d1 * ?t)" by (simp add: fight_ok_def)
  obtain b3 m where c: "cover_multiplier w base_id (g2, off1, d1 * ?t) = (b3, m)" by fastforce
  obtain g3 off3 d3 where b3: "b3 = (g3, off3, d3)" by (metis prod_cases3)
  have 3: "fight_ok g0 (g3, off3, d3)" "0 \<le> m" using cover_ok [OF 2 c] by (simp_all add: b3)
  have "0 \<le> (d3 * m) sdiv 50" using 3 by (intro sdiv_nonneg_nonneg mult_nonneg_nonneg) (simp_all add: fight_ok_def)
  then have "fight_ok g0 (apply_cover (b3, m))"
    using 3 fight_ok_bat [OF 3(1), of 1 "m - 100"] by (simp add: apply_cover_def b3 fight_ok_def)
  moreover have "defend_ground w base_id b = apply_cover (b3, m)"
    unfolding defend_ground_def b prod.case Let_def l g2_def [symmetric] c ..
  ultimately show ?thesis by simp
qed

lemma flechette_nonneg: "0 \<le> v \<Longrightarrow> 0 \<le> (flechette_step ^^ n) v"
  by (induction n) (simp_all add: flechette_step_def sdiv_nonneg_nonneg)

lemma defend_sensors_ok: "fight_ok g0 b \<Longrightarrow> fight_ok g0 (defend_sensors w b)"
proof -
  assume f: "fight_ok g0 b"
  obtain g off d where b: "b = (g, off, d)" by (metis prod_cases3)
  let ?d = "Vehs g (fi_def w)"
  obtain g1 s p where s: "sensor_scan (veh_faction_id ?d) (iterate_tiles g (veh_x ?d) (veh_y ?d) 0 25) g = (g1, s, p)"
    by (metis prod_cases3)
  have u: "unfought g1 = unfought g" using unfought_sensor_scan [of "veh_faction_id ?d" "iterate_tiles g (veh_x ?d) (veh_y ?d) 0 25" g] s by simp
  have 1: "fight_ok g0 (g1, off, d)" using f u combat_ok_cong [OF u] by (simp add: b fight_ok_def)
  obtain g2 off2 d2 where fl: "defend_flechette w (g1, off, d) = (g2, off2, d2)" by (metis prod_cases3)
  have 2: "fight_ok g0 (g2, off2, d2)"
    using fl 1 fight_ok_bat [OF 1] flechette_nonneg [of d] by (auto simp: defend_flechette_def fight_ok_def Let_def split: if_splits)
  have "- 100 \<le> rule_combat_defend_sensor (Rules g)" using f by (simp add: b fight_ok_def combat_ok_def combat_rules_ok_def)
  then show ?thesis using 2 unfolding b defend_sensors_def prod.case Let_def s fl o_apply by (intro fight_ok_steps)
qed

lemma defend_abilities_ok: "fight_ok g0 b \<Longrightarrow> fight_ok g0 (defend_abilities w base_id b)"
proof -
  assume f: "fight_ok g0 b"
  obtain g off d where b: "b = (g, off, d)" by (metis prod_cases3)
  have ok: "combat_ok g" using f by (simp add: b fight_ok_def)
  have r: "- 100 \<le> rule_combat_aaa_bonus_vs_air (Rules g)" "- 100 \<le> rule_combat_comm_jammer_vs_mobile (Rules g)"
    "- 100 \<le> rule_combat_bonus_vs_ship_port (Rules g)" "- 100 \<le> - rule_combat_penalty_non_combat_vs_combat (Rules g)"
    "- 100 \<le> rule_combat_bonus_air_supr_vs_air (Rules g)" "- 100 \<le> - rule_combat_penalty_air_supr_vs_ground (Rules g)"
    "- 100 \<le> rule_combat_bonus_trance_vs_psi (Rules g)"
    using ok by (simp_all add: combat_ok_def combat_rules_ok_def)
  show ?thesis using f unfolding b defend_abilities_def prod.case Let_def o_apply by (intro fight_ok_steps r) simp_all
qed

lemma battle_defense_ok: "fight_ok g0 b \<Longrightarrow> fight_ok g0 (battle_defense w b)"
proof -
  assume f: "fight_ok g0 b"
  obtain g off x where b: "b = (g, off, x)" by (metis prod_cases3)
  have ok: "combat_ok g" using f by (simp add: b fight_ok_def)
  obtain g1 d where d: "mod_get_basic_defense (fi_def w) (fi_atk w) (fi_psi w) (is_bombard g (fi_atk w) (fi_type w)) g = (g1, d)"
    by fastforce
  note o = basic_defense_ok [OF ok d]
  have 1: "fight_ok g0 (g1, off, d)" using o f by (simp add: fight_ok_def b)
  obtain g2 off2 d2 where r: "fold (\<lambda>v. boost_defense (v - 100)) (rule_bonuses g1 (veh_faction_id (Vehs g1 (fi_def w))) RULE_DEFENSE) (g1, off, d)
      = (g2, off2, d2)" by (metis prod_cases3)
  have 2: "fight_ok g0 (g2, off2, d2)" proof (unfold r [symmetric], rule fight_ok_fold [OF 1])
    fix b v assume v: "v \<in> set (rule_bonuses g1 (veh_faction_id (Vehs g1 (fi_def w))) RULE_DEFENSE)" "fight_ok g0 b"
    have "combat_ok g1" using o by simp
    then show "fight_ok g0 (boost_defense (v - 100) b)" by (intro fight_ok_boost v(2) rule_bonuses_ok [OF _ v(1)])
  qed
  have full: "fight_ok g0 (defend_fully w (g2, off2, d2))"
  proof -
    obtain h base_id where h: "base_at g2 (veh_x (Vehs g2 (fi_def w))) (veh_y (Vehs g2 (fi_def w))) = (h, base_id)" by fastforce
    have "bases_marked g2" using 2 by (simp add: fight_ok_def combat_ok_def)
    from base_at_same [OF this] have hg: "h = g2" using h by (metis fst_conv)
    let ?b = "if fi_psi w \<noteq> 0 then defend_psi w base_id (g2, off2, d2) else defend_ground w base_id (g2, off2, d2)"
    have "fight_ok g0 ?b" using defend_psi_ok [OF 2] defend_ground_ok [OF 2] by simp
    then have "fight_ok g0 (when_b c (defend_sensors w) ?b)" for c by (intro fight_ok_when defend_sensors_ok)
    then show ?thesis unfolding defend_fully_def prod.case Let_def h hg by (intro defend_abilities_ok)
  qed
  have "fight_ok g0 (g2, off2, d2 * 4)" using 2 by (simp add: fight_ok_def)
  then show ?thesis using full unfolding b battle_defense_def prod.case Let_def d r by (simp split: if_split)
qed

lemma battle_compute_ok:
  assumes "combat_ok g"
  shows "fight_ok g (mod_battle_compute a d t g)"
proof -
  let ?g = "g\<lparr>VehBattleModCount := (VehBattleModCount g)(0 := 0, 1 := 0), VehBattleState := 0\<rparr>"
  let ?w = "\<lparr>fi_atk = a, fi_def = d, fi_type = t, fi_psi = psi_kind ?g a d t\<rparr>"
  have u: "unfought (bat_psi ?w ?g) = unfought g" by simp
  have "fight_ok (bat_psi ?w ?g) (battle_attack ?w (bat_psi ?w ?g, 8, 8))"
    by (intro battle_attack_ok combat_ok_cong [OF u assms]) simp
  then have f: "fight_ok g (battle_attack ?w (bat_psi ?w ?g, 8, 8))" using u by (simp add: fight_ok_def)
  show ?thesis unfolding mod_battle_compute_def Let_def
    by (split if_split, intro conjI impI battle_duel_ok battle_defense_ok f)
qed


lemma blank_combat_ok: "combat_ok (blank_game\<lparr>BaseCount := 1\<rparr>)"
  by (simp add: combat_ok_def bases_marked_def combat_rules_ok_def blank_game_def blank_crules_def numeral_eq_Suc blank_mfaction_def blank_faction_def
      default_conf_def)


subsection \<open>The defender\<close>

lemma stack_list_seg: "seg g p a xs (- 1) \<Longrightarrow> stack_list g (hd_or (- 1) xs) = Some xs"
proof (induction xs arbitrary: a)
  case Nil
  then show ?case by (subst stack_list.simps) simp
next
  case (Cons x xs)
  then have "seg g p x xs (- 1)" "veh_next_veh_id_stack (Vehs g x) = hd_or (- 1) xs" "0 \<le> x" by (simp_all add: links_def Let_def)
  with Cons.IH [of x] show ?case by (subst stack_list.simps) simp
qed

lemma stack_of:
  assumes "stacks_ok g S" "i \<in> set (S p)"
  shows "veh_top g i = Some (hd (S p)) \<and> stack_list g (hd (S p)) = Some (S p)"
proof -
  have "hd (S p) = hd_or (- 1) (S p)" using assms(2) by (cases "S p") simp_all
  then show ?thesis using veh_top_ok [OF assms] stack_list_seg [OF stacks_ok_seg(2) [OF assms(1)], of p] by simp
qed

lemma mod_stack_check_sum:
  "stacks_ok g S \<Longrightarrow> i \<in> set (S p) \<Longrightarrow>
    mod_stack_check g i type c1 c2 c3 = Some (sum_list (map (stack_value g type c1 c2 c3) (S p)))"
  using stack_of [of g S i p] by (simp add: mod_stack_check_def)

lemma unfought_stacks:
  assumes "unfought g' = unfought g" "stacks_ok g S"
  shows "stacks_ok g' S"
proof -
  note f = unfought_fields [OF assms(1)]
  have "seg g' p a xs b = seg g p a xs b" for p a xs b using f by (intro seg_cong) (simp_all add: links_def)
  then show ?thesis using assms(2) f by (simp add: stacks_ok_def)
qed

lemma unfought_probe: "unfought g' = unfought g \<Longrightarrow> VEH_is_probe g' v = VEH_is_probe g v"
proof -
  assume u: "unfought g' = unfought g"
  have "Units g' = Units g" using arg_cong [OF u, of Units] by (simp add: unfought_def)
  then show ?thesis by (simp add: VEH_is_probe_def)
qed

lemma defender_first_returns:
  "stacks_ok g S \<Longrightarrow> i \<in> set (S p) \<Longrightarrow> \<exists>b. defender_first g a ct base_id air i = Some b"
  by (simp add: defender_first_def mod_stack_check_sum Let_def)

lemma defender_scan_ok:
  assumes "stacks_ok g S" "combat_ok g" "set xs \<subseteq> set (S p)" "best \<in> set (S p)"
    and "best = i \<or> \<not> VEH_is_probe g (Vehs g atk) \<or> VEH_is_probe g (Vehs g best)"
  shows "\<exists>g' s b. defender_scan atk ct ov base_id oc air xs g (sc, best) = Some (g', s, b) \<and> b \<in> set (S p)
    \<and> unfought g' = unfought g \<and> (b = i \<or> \<not> VEH_is_probe g (Vehs g atk) \<or> VEH_is_probe g (Vehs g b))"
  using assms
proof (induction xs arbitrary: g sc best)
  case (Cons x xs)
  let ?m = "may_defend g (Vehs g atk) oc (Vehs g x)"
  show ?case
  proof (cases ?m)
    case False
    then show ?thesis using Cons.IH [of g best sc] Cons.prems by simp
  next
    case True
    obtain g1 oo dd where r: "mod_battle_compute atk x (defender_flags g (Vehs g atk) (Vehs g x)) g = (g1, oo, dd)"
      by (metis prod_cases3)
    have u: "unfought g1 = unfought g" "combat_ok g1"
      using battle_compute_ok [OF Cons.prems(2), of atk x "defender_flags g (Vehs g atk) (Vehs g x)"] r by (simp_all add: fight_ok_def)
    have x: "x \<in> set (S p)" using Cons.prems(3) by simp
    note st = unfought_stacks [OF u(1) Cons.prems(1)]
    note pr = unfought_probe [OF u(1)] and V = unfought_fields(5) [OF u(1)]
    show ?thesis
    proof (cases "oo = 0")
      case True
      then show ?thesis using \<open>?m\<close> r u Cons.prems by (simp add: Let_def)
    next
      case False
      obtain first where f: "defender_first g1 (Vehs g atk) ct base_id air x = Some first"
        using defender_first_returns [OF st x] by blast
      let ?score = "defender_score g1 ov oo dd (Vehs g x) first"
      let ?new = "case sc of None \<Rightarrow> True | Some b \<Rightarrow> ?score > b \<or> (?score = b \<and> x > best)"
      have p: "VEH_is_probe g (Vehs g x) \<or> \<not> VEH_is_probe g (Vehs g atk)" using \<open>?m\<close> by (auto simp: may_defend_def)
      define new where "new \<longleftrightarrow> ?new"
      have step: "defender_scan atk ct ov base_id oc air (x # xs) g (sc, best)
          = defender_scan atk ct ov base_id oc air xs g1 (if new then Some ?score else sc, if new then x else best)"
        using \<open>?m\<close> False r f by (cases new; cases sc) (auto simp: new_def Let_def)
      have "\<exists>g' s b. defender_scan atk ct ov base_id oc air xs g1 (if new then Some ?score else sc, if new then x else best) = Some (g', s, b)
        \<and> b \<in> set (S p) \<and> unfought g' = unfought g1 \<and> (b = i \<or> \<not> VEH_is_probe g1 (Vehs g1 atk) \<or> VEH_is_probe g1 (Vehs g1 b))"
        using Cons.prems x p by (intro Cons.IH st u(2)) (auto simp: pr V)
      then show ?thesis using u(1) unfolding step by (simp add: pr V)
    qed
  qed
qed simp

text \<open>C16: The choice of a defender ends and is sound: on settled stacks \<open>mod_best_defender\<close> returns a unit of the attacked stack
  (the one that was asked about when no other may fight), a probe team is met by a probe team unless that is so, only the
  globals of battles change, and artillery leaves no pair of units for the odds that are shown.\<close>

theorem best_defender_in_stack:
  assumes "stacks_ok g S" "i \<in> set (S p)" "combat_ok g"
  shows "\<exists>g' best. mod_best_defender i atk ct g = Some (g', best, if ct then (- 1, - 1) else (atk, best))
    \<and> best \<in> set (S p) \<and> unfought g' = unfought g
    \<and> (best = i \<or> \<not> VEH_is_probe g (Vehs g atk) \<or> VEH_is_probe g (Vehs g best))"
proof -
  obtain g1 ov where o: "mod_get_basic_offense atk i 0 False False g = (g1, ov)" by fastforce
  note o1 = basic_offense_ok [OF assms(3) o]
  obtain g2 base_id where b: "base_at g1 (veh_x (Vehs g i)) (veh_y (Vehs g i)) = (g2, base_id)" by fastforce
  have "bases_marked g1" using o1 by (simp add: combat_ok_def)
  from base_at_same [OF this] have g2: "g2 = g1" using b by (metis fst_conv)
  have u: "unfought g1 = unfought g" "combat_ok g1" using o1 by simp_all
  note st = unfought_stacks [OF u(1) assms(1)]
  have top: "veh_top g1 i = Some (hd (S p))" "stack_list g1 (hd (S p)) = Some (S p)" using stack_of [OF st assms(2)] by simp_all
  let ?oc = "base_id < 0 \<and> is_ocean_sq (veh_square g1 (Vehs g i))"
  let ?air = "square_has g1 (Vehs g i) (\<lambda>s. item_on s BIT_AIRBASE)"
  obtain g' s best where r: "defender_scan atk ct ov base_id ?oc ?air (S p) g1 (None, i) = Some (g', s, best)"
    "best \<in> set (S p)" "unfought g' = unfought g1"
    "best = i \<or> \<not> VEH_is_probe g1 (Vehs g1 atk) \<or> VEH_is_probe g1 (Vehs g1 best)"
    using defender_scan_ok [OF st u(2) subset_refl assms(2), of i atk ct ov base_id ?oc ?air None] by blast
  have "find_defender i atk ct g = Some (g', best)"
    unfolding find_defender_def Let_def o prod.case b g2 by (simp add: top r(1) [simplified])
  then show ?thesis using r(2-4) u(1) by (auto simp: mod_best_defender_def unfought_probe [OF u(1)] unfought_fields(5) [OF u(1)])
qed

definition duel_game :: game where
  "duel_game = blank_game\<lparr>BaseCount := 1, VehCount := 1,
     Vehs := (\<lambda>_. blank_veh\<lparr>veh_next_veh_id_stack := - 1, veh_prev_veh_id_stack := - 1\<rparr>)\<rparr>"

lemma duel_stacks: "stacks_ok duel_game (\<lambda>p. if p = (0, 0) then [0] else [])"
  by (simp add: stacks_ok_def duel_game_def blank_game_def blank_veh_def links_def sq_at_def mapsq_def)

lemma duel_ok: "combat_ok duel_game"
  using blank_combat_ok by (simp add: duel_game_def combat_ok_def bases_marked_def)

lemma best_defender_in_stack_witness:
  "\<exists>g'. mod_best_defender 0 0 False duel_game = Some (g', 0, 0, 0)"
proof -
  obtain g' b where "mod_best_defender 0 0 False duel_game = Some (g', b, 0, b)" "b \<in> set [0]"
    using best_defender_in_stack [OF duel_stacks _ duel_ok, of 0 "(0, 0)" 0 False] by auto
  then show ?thesis by auto
qed

end
