(* ===== verification/Veh_Life.thy ===== *)
theory Veh_Life
  imports Combat_Props Goals
begin

text \<open>
  The life of a unit (veh.cpp): how it is made and placed, boards a transport, is lost with its cargo or in battle, uses a
  monolith, is upgraded and takes the simple orders. Messages, drawing and the network are not modelled; the numbers that the
  generator delivers and the answers of the player are arguments.
\<close>

section \<open>New units (veh.cpp)\<close>

abbreviation (input) ORDERA_TERRA_AUTO_FULL :: int where "ORDERA_TERRA_AUTO_FULL \<equiv> 0"
abbreviation (input) ORDERA_ON_ALERT :: int where "ORDERA_ON_ALERT \<equiv> 11"

definition add_active :: "int \<Rightarrow> int \<Rightarrow> int \<Rightarrow> game \<Rightarrow> game" where
  "add_active faction_id unit_id n g = upd_faction faction_id (\<lambda>f. f\<lparr>f_units_active :=
     (f_units_active f)(unit_id := (f_units_active f unit_id + n) mod 256)\<rparr>) g"

definition veh_clear :: "int \<Rightarrow> int \<Rightarrow> int \<Rightarrow> game \<Rightarrow> game" where
  "veh_clear veh_id unit_id faction_id g = upd_veh veh_id (\<lambda>v. v\<lparr>
     veh_x := - 4, veh_y := - 4, veh_state := 0, veh_flags := 0, veh_pad_0 := 0, veh_unit_id := s16 unit_id,
     veh_faction_id := faction_id mod 256, veh_year_end_lurking := 0, veh_damage_taken := 0, veh_order := ORDER_NONE,
     veh_waypoint_count := 0, veh_patrol_current_point := 0,
     veh_waypoint_x := (\<lambda>i. if 0 \<le> i \<and> i < 4 then - 1 else veh_waypoint_x v i),
     veh_waypoint_y := (\<lambda>i. if 0 \<le> i \<and> i < 4 then - 1 else veh_waypoint_y v i),
     veh_morale := clamp (mf_rule_morale (MFactions g faction_id) + 1) 0 (MaxMoraleNum - 1), veh_movement_turns := 0,
     veh_order_auto_type := 0, veh_visibility := 0, veh_moves_spent := 0, veh_rotate_angle := 2, veh_iter_count := 0,
     veh_status_icon := 0, veh_probe_action := 0, veh_probe_sabotage_id := 0, veh_home_base_id := - 1,
     veh_next_veh_id_stack := - 1, veh_prev_veh_id_stack := - 1\<rparr>) g"

text \<open>
  The last part of \<open>veh_init\<close>: whether the unit joins the force that is to attack the faction's target. \<open>rnd\<close> is the
  number that \<open>game_rand\<close> delivers.
\<close>

definition nearest_enemy :: "faction \<Rightarrow> int \<Rightarrow> int \<Rightarrow> int" where
  "nearest_enemy plr faction_id region_id = fst (fold (\<lambda>i (best, bases).
     if i \<noteq> faction_id \<and> f_diplo_status plr i AND DIPLO_VENDETTA \<noteq> 0 \<and> f_region_total_bases plr region_id > bases
     then (i, f_region_total_bases plr region_id) else (best, bases)) [1..MaxPlayerNum - 1] (- 1, 0))"

definition force_candidate :: "game \<Rightarrow> int \<Rightarrow> int \<Rightarrow> tile \<Rightarrow> bool" where
  "force_candidate g veh_id faction_id sq \<longleftrightarrow>
     (let plr = Factions g faction_id; plan = unit_plan (Units g (veh_unit_id (Vehs g veh_id)))
      in f_target_x plr \<ge> 0 \<and> \<not> is_ocean_sq (Some sq) \<and> (plan \<le> PLAN_DEFENSE \<or> plan = PLAN_PROBE)
         \<and> region_at g (f_target_x plr) (f_target_y plr) = uint (sq_region sq))"

text \<open>The search for the enemy's nearest base leaves its distance in a global.\<close>

definition target_far :: "int \<Rightarrow> int \<Rightarrow> int \<Rightarrow> int \<Rightarrow> game \<Rightarrow> game \<times> bool" where
  "target_far faction_id region_id x y g =
     (let plr = Factions g faction_id; best_enemy = nearest_enemy plr faction_id region_id
      in if best_enemy \<ge> 0
         then (let dist = fst (base_find_3 g x y best_enemy region_id (- 1) (- 1))
               in (g\<lparr>BaseFindDist := dist\<rparr>, vector_dist g x y (f_target_x plr) (f_target_y plr) > dist))
         else (g, False))"

definition force_open :: "game \<Rightarrow> int \<Rightarrow> int \<Rightarrow> int \<Rightarrow> bool" where
  "force_open g veh_id faction_id region_id \<longleftrightarrow>
     (let plr = Factions g faction_id; unit_id = veh_unit_id (Vehs g veh_id);
          target = clamp ((2 * f_region_total_bases plr region_id) sdiv 3) 3 8;
          target = (if f_region_base_plan plr region_id = 7 then min target ((2 * f_unk_70 plr) sdiv 0x400000) else target)
      in f_unk_71 plr - int (pop_count (word_of_int (f_unk_72 plr))) < target
         \<and> UNIT_triad g (Units g unit_id) = TRIAD_LAND \<and> \<not> has_abil g unit_id ABL_DROP_POD)"

definition join_force :: "int \<Rightarrow> int \<Rightarrow> int \<Rightarrow> game \<Rightarrow> game" where
  "join_force mark veh_id faction_id g =
     upd_faction faction_id (\<lambda>f. f\<lparr>f_unk_71 := f_unk_71 f + 1, f_unk_72 := f_unk_72 f OR mark\<rparr>)
       (upd_veh veh_id (\<lambda>v. v\<lparr>veh_state := veh_state v OR VSTATE_UNK_40000\<rparr>) g)"

definition assign_force :: "int \<Rightarrow> int \<Rightarrow> int \<Rightarrow> int \<Rightarrow> int \<Rightarrow> game \<Rightarrow> game" where
  "assign_force rnd veh_id faction_id x y g =
     (let plr = Factions g faction_id; unit = Units g (veh_unit_id (Vehs g veh_id));
          weap_val = weap_strat g (unit_weapon_id unit) faction_id; arm_val = arm_strat g (unit_armor_id unit) faction_id
      in case sq_at g x y of None \<Rightarrow> g
         | Some sq \<Rightarrow>
            if \<not> force_candidate g veh_id faction_id sq then g
            else let region_id = uint (sq_region sq); plan = f_region_base_plan plr region_id;
                     (g, far) = target_far faction_id region_id x y g
            in if far \<or> \<not> force_open g veh_id faction_id region_id then g
               else if unit_plan unit = PLAN_PROBE
               then (if f_unk_72 plr AND 2 = 0 then join_force 2 veh_id faction_id g else g)
               else if weap_val \<ge> arm_val \<and> plan \<noteq> 7
                 \<and> rnd smod (clamp ((2 * f_region_total_bases plr region_id) sdiv 3) 3 8 + 2) = 0
               then upd_veh veh_id (\<lambda>v. v\<lparr>veh_state := veh_state v OR VSTATE_UNK_20000\<rparr>) g
               else if weap_val < arm_val \<and> (f_unk_72 plr AND 1 \<noteq> 0 \<or> plan = 7) then g
               else join_force (if weap_val < arm_val then 1 else 0) veh_id faction_id g)"

text \<open>\<open>spot_all\<close>, which updates who sees the square, is a function of the engine.\<close>

definition veh_home :: "int \<Rightarrow> int \<Rightarrow> int \<Rightarrow> int \<Rightarrow> int \<Rightarrow> game \<Rightarrow> game" where
  "veh_home veh_id unit_id faction_id x y g =
     (let (dist, base_id) = base_find g x y; g = g\<lparr>BaseFindDist := dist\<rparr>
      in if unit_plan (Units g unit_id) = PLAN_ARTIFACT
         then (if GameState g AND STATE_SCN_VICT_ALL_ARTIFACTS_OBJ_UNIT \<noteq> 0
               then upd_veh veh_id (\<lambda>v. v\<lparr>veh_flags := veh_flags v OR VFLAG_IS_OBJECTIVE\<rparr>) g else g)
         else if base_id \<ge> 0 \<and> base_faction_id (Bases g base_id) = faction_id
         then let g = upd_veh veh_id (\<lambda>v. v\<lparr>veh_home_base_id := s16 base_id\<rparr>) g
              in if ComputeBaseID g = base_id then g\<lparr>ComputeBaseID := - 1\<rparr> else g
         else g)"

definition veh_init :: "(int \<Rightarrow> bool \<Rightarrow> game \<Rightarrow> game) \<Rightarrow> int \<Rightarrow> int \<Rightarrow> int \<Rightarrow> int \<Rightarrow> int \<Rightarrow> game \<Rightarrow> (game \<times> int) option" where
  "veh_init spot_all rnd unit_id faction_id x y g =
     (if VehCount g \<ge> conf_max_veh_num (conf g) then Some (g, - 1)
      else do {
        let veh_id = VehCount g;
        let g = g\<lparr>VehCount := VehCount g + 1\<rparr>;
        let g = (if unit_plan (Units g unit_id) \<le> PLAN_NAVAL_TRANSPORT
                 then upd_faction faction_id (\<lambda>f. f\<lparr>f_total_combat_units := f_total_combat_units f + 1\<rparr>) g else g);
        let g = veh_home veh_id unit_id faction_id x y (veh_clear veh_id unit_id faction_id (add_active faction_id unit_id 1 g));
        g \<leftarrow> veh_drop veh_id x y g;
        Some (assign_force rnd veh_id faction_id x y (spot_all veh_id True g), veh_id)
      })"

definition veh_init_free :: "(int \<Rightarrow> bool \<Rightarrow> game \<Rightarrow> game) \<Rightarrow> int \<Rightarrow> int \<Rightarrow> int \<Rightarrow> int \<Rightarrow> int \<Rightarrow> game \<Rightarrow> (game \<times> int) option" where
  "veh_init_free spot_all rnd unit_id faction_id x y g = do {
     (g, veh_id) \<leftarrow> veh_init spot_all rnd unit_id faction_id x y g;
     Some (if veh_id \<ge> 0
       then upd_veh veh_id (\<lambda>v. let v = v\<lparr>veh_home_base_id := - 1\<rparr>
         in if thinker_move_upkeep g faction_id
            then v\<lparr>veh_state := (veh_state v OR VSTATE_UNK_40000) AND NOT VSTATE_UNK_2000\<rparr> else v) g
       else g, veh_id)
   }"

definition veh_fake :: "int \<Rightarrow> int \<Rightarrow> game \<Rightarrow> game \<times> int" where
  "veh_fake unit_id faction_id g = (let i = conf_max_veh_num (conf g) in (veh_clear i unit_id faction_id g, i))"

section \<open>Boarding a transport (veh.cpp)\<close>

text \<open>
  \<open>stack_veh\<close> loads the units of a stack into a transport: with a flag they are lifted off the map with it,
  otherwise they are only marked. \<open>load_unit\<close> is the lambda \<open>do_load\<close>; the two counters are the free places for land units and
  for aircraft.
\<close>

type_synonym boarding = "game \<times> int \<times> int"

definition load_unit :: "bool \<Rightarrow> int \<Rightarrow> int \<Rightarrow> boarding \<Rightarrow> boarding option" where
  "load_unit lifted veh_id cur = (\<lambda>(g, cargo_val, carrier_val).
     if lifted \<or> veh_state (Vehs g cur) AND VSTATE_IN_TRANSPORT = 0
     then do {
       let g = upd_veh cur (\<lambda>v. v\<lparr>veh_waypoint_x := (veh_waypoint_x v)(0 := s16 veh_id)\<rparr>) (sleep cur g);
       g \<leftarrow> (if lifted
         then map_option (upd_veh cur (\<lambda>v. v\<lparr>veh_state := veh_state v AND NOT VSTATE_UNK_10000\<rparr>)) (veh_put cur (- 2) (- 2) g)
         else Some (upd_veh cur (\<lambda>v. v\<lparr>veh_state := veh_state v OR VSTATE_IN_TRANSPORT\<rparr>) g));
       Some (g, if cargo_val > 0 then cargo_val - 1 else cargo_val, if carrier_val > 0 then carrier_val - 1 else carrier_val)
     }
     else Some (g, cargo_val, carrier_val))"

definition fits_aboard :: "int \<Rightarrow> boarding \<Rightarrow> bool" where
  "fits_aboard cur = (\<lambda>(g, cargo_val, carrier_val).
     (cargo_val \<noteq> 0 \<and> VEH_triad g (Vehs g cur) = TRIAD_LAND \<and> veh_cargo g cur = 0)
     \<or> (carrier_val \<noteq> 0 \<and> VEH_triad g (Vehs g cur) = TRIAD_AIR \<and> \<not> has_abil g (veh_unit_id (Vehs g cur)) ABL_CARRIER))"

text \<open>Which units that have no transport yet go aboard in the second round.\<close>

definition wants_aboard :: "game \<Rightarrow> int \<Rightarrow> bool \<Rightarrow> int \<Rightarrow> bool" where
  "wants_aboard g veh_id at_open_sea cur \<longleftrightarrow>
     (let c = Vehs g cur; order = veh_order c; state = veh_state c;
          base_plan = f_region_base_plan (Factions g (veh_faction_id c)) (region_at g (veh_x c) (veh_y c))
      in if \<not> is_human g (veh_faction_id c)
            \<or> (veh_state (Vehs g veh_id) AND VSTATE_ON_ALERT \<noteq> 0 \<and> state AND VSTATE_ON_ALERT \<noteq> 0)
         then if state AND VSTATE_UNK_40000 \<noteq> 0
              then state AND VSTATE_UNK_20000 \<noteq> 0 \<and> base_plan = PLAN_NAVAL_TRANSPORT
              else if order \<noteq> ORDER_HOLD \<and> VEH_plan g c \<noteq> PLAN_ARTIFACT \<and> VEH_plan g c \<noteq> PLAN_TERRAFORM
              then at_open_sea \<or> \<not> on_map g (veh_x c) (veh_y c) \<or> VEH_plan g c \<ge> PLAN_COLONY \<or> base_plan \<noteq> PLAN_DEFENSE
              else at_open_sea
         else if order = ORDER_SENTRY_BOARD then veh_waypoint_x c 0 < 0 else at_open_sea)"

definition board_step :: "bool \<Rightarrow> bool \<Rightarrow> int \<Rightarrow> tile option \<Rightarrow> int \<Rightarrow> boarding \<Rightarrow> boarding option" where
  "board_step first lifted veh_id sq cur s =
     (let g = fst s; v = Vehs g veh_id; c = Vehs g cur;
          at_open_sea = (case sq of None \<Rightarrow> False | Some t \<Rightarrow> is_ocean_sq sq \<and> MAP_base_who t < 0);
          at_field = (case sq of None \<Rightarrow> False | Some t \<Rightarrow> MAP_base_who t \<ge> 0 \<or> item_on t BIT_AIRBASE)
      in if veh_faction_id c \<noteq> veh_faction_id v \<or> \<not> fits_aboard cur s then Some s
         else if first
         then (if veh_order c = ORDER_SENTRY_BOARD \<and> veh_waypoint_x c 0 = veh_id then load_unit lifted veh_id cur s else Some s)
         else if VEH_triad g v = TRIAD_AIR \<and> \<not> at_field then Some s
         else if wants_aboard g veh_id at_open_sea cur then load_unit lifted veh_id cur s else Some s)"

partial_function (option) board_loop :: "bool \<Rightarrow> bool \<Rightarrow> int \<Rightarrow> tile option \<Rightarrow> int \<Rightarrow> boarding \<Rightarrow> boarding option" where
  [code]: "board_loop first lifted veh_id sq cur s =
     (if cur < 0 \<or> (fst (snd s) = 0 \<and> snd (snd s) = 0) then Some s
      else do {
        let next_id = veh_next_veh_id_stack (Vehs (fst s) cur);
        s \<leftarrow> board_step first lifted veh_id sq cur s;
        board_loop first lifted veh_id sq next_id s
      })"

partial_function (option) unmark_loop :: "int \<Rightarrow> game \<Rightarrow> game option" where
  [code]: "unmark_loop i g =
     (if i < 0 then Some g
      else let next_id = veh_next_veh_id_stack (Vehs g i)
        in unmark_loop next_id (upd_veh i (\<lambda>v. v\<lparr>veh_state := veh_state v AND NOT VSTATE_IN_TRANSPORT\<rparr>) g))"

definition stack_board :: "int \<Rightarrow> int \<Rightarrow> game \<Rightarrow> (game \<times> int) option" where
  "stack_board veh_id flag g = do {
     let sq = sq_at g (veh_x (Vehs g veh_id)) (veh_y (Vehs g veh_id));
     let unit_id = veh_unit_id (Vehs g veh_id);
     let carrier_val = (if has_abil g unit_id ABL_CARRIER then max 1 (veh_cargo g veh_id) else 0);
     let cargo_val = (if veh_faction_id (Vehs g veh_id) = 0 then 99 else veh_cargo g veh_id);
     top \<leftarrow> (if flag \<noteq> 0 then Some veh_id else veh_top g veh_id);
     s \<leftarrow> board_loop True (flag \<noteq> 0) veh_id sq top (g, cargo_val, carrier_val);
     s \<leftarrow> (if flag \<le> 1
       then do {
         top \<leftarrow> (if flag \<noteq> 0 then Some veh_id else veh_top (fst s) veh_id);
         board_loop False (flag \<noteq> 0) veh_id sq top s
       }
       else Some s);
     let g = fst s;
     if flag \<noteq> 0 then map_option (\<lambda>g. (g, veh_id)) (veh_put veh_id (- 2) (- 2) g)
     else Some (g, if veh_cargo g veh_id = 0 then snd (snd s) else fst (snd s))
   }"

definition stack_veh :: "int \<Rightarrow> int \<Rightarrow> game \<Rightarrow> (game \<times> int) option" where
  "stack_veh veh_id flag g =
     (if veh_id < 0 then Some (g, if flag \<noteq> 0 then veh_id else 0)
      else if veh_cargo g veh_id = 0 \<and> \<not> has_abil g (veh_unit_id (Vehs g veh_id)) ABL_CARRIER
      then (if flag = 0 then Some (g, 0) else map_option (\<lambda>g. (g, veh_id)) (veh_put veh_id (- 2) (- 2) g))
      else do {
        (g, _) \<leftarrow> (if MultiplayerActive g then stack_fix veh_id g else Some (g, 0));
        let sq = sq_at g (veh_x (Vehs g veh_id)) (veh_y (Vehs g veh_id));
        if flag > 1 \<and> (case sq of None \<Rightarrow> False | Some t \<Rightarrow> MAP_base_who t \<ge> 0)
        then map_option (\<lambda>g. (g, veh_id)) (veh_put veh_id (- 2) (- 2) g)
        else do {
          g \<leftarrow> (if flag \<noteq> 0 then stack_sort veh_id g else Option.bind (veh_top g veh_id) (\<lambda>top. unmark_loop top g));
          stack_board veh_id flag g
        }
      })"

section \<open>Losing units (veh.cpp)\<close>

text \<open>A transport that is destroyed at sea takes its cargo with it.\<close>

definition kill :: "int \<Rightarrow> game \<times> bridge \<Rightarrow> (game \<times> bridge) option" where
  "kill veh_id = (\<lambda>(g, b).
     let v = Vehs g veh_id; sink = (do { (g, _) \<leftarrow> stack_veh veh_id 2 g; stack_kill veh_id (g, b) })
     in if veh_cargo g veh_id = 0 then Some (veh_kill veh_id (g, b))
        else if \<not> on_map g (veh_x v) (veh_y v)
        then (if veh_x v = - 2 then stack_kill veh_id (g, b) else sink)
        else if \<not> is_ocean g (veh_x v) (veh_y v) then Some (veh_kill veh_id (g, b))
        else sink)"

definition battle_kill_credits :: "game \<Rightarrow> int \<Rightarrow> int" where
  "battle_kill_credits g veh_id =
     (let p = conf_planetpearls (conf g)
      in if p > 1 then 10 * (mod_morale_alien g veh_id 0 + 1) else if p = 1 then 10 + 5 * mod_morale_alien g veh_id 0 else 0)"

section \<open>Speed, monoliths and skipped turns (veh.cpp)\<close>

definition veh_speed :: "game \<Rightarrow> int \<Rightarrow> bool \<Rightarrow> int" where
  "veh_speed g veh_id skip_morale =
     (let v = Vehs g veh_id; u = Units g (veh_unit_id v); R = Rules g; roads = rule_move_rate_roads R; triad = UNIT_triad g u;
          native = VEH_is_native_unit g v; c = conf g
      in if veh_unit_id v = BSC_FUNGAL_TOWER then 0
         else let speed = proto_speed g (veh_unit_id v);
           speed = (if triad = TRIAD_SEA \<and> has_project g FAC_MARITIME_CONTROL_CENTER (veh_faction_id v) then speed + roads * 2 else speed);
           speed = (if \<not> skip_morale \<and> mod_morale_veh g veh_id True 0 = MORALE_ELITE
                \<and> (if native then conf_native_elite_moves c > 0 else conf_normal_elite_moves c > 0)
             then speed + roads else speed);
           speed = (if veh_damage_taken v \<noteq> 0 \<and> triad \<noteq> TRIAD_AIR
             then (let moves = speed sdiv roads; artifact = (unit_plan u = PLAN_ARTIFACT);
                       reactor_val = (if artifact then 1 else clamp (unit_reactor_id u) 1 100 * 10);
                       d = (if artifact then 1 else clamp reactor_val 1 99)
                   in clamp ((moves * clamp (reactor_val - veh_damage_taken v) 0 9999 + d - 1) sdiv d)
                        (if triad = TRIAD_SEA then 2 else 1) 999 * roads)
             else speed)
         in min (conf_max_movement_rate c) speed)"

definition want_monolith :: "game \<Rightarrow> int \<Rightarrow> bool" where
  "want_monolith g veh_id \<longleftrightarrow>
     (let v = Vehs g veh_id
      in veh_id \<ge> 0 \<and> VEH_triad g v \<noteq> TRIAD_AIR \<and> can_monolith g (veh_unit_id v)
         \<and> (veh_damage_taken v \<noteq> 0
            \<or> (veh_state v AND VSTATE_MONOLITH_UPGRADED = 0 \<and> VEH_offense_value g v \<noteq> 0 \<and> veh_morale v < MORALE_ELITE
               \<and> mod_morale_veh g veh_id True 0 < MORALE_ELITE)))"

text \<open>
  \<open>veh_skip\<close> and \<open>mod_monolith\<close> call each other: a unit of the computer that skips its turn on a monolith uses it, and
  using it skips the turn. \<open>veh_skip_with\<close> is the body of the first with the second as an argument, and the recursion is
  bounded by a fuel; the bound that the definitions use is shown to be enough below. \<open>choice\<close> is the answer to the question
  the player is asked and \<open>rnd\<close> the number that \<open>game_rand\<close> delivers.
\<close>

definition skip_flags :: "game \<Rightarrow> veh \<Rightarrow> veh" where
  "skip_flags g v =
     (let v = (if VEH_is_former g v \<and> veh_order v \<ge> ORDER_FARM \<and> veh_order v < ORDER_MOVE_TO
               then v\<lparr>veh_state := veh_state v OR VSTATE_WORKING\<rparr> else v)
      in if conf_activate_skipped_units (conf g) \<noteq> 0
         then (if veh_moves_spent v = 0 \<and> veh_order v < ORDER_FARM \<and> veh_state v AND (VSTATE_HAS_MOVED OR VSTATE_MADE_AIRDROP) = 0
               then v\<lparr>veh_flags := veh_flags v OR VFLAG_FULL_MOVE_SKIPPED\<rparr>
               else if VEH_triad g v \<noteq> TRIAD_AIR then v\<lparr>veh_flags := veh_flags v AND NOT VFLAG_FULL_MOVE_SKIPPED\<rparr> else v)
         else v)"

definition veh_skip_with :: "(int \<Rightarrow> game \<Rightarrow> game option) \<Rightarrow> int \<Rightarrow> game \<Rightarrow> game option" where
  "veh_skip_with monolith veh_id g =
     (let v = Vehs g veh_id; moves = veh_speed g veh_id False
      in map_option (upd_veh veh_id (\<lambda>v. v\<lparr>veh_moves_spent := moves mod 256\<rparr>))
         (if is_human g (veh_faction_id v) then Some (upd_veh veh_id (skip_flags g) g)
          else if veh_faction_id v > 0 \<and> want_monolith g veh_id \<and> bit_at g (veh_x v) (veh_y v) AND BIT_MONOLITH \<noteq> 0
          then monolith veh_id g
          else Some g))"

definition drop_sites :: "int \<Rightarrow> game \<Rightarrow> game" where
  "drop_sites veh_id g = (let v = Vehs g veh_id in fold (\<lambda>i. del_site i 0 (veh_x v) (veh_y v) 0) [1..MaxPlayerNum - 1] g)"

definition keep_sites :: "int \<Rightarrow> game \<Rightarrow> game" where
  "keep_sites veh_id g =
     (let v = Vehs g veh_id
      in fold (\<lambda>i g. case sq_at g (veh_x v) (veh_y v) of
              Some sq \<Rightarrow> if sq_visible_items sq (i - 1) AND BIT_MONOLITH \<noteq> 0 then add_site i 0 2 (veh_x v) (veh_y v) g else g
            | None \<Rightarrow> g) [1..MaxPlayerNum - 1] g)"

definition monolith_done :: "game \<Rightarrow> int \<Rightarrow> bool" where
  "monolith_done g veh_id \<longleftrightarrow> veh_state (Vehs g veh_id) AND VSTATE_MONOLITH_UPGRADED \<noteq> 0 \<or> mod_morale_veh g veh_id True 0 \<ge> 6"

definition heal_veh :: "int \<Rightarrow> game \<Rightarrow> game" where
  "heal_veh veh_id = upd_veh veh_id (\<lambda>v. v\<lparr>veh_damage_taken := 0\<rparr>)"

definition note_player :: "bool \<Rightarrow> game \<Rightarrow> game" where
  "note_player is_player g = (if is_player then g\<lparr>GameState := GameState g OR STATE_UNK_4\<rparr> else g)"

definition monolith_upgrade :: "(int \<Rightarrow> game \<Rightarrow> game option) \<Rightarrow> int \<Rightarrow> int \<Rightarrow> game \<Rightarrow> game option" where
  "monolith_upgrade monolith rnd veh_id g =
     (let v = Vehs g veh_id; x = veh_x v; y = veh_y v; is_player = (veh_faction_id v = CurrentPlayerFaction g);
          early = (CurrentTurn g < 100 \<or> (case sq_at g x y of None \<Rightarrow> True | Some sq \<Rightarrow> \<not> item_on sq BIT_UNK_2000000));
          g = (if early then bit_set g x y BIT_UNK_2000000 True else g);
          g = upd_veh veh_id (\<lambda>v. v\<lparr>veh_state := veh_state v OR VSTATE_MONOLITH_UPGRADED, veh_morale := clamp (veh_morale v + 1) 0 6\<rparr>) g
      in do {
        g \<leftarrow> veh_skip_with monolith veh_id g;
        Some (note_player is_player
          (if early \<or> rnd smod 32 \<noteq> 0 then keep_sites veh_id g
           else synch_bit (bit_set g x y BIT_MONOLITH False) x y (veh_faction_id v)))
      })"

definition monolith_armed :: "(int \<Rightarrow> game \<Rightarrow> game option) \<Rightarrow> int \<Rightarrow> int \<Rightarrow> int \<Rightarrow> game \<Rightarrow> game option" where
  "monolith_armed monolith choice rnd veh_id g =
     (let v = Vehs g veh_id; is_player = (veh_faction_id v = CurrentPlayerFaction g); human = is_human g (veh_faction_id v);
          asked = (human \<and> \<not> MultiplayerActive g \<and> GameMorePreferences g AND MPREF_AUTO_ALWAYS_INSPECT_MONOLITH = 0);
          g = drop_sites veh_id g
      in if asked \<and> choice = 0 then Some (keep_sites veh_id g)
         else if \<not> human \<and> (monolith_done g veh_id \<or> veh_morale v \<ge> 6)
         then do {
           g \<leftarrow> (if veh_damage_taken v \<noteq> 0 then veh_skip_with monolith veh_id (heal_veh veh_id g) else Some g);
           Some (keep_sites veh_id g)
         }
         else do {
           let g = (if asked \<and> choice = 2
                    then g\<lparr>GameMorePreferences := GameMorePreferences g OR MPREF_AUTO_ALWAYS_INSPECT_MONOLITH\<rparr> else g);
           let hurt = (veh_damage_taken v \<noteq> 0);
           g \<leftarrow> (if hurt then veh_skip_with monolith veh_id (heal_veh veh_id g) else Some g);
           if monolith_done g veh_id then Some (note_player (hurt \<and> is_player) g)
           else monolith_upgrade monolith rnd veh_id g
         })"

definition monolith_body :: "(int \<Rightarrow> game \<Rightarrow> game option) \<Rightarrow> int \<Rightarrow> int \<Rightarrow> int \<Rightarrow> game \<Rightarrow> game option" where
  "monolith_body monolith choice rnd veh_id g =
     (let v = Vehs g veh_id; is_player = (veh_faction_id v = CurrentPlayerFaction g); alone = (is_player \<and> \<not> MultiplayerActive g);
          g' = (if alone \<and> veh_order v = ORDER_MOVE_TO \<and> veh_x v = veh_waypoint_x v 0 \<and> veh_y v = veh_waypoint_y v 0
                then upd_veh veh_id (\<lambda>v. v\<lparr>veh_order := ORDER_NONE\<rparr>) g else g)
      in if \<not> can_monolith g (veh_unit_id v) then Some g
         else if alone \<and> veh_order (Vehs g' veh_id) \<noteq> ORDER_NONE then Some g'
         else if VEH_offense_value g v = 0
         then (if veh_damage_taken v \<noteq> 0
               then map_option (note_player is_player) (veh_skip_with monolith veh_id (heal_veh veh_id g'))
               else if veh_state v AND VSTATE_MONOLITH_UPGRADED = 0
               then Some (note_player (alone \<and> GameMorePreferences g AND MPREF_AUTO_ALWAYS_INSPECT_MONOLITH = 0)
                 (upd_veh veh_id (\<lambda>v. v\<lparr>veh_state := veh_state v OR VSTATE_MONOLITH_UPGRADED\<rparr>) g'))
               else Some g')
         else monolith_armed monolith choice rnd veh_id g')"

primrec monolith_fuel :: "nat \<Rightarrow> int \<Rightarrow> int \<Rightarrow> int \<Rightarrow> game \<Rightarrow> game option" where
  "monolith_fuel 0 choice rnd veh_id g = None"
| "monolith_fuel (Suc n) choice rnd veh_id g = monolith_body (monolith_fuel n choice rnd) choice rnd veh_id g"

definition mod_monolith :: "int \<Rightarrow> int \<Rightarrow> int \<Rightarrow> game \<Rightarrow> game option" where
  "mod_monolith = monolith_fuel 3"

definition veh_skip :: "int \<Rightarrow> int \<Rightarrow> game \<Rightarrow> game option" where
  "veh_skip rnd = veh_skip_with (mod_monolith 0 rnd)"

text \<open>How much is left to do for a unit at a monolith: heal it, upgrade it.\<close>

definition monolith_left :: "game \<Rightarrow> int \<Rightarrow> nat" where
  "monolith_left g veh_id =
     of_bool (veh_damage_taken (Vehs g veh_id) \<noteq> 0) + of_bool (veh_state (Vehs g veh_id) AND VSTATE_MONOLITH_UPGRADED = 0)"

section \<open>Units lost in battle (veh.cpp)\<close>

text \<open>
  The counters that the caller passes by reference: units killed, artifacts taken and energy won. Both callers pass all
  three. The attacker is absent (\<open>- 1\<close>) when the attacking side loses; the code then still reads the row before the first
  to decide whether the killed native unit pays. \<open>attacker_side\<close> is the faction found there.
\<close>

type_synonym spoils = "int \<times> int \<times> int"

definition artifact_taken :: "game \<Rightarrow> int \<Rightarrow> int \<Rightarrow> bool option" where
  "artifact_taken g veh_id atk =
     (let v = Vehs g veh_id; a = Vehs g atk
      in if atk \<ge> 0 \<and> atk \<noteq> veh_id \<and> veh_faction_id a \<noteq> 0 \<and> on_map g (veh_x a) (veh_y a)
           \<and> UNIT_is_artifact (Units g (veh_unit_id v)) \<and> VEH_is_missile g a = 0
         then (if \<not> is_ocean g (veh_x a) (veh_y a) then Some True
               else map_option (\<lambda>n. n > 0 \<or> veh_flags v AND VFLAG_IS_OBJECTIVE \<noteq> 0) (mod_stack_check g atk 8 (- 1) (- 1) (- 1)))
         else Some False)"

definition capture_veh :: "int \<Rightarrow> int \<Rightarrow> game \<Rightarrow> game" where
  "capture_veh veh_id faction_id g =
     (let old = veh_faction_id (Vehs g veh_id); unit_id = veh_unit_id (Vehs g veh_id)
      in upd_veh veh_id (\<lambda>v. v\<lparr>veh_damage_taken := 0, veh_faction_id := faction_id, veh_order := ORDER_NONE,
             veh_state := veh_state v AND NOT (VSTATE_UNK_2000000 OR VSTATE_UNK_1000000 OR VSTATE_EXPLORE OR VSTATE_ON_ALERT)\<rparr>)
          (add_active faction_id unit_id 1 (add_active old unit_id (- 1) (veh_lift veh_id g))))"

definition take_artifact :: "int \<Rightarrow> int \<Rightarrow> int \<Rightarrow> game \<Rightarrow> game option" where
  "take_artifact rnd veh_id atk g = do {
     g \<leftarrow> veh_drop veh_id (veh_x (Vehs g atk)) (veh_y (Vehs g atk)) (capture_veh veh_id (veh_faction_id (Vehs g atk)) g);
     veh_skip rnd veh_id g
   }"

definition note_worm :: "int \<Rightarrow> int \<Rightarrow> game \<Rightarrow> game" where
  "note_worm veh_id atk g =
     (let a = Vehs g atk
      in if veh_state (Vehs g veh_id) AND VSTATE_ASSISTANT_WORM \<noteq> 0 \<and> atk \<ge> 0 \<and> veh_faction_id a \<noteq> 0
           \<and> GamePreferences g AND PREF_AV_INTERLUDES_DISABLED = 0
         then let own = veh_home_base_id a; (dist, found) = base_find_2 g (veh_x a) (veh_y a) (veh_faction_id a);
                  base_id = (if own < 0 then found else own);
                  g = (if own < 0 \<and> found \<ge> 0 then g\<lparr>BaseFindDist := dist\<rparr> else g)
              in if base_id \<ge> 0
                 then upd_faction (veh_faction_id a) (\<lambda>f. f\<lparr>f_player_flags := f_player_flags f OR PFLAG_UNK_1000\<rparr>)
                   (upd_base base_id (\<lambda>b. b\<lparr>base_state_flags := base_state_flags b OR BSTATE_ASSISTANT_KILLER_HOME\<rparr>) g)
                 else g
         else g)"

definition battle_kill :: "int \<Rightarrow> int \<Rightarrow> int \<Rightarrow> int \<Rightarrow> spoils \<Rightarrow> game \<times> bridge \<Rightarrow> (bool \<times> spoils \<times> (game \<times> bridge)) option" where
  "battle_kill rnd veh_id atk faction_id_atk = (\<lambda>(killed, relics, credits) (g, b). do {
     let v = Vehs g veh_id;
     let faction_id = veh_faction_id v;
     let g = upd_faction faction_id (\<lambda>f. f\<lparr>f_units_lost :=
               (f_units_lost f)(veh_unit_id v := (f_units_lost f (veh_unit_id v) + 1) mod 65536)\<rparr>) g;
     taken \<leftarrow> artifact_taken g veh_id atk;
     if taken then do {
       g \<leftarrow> take_artifact rnd veh_id atk g;
       Some (False, (killed, relics + 1, credits), (g, b))
     }
     else do {
       let g = (if veh_flags v AND VFLAG_IS_OBJECTIVE \<noteq> 0 \<and> faction_id_atk \<ge> 0
                then upd_faction faction_id_atk (\<lambda>f. f\<lparr>f_unk_101 := f_unk_101 f + 1\<rparr>) g else g);
       let g = note_worm veh_id atk g;
       let credits = (if faction_id = 0 \<and> veh_faction_id (Vehs g atk) \<noteq> 0 then credits + battle_kill_credits g veh_id else credits);
       Some (True, (killed + 1, relics, credits), veh_kill veh_id (g, b))
     }
   })"

partial_function (option) battle_kill_loop :: "int \<Rightarrow> int \<Rightarrow> int \<Rightarrow> int \<Rightarrow> spoils \<Rightarrow> game \<times> bridge \<Rightarrow> (spoils \<times> (game \<times> bridge)) option" where
  [code]: "battle_kill_loop rnd cur_id atk faction_id_atk s gb =
     (if cur_id < 0 then Some (s, gb)
      else do {
        let next_id = veh_next_veh_id_stack (Vehs (fst gb) cur_id);
        r \<leftarrow> battle_kill rnd cur_id atk faction_id_atk s gb;
        (let dead = fst r
         in battle_kill_loop rnd (if dead \<and> next_id > cur_id then next_id - 1 else next_id)
              (if dead \<and> atk > cur_id then atk - 1 else atk) faction_id_atk (fst (snd r)) (snd (snd r)))
      })"

definition battle_kill_stack :: "int \<Rightarrow> int \<Rightarrow> int \<Rightarrow> int \<Rightarrow> spoils \<Rightarrow> game \<times> bridge \<Rightarrow> (spoils \<times> (game \<times> bridge)) option" where
  "battle_kill_stack rnd veh_id atk faction_id_atk s gb =
     (if veh_id < 0 then Some (s, gb)
      else Option.bind (veh_top (fst gb) veh_id) (\<lambda>top. battle_kill_loop rnd top atk faction_id_atk s gb))"

definition closer_veh :: "game \<Rightarrow> int \<Rightarrow> int \<Rightarrow> int \<Rightarrow> int \<Rightarrow> int \<Rightarrow> int \<times> int \<Rightarrow> int \<times> int" where
  "closer_veh g x y faction_id skip_veh_id i = (\<lambda>(best_dist, best_id).
     let v = Vehs g i; dist = vector_dist g x y (veh_x v) (veh_y v)
     in if i \<noteq> skip_veh_id \<and> (faction_id < 0 \<or> veh_faction_id v = faction_id) \<and> dist \<le> best_dist then (dist, i) else (best_dist, best_id))"

definition veh_find :: "int \<Rightarrow> int \<Rightarrow> int \<Rightarrow> int \<Rightarrow> game \<Rightarrow> game \<times> int" where
  "veh_find x y faction_id skip_veh_id g =
     (let (best_dist, best_id) = fold (closer_veh g x y faction_id skip_veh_id) [0..VehCount g - 1] (9999, - 1)
      in (g\<lparr>VehFindDist := if best_id \<ge> 0 then best_dist else 9999\<rparr>, best_id))"

section \<open>Upgrades (veh.cpp)\<close>

definition veh_upgrade :: "int \<Rightarrow> int \<Rightarrow> int \<Rightarrow> int \<Rightarrow> game \<Rightarrow> game" where
  "veh_upgrade veh_id new_unit_id old_unit_id cost g =
     (let faction_id = veh_faction_id (Vehs g veh_id);
          g = upd_faction faction_id (\<lambda>f. f\<lparr>f_energy_credits := f_energy_credits f - cost\<rparr>) g;
          g = add_active faction_id old_unit_id (- 1) (add_active faction_id new_unit_id 1 g);
          morale_diff = of_bool (has_abil g new_unit_id ABL_TRAINED) - of_bool (has_abil g old_unit_id ABL_TRAINED)
      in upd_veh veh_id (\<lambda>v. v\<lparr>veh_unit_id := s16 new_unit_id, veh_morale := clamp (veh_morale v + morale_diff) 0 6\<rparr>) g)"

definition mark_prototyped :: "int \<Rightarrow> game \<Rightarrow> game" where
  "mark_prototyped unit_id g = g\<lparr>Units := (Units g)(unit_id := (Units g unit_id)
     \<lparr>unit_unit_flags := unit_unit_flags (Units g unit_id) OR UNIT_PROTOTYPED\<rparr>)\<rparr>"

definition single_unit_upgrade :: "int \<Rightarrow> int \<Rightarrow> int \<Rightarrow> game \<Rightarrow> (game \<times> int) option" where
  "single_unit_upgrade rnd veh_id new_unit_id g =
     (if veh_id < 0 \<or> veh_id \<ge> VehCount g \<or> new_unit_id < 0 \<or> new_unit_id \<ge> MaxProtoNum then Some (g, - 1)
      else let v = Vehs g veh_id; faction_id = veh_faction_id v; old_unit_id = veh_unit_id v;
             cost = 10 * mod_upgrade_cost g faction_id new_unit_id old_unit_id
        in if faction_id \<le> 0 \<or> old_unit_id < 0 \<or> old_unit_id \<ge> MaxProtoNum \<or> new_unit_id = old_unit_id
             \<or> new_unit_id sdiv MaxProtoFactionNum \<noteq> faction_id then Some (g, - 1)
           else if cost < 0 \<or> f_energy_credits (Factions g faction_id) < cost then Some (g, - 1)
           else do {
             g \<leftarrow> veh_skip rnd veh_id (veh_upgrade veh_id new_unit_id old_unit_id cost g);
             Some (if new_unit_id \<ge> MaxProtoFactionNum then mark_prototyped new_unit_id g else g, cost)
           })"

text \<open>The loop of \<open>part_upgrade\<close> stops at the first unit that can no longer be paid for.\<close>

fun part_loop :: "int \<Rightarrow> int \<Rightarrow> int \<Rightarrow> int \<Rightarrow> int list \<Rightarrow> game \<Rightarrow> game" where
  "part_loop faction_id new_unit_id old_unit_id cost [] g = g"
| "part_loop faction_id new_unit_id old_unit_id cost (i # is) g =
     (let v = Vehs g i; eligible = (veh_faction_id v = faction_id \<and> veh_unit_id v = old_unit_id \<and> veh_moves_spent v = 0
            \<and> veh_damage_taken v = 0);
          (g, at) = (if eligible then base_at g (veh_x v) (veh_y v) else (g, - 1))
      in if at < 0 then part_loop faction_id new_unit_id old_unit_id cost is g
         else if f_energy_credits (Factions g faction_id) < cost + 20 then g
         else part_loop faction_id new_unit_id old_unit_id cost is (veh_upgrade i new_unit_id old_unit_id cost g))"

definition part_upgrade :: "int \<Rightarrow> int \<Rightarrow> int \<Rightarrow> game \<Rightarrow> game" where
  "part_upgrade faction_id new_unit_id old_unit_id g =
     (if \<not> MultiplayerActive g \<and> faction_id > 0 \<and> old_unit_id \<ge> 0 \<and> new_unit_id \<noteq> old_unit_id
         \<and> new_unit_id sdiv MaxProtoFactionNum = faction_id
      then part_loop faction_id new_unit_id old_unit_id (10 * mod_upgrade_cost g faction_id new_unit_id old_unit_id)
             [0..VehCount g - 1] g
      else g)"

definition upgrade_row :: "int \<Rightarrow> int \<Rightarrow> int \<Rightarrow> int \<Rightarrow> int \<Rightarrow> game \<Rightarrow> game" where
  "upgrade_row faction_id new_unit_id old_unit_id cost i g =
     (if veh_faction_id (Vehs g i) = faction_id \<and> veh_unit_id (Vehs g i) = old_unit_id
      then veh_upgrade i new_unit_id old_unit_id cost g else g)"

definition requeue :: "int \<Rightarrow> int \<Rightarrow> base \<Rightarrow> base" where
  "requeue new_unit_id old_unit_id b = b\<lparr>base_queue_items := (\<lambda>j. if 0 \<le> j \<and> j < 10 \<and> j \<le> base_queue_size b
     \<and> base_queue_items b j = old_unit_id then new_unit_id else base_queue_items b j)\<rparr>"

definition full_upgrade :: "int \<Rightarrow> int \<Rightarrow> int \<Rightarrow> game \<Rightarrow> game" where
  "full_upgrade faction_id new_unit_id old_unit_id g =
     (let cost = 10 * mod_upgrade_cost g faction_id new_unit_id old_unit_id;
          active = list_ex (\<lambda>i. veh_faction_id (Vehs g i) = faction_id \<and> veh_unit_id (Vehs g i) = old_unit_id) [0..VehCount g - 1];
          g = fold (upgrade_row faction_id new_unit_id old_unit_id cost) [0..VehCount g - 1] g;
          g = g\<lparr>Bases := (\<lambda>i. if 0 \<le> i \<and> i < BaseCount g \<and> base_faction_id (Bases g i) = faction_id
                 then requeue new_unit_id old_unit_id (Bases g i) else Bases g i)\<rparr>;
          g = (if new_unit_id \<ge> MaxProtoFactionNum \<and> active then mark_prototyped new_unit_id g else g)
      in if old_unit_id \<ge> MaxProtoFactionNum
         then g\<lparr>Units := (Units g)(old_unit_id := (Units g old_unit_id)
                \<lparr>unit_unit_flags := unit_unit_flags (Units g old_unit_id) AND NOT UNIT_ACTIVE\<rparr>)\<rparr>
         else g)"

text \<open>
  \<open>ask\<close> is the answer of the player to the offer; the network path of a multiplayer game, where the upgrade is sent to the
  other computers, is the result without a change.
\<close>

definition auto_upgrade_ok :: "game \<Rightarrow> int \<Rightarrow> int \<Rightarrow> int \<Rightarrow> int \<Rightarrow> int \<Rightarrow> bool" where
  "auto_upgrade_ok g faction_id new_unit_id old_unit_id each total_cost \<longleftrightarrow>
     (let credits = f_energy_credits (Factions g faction_id); new = Units g new_unit_id; old = Units g old_unit_id
      in \<not> (total_cost > credits sdiv 4 \<or> each \<ge> 50 + min 50 (credits sdiv 32))
         \<and> \<not> (conf_design_units (conf g) \<noteq> 0 \<and> (unit_plan old > PLAN_RECON
              \<or> (conf_ignore_reactor_power (conf g) \<noteq> 0 \<and> UNIT_offense_value g new \<le> UNIT_offense_value g old
                 \<and> UNIT_defense_value g new \<le> UNIT_defense_value g old))))"

definition mod_upgrade_prototype :: "bool \<Rightarrow> int \<Rightarrow> int \<Rightarrow> int \<Rightarrow> bool \<Rightarrow> game \<Rightarrow> game \<times> bool" where
  "mod_upgrade_prototype ask faction_id new_unit_id old_unit_id flag g =
     (let each = 10 * mod_upgrade_cost g faction_id new_unit_id old_unit_id;
          total_cost = each * veh_count_of g faction_id old_unit_id; human = is_human g faction_id;
          go = (if human \<and> MultiplayerActive g then (g, True) else (full_upgrade faction_id new_unit_id old_unit_id g, True))
      in if \<not> full_game_turn g then (g, False)
         else if total_cost = 0 \<and> (flag \<or> \<not> human) then (g, False)
         else if \<not> human then (if auto_upgrade_ok g faction_id new_unit_id old_unit_id each total_cost then go else (g, False))
         else if faction_id \<noteq> MapWin_cOwner g then (g, False)
         else if total_cost = 0 then go
         else if total_cost > f_energy_credits (Factions g faction_id) \<or> \<not> ask then (g, False)
         else go)"

section \<open>Orders (veh.cpp)\<close>

definition veh_jail :: "game \<Rightarrow> int \<Rightarrow> bool" where
  "veh_jail g veh_id \<longleftrightarrow>
     (let v = Vehs g veh_id
      in VEH_triad g v = TRIAD_LAND \<and> veh_order v = ORDER_SENTRY_BOARD \<and> veh_waypoint_x v 0 \<ge> 0
         \<and> VEH_triad g (Vehs g (veh_waypoint_x v 0)) = TRIAD_AIR
         \<and> (case sq_at g (veh_x v) (veh_y v) of None \<Rightarrow> False | Some sq \<Rightarrow> \<not> MAP_is_airbase sq))"

text \<open>\<open>contribution\<close> is the engine's measure of a former's progress in one turn.\<close>

definition veh_wake :: "(game \<Rightarrow> int \<Rightarrow> int \<Rightarrow> int) \<Rightarrow> int \<Rightarrow> game \<Rightarrow> game" where
  "veh_wake contribution veh_id g =
     (let v = Vehs g veh_id;
          v = (if veh_order v \<ge> ORDER_FARM \<and> veh_order v < ORDER_MOVE_TO \<and> veh_state v AND VSTATE_WORKING = 0
               then let w = v\<lparr>veh_moves_spent := (veh_speed g veh_id False - rule_move_rate_roads (Rules g)) mod 256\<rparr>
                    in if veh_movement_turns v \<noteq> 0
                       then w\<lparr>veh_movement_turns :=
                         max 0 (veh_movement_turns v - contribution (upd_veh veh_id (\<lambda>_. w) g) veh_id (veh_order v - 4)) mod 256\<rparr>
                       else w
               else v);
          v = (if veh_state v AND VSTATE_ON_ALERT \<noteq> 0 \<and> veh_state v AND VSTATE_HAS_MOVED = 0 \<and> veh_order_auto_type v = ORDERA_ON_ALERT
               then v\<lparr>veh_moves_spent := 0\<rparr> else v);
          v = (if conf_activate_skipped_units (conf g) \<noteq> 0 \<and> is_human g (veh_faction_id v)
               then (if veh_flags v AND VFLAG_FULL_MOVE_SKIPPED \<noteq> 0 \<and> veh_state v AND (VSTATE_HAS_MOVED OR VSTATE_MADE_AIRDROP) = 0
                     then v\<lparr>veh_moves_spent := 0, veh_flags := veh_flags v AND NOT VFLAG_FULL_MOVE_SKIPPED\<rparr>
                     else v\<lparr>veh_flags := veh_flags v AND NOT VFLAG_FULL_MOVE_SKIPPED\<rparr>)
               else v)
      in upd_veh veh_id (\<lambda>_. v\<lparr>veh_order := ORDER_NONE, veh_state := veh_state v
           AND NOT (VSTATE_UNK_8000000 OR VSTATE_UNK_2000000 OR VSTATE_UNK_1000000 OR VSTATE_EXPLORE OR VSTATE_ON_ALERT)\<rparr>) g)"

definition set_road_to :: "int \<Rightarrow> int \<Rightarrow> int \<Rightarrow> game \<Rightarrow> game" where
  "set_road_to veh_id x y = upd_veh veh_id (\<lambda>v. v\<lparr>veh_waypoint_x := (veh_waypoint_x v)(0 := s16 x),
     veh_waypoint_y := (veh_waypoint_y v)(0 := s16 y), veh_order := ORDER_ROAD_TO, veh_status_icon := 82\<rparr>)"

definition set_order_none :: "int \<Rightarrow> int \<Rightarrow> game \<Rightarrow> game option" where
  "set_order_none rnd veh_id g = veh_skip rnd veh_id (upd_veh veh_id (\<lambda>v. v\<lparr>veh_order := ORDER_NONE,
     veh_order_auto_type := ORDERA_TERRA_AUTO_FULL, veh_waypoint_x := (veh_waypoint_x v)(0 := - 1),
     veh_waypoint_y := (veh_waypoint_y v)(0 := - 1), veh_status_icon := 45\<rparr>) g)"

definition set_convoy :: "int \<Rightarrow> int \<Rightarrow> int \<Rightarrow> game \<Rightarrow> game option" where
  "set_convoy rnd veh_id res g = veh_skip rnd veh_id (upd_veh veh_id (\<lambda>v. v\<lparr>veh_order_auto_type := (res - 1) mod 256,
     veh_order := ORDER_CONVOY, veh_status_icon := 67\<rparr>) g)"

definition set_board_to :: "int \<Rightarrow> int \<Rightarrow> game \<Rightarrow> game" where
  "set_board_to veh_id trans_veh_id = upd_veh veh_id (\<lambda>v. v\<lparr>veh_order := ORDER_SENTRY_BOARD,
     veh_waypoint_x := (veh_waypoint_x v)(0 := s16 trans_veh_id), veh_waypoint_y := (veh_waypoint_y v)(0 := 0), veh_status_icon := 76\<rparr>)"

text \<open>The artifact is used up; \<open>tech_achieved\<close> gives the technology and \<open>rnds\<close> are the numbers that \<open>game_randv\<close> delivers, one
  for each technology that is available.\<close>

definition best_study :: "game \<Rightarrow> int \<Rightarrow> int list \<Rightarrow> int" where
  "best_study g faction_id rnds =
     snd (fold (\<lambda>(i, r) (best_val, best_id). if r > best_val then (r, i) else (best_val, best_id))
        (zip (filter (\<lambda>i. \<not> has_tech g i faction_id \<and> tech_avail g i faction_id) [0..MaxTechnologyNum - 1]) rnds) (- 1, - 1))"

definition mod_study_artifact :: "(int \<Rightarrow> int \<Rightarrow> game \<Rightarrow> game) \<Rightarrow> int list \<Rightarrow> int \<Rightarrow> game \<times> bridge \<Rightarrow> (game \<times> bridge) \<times> bool" where
  "mod_study_artifact tech_achieved rnds veh_id = (\<lambda>(g, b).
     let v = Vehs g veh_id; faction_id = veh_faction_id v; (g, base_id) = base_at g (veh_x v) (veh_y v);
         linked = (base_id \<ge> 0 \<and> project_base g FAC_UNIVERSAL_TRANSLATOR \<noteq> base_id
           \<and> base_state_flags (Bases g base_id) AND BSTATE_ARTIFACT_LINKED \<noteq> 0);
         flag = (\<lambda>w g. upd_base base_id (\<lambda>c. c\<lparr>base_state_flags := base_state_flags c OR w\<rparr>) g)
     in if linked
        then ((if base_state_flags (Bases g base_id) AND BSTATE_ARTIFACT_ALREADY_LINKED = 0 \<and> faction_id = CurrentPlayerFaction g
               then flag BSTATE_ARTIFACT_ALREADY_LINKED g else g, b), False)
        else let (g, b) = veh_kill veh_id (g, b);
                 g = upd_faction faction_id (\<lambda>f. f\<lparr>f_player_flags := f_player_flags f OR
                       (if f_player_flags f AND PFLAG_UNK_10 \<noteq> 0 then PFLAG_UNK_4 else PFLAG_UNK_10)\<rparr>) g;
                 g = (if base_id \<ge> 0 then flag BSTATE_ARTIFACT_LINKED g else g);
                 best_tech_id = best_study g faction_id rnds
             in ((if best_tech_id \<ge> 0 then tech_achieved faction_id best_tech_id g else g, b), True))"

end
