(* ===== verification/Path.thy ===== *)
theory Path
  imports Veh_Life
begin

text \<open>
  Movement and searches over squares (path.cpp, map.cpp): the cost of a step, zones of control, counts of units at a square, the
  breadth-first search that the planner draws squares from, and the costs and safety of ways. The planner's tables of squares
  are functions from coordinates.
\<close>

section \<open>Movement cost (map.cpp)\<close>

definition items_of :: "tile option \<Rightarrow> u32" where
  "items_of sq = (case sq of None \<Rightarrow> 0 | Some t \<Rightarrow> sq_items t)"

definition fungus_cost :: "game \<Rightarrow> int \<Rightarrow> int \<Rightarrow> int \<Rightarrow> int" where
  "fungus_cost g unit_id faction_id cost =
     (let unit = Units g unit_id; rate = rule_move_rate_roads (Rules g); speed_val = proto_speed g unit_id;
          cost = (if unit_plan unit \<noteq> PLAN_TERRAFORM \<and> unit_plan unit \<noteq> PLAN_ARTIFACT
                     \<and> (faction_id < 0 \<or> f_SE_planet (Factions g faction_id) \<le> 0)
                  then cost + rate * 2 else max cost speed_val)
      in if conf_fast_fungus_movement (conf g) > 0 then min (max speed_val rate) cost else cost)"

definition open_land_cost :: "game \<Rightarrow> int \<Rightarrow> int \<Rightarrow> tile \<Rightarrow> bool \<Rightarrow> int" where
  "open_land_cost g unit_id faction_id dst toggle =
     (let rate = rule_move_rate_roads (Rules g);
          cost = (if MAP_is_rocky dst \<and> \<not> toggle then rate + rate else rate);
          cost = (if item_on dst BIT_FOREST \<and> \<not> toggle then cost + rate else cost)
      in if faction_id \<noteq> 0 \<and> item_on dst BIT_FUNGUS \<and> (unit_id \<ge> MaxProtoFactionNum \<or> UNIT_offense_value g (Units g unit_id) \<ge> 0)
         then fungus_cost g unit_id faction_id cost else cost)"

definition land_cost :: "game \<Rightarrow> int \<Rightarrow> int \<Rightarrow> int \<Rightarrow> int \<Rightarrow> int \<Rightarrow> int \<Rightarrow> bool \<Rightarrow> tile \<Rightarrow> tile \<Rightarrow> int" where
  "land_cost g unit_id faction_id x1 y1 x2 y2 toggle src dst =
     (let rate = rule_move_rate_roads (Rules g); on = (\<lambda>sq m. sq_items sq AND m \<noteq> 0);
          road_rate = (if conf_magtube_movement_rate (conf g) > 0 then conf_road_movement_rate (conf g) else 1);
          dome = has_project g FAC_XENOEMPATHY_DOME faction_id
      in if on src (BIT_MAGTUBE OR BIT_BASE_IN_TILE) \<and> on dst (BIT_MAGTUBE OR BIT_BASE_IN_TILE) \<and> faction_id \<noteq> 0
         then (if conf_magtube_movement_rate (conf g) > 0 then 1 else 0)
         else if (on src (BIT_ROAD OR BIT_BASE_IN_TILE) \<or> (on src BIT_FUNGUS \<and> faction_id > 0 \<and> dome))
           \<and> on dst (BIT_ROAD OR BIT_BASE_IN_TILE) \<and> faction_id \<noteq> 0 then road_rate
         else if faction_id \<ge> 0 \<and> (dome \<or> faction_id = 0 \<or> unit_id = BSC_MIND_WORMS \<or> unit_id = BSC_SPORE_LAUNCHER) \<and> on dst BIT_FUNGUS
         then road_rate
         else if on src BIT_RIVER \<and> on dst BIT_RIVER \<and> x_dist g x1 x2 = 1 \<and> \<bar>y1 - y2\<bar> = 1 \<and> faction_id \<noteq> 0 then road_rate
         else if unit_chassis_id (Units g unit_id) = CHS_HOVERTANK \<or> has_abil g unit_id ABL_ANTIGRAV_STRUTS then rate
         else open_land_cost g unit_id faction_id dst toggle)"

definition mod_hex_cost :: "game \<Rightarrow> int \<Rightarrow> int \<Rightarrow> int \<Rightarrow> int \<Rightarrow> int \<Rightarrow> int \<Rightarrow> bool \<Rightarrow> int" where
  "mod_hex_cost g unit_id faction_id x1 y1 x2 y2 toggle =
     (let rate = rule_move_rate_roads (Rules g); triad = UNIT_triad g (Units g unit_id)
      in if \<not> (unit_id \<ge> 0 \<and> unit_id < MaxProtoNum \<and> faction_id < MaxPlayerNum) then 0
         else case (sq_at g x1 y1, sq_at g x2 y2) of
           (Some src, Some dst) \<Rightarrow>
             if is_ocean_sq (Some dst)
             then (if item_on dst BIT_FUNGUS \<and> MAP_alt_level dst = ALT_OCEAN_SHELF \<and> triad = TRIAD_SEA \<and> unit_id \<noteq> BSC_SEALURK
                      \<and> unit_id \<noteq> BSC_ISLE_OF_THE_DEEP \<and> \<not> has_project g FAC_XENOEMPATHY_DOME faction_id then rate * 3 else rate)
             else if is_ocean_sq (Some src) \<or> triad \<noteq> TRIAD_LAND then rate
             else land_cost g unit_id faction_id x1 y1 x2 y2 toggle src dst
         | (None, Some dst) \<Rightarrow>
             if is_ocean_sq (Some dst)
             then (if item_on dst BIT_FUNGUS \<and> MAP_alt_level dst = ALT_OCEAN_SHELF \<and> triad = TRIAD_SEA \<and> unit_id \<noteq> BSC_SEALURK
                      \<and> unit_id \<noteq> BSC_ISLE_OF_THE_DEEP \<and> \<not> has_project g FAC_XENOEMPATHY_DOME faction_id then rate * 3 else rate)
             else rate
         | (_, None) \<Rightarrow> rate)"

section \<open>Zones of control (path.cpp)\<close>

definition NearbyTiles :: "(int \<times> int) list" where
  "NearbyTiles = [(1, - 1), (2, 0), (1, 1), (0, 2), (- 1, 1), (- 2, 0), (- 1, - 1), (0, - 2)]"

definition nearby :: "game \<Rightarrow> int \<Rightarrow> int \<Rightarrow> (int \<times> int) list" where
  "nearby g x y = map (\<lambda>(dx, dy). (wrap g (x + dx), y + dy)) NearbyTiles"

definition other_owner :: "game \<Rightarrow> int \<Rightarrow> int \<Rightarrow> bool" where
  "other_owner g faction_id owner \<longleftrightarrow> owner \<ge> 0 \<and> owner \<noteq> faction_id \<and> \<not> has_pact g faction_id owner"

definition mod_zoc_any :: "game \<Rightarrow> int \<Rightarrow> int \<Rightarrow> int \<Rightarrow> int" where
  "mod_zoc_any g x y faction_id =
     (case List.find (\<lambda>(x2, y2). case sq_at g x2 y2 of None \<Rightarrow> False | Some sq \<Rightarrow> other_owner g faction_id (MAP_anything_at sq)) (nearby g x y) of
        None \<Rightarrow> 0
      | Some (x2, y2) \<Rightarrow> (case sq_at g x2 y2 of None \<Rightarrow> 0 | Some sq \<Rightarrow> MAP_anything_at sq + 1))"

definition mod_zoc_veh :: "game \<Rightarrow> int \<Rightarrow> int \<Rightarrow> int \<Rightarrow> int" where
  "mod_zoc_veh g x y faction_id =
     fold (\<lambda>(x2, y2) val. case sq_at g x2 y2 of None \<Rightarrow> val
        | Some sq \<Rightarrow> if other_owner g faction_id (MAP_veh_who sq) \<and> val \<le> MAP_veh_who sq + 1 then MAP_veh_who sq + 1 else val)
       (nearby g x y) 0"

text \<open>The unit that exerts control at sea is looked for in the stack, by its links.\<close>

definition seen_by :: "game \<Rightarrow> int \<Rightarrow> int \<Rightarrow> bool" where
  "seen_by g faction_id k \<longleftrightarrow>
     (let v = Vehs g k in veh_faction_id v \<noteq> faction_id
        \<and> (bit (veh_visibility v) (nat faction_id) \<or> (\<not> MultiplayerActive g \<and> veh_flags v AND VFLAG_INVISIBLE = 0)))"

definition zoc_sea_step :: "bool \<Rightarrow> int \<Rightarrow> int \<times> int \<Rightarrow> game \<times> int \<Rightarrow> (game \<times> int) option" where
  "zoc_sea_step sea_tile faction_id = (\<lambda>(x2, y2) (g, found).
     if found \<noteq> 0 then Some (g, found)
     else case sq_at g x2 y2 of None \<Rightarrow> Some (g, 0)
       | Some sq \<Rightarrow>
           if other_owner g faction_id (MAP_veh_who sq) \<and> is_ocean_sq (Some sq) = sea_tile
           then do {
             (g, k) \<leftarrow> veh_at g x2 y2;
             ks \<leftarrow> stack_list g k;
             Some (g, if list_ex (seen_by g faction_id) ks then MAP_veh_who sq + 1 else 0)
           }
           else Some (g, 0))"

fun fold_option :: "('a \<Rightarrow> 's \<Rightarrow> 's option) \<Rightarrow> 'a list \<Rightarrow> 's \<Rightarrow> 's option" where
  "fold_option f [] s = Some s"
| "fold_option f (x # xs) s = Option.bind (f x s) (fold_option f xs)"

definition mod_zoc_sea :: "int \<Rightarrow> int \<Rightarrow> int \<Rightarrow> game \<Rightarrow> (game \<times> int) option" where
  "mod_zoc_sea x y faction_id g = fold_option (zoc_sea_step (is_ocean g x y) faction_id) (nearby g x y) (g, 0)"

definition mod_zoc_move :: "int \<Rightarrow> int \<Rightarrow> int \<Rightarrow> game \<Rightarrow> (game \<times> int) option" where
  "mod_zoc_move x y faction_id g =
     (case sq_at g x y of None \<Rightarrow> Some (g, 0)
      | Some sq \<Rightarrow> if \<not> MAP_is_base sq then mod_zoc_sea x y faction_id g else Some (g, 0))"

section \<open>Counting units at a square (path.cpp)\<close>

definition rows_down :: "game \<Rightarrow> int list" where
  "rows_down g = List.rev [0..VehCount g - 1]"

definition stays_at :: "game \<Rightarrow> int \<Rightarrow> int \<Rightarrow> int \<Rightarrow> bool" where
  "stays_at g x y i \<longleftrightarrow> (let v = Vehs g i in veh_x v = x \<and> veh_y v = y \<and> veh_order v \<noteq> ORDER_SENTRY_BOARD \<and> VEH_at_target v)"

definition defender_count :: "game \<Rightarrow> int \<Rightarrow> int \<Rightarrow> int \<Rightarrow> int" where
  "defender_count g x y veh_skip_id =
     (sum_list (map (\<lambda>i. VEH_eval_garrison g (Vehs g i)) (filter (\<lambda>i. stays_at g x y i \<and> i \<noteq> veh_skip_id) (rows_down g))) + 1) sdiv 4"

definition garrison_count :: "game \<Rightarrow> int \<Rightarrow> int \<Rightarrow> int" where
  "garrison_count g x y = int (length (filter (\<lambda>i. stays_at g x y i \<and> VEH_is_garrison_unit g (Vehs g i)) (rows_down g)))"

definition veh_cargo_loaded :: "game \<Rightarrow> int \<Rightarrow> int" where
  "veh_cargo_loaded g veh_id = int (length (filter (\<lambda>i. let v = Vehs g i in veh_order v = ORDER_SENTRY_BOARD
     \<and> veh_waypoint_x v 0 = veh_id \<and> veh_x v = veh_x (Vehs g veh_id) \<and> veh_y v = veh_y (Vehs g veh_id)) (rows_down g)))"

definition transport_at :: "game \<Rightarrow> int \<Rightarrow> int \<Rightarrow> int \<Rightarrow> int \<Rightarrow> bool" where
  "transport_at g x y faction_id i \<longleftrightarrow>
     (let v = Vehs g i in veh_x v = x \<and> veh_y v = y \<and> VEH_is_transport g v \<and> veh_faction_id v = faction_id)"

definition cargo_capacity :: "game \<Rightarrow> int \<Rightarrow> int \<Rightarrow> int \<Rightarrow> int" where
  "cargo_capacity g x y faction_id =
     sum_list (map (\<lambda>i. veh_cargo g i - veh_cargo_loaded g i) (filter (transport_at g x y faction_id) (rows_down g)))"

definition has_transport :: "game \<Rightarrow> int \<Rightarrow> int \<Rightarrow> int \<Rightarrow> bool" where
  "has_transport g x y faction_id \<longleftrightarrow> list_ex (transport_at g x y faction_id) (rows_down g)"

section \<open>The search over squares (path.cpp, TileSearch)\<close>

text \<open>
  The queue \<open>paths\<close> is a list whose length is the code's \<open>tail\<close>; \<open>oldtiles\<close> is the set of squares already entered. The
  coordinates \<open>rx\<close>, \<open>ry\<close> and the distance of the node that was taken last are kept beside it. The private pointer to the last
  square is the result of \<open>get_next\<close>.
\<close>

record path_node =
  pn_x :: int
  pn_y :: int
  pn_dist :: int
  pn_prev :: int

record tile_search =
  ts_type :: int
  ts_head :: nat
  ts_paths :: "path_node list"
  ts_oldtiles :: "(int \<times> int) set"
  ts_rx :: int
  ts_ry :: int
  ts_dist :: int
  ts_current :: nat
  ts_faction_id :: int
  ts_y_skip :: int

definition queue_size :: nat where "queue_size = 8192"
definition path_limit :: nat where "path_limit = 160"

definition ts_reset :: "tile_search \<Rightarrow> tile_search" where
  "ts_reset s = s\<lparr>ts_type := 0, ts_head := 0, ts_paths := [], ts_oldtiles := {}, ts_dist := 0, ts_current := 0,
     ts_faction_id := - 1, ts_y_skip := 0\<rparr>"

definition ts_add_start :: "game \<Rightarrow> int \<times> int \<Rightarrow> tile_search \<Rightarrow> tile_search" where
  "ts_add_start g = (\<lambda>(x, y) s.
     if length (ts_paths s) < queue_size \<and> mapsq g x y \<noteq> None \<and> (x, y) \<notin> ts_oldtiles s
     then s\<lparr>ts_paths := ts_paths s @ [\<lparr>pn_x = x, pn_y = y, pn_dist = 0, pn_prev = - 1\<rparr>],
            ts_oldtiles := insert (x, y) (ts_oldtiles s)\<rparr>
     else s)"

text \<open>The three constructors: one start, one start with rows to skip at the poles, several starts.\<close>

definition ts_init_points :: "game \<Rightarrow> (int \<times> int) list \<Rightarrow> int \<Rightarrow> int \<Rightarrow> tile_search \<Rightarrow> tile_search" where
  "ts_init_points g points ts_kind ts_skip s = fold (ts_add_start g) points ((ts_reset s)\<lparr>ts_type := ts_kind, ts_y_skip := ts_skip\<rparr>)"

definition ts_init_skip :: "game \<Rightarrow> int \<Rightarrow> int \<Rightarrow> int \<Rightarrow> int \<Rightarrow> tile_search \<Rightarrow> tile_search" where
  "ts_init_skip g x y ts_kind ts_skip s = ts_add_start g (x, y) ((ts_reset s)\<lparr>ts_type := ts_kind, ts_y_skip := ts_skip\<rparr>)"

definition ts_init :: "game \<Rightarrow> int \<Rightarrow> int \<Rightarrow> int \<Rightarrow> tile_search \<Rightarrow> tile_search" where
  "ts_init g x y ts_kind s = ts_add_start g (x, y) ((ts_reset s)\<lparr>ts_type := ts_kind\<rparr>)"


definition ts_foreign :: "game \<Rightarrow> tile_search \<Rightarrow> tile \<Rightarrow> bool" where
  "ts_foreign g s sq \<longleftrightarrow> MAP_is_owned sq \<and> sq_owner sq \<noteq> ts_faction_id s \<and> \<not> has_pact g (ts_faction_id s) (sq_owner sq)"

definition ts_skip :: "game \<Rightarrow> tile_search \<Rightarrow> tile \<Rightarrow> bool" where
  "ts_skip g s sq \<longleftrightarrow>
     (let our_base = (MAP_is_base sq \<and> \<not> ts_foreign g s sq); sea = is_ocean_sq (Some sq); k = ts_type s
      in (MAP_is_base sq \<and> \<not> our_base)
         \<or> (k = TS_TRIAD_LAND \<and> sea)
         \<or> (k = TS_TRIAD_SEA \<and> \<not> sea \<and> \<not> our_base)
         \<or> (k = TS_SEA_AND_SHORE \<and> \<not> sea \<and> \<not> our_base)
         \<or> (k = TS_TERRITORY_LAND \<and> (sea \<or> sq_owner sq \<noteq> ts_faction_id s))
         \<or> (k = TS_TERRITORY_SHORE \<and> (sea \<or> sq_owner sq \<noteq> ts_faction_id s))
         \<or> (k = TS_TERRITORY_PACT \<and> (sea \<or> ts_foreign g s sq)))"

text \<open>A square that is not passed through may still be reported, as the shore of the search.\<close>

definition ts_hidden :: "game \<Rightarrow> tile_search \<Rightarrow> tile \<Rightarrow> bool" where
  "ts_hidden g s sq \<longleftrightarrow>
     (let sea = is_ocean_sq (Some sq); k = ts_type s
      in (k = TS_TRIAD_LAND \<and> sea) \<or> (k = TS_TRIAD_SEA \<and> \<not> sea)
         \<or> (k = TS_TERRITORY_LAND \<and> (sea \<or> sq_owner sq \<noteq> ts_faction_id s))
         \<or> (k = TS_TERRITORY_PACT \<and> ts_foreign g s sq))"

definition ts_push :: "game \<Rightarrow> int \<times> int \<Rightarrow> tile_search \<Rightarrow> tile_search" where
  "ts_push g = (\<lambda>(x2, y2) s.
     if y2 \<ge> ts_y_skip s \<and> y2 < MapAreaY g - ts_y_skip s \<and> x2 \<ge> 0 \<and> x2 < MapAreaX g
        \<and> length (ts_paths s) < queue_size \<and> ts_dist s < int path_limit \<and> (x2, y2) \<notin> ts_oldtiles s
     then s\<lparr>ts_paths := ts_paths s @ [\<lparr>pn_x = x2, pn_y = y2, pn_dist = ts_dist s + 1, pn_prev = int (ts_current s)\<rparr>],
            ts_oldtiles := insert (x2, y2) (ts_oldtiles s)\<rparr>
     else s)"

definition ts_take :: "tile_search \<Rightarrow> tile_search" where
  "ts_take s = (let n = ts_paths s ! ts_head s
     in s\<lparr>ts_rx := pn_x n, ts_ry := pn_y n, ts_dist := pn_dist n, ts_current := ts_head s, ts_head := ts_head s + 1\<rparr>)"

definition ts_side :: "tile \<Rightarrow> tile_search \<Rightarrow> tile_search" where
  "ts_side sq s =
     (if ts_current s = 0 \<and> ts_faction_id s < 0
      then s\<lparr>ts_faction_id := (if MAP_veh_owner sq < 0 then sq_owner sq else MAP_veh_owner sq)\<rparr> else s)"

text \<open>One round of the loop: the square it reports, if any.\<close>

definition ts_step :: "game \<Rightarrow> tile_search \<Rightarrow> tile_search \<times> tile option" where
  "ts_step g s =
     (let s = ts_take s
      in case sq_at g (ts_rx s) (ts_ry s) of
           None \<Rightarrow> (s, None)
         | Some sq \<Rightarrow>
             (let s = ts_side sq s
              in if ts_dist s > 0 \<and> ts_skip g s sq
                 then (s, if ts_hidden g s sq then None else Some sq)
                 else (fold (ts_push g) (nearby g (ts_rx s) (ts_ry s)) s, if ts_dist s > 0 then Some sq else None)))"

lemma push_keeps:
  "ts_head (ts_push g p s) = ts_head s" "ts_type (ts_push g p s) = ts_type s" "ts_dist (ts_push g p s) = ts_dist s"
  "ts_current (ts_push g p s) = ts_current s" "ts_rx (ts_push g p s) = ts_rx s" "ts_ry (ts_push g p s) = ts_ry s"
  "ts_faction_id (ts_push g p s) = ts_faction_id s" "ts_y_skip (ts_push g p s) = ts_y_skip s"
  by (auto simp: ts_push_def split: prod.splits)

lemma fold_push_keeps:
  "ts_head (fold (ts_push g) ps s) = ts_head s" "ts_type (fold (ts_push g) ps s) = ts_type s"
  "ts_dist (fold (ts_push g) ps s) = ts_dist s" "ts_current (fold (ts_push g) ps s) = ts_current s"
  "ts_rx (fold (ts_push g) ps s) = ts_rx s" "ts_ry (fold (ts_push g) ps s) = ts_ry s"
  "ts_faction_id (fold (ts_push g) ps s) = ts_faction_id s" "ts_y_skip (fold (ts_push g) ps s) = ts_y_skip s"
  by (induction ps arbitrary: s) (auto simp: push_keeps)

lemma take_simps:
  "ts_head (ts_take s) = Suc (ts_head s)" "ts_paths (ts_take s) = ts_paths s" "ts_oldtiles (ts_take s) = ts_oldtiles s"
  "ts_current (ts_take s) = ts_head s" "ts_dist (ts_take s) = pn_dist (ts_paths s ! ts_head s)"
  "ts_rx (ts_take s) = pn_x (ts_paths s ! ts_head s)" "ts_ry (ts_take s) = pn_y (ts_paths s ! ts_head s)"
  "ts_y_skip (ts_take s) = ts_y_skip s"
  by (simp_all add: ts_take_def Let_def)

lemma side_simps:
  "ts_head (ts_side sq s) = ts_head s" "ts_paths (ts_side sq s) = ts_paths s" "ts_oldtiles (ts_side sq s) = ts_oldtiles s"
  "ts_current (ts_side sq s) = ts_current s" "ts_dist (ts_side sq s) = ts_dist s" "ts_rx (ts_side sq s) = ts_rx s"
  "ts_ry (ts_side sq s) = ts_ry s" "ts_y_skip (ts_side sq s) = ts_y_skip s"
  by (simp_all add: ts_side_def)

lemma push_length: "length (ts_paths (ts_push g p s)) \<le> max (length (ts_paths s)) queue_size"
  by (auto simp: ts_push_def split: prod.splits)

lemma fold_push_length: "length (ts_paths (fold (ts_push g) ps s)) \<le> max (length (ts_paths s)) queue_size"
proof (induction ps arbitrary: s)
  case (Cons p ps)
  have "length (ts_paths (ts_push g p s)) \<le> max (length (ts_paths s)) queue_size" by (rule push_length)
  then show ?case using Cons [of "ts_push g p s"] by (auto simp: max_def split: if_splits)
qed simp

lemma step_head: "ts_head (fst (ts_step g s)) = Suc (ts_head s)"
  by (auto simp: ts_step_def Let_def take_simps side_simps fold_push_keeps split: option.splits)

lemma step_length: "length (ts_paths (fst (ts_step g s))) \<le> max (length (ts_paths s)) queue_size"
  using fold_push_length [of g]
  by (auto simp: ts_step_def Let_def take_simps side_simps split: option.splits) (metis side_simps(2) take_simps(2))+

definition ts_left :: "tile_search \<Rightarrow> nat" where
  "ts_left s = max (length (ts_paths s)) queue_size - ts_head s"

lemma step_left: "ts_head s < length (ts_paths s) \<Longrightarrow> ts_step g s = (s', r) \<Longrightarrow> ts_left s' < ts_left s"
  using step_head [of g s] step_length [of g s] by (auto simp: ts_left_def)

function ts_get_next :: "game \<Rightarrow> tile_search \<Rightarrow> tile_search \<times> tile option" where
  "ts_get_next g s =
     (if ts_head s < length (ts_paths s)
      then (case ts_step g s of (s', Some sq) \<Rightarrow> (s', Some sq) | (s', None) \<Rightarrow> ts_get_next g s')
      else (s, None))"
  by pat_completeness auto
termination by (relation "measure (\<lambda>(g, s). ts_left s)") (auto intro: step_left [OF _ sym])

declare ts_get_next.simps [simp del]

lemma next_Some:
  "ts_get_next g s = (s', Some sq) \<longleftrightarrow> ts_head s < length (ts_paths s)
     \<and> (case ts_step g s of (t, Some q) \<Rightarrow> t = s' \<and> q = sq | (t, None) \<Rightarrow> ts_get_next g t = (s', Some sq))"
  by (subst ts_get_next.simps) (auto split: prod.splits option.splits)

text \<open>What every round keeps is there when the last round reports a square.\<close>

lemma next_last:
  assumes keep: "\<And>s s'. P s \<Longrightarrow> ts_head s < length (ts_paths s) \<Longrightarrow> ts_step g s = (s', None) \<Longrightarrow> P s'"
  shows "P s \<Longrightarrow> ts_get_next g s = (s', Some sq) \<Longrightarrow> \<exists>t. P t \<and> ts_head t < length (ts_paths t) \<and> ts_step g t = (s', Some sq)"
proof (induction s rule: measure_induct_rule [of ts_left])
  case (less s)
  obtain t r where t: "ts_step g s = (t, r)" by fastforce
  have h: "ts_head s < length (ts_paths s)" using less.prems(2) by (simp add: next_Some [of g s])
  show ?case
  proof (cases r)
    case None
    have "ts_get_next g t = (s', Some sq)" using less.prems(2) t None by (simp add: next_Some [of g s])
    then show ?thesis using less.IH [OF step_left [OF h t] keep] less.prems(1) h t None by blast
  next
    case (Some q)
    then have "ts_step g s = (s', Some sq)" using less.prems(2) t by (simp add: next_Some [of g s])
    then show ?thesis using less.prems(1) h by blast
  qed
qed

lemma next_left:
  assumes "ts_get_next g s = (s', Some sq)" shows "ts_left s' < ts_left s"
proof -
  have "\<exists>t. ts_left t \<le> ts_left s \<and> ts_head t < length (ts_paths t) \<and> ts_step g t = (s', Some sq)"
    by (rule next_last [OF _ _ assms]) (auto dest: step_left)
  then show ?thesis by (auto dest: step_left)
qed

text \<open>The walk back along the links, at most \<open>path_limit + 1\<close> nodes.\<close>

fun ts_back :: "nat \<Rightarrow> path_node list \<Rightarrow> int \<Rightarrow> nat list" where
  "ts_back 0 ns p = []"
| "ts_back (Suc n) ns p = (if p \<ge> 0 then nat p # ts_back n ns (pn_prev (ns ! nat p)) else [])"

definition ts_trace :: "tile_search \<Rightarrow> nat list" where
  "ts_trace s = ts_back (path_limit + 1) (ts_paths s) (int (ts_current s))"

definition node_at :: "path_node \<Rightarrow> int \<times> int" where
  "node_at n = (pn_x n, pn_y n)"

definition ts_get_route :: "tile_search \<Rightarrow> (int \<times> int) list" where
  "ts_get_route s = map (\<lambda>i. node_at (ts_paths s ! i)) (rev (ts_trace s))"

text \<open>\<open>roads\<close> is the field of that name in the planner's table of squares.\<close>

definition ts_adjust_roads :: "tile_search \<Rightarrow> (int \<times> int \<Rightarrow> int) \<Rightarrow> int \<Rightarrow> int \<times> int \<Rightarrow> int" where
  "ts_adjust_roads s roads delta = fold (\<lambda>i t. t(node_at (ts_paths s ! i) := t (node_at (ts_paths s ! i)) + delta)) (ts_trace s) roads"

function ts_road_search :: "game \<Rightarrow> int \<Rightarrow> tile_search \<Rightarrow> (int \<times> int \<Rightarrow> int) \<Rightarrow> tile_search \<times> (int \<times> int \<Rightarrow> int)" where
  "ts_road_search g plr_id s roads =
     (case ts_get_next g s of
        (s', None) \<Rightarrow> (s', roads)
      | (s', Some cur) \<Rightarrow>
          if \<not> ts_dist s' < 10 then (s', roads)
          else if MAP_is_base cur \<and> sq_owner cur = plr_id then (s', ts_adjust_roads s' roads 1)
          else ts_road_search g plr_id s' roads)"
  by pat_completeness auto

termination by (relation "measure (\<lambda>(g, plr_id, s, roads). ts_left s)") (auto intro: next_left [OF sym])

definition ts_connect_roads :: "game \<Rightarrow> int \<Rightarrow> int \<Rightarrow> int \<Rightarrow> tile_search \<Rightarrow> (int \<times> int \<Rightarrow> int) \<Rightarrow> tile_search \<times> (int \<times> int \<Rightarrow> int)" where
  "ts_connect_roads g x y plr_id s roads =
     (if \<not> is_ocean g x y \<and> roads (x, y) < 1 then ts_road_search g plr_id (ts_init_skip g x y TRIAD_LAND 1 s) roads else (s, roads))"

text \<open>Two squares under control in a row on the way.\<close>

fun zoc_run :: "(nat \<Rightarrow> bool) \<Rightarrow> bool \<Rightarrow> nat list \<Rightarrow> bool" where
  "zoc_run zoc prev_zoc [] = False"
| "zoc_run zoc prev_zoc (i # is) = (if zoc i then prev_zoc \<or> zoc_run zoc True is else zoc_run zoc False is)"

definition ts_has_zoc :: "game \<Rightarrow> int \<Rightarrow> tile_search \<Rightarrow> bool" where
  "ts_has_zoc g plr_id s =
     zoc_run (\<lambda>i. let n = ts_paths s ! i in mod_zoc_any g (pn_x n) (pn_y n) plr_id \<noteq> 0) False (ts_trace s)"

definition ts_get_prev :: "tile_search \<Rightarrow> path_node" where
  "ts_get_prev s = ts_paths s ! nat (pn_prev (ts_paths s ! ts_current s))"

definition ts_get_node :: "tile_search \<Rightarrow> path_node" where
  "ts_get_node s = ts_paths s ! ts_current s"

section \<open>The search is right\<close>

definition node_ok :: "game \<Rightarrow> path_node list \<Rightarrow> nat \<Rightarrow> bool" where
  "node_ok g ns i \<longleftrightarrow>
     (let n = ns ! i in pn_dist n \<le> int path_limit
        \<and> (if pn_prev n = - 1 then pn_dist n = 0
           else 0 \<le> pn_prev n \<and> pn_prev n < int i
                \<and> (let m = ns ! nat (pn_prev n) in pn_dist n = pn_dist m + 1 \<and> node_at n \<in> set (nearby g (pn_x m) (pn_y m)))))"

definition queue_ok :: "game \<Rightarrow> path_node list \<Rightarrow> bool" where
  "queue_ok g ns \<longleftrightarrow> length ns \<le> queue_size \<and> distinct (map node_at ns) \<and> (\<forall>n \<in> set ns. on_map g (pn_x n) (pn_y n))
     \<and> (\<forall>i < length ns. node_ok g ns i) \<and> sorted (map pn_dist ns)"

definition search_ok :: "game \<Rightarrow> tile_search \<Rightarrow> bool" where
  "search_ok g s \<longleftrightarrow>
     (let ns = ts_paths s
      in queue_ok g ns \<and> ts_oldtiles s = node_at ` set ns \<and> 0 \<le> ts_y_skip s \<and> ts_head s \<le> length ns
         \<and> (ts_head s > 0 \<longrightarrow> ts_current s = ts_head s - 1 \<and> (ts_rx s, ts_ry s) = node_at (ns ! ts_current s)
              \<and> ts_dist s = pn_dist (ns ! ts_current s))
         \<and> (\<forall>n \<in> set ns. pn_dist n \<le> pn_dist (ns ! (ts_head s - 1)) + 1))"

lemma node_ok_append: "i < length ns \<Longrightarrow> node_ok g (ns @ [n]) i = node_ok g ns i"
  by (auto simp: node_ok_def Let_def nth_append)

lemma queue_ok_snoc:
  assumes "queue_ok g ns" "length ns < queue_size" "node_at n \<notin> node_at ` set ns" "on_map g (pn_x n) (pn_y n)"
    "node_ok g (ns @ [n]) (length ns)" "\<And>m. m \<in> set ns \<Longrightarrow> pn_dist m \<le> pn_dist n"
  shows "queue_ok g (ns @ [n])"
  using assms unfolding queue_ok_def
  by (auto simp: node_ok_append less_Suc_eq sorted_append)

lemma push_ok:
  assumes ok: "search_ok g s" and h: "0 < ts_head s" and p: "(x2, y2) \<in> set (nearby g (ts_rx s) (ts_ry s))"
  shows "search_ok g (ts_push g (x2, y2) s)"
proof (cases "y2 \<ge> ts_y_skip s \<and> y2 < MapAreaY g - ts_y_skip s \<and> x2 \<ge> 0 \<and> x2 < MapAreaX g
        \<and> length (ts_paths s) < queue_size \<and> ts_dist s < int path_limit \<and> (x2, y2) \<notin> ts_oldtiles s")
  case False
  then have "ts_push g (x2, y2) s = s" unfolding ts_push_def prod.case by (rule if_not_P)
  then show ?thesis using ok by simp
next
  case True
  let ?ns = "ts_paths s" and ?n = "\<lparr>pn_x = x2, pn_y = y2, pn_dist = ts_dist s + 1, pn_prev = int (ts_current s)\<rparr>"
  have ns: "queue_ok g ?ns" "ts_oldtiles s = node_at ` set ?ns" "0 \<le> ts_y_skip s" "ts_head s \<le> length ?ns"
    "ts_current s = ts_head s - 1" "(ts_rx s, ts_ry s) = node_at (?ns ! ts_current s)" "ts_dist s = pn_dist (?ns ! ts_current s)"
    "\<And>n. n \<in> set ?ns \<Longrightarrow> pn_dist n \<le> ts_dist s + 1"
    using ok h by (auto simp: search_ok_def Let_def)
  have c: "ts_current s < length ?ns" using ns(4,5) h by simp
  have "queue_ok g (?ns @ [?n])"
  proof (rule queue_ok_snoc [OF ns(1)])
    show "node_ok g (?ns @ [?n]) (length ?ns)"
      using True c p ns(6,7) by (auto simp: node_ok_def Let_def nth_append node_at_def)
    show "\<And>m. m \<in> set ?ns \<Longrightarrow> pn_dist m \<le> pn_dist ?n" using ns(8) by simp
  qed (use True ns(2,3) in \<open>auto simp: node_at_def on_map_def\<close>)
  moreover have "(?ns @ [?n]) ! (ts_head s - 1) = ?ns ! (ts_head s - 1)" using c ns(5) by (simp add: nth_append)
  moreover have "ts_push g (x2, y2) s = s\<lparr>ts_paths := ?ns @ [?n], ts_oldtiles := insert (x2, y2) (ts_oldtiles s)\<rparr>"
    unfolding ts_push_def prod.case by (rule if_P [OF True])
  ultimately show ?thesis using ns h c
    by (auto simp: search_ok_def Let_def node_at_def)
qed

lemma fold_push_ok:
  "search_ok g s \<Longrightarrow> 0 < ts_head s \<Longrightarrow> set ps \<subseteq> set (nearby g (ts_rx s) (ts_ry s)) \<Longrightarrow> search_ok g (fold (ts_push g) ps s)"
proof (induction ps arbitrary: s)
  case (Cons p ps)
  then have "search_ok g (ts_push g p s)" using push_ok [of g s "fst p" "snd p"] by simp
  then show ?case using Cons by (simp add: push_keeps)
qed simp

lemma take_ok:
  assumes ok: "search_ok g s" and h: "ts_head s < length (ts_paths s)"
  shows "search_ok g (ts_take s)"
proof -
  let ?ns = "ts_paths s"
  have "sorted (map pn_dist ?ns)" "\<And>n. n \<in> set ?ns \<Longrightarrow> pn_dist n \<le> pn_dist (?ns ! (ts_head s - 1)) + 1"
    using ok by (auto simp: search_ok_def queue_ok_def Let_def)
  moreover have "pn_dist (?ns ! (ts_head s - 1)) \<le> pn_dist (?ns ! ts_head s)"
    using sorted_nth_mono [OF calculation(1), of "ts_head s - 1" "ts_head s"] h by simp
  ultimately show ?thesis using ok h by (fastforce simp: search_ok_def Let_def take_simps node_at_def)
qed

lemma side_ok: "search_ok g (ts_side sq s) = search_ok g s"
  by (simp add: search_ok_def side_simps)

lemma step_ok:
  assumes "search_ok g s" "ts_head s < length (ts_paths s)"
  shows "search_ok g (fst (ts_step g s))"
proof -
  have t: "search_ok g (ts_take s)" by (rule take_ok [OF assms])
  have "search_ok g (fold (ts_push g) (nearby g (ts_rx (ts_take s)) (ts_ry (ts_take s))) (ts_side sq (ts_take s)))" for sq
    by (rule fold_push_ok) (use t in \<open>simp_all add: side_ok side_simps take_simps\<close>)
  then show ?thesis using t by (auto simp: ts_step_def Let_def side_ok side_simps split: option.splits)
qed

lemma next_ok: "search_ok g s \<Longrightarrow> search_ok g (fst (ts_get_next g s))"
proof (induction s rule: measure_induct_rule [of ts_left])
  case (less s)
  show ?case
  proof (cases "ts_head s < length (ts_paths s)")
    case True
    obtain t r where t: "ts_step g s = (t, r)" by fastforce
    have "search_ok g t" using step_ok [OF less.prems True] t by simp
    then show ?thesis using less.IH [OF step_left [OF True t]] True t
      by (subst ts_get_next.simps) (auto split: option.splits)
  next
    case False then show ?thesis using less.prems by (subst ts_get_next.simps) simp
  qed
qed

subsection \<open>Starting points\<close>

definition fresh_ok :: "game \<Rightarrow> tile_search \<Rightarrow> bool" where
  "fresh_ok g s \<longleftrightarrow> ts_head s = 0 \<and> (\<forall>n \<in> set (ts_paths s). pn_dist n = 0 \<and> pn_prev n = - 1) \<and> search_ok g s"

lemma add_start_ok: "fresh_ok g s \<Longrightarrow> fresh_ok g (ts_add_start g p s)"
proof -
  assume s: "fresh_ok g s"
  obtain x y where p: "p = (x, y)" by fastforce
  show ?thesis
  proof (cases "length (ts_paths s) < queue_size \<and> mapsq g x y \<noteq> None \<and> (x, y) \<notin> ts_oldtiles s")
    case True
    let ?n = "\<lparr>pn_x = x, pn_y = y, pn_dist = 0, pn_prev = - 1\<rparr>"
    have "on_map g x y" using True by (auto simp: mapsq_def on_map_def split: if_splits)
    then have "queue_ok g (ts_paths s @ [?n])"
      by (intro queue_ok_snoc) (use True s in \<open>auto simp: fresh_ok_def search_ok_def Let_def node_at_def node_ok_def\<close>)
    moreover have "ts_add_start g p s = s\<lparr>ts_paths := ts_paths s @ [?n], ts_oldtiles := insert (x, y) (ts_oldtiles s)\<rparr>"
      using True by (simp add: ts_add_start_def p)
    ultimately show ?thesis using s
      by (auto simp: fresh_ok_def search_ok_def Let_def node_at_def nth_append)
  next
    case False
    then have "ts_add_start g p s = s" by (auto simp: ts_add_start_def p)
    then show ?thesis using s by simp
  qed
qed

lemma reset_ok: "0 \<le> k \<Longrightarrow> fresh_ok g ((ts_reset s)\<lparr>ts_type := t, ts_y_skip := k\<rparr>)" "fresh_ok g ((ts_reset s)\<lparr>ts_type := t\<rparr>)"
  by (simp_all add: fresh_ok_def search_ok_def queue_ok_def ts_reset_def)

lemma init_ok:
  "search_ok g (ts_init g x y t s)" "0 \<le> k \<Longrightarrow> search_ok g (ts_init_skip g x y t k s)"
  "0 \<le> k \<Longrightarrow> search_ok g (ts_init_points g ps t k s)"
proof -
  show "search_ok g (ts_init g x y t s)"
    using add_start_ok [OF reset_ok(2)] unfolding ts_init_def fresh_ok_def by blast
  show "0 \<le> k \<Longrightarrow> search_ok g (ts_init_skip g x y t k s)"
    using add_start_ok [OF reset_ok(1)] unfolding ts_init_skip_def fresh_ok_def by blast
  have "fresh_ok g (fold (ts_add_start g) ps s0)" if "fresh_ok g s0" for s0
    using that by (induction ps arbitrary: s0) (auto intro: add_start_ok)
  then show "0 \<le> k \<Longrightarrow> search_ok g (ts_init_points g ps t k s)"
    using reset_ok(1) unfolding ts_init_points_def fresh_ok_def by blast
qed

subsection \<open>Routes\<close>

lemma node_okD:
  assumes "queue_ok g ns" "p < length ns" "pn_prev (ns ! p) \<noteq> - 1"
  shows "nat (pn_prev (ns ! p)) < p" "0 \<le> pn_prev (ns ! p)" "pn_dist (ns ! p) = pn_dist (ns ! nat (pn_prev (ns ! p))) + 1"
    "node_at (ns ! p) \<in> set (nearby g (pn_x (ns ! nat (pn_prev (ns ! p)))) (pn_y (ns ! nat (pn_prev (ns ! p)))))"
proof -
  have "node_ok g ns p" using assms(1,2) by (simp add: queue_ok_def)
  with assms(3) show "nat (pn_prev (ns ! p)) < p" "0 \<le> pn_prev (ns ! p)" "pn_dist (ns ! p) = pn_dist (ns ! nat (pn_prev (ns ! p))) + 1"
    "node_at (ns ! p) \<in> set (nearby g (pn_x (ns ! nat (pn_prev (ns ! p)))) (pn_y (ns ! nat (pn_prev (ns ! p)))))"
    by (auto simp: node_ok_def Let_def)
qed

lemma dist_nonneg: "queue_ok g ns \<Longrightarrow> p < length ns \<Longrightarrow> 0 \<le> pn_dist (ns ! p)"
proof (induction p rule: less_induct)
  case (less p)
  show ?case
  proof (cases "pn_prev (ns ! p) = - 1")
    case True then show ?thesis using less.prems by (auto simp: queue_ok_def node_ok_def Let_def)
  next
    case False
    from node_okD [OF less.prems False] less.IH [of "nat (pn_prev (ns ! p))"] less.prems show ?thesis by simp
  qed
qed

definition steps_back :: "game \<Rightarrow> path_node list \<Rightarrow> nat \<Rightarrow> nat \<Rightarrow> bool" where
  "steps_back g ns i j \<longleftrightarrow> node_at (ns ! i) \<in> set (nearby g (pn_x (ns ! j)) (pn_y (ns ! j)))"

lemma back_route:
  assumes q: "queue_ok g ns"
  shows "p < length ns \<Longrightarrow> pn_dist (ns ! p) < int n \<Longrightarrow>
    length (ts_back n ns (int p)) = nat (pn_dist (ns ! p)) + 1 \<and> hd (ts_back n ns (int p)) = p
      \<and> pn_prev (ns ! last (ts_back n ns (int p))) = - 1 \<and> set (ts_back n ns (int p)) \<subseteq> {..<length ns}
      \<and> successively (steps_back g ns) (ts_back n ns (int p))"
proof (induction n arbitrary: p)
  case 0 then show ?case using dist_nonneg [OF q, of p] by simp
next
  case (Suc n)
  show ?case
  proof (cases "pn_prev (ns ! p) = - 1")
    case True
    then have "pn_dist (ns ! p) = 0" using q Suc.prems(1) by (auto simp: queue_ok_def node_ok_def Let_def)
    moreover have "ts_back n ns (- 1) = []" by (cases n) simp_all
    ultimately show ?thesis using True Suc.prems by simp
  next
    case False
    define r where "r = nat (pn_prev (ns ! p))"
    note d = node_okD [OF q Suc.prems(1) False, folded r_def]
    have r: "pn_prev (ns ! p) = int r" using d(2) by (simp add: r_def)
    have ih: "length (ts_back n ns (int r)) = nat (pn_dist (ns ! r)) + 1 \<and> hd (ts_back n ns (int r)) = r
      \<and> pn_prev (ns ! last (ts_back n ns (int r))) = - 1 \<and> set (ts_back n ns (int r)) \<subseteq> {..<length ns}
      \<and> successively (steps_back g ns) (ts_back n ns (int r))"
      by (rule Suc.IH) (use d Suc.prems in simp_all)
    moreover from ih have "ts_back n ns (int r) \<noteq> []" by auto
    moreover have "0 \<le> pn_dist (ns ! r)" by (rule dist_nonneg [OF q]) (use d(1) Suc.prems in simp)
    ultimately show ?thesis
      using d Suc.prems(1) by (simp add: r successively_Cons steps_back_def)
  qed
qed

lemma trace_facts:
  assumes ok: "search_ok g s" and h: "0 < ts_head s"
  shows "length (ts_trace s) = nat (ts_dist s) + 1" "hd (ts_trace s) = ts_current s"
    "pn_prev (ts_paths s ! last (ts_trace s)) = - 1" "set (ts_trace s) \<subseteq> {..<length (ts_paths s)}"
    "successively (steps_back g (ts_paths s)) (ts_trace s)"
proof -
  let ?ns = "ts_paths s"
  have q: "queue_ok g ?ns" and c: "ts_current s < length ?ns" "ts_dist s = pn_dist (?ns ! ts_current s)"
    using ok h by (auto simp: search_ok_def Let_def)
  have "pn_dist (?ns ! ts_current s) < int (path_limit + 1)" using q c(1) by (auto simp: queue_ok_def node_ok_def Let_def)
  from back_route [OF q c(1) this] c(2)
  show "length (ts_trace s) = nat (ts_dist s) + 1" "hd (ts_trace s) = ts_current s"
    "pn_prev (?ns ! last (ts_trace s)) = - 1" "set (ts_trace s) \<subseteq> {..<length ?ns}" "successively (steps_back g ?ns) (ts_trace s)"
    unfolding ts_trace_def by simp_all
qed

text \<open>Each square of a list is near the one before it.\<close>

definition walk :: "game \<Rightarrow> (int \<times> int) list \<Rightarrow> bool" where
  "walk g ps \<longleftrightarrow> successively (\<lambda>p q. q \<in> set (nearby g (fst p) (snd p))) ps"

lemma fold_push_prefix: "k \<le> length (ts_paths s) \<Longrightarrow> take k (ts_paths (fold (ts_push g) ps s)) = take k (ts_paths s)"
proof (induction ps arbitrary: s)
  case (Cons p ps)
  have "take k (ts_paths (ts_push g p s)) = take k (ts_paths s)" "k \<le> length (ts_paths (ts_push g p s))"
    using Cons.prems by (auto simp: ts_push_def split: prod.splits)
  then show ?case using Cons.IH [of "ts_push g p s"] by simp
qed simp

lemma step_prefix: "k \<le> length (ts_paths t) \<Longrightarrow> take k (ts_paths (fst (ts_step g t))) = take k (ts_paths t)"
  by (auto simp: ts_step_def Let_def take_simps side_simps fold_push_prefix split: option.splits)

lemma step_reports:
  assumes ok: "search_ok g t" and h: "ts_head t < length (ts_paths t)" and r: "ts_step g t = (s', Some sq)"
  shows "sq_at g (ts_rx s') (ts_ry s') = Some sq" "0 < ts_dist s'" "ts_head s' = Suc (ts_head t)"
proof -
  have d: "0 \<le> pn_dist (ts_paths t ! ts_head t)" using ok h dist_nonneg by (auto simp: search_ok_def Let_def)
  show "sq_at g (ts_rx s') (ts_ry s') = Some sq" "0 < ts_dist s'" "ts_head s' = Suc (ts_head t)"
    using r h d by (auto simp: ts_step_def Let_def take_simps side_simps fold_push_keeps split: option.splits if_splits)
qed

lemma next_reports:
  assumes ok: "search_ok g s" and r: "ts_get_next g s = (s', Some sq)"
  shows "search_ok g s'" "sq_at g (ts_rx s') (ts_ry s') = Some sq" "0 < ts_dist s'" "ts_head s < ts_head s'"
    "take (ts_head s) (ts_paths s') = take (ts_head s) (ts_paths s)"
proof -
  have "\<exists>t. (search_ok g t \<and> ts_head s \<le> ts_head t \<and> take (ts_head s) (ts_paths t) = take (ts_head s) (ts_paths s))
      \<and> ts_head t < length (ts_paths t) \<and> ts_step g t = (s', Some sq)"
  proof (rule next_last [OF _ _ r])
    fix t t' assume t: "search_ok g t \<and> ts_head s \<le> ts_head t \<and> take (ts_head s) (ts_paths t) = take (ts_head s) (ts_paths s)"
      "ts_head t < length (ts_paths t)" "ts_step g t = (t', None)"
    then show "search_ok g t' \<and> ts_head s \<le> ts_head t' \<and> take (ts_head s) (ts_paths t') = take (ts_head s) (ts_paths s)"
      using step_ok [OF _ t(2), of g] step_head [of g t] step_prefix [of "ts_head s" t g] by simp
  qed (use ok in simp)
  then obtain t where t: "search_ok g t" "ts_head s \<le> ts_head t" "take (ts_head s) (ts_paths t) = take (ts_head s) (ts_paths s)"
      "ts_head t < length (ts_paths t)" "ts_step g t = (s', Some sq)" by blast
  show "search_ok g s'" using step_ok [OF t(1,4)] t(5) by simp
  show "take (ts_head s) (ts_paths s') = take (ts_head s) (ts_paths s)"
    using step_prefix [of "ts_head s" t g] t by simp
  show "sq_at g (ts_rx s') (ts_ry s') = Some sq" "0 < ts_dist s'" "ts_head s < ts_head s'"
    using step_reports [OF t(1,4,5)] t(2) by simp_all
qed

lemma walk_route: "walk g (ts_get_route s)" if "search_ok g s" "0 < ts_head s"
  using trace_facts(5) [OF that]
  by (simp add: walk_def ts_get_route_def successively_map successively_rev steps_back_def node_at_def)

text \<open>C6: the search over squares reports each square with a way to it. Whenever \<open>get_next\<close> reports a square, it is the square
  at the coordinates of the search; it was not reported before; its distance is at least that of the squares reported before; and
  the route that \<open>get_route\<close> reads off the queue has as many steps as the distance says (the code's assertion), starts at a starting
  point of the search, ends at the square, and each of its squares is next to the one before.\<close>

theorem search_route_correct:
  assumes "search_ok g s" and "ts_get_next g s = (s', Some sq)"
  shows "search_ok g s' \<and> sq_at g (ts_rx s') (ts_ry s') = Some sq
    \<and> (\<forall>n \<in> set (take (ts_head s) (ts_paths s)). node_at n \<noteq> (ts_rx s', ts_ry s') \<and> pn_dist n \<le> ts_dist s')
    \<and> int (length (ts_get_route s')) = ts_dist s' + 1
    \<and> (\<exists>n \<in> set (ts_paths s'). pn_prev n = - 1 \<and> hd (ts_get_route s') = node_at n)
    \<and> last (ts_get_route s') = (ts_rx s', ts_ry s') \<and> walk g (ts_get_route s')"
proof -
  note r = next_reports [OF assms]
  let ?ns = "ts_paths s'" and ?c = "ts_current s'"
  have h: "0 < ts_head s'" using r(4) by simp
  note t = trace_facts [OF r(1) h]
  have q: "queue_ok g ?ns" and c: "?c = ts_head s' - 1" "?c < length ?ns" "(ts_rx s', ts_ry s') = node_at (?ns ! ?c)" "ts_dist s' = pn_dist (?ns ! ?c)"
    using r(1) h by (auto simp: search_ok_def Let_def)
  have ne: "ts_trace s' \<noteq> []" using t(1) by auto
  have "node_at n \<noteq> (ts_rx s', ts_ry s') \<and> pn_dist n \<le> ts_dist s'" if n: "n \<in> set (take (ts_head s) (ts_paths s))" for n
  proof -
    obtain i where i: "i < ts_head s" "i < length ?ns" "n = ?ns ! i"
      using n unfolding r(5) [symmetric] by (auto simp: in_set_conv_nth)
    moreover have "i < ?c" using i(1) r(4) c(1) by simp
    moreover have "node_at (?ns ! i) \<noteq> node_at (?ns ! ?c)"
      using q i(2) c(2) \<open>i < ?c\<close> by (auto simp: queue_ok_def distinct_conv_nth dest!: spec [of _ i])
    moreover have "pn_dist (?ns ! i) \<le> pn_dist (?ns ! ?c)"
      using q sorted_nth_mono [of "map pn_dist ?ns" i ?c] i(2) c(2) \<open>i < ?c\<close> by (simp add: queue_ok_def)
    ultimately show ?thesis using c(3,4) by simp
  qed
  moreover have "hd (ts_get_route s') = node_at (?ns ! last (ts_trace s'))" "last (ts_get_route s') = node_at (?ns ! hd (ts_trace s'))"
    using ne by (simp_all add: ts_get_route_def hd_map last_map hd_rev last_rev)
  moreover have "last (ts_trace s') < length ?ns" using t(4) ne last_in_set by blast
  ultimately show ?thesis
    using r(1,2,3) t(1,2,3) c(3) walk_route [OF r(1) h] by (auto simp: ts_get_route_def)
qed

subsection \<open>The search leaves nothing out\<close>

definition in_rows :: "game \<Rightarrow> tile_search \<Rightarrow> int \<times> int \<Rightarrow> bool" where
  "in_rows g s = (\<lambda>(x, y). ts_y_skip s \<le> y \<and> y < MapAreaY g - ts_y_skip s \<and> 0 \<le> x \<and> x < MapAreaX g)"

definition passes :: "game \<Rightarrow> tile_search \<Rightarrow> path_node \<Rightarrow> bool" where
  "passes g s n \<longleftrightarrow> (case sq_at g (pn_x n) (pn_y n) of None \<Rightarrow> False | Some sq \<Rightarrow> \<not> (0 < pn_dist n \<and> ts_skip g s sq))"

definition spread :: "game \<Rightarrow> tile_search \<Rightarrow> path_node \<Rightarrow> bool" where
  "spread g s n \<longleftrightarrow> (\<forall>p \<in> set (nearby g (pn_x n) (pn_y n)). in_rows g s p \<longrightarrow> p \<in> ts_oldtiles s)"

definition closed_below :: "game \<Rightarrow> tile_search \<Rightarrow> bool" where
  "closed_below g s \<longleftrightarrow> (length (ts_paths s) < queue_size \<longrightarrow>
     (\<forall>n \<in> set (take (ts_head s) (ts_paths s)). pn_dist n < int path_limit \<and> passes g s n \<longrightarrow> spread g s n))"

lemma push_grows: "ts_oldtiles s \<subseteq> ts_oldtiles (ts_push g p s)" "length (ts_paths s) \<le> length (ts_paths (ts_push g p s))"
  by (auto simp: ts_push_def split: prod.splits)

lemma fold_push_grows:
  "ts_oldtiles s \<subseteq> ts_oldtiles (fold (ts_push g) ps s) \<and> length (ts_paths s) \<le> length (ts_paths (fold (ts_push g) ps s))"
proof (induction ps arbitrary: s)
  case (Cons p ps)
  show ?case using Cons [of "ts_push g p s"] push_grows [of s g p] by auto
qed simp

lemma fold_push_enters:
  "ts_dist s < int path_limit \<Longrightarrow> length (ts_paths (fold (ts_push g) ps s)) < queue_size \<Longrightarrow> p \<in> set ps \<Longrightarrow> in_rows g s p
    \<Longrightarrow> p \<in> ts_oldtiles (fold (ts_push g) ps s)"
proof (induction ps arbitrary: s)
  case (Cons q ps)
  let ?s = "ts_push g q s"
  have l: "length (ts_paths s) < queue_size"
    using fold_push_grows [of ?s g ps] push_grows(2) [of s g q] Cons.prems(2) by simp
  show ?case
  proof (cases "p = q")
    case True
    then have "p \<in> ts_oldtiles ?s" using Cons.prems(1,4) l by (auto simp: ts_push_def in_rows_def split: prod.splits)
    then show ?thesis using fold_push_grows [of ?s g ps] by auto
  next
    case False
    moreover have "in_rows g ?s p" using Cons.prems(4) by (simp add: in_rows_def push_keeps)
    ultimately show ?thesis using Cons by (simp add: push_keeps)
  qed
qed simp

lemma skip_cong: "ts_type t = ts_type s \<Longrightarrow> ts_faction_id t = ts_faction_id s \<Longrightarrow> ts_skip g t sq = ts_skip g s sq"
  by (simp add: ts_skip_def ts_foreign_def)

lemma passes_cong: "ts_type t = ts_type s \<Longrightarrow> ts_faction_id t = ts_faction_id s \<Longrightarrow> passes g t n = passes g s n"
  unfolding passes_def by (subst skip_cong [of t s]) simp_all

lemma step_side:
  "0 < ts_head s \<Longrightarrow> ts_faction_id (fst (ts_step g s)) = ts_faction_id s"
  "ts_type (fst (ts_step g s)) = ts_type s" "ts_y_skip (fst (ts_step g s)) = ts_y_skip s"
  "ts_oldtiles s \<subseteq> ts_oldtiles (fst (ts_step g s))" "length (ts_paths s) \<le> length (ts_paths (fst (ts_step g s)))"
proof -
  show "0 < ts_head s \<Longrightarrow> ts_faction_id (fst (ts_step g s)) = ts_faction_id s"
    "ts_type (fst (ts_step g s)) = ts_type s" "ts_y_skip (fst (ts_step g s)) = ts_y_skip s"
    by (auto simp: ts_step_def Let_def fold_push_keeps ts_side_def ts_take_def split: option.splits)
  show "ts_oldtiles s \<subseteq> ts_oldtiles (fst (ts_step g s))" "length (ts_paths s) \<le> length (ts_paths (fst (ts_step g s)))"
    using fold_push_grows [of "ts_side _ (ts_take s)" g]
    by (auto simp: ts_step_def Let_def take_simps side_simps split: option.splits)
qed

lemma step_spreads:
  assumes h: "ts_head s < length (ts_paths s)" and n: "n = ts_paths s ! ts_head s"
    and l: "length (ts_paths (fst (ts_step g s))) < queue_size" "pn_dist n < int path_limit" and p: "passes g (fst (ts_step g s)) n"
  shows "spread g (fst (ts_step g s)) n"
proof -
  obtain sq where sq: "sq_at g (pn_x n) (pn_y n) = Some sq" using p by (auto simp: passes_def split: option.splits)
  let ?t = "ts_side sq (ts_take s)"
  let ?u = "fold (ts_push g) (nearby g (pn_x n) (pn_y n)) ?t"
  have e: "fst (ts_step g s) = (if 0 < pn_dist n \<and> ts_skip g ?t sq then ?t else ?u)"
    using sq by (simp add: ts_step_def Let_def take_simps side_simps n)
  have k: "ts_skip g (fst (ts_step g s)) sq = ts_skip g ?t sq"
    by (rule skip_cong) (simp_all add: e fold_push_keeps)
  then have "\<not> (0 < pn_dist n \<and> ts_skip g ?t sq)" using p sq by (auto simp: passes_def)
  then have u: "fst (ts_step g s) = ?u" unfolding e by (rule if_not_P)
  have "q \<in> ts_oldtiles ?u" if "q \<in> set (nearby g (pn_x n) (pn_y n))" "in_rows g ?u q" for q
    by (rule fold_push_enters [OF _ _ that(1)]) (use l that(2) in \<open>simp_all add: u side_simps take_simps n in_rows_def fold_push_keeps\<close>)
  then show ?thesis by (simp add: spread_def u)
qed

lemma step_closed:
  assumes c: "closed_below g s" and h: "ts_head s < length (ts_paths s)"
  shows "closed_below g (fst (ts_step g s))"
  unfolding closed_below_def
proof (intro impI ballI, elim conjE)
  let ?t = "fst (ts_step g s)"
  fix n assume l: "length (ts_paths ?t) < queue_size" "pn_dist n < int path_limit" and p: "passes g ?t n"
    and n: "n \<in> set (take (ts_head ?t) (ts_paths ?t))"
  have "take (ts_head ?t) (ts_paths ?t) = take (ts_head s) (ts_paths s) @ [ts_paths s ! ts_head s]"
    using step_prefix [of "Suc (ts_head s)" s g] h by (simp add: step_head take_Suc_conv_app_nth)
  then consider "n \<in> set (take (ts_head s) (ts_paths s))" | "n = ts_paths s ! ts_head s" using n by auto
  then show "spread g ?t n"
  proof cases
    case 1
    then have "0 < ts_head s" by (cases "ts_head s") auto
    then have "passes g s n" using p step_side(1,2) passes_cong by metis
    moreover have "length (ts_paths s) < queue_size" using l(1) step_side(5) [of s] by (rule le_less_trans [rotated])
    ultimately have "spread g s n" using c 1 l(2) by (simp add: closed_below_def)
    moreover have "in_rows g ?t = in_rows g s" by (simp add: in_rows_def step_side(3))
    ultimately show ?thesis using step_side(4) [of s g] by (auto simp: spread_def)
  next
    case 2 then show ?thesis using step_spreads [OF h _ l p] by simp
  qed
qed

lemma next_closed:
  "closed_below g s \<Longrightarrow> closed_below g (fst (ts_get_next g s)) \<and> (snd (ts_get_next g s) = None \<longrightarrow>
     length (ts_paths (fst (ts_get_next g s))) \<le> ts_head (fst (ts_get_next g s)))"
proof (induction s rule: measure_induct_rule [of ts_left])
  case (less s)
  show ?case
  proof (cases "ts_head s < length (ts_paths s)")
    case True
    obtain t r where t: "ts_step g s = (t, r)" by fastforce
    have "closed_below g t" using step_closed [OF less.prems True] t by simp
    then show ?thesis using less.IH [OF step_left [OF True t]] True t
      by (subst (1 2 3 4) ts_get_next.simps) (auto split: option.splits)
  next
    case False
    then have "ts_get_next g s = (s, None)" by (subst ts_get_next.simps) simp
    then show ?thesis using less.prems False by simp
  qed
qed

text \<open>The squares a caller draws from the search one after the other.\<close>

definition draws :: "game \<Rightarrow> tile_search \<Rightarrow> tile_search \<Rightarrow> bool" where
  "draws g s t \<longleftrightarrow> (\<exists>sq. ts_get_next g s = (t, Some sq))"

text \<open>C7: the search leaves nothing out. When \<open>get_next\<close> finally reports nothing and neither the queue nor the limit of the
  distance was reached, the squares entered are closed: every square next to an entered square the search passes through, inside
  the rows searched, was entered.\<close>

theorem search_exhaustive:
  assumes "(draws g)\<^sup>*\<^sup>* (ts_init_skip g x y kind skip s0) t" and "ts_get_next g t = (e, None)" and "0 \<le> skip"
    and "length (ts_paths e) < queue_size"
    and "n \<in> set (ts_paths e)" "pn_dist n < int path_limit" "passes g e n"
    and "p \<in> set (nearby g (pn_x n) (pn_y n))" "in_rows g e p"
  shows "p \<in> node_at ` set (ts_paths e)"
proof -
  let ?s = "ts_init_skip g x y kind skip s0"
  have "search_ok g ?s" "closed_below g ?s"
    using init_ok(2) [OF assms(3)] by (auto simp: closed_below_def ts_init_skip_def ts_add_start_def ts_reset_def)
  with assms(1) have "search_ok g t \<and> closed_below g t"
  proof (induction rule: rtranclp_induct)
    case (step t u)
    then show ?case using next_ok [of g t] next_closed [of g t] by (auto simp: draws_def)
  qed simp
  then have "search_ok g e" "closed_below g e" "length (ts_paths e) \<le> ts_head e"
    using next_ok [of g t] next_closed [of g t] assms(2) by auto
  then have "spread g e n" "ts_oldtiles e = node_at ` set (ts_paths e)"
    using assms(4-7) by (auto simp: closed_below_def search_ok_def Let_def)
  then show ?thesis using assms(8,9) by (auto simp: spread_def)
qed


text \<open>A flat strip of three squares, with no unit and no base: the search from its left end reports the other two.\<close>

definition strip_game :: game where
  "strip_game = blank_game\<lparr>MapAreaX := 5, MapAreaY := 1, MapToggleFlat := 1, MapTiles := (\<lambda>_. blank_tile\<lparr>sq_owner := - 1\<rparr>)\<rparr>"

definition strip_start :: tile_search where
  "strip_start = ts_init_skip strip_game 0 0 TS_TRIAD_AIR 0
     \<lparr>ts_type = 0, ts_head = 0, ts_paths = [], ts_oldtiles = {}, ts_rx = 0, ts_ry = 0, ts_dist = 0, ts_current = 0,
      ts_faction_id = 0, ts_y_skip = 0\<rparr>"

definition strip_next :: tile_search where
  "strip_next = \<lparr>ts_type = 2, ts_head = 2, ts_paths = [\<lparr>pn_x = 0, pn_y = 0, pn_dist = 0, pn_prev = - 1\<rparr>,
       \<lparr>pn_x = 2, pn_y = 0, pn_dist = 1, pn_prev = 0\<rparr>, \<lparr>pn_x = 4, pn_y = 0, pn_dist = 2, pn_prev = 1\<rparr>],
     ts_oldtiles = {(4, 0), (2, 0), (0, 0)}, ts_rx = 2, ts_ry = 0, ts_dist = 1, ts_current = 1, ts_faction_id = 0, ts_y_skip = 0\<rparr>"

lemma strip_nearby: "nearby strip_game x y = map (\<lambda>(dx, dy). (x + dx, y + dy)) NearbyTiles"
  by (simp add: nearby_def wrap_def map_is_flat_def strip_game_def)

lemma strip_squares: "mapsq strip_game 0 0 = Some 0" "mapsq strip_game 2 0 = Some 1" "mapsq strip_game 4 0 = Some 2"
  by (simp_all add: mapsq_def strip_game_def)

definition strip_tile :: tile where
  "strip_tile = blank_tile\<lparr>sq_owner := - 1\<rparr>"

lemma strip_sq: "sq_at strip_game 0 0 = Some strip_tile" "sq_at strip_game 2 0 = Some strip_tile"
  unfolding sq_at_def strip_squares by (simp_all add: strip_game_def strip_tile_def)

lemma strip_side: "MAP_veh_owner strip_tile = 0" "\<not> MAP_is_base strip_tile" "\<not> MAP_is_owned strip_tile"
  by (simp_all add: strip_tile_def blank_tile_def MAP_veh_owner_def MAP_is_base_def MAP_is_owned_def)

lemma strip_begin: "strip_start = \<lparr>ts_type = 2, ts_head = 0, ts_paths = [\<lparr>pn_x = 0, pn_y = 0, pn_dist = 0, pn_prev = - 1\<rparr>],
     ts_oldtiles = {(0, 0)}, ts_rx = 0, ts_ry = 0, ts_dist = 0, ts_current = 0, ts_faction_id = - 1, ts_y_skip = 0\<rparr>"
  by (simp add: strip_start_def ts_init_skip_def ts_add_start_def ts_reset_def strip_squares queue_size_def)

definition strip_mid :: tile_search where
  "strip_mid = \<lparr>ts_type = 2, ts_head = 1, ts_paths = [\<lparr>pn_x = 0, pn_y = 0, pn_dist = 0, pn_prev = - 1\<rparr>,
       \<lparr>pn_x = 2, pn_y = 0, pn_dist = 1, pn_prev = 0\<rparr>],
     ts_oldtiles = {(2, 0), (0, 0)}, ts_rx = 0, ts_ry = 0, ts_dist = 0, ts_current = 0, ts_faction_id = 0, ts_y_skip = 0\<rparr>"

lemma strip_area: "MapAreaX strip_game = 5" "MapAreaY strip_game = 1"
  by (simp_all add: strip_game_def)

lemma strip_first: "ts_step strip_game strip_start = (strip_mid, None)"
  by (simp add: ts_step_def strip_begin ts_take_def ts_side_def strip_sq strip_side strip_nearby NearbyTiles_def ts_push_def
      strip_area queue_size_def path_limit_def strip_mid_def Let_def)

lemma strip_second: "ts_step strip_game strip_mid = (strip_next, Some strip_tile)"
  by (simp add: ts_step_def strip_mid_def ts_take_def ts_side_def strip_sq strip_side strip_nearby NearbyTiles_def ts_push_def
      strip_area queue_size_def path_limit_def strip_next_def Let_def ts_skip_def ts_foreign_def)

lemma strip_draw: "ts_get_next strip_game strip_start = (strip_next, Some strip_tile)"
  using strip_first strip_second
  by (subst ts_get_next.simps, subst ts_get_next.simps) (simp add: strip_begin strip_mid_def)

lemma search_route_correct_witness:
  "search_ok strip_game strip_next \<and> length (ts_get_route strip_next) = 2 \<and> last (ts_get_route strip_next) = (2, 0)"
proof -
  have "search_ok strip_game strip_start" unfolding strip_start_def by (rule init_ok(2)) simp
  from search_route_correct [OF this strip_draw] show ?thesis by (simp add: strip_next_def)
qed

definition strip_end :: tile_search where
  "strip_end = strip_next\<lparr>ts_head := 3, ts_rx := 4, ts_ry := 0, ts_dist := 2, ts_current := 2\<rparr>"

lemma strip_third: "ts_step strip_game strip_next = (strip_end, Some strip_tile)"
proof -
  have "sq_at strip_game 4 0 = Some strip_tile" unfolding sq_at_def strip_squares by (simp add: strip_game_def strip_tile_def)
  then show ?thesis
    by (simp add: ts_step_def strip_next_def strip_end_def ts_take_def ts_side_def strip_side strip_nearby NearbyTiles_def
        ts_push_def strip_area queue_size_def path_limit_def Let_def ts_skip_def ts_foreign_def)
qed

lemma search_exhaustive_witness: "(2, 0) \<in> node_at ` set (ts_paths strip_end)"
proof -
  have "draws strip_game strip_start strip_next" using strip_draw by (auto simp: draws_def)
  moreover have "draws strip_game strip_next strip_end"
    using strip_third by (simp add: draws_def) (subst ts_get_next.simps, simp add: strip_next_def)
  ultimately have d: "(draws strip_game)\<^sup>*\<^sup>* strip_start strip_end" by (meson rtranclp.simps)
  have e: "ts_get_next strip_game strip_end = (strip_end, None)"
    by (subst ts_get_next.simps) (simp add: strip_end_def strip_next_def)
  have n: "\<lparr>pn_x = 0, pn_y = 0, pn_dist = 0, pn_prev = - 1\<rparr> \<in> set (ts_paths strip_end)" "length (ts_paths strip_end) < queue_size"
    by (simp_all add: strip_end_def strip_next_def queue_size_def)
  show ?thesis
    by (rule search_exhaustive [OF d [unfolded strip_start_def] e _ n(2,1)])
      (simp_all add: path_limit_def passes_def strip_sq strip_nearby NearbyTiles_def in_rows_def strip_area strip_end_def strip_next_def)
qed

section \<open>Costs of ways (path.cpp)\<close>

text \<open>\<open>path_find\<close> is the engine's search for the first step of a way, a direction from 0 to 7 or something else when there is none.
  At most \<open>path_limit\<close> steps are taken.\<close>

definition BaseOffset :: "int \<Rightarrow> int \<times> int" where
  "BaseOffset k = (if 0 \<le> k \<and> k < 8 then NearbyTiles ! nat k else (0, 0))"

type_synonym path_finder = "game \<Rightarrow> int \<Rightarrow> int \<Rightarrow> int \<Rightarrow> int \<Rightarrow> int \<Rightarrow> int \<Rightarrow> int"

fun path_cost_loop :: "path_finder \<Rightarrow> game \<Rightarrow> int \<Rightarrow> int \<Rightarrow> int \<Rightarrow> int \<Rightarrow> int \<Rightarrow> nat \<Rightarrow> int \<Rightarrow> int \<Rightarrow> int \<Rightarrow> int \<Rightarrow> int" where
  "path_cost_loop path_find g x2 y2 unit_id faction_id max_cost n px py cost prev_cost =
     (if \<not> cost + prev_cost \<le> max_cost then - 1
      else if px = x2 \<and> py = y2 then cost + prev_cost
      else case n of 0 \<Rightarrow> - 1
        | Suc m \<Rightarrow>
            (let val = path_find g px py x2 y2 unit_id faction_id
             in if \<not> (val \<ge> 0 \<and> val < 8) then - 1
                else let nx = wrap g (px + fst (BaseOffset val)); ny = py + snd (BaseOffset val)
                  in path_cost_loop path_find g x2 y2 unit_id faction_id max_cost m nx ny (cost + prev_cost)
                       (mod_hex_cost g unit_id faction_id px py nx ny False)))"

declare path_cost_loop.simps [simp del]

definition path_cost :: "path_finder \<Rightarrow> game \<Rightarrow> int \<Rightarrow> int \<Rightarrow> int \<Rightarrow> int \<Rightarrow> int \<Rightarrow> int \<Rightarrow> int \<Rightarrow> int" where
  "path_cost path_find g x1 y1 x2 y2 unit_id faction_id max_cost =
     path_cost_loop path_find g x2 y2 unit_id faction_id max_cost path_limit x1 y1 0 0"

text \<open>The distance over squares that the planner marked as roads, by at most \<open>path_limit\<close> squares taken from a queue.\<close>

definition route_push :: "game \<Rightarrow> (int \<times> int \<Rightarrow> int) \<Rightarrow> int \<Rightarrow> int \<times> int \<Rightarrow>
    (int \<times> int \<times> int) list \<times> (int \<times> int) set \<Rightarrow> (int \<times> int \<times> int) list \<times> (int \<times> int) set" where
  "route_push g roads d = (\<lambda>(rx, ry) (items, visited).
     if mapsq g rx ry \<noteq> None \<and> roads (rx, ry) > 0 \<and> (rx, ry) \<notin> visited
     then (items @ [(rx, ry, d + 1)], insert (rx, ry) visited) else (items, visited))"

fun route_loop :: "game \<Rightarrow> (int \<times> int \<Rightarrow> int) \<Rightarrow> int \<Rightarrow> int \<Rightarrow> int \<Rightarrow> nat \<Rightarrow> (int \<times> int \<times> int) list \<Rightarrow> (int \<times> int) set \<Rightarrow> int" where
  "route_loop g roads x2 y2 limit n [] visited = - 1"
| "route_loop g roads x2 y2 limit 0 items visited = - 1"
| "route_loop g roads x2 y2 limit (Suc n) ((x, y, d) # items) visited =
     (if x = x2 \<and> y = y2 \<and> d \<le> limit then d
      else let (items, visited) = fold (route_push g roads d) (nearby g x y) (items, visited)
        in route_loop g roads x2 y2 limit n items visited)"

definition route_dist :: "game \<Rightarrow> (int \<times> int \<Rightarrow> int) \<Rightarrow> int \<Rightarrow> int \<Rightarrow> int \<Rightarrow> int \<Rightarrow> int" where
  "route_dist g roads x1 y1 x2 y2 = route_loop g roads x2 y2 (max 8 (map_range g x1 y1 x2 y2 * 2)) path_limit [(x1, y1, 0)] {}"

text \<open>\<open>safe\<close> tells whether the planner's safety of a square is at least \<open>PM_SAFE\<close>.\<close>

fun safe_loop :: "game \<Rightarrow> (int \<times> int \<Rightarrow> bool) \<Rightarrow> int \<Rightarrow> bool \<Rightarrow> path_node list \<Rightarrow> nat \<Rightarrow> path_node \<Rightarrow> bool" where
  "safe_loop g safe faction_id skip_owner ns 0 node = True"
| "safe_loop g safe faction_id skip_owner ns (Suc n) node =
     (if \<not> pn_dist node > 0 then True
      else case sq_at g (pn_x node) (pn_y node) of None \<Rightarrow> False
        | Some sq \<Rightarrow>
            if pn_prev node < 0 \<or> \<not> safe (node_at node) then False
            else if \<not> skip_owner \<and> MAP_is_owned sq \<and> sq_owner sq \<noteq> faction_id \<and> \<not> has_pact g faction_id (sq_owner sq) then False
            else safe_loop g safe faction_id skip_owner ns n (ns ! nat (pn_prev node)))"

definition safe_path :: "game \<Rightarrow> (int \<times> int \<Rightarrow> bool) \<Rightarrow> tile_search \<Rightarrow> int \<Rightarrow> bool \<Rightarrow> bool" where
  "safe_path g safe s faction_id skip_owner = safe_loop g safe faction_id skip_owner (ts_paths s) path_limit (ts_paths s ! ts_current s)"

section \<open>The base to return to (veh.cpp)\<close>

function search_own_base :: "game \<Rightarrow> int \<Rightarrow> tile_search \<Rightarrow> (int \<times> int) option" where
  "search_own_base g faction_id s =
     (case ts_get_next g s of
        (s', None) \<Rightarrow> None
      | (s', Some sq) \<Rightarrow> if MAP_is_base sq \<and> sq_owner sq = faction_id then Some (ts_rx s', ts_ry s') else search_own_base g faction_id s')"
  by pat_completeness auto
termination by (relation "measure (\<lambda>(g, f, s). ts_left s)") (auto intro: next_left [OF sym])

declare search_own_base.simps [simp del]

definition return_score :: "game \<Rightarrow> veh \<Rightarrow> int \<Rightarrow> int" where
  "return_score g v i =
     (let b = Bases g i; region = region_at g (veh_x v) (veh_y v); base_region = region_at g (base_x b) (base_y b);
          sea = (region > MaxRegionLandNum)
      in map_range g (base_x b) (base_y b) (veh_x v) (veh_y v) * (if (base_region > MaxRegionLandNum) = sea then 1 else 4)
         * (if base_region = region then 1 else 8))"

definition find_return_base :: "tile_search \<Rightarrow> int \<Rightarrow> game \<Rightarrow> game \<times> int" where
  "find_return_base s0 veh_id g =
     (let v = Vehs g veh_id; triad = VEH_triad g v;
          s = ts_init g (veh_x v) (veh_y v) (if triad = TRIAD_SEA then TS_SEA_AND_SHORE else triad) s0
      in case search_own_base g (veh_faction_id v) s of
           Some (x, y) \<Rightarrow> base_at g x y
         | None \<Rightarrow> (g, snd (fold (\<lambda>i (min_dist, best). if base_faction_id (Bases g i) = veh_faction_id v \<and> return_score g v i < min_dist
                then (return_score g v i, i) else (min_dist, best)) [0..BaseCount g - 1] (0x7FFFFFFF, - 1))))"

end
