(* ===== verification/Veh_Census.thy ===== *)
theory Veh_Census
  imports Veh_Life
begin

text \<open>
  Two properties of the life of units: the recursion of \<open>veh_skip\<close> and \<open>mod_monolith\<close> ends, and the counts of
  units per faction and prototype agree with the table of units after every operation that makes, loses, captures or rebuilds
  one.
\<close>

section \<open>The mutual recursion of skipping and monoliths ends\<close>

lemma vehs_sites [simp]:
  "Vehs (set_goal f i h g) = Vehs g" "Vehs (set_site f i h g) = Vehs g" "Vehs (add_goal f t p x y b g) = Vehs g"
  "Vehs (add_site f t p x y g) = Vehs g"
  by (auto simp: set_goal_def set_site_def upd_faction_def add_goal_def add_site_def Let_def split: option.splits)

lemma fold_keeps_all: "(\<And>i g. h (f i g) = h g) \<Longrightarrow> h (fold f xs g) = h g"
  by (induction xs arbitrary: g) auto

lemma vehs_del_site [simp]: "Vehs (del_site f t x y d g) = Vehs g"
proof -
  have "Vehs (del_site_slot f t x y d i g') = Vehs g'" for i g'
    by (simp add: del_site_slot_def Let_def fold_keeps_all [where h = Vehs])
  then show ?thesis unfolding del_site_def by (rule fold_keeps_all)
qed

lemma vehs_squares [simp]:
  "Vehs (upd_sq g x y h) = Vehs g" "Vehs (bit_set g x y m a) = Vehs g" "Vehs (synch_bit g x y f) = Vehs g"
  "Vehs (note_player p g) = Vehs g" "Vehs (drop_sites i g) = Vehs g" "Vehs (keep_sites i g) = Vehs g"
  by (auto simp: upd_sq_def bit_set_def synch_bit_def note_player_def drop_sites_def keep_sites_def Let_def
      intro!: fold_keeps_all split: option.splits)

lemma left_cong: "Vehs h i = Vehs g i \<Longrightarrow> monolith_left h i = monolith_left g i"
  by (simp add: monolith_left_def)

lemma left_upd:
  "monolith_left (upd_veh i (\<lambda>v. v\<lparr>veh_order := a\<rparr>) g) i = monolith_left g i"
  "monolith_left (upd_veh i (\<lambda>v. v\<lparr>veh_moves_spent := a\<rparr>) g) i = monolith_left g i"
  by (simp_all add: monolith_left_def)

lemma left_skip_flags: "monolith_left (upd_veh i (skip_flags g') g) i = monolith_left g i"
proof -
  have "veh_state (skip_flags g' v) AND VSTATE_MONOLITH_UPGRADED = veh_state v AND VSTATE_MONOLITH_UPGRADED
      \<and> veh_damage_taken (skip_flags g' v) = veh_damage_taken v" for v
    by (simp add: skip_flags_def Let_def bit.conj_disj_distrib2)
  then show ?thesis by (simp add: monolith_left_def)
qed

lemma left_heal: "veh_damage_taken (Vehs g i) \<noteq> 0 \<Longrightarrow> Suc (monolith_left (heal_veh i g) i) = monolith_left g i"
  by (simp add: monolith_left_def heal_veh_def)

definition settles :: "(int \<Rightarrow> game \<Rightarrow> game option) \<Rightarrow> int \<Rightarrow> nat \<Rightarrow> bool" where
  "settles monolith i n \<longleftrightarrow> (\<forall>g. monolith_left g i < n \<longrightarrow> (\<exists>h. monolith i g = Some h \<and> monolith_left h i \<le> monolith_left g i))"

lemma settlesD: "settles m i n \<Longrightarrow> monolith_left g i < n \<Longrightarrow> \<exists>h. m i g = Some h \<and> monolith_left h i \<le> monolith_left g i"
  by (simp add: settles_def)

lemma settles_skip:
  assumes "settles m i n" "monolith_left g i < n"
  shows "\<exists>h. veh_skip_with m i g = Some h \<and> monolith_left h i \<le> monolith_left g i"
  using settlesD [OF assms] by (auto simp: veh_skip_with_def Let_def left_upd left_skip_flags)

lemma settles_heal:
  assumes "settles m i n" "monolith_left g i < Suc n" "veh_damage_taken (Vehs g i) \<noteq> 0"
  shows "\<exists>h. veh_skip_with m i (heal_veh i g) = Some h \<and> Suc (monolith_left h i) \<le> monolith_left g i"
proof -
  have l: "Suc (monolith_left (heal_veh i g) i) = monolith_left g i" by (rule left_heal [OF assms(3)])
  with assms(2) have "monolith_left (heal_veh i g) i < n" by simp
  from settles_skip [OF assms(1) this] l show ?thesis by auto
qed

lemma settles_upgrade:
  assumes m: "settles m i n" "monolith_left g i < Suc n" and up: "veh_state (Vehs g i) AND VSTATE_MONOLITH_UPGRADED = 0"
  shows "\<exists>h. monolith_upgrade m rnd i g = Some h \<and> monolith_left h i \<le> monolith_left g i"
proof -
  have *: "Suc (monolith_left (upd_veh i (\<lambda>v. v\<lparr>veh_state := veh_state v OR VSTATE_MONOLITH_UPGRADED, veh_morale := k v\<rparr>) g') i) = monolith_left g i"
    if "Vehs g' = Vehs g" for g' k
    using up that by (simp add: monolith_left_def bit.conj_disj_distrib2)
  let ?g = "upd_veh i (\<lambda>v. v\<lparr>veh_state := veh_state v OR VSTATE_MONOLITH_UPGRADED, veh_morale := clamp (veh_morale v + 1) 0 6\<rparr>)
    (if CurrentTurn g < 100 \<or> (case sq_at g (veh_x (Vehs g i)) (veh_y (Vehs g i)) of None \<Rightarrow> True | Some sq \<Rightarrow> \<not> item_on sq BIT_UNK_2000000)
     then bit_set g (veh_x (Vehs g i)) (veh_y (Vehs g i)) BIT_UNK_2000000 True else g)"
  have l: "Suc (monolith_left ?g i) = monolith_left g i" by (rule *) simp
  obtain h where h: "veh_skip_with m i ?g = Some h" "monolith_left h i \<le> monolith_left ?g i"
    using settles_skip [OF m(1), of ?g] l m(2) by auto
  have "monolith_left h i \<le> monolith_left g i" using h(2) l by linarith
  moreover have "monolith_left (note_player p (if c then keep_sites i h else synch_bit (bit_set h x y m a) x y f)) i = monolith_left h i"
    for p c x y m a f by (rule left_cong) simp
  ultimately show ?thesis unfolding monolith_upgrade_def Let_def h(1) by simp
qed

lemma left_frame:
  "monolith_left (note_player p g) i = monolith_left g i" "monolith_left (drop_sites i g) i = monolith_left g i"
  "monolith_left (keep_sites i g) i = monolith_left g i" "monolith_left (g\<lparr>GameMorePreferences := w\<rparr>) i = monolith_left g i"
  by (rule left_cong, simp)+

lemma returns_if:
  "(c \<Longrightarrow> \<exists>h. a = Some h \<and> P h) \<Longrightarrow> (\<not> c \<Longrightarrow> \<exists>h. b = Some h \<and> P h) \<Longrightarrow> \<exists>h. (if c then a else b) = Some h \<and> P h"
  by simp

lemma settles_hurt:
  assumes "settles m i n" "monolith_left g i < Suc n" "hurt \<longleftrightarrow> veh_damage_taken (Vehs g i) \<noteq> 0"
  shows "\<exists>h. (if hurt then veh_skip_with m i (heal_veh i g) else Some g) = Some h \<and> monolith_left h i \<le> monolith_left g i"
proof (cases hurt)
  case True
  then show ?thesis using settles_heal [OF assms(1,2)] assms(3) by (auto intro: Suc_leD)
qed simp

lemma settles_armed:
  assumes m: "settles m i n" "monolith_left g i < Suc n"
  shows "\<exists>h. monolith_armed m choice rnd i g = Some h \<and> monolith_left h i \<le> monolith_left g i"
proof -
  let ?hurt = "veh_damage_taken (Vehs g i) \<noteq> 0"
  have hurt: "\<exists>h. (if ?hurt then veh_skip_with m i (heal_veh i g') else Some g') = Some h \<and> monolith_left h i \<le> monolith_left g i"
    if "Vehs g' = Vehs g" for g'
    using settles_hurt [OF m(1), of g' ?hurt] m(2) that left_cong [of g' i g] by simp
  have fin: "\<exists>h. (if monolith_done h' i then Some (note_player p h') else monolith_upgrade m rnd i h') = Some h
      \<and> monolith_left h i \<le> monolith_left g i" if l: "monolith_left h' i \<le> monolith_left g i" for h' p
  proof (cases "monolith_done h' i")
    case False
    then have "veh_state (Vehs h' i) AND VSTATE_MONOLITH_UPGRADED = 0" by (simp add: monolith_done_def)
    from settles_upgrade [OF m(1) _ this, of rnd] m(2) l show ?thesis using False by (auto intro: order_trans)
  qed (use l in \<open>simp add: left_frame\<close>)
  define g' where "g' = (if (is_human g (veh_faction_id (Vehs g i)) \<and> \<not> MultiplayerActive g
      \<and> GameMorePreferences g AND MPREF_AUTO_ALWAYS_INSPECT_MONOLITH = 0) \<and> choice = 2
    then (drop_sites i g)\<lparr>GameMorePreferences := GameMorePreferences (drop_sites i g) OR MPREF_AUTO_ALWAYS_INSPECT_MONOLITH\<rparr>
    else drop_sites i g)"
  have v: "Vehs g' = Vehs g" by (simp add: g'_def)
  obtain h1 where h1: "(if ?hurt then veh_skip_with m i (heal_veh i g') else Some g') = Some h1" "monolith_left h1 i \<le> monolith_left g i"
    using hurt [OF v] by blast
  obtain h2 where h2: "(if ?hurt then veh_skip_with m i (heal_veh i (drop_sites i g)) else Some (drop_sites i g)) = Some h2"
    "monolith_left h2 i \<le> monolith_left g i"
    using hurt [of "drop_sites i g"] by auto
  show ?thesis
    unfolding monolith_armed_def Let_def g'_def [symmetric] h1(1) h2(1) Option.bind.simps
  proof (rule returns_if, goal_cases)
    case 1 then show ?case by (simp add: left_frame)
  next
    case 2 show ?case by (rule returns_if) (simp add: left_frame h2(2), rule fin [OF h1(2)])
  qed
qed

lemma settles_body:
  assumes m: "settles m i n" shows "settles (monolith_body m choice rnd) i (Suc n)"
  unfolding settles_def
proof (intro allI impI)
  fix g assume l: "monolith_left g i < Suc n"
  define g' where "g' = (if (veh_faction_id (Vehs g i) = CurrentPlayerFaction g \<and> \<not> MultiplayerActive g) \<and> veh_order (Vehs g i) = ORDER_MOVE_TO
      \<and> veh_x (Vehs g i) = veh_waypoint_x (Vehs g i) 0 \<and> veh_y (Vehs g i) = veh_waypoint_y (Vehs g i) 0
    then upd_veh i (\<lambda>v. v\<lparr>veh_order := ORDER_NONE\<rparr>) g else g)"
  have l': "monolith_left g' i = monolith_left g i" "veh_damage_taken (Vehs g' i) = veh_damage_taken (Vehs g i)"
    by (simp_all add: g'_def left_upd)
  have up: "monolith_left (note_player p (upd_veh i (\<lambda>v. v\<lparr>veh_state := veh_state v OR VSTATE_MONOLITH_UPGRADED\<rparr>) g')) i \<le> monolith_left g i" for p
    unfolding l'(1) [symmetric] left_frame by (auto simp: monolith_left_def bit.conj_disj_distrib2)
  have heal: "\<exists>h. map_option (note_player p) (veh_skip_with m i (heal_veh i g')) = Some h \<and> monolith_left h i \<le> monolith_left g i"
    if "veh_damage_taken (Vehs g i) \<noteq> 0" for p
    using settles_heal [OF m, of g'] l l' that by (auto simp: left_frame intro: Suc_leD)
  have armed: "\<exists>h. monolith_armed m choice rnd i g' = Some h \<and> monolith_left h i \<le> monolith_left g i"
    using settles_armed [OF m, of g'] l l' by simp
  show "\<exists>h. monolith_body m choice rnd i g = Some h \<and> monolith_left h i \<le> monolith_left g i"
    unfolding monolith_body_def Let_def g'_def [symmetric]
    by (intro returns_if heal armed; simp add: up l'(1))
qed

lemma settles_fuel: "settles (monolith_fuel n choice rnd) i n"
proof (induction n)
  case 0 then show ?case by (simp add: settles_def)
next
  case (Suc n)
  then show ?case using settles_body [OF Suc, of choice rnd] by (simp add: settles_def)
qed

definition extends :: "(int \<Rightarrow> game \<Rightarrow> game option) \<Rightarrow> (int \<Rightarrow> game \<Rightarrow> game option) \<Rightarrow> bool" where
  "extends m m' \<longleftrightarrow> (\<forall>i g h. m i g = Some h \<longrightarrow> m' i g = Some h)"

lemma extends_skip: "extends m m' \<Longrightarrow> veh_skip_with m i g = Some h \<Longrightarrow> veh_skip_with m' i g = Some h"
  by (auto simp: veh_skip_with_def Let_def extends_def split: if_splits)

lemma extends_upgrade: "extends m m' \<Longrightarrow> monolith_upgrade m rnd i g = Some h \<Longrightarrow> monolith_upgrade m' rnd i g = Some h"
  unfolding monolith_upgrade_def Let_def by (auto simp: Option.bind_eq_Some_conv dest!: extends_skip)

lemma extends_if:
  "(c \<Longrightarrow> a = Some h \<Longrightarrow> a' = Some h) \<Longrightarrow> (\<not> c \<Longrightarrow> b = Some h \<Longrightarrow> b' = Some h) \<Longrightarrow>
    (if c then a else b) = Some h \<Longrightarrow> (if c then a' else b') = Some h"
  by (simp split: if_splits)

lemma extends_bind:
  "(\<And>x. a = Some x \<Longrightarrow> a' = Some x) \<Longrightarrow> (\<And>x. f x = Some h \<Longrightarrow> f' x = Some h) \<Longrightarrow> Option.bind a f = Some h \<Longrightarrow> Option.bind a' f' = Some h"
  by (auto simp: Option.bind_eq_Some_conv)

lemma extends_armed: "extends m m' \<Longrightarrow> monolith_armed m choice rnd i g = Some h \<Longrightarrow> monolith_armed m' choice rnd i g = Some h"
  unfolding monolith_armed_def Let_def
  by (erule extends_if [rotated 2] extends_bind [rotated 2]; (assumption | (rule extends_upgrade extends_skip; assumption))?)+

lemma extends_map: "(\<And>x. a = Some x \<Longrightarrow> a' = Some x) \<Longrightarrow> map_option f a = Some h \<Longrightarrow> map_option f a' = Some h"
  by auto

lemma extends_body: "extends m m' \<Longrightarrow> extends (monolith_body m choice rnd) (monolith_body m' choice rnd)"
  unfolding extends_def [of "monolith_body m choice rnd"] monolith_body_def Let_def
  by (intro allI impI, (erule extends_if [rotated 2] extends_map [rotated];
      (assumption | (rule extends_armed extends_skip; assumption))?)+)

lemma extends_fuel: "extends (monolith_fuel n choice rnd) (monolith_fuel (n + k) choice rnd)"
proof (induction n)
  case 0 then show ?case by (simp add: extends_def)
next
  case (Suc n)
  from extends_body [OF this] show ?case by (simp add: extends_def)
qed

text \<open>C5: the mutual recursion of \<open>veh_skip\<close> and \<open>mod_monolith\<close> ends: both return for every unit and every state,
  and more than the three levels of calls the definitions allow give the same result.\<close>

theorem monolith_returns:
  "(\<exists>h. veh_skip rnd veh_id g = Some h)
   \<and> (\<exists>h. mod_monolith choice rnd veh_id g = Some h \<and> (\<forall>n. monolith_fuel (3 + n) choice rnd veh_id g = Some h))"
proof -
  have left: "monolith_left g' veh_id < 3" for g' by (simp add: monolith_left_def)
  have "\<exists>h. veh_skip rnd veh_id g = Some h"
    using settles_skip [OF settles_fuel left, of 0 rnd] by (auto simp: veh_skip_def mod_monolith_def)
  moreover obtain h where h: "monolith_fuel 3 choice rnd veh_id g = Some h"
    using settlesD [OF settles_fuel left, of choice rnd] by blast
  moreover have "monolith_fuel (3 + n) choice rnd veh_id g = Some h" for n
    using extends_fuel [of 3 choice rnd n] h by (simp add: extends_def)
  ultimately show ?thesis by (simp add: mod_monolith_def)
qed

section \<open>The census of units\<close>

text \<open>
  Each faction counts its units of every prototype in a byte. The count agrees with the table of units modulo 256, and
  every operation that makes, loses, captures or rebuilds a unit keeps it so. \<open>roll\<close> is the part of the state the
  census reads.
\<close>

definition rows_of :: "game \<Rightarrow> int \<Rightarrow> int \<Rightarrow> int set" where
  "rows_of g f u = {i \<in> {0..<VehCount g}. veh_faction_id (Vehs g i) = f \<and> veh_unit_id (Vehs g i) = u}"

definition census_ok :: "game \<Rightarrow> bool" where
  "census_ok g \<longleftrightarrow> 0 \<le> VehCount g \<and> VehCount g \<le> conf_max_veh_num (conf g)
     \<and> (\<forall>f u. f_units_active (Factions g f) u = int (card (rows_of g f u)) mod 256)"

definition roll :: "game \<Rightarrow> (int \<Rightarrow> int \<times> int) \<times> int \<times> (int \<Rightarrow> int \<Rightarrow> int) \<times> int" where
  "roll g = ((\<lambda>i. (veh_faction_id (Vehs g i), veh_unit_id (Vehs g i))), VehCount g,
             (\<lambda>f. f_units_active (Factions g f)), conf_max_veh_num (conf g))"

lemma roll_cong: "roll h = roll g \<Longrightarrow> census_ok h = census_ok g"
  by (simp add: roll_def census_ok_def rows_of_def fun_eq_iff)

lemma finite_rows [simp]: "finite (rows_of g f u)"
  by (rule finite_subset [of _ "{0..<VehCount g}"]) (auto simp: rows_of_def)

lemma roll_upd_veh:
  "veh_faction_id (h (Vehs g i)) = veh_faction_id (Vehs g i) \<Longrightarrow> veh_unit_id (h (Vehs g i)) = veh_unit_id (Vehs g i)
    \<Longrightarrow> roll (upd_veh i h g) = roll g"
  by (auto simp: roll_def)

lemma roll_upd_faction:
  "f_units_active (h (Factions g f)) = f_units_active (Factions g f) \<Longrightarrow> roll (upd_faction f h g) = roll g"
  by (auto simp: roll_def upd_faction_def fun_eq_iff)

lemma roll_simps [simp]:
  "roll (upd_sq g x y m) = roll g" "roll (bit_set g x y a b) = roll g" "roll (synch_bit g x y f) = roll g"
  "roll (g\<lparr>BaseFindDist := d\<rparr>) = roll g" "roll (g\<lparr>ComputeBaseID := d\<rparr>) = roll g" "roll (g\<lparr>GameState := w\<rparr>) = roll g"
  "roll (g\<lparr>GameMorePreferences := w\<rparr>) = roll g" "roll (g\<lparr>VehBitError := d\<rparr>) = roll g"
  "roll (g\<lparr>VehDropLiftVehID := d\<rparr>) = roll g" "roll (g\<lparr>VehLiftX := d\<rparr>) = roll g" "roll (g\<lparr>VehLiftY := d\<rparr>) = roll g"
  "roll (g\<lparr>Bases := bs\<rparr>) = roll g" "roll (g\<lparr>Units := us\<rparr>) = roll g" "roll (owner_set g x y f) = roll g"
  "roll (upd_base k hb g) = roll g" "roll (mark_prototyped u g) = roll g" "roll (note_player p g) = roll g"
  by (auto simp: roll_def upd_sq_def bit_set_def synch_bit_def owner_set_def upd_base_def mark_prototyped_def note_player_def
      split: option.splits)

lemma roll_sites [simp]:
  "roll (set_goal f i h g) = roll g" "roll (set_site f i h g) = roll g"
  by (simp_all add: set_goal_def set_site_def roll_upd_faction)

lemma roll_add [simp]: "roll (add_goal f t p x y b g) = roll g" "roll (add_site f t p x y g) = roll g"
  by (auto simp: add_goal_def add_site_def Let_def split: option.splits)

lemma roll_del [simp]: "roll (del_site f t x y d g) = roll g"
proof -
  have "roll (del_site_slot f t x y d i g') = roll g'" for i g'
    by (simp add: del_site_slot_def Let_def fold_keeps_all [where h = roll])
  then show ?thesis unfolding del_site_def by (rule fold_keeps_all)
qed

lemma roll_site_loops [simp]: "roll (drop_sites i g) = roll g" "roll (keep_sites i g) = roll g"
  by (auto simp: drop_sites_def keep_sites_def Let_def intro!: fold_keeps_all split: option.splits)

subsection \<open>Moving, skipping and monoliths\<close>

lemma roll_rebuild [simp]: "roll (rebuild_vehicle_bits g) = roll g" "roll (rebuild_base_bits g) = roll g"
  unfolding rebuild_vehicle_bits_def rebuild_base_bits_def
  by (rule fold_keeps_all, auto simp: Let_def split: option.splits prod.splits)+

lemma roll_base_at [simp]: "roll (fst (base_at g x y)) = roll g"
  by (auto simp: base_at_def split: option.splits)

lemma roll_lift [simp]: "roll (veh_lift i g) = roll g"
  by (simp add: veh_lift_def Let_def roll_upd_veh)

lemma roll_place [simp]: "roll (place_on d i x y g) = roll g"
  by (simp add: place_on_def Let_def roll_upd_veh)

lemma roll_veh_at: "veh_at g x y = Some (h, i) \<Longrightarrow> roll h = roll g"
  by (auto simp: veh_at_def veh_bits_broken_def split: if_splits option.splits)

lemma roll_drop: "veh_drop i x y g = Some h \<Longrightarrow> roll h = roll g"
  by (auto simp: veh_drop_def dest: roll_veh_at)

definition keeps_roll :: "(int \<Rightarrow> game \<Rightarrow> game option) \<Rightarrow> bool" where
  "keeps_roll m \<longleftrightarrow> (\<forall>i g h. m i g = Some h \<longrightarrow> roll h = roll g)"

lemma roll_skip_flags: "roll (upd_veh i (skip_flags g') g) = roll g"
  by (rule roll_upd_veh) (simp_all add: skip_flags_def Let_def)

lemma roll_heal [simp]: "roll (heal_veh i g) = roll g"
  by (simp add: heal_veh_def roll_upd_veh)

lemma roll_skip_with: "keeps_roll m \<Longrightarrow> veh_skip_with m i g = Some h \<Longrightarrow> roll h = roll g"
  by (auto simp: veh_skip_with_def Let_def keeps_roll_def roll_upd_veh roll_skip_flags split: if_splits)

lemma roll_monolith_upgrade: "keeps_roll m \<Longrightarrow> monolith_upgrade m rnd i g = Some h \<Longrightarrow> roll h = roll g"
  by (auto simp: monolith_upgrade_def Let_def Option.bind_eq_Some_conv roll_upd_veh dest: roll_skip_with split: if_splits)

lemma someE:
  "(if c then a else b) = Some h \<Longrightarrow> (c \<Longrightarrow> a = Some h \<Longrightarrow> P) \<Longrightarrow> (\<not> c \<Longrightarrow> b = Some h \<Longrightarrow> P) \<Longrightarrow> P"
  "Option.bind q k = Some h \<Longrightarrow> (\<And>x. q = Some x \<Longrightarrow> k x = Some h \<Longrightarrow> P) \<Longrightarrow> P"
  "map_option e q = Some h \<Longrightarrow> (\<And>x. q = Some x \<Longrightarrow> h = e x \<Longrightarrow> P) \<Longrightarrow> P"
  by (auto simp: Option.bind_eq_Some_conv split: if_splits)

lemma roll_monolith_armed:
  assumes m: "keeps_roll m" and r: "monolith_armed m choice rnd i g = Some h"
  shows "roll h = roll g"
proof -
  show ?thesis
    using r unfolding monolith_armed_def Let_def
    by (elim someE; auto dest!: roll_skip_with [OF m] roll_monolith_upgrade [OF m])
qed

lemma roll_body: "keeps_roll m \<Longrightarrow> keeps_roll (monolith_body m choice rnd)"
  unfolding keeps_roll_def [of "monolith_body m choice rnd"] monolith_body_def Let_def
  by (intro allI impI, elim someE; (drule (1) roll_skip_with | drule (1) roll_monolith_armed)?; auto simp: roll_upd_veh)

lemma roll_fuel: "keeps_roll (monolith_fuel n choice rnd)"
  by (induction n) (auto simp: keeps_roll_def dest: roll_body [unfolded keeps_roll_def, rule_format, rotated])

lemma roll_veh_skip: "veh_skip rnd i g = Some h \<Longrightarrow> roll h = roll g"
  unfolding veh_skip_def mod_monolith_def by (rule roll_skip_with [OF roll_fuel])

subsection \<open>How the census changes\<close>

text \<open>\<open>tally\<close> is the census relation for a roll given by its parts.\<close>

lemma census_move:
  assumes ok: "census_ok g" and i: "0 \<le> i" "i < VehCount g"
    and old: "veh_faction_id (Vehs g i) = f" "veh_unit_id (Vehs g i) = u"
    and h: "VehCount h = VehCount g" "conf_max_veh_num (conf h) = conf_max_veh_num (conf g)"
      "\<And>j. j \<noteq> i \<Longrightarrow> veh_faction_id (Vehs h j) = veh_faction_id (Vehs g j) \<and> veh_unit_id (Vehs h j) = veh_unit_id (Vehs g j)"
      "veh_faction_id (Vehs h i) = f'" "veh_unit_id (Vehs h i) = u'"
    and a: "\<And>k v. f_units_active (Factions h k) v
      = (f_units_active (Factions g k) v + of_bool (k = f' \<and> v = u') - of_bool (k = f \<and> v = u)) mod 256"
  shows "census_ok h"
proof -
  have card: "int (card (rows_of h k v)) = int (card (rows_of g k v)) + of_bool (k = f' \<and> v = u') - of_bool (k = f \<and> v = u)" for k v
  proof -
    obtain R where R: "finite R" "i \<notin> R" "\<And>j. j \<in> R \<longleftrightarrow> j \<noteq> i \<and> j \<in> rows_of g k v"
      using that [of "rows_of g k v - {i}"] by auto
    have g': "rows_of g k v = (if k = f \<and> v = u then insert i R else R)"
      using i old R(3) by (auto simp: rows_of_def)
    have "j \<in> rows_of h k v \<longleftrightarrow> j \<in> (if k = f' \<and> v = u' then insert i R else R)" for j
      using i h(1,4,5) h(3) [of j] R(2,3) by (cases "j = i") (auto simp: rows_of_def)
    then have h': "rows_of h k v = (if k = f' \<and> v = u' then insert i R else R)" by blast
    show ?thesis unfolding g' h' using R(1,2) by (simp add: card_insert_if)
  qed
  show ?thesis
    using ok h(1,2) unfolding census_ok_def a card by (simp add: mod_simps)
qed

lemma census_made:
  assumes ok: "census_ok g" and room: "VehCount g < conf_max_veh_num (conf g)"
    and h: "VehCount h = VehCount g + 1" "conf_max_veh_num (conf h) = conf_max_veh_num (conf g)"
      "\<And>j. j \<noteq> VehCount g \<Longrightarrow> veh_faction_id (Vehs h j) = veh_faction_id (Vehs g j) \<and> veh_unit_id (Vehs h j) = veh_unit_id (Vehs g j)"
      "veh_faction_id (Vehs h (VehCount g)) = f" "veh_unit_id (Vehs h (VehCount g)) = u"
    and a: "\<And>k v. f_units_active (Factions h k) v = (f_units_active (Factions g k) v + of_bool (k = f \<and> v = u)) mod 256"
  shows "census_ok h"
proof -
  have n: "0 \<le> VehCount g" using ok by (simp add: census_ok_def)
  have card: "int (card (rows_of h k v)) = int (card (rows_of g k v)) + of_bool (k = f \<and> v = u)" for k v
  proof -
    have "rows_of h k v = (if k = f \<and> v = u then insert (VehCount g) (rows_of g k v) else rows_of g k v)"
      using n h by (auto simp: rows_of_def) (metis order_less_irrefl zle_add1_eq_le order.order_iff_strict)+
    moreover have "VehCount g \<notin> rows_of g k v" by (simp add: rows_of_def)
    ultimately show ?thesis by (cases "k = f \<and> v = u") (simp_all add: card_insert_if)
  qed
  show ?thesis
    using ok h(1,2) room unfolding census_ok_def a card by (simp add: mod_simps)
qed

lemma census_kill:
  assumes ok: "census_ok g" and i: "0 \<le> i" "i < VehCount g"
  shows "census_ok (fst (veh_kill i (g, b)))"
proof -
  let ?h = "fst (veh_kill i (g, b))" and ?f = "veh_faction_id (Vehs g i)" and ?u = "veh_unit_id (Vehs g i)"
  have c: "VehCount g \<le> conf_max_veh_num (conf g)" using ok by (simp add: census_ok_def)
  have h: "VehCount ?h = VehCount g - 1" "conf_max_veh_num (conf ?h) = conf_max_veh_num (conf g)"
    using i c by (auto simp: veh_kill_def Let_def compact_vehs_def)
  have rows: "rows_of ?h k v = shift_row i ` (rows_of g k v - {i})" for k v
  proof (intro equalityI subsetI)
    fix r assume r: "r \<in> rows_of ?h k v"
    define j where "j = (if r \<ge> i then r + 1 else r)"
    have j: "0 \<le> j" "j < VehCount g" "j \<noteq> i" "shift_row i j = r"
      using r h(1) by (auto simp: rows_of_def j_def shift_row_def)
    then show "r \<in> shift_row i ` (rows_of g k v - {i})"
      using r kill_veh(2,3) [OF i c j(1,2,3), of b] by (auto simp: rows_of_def intro!: image_eqI [of r _ j])
  next
    fix r assume "r \<in> shift_row i ` (rows_of g k v - {i})"
    then obtain j where j: "j \<in> rows_of g k v" "j \<noteq> i" "r = shift_row i j" by blast
    then show "r \<in> rows_of ?h k v"
      using kill_veh(2,3) [OF i c, of j b] i h(1) by (auto simp: rows_of_def shift_row_def)
  qed
  have card: "int (card (rows_of ?h k v)) = int (card (rows_of g k v)) - of_bool (k = ?f \<and> v = ?u)" for k v
  proof -
    have "card (rows_of ?h k v) = card (rows_of g k v - {i})"
      unfolding rows by (rule card_image) (auto simp: inj_on_def dest: shift_row_inj)
    moreover have "i \<in> rows_of g k v \<longleftrightarrow> k = ?f \<and> v = ?u" using i by (auto simp: rows_of_def)
    moreover have "i \<in> rows_of g k v \<Longrightarrow> 0 < card (rows_of g k v)" using card_gt_0_iff by fastforce
    ultimately show ?thesis by (cases "i \<in> rows_of g k v") (auto simp: card_Diff_singleton_if of_nat_diff)
  qed
  have a: "f_units_active (Factions ?h k) v = (f_units_active (Factions g k) v - of_bool (k = ?f \<and> v = ?u)) mod 256" for k v
  proof -
    have m: "f_units_active (Factions g k) v mod 256 = f_units_active (Factions g k) v"
      using ok by (simp add: census_ok_def)
    have "Factions (kill_refs i x) = Factions x" "Factions (compact_vehs i x) = Factions x" "Factions (veh_lift i x) = Factions x" for x
      by (simp_all add: kill_refs_def compact_vehs_def veh_lift_def Let_def upd_veh_def bit_set_def upd_sq_def split: option.splits)
    then show ?thesis using i m by (auto simp: veh_kill_def Let_def kill_counters_def upd_faction_def)
  qed
  show ?thesis
    using ok h i unfolding census_ok_def a card by (simp add: mod_simps)
qed

lemma active_add [simp]: "f_units_active (Factions (add_active f u n g) k) v
    = (if k = f \<and> v = u then (f_units_active (Factions g f) u + n) mod 256 else f_units_active (Factions g k) v)"
  by (auto simp: add_active_def upd_faction_def)

lemma add_fields [simp]:
  "Vehs (add_active f u n g) = Vehs g" "VehCount (add_active f u n g) = VehCount g" "conf (add_active f u n g) = conf g"
  "Units (add_active f u n g) = Units g"
  by (simp_all add: add_active_def upd_faction_def)

lemma rollD: "roll h = roll g \<Longrightarrow> veh_faction_id (Vehs h i) = veh_faction_id (Vehs g i)"
  "roll h = roll g \<Longrightarrow> veh_unit_id (Vehs h i) = veh_unit_id (Vehs g i)" "roll h = roll g \<Longrightarrow> VehCount h = VehCount g"
  "roll h = roll g \<Longrightarrow> f_units_active (Factions h f) = f_units_active (Factions g f)"
  "roll h = roll g \<Longrightarrow> conf_max_veh_num (conf h) = conf_max_veh_num (conf g)"
  by (simp_all add: roll_def fun_eq_iff)

lemma active_mod: "census_ok g \<Longrightarrow> f_units_active (Factions g k) v mod 256 = f_units_active (Factions g k) v"
  by (simp add: census_ok_def)

lemma census_upgrade:
  assumes ok: "census_ok g" and i: "0 \<le> i" "i < VehCount g" "veh_unit_id (Vehs g i) = old" and new: "0 \<le> new" "new < MaxProtoNum"
  shows "census_ok (veh_upgrade i new old cost g)"
proof (rule census_move [OF ok i(1,2) refl i(3)])
  let ?h = "veh_upgrade i new old cost g"
  show "VehCount ?h = VehCount g" "conf_max_veh_num (conf ?h) = conf_max_veh_num (conf g)"
    "veh_faction_id (Vehs ?h i) = veh_faction_id (Vehs g i)" "veh_unit_id (Vehs ?h i) = new"
    using new by (simp_all add: veh_upgrade_def Let_def upd_faction_def s16_id)
  show "veh_faction_id (Vehs ?h j) = veh_faction_id (Vehs g j) \<and> veh_unit_id (Vehs ?h j) = veh_unit_id (Vehs g j)" if "j \<noteq> i" for j
    using that by (simp add: veh_upgrade_def Let_def upd_faction_def)
  show "f_units_active (Factions ?h k) v = (f_units_active (Factions g k) v
      + of_bool (k = veh_faction_id (Vehs g i) \<and> v = new) - of_bool (k = veh_faction_id (Vehs g i) \<and> v = old)) mod 256" for k v
    by (auto simp: veh_upgrade_def Let_def upd_faction_def upd_veh_def active_mod [OF ok] mod_simps)
qed

lemma census_single:
  assumes "census_ok g" "single_unit_upgrade rnd i new g = Some (h, cost)" shows "census_ok h"
proof -
  have step: "census_ok h'" if "veh_skip rnd i (veh_upgrade i new (veh_unit_id (Vehs g i)) c g) = Some h'"
    "0 \<le> i" "i < VehCount g" "0 \<le> new" "new < MaxProtoNum" for h' c
    using roll_cong [OF roll_veh_skip [OF that(1)]] census_upgrade [OF assms(1) that(2,3) refl that(4,5)] by simp
  show ?thesis
    using assms unfolding single_unit_upgrade_def Let_def
    by (auto simp: Option.bind_eq_Some_conv roll_cong [OF roll_simps(16)] split: if_splits dest: step)
qed

lemma upgrade_count [simp]: "VehCount (veh_upgrade i new old cost g) = VehCount g"
  by (simp add: veh_upgrade_def Let_def upd_faction_def)

lemma census_part:
  assumes "census_ok g" "0 \<le> new" "new < MaxProtoNum" "\<forall>i \<in> set is. 0 \<le> i \<and> i < VehCount g"
  shows "census_ok (part_loop f new old cost is g)"
  using assms
proof (induction "is" arbitrary: g)
  case (Cons i js)
  let ?e = "veh_faction_id (Vehs g i) = f \<and> veh_unit_id (Vehs g i) = old \<and> veh_moves_spent (Vehs g i) = 0
            \<and> veh_damage_taken (Vehs g i) = 0"
  obtain g' at where g': "(if ?e then base_at g (veh_x (Vehs g i)) (veh_y (Vehs g i)) else (g, - 1)) = (g', at)" by fastforce
  have r: "roll g' = roll g" using arg_cong [OF g', of "\<lambda>p. roll (fst p)"] by (auto split: if_splits)
  have ok: "census_ok g'" using Cons.prems(1) roll_cong [OF r] by simp
  have n: "\<forall>k \<in> set js. 0 \<le> k \<and> k < VehCount g'" "0 \<le> i" "i < VehCount g'" using Cons.prems(4) rollD(3) [OF r] by simp_all
  have up: "census_ok (veh_upgrade i new old cost g')" if "\<not> at < 0"
    by (rule census_upgrade [OF ok n(2,3) _ Cons.prems(2,3)]) (use that g' rollD(2) [OF r, of i] in \<open>auto split: if_splits\<close>)
  show ?case
    unfolding part_loop.simps Let_def g' prod.case
    using Cons.IH [OF ok Cons.prems(2,3) n(1)] Cons.IH [OF up Cons.prems(2,3)] n(1) ok by simp
qed simp

lemma fold_list_keeps: "P g \<Longrightarrow> (\<And>i g. i \<in> set xs \<Longrightarrow> P g \<Longrightarrow> P (f i g)) \<Longrightarrow> P (fold f xs g)"
  by (induction xs arbitrary: g) auto

lemma census_full:
  assumes ok: "census_ok g" and new: "0 \<le> new" "new < MaxProtoNum"
  shows "census_ok (full_upgrade f new old g)"
proof -
  define c where "c = 10 * mod_upgrade_cost g f new old"
  have "census_ok (fold (upgrade_row f new old c) [0..VehCount g - 1] g)
      \<and> VehCount (fold (upgrade_row f new old c) [0..VehCount g - 1] g) = VehCount g"
    by (rule fold_list_keeps) (use ok census_upgrade [OF _ _ _ _ new] in \<open>auto simp: upgrade_row_def\<close>)
  then show ?thesis
    unfolding full_upgrade_def Let_def c_def [symmetric]
    by (auto simp: roll_cong [OF roll_simps(12)] roll_cong [OF roll_simps(13)] roll_cong [OF roll_simps(16)])
qed

lemma roll_note_worm [simp]: "roll (note_worm i a g) = roll g"
  by (auto simp: note_worm_def Let_def roll_upd_faction split: prod.splits)

lemma census_capture:
  assumes ok: "census_ok g" and i: "0 \<le> i" "i < VehCount g"
  shows "census_ok (capture_veh i f' g)"
proof (rule census_move [OF ok i refl refl])
  let ?h = "capture_veh i f' g"
  have r: "roll (veh_lift i g) = roll g" by simp
  note l = rollD [OF r]
  show "VehCount ?h = VehCount g" "conf_max_veh_num (conf ?h) = conf_max_veh_num (conf g)"
    "veh_faction_id (Vehs ?h i) = f'" "veh_unit_id (Vehs ?h i) = veh_unit_id (Vehs g i)"
    by (simp_all add: capture_veh_def Let_def l)
  show "veh_faction_id (Vehs ?h j) = veh_faction_id (Vehs g j) \<and> veh_unit_id (Vehs ?h j) = veh_unit_id (Vehs g j)" if "j \<noteq> i" for j
    using that by (simp add: capture_veh_def Let_def l)
  show "f_units_active (Factions ?h k) v = (f_units_active (Factions g k) v
      + of_bool (k = f' \<and> v = veh_unit_id (Vehs g i)) - of_bool (k = veh_faction_id (Vehs g i) \<and> v = veh_unit_id (Vehs g i))) mod 256" for k v
    by (auto simp: capture_veh_def Let_def upd_veh_def l(4) active_mod [OF ok] mod_simps)
qed

lemma census_battle_kill:
  assumes ok: "census_ok g" and i: "0 \<le> i" "i < VehCount g"
    and r: "battle_kill rnd i atk fa s (g, b) = Some (dead, s', h, b')"
  shows "census_ok h"
proof -
  define g1 where "g1 = upd_faction (veh_faction_id (Vehs g i)) (\<lambda>f. f\<lparr>f_units_lost :=
      (f_units_lost f)(veh_unit_id (Vehs g i) := (f_units_lost f (veh_unit_id (Vehs g i)) + 1) mod 65536)\<rparr>) g"
  have r1: "roll g1 = roll g" unfolding g1_def by (rule roll_upd_faction) simp
  have ok1: "census_ok g1" using ok roll_cong [OF r1] by simp
  have n1: "i < VehCount g1" using i rollD(3) [OF r1] by simp
  have taken: "census_ok g2" if "take_artifact rnd i atk g1 = Some g2" for g2
    using that census_capture [OF ok1 i(1) n1] by (auto simp: take_artifact_def Option.bind_eq_Some_conv dest!: roll_drop roll_veh_skip roll_cong)
  obtain t where t: "artifact_taken g1 i atk = Some t"
    using r by (cases s) (auto simp: battle_kill_def Let_def g1_def [symmetric] Option.bind_eq_Some_conv)
  show ?thesis
  proof (cases t)
    case True
    then show ?thesis using r t taken
      by (cases s) (auto simp: battle_kill_def Let_def g1_def [symmetric] Option.bind_eq_Some_conv)
  next
    case False
    define g2 where "g2 = note_worm i atk (if veh_flags (Vehs g i) AND VFLAG_IS_OBJECTIVE \<noteq> 0 \<and> fa \<ge> 0
        then upd_faction fa (\<lambda>f. f\<lparr>f_unk_101 := f_unk_101 f + 1\<rparr>) g1 else g1)"
    have r2: "roll g2 = roll g1" by (simp add: g2_def roll_upd_faction)
    have "(h, b') = veh_kill i (g2, b)"
      using r t False by (cases s) (auto simp: battle_kill_def Let_def g1_def g2_def)
    then show ?thesis
      using census_kill [of g2 i b] ok1 roll_cong [OF r2] i(1) n1 rollD(3) [OF r2] by (metis fst_conv)
  qed
qed

lemma roll_home [simp]: "roll (veh_home i u f x y g) = roll g"
  by (auto simp: veh_home_def Let_def roll_upd_veh split: prod.splits)

lemma roll_target: "target_far f r x y g = (h, far) \<Longrightarrow> roll h = roll g"
  by (auto simp: target_far_def Let_def split: if_splits)

lemma roll_force [simp]: "roll (assign_force rnd i f x y g) = roll g"
proof -
  have j: "roll (join_force m i f g') = roll g'" for m g'
    by (simp add: join_force_def roll_upd_veh roll_upd_faction)
  show ?thesis
    unfolding assign_force_def Let_def
    by (split option.split, split prod.split) (auto simp: j roll_upd_veh dest!: roll_target)
qed

lemma census_init:
  assumes ok: "census_ok g" and u: "0 \<le> u" "u < MaxProtoNum" and f: "0 \<le> f" "f < MaxPlayerNum"
    and spot: "\<And>i b g. roll (spot_all i b g) = roll g" and r: "veh_init spot_all rnd u f x y g = Some (h, i)"
  shows "census_ok h"
proof (cases "VehCount g \<ge> conf_max_veh_num (conf g)")
  case True then show ?thesis using r ok by (simp add: veh_init_def)
next
  case False
  let ?n = "VehCount g"
  define g1 where "g1 = (if unit_plan (Units g u) \<le> PLAN_NAVAL_TRANSPORT
      then upd_faction f (\<lambda>f. f\<lparr>f_total_combat_units := f_total_combat_units f + 1\<rparr>) (g\<lparr>VehCount := ?n + 1\<rparr>) else g\<lparr>VehCount := ?n + 1\<rparr>)"
  define g2 where "g2 = veh_clear ?n u f (add_active f u 1 g1)"
  have "\<exists>d. veh_drop ?n x y (veh_home ?n u f x y g2) = Some d \<and> roll h = roll d"
    using r False by (auto simp: veh_init_def Let_def Option.bind_eq_Some_conv g1_def g2_def spot)
  then have r2: "roll h = roll g2" by (auto dest!: roll_drop)
  have g1: "Vehs g1 = Vehs g" "VehCount g1 = ?n + 1" "conf g1 = conf g" "f_units_active (Factions g1 k) = f_units_active (Factions g k)" for k
    by (simp_all add: g1_def upd_faction_def)
  have "census_ok g2"
  proof (rule census_made [OF ok])
    show "?n < conf_max_veh_num (conf g)" using False by simp
    show "VehCount g2 = ?n + 1" "conf_max_veh_num (conf g2) = conf_max_veh_num (conf g)"
      by (simp_all add: g2_def veh_clear_def g1)
    show "veh_faction_id (Vehs g2 ?n) = f" "veh_unit_id (Vehs g2 ?n) = u"
      using u f by (simp_all add: g2_def veh_clear_def s16_id)
    show "veh_faction_id (Vehs g2 j) = veh_faction_id (Vehs g j) \<and> veh_unit_id (Vehs g2 j) = veh_unit_id (Vehs g j)" if "j \<noteq> ?n" for j
      using that by (simp add: g2_def veh_clear_def g1)
    show "f_units_active (Factions g2 k) v = (f_units_active (Factions g k) v + of_bool (k = f \<and> v = u)) mod 256" for k v
      by (auto simp: g2_def veh_clear_def upd_veh_def g1 active_mod [OF ok])
  qed
  then show ?thesis using roll_cong [OF r2] by simp
qed

text \<open>The operations on units as the steps of a transition system. \<open>spot_all\<close> is the engine's update of what is seen.\<close>

inductive unit_event :: "game \<times> bridge \<Rightarrow> game \<times> bridge \<Rightarrow> bool" where
  made: "\<lbrakk>0 \<le> u; u < MaxProtoNum; 0 \<le> f; f < MaxPlayerNum; \<And>i b g. roll (spot_all i b g) = roll g;
      veh_init spot_all rnd u f x y g = Some (h, i)\<rbrakk> \<Longrightarrow> unit_event (g, b) (h, b)"
| killed: "\<lbrakk>0 \<le> i; i < VehCount g\<rbrakk> \<Longrightarrow> unit_event (g, b) (veh_kill i (g, b))"
| fought: "\<lbrakk>0 \<le> i; i < VehCount g; battle_kill rnd i atk fa s (g, b) = Some (dead, s', gb)\<rbrakk> \<Longrightarrow> unit_event (g, b) gb"
| moved: "veh_put i x y g = Some h \<Longrightarrow> unit_event (g, b) (h, b)"
| skipped: "veh_skip rnd i g = Some h \<Longrightarrow> unit_event (g, b) (h, b)"
| inspected: "mod_monolith choice rnd i g = Some h \<Longrightarrow> unit_event (g, b) (h, b)"
| upgraded: "single_unit_upgrade rnd i u g = Some (h, cost) \<Longrightarrow> unit_event (g, b) (h, b)"
| some_upgraded: "0 \<le> new \<Longrightarrow> new < MaxProtoNum \<Longrightarrow> unit_event (g, b) (part_upgrade f new old g, b)"
| all_upgraded: "0 \<le> new \<Longrightarrow> new < MaxProtoNum \<Longrightarrow> unit_event (g, b) (fst (mod_upgrade_prototype ask f new old flag g), b)"

inductive_cases unit_eventE: "unit_event (g, b) t"

lemma census_event: "unit_event s t \<Longrightarrow> census_ok (fst s) \<Longrightarrow> census_ok (fst t)"
proof (induction rule: unit_event.induct)
  case (made u f spot_all rnd x y g h i b)
  then show ?case using census_init [of g u f spot_all rnd x y h i] by simp
next
  case (fought i g rnd atk fa s b dead s' gb)
  then show ?case using census_battle_kill [of g i rnd atk fa s b dead s'] by (cases gb) simp
next
  case (moved i x y g h b)
  then have "roll h = roll g" by (auto simp: veh_put_def dest: roll_drop)
  from roll_cong [OF this] show ?case using moved by simp
next
  case (inspected choice rnd i g h b)
  then have "roll h = roll g" using roll_fuel by (auto simp: mod_monolith_def keeps_roll_def)
  from roll_cong [OF this] show ?case using inspected by simp
next
  case (some_upgraded new g b f old)
  then show ?case by (simp add: part_upgrade_def census_part)
next
  case (killed i g b)
  then show ?case using census_kill by simp
next
  case (skipped rnd i g h b)
  then show ?case using roll_cong [OF roll_veh_skip] by simp
next
  case (upgraded rnd i u g h cost b)
  then show ?case using census_single by simp
next
  case (all_upgraded new g b ask f old flag)
  then have "census_ok (full_upgrade f new old g)" by (simp add: census_full)
  then show ?case using all_upgraded(3) by (auto simp: mod_upgrade_prototype_def Let_def)
qed

text \<open>C2: the counts of units that every faction keeps agree with the table of units, modulo the byte that holds a count, and
  the table never outgrows its limit: from a state where this holds, every sequence of unit events (making, destroying,
  fighting over, moving, skipping and upgrading units) leads to a state where it holds.\<close>

theorem census_invariant:
  assumes "census_ok (fst s)" and "unit_event\<^sup>*\<^sup>* s t"
  shows "census_ok (fst t)"
  using assms(2,1) by (induction rule: rtranclp_induct) (auto dest: census_event)

definition drilled_game :: game where
  "drilled_game = blank_game\<lparr>VehCount := 2, Vehs := (\<lambda>i. blank_veh\<lparr>veh_x := - 1, veh_y := - 1, veh_faction_id := 1, veh_unit_id := 3\<rparr>),
     conf := (conf blank_game)\<lparr>conf_max_veh_num := 2048\<rparr>,
     Factions := (\<lambda>f. blank_faction\<lparr>f_units_active := (\<lambda>u. if f = 1 \<and> u = 3 then 2 else 0)\<rparr>)\<rparr>"

lemma drilled_census: "census_ok drilled_game"
proof -
  have "rows_of drilled_game f u = (if f = 1 \<and> u = 3 then {0, 1} else {})" for f u
    by (auto simp: rows_of_def drilled_game_def blank_veh_def)
  then show ?thesis by (simp add: census_ok_def) (simp add: drilled_game_def)
qed

lemma census_invariant_witness:
  "census_ok (fst (veh_kill 0 (drilled_game, initial_bridge)))"
  by (rule census_invariant [of "(drilled_game, initial_bridge)"])
    (auto simp: drilled_census intro!: r_into_rtranclp unit_event.killed, simp add: drilled_game_def)

end
