(* ===== verification/Social.thy ===== *)
theory Social
  imports Base_Workers Diplo
begin

text \<open>
  Social engineering and the decision to attack (faction.cpp): effects of a choice of models, the upkeep, the cost of an
  upheaval, and the choice of the AI.
\<close>

section \<open>Social engineering (faction.cpp)\<close>

text \<open>
  A faction stores its models in consecutive fields, one per category, and four sets of effects in consecutive fields, which
  the code reads as arrays (\<open>CSocialCategory\<close> and \<open>CSocialEffect\<close>).
\<close>

type_synonym models = "int \<Rightarrow> int"
type_synonym effects = "int \<Rightarrow> int"

definition of_list :: "int list \<Rightarrow> int \<Rightarrow> int" where
  "of_list xs i = (if 0 \<le> i \<and> i < int (length xs) then xs ! nat i else 0)"

definition cur_models :: "faction \<Rightarrow> models" where
  "cur_models f = of_list [f_SE_Politics f, f_SE_Economics f, f_SE_Values f, f_SE_Future f]"

definition pending_models :: "faction \<Rightarrow> models" where
  "pending_models f = of_list [f_SE_Politics_pending f, f_SE_Economics_pending f, f_SE_Values_pending f, f_SE_Future_pending f]"

definition put_models :: "models \<Rightarrow> faction \<Rightarrow> faction" where
  "put_models m f = f\<lparr>f_SE_Politics := m 0, f_SE_Economics := m 1, f_SE_Values := m 2, f_SE_Future := m 3\<rparr>"

definition put_pending_models :: "models \<Rightarrow> faction \<Rightarrow> faction" where
  "put_pending_models m f = f\<lparr>f_SE_Politics_pending := m 0, f_SE_Economics_pending := m 1, f_SE_Values_pending := m 2,
     f_SE_Future_pending := m 3\<rparr>"

definition cur_effects :: "faction \<Rightarrow> effects" where
  "cur_effects f = of_list [f_SE_economy f, f_SE_effic f, f_SE_support f, f_SE_talent f, f_SE_morale f, f_SE_police f, f_SE_growth f,
     f_SE_planet f, f_SE_probe f, f_SE_industry f, f_SE_research f]"

definition base_effects :: "faction \<Rightarrow> effects" where
  "base_effects f = of_list [f_SE_economy_base f, f_SE_effic_base f, f_SE_support_base f, f_SE_talent_base f, f_SE_morale_base f,
     f_SE_police_base f, f_SE_growth_base f, f_SE_planet_base f, f_SE_probe_base f, f_SE_industry_base f, f_SE_research_base f]"

definition put_effects :: "effects \<Rightarrow> faction \<Rightarrow> faction" where
  "put_effects e f = f\<lparr>f_SE_economy := e 0, f_SE_effic := e 1, f_SE_support := e 2, f_SE_talent := e 3, f_SE_morale := e 4,
     f_SE_police := e 5, f_SE_growth := e 6, f_SE_planet := e 7, f_SE_probe := e 8, f_SE_industry := e 9, f_SE_research := e 10\<rparr>"

definition put_pending_effects :: "effects \<Rightarrow> faction \<Rightarrow> faction" where
  "put_pending_effects e f = f\<lparr>f_SE_economy_pending := e 0, f_SE_effic_pending := e 1, f_SE_support_pending := e 2,
     f_SE_talent_pending := e 3, f_SE_morale_pending := e 4, f_SE_police_pending := e 5, f_SE_growth_pending := e 6,
     f_SE_planet_pending := e 7, f_SE_probe_pending := e 8, f_SE_industry_pending := e 9, f_SE_research_pending := e 10\<rparr>"

definition put_effects_2 :: "effects \<Rightarrow> faction \<Rightarrow> faction" where
  "put_effects_2 e f = f\<lparr>f_SE_economy_2 := e 0, f_SE_effic_2 := e 1, f_SE_support_2 := e 2, f_SE_talent_2 := e 3, f_SE_morale_2 := e 4,
     f_SE_police_2 := e 5, f_SE_growth_2 := e 6, f_SE_planet_2 := e 7, f_SE_probe_2 := e 8, f_SE_industry_2 := e 9,
     f_SE_research_2 := e 10\<rparr>"

definition put_base_effects :: "effects \<Rightarrow> faction \<Rightarrow> faction" where
  "put_base_effects e f = f\<lparr>f_SE_economy_base := e 0, f_SE_effic_base := e 1, f_SE_support_base := e 2, f_SE_talent_base := e 3,
     f_SE_morale_base := e 4, f_SE_police_base := e 5, f_SE_growth_base := e 6, f_SE_planet_base := e 7, f_SE_probe_base := e 8,
     f_SE_industry_base := e 9, f_SE_research_base := e 10\<rparr>"

text \<open>The rules of a faction: the kind of rule and its two values.\<close>

definition faction_rules :: "mfaction \<Rightarrow> (int \<times> int \<times> int) list" where
  "faction_rules m = map (\<lambda>i. (mf_faction_bonus_id m i, mf_faction_bonus_val1 m i, mf_faction_bonus_val2 m i))
     [0..mf_faction_bonus_count m - 1]"

definition compute_faction_modifiers :: "int \<Rightarrow> game \<Rightarrow> game" where
  "compute_faction_modifiers faction_id g =
     upd_faction faction_id (put_base_effects (\<lambda>e. sum_list (map (\<lambda>(id, v1, v2). if id = RULE_SOCIAL \<and> v1 = e then v2 else 0)
       (faction_rules (MFactions g faction_id))))) g"

subsection \<open>The effects of a choice of models\<close>

text \<open>Some projects undo what a model costs.\<close>

definition project_undoes :: "game \<Rightarrow> int \<Rightarrow> int \<Rightarrow> int \<Rightarrow> bool" where
  "project_undoes g faction_id cat model \<longleftrightarrow>
     (if cat = SOCIAL_C_FUTURE
      then (model = SOCIAL_M_CYBERNETIC \<and> has_project g FAC_NETWORK_BACKBONE faction_id)
           \<or> (model = SOCIAL_M_THOUGHT_CONTROL \<and> has_project g FAC_CLONING_VATS faction_id)
      else cat = SOCIAL_C_VALUES \<and> model = SOCIAL_M_POWER \<and> has_project g FAC_CLONING_VATS faction_id)"

definition model_effect :: "game \<Rightarrow> int \<Rightarrow> int \<Rightarrow> int \<Rightarrow> int \<Rightarrow> int" where
  "model_effect g faction_id cat model eff =
     (let v = se_values (csf_soc_effect (SocialField g cat) model) eff;
          v = (if v < 0 \<and> project_undoes g faction_id cat model then 0 else v)
      in if v < 0
         then v + sum_list (map (\<lambda>(id, v1, v2). if v1 = cat \<and> v2 = model
                then (if id = RULE_IMPUNITY then - v else if id = RULE_PENALTY then v else 0) else 0)
                (faction_rules (MFactions g faction_id)))
         else v)"

definition quick_effects :: "game \<Rightarrow> int \<Rightarrow> models \<Rightarrow> effects" where
  "quick_effects g faction_id category eff =
     sum_list (map (\<lambda>cat. model_effect g faction_id cat (category cat) eff) [0..MaxSocialCatNum - 1])"

definition MFACTION_is_alien :: "mfaction \<Rightarrow> bool" where
  "MFACTION_is_alien m \<longleftrightarrow> mf_rule_flags m AND RFLAG_ALIEN \<noteq> 0"

definition project_effects :: "game \<Rightarrow> int \<Rightarrow> effects" where
  "project_effects g faction_id eff =
     (if eff = 5 \<and> has_project g FAC_ASCETIC_VIRTUES faction_id then 1 else 0)
     + (if eff = 2 \<and> has_project g FAC_LIVING_REFINERY faction_id then 2 else 0)
     + (if has_temple g faction_id
        then (if eff = 7 then 1 else if eff = 10 \<and> MFACTION_is_alien (MFactions g faction_id) then 1 else 0) else 0)"

text \<open>Immunity and robustness against negative effects, in the order of the rules.\<close>

definition protect_step :: "int \<times> int \<times> int \<Rightarrow> effects \<Rightarrow> effects" where
  "protect_step = (\<lambda>(id, v1, v2) e.
     if id = RULE_IMMUNITY then e(v1 := clamp (e v1) 0 999)
     else if id = RULE_ROBUST \<and> e v1 < 0 then e(v1 := e v1 sdiv 2)
     else e)"

definition social_calc :: "game \<Rightarrow> models \<Rightarrow> int \<Rightarrow> bool \<Rightarrow> effects" where
  "social_calc g category faction_id is_quick_calc =
     (let e = quick_effects g faction_id category
      in if is_quick_calc then e
         else fold protect_step (faction_rules (MFactions g faction_id))
                (\<lambda>eff. e eff + project_effects g faction_id eff + base_effects (Factions g faction_id) eff))"

definition social_upkeep :: "int \<Rightarrow> game \<Rightarrow> game" where
  "social_upkeep faction_id g =
     (let pending = pending_models (Factions g faction_id);
          g = upd_faction faction_id (put_models pending) g;
          g = upd_faction faction_id (put_pending_effects (social_calc g pending faction_id False)) g;
          g = upd_faction faction_id (put_effects (social_calc g pending faction_id False)) g;
          g = upd_faction faction_id (put_effects_2 (social_calc g pending faction_id False)) g
      in upd_faction faction_id (\<lambda>f. f\<lparr>f_SE_upheaval_cost_paid := 0\<rparr>) g)"

definition social_upheaval :: "game \<Rightarrow> int \<Rightarrow> models \<Rightarrow> int" where
  "social_upheaval g faction_id choices =
     (let f = Factions g faction_id;
          changes = int (length (filter (\<lambda>i. choices i \<noteq> cur_models f i) [0..MaxSocialCatNum - 1]))
      in if changes = 0 then 0
         else let changes = changes + 1; diff_lvl = (if is_human g faction_id then f_diff_level f else DIFF_LIBRARIAN);
                  cost = changes * changes * changes * diff_lvl
              in if is_alien g faction_id then cost + cost sdiv 2 else cost)"

definition society_avail :: "game \<Rightarrow> int \<Rightarrow> int \<Rightarrow> int \<Rightarrow> bool" where
  "society_avail g soc_category soc_model faction_id \<longleftrightarrow>
     \<not> (mf_soc_opposition_category (MFactions g faction_id) = soc_category \<and> mf_soc_opposition_model (MFactions g faction_id) = soc_model)
     \<and> has_tech g (csf_soc_preq_tech (SocialField g soc_category) soc_model) faction_id"

definition max_social_value :: "game \<Rightarrow> int \<Rightarrow> int \<Rightarrow> int" where
  "max_social_value g faction_id SE_type =
     base_effects (Factions g faction_id) SE_type
     + sum_list (map (\<lambda>sf. let vs = map (\<lambda>sm. se_values (csf_soc_effect (SocialField g sf) sm) SE_type)
            (filter (\<lambda>sm. society_avail g sf sm faction_id) [0..3]) in if vs = [] then 0 else Max (set vs)) [0..3])"

subsection \<open>The choice of the AI\<close>

text \<open>The value of a model, term by term. \<open>v\<close> holds the effects: economy 0, efficiency 1, support 2, talent 3, morale 4,
  police 5, growth 6, planet 7, probe 8, industry 9, research 10.\<close>

definition score_priority :: "game \<Rightarrow> int \<Rightarrow> int \<Rightarrow> int \<Rightarrow> effects \<Rightarrow> int" where
  "score_priority g faction_id sf sm v =
     (let f = Factions g faction_id; m = MFactions g faction_id; bias = conf_social_ai_bias (conf g);
          pc = mf_soc_priority_category m; pm = mf_soc_priority_model m; pe = mf_soc_priority_effect m;
          chosen = (if sf = pc then sm else cur_models f pc)
      in (if pc \<ge> 0 \<and> pm \<ge> 0 then (if chosen = pm then bias else if chosen \<noteq> SOCIAL_M_FRONTIER then - bias else 0) else 0)
         + (if pe \<ge> 0 \<and> pe < MaxSocialEffectNum then clamp (v pe) (- 4) 4 * clamp (bias sdiv 10) 0 2 else 0))"

definition score_economy :: "game \<Rightarrow> int \<Rightarrow> effects \<Rightarrow> int" where
  "score_economy g faction_id v =
     (let f = Factions g faction_id; def_val = plan_defense_modifier (plans g faction_id);
          base_ratio = min 10 ((10 * f_base_count f) sdiv clamp (MapAreaSqRoot g sdiv 2) 8 40);
          morale_mod = (if has_project g FAC_COMMAND_NEXUS faction_id then 2 else 0)
            + (if has_project g FAC_CYBORG_FACTORY faction_id then 2 else 0)
      in (if v 0 \<ge> 2 then (if v 0 \<ge> 4 then 16 else 12) else 0)
         - (if v 1 < - 2 then (if v 1 < - 3 then 16 else 8) else 0)
         - (if v 2 < - 3 then 16 else 0)
         + (if v 4 \<ge> 1 \<and> v 4 + morale_mod \<ge> 4 then 10 else 0)
         + (if v 8 \<ge> 3 \<and> \<not> has_project g FAC_HUNTER_SEEKER_ALGORITHM faction_id then 4 * def_val else 0)
         + max 2 (2 + 4 * f_AI_wealth f + 3 * f_AI_tech f - f_AI_fight f) * clamp (v 0) (- 3) 5
         + max 2 (2 * f_AI_wealth f + 2 * f_AI_tech f - f_AI_fight f + base_ratio sdiv 2) * clamp (v 1) (- 4) 6
         + max 2 (3 + 2 * f_AI_power f + 2 * f_AI_fight f - base_ratio sdiv 4 + def_val sdiv 2) * clamp (v 2) (- 4) 3
         + max 2 (def_val + 2 * f_AI_power f + 2 * f_AI_fight f) * clamp (v 4) (- 4) 4)"

definition score_drones :: "game \<Rightarrow> int \<Rightarrow> int \<Rightarrow> int \<Rightarrow> effects \<Rightarrow> int" where
  "score_drones g faction_id sf sm v =
     (let m = MFactions g faction_id; def_val = plan_defense_modifier (plans g faction_id);
          sphere = has_tech g (cfac_preq_tech (Facility g FAC_PUNISHMENT_SPHERE)) faction_id;
          nodrones = has_free_facility g FAC_PUNISHMENT_SPHERE faction_id; skipdrones = has_project g FAC_TELEPATHIC_MATRIX faction_id;
          drone_score = 3 + of_bool (mf_rule_drone m > 0) - of_bool (mf_rule_talent m > 0) - of_bool sphere
      in if skipdrones \<and> \<not> nodrones then 4 * clamp (v 3) 0 5
         else if \<not> nodrones
         then 4 * clamp (v 3) (- 5) 5
              + (if v 5 \<ge> 0 \<or> def_val > 2 then 4 else 2) * clamp (v 5) (if def_val > 2 then - 10 else - 5) 3
              - (if v 5 < - 2 then (if v 5 < - 3 then 2 else 1) * def_val * (if has_aircraft g faction_id then 2 else 1) else 0)
              + (if has_project g FAC_LONGEVITY_VACCINE faction_id \<and> sf = SOCIAL_C_ECONOMICS
                 then (if sm = SOCIAL_M_PLANNED then 10 else 0) + (if sm = SOCIAL_M_SIMPLE \<or> sm = SOCIAL_M_GREEN then 5 else 0) else 0)
              + (if SunspotDuration g > 1 \<and> DiffLevel g \<ge> DIFF_LIBRARIAN \<and> un_charter g \<and> v 5 \<ge> 0 then 3 * drone_score else 0)
              + (if \<not> un_charter g \<and> v 5 \<ge> 0 then 2 * drone_score else 0)
         else 0)"

definition has_creche :: "game \<Rightarrow> int \<Rightarrow> bool" where
  "has_creche g faction_id \<longleftrightarrow> has_tech g (cfac_preq_tech (Facility g FAC_CHILDREN_CRECHE)) faction_id
     \<or> has_free_facility g FAC_CHILDREN_CRECHE faction_id"

definition score_growth :: "game \<Rightarrow> int \<Rightarrow> int \<Rightarrow> effects \<Rightarrow> int" where
  "score_growth g faction_id pop_boom v =
     (let def_val = plan_defense_modifier (plans g faction_id)
      in if has_project g FAC_CLONING_VATS faction_id then 0
         else (if pop_boom \<noteq> 0 \<and> v 6 + (if has_creche g faction_id then 2 else 0) \<ge> GrowthPopBoom then 20 else 0)
              - (if v 6 < - 2 then 5 * clamp (6 - def_val) 2 4 else 0)
              + (if def_val < 3 then 4 + of_bool (def_val < 2) + 2 * pop_boom else 3 + pop_boom) * clamp (v 6) (- 3) GrowthPopBoom)"

definition score_rest :: "game \<Rightarrow> int \<Rightarrow> effects \<Rightarrow> int" where
  "score_rest g faction_id v =
     (let f = Factions g faction_id; m = MFactions g faction_id; p = plans g faction_id; def_val = plan_defense_modifier p;
          probe_mod = (if CurrentTurn g - mf_thinker_last_mc_turn m < 10 then def_val + 1 else 0)
      in (if plan_keep_fungus p \<noteq> 0 then 3 * clamp (v 7) (- 3) 0 else 0)
         + max 2 ((if f_SE_planet_base f > 0 then 5 else 2) + mf_rule_psi m sdiv 10
                  + (if has_project g FAC_MANIFOLD_HARMONICS faction_id then 6 else 0)) * clamp (v 7) (- 3) 3
         + max 2 (1 + def_val + probe_mod + 2 * f_AI_power f + 2 * f_AI_fight f) * clamp (v 8) (- 2) 3
         + (2 * clamp (v 9) (- 3) 5 - 8 * mineral_factor g faction_id (v 9))
         + (if GameRules g AND RULES_SCN_NO_TECH_ADVANCES = 0
            then max 2 (3 + 4 * f_AI_tech f + 2 * (f_AI_wealth f - f_AI_fight f)) * clamp (v 10) (- 5) 5 else 0))"

text \<open>What the statistics of the last upkeep say of the talents, the support and the losses at these effects.\<close>

definition score_stats :: "game \<Rightarrow> int \<Rightarrow> effects \<Rightarrow> int" where
  "score_stats g faction_id v =
     (let f = Factions g faction_id; base_val = max 1 (f_base_count f);
          psy_mod = f_social_psych f (clamp (v 3 + 3) 0 7) (clamp (v 5 + 5) 0 8) sdiv base_val;
          sup_mod = (4 * f_social_support f (clamp (v 2 + 4) 0 7)) sdiv base_val;
          eff_mod = (2 * f_social_effic f (clamp (8 - v 1) 0 8)) sdiv base_val
      in (if has_project g FAC_TELEPATHIC_MATRIX faction_id \<or> has_free_facility g FAC_PUNISHMENT_SPHERE faction_id then 0 else psy_mod)
         - sup_mod - eff_mod)"

definition social_score :: "game \<Rightarrow> int \<Rightarrow> int \<Rightarrow> int \<Rightarrow> int \<Rightarrow> int" where
  "social_score g faction_id sf sm pop_boom =
     (let f = Factions g faction_id;
          v = (if cur_models f sf = sm then cur_effects f else social_calc g ((cur_models f)(sf := sm)) faction_id False)
      in score_priority g faction_id sf sm v + score_economy g faction_id v + score_drones g faction_id sf sm v
         + score_growth g faction_id pop_boom v + score_rest g faction_id v + score_stats g faction_id v)"

definition want_pop_boom :: "game \<Rightarrow> int \<Rightarrow> int" where
  "want_pop_boom g faction_id =
     (let f = Factions g faction_id; creche = has_creche g faction_id
      in if has_project g FAC_CLONING_VATS faction_id then 0
         else if creche \<or> f_SE_growth f \<ge> GrowthPopBoom - 4
         then let own = filter (\<lambda>i. base_faction_id (Bases g i) = faction_id) [0..BaseCount g - 1];
                  want_pop = sum_list (map (\<lambda>i. let b = Bases g i; c = has_facility g FAC_CHILDREN_CRECHE i
                    in base_growth_goal g i
                       * (if base_nutrient_surplus b \<ge> rule_nutrient_intake_req_citizen (Rules g)
                             \<and> (f_SE_growth f + (if c then 2 else 0) + (if BASE_golden_age b then 2 else 0) \<ge> GrowthPopBoom \<or> c)
                          then 4 else 1)) own);
                  pop_total = sum_list (map (\<lambda>i. base_pop_size (Bases g i)) own)
              in if pop_total > 0 \<and> (if f_SE_growth f \<le> GrowthPopBoom - 4 then 1 else 2) * want_pop \<ge> pop_total
                 then 1 + (if max_social_value g faction_id SE_GROWTH + (if creche then 2 else 0) \<ge> GrowthPopBoom
                           then (if want_pop \<ge> 2 * pop_total then 2 else 1) else 0)
                 else 0
         else 0)"

text \<open>The best change of one category that beats the present model by enough; its gain, category and model.\<close>

definition social_choice :: "game \<Rightarrow> int \<Rightarrow> int \<Rightarrow> (int \<times> (int \<times> int) option)" where
  "social_choice g faction_id pop_boom =
     (let cur = cur_models (Factions g faction_id)
      in fold (\<lambda>(i, j) (score_diff, best).
           if j \<noteq> cur i \<and> society_avail g i j faction_id
           then (let d = social_score g faction_id i j pop_boom - social_score g faction_id i (cur i) pop_boom
                 in if d > score_diff then (d, Some (i, j)) else (score_diff, best))
           else (score_diff, best))
         (concat (map (\<lambda>i. map (Pair i) [0..MaxSocialModelNum - 1]) [0..MaxSocialCatNum - 1]))
         (1 + (CurrentTurn g + 11 * faction_id) smod 6, None))"

text \<open>The change is made only when the faction has more energy than it costs.\<close>

definition social_change :: "int \<Rightarrow> game \<Rightarrow> game" where
  "social_change faction_id g =
     (let f = Factions g faction_id
      in case snd (social_choice g faction_id (want_pop_boom g faction_id)) of
           None \<Rightarrow> g
         | Some (sf, sm) \<Rightarrow>
             (let cost = social_upheaval g faction_id ((cur_models f)(sf := sm))
              in if f_energy_credits f > cost
                 then upd_faction faction_id (\<lambda>f. (put_pending_models ((pending_models f)(sf := sm)) f)
                        \<lparr>f_energy_credits := f_energy_credits f - cost, f_SE_upheaval_cost_paid := f_SE_upheaval_cost_paid f + cost\<rparr>) g
                 else g))"

text \<open>\<open>social_set\<close>, \<open>social_ai\<close> and \<open>consider_designs\<close> are functions of the engine; the designer of units (plan.cpp) is not
  modelled. All four are parameters.\<close>

definition mod_social_ai :: "(int \<Rightarrow> game \<Rightarrow> game) \<Rightarrow> (int \<Rightarrow> game \<Rightarrow> game) \<Rightarrow> (int \<Rightarrow> game \<Rightarrow> game) \<Rightarrow> (int \<Rightarrow> game \<Rightarrow> game) \<Rightarrow>
    int \<Rightarrow> game \<Rightarrow> game" where
  "mod_social_ai social_set social_ai design_units consider_designs faction_id g =
     (if is_human g faction_id \<or> \<not> is_alive g faction_id then g
      else if \<not> thinker_enabled g faction_id \<or> conf_social_ai (conf g) = 0 then social_ai faction_id (design_units faction_id g)
      else if f_SE_upheaval_cost_paid (Factions g faction_id) > 0 then social_set faction_id g
      else consider_designs faction_id (design_units faction_id (social_set faction_id (social_change faction_id g))))"

definition SocialWin_social_ai :: "(int \<Rightarrow> game \<Rightarrow> game) \<Rightarrow> int \<Rightarrow> game \<Rightarrow> game" where
  "SocialWin_social_ai social_set faction_id g =
     (if f_SE_upheaval_cost_paid (Factions g faction_id) > 0 then social_set faction_id g else g)"

section \<open>The decision to attack (faction.cpp)\<close>

text \<open>Three factions: who decides, the target and an ally (0 or less for none). What third factions say: an early answer, or
  the modifier, whether a human ally fights the target, and the pact leader the faction surrendered to.\<close>

definition allied_enemy :: "game \<Rightarrow> int \<Rightarrow> int \<Rightarrow> int \<Rightarrow> int" where
  "allied_enemy g f t i =
     (let tr = (\<lambda>a b s. has_treaty g a b s \<noteq> 0)
      in (if tr f i DIPLO_VENDETTA \<and> \<not> tr t i DIPLO_PACT
          then 1 + of_bool (f_mil_strength_1 (Factions g i) > (f_mil_strength_1 (Factions g t) * 3) sdiv 2) else 0)
         + (if great_beelzebub g i False \<and> (CurrentTurn g \<ge> 100 \<or> GameRules g AND RULES_INTENSE_RIVALRY \<noteq> 0)
            then of_bool (tr t i DIPLO_VENDETTA) + of_bool (tr t i DIPLO_COMMLINK \<and> tr f i DIPLO_COMMLINK) else 0))"

fun third_parties :: "game \<Rightarrow> int \<Rightarrow> int \<Rightarrow> int list \<Rightarrow> int \<times> bool \<times> int \<Rightarrow> (int \<times> bool \<times> int) option" where
  "third_parties g f t [] r = Some r"
| "third_parties g f t (i # is) (modifier, common_enemy, peace) =
     (if i \<noteq> f \<and> i \<noteq> t
      then let tr = (\<lambda>a b s. has_treaty g a b s \<noteq> 0); surrender = tr f i DIPLO_HAVE_SURRENDERED;
               peace = (if surrender \<and> tr f i DIPLO_PACT then i else peace);
               modifier = modifier + allied_enemy g f t i
           in if tr f i DIPLO_PACT \<and> is_human g i
              then if surrender \<and> tr i t (DIPLO_PACT OR DIPLO_TREATY) then None
                   else let war = tr t i DIPLO_VENDETTA
                        in third_parties g f t is (modifier + (if tr t i DIPLO_PACT then 2 else 0)
                             - (if war then (if surrender then 4 else 2) else 0), common_enemy \<or> war, peace)
              else third_parties g f t is (modifier, common_enemy, peace)
      else third_parties g f t is (modifier, common_enemy, peace))"

text \<open>Three quarters of the bases in the best land region of a faction.\<close>

definition region_top :: "game \<Rightarrow> int \<Rightarrow> int" where
  "region_top g i =
     (let top = Max (insert 0 ((\<lambda>r. f_region_total_bases (Factions g i) r) ` {1..<MaxRegionLandNum})) in top - top sdiv 4)"

definition hq_region :: "game \<Rightarrow> int \<Rightarrow> int" where
  "hq_region g faction_id =
     fold (\<lambda>i r. if has_fac_built g FAC_HEADQUARTERS i \<and> base_faction_id (Bases g i) = faction_id
                 then region_at g (base_x (Bases g i)) (base_y (Bases g i)) else r) [0..BaseCount g - 1] (- 1)"

text \<open>The strength in the land regions where both are present: none when the target is stronger in a region that matters.\<close>

definition region_step :: "game \<Rightarrow> int \<Rightarrow> int \<Rightarrow> int \<Rightarrow> int \<Rightarrow> int \<times> int \<times> int \<Rightarrow> (int \<times> int \<times> int) option" where
  "region_step g f t u region = (\<lambda>(rating, count, unk).
     let F = Factions g f; T = Factions g t; force_rating = f_region_force_rating F region;
         ally = (if u > 0 then f_region_force_rating (Factions g u) region else 0);
         units = f_region_total_combat_units T region; bases = f_region_total_bases T region; own = f_region_total_bases F region
     in if \<not> bad_reg region \<and> force_rating \<noteq> 0 \<and> (units \<noteq> 0 \<or> bases \<noteq> 0)
        then if (own \<ge> (region_top g f sdiv 4) * 3 \<or> region = hq_region g f)
                \<and> f_region_force_rating T region > force_rating + f_region_total_combat_units F region + ally sdiv 4
             then None
             else let add = force_rating + ally sdiv 2;
                      rating = (if bases \<noteq> 0 then rating + add else rating);
                      rating = (if (bases \<ge> (region_top g t sdiv 4) * 3 \<or> region = hq_region g t) \<and> force_rating > units
                                then rating + add else rating)
                  in Some (rating, if own \<noteq> 0 then count + 1 else count,
                       unk + units + (if own \<noteq> 0 then f_region_force_rating T region sdiv 2 else 0))
        else Some (rating, count, unk))"

definition region_forces :: "game \<Rightarrow> int \<Rightarrow> int \<Rightarrow> int \<Rightarrow> (int \<times> int \<times> int) option" where
  "region_forces g f t u = fold (\<lambda>r s. Option.bind s (region_step g f t u r)) [1..MaxRegionLandNum - 1] (Some (0, 0, 1))"

definition attack_modifier :: "game \<Rightarrow> int \<Rightarrow> int \<Rightarrow> int \<Rightarrow> int" where
  "attack_modifier g f t u =
     (let F = Factions g f; T = Factions g t
      in - (f_AI_fight F * 2)
         + of_bool (f_tech_commerce_bonus F > (f_tech_commerce_bonus T * 3) sdiv 2)
         - of_bool (f_tech_commerce_bonus F < (f_tech_commerce_bonus T * 2) sdiv 3)
         - of_bool (f_best_weapon_value F > f_best_armor_value T * 2)
         + of_bool (f_best_weapon_value F \<le> f_best_armor_value T)
         + of_bool (has_treaty g f t DIPLO_VENDETTA = 0)
         + of_bool (has_treaty g f t DIPLO_PACT \<noteq> 0)
         - of_bool (u > 0 \<and> \<not> great_satan g u False)
         - of_bool (has_agenda g f t AGENDA_UNK_200 \<noteq> 0 \<and> GameRules g AND RULES_INTENSE_RIVALRY \<noteq> 0)
         - clamp ((f_integrity_blemishes T - f_integrity_blemishes F + 2) sdiv 3) 0 2)"

definition morale_weight :: "game \<Rightarrow> int \<Rightarrow> int" where
  "morale_weight g f = clamp (f_SE_morale_pending (Factions g f)) (- 4) 4 + mf_rule_morale (MFactions g f) + 16"

definition strong_enough :: "game \<Rightarrow> int \<Rightarrow> int \<Rightarrow> int \<Rightarrow> int \<Rightarrow> bool" where
  "strong_enough g f t u modifier \<longleftrightarrow>
     (case region_forces g f t u of
        None \<Rightarrow> False
      | Some (rating, count, unk) \<Rightarrow>
          (let modifier = modifier + attack_modifier g f t u; divisor = unk * morale_weight g t
           in divisor \<noteq> 0
              \<and> \<not> ((count \<noteq> 0 \<or> modifier > 0 \<or> has_treaty g f t DIPLO_UNK_20000000 \<noteq> 0)
                   \<and> (morale_weight g f * rating * 6) sdiv divisor < modifier + 6)))"

definition evaluate_attack :: "game \<Rightarrow> int \<Rightarrow> int \<Rightarrow> int \<Rightarrow> bool" where
  "evaluate_attack g f t u =
     (let F = Factions g f; T = Factions g t
      in if MFACTION_is_alien (MFactions g f) \<and> MFACTION_is_alien (MFactions g t) then True
         else if has_treaty g f t (DIPLO_WANT_REVENGE OR DIPLO_UNK_40 OR DIPLO_ATROCITY_VICTIM) \<noteq> 0 then True
         else if f_major_atrocities F = 0 \<and> f_major_atrocities T \<noteq> 0 then True
         else if has_treaty g f t DIPLO_UNK_4000000 \<noteq> 0 then False
         else if \<not> is_human g t \<and> f_player_flags F AND PFLAG_TEAM_UP_VS_HUMAN \<noteq> 0 then False
         else case third_parties g f t [1..MaxPlayerNum - 1] (0, False, 0) of
              None \<Rightarrow> False
            | Some (modifier, common_enemy, peace) \<Rightarrow>
                if peace \<noteq> 0 \<and> has_treaty g t peace DIPLO_VENDETTA \<noteq> 0 then True
                else if peace \<noteq> 0 \<and> has_treaty g t peace (DIPLO_PACT OR DIPLO_TREATY) \<noteq> 0 then False
                else if f_AI_fight F < 0 \<and> \<not> common_enemy \<and> FactionRankings g 7 \<noteq> t then False
                else if f_base_count F + (if f_best_armor_value F > 1 then 5 else 0) + (if f_best_weapon_value F > 1 then 5 else 0)
                        \<le> (CurrentTurn g + f) AND 15 then False
                else strong_enough g f t u modifier)"

definition mod_wants_to_attack :: "game \<Rightarrow> int \<Rightarrow> int \<Rightarrow> int \<Rightarrow> bool" where
  "mod_wants_to_attack g faction_id faction_id_tgt faction_id_unk = evaluate_attack g faction_id faction_id_tgt faction_id_unk"

subsection \<open>Properties\<close>

lemma of_list_eq: "of_list xs = of_list ys \<longleftrightarrow> (\<forall>i. of_list xs i = of_list ys i)"
  by (simp add: fun_eq_iff)

lemma models_put [simp]:
  "cur_models (put_models m f) = of_list [m 0, m 1, m 2, m 3]"
  "pending_models (put_models m f) = pending_models f" "base_effects (put_models m f) = base_effects f"
  by (simp_all add: cur_models_def pending_models_def base_effects_def put_models_def)

lemma effects_put [simp]:
  "pending_models (put_effects e f) = pending_models f" "cur_models (put_effects e f) = cur_models f"
  "base_effects (put_effects e f) = base_effects f" "pending_models (put_pending_effects e f) = pending_models f"
  "cur_models (put_pending_effects e f) = cur_models f" "base_effects (put_pending_effects e f) = base_effects f"
  "pending_models (put_effects_2 e f) = pending_models f" "cur_models (put_effects_2 e f) = cur_models f"
  "base_effects (put_effects_2 e f) = base_effects f"
  by (simp_all add: put_effects_def put_pending_effects_def put_effects_2_def cur_models_def pending_models_def base_effects_def)

lemma of_list_4: "of_list [of_list [a, b, c, d] 0, of_list [a, b, c, d] 1, of_list [a, b, c, d] 2, of_list [a, b, c, d] 3] = of_list [a, b, c, d]"
  by (simp add: of_list_def numeral_eq_Suc)

lemma of_list_pending [simp]: "of_list [pending_models f 0, pending_models f 1, pending_models f 2, pending_models f 3] = pending_models f"
  unfolding pending_models_def by (rule of_list_4)

lemma social_calc_cong:
  assumes "base_effects (h (Factions g f)) = base_effects (Factions g f)"
  shows "social_calc (upd_faction f h g) c f q = social_calc g c f q"
proof -
  let ?g = "upd_faction f h g"
  have 1: "has_project ?g p f = has_project g p f" for p
    by (simp add: has_project_def has_project_any_def project_base_def upd_faction_def)
  have m: "mapsq ?g x y = mapsq g x y" for x y by (simp add: mapsq_def upd_faction_def)
  have 2: "has_temple ?g f = has_temple g f"
    by (simp add: has_temple_def map_coords_def sq_at_def mapsq_def upd_faction_def)
  have 3: "MFactions ?g = MFactions g" "SocialField ?g = SocialField g" "Factions ?g f = h (Factions g f)"
    by (simp_all add: upd_faction_def)
  have "model_effect ?g f cat mo e = model_effect g f cat mo e" for cat mo e
    unfolding model_effect_def project_undoes_def 1 3 ..
  then have "quick_effects ?g f c = quick_effects g f c" by (simp add: quick_effects_def fun_eq_iff)
  moreover have "project_effects ?g f = project_effects g f" unfolding fun_eq_iff project_effects_def 1 2 3 by simp
  ultimately show ?thesis unfolding social_calc_def 3 assms by (simp only:)
qed

lemma upd_faction_twice: "upd_faction f h (upd_faction f k g) = upd_faction f (h \<circ> k) g"
  by (simp add: upd_faction_def fun_eq_iff)

definition settle_faction :: "models \<Rightarrow> effects \<Rightarrow> faction \<Rightarrow> faction" where
  "settle_faction m e f = (put_effects_2 e (put_effects e (put_pending_effects e (put_models m f))))\<lparr>f_SE_upheaval_cost_paid := 0\<rparr>"

lemma social_upkeep_eq:
  "social_upkeep f g = upd_faction f (settle_faction (pending_models (Factions g f)) (social_calc g (pending_models (Factions g f)) f False)) g"
  by (simp add: social_upkeep_def Let_def upd_faction_twice social_calc_cong o_def settle_faction_def [abs_def])

text \<open>C20: The upkeep settles the models a faction has chosen: afterwards its models are the ones that were pending, the present,
  the pending and the third set of effects are exactly those that the models yield in the new state, no cost of an upheaval is
  open, and a second upkeep changes nothing.\<close>

theorem social_upkeep_settles:
  "let g' = social_upkeep f g; F = Factions g f; F' = Factions g' f
   in cur_models F' = pending_models F \<and> pending_models F' = pending_models F
      \<and> cur_effects F' = of_list (map (social_calc g' (pending_models F') f False) [0..10])
      \<and> F' = settle_faction (cur_models F') (cur_effects F') F'
      \<and> f_SE_upheaval_cost_paid F' = 0 \<and> social_upkeep f g' = g'"
proof -
  let ?p = "pending_models (Factions g f)" let ?e = "social_calc g ?p f False"
  let ?F = "settle_faction ?p ?e (Factions g f)"
  have F: "Factions (social_upkeep f g) f = ?F" by (simp add: social_upkeep_eq upd_faction_def)
  have c: "cur_models ?F = ?p" "pending_models ?F = ?p" "base_effects ?F = base_effects (Factions g f)"
    by (simp_all add: settle_faction_def cur_models_def pending_models_def base_effects_def put_models_def put_effects_def
        put_pending_effects_def put_effects_2_def of_list_def numeral_eq_Suc)
  have calc: "social_calc (social_upkeep f g) ?p f False = ?e"
    unfolding social_upkeep_eq by (rule social_calc_cong) (simp add: c(3))
  have eff: "cur_effects (settle_faction m e h) = of_list (map e [0..10])" for m e h
    by (simp add: settle_faction_def cur_effects_def put_effects_def put_effects_2_def upto_rec1)
  have idem: "settle_faction m e (settle_faction m e h) = settle_faction m e h" for m e h
    by (simp add: settle_faction_def put_models_def put_effects_def put_pending_effects_def put_effects_2_def)
  have vals: "settle_faction m (of_list (map e [0..10])) h = settle_faction m e h" for m e h
    by (simp add: settle_faction_def put_effects_def put_pending_effects_def put_effects_2_def of_list_def upto_rec1 numeral_eq_Suc)
  have again: "social_upkeep f (social_upkeep f g) = social_upkeep f g"
    unfolding social_upkeep_eq [of f "social_upkeep f g"] F c(2) calc
    by (simp add: social_upkeep_eq upd_faction_twice o_def idem)
  show ?thesis
    unfolding Let_def F c calc eff vals idem using again by (simp add: settle_faction_def)
qed

subsubsection \<open>Protection\<close>

lemma protect_keeps_nonneg: "0 \<le> e i \<Longrightarrow> 0 \<le> fold protect_step rs e i"
proof (induction rs arbitrary: e)
  case (Cons r rs)
  obtain id v1 v2 where r: "r = (id, v1, v2)" by (metis prod_cases3)
  have "0 \<le> protect_step r e i" using Cons.prems by (auto simp: r protect_step_def clamp_def)
  then show ?case using Cons.IH by simp
qed simp

lemma protect_immunity: "(RULE_IMMUNITY, i, v) \<in> set rs \<Longrightarrow> 0 \<le> fold protect_step rs e i"
proof (induction rs arbitrary: e)
  case (Cons r rs)
  show ?case
  proof (cases "r = (RULE_IMMUNITY, i, v)")
    case True
    then have "0 \<le> protect_step r e i" by (simp add: protect_step_def clamp_def)
    then show ?thesis using protect_keeps_nonneg by simp
  next
    case False
    then show ?thesis using Cons by simp
  qed
qed simp

text \<open>A faction that is immune to a negative social effect never suffers it, whatever its models, projects and base effects
  and whatever other rules it has; and the same holds in every set of effects after the upkeep.\<close>

theorem social_immunity:
  assumes "(RULE_IMMUNITY, i, v) \<in> set (faction_rules (MFactions g f))" "i \<in> set [0..10]"
  shows "0 \<le> social_calc g category f False i \<and> 0 \<le> cur_effects (Factions (social_upkeep f g) f) i"
proof -
  have 1: "0 \<le> social_calc g c f False i" for c using protect_immunity [OF assms(1)] by (simp add: social_calc_def Let_def)
  have i: "0 \<le> i" "i \<le> 10" using assms(2) by auto
  have "cur_effects (settle_faction m e h) i = e i" for m e h
  proof -
    have "i = 0 \<or> i = 1 \<or> i = 2 \<or> i = 3 \<or> i = 4 \<or> i = 5 \<or> i = 6 \<or> i = 7 \<or> i = 8 \<or> i = 9 \<or> i = 10" using i by presburger
    then show ?thesis by (auto simp: settle_faction_def cur_effects_def put_effects_def put_effects_2_def of_list_def numeral_eq_Suc)
  qed
  then show ?thesis using 1 by (simp add: social_upkeep_eq upd_faction_def)
qed

lemma social_immunity_witness:
  "let m = blank_mfaction\<lparr>mf_faction_bonus_count := 1, mf_faction_bonus_id := (\<lambda>_. RULE_IMMUNITY), mf_faction_bonus_val1 := (\<lambda>_. 6)\<rparr>
    in 0 \<le> social_calc (blank_game\<lparr>MFactions := (\<lambda>_. m)\<rparr>) (\<lambda>_. 0) 2 False 6"
proof -
  let ?m = "blank_mfaction\<lparr>mf_faction_bonus_count := 1, mf_faction_bonus_id := (\<lambda>_. RULE_IMMUNITY), mf_faction_bonus_val1 := (\<lambda>_. 6)\<rparr>"
  have "(RULE_IMMUNITY, 6, 0) \<in> set (faction_rules (MFactions (blank_game\<lparr>MFactions := (\<lambda>_. ?m)\<rparr>) 2))"
    by (simp add: faction_rules_def blank_mfaction_def)
  from social_immunity [OF this, of "\<lambda>_. 0"] show ?thesis by (simp add: Let_def)
qed

subsubsection \<open>The AI pays for what it changes\<close>

definition good_choice :: "game \<Rightarrow> int \<Rightarrow> int \<Rightarrow> int \<times> (int \<times> int) option \<Rightarrow> bool" where
  "good_choice g f pop_boom = (\<lambda>(d, best). case best of None \<Rightarrow> True
     | Some (i, j) \<Rightarrow> i \<in> {0..3} \<and> j \<in> {0..3} \<and> j \<noteq> cur_models (Factions g f) i \<and> society_avail g i j f
         \<and> social_score g f i (cur_models (Factions g f) i) pop_boom < social_score g f i j pop_boom)"

lemma fold_invariant_list: "P s \<Longrightarrow> (\<And>x s. x \<in> set xs \<Longrightarrow> P s \<Longrightarrow> P (h x s)) \<Longrightarrow> P (fold h xs s)"
  by (induction xs arbitrary: s) simp_all

lemma social_choice_good:
  assumes "0 \<le> CurrentTurn g + 11 * f"
  shows "good_choice g f pop_boom (social_choice g f pop_boom)"
proof -
  let ?P = "\<lambda>s. good_choice g f pop_boom s \<and> 0 \<le> fst s"
  have "?P (social_choice g f pop_boom)" unfolding social_choice_def Let_def
    by (rule fold_invariant_list) (use assms in \<open>auto simp: good_choice_def smod_nonneg split: if_splits\<close>)
  then show ?thesis by simp
qed

lemma put_pending_models_pending: "sf \<in> {0..3} \<Longrightarrow> pending_models (put_pending_models ((pending_models f)(sf := sm)) f) = (pending_models f)(sf := sm)"
proof -
  assume "sf \<in> {0..3}"
  then have sf: "sf \<in> {0, 1, 2, 3}" by auto
  show ?thesis
  proof
    fix i :: int
    have "i \<in> {0, 1, 2, 3} \<or> i < 0 \<or> 4 \<le> i" by auto
    then show "pending_models (put_pending_models ((pending_models f)(sf := sm)) f) i = ((pending_models f)(sf := sm)) i"
      using sf by (auto simp: pending_models_def put_pending_models_def of_list_def numeral_eq_Suc)
  qed
qed

text \<open>C19: The AI never changes its society on credit: \<open>social_change\<close> leaves the game as it is or it changes the pending model of
  exactly one category, to another model that is available and scores better, pays exactly the cost of that upheaval, records it
  as paid, and keeps some energy.\<close>

theorem social_change_affordable:
  assumes "0 \<le> CurrentTurn g + 11 * f"
  shows "social_change f g = g
    \<or> (\<exists>sf sm pop. let F = Factions g f; F' = Factions (social_change f g) f; cost = social_upheaval g f ((cur_models F)(sf := sm))
        in sm \<noteq> cur_models F sf \<and> society_avail g sf sm f \<and> social_score g f sf (cur_models F sf) pop < social_score g f sf sm pop
           \<and> pending_models F' = (pending_models F)(sf := sm) \<and> cur_models F' = cur_models F
           \<and> f_energy_credits F' = f_energy_credits F - cost \<and> 0 < f_energy_credits F'
           \<and> f_SE_upheaval_cost_paid F' = f_SE_upheaval_cost_paid F + cost)"
proof (cases "social_choice g f (want_pop_boom g f)")
  case (Pair d best)
  show ?thesis
  proof (cases best)
    case None
    then show ?thesis by (simp add: social_change_def Pair Let_def)
  next
    case (Some p)
    obtain sf sm where p: "p = (sf, sm)" by fastforce
    let ?F = "Factions g f" let ?cost = "social_upheaval g f ((cur_models ?F)(sf := sm))"
    have good: "sf \<in> {0..3}" "sm \<noteq> cur_models ?F sf" "society_avail g sf sm f"
      "social_score g f sf (cur_models ?F sf) (want_pop_boom g f) < social_score g f sf sm (want_pop_boom g f)"
      using social_choice_good [OF assms, of "want_pop_boom g f"] by (simp_all add: Pair Some p good_choice_def)
    show ?thesis
    proof (cases "f_energy_credits ?F > ?cost")
      case False
      then show ?thesis by (simp add: social_change_def Pair Some p Let_def)
    next
      case True
      let ?F' = "(put_pending_models ((pending_models ?F)(sf := sm)) ?F)\<lparr>f_energy_credits := f_energy_credits ?F - ?cost,
        f_SE_upheaval_cost_paid := f_SE_upheaval_cost_paid ?F + ?cost\<rparr>"
      have F': "Factions (social_change f g) f = ?F'"
        using True by (simp add: social_change_def Pair Some p Let_def upd_faction_def put_pending_models_def)
      have "pending_models ?F' = pending_models (put_pending_models ((pending_models ?F)(sf := sm)) ?F)"
        by (simp add: pending_models_def)
      then have "pending_models ?F' = (pending_models ?F)(sf := sm)" using put_pending_models_pending [OF good(1)] by simp
      moreover have "cur_models ?F' = cur_models ?F" by (simp add: cur_models_def put_pending_models_def)
      ultimately show ?thesis
        using good True unfolding Let_def F' by (intro disjI2 exI [of _ sf] exI [of _ sm] exI [of _ "want_pop_boom g f"]) simp
    qed
  qed
qed

lemma social_change_affordable_witness:
  "social_change 1 blank_game = blank_game \<or> 0 < f_energy_credits (Factions (social_change 1 blank_game) 1)"
  using social_change_affordable [of blank_game 1] by (auto simp: Let_def blank_game_def)

end
