(* ===== verification/Base_Build.thy ===== *)
theory Base_Build
  imports Path Veh_Census Social Goals
begin

text \<open>
  What a base may build (base.cpp, plan.cpp), and how a base is founded and lost (base.cpp): its marks on the map, its first
  facilities and its first item of production, the row it leaves in the table when it is lost, and the move of the
  headquarters. Messages and drawing are not modelled; drawn numbers are arguments.
\<close>

section \<open>What a base may build (base.cpp, plan.cpp)\<close>

definition own_bases :: "game \<Rightarrow> int \<Rightarrow> int list" where
  "own_bases g faction_id = filter (\<lambda>i. base_faction_id (Bases g i) = faction_id) [0..BaseCount g - 1]"

text \<open>
  The walk over the bases of the faction: it stops at one that has a headquarters or builds it, and otherwise keeps the best
  score. A later base has to double the best one.
\<close>

fun relocate_scan :: "game \<Rightarrow> int \<Rightarrow> int list \<Rightarrow> int \<Rightarrow> int \<Rightarrow> bool" where
  "relocate_scan g base_id [] best_id best_score = (best_id = base_id)"
| "relocate_scan g base_id (i # is) best_id best_score =
     (let b = Bases g i;
          score = 8 * (if i = base_id then 1 else 0) + 2 * base_pop_size b + base_mineral_surplus b
            - base_assimilation_turns_left b
      in if has_fac_built g FAC_HEADQUARTERS i then False
         else if BASE_item b = - FAC_HEADQUARTERS then base_id = i
         else if best_id < 0 \<or> score > 2 * best_score then relocate_scan g base_id is i score
         else relocate_scan g base_id is best_id best_score)"

definition valid_relocate_base :: "game \<Rightarrow> int \<Rightarrow> bool" where
  "valid_relocate_base g base_id =
     (let faction_id = base_faction_id (Bases g base_id)
      in conf_auto_relocate_hq (conf g) = 0 \<and> base_mineral_surplus (Bases g base_id) \<ge> 2
         \<and> has_tech g (cfac_preq_tech (Facility g FAC_HEADQUARTERS)) faction_id
         \<and> relocate_scan g base_id (own_bases g faction_id) (- 1) 0)"

definition satellite_count :: "game \<Rightarrow> int \<Rightarrow> int \<Rightarrow> int" where
  "satellite_count g faction_id item_id =
     (let f = Factions g faction_id
      in if item_id = FAC_SKY_HYDRO_LAB then f_satellites_nutrient f
         else if item_id = FAC_ORBITAL_POWER_TRANS then f_satellites_energy f
         else if item_id = FAC_NESSUS_MINING_STATION then f_satellites_mineral f
         else f_satellites_ODP f)"

definition enemy_nukes :: "game \<Rightarrow> int \<Rightarrow> int" where
  "enemy_nukes g faction_id =
     fold (\<lambda>i n. if faction_id \<noteq> i \<and> is_alive g i \<and> at_war g faction_id i then max n (f_planet_busters (Factions g i)) else n)
       [1..MaxPlayerNum - 1] 0"

definition satellite_goal :: "game \<Rightarrow> int \<Rightarrow> int \<Rightarrow> int" where
  "satellite_goal g faction_id item_id =
     (let f = Factions g faction_id; p = plans g faction_id; goal = plan_satellite_goal p;
          nukes = enemy_nukes g faction_id;
          goal = (if item_id = FAC_ORBITAL_DEFENSE_POD
                  then if plan_enemy_odp p > 0 \<or> plan_enemy_sat p > 0 \<or> nukes > 2
                       then clamp (goal sdiv 4) 0 4 + clamp (f_base_count f sdiv 8 + nukes sdiv 2) 2 12
                       else clamp (goal sdiv 4) 0 4 + clamp (f_base_count f sdiv 8) 2 4
                  else if f_base_count f \<le> 5 then goal sdiv 2 else goal);
          goal = (if f_base_count f \<le> 10 then goal sdiv 2 else goal)
      in clamp goal 0 (conf_max_satellites (conf g)))"

definition subspace_full :: "game \<Rightarrow> int \<Rightarrow> bool" where
  "subspace_full g faction_id =
     (let n = length (filter (\<lambda>i. has_facility g FAC_SUBSPACE_GENERATOR i
            \<and> base_pop_size (Bases g i) \<ge> rule_base_size_subspace_gen (Rules g)) (own_bases g faction_id))
      in n > 0 \<and> int n \<ge> rule_subspace_gen_req (Rules g))"

definition sensor_base_near :: "game \<Rightarrow> int \<Rightarrow> bool" where
  "sensor_base_near g base_id =
     (let base = Bases g base_id
      in list_ex (\<lambda>i. let b = Bases g i
           in i \<noteq> base_id \<and> map_range g (base_x base) (base_y base) (base_x b) (base_y b) \<le> 3
              \<and> (has_facility g FAC_GEOSYNC_SURVEY_POD i \<or> has_facility g FAC_FLECHETTE_DEFENSE_SYS i
                 \<or> BASE_item b = - FAC_GEOSYNC_SURVEY_POD \<or> BASE_item b = - FAC_FLECHETTE_DEFENSE_SYS))
         (own_bases g (base_faction_id base)))"

text \<open>The guards of \<open>can_build\<close> that follow the ones for projects, in the order of the code.\<close>

definition useful_facility :: "game \<Rightarrow> int \<Rightarrow> int \<Rightarrow> bool" where
  "useful_facility g base_id item_id =
     (let base = Bases g base_id; faction_id = base_faction_id base; f = Factions g faction_id
      in \<not> (item_id = FAC_HEADQUARTERS \<and> \<not> valid_relocate_base g base_id)
       \<and> \<not> (item_id \<in> {FAC_RECREATION_COMMONS, FAC_HOLOGRAM_THEATRE, FAC_PUNISHMENT_SPHERE, FAC_PARADISE_GARDEN}
            \<and> \<not> base_can_riot g base_id False)
       \<and> \<not> (item_id = FAC_PUNISHMENT_SPHERE
            \<and> (project_base g FAC_SUPERCOLLIDER = base_id \<or> project_base g FAC_THEORY_OF_EVERYTHING = base_id))
       \<and> \<not> (GameRules g AND RULES_SCN_NO_TECH_ADVANCES \<noteq> 0
            \<and> item_id \<in> {FAC_RESEARCH_HOSPITAL, FAC_NANOHOSPITAL, FAC_FUSION_LAB, FAC_QUANTUM_LAB})
       \<and> \<not> (item_id = FAC_GENEJACK_FACTORY \<and> base_can_riot g base_id False
            \<and> base_talent_total base + 1 < base_drone_total base + rule_drones_induced_genejack_factory (Rules g))
       \<and> \<not> (item_id \<in> {FAC_HAB_COMPLEX, FAC_HABITATION_DOME}
            \<and> (base_nutrient_surplus base < 0 \<or> base_unused_space g base_id > 1))
       \<and> \<not> (item_id = FAC_PRESSURE_DOME
            \<and> (ClimateFutureChange g \<le> 0 \<or> \<not> is_shore_level (sq_at g (base_x base) (base_y base))))
       \<and> \<not> (FAC_EMPTY_FACILITY_42 \<le> item_id \<and> item_id \<le> FAC_EMPTY_FACILITY_64 \<and> cfac_maint (Facility g item_id) \<ge> 0)
       \<and> \<not> (item_id \<in> {FAC_COMMAND_CENTER, FAC_NAVAL_YARD}
            \<and> (conf_repair_base_facility (conf g) = 0 \<or> f_SE_morale f < - 1))
       \<and> \<not> (item_id = FAC_BIOENHANCEMENT_CENTER \<and> f_SE_morale f < - 1)
       \<and> \<not> (item_id = FAC_COVERT_OPS_CENTER \<and> has_project g FAC_HUNTER_SEEKER_ALGORITHM faction_id)
       \<and> \<not> (item_id = FAC_PSI_GATE \<and> 4 * facility_count g FAC_PSI_GATE faction_id \<ge> f_base_count f)
       \<and> \<not> (item_id = FAC_SUBSPACE_GENERATOR
            \<and> (\<not> is_alien g faction_id \<or> base_pop_size base < rule_base_size_subspace_gen (Rules g)
               \<or> subspace_full g faction_id))
       \<and> \<not> (FAC_SKY_HYDRO_LAB \<le> item_id \<and> item_id \<le> FAC_ORBITAL_DEFENSE_POD
            \<and> satellite_count g faction_id item_id + prod_count g (- item_id) faction_id base_id
              \<ge> satellite_goal g faction_id item_id)
       \<and> \<not> (item_id = FAC_FLECHETTE_DEFENSE_SYS \<and> f_satellites_ODP f > 0)
       \<and> \<not> (item_id \<in> {FAC_GEOSYNC_SURVEY_POD, FAC_FLECHETTE_DEFENSE_SYS} \<and> sensor_base_near g base_id))"

text \<open>\<open>random4\<close> is the number that the call of \<open>random(4)\<close> delivers.\<close>

definition can_build :: "int \<Rightarrow> game \<Rightarrow> int \<Rightarrow> int \<Rightarrow> bool" where
  "can_build random4 g base_id item_id =
     (let base = Bases g base_id; faction_id = base_faction_id base; tech_id = cfac_preq_tech (Facility g item_id)
      in if \<not> mod_facility_avail g item_id faction_id base_id 0 then False
         else if item_id = FAC_STOCKPILE_ENERGY
         then base_mineral_consumption base > base_mineral_surplus base \<and> random4 \<noteq> 0
         else if item_id \<in> {FAC_ASCENT_TO_TRANSCENDENCE, FAC_VOICE_OF_PLANET}
            \<and> (victory_done g
               \<or> (is_alien g faction_id \<and> has_tech g (cfac_preq_tech (Facility g FAC_SUBSPACE_GENERATOR)) faction_id))
         then False
         else if SP_ID_First \<le> item_id \<and> item_id \<le> SP_ID_Last
         then tech_id = TECH_None \<or> DiffLevel g \<ge> conf_limit_project_start (conf g)
              \<or> (tech_id \<ge> 0 \<and> TechOwners g tech_id AND FactionStatus g 0 \<noteq> 0)
         else useful_facility g base_id item_id)"

text \<open>\<open>random32\<close> is the number that the call of \<open>random(32)\<close> delivers.\<close>

definition can_build_unit :: "int \<Rightarrow> game \<Rightarrow> int \<Rightarrow> int \<Rightarrow> bool" where
  "can_build_unit random32 g base_id unit_id =
     (let b = Bases g base_id; u = Units g unit_id; f = base_faction_id b; limit = conf_max_veh_num (conf g)
      in \<not> (unit_id \<ge> 0 \<and> \<not> (unit_id < MaxProtoFactionNum \<or> unit_id sdiv MaxProtoFactionNum = f))
       \<and> \<not> (unit_id \<ge> 0 \<and> UNIT_is_colony u \<and> base_nutrient_surplus b \<le> 0 \<and> base_pop_size b = 1
            \<and> f_diff_level (Factions g f) > 1 \<and> (DiffLevel g \<le> 3 \<or> is_human g f))
       \<and> \<not> (unit_id \<ge> 0 \<and> UNIT_triad g u = TRIAD_SEA \<and> \<not> adjacent_region g (base_x b) (base_y b) (- 1) 10 True)
       \<and> (VehCount g + 32 < limit \<or> VehCount g + random32 < limit))"

section \<open>Founding and losing a base (base.cpp)\<close>

subsection \<open>Marks of a base on the map\<close>

definition using_put :: "int \<Rightarrow> int \<Rightarrow> int \<Rightarrow> game \<Rightarrow> game" where
  "using_put x y faction_id g = (case using_set g x y faction_id of None \<Rightarrow> g | Some g' \<Rightarrow> g')"

definition mark_square :: "int \<Rightarrow> nat \<Rightarrow> game \<Rightarrow> game" where
  "mark_square base_id i g =
     (let b = Bases g base_id; (x2, y2, sq) = next_tile g (base_x b) (base_y b) i
      in case sq of None \<Rightarrow> g
         | Some _ \<Rightarrow> if i < 21 then using_put x2 y2 (base_faction_id b) (bit_set g x2 y2 BIT_BASE_RADIUS True)
                     else site_set g x2 y2 0)"

definition base_mark :: "int \<Rightarrow> game \<Rightarrow> game" where
  "base_mark base_id g =
     (let g = fold (mark_square base_id) [0..<49] g; b = Bases g base_id
      in fold (\<lambda>i. del_site i AI_GOAL_COLONIZE (base_x b) (base_y b) 3) [0..MaxPlayerNum - 1] g)"

subsection \<open>Founding\<close>

definition add_fac :: "int \<Rightarrow> int \<Rightarrow> game \<Rightarrow> game" where
  "add_fac base_id item_id g = set_fac g item_id base_id True"

definition add_fac_if :: "bool \<Rightarrow> int \<Rightarrow> int \<Rightarrow> game \<Rightarrow> game" where
  "add_fac_if c base_id item_id g = (if c then add_fac base_id item_id g else g)"

definition put_pop :: "int \<Rightarrow> int \<Rightarrow> game \<Rightarrow> game" where
  "put_pop base_id n = upd_base base_id (\<lambda>b. b\<lparr>base_pop_size := s8 n\<rparr>)"

definition first_base :: "int \<Rightarrow> game \<Rightarrow> game" where
  "first_base base_id g =
     (let faction_id = base_faction_id (Bases g base_id); plr = Factions g faction_id; m = MFactions g faction_id;
          turn = CurrentTurn g; g = add_fac base_id FAC_HEADQUARTERS g
      in if MultiplayerActive g
         then (let n = (if mf_rule_talent m \<noteq> 0 \<or> f_SE_planet_base plr > 0 then 4 else 3);
                   n = (if mf_rule_drone m \<noteq> 0 \<or> mf_rule_population m \<noteq> 0 then n - 1 else n);
                   g = add_fac base_id FAC_RECYCLING_TANKS (put_pop base_id n g);
                   g = add_fac_if (DiffLevel g \<ge> 3) base_id FAC_RECREATION_COMMONS g
               in add_fac_if (f_SE_economy_base plr > 0) base_id FAC_ENERGY_BANK g)
         else (let g = put_pop base_id (clamp ((turn + 49) sdiv 50) 1 5) g;
                   g = add_fac_if (turn \<ge> 75) base_id FAC_RECYCLING_TANKS g;
                   g = add_fac_if (turn \<ge> 100) base_id FAC_RECREATION_COMMONS g
               in add_fac_if (turn \<ge> 150) base_id FAC_ENERGY_BANK g))"

definition bonus_facility :: "int \<Rightarrow> int \<Rightarrow> bool \<Rightarrow> int \<Rightarrow> game \<Rightarrow> game" where
  "bonus_facility base_id rule need_tech i g =
     (let faction_id = base_faction_id (Bases g base_id); m = MFactions g faction_id;
          item_id = clamp (mf_faction_bonus_val1 m i) 1 Fac_All_ID_Last
      in add_fac_if (mf_faction_bonus_id m i = rule \<and> (need_tech \<longrightarrow> has_tech g (cfac_preq_tech (Facility g item_id)) faction_id))
           base_id item_id g)"

definition initialize_founded_base_facilities :: "int \<Rightarrow> game \<Rightarrow> game" where
  "initialize_founded_base_facilities base_id g =
     (let base = Bases g base_id; faction_id = base_faction_id base;
          n = mf_faction_bonus_count (MFactions g faction_id);
          g = (if f_base_count (Factions g faction_id) = 1 then first_base base_id g else g);
          g = add_fac_if (is_ocean g (base_x base) (base_y base)) base_id FAC_PRESSURE_DOME g;
          g = upd_base base_id (\<lambda>b. b\<lparr>base_factions_pop_size_intel := (\<lambda>i.
                if 0 \<le> i \<and> i < MaxPlayerNum
                then (if i = faction_id \<or> bit (base_visibility b) (nat i) then base_pop_size b else 0)
                else base_factions_pop_size_intel b i)\<rparr>) g;
          g = fold (bonus_facility base_id RULE_FACILITY False) [0..n - 1] g;
          g = fold (bonus_facility base_id RULE_FREEFAC True) [0..n - 1] g
      in fold (\<lambda>i g. add_fac_if (has_tech g (cfac_free_tech (Facility g i)) faction_id) base_id i g) [1..Fac_All_ID_Last] g)"

text \<open>
  The first item of the queue: \<open>proto\<close> is the garrison unit that \<open>find_proto\<close> picks. The player's saved queue
  replaces it.
\<close>

definition base_first :: "int \<Rightarrow> int \<Rightarrow> game \<Rightarrow> game" where
  "base_first proto base_id g =
     (let b = Bases g base_id; f = Factions g (base_faction_id b); num = f_saved_queue_size f 0;
          b = b\<lparr>base_queue_items := (base_queue_items b)(0 := proto)\<rparr>
      in upd_base base_id (\<lambda>_. if BASE_plr_owner g b \<and> 0 < num \<and> num < 10
           then b\<lparr>base_queue_items := (\<lambda>i. if 0 \<le> i \<and> i < num then s16 (f_saved_queue_items f 0 i) else base_queue_items b i),
                  base_queue_size := num - 1\<rparr>
           else b) g)"

text \<open>The record of a new base, from all zeroes (\<open>blank_base\<close>).\<close>

definition new_base :: "game \<Rightarrow> int \<Rightarrow> int \<Rightarrow> int \<Rightarrow> tile \<Rightarrow> string \<Rightarrow> base" where
  "new_base g faction_id x y sq name = blank_base\<lparr>base_x := x, base_y := y, base_faction_id := faction_id,
     base_faction_id_former := faction_id,
     base_pop_size := (if has_project g FAC_PLANETARY_TRANSIT_SYSTEM faction_id then PlanetaryTransitPopSize else 1),
     base_visibility := push_bit (nat faction_id) 1 OR sq_visibility sq, base_name := name,
     base_governor_flags := f_base_governor_adv (Factions g faction_id),
     base_autoforward_land_base_id := - 1, base_autoforward_sea_base_id := - 1, base_autoforward_air_base_id := - 1\<rparr>"

definition first_minerals :: "int \<Rightarrow> int \<Rightarrow> game \<Rightarrow> game" where
  "first_minerals base_id faction_id g =
     (let plr = Factions g faction_id
      in if CurrentTurn g \<noteq> 0
         then upd_base base_id (\<lambda>b. b\<lparr>base_minerals_accumulated :=
                (if f_SE_support plr < - 1 then 0 else rule_retool_exemption (Rules g))\<rparr>) g
         else (let unit_id = (if has_tech g (unit_preq_tech (Units g BSC_FORMERS)) faction_id then BSC_FORMERS
                              else if f_diff_level plr > 1 then BSC_SCOUT_PATROL else BSC_COLONY_POD)
               in upd_base base_id (\<lambda>b. b\<lparr>base_queue_items := (base_queue_items b)(0 := unit_id),
                    base_minerals_accumulated :=
                      (unit_cost (Units g unit_id) * mod_cost_factor g faction_id RSC_MINERAL (- 1)) sdiv 2\<rparr>) g))"

text \<open>
  \<open>mod_base_init\<close>. The name of the base (\<open>mod_name_base\<close>), its first garrison (\<open>find_proto\<close>), the engine's
  \<open>reset_territory\<close> and the final \<open>base_compute\<close> are arguments.
\<close>

definition mod_base_init :: "(game \<Rightarrow> int \<Rightarrow> bool \<Rightarrow> string) \<Rightarrow> (game \<Rightarrow> int \<Rightarrow> int) \<Rightarrow> (game \<Rightarrow> game) \<Rightarrow> (game \<Rightarrow> game option)
    \<Rightarrow> int \<Rightarrow> int \<Rightarrow> int \<Rightarrow> game \<times> bridge \<Rightarrow> ((game \<times> bridge) \<times> int) option" where
  "mod_base_init new_name proto reset_territory compute faction_id x y = (\<lambda>(g, br).
     if BaseCount g \<ge> MaxBaseNum \<or> faction_id < 0 \<or> faction_id \<ge> MaxPlayerNum then Some ((g, br), - 1)
     else case sq_at g x y of None \<Rightarrow> Some ((g, br), - 1)
       | Some sq0 \<Rightarrow> if MAP_is_base sq0 then Some ((g, br), - 1)
         else (let g = synch_bit (owner_set (bit_set g x y BIT_BASE_IN_TILE True) x y faction_id) x y faction_id;
                   base_id = BaseCount g; region = uint (sq_region sq0);
                   g = upd_faction faction_id (\<lambda>f. f\<lparr>f_base_count := f_base_count f + 1, f_region_total_bases :=
                         (f_region_total_bases f)(region := (f_region_total_bases f region + 1) mod 256)\<rparr>) (g\<lparr>BaseCount := base_id + 1\<rparr>);
                   name = new_name g faction_id (is_ocean g x y);
                   g = upd_base base_id (\<lambda>_. case sq_at g x y of None \<Rightarrow> blank_base | Some sq \<Rightarrow> new_base g faction_id x y sq name) g;
                   g = first_minerals base_id faction_id (base_first (proto g base_id) base_id g);
                   g = upd_base base_id (\<lambda>b. b\<lparr>base_worked_tiles := 0, base_specialist_total := 0, base_specialist_adjust := 0,
                         base_unk_x := - 1, base_unk_y := - 1\<rparr>) g;
                   g = initialize_founded_base_facilities base_id g;
                   g = upd_base base_id (\<lambda>b. b\<lparr>base_production_id_last := base_queue_items b 0,
                         base_minerals_accumulated_2 := base_minerals_accumulated b, base_mineral_surplus_final := 0\<rparr>) g;
                   g = set_base base_id (reset_territory (base_mark base_id g))
               in map_option (\<lambda>g. let g = g\<lparr>GameDrawState := GameDrawState g OR 2\<rparr>
                    in ((g, agent_observe_base_founded g base_id br), base_id)) (compute g)))"

subsection \<open>Losing\<close>

text \<open>The loss of the headquarters foils a corner of the energy market.\<close>

definition foil_corner :: "int \<Rightarrow> int \<Rightarrow> game \<Rightarrow> game" where
  "foil_corner base_id faction_id g =
     (let plr = Factions g faction_id
      in if has_fac_built g FAC_HEADQUARTERS base_id \<and> f_corner_market_turn plr > CurrentTurn g \<and> f_corner_market_cost plr \<noteq> 0
         then upd_faction faction_id (\<lambda>f. f\<lparr>f_corner_market_turn := 0, f_corner_market_cost := 0\<rparr>) g else g)"

text \<open>While the nearest other base is looked up the base that falls is hidden from the search.\<close>

definition rehome_unit :: "int \<Rightarrow> int \<Rightarrow> game \<times> bridge \<Rightarrow> (game \<times> bridge) option" where
  "rehome_unit base_id i = (\<lambda>(g, br).
     let base = Bases g base_id; faction_id = base_faction_id base; v = Vehs g i
     in if veh_home_base_id v \<noteq> base_id then Some (g, br)
        else if veh_faction_id v = faction_id
        then (let (dist, near) = base_find_2 (upd_base base_id (\<lambda>b. b\<lparr>base_faction_id := - 1\<rparr>) g) (base_x base) (base_y base) faction_id;
                  g = g\<lparr>BaseFindDist := dist\<rparr>
              in if near < 0 then kill i (g, br) else Some (upd_veh i (\<lambda>v. v\<lparr>veh_home_base_id := s16 near\<rparr>) g, br))
        else Some (upd_veh i (\<lambda>v. v\<lparr>veh_home_base_id := - 1\<rparr>) g, br))"

text \<open>A loop over the units from the last row down; its body may fail to return.\<close>

definition units_down :: "(int \<Rightarrow> game \<times> bridge \<Rightarrow> (game \<times> bridge) option) \<Rightarrow> game \<times> bridge \<Rightarrow> (game \<times> bridge) option" where
  "units_down step gb = fold (\<lambda>i r. Option.bind r (step i)) (rev [0..VehCount (fst gb) - 1]) (Some gb)"

definition shift_base_refs :: "int \<Rightarrow> base \<Rightarrow> base" where
  "shift_base_refs base_id b = b\<lparr>
     base_autoforward_land_base_id := shift_ref base_id (base_autoforward_land_base_id b),
     base_autoforward_sea_base_id := shift_ref base_id (base_autoforward_sea_base_id b),
     base_autoforward_air_base_id := shift_ref base_id (base_autoforward_air_base_id b)\<rparr>"

text \<open>The row is taken out of the table and every reference to a later row is renumbered.\<close>

definition compact_bases :: "int \<Rightarrow> game \<Rightarrow> game" where
  "compact_bases base_id g =
     (let n = BaseCount g - 1;
          g = (if base_id < n then g\<lparr>Bases := (\<lambda>i. if base_id \<le> i \<and> i < n then Bases g (i + 1) else Bases g i)\<rparr> else g);
          g = g\<lparr>BaseCount := n, ComputeBaseID := (if base_id = ComputeBaseID g then - 1 else ComputeBaseID g)\<rparr>
      in g\<lparr>Vehs := (\<lambda>i. if 0 \<le> i \<and> i < VehCount g
               then (Vehs g i)\<lparr>veh_home_base_id := shift_row base_id (veh_home_base_id (Vehs g i))\<rparr> else Vehs g i),
           Bases := (\<lambda>i. if 0 \<le> i \<and> i < n then shift_base_refs base_id (Bases g i) else Bases g i)\<rparr>)"

definition shift_base_users :: "int \<Rightarrow> game \<Rightarrow> game" where
  "shift_base_users base_id g = g\<lparr>
     SecretProjects := (\<lambda>i. if 0 \<le> i \<and> i \<le> SP_ID_Last - SP_ID_First
       then (if SecretProjects g i = base_id
             then (if conf_rebuild_secret_projects (conf g) \<noteq> 0 then SP_Unbuilt else SP_Destroyed)
             else shift_row base_id (SecretProjects g i))
       else SecretProjects g i),
     Factions := (\<lambda>f. if 1 \<le> f \<and> f < MaxPlayerNum
       then (Factions g f)\<lparr>f_base_id_attack_target := shift_ref base_id (f_base_id_attack_target (Factions g f))\<rparr>
       else Factions g f)\<rparr>"

definition unmark_square :: "int \<Rightarrow> int \<Rightarrow> int \<Rightarrow> nat \<Rightarrow> game \<Rightarrow> game" where
  "unmark_square faction_id x y i g =
     (let tx = wrap g (x + TableOffsetX ! i); ty = y + TableOffsetY ! i
      in if on_map g tx ty
         then (let g = site_set g tx ty 0
               in if i < 21
                  then (let g = bit_set g tx ty BIT_BASE_RADIUS False
                        in if using_at g tx ty = Some faction_id then using_put tx ty 0 g else g)
                  else g)
         else g)"

definition at_square :: "game \<Rightarrow> int \<Rightarrow> int \<Rightarrow> int \<Rightarrow> bool" where
  "at_square g x y i \<longleftrightarrow> map_range g x y (veh_x (Vehs g i)) (veh_y (Vehs g i)) = 0"

definition strand_sea_unit :: "int \<Rightarrow> int \<Rightarrow> int \<Rightarrow> game \<times> bridge \<Rightarrow> (game \<times> bridge) option" where
  "strand_sea_unit x y i = (\<lambda>(g, br).
     if VEH_triad g (Vehs g i) = TRIAD_SEA \<and> at_square g x y i then kill i (g, br) else Some (g, br))"

definition board_survivors :: "int \<Rightarrow> int \<Rightarrow> int \<Rightarrow> game \<times> bridge \<Rightarrow> (game \<times> bridge) option" where
  "board_survivors x y i = (\<lambda>(g, br).
     if VEH_plan g (Vehs g i) = PLAN_NAVAL_TRANSPORT \<and> at_square g x y i
     then map_option (\<lambda>(g, _). (g, br)) (stack_veh i 0 g) else Some (g, br))"

definition drown_land_unit :: "int \<Rightarrow> int \<Rightarrow> int \<Rightarrow> game \<times> bridge \<Rightarrow> (game \<times> bridge) option" where
  "drown_land_unit x y i = (\<lambda>(g, br).
     let v = Vehs g i
     in if VEH_triad g v = TRIAD_LAND \<and> \<not> VEH_in_transit v \<and> at_square g x y i then kill i (g, br) else Some (g, br))"

definition clear_square_units :: "int \<Rightarrow> int \<Rightarrow> game \<times> bridge \<Rightarrow> (game \<times> bridge) option" where
  "clear_square_units x y gb =
     (if \<not> is_ocean (fst gb) x y then units_down (strand_sea_unit x y) gb
      else Option.bind (fold (\<lambda>i r. Option.bind r (board_survivors x y i)) [0..VehCount (fst gb) - 1] (Some gb))
             (units_down (drown_land_unit x y)))"

text \<open>The base that takes over the headquarters; \<open>reset\<close> is the AI's choice of a new production.\<close>

definition relocate_score :: "game \<Rightarrow> int \<Rightarrow> int \<Rightarrow> int" where
  "relocate_score g faction_id i =
     (let b = Bases g i; points = remdups (map (\<lambda>j. (base_x (Bases g j), base_y (Bases g j))) (own_bases g faction_id))
      in 64 * base_pop_size b - 32 * base_assimilation_turns_left b - avg_range g points (base_x b) (base_y b))"

definition relocate_target :: "game \<Rightarrow> int \<Rightarrow> int" where
  "relocate_target g faction_id =
     fst (fold (\<lambda>i (best, top). let s = relocate_score g faction_id i in if s > top then (i, s) else (best, top))
       (own_bases g faction_id) (- 1, - 2147483648))"

definition find_relocate_base :: "(int \<Rightarrow> game \<Rightarrow> game) \<Rightarrow> int \<Rightarrow> game \<Rightarrow> game" where
  "find_relocate_base reset faction_id g =
     (let best_id = relocate_target g faction_id
      in if conf_auto_relocate_hq (conf g) \<noteq> 0 \<and> CurrentTurn g > 0 \<and> find_hq g faction_id < 0 \<and> best_id \<ge> 0
         then (let g = add_fac best_id FAC_HEADQUARTERS g in if is_human g faction_id then g else reset best_id g)
         else g)"

text \<open>What happens to the base before its units are rehomed, and its removal from the table and the map.\<close>

definition strike_base :: "int \<Rightarrow> game \<Rightarrow> game" where
  "strike_base base_id g =
     (let base = Bases g base_id; faction_id = base_faction_id base; region = region_at g (base_x base) (base_y base);
          g = foil_corner base_id faction_id g;
          g = upd_base base_id (\<lambda>b. b\<lparr>base_pop_size := max 0 (base_pop_size b)\<rparr>) g
      in upd_faction faction_id (\<lambda>f. f\<lparr>f_base_count := f_base_count f - 1, f_region_total_bases :=
           (f_region_total_bases f)(region := (f_region_total_bases f region - 1) mod 256)\<rparr>) g)"

definition drop_base_row :: "int \<Rightarrow> int \<Rightarrow> int \<Rightarrow> int \<Rightarrow> game \<Rightarrow> game" where
  "drop_base_row base_id faction_id x y g =
     fold (unmark_square faction_id x y) [0..<49]
       (shift_base_users base_id (compact_bases base_id (bit_set g x y BIT_BASE_IN_TILE False)))"

definition mod_base_kill :: "(game \<Rightarrow> game) \<Rightarrow> (int \<Rightarrow> game \<Rightarrow> game) \<Rightarrow> int \<Rightarrow> game \<times> bridge \<Rightarrow> (game \<times> bridge) option" where
  "mod_base_kill reset_territory reset base_id = (\<lambda>(g, br).
     if base_id < 0 \<or> base_id \<ge> BaseCount g then Some (g, br)
     else (let br = agent_observe_base_destroyed g base_id br;
               base = Bases g base_id; x = base_x base; y = base_y base; faction_id = base_faction_id base
           in do {
             (g, br) \<leftarrow> units_down (rehome_unit base_id) (strike_base base_id g, br);
             (g, br) \<leftarrow> clear_square_units x y (drop_base_row base_id faction_id x y g, br);
             let g = find_relocate_base reset faction_id (reset_territory (fold base_mark [0..BaseCount g - 1] g));
             Some (g\<lparr>GameDrawState := GameDrawState g OR 2\<rparr>, br)
           }))"

end
