(* ===== verification/Base_Refs.thy ===== *)
theory Base_Refs
  imports Base_Build
begin

text \<open>
  The loss of a base removes its row from the table. Every reference to a base is still right afterwards: homes of units,
  bases that others forward to, targets of attacks, owners of secret projects.
\<close>

subsection \<open>References to bases stay right when a base is lost\<close>

text \<open>
  What of the state names bases: the table of bases with the bases each one forwards to, the owners of the secret projects,
  the targets of attacks (\<open>ledger\<close>) and the homes of units. \<open>bearings\<close> is what the moves of units leave alone.
\<close>

definition base_tag :: "base \<Rightarrow> (int \<times> int \<times> int \<times> string) \<times> int \<times> int \<times> int" where
  "base_tag b = ((base_x b, base_y b, base_faction_id b, base_name b),
     base_autoforward_land_base_id b, base_autoforward_sea_base_id b, base_autoforward_air_base_id b)"

definition ledger :: "game \<Rightarrow> int \<times> (int \<Rightarrow> (int \<times> int \<times> int \<times> string) \<times> int \<times> int \<times> int) \<times> (int \<Rightarrow> int) \<times> (int \<Rightarrow> int)" where
  "ledger g = (BaseCount g, (\<lambda>i. base_tag (Bases g i)), SecretProjects g, (\<lambda>f. f_base_id_attack_target (Factions g f)))"

definition homes :: "game \<Rightarrow> int \<times> (int \<Rightarrow> int)" where
  "homes g = (VehCount g, (\<lambda>i. veh_home_base_id (Vehs g i)))"

definition bearings :: "game \<Rightarrow> (int \<times> (int \<Rightarrow> base) \<times> (int \<Rightarrow> int) \<times> (int \<Rightarrow> int)) \<times> (int \<times> (int \<Rightarrow> int)) \<times> int" where
  "bearings g = ((BaseCount g, Bases g, SecretProjects g, (\<lambda>f. f_base_id_attack_target (Factions g f))), homes g, CurrentBaseID g)"

definition homes_in :: "int \<Rightarrow> game \<Rightarrow> bool" where
  "homes_in n g \<longleftrightarrow> (\<forall>i. 0 \<le> i \<and> i < VehCount g \<longrightarrow> - 1 \<le> veh_home_base_id (Vehs g i) \<and> veh_home_base_id (Vehs g i) < n)"

text \<open>\<open>tracks g h\<close>: the table of bases is the same and every home in range stays in range.\<close>

definition tracks :: "game \<Rightarrow> game \<Rightarrow> bool" where
  "tracks g h \<longleftrightarrow> ledger h = ledger g \<and> (\<forall>n. homes_in n g \<longrightarrow> homes_in n h)"

lemma tracks_refl [simp]: "tracks g g" by (simp add: tracks_def)

lemma tracks_trans: "tracks g h \<Longrightarrow> tracks h k \<Longrightarrow> tracks g k" by (simp add: tracks_def)

lemma bearings_tracks: "bearings h = bearings g \<Longrightarrow> tracks g h"
  by (auto simp: bearings_def homes_def tracks_def homes_in_def ledger_def fun_eq_iff)

lemma bearings_upd_veh:
  "veh_home_base_id (h (Vehs g i)) = veh_home_base_id (Vehs g i) \<Longrightarrow> bearings (upd_veh i h g) = bearings g"
  by (auto simp: bearings_def homes_def upd_veh_def fun_eq_iff)

lemma bearings_upd_faction:
  "f_base_id_attack_target (h (Factions g f)) = f_base_id_attack_target (Factions g f) \<Longrightarrow> bearings (upd_faction f h g) = bearings g"
  by (auto simp: bearings_def homes_def upd_faction_def fun_eq_iff)

lemma bearings_simps [simp]:
  "bearings (upd_sq g x y m) = bearings g" "bearings (bit_set g x y a b) = bearings g" "bearings (synch_bit g x y f) = bearings g"
  "bearings (g\<lparr>BaseFindDist := d\<rparr>) = bearings g" "bearings (g\<lparr>ComputeBaseID := d\<rparr>) = bearings g"
  "bearings (g\<lparr>VehBitError := d\<rparr>) = bearings g" "bearings (g\<lparr>GameDrawState := w\<rparr>) = bearings g"
  "bearings (g\<lparr>VehDropLiftVehID := d\<rparr>) = bearings g" "bearings (g\<lparr>VehLiftX := d\<rparr>) = bearings g" "bearings (g\<lparr>VehLiftY := d\<rparr>) = bearings g"
  "bearings (owner_set g x y f) = bearings g" "bearings (site_set g x y s) = bearings g" "bearings (using_put x y f g) = bearings g"
  by (auto simp: bearings_def homes_def upd_sq_def bit_set_def synch_bit_def owner_set_def site_set_def using_put_def
      using_set_def split: option.splits)

lemma bearings_sites [simp]:
  "bearings (set_goal f i h g) = bearings g" "bearings (set_site f i h g) = bearings g"
  by (simp_all add: set_goal_def set_site_def bearings_upd_faction)

lemma bearings_del [simp]: "bearings (del_site f t x y d g) = bearings g"
proof -
  have "bearings (del_site_slot f t x y d i g') = bearings g'" for i g'
    by (simp add: del_site_slot_def Let_def fold_keeps_all [where h = bearings])
  then show ?thesis unfolding del_site_def by (rule fold_keeps_all)
qed

lemma bearings_rebuild [simp]: "bearings (rebuild_vehicle_bits g) = bearings g"
  unfolding rebuild_vehicle_bits_def
  by (rule fold_keeps_all, auto simp: Let_def split: option.splits prod.splits)

lemma bearings_lift [simp]: "bearings (veh_lift i g) = bearings g"
  by (simp add: veh_lift_def Let_def bearings_upd_veh)

lemma bearings_place [simp]: "bearings (place_on d i x y g) = bearings g"
  by (simp add: place_on_def Let_def bearings_upd_veh)

lemma bearings_veh_at: "veh_at g x y = Some (h, i) \<Longrightarrow> bearings h = bearings g"
  by (auto simp: veh_at_def veh_bits_broken_def split: if_splits option.splits)

lemma bearings_put: "veh_put i x y g = Some h \<Longrightarrow> bearings h = bearings g"
  by (auto simp: veh_put_def veh_drop_def dest: bearings_veh_at)

lemma bearings_set_aside:
  assumes "set_aside m i p g = Some (h, q)" shows "bearings h = bearings g"
proof -
  have "\<forall>h q. r = (h, q) \<longrightarrow> bearings h = bearings g" if "set_aside m i p g = Some r" for r
    using that
    by (rule set_aside.raw_induct [where P = "\<lambda>m i p g r. \<forall>h q. r = (h, q) \<longrightarrow> bearings h = bearings g", rotated])
      (auto simp: Option.bind_eq_Some_conv Let_def dest!: bearings_put split: if_splits)
  with assms show ?thesis by blast
qed

lemma bearings_stack_put:
  assumes "stack_put i x y g = Some h" shows "bearings h = bearings g"
proof -
  have "bearings h = bearings g" if "stack_put_loop i x y g = Some h" for i g h
    using that
    by (rule stack_put_loop.raw_induct [where P = "\<lambda>i x y g h. bearings h = bearings g" and xa = "(((i, x), y), g)",
          unfolded prod.case, rotated])
      (auto simp: Option.bind_eq_Some_conv Let_def dest!: bearings_put split: if_splits)
  with assms show ?thesis by (auto simp: stack_put_def Option.bind_eq_Some_conv split: if_splits)
qed

lemma bearings_sort: "stack_sort i g = Some h \<Longrightarrow> bearings h = bearings g"
  by (auto simp: stack_sort_def Option.bind_eq_Some_conv Let_def dest!: bearings_set_aside bearings_stack_put split: if_splits)

lemma bearings_promote: "veh_promote i g = Some h \<Longrightarrow> bearings h = bearings g"
  by (auto simp: veh_promote_def Option.bind_eq_Some_conv dest!: bearings_put split: if_splits)

lemma fold_bind_keeps:
  assumes step: "\<And>i g h. step i g = Some h \<Longrightarrow> R g h" and refl: "\<And>g. R g g" and trans: "\<And>g h k. R g h \<Longrightarrow> R h k \<Longrightarrow> R g k"
    and run: "fold (\<lambda>i r. Option.bind r (step i)) xs (Some g) = Some h"
  shows "R g h"
  using run
proof (induction xs arbitrary: g)
  case Nil then show ?case using refl by simp
next
  case (Cons i xs)
  show ?case
  proof (cases "step i g")
    case None
    have "fold (\<lambda>i r. Option.bind r (step i)) xs None = None" by (induction xs) auto
    with None Cons.prems show ?thesis by simp
  next
    case (Some k)
    with Cons.prems Cons.IH [of k] step show ?thesis by (auto intro: trans)
  qed
qed

lemma bearings_fix:
  assumes "stack_fix i g = Some (h, j)" shows "bearings h = bearings g"
proof -
  let ?step = "\<lambda>i' g. if veh_x (Vehs g i) = veh_x (Vehs g i') \<and> veh_y (Vehs g i) = veh_y (Vehs g i')
            then Option.bind (veh_promote i' g) (stack_sort i) else Some g"
  have step: "bearings h' = bearings g'" if "?step j g' = Some h'" for j g' h'
    using that by (auto simp: Option.bind_eq_Some_conv dest!: bearings_promote bearings_sort split: if_splits)
  have "bearings h' = bearings g" if "fold (\<lambda>i r. Option.bind r (?step i)) xs (Some g) = Some h'" for xs h'
    by (rule fold_bind_keeps [where R = "\<lambda>g h. bearings h = bearings g", OF step _ _ that]) auto
  then show ?thesis using assms unfolding stack_fix_def by (elim someE) auto
qed

lemma bearings_load: "load_unit l i c (g, u) = Some (h, w) \<Longrightarrow> bearings h = bearings g"
  by (auto simp: load_unit_def Let_def sleep_def bearings_upd_veh Option.bind_eq_Some_conv dest!: bearings_put split: if_splits prod.splits)

lemma bearings_board_loop:
  assumes "board_loop f l i sq c s = Some t" shows "bearings (fst t) = bearings (fst s)"
proof -
  have step: "bearings (fst t) = bearings (fst s)" if "board_step f l i sq c s = Some t" for f l i sq c s t
    using that bearings_load [of l i c "fst s" "snd s" "fst t" "snd t"]
    by (auto simp: board_step_def Let_def split: if_splits)
  show ?thesis
    using assms
    by (rule board_loop.raw_induct [where P = "\<lambda>f l i sq c s t. bearings (fst t) = bearings (fst s)", rotated])
      (auto simp: Option.bind_eq_Some_conv Let_def dest!: step split: if_splits)
qed

lemma bearings_unmark:
  assumes "unmark_loop i g = Some h" shows "bearings h = bearings g"
  using assms
  by (rule unmark_loop.raw_induct [where P = "\<lambda>i g h. bearings h = bearings g", rotated])
    (auto simp: Let_def bearings_upd_veh split: if_splits)

lemma bearings_board: "stack_board i f g = Some (h, k) \<Longrightarrow> bearings h = bearings g"
  by (auto simp: stack_board_def Let_def Option.bind_eq_Some_conv dest!: bearings_board_loop bearings_put split: if_splits)

lemma bearings_stack_veh:
  assumes "stack_veh i f g = Some (h, k)" shows "bearings h = bearings g"
  using assms unfolding stack_veh_def Let_def
  by (elim someE; auto simp: Option.bind_eq_Some_conv
      dest!: bearings_fix bearings_put bearings_sort bearings_board bearings_unmark split: if_splits)

lemma ledger_kill [simp]: "ledger (fst (veh_kill i (g, b))) = ledger g"
proof -
  have l: "ledger (veh_lift i g') = ledger g'" for g' using bearings_lift [of i g'] by (simp add: bearings_def ledger_def)
  have "ledger (kill_counters v g) = ledger g" for v
    by (auto simp: kill_counters_def Let_def ledger_def upd_faction_def fun_eq_iff)
  moreover have "ledger (compact_vehs i g) = ledger g" "ledger (kill_refs i g) = ledger g" for g
    by (simp_all add: compact_vehs_def kill_refs_def Let_def ledger_def)
  ultimately show ?thesis by (simp add: veh_kill_def Let_def l)
qed

lemma homes_kill: "homes_in n g \<Longrightarrow> homes_in n (fst (veh_kill i (g, b)))"
proof (cases "i < 0")
  case False
  assume ok: "homes_in n g"
  have b: "bearings (veh_lift i (kill_counters v g)) = bearings g" for v
    by (auto simp: kill_counters_def Let_def bearings_upd_faction)
  have k: "homes_in n (veh_lift i (kill_counters v g))" for v using ok bearings_tracks [OF b, of v] by (simp add: tracks_def)
  have c: "homes_in n (compact_vehs i g')" if "homes_in n g'" for g'
  proof -
    have r: "veh_home_base_id (renumber_veh i v) = veh_home_base_id v" for v by (simp add: renumber_veh_def Let_def)
    show ?thesis using that False by (auto simp: compact_vehs_def Let_def homes_in_def r)
  qed
  have "homes_in n (kill_refs i g') = homes_in n g'" for g' by (simp add: kill_refs_def Let_def homes_in_def)
  then show ?thesis using c [OF k] False by (simp add: veh_kill_def Let_def)
qed (simp add: veh_kill_def)

lemma tracks_veh_kill: "tracks g (fst (veh_kill i (g, b)))"
  using homes_kill by (simp add: tracks_def)

lemma tracks_stack_kill:
  assumes "stack_kill i gb = Some hb" shows "tracks (fst gb) (fst hb)"
proof -
  have "tracks (fst gb) (fst hb)" if "stack_kill_loop i gb = Some hb" for i gb hb
    using that
  proof (rule stack_kill_loop.raw_induct [where P = "\<lambda>i gb hb. tracks (fst gb) (fst hb)", rotated])
    fix rec i and gb hb :: "game \<times> bridge"
    assume ih: "\<And>i gb hb. rec i gb = Some hb \<Longrightarrow> tracks (fst gb) (fst hb)"
      and run: "(if i < 0 then Some gb
          else let next_id = veh_next_veh_id_stack (Vehs (fst gb) i); gb = veh_kill i gb
            in rec (if next_id > i then next_id - 1 else next_id) gb) = Some hb"
    show "tracks (fst gb) (fst hb)"
    proof (cases "i < 0")
      case False
      with run have "tracks (fst (veh_kill i gb)) (fst hb)" by (auto simp: Let_def intro: ih)
      then show ?thesis using tracks_veh_kill [of "fst gb" i "snd gb"] by (auto intro: tracks_trans)
    qed (use run in simp)
  qed
  note loop = this
  show ?thesis using assms loop by (auto simp: stack_kill_def Option.bind_eq_Some_conv split: if_splits) (metis fst_conv surj_pair)
qed

lemma tracks_kill:
  assumes "kill i gb = Some hb" shows "tracks (fst gb) (fst hb)"
proof -
  obtain g b where gb: "gb = (g, b)" by (cases gb)
  have sink: "tracks g (fst hb)" if "stack_veh i 2 g = Some (h, k)" "stack_kill i (h, b) = Some hb" for h k
    using bearings_tracks [OF bearings_stack_veh [OF that(1)]] tracks_stack_kill [OF that(2)] by (auto intro: tracks_trans)
  show ?thesis
    using assms tracks_stack_kill [of i gb hb] tracks_veh_kill [of g i b] unfolding kill_def gb
    by (auto simp: Let_def Option.bind_eq_Some_conv split: if_splits dest: sink)
qed

definition base_refs_ok :: "game \<Rightarrow> bool" where
  "base_refs_ok g \<longleftrightarrow> (let n = BaseCount g in homes_in n g
     \<and> (\<forall>p. 0 \<le> p \<and> p \<le> SP_ID_Last - SP_ID_First \<longrightarrow> SecretProjects g p < n)
     \<and> (\<forall>f. 1 \<le> f \<and> f < MaxPlayerNum \<longrightarrow> f_base_id_attack_target (Factions g f) < n)
     \<and> (\<forall>i. 0 \<le> i \<and> i < n \<longrightarrow> base_autoforward_land_base_id (Bases g i) < n
          \<and> base_autoforward_sea_base_id (Bases g i) < n \<and> base_autoforward_air_base_id (Bases g i) < n))"

lemma refs_tracks:
  assumes ok: "base_refs_ok g" and t: "tracks g h"
  shows "base_refs_ok h"
proof -
  have l: "ledger h = ledger g" and hm: "homes_in (BaseCount g) h"
    using t ok by (auto simp: tracks_def base_refs_ok_def Let_def)
  have l': "BaseCount h = BaseCount g" "SecretProjects h = SecretProjects g"
    "f_base_id_attack_target (Factions h f) = f_base_id_attack_target (Factions g f)" "base_tag (Bases h i) = base_tag (Bases g i)" for f i
    using l by (simp_all add: ledger_def fun_eq_iff)
  then show ?thesis using ok hm by (simp add: base_refs_ok_def Let_def base_tag_def)
qed

text \<open>The base left over for the units of the lost one.\<close>

definition other_base :: "game \<Rightarrow> int \<Rightarrow> int \<Rightarrow> bool" where
  "other_base g base_id j \<longleftrightarrow> (let b = Bases g base_id; c = Bases g j
     in 0 \<le> j \<and> j < BaseCount g \<and> j \<noteq> base_id \<and> base_faction_id c = base_faction_id b
        \<and> vector_dist g (base_x b) (base_y b) (base_x c) (base_y c) \<le> 9999)"

lemma vector_dist_cong:
  "MapToggleFlat h = MapToggleFlat g \<Longrightarrow> MapHalfX h = MapHalfX g \<Longrightarrow> MapAreaX h = MapAreaX g \<Longrightarrow> vector_dist h = vector_dist g"
  by (simp add: fun_eq_iff vector_dist_def x_dist_def map_is_flat_def Let_def)

lemma base_find_2_some:
  assumes j: "other_base g base_id j" and f: "base_faction_id (Bases g base_id) \<noteq> - 1"
    and r: "base_find_2 (upd_base base_id (\<lambda>b. b\<lparr>base_faction_id := - 1\<rparr>) g) (base_x (Bases g base_id)) (base_y (Bases g base_id))
      (base_faction_id (Bases g base_id)) = (d, near)"
  shows "0 \<le> near \<and> near < BaseCount g \<and> near \<noteq> base_id"
proof -
  let ?h = "upd_base base_id (\<lambda>b. b\<lparr>base_faction_id := - 1\<rparr>) g" and ?b = "Bases g base_id"
  let ?dist = "\<lambda>i. vector_dist ?h (base_x ?b) (base_y ?b) (base_x (Bases ?h i)) (base_y (Bases ?h i))"
  let ?step = "\<lambda>i (base_dist, base_id). if base_faction_id (Bases ?h i) = base_faction_id ?b
     then (if ?dist i \<le> base_dist then (?dist i, i) else (base_dist, base_id)) else (base_dist, base_id)"
  have n: "BaseCount ?h = BaseCount g" by (simp add: upd_base_def)
  have run: "fold ?step [0..BaseCount g - 1] (9999, - 1) = (d, near)"
    using r unfolding base_find_2_def Let_def n by simp
  have vd: "vector_dist ?h = vector_dist g" by (rule vector_dist_cong) (simp_all add: upd_base_def)
  have inv: "snd s = - 1 \<and> fst s = 9999 \<and> (\<forall>i \<in> set xs. \<not> other_base g base_id i)
      \<or> 0 \<le> snd s \<and> snd s < BaseCount g \<and> snd s \<noteq> base_id"
    if "s = fold ?step xs (9999, - 1)" "set xs \<subseteq> {0..<BaseCount g}" for s xs
    using that
  proof (induction xs arbitrary: s rule: rev_induct)
    case (snoc i xs)
    define t where "t = fold ?step xs (9999, - 1)"
    have s: "s = ?step i t" using snoc.prems(1) by (simp add: t_def)
    have ih: "snd t = - 1 \<and> fst t = 9999 \<and> (\<forall>i \<in> set xs. \<not> other_base g base_id i) \<or> 0 \<le> snd t \<and> snd t < BaseCount g \<and> snd t \<noteq> base_id"
      using snoc.IH [OF t_def] snoc.prems(2) by simp
    have i: "0 \<le> i" "i < BaseCount g" using snoc.prems(2) by auto
    have other: "other_base g base_id i \<longleftrightarrow> base_faction_id (Bases ?h i) = base_faction_id ?b \<and> ?dist i \<le> 9999"
      unfolding vd using f i by (auto simp: other_base_def Let_def upd_base_def)
    show ?case using ih i other f
      by (cases t) (auto simp: s upd_base_def split: if_splits)
  qed simp
  have "j \<in> set [0..BaseCount g - 1]" using j by (simp add: other_base_def Let_def)
  moreover have sub: "set [0..BaseCount g - 1] \<subseteq> {0..<BaseCount g}" by auto
  ultimately show ?thesis using inv [OF run [symmetric] sub] j by (metis snd_conv)
qed

lemma rehome_loop:
  assumes j: "other_base g base_id j" and f: "base_faction_id (Bases g base_id) \<noteq> - 1" and n: "0 \<le> base_id" "BaseCount g \<le> MaxBaseNum"
  shows "\<exists>V' d'. fold (\<lambda>i r. Option.bind r (rehome_unit base_id i)) xs (Some (g\<lparr>Vehs := V, BaseFindDist := d\<rparr>, br))
        = Some (g\<lparr>Vehs := V', BaseFindDist := d'\<rparr>, br)
      \<and> (\<forall>i. let h = veh_home_base_id (V i); h' = veh_home_base_id (V' i)
           in if i \<in> set xs \<and> h = base_id then h' \<noteq> base_id \<and> - 1 \<le> h' \<and> h' < BaseCount g else h' = h)
      \<and> (\<forall>i. veh_x (V' i) = veh_x (V i) \<and> veh_y (V' i) = veh_y (V i))"
proof (induction xs arbitrary: V d)
  case Nil
  then show ?case by (intro exI [of _ V] exI [of _ d]) simp
next
  case (Cons i xs)
  let ?g = "g\<lparr>Vehs := V, BaseFindDist := d\<rparr>" and ?b = "Bases g base_id"
  obtain d1 near where r: "base_find_2 (upd_base base_id (\<lambda>b. b\<lparr>base_faction_id := - 1\<rparr>) ?g) (base_x ?b) (base_y ?b) (base_faction_id ?b) = (d1, near)"
    by fastforce
  have "vector_dist ?g = vector_dist g" by (rule vector_dist_cong) simp_all
  then have "other_base ?g base_id j" using j by (simp add: other_base_def Let_def)
  then have near: "0 \<le> near" "near < BaseCount g" "near \<noteq> base_id" using base_find_2_some [of ?g base_id j d1 near] f r by simp_all
  have b0: "0 \<le> BaseCount g" using near by simp
  have s: "s16 near = near" using near n by (simp add: s16_id)
  let ?hit = "veh_home_base_id (V i) = base_id"
  define V1 where "V1 = (if ?hit then V(i := (V i)\<lparr>veh_home_base_id := if veh_faction_id (V i) = base_faction_id ?b then near else - 1\<rparr>) else V)"
  define e where "e = (if ?hit \<and> veh_faction_id (V i) = base_faction_id ?b then d1 else d)"
  have step: "rehome_unit base_id i (?g, br) = Some (g\<lparr>Vehs := V1, BaseFindDist := e\<rparr>, br)"
    using r near s by (auto simp: rehome_unit_def Let_def V1_def e_def upd_veh_def)
  obtain V' d' where ih: "fold (\<lambda>i r. Option.bind r (rehome_unit base_id i)) xs (Some (g\<lparr>Vehs := V1, BaseFindDist := e\<rparr>, br))
        = Some (g\<lparr>Vehs := V', BaseFindDist := d'\<rparr>, br)"
      "\<And>k. let h = veh_home_base_id (V1 k); h' = veh_home_base_id (V' k)
           in if k \<in> set xs \<and> h = base_id then h' \<noteq> base_id \<and> - 1 \<le> h' \<and> h' < BaseCount g else h' = h"
      "\<And>i. veh_x (V' i) = veh_x (V1 i) \<and> veh_y (V' i) = veh_y (V1 i)"
    using Cons.IH [where V = V1 and d = e] by blast
  have pos: "veh_x (V' k) = veh_x (V k) \<and> veh_y (V' k) = veh_y (V k)" for k using ih(3) [of k] by (simp add: V1_def)
  have one: "let h = veh_home_base_id (V k); h' = veh_home_base_id (V' k)
      in if k \<in> set (i # xs) \<and> h = base_id then h' \<noteq> base_id \<and> - 1 \<le> h' \<and> h' < BaseCount g else h' = h" for k
    using ih(2) [of k] near j b0 n(1) by (cases "k = i") (auto simp: V1_def Let_def other_base_def split: if_splits)
  show ?case
    using ih(1) one pos by (intro exI [of _ V'] exI [of _ d']) (simp add: step)
qed


text \<open>The state after the row is gone and the references are renumbered.\<close>

lemma compact_refs:
  assumes ok: "base_refs_ok g" and id: "0 \<le> base_id" "base_id < BaseCount g"
    and left: "\<And>i. 0 \<le> i \<Longrightarrow> i < VehCount g \<Longrightarrow> veh_home_base_id (Vehs g i) \<noteq> base_id"
  shows "base_refs_ok (shift_base_users base_id (compact_bases base_id g))"
proof -
  have ref: "x < BaseCount g \<Longrightarrow> shift_ref base_id x < BaseCount g - 1" for x using id by (auto simp: shift_ref_def)
  have row: "x < BaseCount g \<Longrightarrow> x \<noteq> base_id \<Longrightarrow> shift_row base_id x < BaseCount g - 1" "- 1 \<le> x \<Longrightarrow> - 1 \<le> shift_row base_id x" for x
    using id by (auto simp: shift_row_def)
  let ?h = "shift_base_users base_id (compact_bases base_id g)"
  have n: "BaseCount ?h = BaseCount g - 1" "VehCount ?h = VehCount g" by (simp_all add: shift_base_users_def compact_bases_def Let_def)
  have "homes_in (BaseCount g - 1) ?h"
    using ok left row by (auto simp: base_refs_ok_def Let_def homes_in_def shift_base_users_def compact_bases_def)
  moreover have "SecretProjects ?h p < BaseCount g - 1" if "0 \<le> p" "p \<le> SP_ID_Last - SP_ID_First" for p
    using ok that row(1) id by (auto simp: base_refs_ok_def Let_def shift_base_users_def compact_bases_def)
  moreover have "f_base_id_attack_target (Factions ?h f) < BaseCount g - 1" if "1 \<le> f" "f < MaxPlayerNum" for f
    using ok that ref by (auto simp: base_refs_ok_def Let_def shift_base_users_def compact_bases_def)
  moreover have "base_autoforward_land_base_id (Bases ?h i) < BaseCount g - 1
      \<and> base_autoforward_sea_base_id (Bases ?h i) < BaseCount g - 1 \<and> base_autoforward_air_base_id (Bases ?h i) < BaseCount g - 1"
    if "0 \<le> i" "i < BaseCount g - 1" for i
    using ok that ref by (auto simp: base_refs_ok_def Let_def shift_base_users_def compact_bases_def shift_base_refs_def)
  ultimately show ?thesis unfolding base_refs_ok_def n Let_def by blast
qed

text \<open>What stays of a base under any renumbering.\<close>

definition base_identity :: "game \<Rightarrow> int \<Rightarrow> int \<times> int \<times> int \<times> string" where
  "base_identity g i = fst (base_tag (Bases g i))"

lemma compact_identity:
  assumes "0 \<le> i" "i < BaseCount g - 1"
  shows "base_identity (shift_base_users base_id (compact_bases base_id g)) i = base_identity g (if i < base_id then i else i + 1)"
  using assms by (auto simp: base_identity_def base_tag_def shift_base_users_def compact_bases_def Let_def shift_base_refs_def)

lemma bearings_mark [simp]: "bearings (base_mark i g) = bearings g"
proof -
  have sq: "bearings (mark_square i k g) = bearings g" for k g
    by (auto simp: mark_square_def Let_def split: prod.splits option.splits)
  have "bearings (fold (mark_square i) xs g) = bearings g" for xs by (rule fold_keeps_all) (rule sq)
  moreover have "bearings (fold (\<lambda>i. del_site i a x y 3) xs g) = bearings g" for a x y xs g by (rule fold_keeps_all) simp
  ultimately show ?thesis by (simp add: base_mark_def Let_def)
qed

lemma bearings_unmark_square [simp]: "bearings (unmark_square f x y i g) = bearings g"
  by (simp add: unmark_square_def Let_def)

lemma ledger_upd_base: "base_tag (h (Bases g i)) = base_tag (Bases g i) \<Longrightarrow> ledger (upd_base i h g) = ledger g"
  by (auto simp: ledger_def upd_base_def fun_eq_iff)

lemma homes_upd_base [simp]: "homes_in n (upd_base i h g) = homes_in n g"
  by (simp add: homes_in_def upd_base_def)

lemma tracks_relocate:
  assumes "\<And>i g. tracks g (reset i g)"
  shows "tracks g (find_relocate_base reset f g)"
proof -
  have "tracks g (add_fac i c g)" for i c
    by (auto simp: add_fac_def set_fac_def tracks_def base_tag_def intro!: ledger_upd_base)
  then show ?thesis by (auto simp: find_relocate_base_def Let_def intro: tracks_trans [OF _ assms])
qed

lemma tracks_units_down:
  assumes "units_down step gb = Some hb" "\<And>i gb hb. step i gb = Some hb \<Longrightarrow> tracks (fst gb) (fst hb)"
  shows "tracks (fst gb) (fst hb)"
  by (rule fold_bind_keeps [where R = "\<lambda>gb hb. tracks (fst gb) (fst hb)", OF _ _ _ assms(1) [unfolded units_down_def]])
    (auto dest: assms(2) intro: tracks_trans)

lemma tracks_clear:
  assumes "clear_square_units x y gb = Some hb" shows "tracks (fst gb) (fst hb)"
proof -
  have sea: "tracks (fst gb) (fst hb)" if "strand_sea_unit x y i gb = Some hb" for i gb hb
    using that by (auto simp: strand_sea_unit_def split: if_splits prod.splits dest: tracks_kill)
  have land: "tracks (fst gb) (fst hb)" if "drown_land_unit x y i gb = Some hb" for i gb hb
    using that by (auto simp: drown_land_unit_def Let_def split: if_splits prod.splits dest: tracks_kill)
  have board: "tracks (fst gb) (fst hb)" if "board_survivors x y i gb = Some hb" for i gb hb
    using that by (auto simp: board_survivors_def split: if_splits prod.splits dest!: bearings_stack_veh bearings_tracks)
  have boards: "tracks (fst gb) (fst hb)" if "fold (\<lambda>i r. Option.bind r (board_survivors x y i)) xs (Some gb) = Some hb" for xs hb
    by (rule fold_bind_keeps [where R = "\<lambda>gb hb. tracks (fst gb) (fst hb)", OF _ _ _ that]) (auto intro: board tracks_trans)
  show ?thesis
  proof (cases "is_ocean (fst gb) x y")
    case False
    then show ?thesis using assms tracks_units_down [OF _ sea] by (simp add: clear_square_units_def)
  next
    case True
    then obtain mid where mid: "fold (\<lambda>i r. Option.bind r (board_survivors x y i)) [0..VehCount (fst gb) - 1] (Some gb) = Some mid"
        "units_down (drown_land_unit x y) mid = Some hb"
      using assms by (auto simp: clear_square_units_def Option.bind_eq_Some_conv)
    from tracks_trans [OF boards [OF mid(1)] tracks_units_down [OF mid(2) land]] show ?thesis .
  qed
qed


text \<open>A loss on an empty square returns: what the loops over the units read of the state is \<open>spots\<close>.\<close>

definition spots :: "game \<Rightarrow> (int \<times> int \<times> u32) \<times> int \<times> (int \<Rightarrow> int \<times> int)" where
  "spots g = ((MapAreaX g, MapHalfX g, MapToggleFlat g), VehCount g, (\<lambda>i. (veh_x (Vehs g i), veh_y (Vehs g i))))"

lemma spots_simps [simp]:
  "spots (upd_sq g x y m) = spots g" "spots (bit_set g x y a b) = spots g" "spots (site_set g x y s) = spots g"
  "spots (using_put x y f g) = spots g" "spots (shift_base_users i g) = spots g" "spots (compact_bases i g) = spots g"
  by (auto simp: spots_def upd_sq_def bit_set_def site_set_def using_put_def using_set_def shift_base_users_def compact_bases_def Let_def
      split: option.splits)

lemma spots_unmark [simp]: "spots (unmark_square f x y i g) = spots g"
  by (simp add: unmark_square_def Let_def)

lemma spots_unmarks [simp]: "spots (fold (unmark_square f x y) xs g) = spots g"
  by (rule fold_keeps_all) simp

lemma spots_at: "spots h = spots g \<Longrightarrow> at_square h x y i = at_square g x y i"
  by (simp add: spots_def at_square_def map_range_def x_dist_def map_is_flat_def fun_eq_iff Let_def)

lemma fold_idle: "(\<And>i. i \<in> set xs \<Longrightarrow> step i s = Some s) \<Longrightarrow> fold (\<lambda>i r. Option.bind r (step i)) xs (Some s) = Some s"
  by (induction xs) auto

definition deserted :: "game \<Rightarrow> int \<Rightarrow> int \<Rightarrow> bool" where
  "deserted g x y \<longleftrightarrow> list_all (\<lambda>i. \<not> at_square g x y i) [0..VehCount g - 1]"

lemma clear_deserted:
  assumes "deserted g x y" shows "clear_square_units x y (g, br) = Some (g, br)"
proof -
  have no: "\<not> at_square g x y i" if "i \<in> set [0..VehCount g - 1]" for i using assms that by (simp add: deserted_def list_all_iff)
  have "units_down (strand_sea_unit x y) (g, br) = Some (g, br)" "units_down (drown_land_unit x y) (g, br) = Some (g, br)"
    unfolding units_down_def by (rule fold_idle; simp add: no strand_sea_unit_def drown_land_unit_def Let_def)+
  moreover have "fold (\<lambda>i r. Option.bind r (board_survivors x y i)) [0..VehCount g - 1] (Some (g, br)) = Some (g, br)"
    by (rule fold_idle) (simp add: no board_survivors_def)
  ultimately show ?thesis by (simp add: clear_square_units_def)
qed

definition kept_project :: "game \<Rightarrow> int \<Rightarrow> int \<Rightarrow> int" where
  "kept_project g base_id owner =
     (if owner = base_id then (if conf_rebuild_secret_projects (conf g) \<noteq> 0 then SP_Unbuilt else SP_Destroyed)
      else if owner > base_id then owner - 1 else owner)"

subsection \<open>The stages of the loss\<close>

lemma strike_keeps:
  "tracks g (strike_base base_id g)" "spots (strike_base base_id g) = spots g" "conf (strike_base base_id g) = conf g"
proof -
  have f: "ledger (foil_corner i f g) = ledger g" "homes_in n (foil_corner i f g) = homes_in n g" for i f n
    by (auto simp: foil_corner_def Let_def ledger_def homes_in_def upd_faction_def fun_eq_iff)
  have u: "ledger (upd_faction i h g) = ledger g" "homes_in n (upd_faction i h g) = homes_in n g"
    if "\<And>f. f_base_id_attack_target (h f) = f_base_id_attack_target f" for i h g n
    using that by (auto simp: ledger_def homes_in_def upd_faction_def fun_eq_iff)
  show "tracks g (strike_base base_id g)"
    by (simp add: strike_base_def Let_def tracks_def u f ledger_upd_base base_tag_def)
  show "spots (strike_base base_id g) = spots g" "conf (strike_base base_id g) = conf g"
    by (simp_all add: strike_base_def foil_corner_def Let_def spots_def upd_faction_def upd_base_def)
qed

lemma ledger_base:
  assumes "ledger h = ledger g"
  shows "BaseCount h = BaseCount g" "base_x (Bases h i) = base_x (Bases g i)" "base_y (Bases h i) = base_y (Bases g i)"
    "base_faction_id (Bases h i) = base_faction_id (Bases g i)" "SecretProjects h = SecretProjects g" "base_identity h i = base_identity g i"
  using assms by (simp_all add: ledger_def base_tag_def base_identity_def fun_eq_iff)

lemma other_base_cong:
  assumes "ledger h = ledger g" "spots h = spots g" shows "other_base h base_id j = other_base g base_id j"
proof -
  have "vector_dist h = vector_dist g" by (rule vector_dist_cong) (use assms(2) in \<open>simp_all add: spots_def\<close>)
  then show ?thesis by (simp add: other_base_def Let_def ledger_base [OF assms(1)])
qed

text \<open>With another base to go to no unit is lost while the homes are moved.\<close>

lemma rehome_units:
  assumes ok: "base_refs_ok g" and id: "0 \<le> base_id" "BaseCount g \<le> MaxBaseNum"
    and owner: "base_faction_id (Bases g base_id) \<noteq> - 1" and other: "other_base g base_id j"
  shows "\<exists>h. units_down (rehome_unit base_id) (g, br) = Some (h, br) \<and> base_refs_ok h \<and> ledger h = ledger g
    \<and> spots h = spots g \<and> conf h = conf g \<and> (\<forall>i. 0 \<le> i \<and> i < VehCount h \<longrightarrow> veh_home_base_id (Vehs h i) \<noteq> base_id)"
proof -
  obtain V d where loop: "units_down (rehome_unit base_id) (g, br) = Some (g\<lparr>Vehs := V, BaseFindDist := d\<rparr>, br)"
    and home: "\<And>i. let h = veh_home_base_id (Vehs g i); h' = veh_home_base_id (V i)
      in if i \<in> {0..<VehCount g} \<and> h = base_id then h' \<noteq> base_id \<and> - 1 \<le> h' \<and> h' < BaseCount g else h' = h"
    and pos: "\<And>i. veh_x (V i) = veh_x (Vehs g i) \<and> veh_y (V i) = veh_y (Vehs g i)"
    using rehome_loop [OF other owner id, where xs = "rev [0..VehCount g - 1]" and V = "Vehs g" and d = "BaseFindDist g" and br = br]
    by (auto simp: units_down_def)
  let ?h = "g\<lparr>Vehs := V, BaseFindDist := d\<rparr>"
  have "- 1 \<le> veh_home_base_id (V i) \<and> veh_home_base_id (V i) < BaseCount g \<and> veh_home_base_id (V i) \<noteq> base_id"
    if "0 \<le> i" "i < VehCount g" for i
    using home [of i] ok that by (auto simp: base_refs_ok_def homes_in_def Let_def split: if_splits)
  then have "base_refs_ok ?h" "\<forall>i. 0 \<le> i \<and> i < VehCount ?h \<longrightarrow> veh_home_base_id (Vehs ?h i) \<noteq> base_id"
    using ok by (simp_all add: base_refs_ok_def homes_in_def Let_def)
  moreover have "ledger ?h = ledger g" "spots ?h = spots g" "conf ?h = conf g" by (simp_all add: ledger_def spots_def pos)
  ultimately show ?thesis using loop by blast
qed

lemma drop_base_row_refs:
  fixes f x y :: int
  assumes ok: "base_refs_ok g" and id: "0 \<le> base_id" "base_id < BaseCount g"
    and left: "\<forall>i. 0 \<le> i \<and> i < VehCount g \<longrightarrow> veh_home_base_id (Vehs g i) \<noteq> base_id"
  defines "h \<equiv> drop_base_row base_id f x y g"
  shows "base_refs_ok h" "BaseCount h = BaseCount g - 1" "spots h = spots g"
    "0 \<le> i \<Longrightarrow> i < BaseCount g - 1 \<Longrightarrow> base_identity h i = base_identity g (if i < base_id then i else i + 1)"
    "0 \<le> p \<Longrightarrow> p \<le> SP_ID_Last - SP_ID_First \<Longrightarrow> SecretProjects h p = kept_project g base_id (SecretProjects g p)"
proof -
  define g2 where "g2 = bit_set g x y BIT_BASE_IN_TILE False"
  define g3 where "g3 = shift_base_users base_id (compact_bases base_id g2)"
  have b2: "bearings g2 = bearings g" "VehCount g2 = VehCount g" "Vehs g2 = Vehs g" "BaseCount g2 = BaseCount g" "conf g2 = conf g"
    "SecretProjects g2 = SecretProjects g" "base_identity g2 k = base_identity g k" for k
    by (auto simp: g2_def bit_set_def upd_sq_def base_identity_def bearings_def homes_def split: option.splits)
  have b3: "bearings h = bearings g3"
    unfolding h_def drop_base_row_def g3_def g2_def by (rule fold_keeps_all) simp
  have "base_refs_ok g2" using refs_tracks [OF ok bearings_tracks [OF b2(1)]] .
  then have "base_refs_ok g3" unfolding g3_def by (rule compact_refs) (use id left b2 in simp_all)
  then show "base_refs_ok h" using refs_tracks bearings_tracks [OF b3] by blast
  have h3: "BaseCount h = BaseCount g3" "SecretProjects h = SecretProjects g3" "base_identity h k = base_identity g3 k" for k
    using b3 by (simp_all add: bearings_def base_identity_def)
  show "BaseCount h = BaseCount g - 1" by (simp add: h3 g3_def shift_base_users_def compact_bases_def Let_def b2)
  show "spots h = spots g" by (simp add: h_def drop_base_row_def)
  show "base_identity h i = base_identity g (if i < base_id then i else i + 1)" if "0 \<le> i" "i < BaseCount g - 1"
    using compact_identity [of i g2 base_id] that by (simp add: h3 g3_def b2)
  show "SecretProjects h p = kept_project g base_id (SecretProjects g p)" if "0 \<le> p" "p \<le> SP_ID_Last - SP_ID_First"
    using that by (auto simp: h3 g3_def shift_base_users_def compact_bases_def Let_def b2 kept_project_def shift_row_def)
qed



definition twin_game :: game where
  "twin_game = blank_game\<lparr>BaseCount := 2, Bases := (\<lambda>i. blank_base\<lparr>base_x := 4 * i, base_y := 4 * i, base_faction_id := 1, base_pop_size := 1,
     base_autoforward_land_base_id := - 1, base_autoforward_sea_base_id := - 1, base_autoforward_air_base_id := - 1\<rparr>),
     SecretProjects := (\<lambda>p. if p = 3 then 1 else SP_Unbuilt),
     Factions := (\<lambda>_. blank_faction\<lparr>f_base_id_attack_target := - 1\<rparr>),
     MapAreaX := 40, MapAreaY := 20, MapHalfX := 20, MapToggleFlat := 1\<rparr>"

lemma twin_other: "other_base twin_game 0 1"
  by (simp add: other_base_def twin_game_def vector_dist_def x_dist_def map_is_flat_def Let_def signed_divide_int_def)


end
