(* ===== verification/Base_Upkeep.thy ===== *)
theory Base_Upkeep
  imports Base_Build
begin

text \<open>
  The turn of a base (base.cpp): its build queue and changes of production, the support of its units, its research, growth and
  starvation, riots and golden ages, and the maintenance of its facilities. Messages are not modelled; drawn numbers, the
  answers of the player and the governor's choices are arguments.
\<close>

section \<open>The turn of a base (base.cpp)\<close>

subsection \<open>The build queue\<close>

definition queue_units :: "int \<Rightarrow> int \<Rightarrow> int \<Rightarrow> game \<Rightarrow> game" where
  "queue_units faction_id unit_id n = upd_faction faction_id (\<lambda>f. f\<lparr>f_units_queue :=
     (f_units_queue f)(unit_id := (f_units_queue f unit_id + n) mod 256)\<rparr>)"

text \<open>One pass of the loop of \<open>base_queue\<close>: the first item leaves the queue.\<close>

definition shift_queue :: "base \<Rightarrow> base" where
  "shift_queue b = b\<lparr>base_queue_items := (\<lambda>i. if 0 \<le> i \<and> i < base_queue_size b then base_queue_items b (i + 1) else base_queue_items b i),
     base_queue_size := base_queue_size b - 1\<rparr>"

definition pop_queue :: "int \<Rightarrow> game \<Rightarrow> game" where
  "pop_queue base_id g =
     (let b = Bases g base_id; item = base_queue_items b 0
      in upd_base base_id shift_queue (if item \<ge> 0 then queue_units (base_faction_id b) item (- 1) g else g))"

definition item_avail :: "game \<Rightarrow> int \<Rightarrow> int \<Rightarrow> bool" where
  "item_avail g base_id item =
     (let f = base_faction_id (Bases g base_id)
      in if item \<ge> 0 then mod_veh_avail g item f base_id else mod_facility_avail g (- item) f base_id 0)"

function base_queue :: "int \<Rightarrow> game \<Rightarrow> game \<times> bool" where
  "base_queue base_id g =
     (if base_queue_size (Bases g base_id) > 0
      then let g = pop_queue base_id g
           in if item_avail g base_id (base_queue_items (Bases g base_id) 0) then (g, True) else base_queue base_id g
      else (g, False))"
  by pat_completeness auto

lemma pop_queue_base [simp]: "Bases (pop_queue base_id g) base_id = shift_queue (Bases g base_id)"
  by (simp add: pop_queue_def Let_def upd_base_def queue_units_def upd_faction_def)

termination base_queue
  by (relation "measure (\<lambda>(base_id, g). nat (base_queue_size (Bases g base_id)))") (auto simp: shift_queue_def)

declare base_queue.simps [simp del]

subsection \<open>Changing production\<close>

text \<open>The minerals that a human player loses by the change.\<close>

definition retool_penalty :: "int \<Rightarrow> game \<Rightarrow> int" where
  "retool_penalty base_id g =
     (let b = Bases g base_id; R = Rules g; accum = base_minerals_accumulated_2 b
      in if rule_retool_penalty_prod_change R \<noteq> 0 \<and> is_human g (base_faction_id b)
            \<and> mod_base_making g (base_production_id_last b) base_id \<noteq> mod_base_making g (base_queue_items b 0) base_id
            \<and> accum > rule_retool_exemption R
         then accum - ((100 - rule_retool_penalty_prod_change R) * (accum - rule_retool_exemption R)) sdiv 100
              - rule_retool_exemption R
         else 0)"

definition put_intel :: "int \<Rightarrow> int \<Rightarrow> bool \<Rightarrow> game \<Rightarrow> game" where
  "put_intel faction_id project add = upd_faction faction_id (\<lambda>f. f\<lparr>f_secret_project_intel :=
     (f_secret_project_intel f)(project div 8 := (if add then set_bit else unset_bit) (nat (project mod 8)) (f_secret_project_intel f (project div 8)))\<rparr>)"

definition has_intel :: "game \<Rightarrow> int \<Rightarrow> int \<Rightarrow> bool" where
  "has_intel g faction_id project = bit (f_secret_project_intel (Factions g faction_id) (project div 8)) (nat (project mod 8))"

definition building_elsewhere :: "game \<Rightarrow> int \<Rightarrow> int \<Rightarrow> int" where
  "building_elsewhere g base_id item =
     int (length (filter (\<lambda>i. i \<noteq> base_id \<and> base_faction_id (Bases g i) = base_faction_id (Bases g base_id)
       \<and> base_queue_items (Bases g i) 0 = item) [0..BaseCount g - 1]))"

text \<open>
  What the player learns of the secret projects of others. A faction that gives up a project which someone else owns moves
  all its bases to the new one.
\<close>

definition begin_project :: "int \<Rightarrow> int \<Rightarrow> game \<Rightarrow> game" where
  "begin_project faction_id item_id g =
     (let project = \<bar>item_id\<bar> - SP_ID_First; new = \<not> has_intel g faction_id project
      in if new \<and> SunspotDuration g > 0 \<and> \<bar>item_id\<bar> \<noteq> FAC_VOICE_OF_PLANET then g
         else (let g = (if new then put_intel faction_id project True g else g)
               in if \<bar>item_id\<bar> = FAC_VOICE_OF_PLANET
                  then g\<lparr>GameInterludeState := sint (word_of_int (GameInterludeState g) OR 400 :: u32)\<rparr> else g))"

definition switch_project :: "int \<Rightarrow> int \<Rightarrow> int \<Rightarrow> game \<Rightarrow> game" where
  "switch_project faction_id old_item item_id g =
     (let g = fold (\<lambda>i g. if base_faction_id (Bases g i) = faction_id \<and> base_queue_items (Bases g i) 0 = old_item
            then upd_base i (\<lambda>b. b\<lparr>base_queue_items := (base_queue_items b)(0 := item_id)\<rparr>) g else g) [0..BaseCount g - 1] g
      in if SunspotDuration g \<le> 0
         then put_intel faction_id (\<bar>old_item\<bar> - SP_ID_First) False (put_intel faction_id (\<bar>item_id\<bar> - SP_ID_First) True g)
         else g)"

definition announce_change :: "int \<Rightarrow> int \<Rightarrow> int \<Rightarrow> game \<Rightarrow> game" where
  "announce_change base_id old_item item_id g =
     (let faction_id = base_faction_id (Bases g base_id); owner = project_base g (- old_item);
          new_unbuilt = item_id \<le> - SP_ID_First \<and> project_base g (- item_id) = SP_Unbuilt;
          old_lost = old_item \<le> - SP_ID_First \<and> (owner < 0 \<or> base_faction_id (Bases g owner) \<noteq> faction_id)
      in if (\<not> new_unbuilt \<and> \<not> old_lost) \<or> \<not> full_game_turn g then g
         else if new_unbuilt \<and> building_elsewhere g base_id item_id = 0
         then (if \<not> old_lost \<or> (building_elsewhere g base_id old_item > 0 \<and> owner = SP_Unbuilt)
               then begin_project faction_id item_id g else switch_project faction_id old_item item_id g)
         else g)"

text \<open>\<open>skip_screens\<close> is the flag \<open>SkipTechScreenB\<close>.\<close>

definition mod_base_change :: "bool \<Rightarrow> int \<Rightarrow> int \<Rightarrow> game \<Rightarrow> game" where
  "mod_base_change skip_screens base_id item_id g =
     (if base_id < 0 \<or> base_id \<ge> BaseCount g \<or> item_id = 99999 then g
      else let old_item = base_queue_items (Bases g base_id) 0; faction_id = base_faction_id (Bases g base_id);
               g = upd_base base_id (\<lambda>b. b\<lparr>base_queue_items := (base_queue_items b)(0 := item_id)\<rparr>) g
           in if item_id = old_item then g
              else let g = (if 0 \<le> old_item \<and> old_item < MaxProtoNum then queue_units faction_id old_item (- 1) g else g);
                       g = (if 0 \<le> item_id \<and> item_id < MaxProtoNum then queue_units faction_id item_id 1 g else g);
                       penalty = retool_penalty base_id g;
                       g = upd_base base_id (\<lambda>b. b\<lparr>base_minerals_accumulated := base_minerals_accumulated_2 b - penalty\<rparr>) g
                   in if faction_id = CurrentPlayerFaction g \<or> skip_screens then g else announce_change base_id old_item item_id g)"

subsection \<open>Choosing production\<close>

text \<open>
  The parts of the governor that are not modelled are arguments: \<open>select\<close> is the choice of \<open>select_build\<close>, \<open>defender\<close> that of
  \<open>find_proto\<close>, \<open>garrisons\<close> what \<open>garrison_count\<close> gives, \<open>staple\<close> is \<open>consider_staple\<close>, \<open>compute\<close> the call of
  \<open>base_compute\<close> and \<open>native\<close> the engine's own \<open>base_reset\<close>; \<open>random4\<close> and \<open>random32\<close> are the numbers drawn. The
  tutorial's question about secret projects is left out.
\<close>

definition GOV_ALLOW_COMBAT :: u32 where
  "GOV_ALLOW_COMBAT = GOV_MAY_PROD_LAND_COMBAT OR GOV_MAY_PROD_NAVAL_COMBAT OR GOV_MAY_PROD_AIR_COMBAT"

definition keep_item :: "int \<Rightarrow> int \<Rightarrow> game \<Rightarrow> int \<Rightarrow> bool" where
  "keep_item random4 random32 g base_id =
     (let item = BASE_item (Bases g base_id)
      in if item \<ge> 0 then can_build_unit random32 g base_id item else can_build random4 g base_id (- item))"

definition mod_base_build :: "(game \<Rightarrow> game option) \<Rightarrow> (int \<Rightarrow> game \<Rightarrow> game) \<Rightarrow> (game \<Rightarrow> int \<Rightarrow> int) \<Rightarrow> (game \<Rightarrow> int \<Rightarrow> int)
    \<Rightarrow> (game \<Rightarrow> int \<Rightarrow> int \<Rightarrow> int) \<Rightarrow> int \<Rightarrow> int \<Rightarrow> int \<Rightarrow> bool \<Rightarrow> game \<Rightarrow> (game \<times> int) option" where
  "mod_base_build compute staple select defender garrisons random4 random32 base_id has_gov g = do {
     g \<leftarrow> compute (set_base base_id g);
     let g = (if \<not> BASE_plr_owner g (Bases g base_id) \<and> ControlUpkeepA g \<noteq> 0 then staple base_id g else g);
     let b = Bases g base_id;
     let item = BASE_item b;
     let choice = defender g base_id;
     Some (g, if base_state_flags b AND BSTATE_PRODUCTION_DONE \<noteq> 0 \<or> has_gov then select g base_id
       else if \<not> keep_item random4 random32 g base_id then select g base_id
       else if (item < 0 \<or> \<not> UNIT_is_garrison_unit g (Units g item)) \<and> BASE_gov_config g b AND GOV_ALLOW_COMBAT \<noteq> 0
          \<and> BASE_gov_config g b AND GOV_MAY_PROD_LAND_DEFENSE \<noteq> 0 \<and> garrisons g (base_x b) (base_y b) \<le> 0
          \<and> choice \<ge> 0 \<and> UNIT_is_garrison_unit g (Units g choice)
       then choice else item)
   }"

definition mod_base_reset :: "(int \<Rightarrow> bool \<Rightarrow> game \<Rightarrow> game) \<Rightarrow> (int \<Rightarrow> bool \<Rightarrow> game \<Rightarrow> (game \<times> int) option) \<Rightarrow> bool \<Rightarrow> int \<Rightarrow> bool \<Rightarrow> game \<Rightarrow> game option" where
  "mod_base_reset native build skip_screens base_id has_gov g =
     (let plr = BASE_plr_owner g (Bases g base_id); f = base_faction_id (Bases g base_id)
      in if (plr \<and> conf_manage_player_bases (conf g) = 0) \<or> (\<not> plr \<and> \<not> thinker_enabled g f)
         then Some (native base_id has_gov g)
         else map_option (\<lambda>(g, choice). mod_base_change skip_screens base_id choice g) (build base_id has_gov g))"

definition mod_bases_reset :: "(int \<Rightarrow> bool \<Rightarrow> game \<Rightarrow> game option) \<Rightarrow> int \<Rightarrow> int \<Rightarrow> bool \<Rightarrow> game \<Rightarrow> game option" where
  "mod_bases_reset reset region faction_id defend_only g =
     (if is_human g faction_id then Some g
      else fold (\<lambda>i r. do {
          g \<leftarrow> r;
          let b = Bases g i;
          if base_faction_id b \<noteq> faction_id then Some g
          else case sq_at g (base_x b) (base_y b) of None \<Rightarrow> Some g
            | Some sq \<Rightarrow> if (region \<ge> 0 \<and> uint (sq_region sq) \<noteq> region) \<or> (defend_only \<and> MAP_veh_who sq \<ge> 0) then Some g
                         else reset i False g
        }) [0..BaseCount g - 1] (Some g))"

subsection \<open>Units that a base cannot support\<close>

definition convoying :: "veh \<Rightarrow> bool" where
  "convoying v \<longleftrightarrow> veh_order v = ORDER_CONVOY \<and> veh_order_auto_type v = 1"

text \<open>How badly a unit is to be given up: \<open>None\<close> where the loop skips it.\<close>

definition support_score :: "game \<Rightarrow> int \<Rightarrow> int \<Rightarrow> int option" where
  "support_score g base_id i =
     (let base = Bases g base_id; v = Vehs g i; plan = unit_plan (Units g (veh_unit_id v))
      in if veh_faction_id v \<noteq> base_faction_id base \<or> veh_home_base_id v \<noteq> base_id then None
         else if plan = PLAN_SUPPLY \<and> (convoying v \<or> plan > unit_support_plan g)
         then (if \<not> convoying v then None
               else case sq_at g (veh_x v) (veh_y v) of None \<Rightarrow> None
                 | Some sq \<Rightarrow> if MAP_base_who sq < 0 then None else Some 99999)
         else if veh_state v AND VSTATE_REQUIRES_SUPPORT = 0 \<or> plan > unit_support_plan g then None
         else Some (vector_dist g (veh_x v) (veh_y v) (base_x base) (base_y base)))"

text \<open>The last unit of the highest score that beats the ones before it.\<close>

definition best_scored :: "(int \<Rightarrow> int option) \<Rightarrow> int list \<Rightarrow> int" where
  "best_scored score xs =
     snd (fold (\<lambda>i (top, best). case score i of None \<Rightarrow> (top, best) | Some s \<Rightarrow> if s > top then (s, i) else (top, best)) xs (- 1, - 1))"

text \<open>\<open>agent_kill_unsupported_unit\<close>: the loss is noted under the identity of this unit and of no other.\<close>

definition kill_unsupported_unit :: "int \<Rightarrow> game \<times> bridge \<Rightarrow> (game \<times> bridge) option" where
  "kill_unsupported_unit veh_id = (\<lambda>(g, b).
     let previous = support_loss_handle b; b = b\<lparr>support_loss_handle := - 1\<rparr>;
         b = (if lock_initialized b \<and> game_active g \<and> 0 \<le> veh_id \<and> veh_id < VehCount g
              then (let (b, handle) = semantic_vehicle_handle g veh_id (ensure_semantic_vehicle_handles g b)
                    in b\<lparr>support_loss_handle := handle\<rparr>)
              else b)
     in map_option (\<lambda>(g, b). (g, b\<lparr>support_loss_handle := previous\<rparr>)) (kill veh_id (g, b)))"

definition pay_support :: "int \<Rightarrow> game \<Rightarrow> game" where
  "pay_support cost g = g\<lparr>BaseForcesMaintCost := BaseForcesMaintCost g - cost\<rparr>"

text \<open>One pass: the Boolean tells whether the loop goes on.\<close>

definition support_pass :: "game \<times> bridge \<Rightarrow> ((game \<times> bridge) \<times> bool) option" where
  "support_pass = (\<lambda>(g, br).
     let base_id = CurrentBaseID g; base = Bases g base_id; faction_id = base_faction_id base;
         cost = unit_support_cost (f_SE_support_pending (Factions g faction_id));
         best = best_scored (support_score g base_id) [0..VehCount g - 1]; v = Vehs g best; clean = has_abil g (veh_unit_id v) ABL_CLEAN_REACTOR
     in if best < 0 then Some ((g, br), False)
        else if VEH_plan g v = PLAN_SUPPLY
        then Some ((pay_support 1 (upd_veh best (\<lambda>v. v\<lparr>veh_order := ORDER_NONE\<rparr>) g), br), True)
        else (let g = (if \<not> is_human g faction_id \<and> VEH_plan g v = PLAN_COLONY
                 then (let g = upd_veh best (\<lambda>v. v\<lparr>veh_state := veh_state v AND NOT VSTATE_REQUIRES_SUPPORT\<rparr>) g
                       in if clean then g else pay_support cost g) else g)
              in if clean then Some ((g, br), False)
                 else map_option (\<lambda>s. (s, True)) (kill_unsupported_unit best (pay_support cost g, br))))"

partial_function (option) support_loop :: "game \<times> bridge \<Rightarrow> (game \<times> bridge) option" where
  [code]: "support_loop s =
     (if BaseForcesMaintCost (fst s) > base_mineral_intake_2 (cur_base (fst s))
      then do { (s, go) \<leftarrow> support_pass s; if go then support_loop s else Some s }
      else Some s)"

text \<open>
  A rioting base of a faction with too little police may lose a unit away from home. \<open>refused i\<close> is the number that
  \<open>game_randv\<close> delivers for unit \<open>i\<close>.
\<close>

definition alert_only :: "veh \<Rightarrow> bool" where
  "alert_only v \<longleftrightarrow> (let s = veh_state v; alert = VSTATE_ON_ALERT
     in s AND alert \<noteq> 0 \<and> s AND (VSTATE_UNK_1000000 OR alert) \<noteq> VSTATE_UNK_1000000 OR alert
        \<and> (s AND (VSTATE_UNK_2000000 OR alert) \<noteq> VSTATE_UNK_2000000 OR alert
           \<or> veh_patrol_current_point v \<ge> veh_waypoint_count v)
        \<and> veh_order_auto_type v = 0)"

definition pacifist_score :: "(int \<Rightarrow> int) \<Rightarrow> game \<Rightarrow> int \<Rightarrow> int \<Rightarrow> int option" where
  "pacifist_score refused g base_id i =
     (let base = Bases g base_id; v = Vehs g i; faction_id = base_faction_id base
      in if veh_faction_id v \<noteq> faction_id \<or> veh_home_base_id v \<noteq> base_id \<or> veh_state v AND VSTATE_PACIFISM_DRONE = 0
            \<or> \<not> (\<not> is_human g faction_id \<or> alert_only v) \<or> refused i \<noteq> 0 then None
         else (let s = (100 * map_range g (veh_x v) (veh_y v) (base_x base) (base_y base))
                     sdiv clamp (unit_cost (Units g (veh_unit_id v))) 1 99
               in Some (if VEH_plan g v = PLAN_DEFENSE then s * 2 else if VEH_plan g v = PLAN_COMBAT then s sdiv 2 else s)))"

definition pacifism_loss :: "(int \<Rightarrow> int) \<Rightarrow> game \<times> bridge \<Rightarrow> (game \<times> bridge) option" where
  "pacifism_loss refused = (\<lambda>(g, br).
     let base_id = CurrentBaseID g; base = Bases g base_id; faction_id = base_faction_id base;
         managed = base_governor_flags base AND GOV_ACTIVE \<noteq> 0 \<and> base_governor_flags base AND GOV_MANAGE_CITIZENS \<noteq> 0;
         best = best_scored (pacifist_score refused g base_id) [0..VehCount g - 1]
     in if (\<not> is_human g faction_id \<or> managed) \<and> base_state_flags base AND BSTATE_DRONE_RIOTS_ACTIVE \<noteq> 0
           \<and> BASE_SE_police g base True \<le> - 3
           \<and> (base_drone_total base > base_talent_total base \<or> base_nutrient_surplus base < 0) \<and> best \<ge> 0
        then map_option (\<lambda>(g, br). (upd_base base_id (\<lambda>b. b\<lparr>base_state_flags := base_state_flags b AND NOT BSTATE_DRONE_RIOTS_ACTIVE\<rparr>) g, br))
               (kill best (g, br))
        else Some (g, br))"

definition mod_base_check_support :: "(int \<Rightarrow> int) \<Rightarrow> game \<times> bridge \<Rightarrow> (game \<times> bridge) option" where
  "mod_base_check_support refused s = Option.bind (support_loop s) (pacifism_loss refused)"

subsection \<open>Research\<close>

text \<open>\<open>tech_research\<close> is the engine's function that takes the labs of the faction.\<close>

definition research_labs :: "game \<Rightarrow> int" where
  "research_labs g =
     (let id = CurrentBaseID g; f = Factions g (base_faction_id (Bases g id)); labs = base_labs_total (Bases g id);
          labs = (if has_fac_built g FAC_PUNISHMENT_SPHERE id then labs sdiv 2 else labs)
      in if conf_early_research_start (conf g) = 0
            \<and> (CurrentTurn g < - 5 * f_SE_research_pending f \<or> (CurrentTurn g < 5 \<and> f_diff_level f < 2))
         then 0 else labs)"

definition mod_base_research :: "(int \<Rightarrow> int \<Rightarrow> game \<Rightarrow> game) \<Rightarrow> game \<Rightarrow> game" where
  "mod_base_research tech_research g =
     (if GameRules g AND RULES_SCN_NO_TECH_ADVANCES \<noteq> 0 then g
      else let faction_id = base_faction_id (cur_base g); f = Factions g faction_id; labs = research_labs g;
               v1 = 10 * labs * (clamp (f_SE_research_pending f) (- 5) 5 + 10); v2 = v1 smod 100 + f_net_random_event f
           in tech_research faction_id ((if v2 \<ge> 100 then v1 + 100 else v1) sdiv 100)
                (upd_faction faction_id (\<lambda>f. f\<lparr>f_labs_total := f_labs_total f + labs,
                   f_net_random_event := if v2 \<ge> 100 then v2 - 100 else v2\<rparr>) g))"

subsection \<open>Growth and starvation\<close>

definition pop_limit :: "game \<Rightarrow> int \<Rightarrow> int" where
  "pop_limit g base_id =
     (let f = base_faction_id (Bases g base_id)
      in (if has_fac_built g FAC_HAB_COMPLEX base_id then rule_pop_limit_wo_hab_dome (Rules g) else rule_pop_limit_wo_hab_complex (Rules g))
         + ((if has_project g FAC_ASCETIC_VIRTUES f then 2 else 0) - mf_rule_population (MFactions g f)))"

definition may_grow :: "game \<Rightarrow> int \<Rightarrow> bool" where
  "may_grow g base_id \<longleftrightarrow> base_pop_size (Bases g base_id) < pop_limit g base_id \<or> has_fac_built g FAC_HABITATION_DOME base_id"

definition nutrient_cost :: "game \<Rightarrow> int \<Rightarrow> int" where
  "nutrient_cost g base_id =
     (base_pop_size (Bases g base_id) + 1) * mod_cost_factor g (base_faction_id (Bases g base_id)) RSC_NUTRIENT base_id"

definition grow_pop :: "int \<Rightarrow> game \<Rightarrow> game" where
  "grow_pop base_id = upd_base base_id (\<lambda>b. b\<lparr>base_pop_size := if base_pop_size b < MaxBasePopSize then base_pop_size b + 1 else base_pop_size b\<rparr>)"

definition put_nutrients :: "int \<Rightarrow> int \<Rightarrow> game \<Rightarrow> game" where
  "put_nutrients base_id n = upd_base base_id (\<lambda>b. b\<lparr>base_nutrients_accumulated := n\<rparr>)"

definition add_surplus :: "int \<Rightarrow> game \<Rightarrow> game" where
  "add_surplus base_id = upd_base base_id (\<lambda>b. b\<lparr>base_nutrients_accumulated := base_nutrients_accumulated b + base_nutrient_surplus b\<rparr>)"

definition pop_boom :: "game \<Rightarrow> int \<Rightarrow> bool" where
  "pop_boom g base_id \<longleftrightarrow> (let req = rule_nutrient_intake_req_citizen (Rules g)
     in (BaseGrowthRate g \<ge> GrowthPopBoom \<or> has_project g FAC_CLONING_VATS (base_faction_id (Bases g base_id)))
        \<and> req \<noteq> 0 \<and> base_nutrient_surplus (Bases g base_id) \<ge> req)"

text \<open>The part for a base whose stores are not in debt. The messages about short supplies are left out.\<close>

definition fed_growth :: "(game \<Rightarrow> game option) \<Rightarrow> int \<Rightarrow> game \<Rightarrow> game option" where
  "fed_growth compute base_id g =
     (let cost = nutrient_cost g base_id; stored = base_nutrients_accumulated (Bases g base_id)
      in if pop_boom g base_id \<and> may_grow g base_id
         then map_option (\<lambda>g. put_nutrients base_id (min cost (base_nutrients_accumulated (Bases g base_id))) g) (compute (grow_pop base_id g))
         else if stored \<ge> cost \<and> BaseGrowthRate g \<le> - 3 then Some (put_nutrients base_id cost g)
         else if stored \<ge> cost \<and> may_grow g base_id
         then map_option (add_surplus base_id) (compute (put_nutrients base_id 0 (grow_pop base_id g)))
         else if stored \<ge> cost \<and> base_pop_size (Bases g base_id) \<ge> pop_limit g base_id
         then Some (add_surplus base_id (put_nutrients base_id (cost sdiv 2) g))
         else Some (add_surplus base_id g))"

text \<open>Crawlers that bring the nutrients of a starving base elsewhere stop.\<close>

definition stop_convoys :: "int \<Rightarrow> game \<Rightarrow> game" where
  "stop_convoys base_id g =
     (if BaseResourceConvoyFrom g RSC_NUTRIENT \<noteq> 0
      then fold (\<lambda>i g. let v = Vehs g i
             in if veh_home_base_id v = base_id \<and> VEH_is_supply g v \<and> veh_order v = ORDER_CONVOY \<and> veh_moves_spent v = 0
                   \<and> veh_sq g v MAP_is_base
                then upd_veh i (\<lambda>v. v\<lparr>veh_order := ORDER_NONE\<rparr>) g else g) [0..VehCount g - 1] g
      else g)"

text \<open>
  \<open>is_objective\<close> is the engine's test for scenario objectives, \<open>kill_base\<close> is \<open>mod_base_kill\<close> and \<open>eliminate\<close> is
  \<open>mod_eliminate_player\<close>. The Boolean tells that the base is gone.
\<close>

definition mod_base_growth :: "(game \<Rightarrow> game option) \<Rightarrow> (game \<Rightarrow> int \<Rightarrow> bool) \<Rightarrow> (int \<Rightarrow> game \<times> bridge \<Rightarrow> (game \<times> bridge) option)
    \<Rightarrow> (int \<Rightarrow> game \<times> bridge \<Rightarrow> game \<times> bridge) \<Rightarrow> game \<times> bridge \<Rightarrow> ((game \<times> bridge) \<times> bool) option" where
  "mod_base_growth compute is_objective kill_base eliminate = (\<lambda>(g, br).
     let base_id = CurrentBaseID g; faction_id = base_faction_id (Bases g base_id)
     in if base_nutrients_accumulated (Bases g base_id) \<ge> 0
        then map_option (\<lambda>g. ((g, br), False)) (fed_growth compute base_id g)
        else if full_game_turn g
        then (let g = stop_convoys base_id g; pop = base_pop_size (Bases g base_id);
                  starve = pop > 1 \<or> \<not> is_objective g base_id;
                  g = (if starve then upd_base base_id (\<lambda>b. b\<lparr>base_pop_size := pop - 1\<rparr>) g else g)
              in if starve \<and> pop - 1 \<le> 0
                 then map_option (\<lambda>s. (eliminate faction_id s, True)) (kill_base base_id (g, br))
                 else Some ((put_nutrients base_id (base_nutrient_surplus (Bases g base_id)) g, br), False))
        else Some ((put_nutrients base_id (base_nutrient_surplus (Bases g base_id)) g, br), False))"

subsection \<open>Riots and golden ages\<close>

definition free_facility :: "game \<Rightarrow> int \<Rightarrow> int \<Rightarrow> bool" where
  "free_facility g faction_id facility_id =
     (let m = MFactions g faction_id
      in list_ex (\<lambda>i. mf_faction_bonus_val1 m i = facility_id
           \<and> (mf_faction_bonus_id m i = RULE_FACILITY
              \<or> (mf_faction_bonus_id m i = RULE_FREEFAC \<and> has_tech g (cfac_preq_tech (Facility g facility_id)) faction_id)))
         [0..mf_faction_bonus_count m - 1])"

text \<open>The mob tries facilities at random: the numbers of \<open>game_rand() % 70\<close> are \<open>picks iter\<close>.\<close>

function riot_pick :: "(int \<Rightarrow> int) \<Rightarrow> int \<Rightarrow> int \<Rightarrow> game \<Rightarrow> game" where
  "riot_pick picks modifier iter g =
     (let base_id = CurrentBaseID g; fac = picks iter
      in if FAC_HEADQUARTERS < fac \<and> fac < FAC_SKY_HYDRO_LAB \<and> \<not> free_facility g (base_faction_id (Bases g base_id)) fac
            \<and> has_fac_built g fac base_id
         then set_fac g fac base_id False
         else if iter + 1 > modifier then g
         else riot_pick picks modifier (iter + 1) g)"
  by pat_completeness auto

termination riot_pick
  by (relation "measure (\<lambda>(picks, modifier, iter, g). nat (modifier - iter + 1))") auto

declare riot_pick.simps [simp del]

text \<open>
  \<open>police_rnd\<close> and \<open>quiet_rnd\<close> are the two other numbers drawn, the first one already reduced modulo the police rating
  plus 7, the second modulo 3. \<open>reset\<close> is \<open>mod_base_reset\<close>.
\<close>

definition mod_drone_riot :: "(int \<Rightarrow> game \<Rightarrow> game) \<Rightarrow> int \<Rightarrow> int \<Rightarrow> (int \<Rightarrow> int) \<Rightarrow> game \<Rightarrow> game" where
  "mod_drone_riot reset police_rnd quiet_rnd picks g =
     (let base_id = CurrentBaseID g; base = Bases g base_id; f = Factions g (base_faction_id base);
          police = BASE_SE_police g base True; start = base_state_flags base AND BSTATE_DRONE_RIOTS_ACTIVE = 0;
          g = upd_base base_id (\<lambda>b. b\<lparr>base_state_flags := base_state_flags b OR BSTATE_DRONE_RIOTS_ACTIVE\<rparr>) g
      in if start then (if is_human g (base_faction_id base) then g else reset base_id g)
         else if (police + 6 \<le> 0 \<or> police_rnd = 0) \<and> \<not> has_fac_built g FAC_HEADQUARTERS base_id
            \<and> base_assimilation_turns_left base < 45 \<and> f_base_count f > 1 \<and> \<not> (base_pop_size base < 4 \<and> quiet_rnd \<noteq> 0)
         then riot_pick picks (base_pop_size base + f_diff_level f + f_ranking f + 8) 0 g
         else g)"

definition golden_age_step :: "game \<Rightarrow> game" where
  "golden_age_step g =
     (let base_id = CurrentBaseID g
      in upd_base base_id (\<lambda>b. b\<lparr>base_state_flags := if BASE_golden_age b then base_state_flags b OR BSTATE_GOLDEN_AGE_ACTIVE
           else base_state_flags b AND NOT BSTATE_GOLDEN_AGE_ACTIVE\<rparr>) g)"

definition calm_base :: "game \<Rightarrow> base \<Rightarrow> bool" where
  "calm_base g b \<longleftrightarrow> base_drone_total b \<le> base_talent_total b \<or> base_nerve_staple_turns_left b \<noteq> 0
     \<or> has_project g FAC_TELEPATHIC_MATRIX (base_faction_id b)"

definition mod_base_drones :: "(int \<Rightarrow> game \<Rightarrow> game) \<Rightarrow> int \<Rightarrow> int \<Rightarrow> (int \<Rightarrow> int) \<Rightarrow> game \<Rightarrow> game" where
  "mod_base_drones reset police_rnd quiet_rnd picks g =
     (let g = golden_age_step g; base_id = CurrentBaseID g; base = Bases g base_id
      in if calm_base g base
         then (if base_state_flags base AND BSTATE_DRONE_RIOTS_ACTIVE \<noteq> 0
               then (let g = upd_base base_id (\<lambda>b. b\<lparr>base_state_flags := base_state_flags b AND NOT BSTATE_DRONE_RIOTS_ACTIVE\<rparr>) g
                     in if is_human g (base_faction_id base) then g else reset base_id g)
               else g)
         else if delay_base_riot g then g
         else mod_drone_riot reset police_rnd quiet_rnd picks g)"

subsection \<open>Maintenance of facilities\<close>

definition put_credits :: "int \<Rightarrow> int \<Rightarrow> game \<Rightarrow> game" where
  "put_credits faction_id n = upd_faction faction_id (\<lambda>f. f\<lparr>f_energy_credits := n\<rparr>)"

text \<open>With the Self-Aware Colony half is paid; the odd half is remembered for the next facility.\<close>

definition half_maint :: "int \<Rightarrow> int \<Rightarrow> game \<Rightarrow> game \<times> int" where
  "half_maint faction_id maint g =
     (if has_project g FAC_SELF_AWARE_COLONY faction_id
      then (let maint = (if f_player_flags (Factions g faction_id) AND PFLAG_SELF_AWARE_COLONY_LOST_MAINT \<noteq> 0 then maint + 1 else maint)
            in (upd_faction faction_id (\<lambda>f. f\<lparr>f_player_flags := if odd maint then f_player_flags f OR PFLAG_SELF_AWARE_COLONY_LOST_MAINT
                    else f_player_flags f AND NOT PFLAG_SELF_AWARE_COLONY_LOST_MAINT\<rparr>) g, maint sdiv 2))
      else (g, maint))"

definition maint_step :: "int \<Rightarrow> game \<Rightarrow> game" where
  "maint_step fac g =
     (let base_id = CurrentBaseID g; base = Bases g base_id; faction_id = base_faction_id base
      in if \<not> has_fac_built g fac base_id then g
         else let (g, maint) = half_maint faction_id (fac_maint g fac faction_id) g;
                  g = upd_faction faction_id (\<lambda>f. f\<lparr>f_energy_credits := f_energy_credits f - maint,
                        f_facility_maint_total := f_facility_maint_total f + maint\<rparr>) g; f = Factions g faction_id
              in if f_energy_credits f \<ge> 0 then g
                 else if f_diff_level f \<le> DIFF_SPECIALIST \<or> base_queue_items base 0 = - fac then put_credits faction_id 0 g
                 else put_credits faction_id (cfac_cost (Facility g fac) * mod_cost_factor g faction_id RSC_MINERAL (- 1))
                        (set_fac g fac base_id False))"

definition mod_base_maint :: "game \<Rightarrow> game" where
  "mod_base_maint g = fold maint_step [1..SP_ID_First - 1] g"

end
