(* ===== verification/Base_Upkeep_Props.thy ===== *)
theory Base_Upkeep_Props
  imports Base_Refs Base_Upkeep
begin

text \<open>
  Properties of the turn of a base: what the computation of a base leaves alone, the advance of the build queue, the price of a
  change of production, the bounds of growth, riots and golden ages, and the maintenance.
\<close>

subsection \<open>What the computation of a base leaves alone\<close>

text \<open>
  \<open>base_compute\<close> never changes the population, the facilities, the owner or the square of any base. \<open>base_frame\<close> is that
  part of a base, \<open>frame\<close> that part of the state.
\<close>

definition base_frame :: "base \<Rightarrow> _" where
  "base_frame b = (base_tag b, base_pop_size b, base_facilities_built b, base_assimilation_turns_left b)"

definition frame :: "game \<Rightarrow> _" where
  "frame g = (BaseCount g, CurrentBaseID g, (\<lambda>i. base_frame (Bases g i)))"

lemma frameD: "frame h = frame g \<Longrightarrow> base_frame (Bases h i) = base_frame (Bases g i)"
  "frame h = frame g \<Longrightarrow> CurrentBaseID h = CurrentBaseID g"
  by (simp_all add: frame_def fun_eq_iff)

lemma frame_upd_base: "base_frame (h (Bases g i)) = base_frame (Bases g i) \<Longrightarrow> frame (upd_base i h g) = frame g"
  by (auto simp: frame_def upd_base_def fun_eq_iff)

lemma frame_upd_cur: "(\<And>b. base_frame (h b) = base_frame b) \<Longrightarrow> frame (upd_cur h g) = frame g"
  by (simp add: upd_cur_def frame_upd_base)

lemma frame_upds [simp]: "frame (upd_faction f h g) = frame g" "frame (upd_veh i k g) = frame g"
  by (simp_all add: frame_def upd_faction_def upd_veh_def)

lemma frame_globals [simp]:
  "frame (g\<lparr>BaseResourceConvoyTo := a\<rparr>) = frame g" "frame (g\<lparr>BaseResourceConvoyFrom := a\<rparr>) = frame g"
  "frame (g\<lparr>BaseVehPacifismCount := n\<rparr>) = frame g" "frame (g\<lparr>BaseForcesSupported := n\<rparr>) = frame g"
  "frame (g\<lparr>BaseForcesMaintCost := n\<rparr>) = frame g" "frame (g\<lparr>BaseForcesMaintCount := n\<rparr>) = frame g"
  "frame (g\<lparr>BaseGrowthRate := n\<rparr>) = frame g" "frame (g\<lparr>ComputeBaseID := n\<rparr>) = frame g" "frame (g\<lparr>BaseUpkeepState := n\<rparr>) = frame g"
  "frame (g\<lparr>base_yield_active := p\<rparr>) = frame g" "frame (g\<lparr>BaseTileFlags := fl\<rparr>) = frame g"
  "frame (g\<lparr>BaseCommerceImport := a\<rparr>) = frame g" "frame (g\<lparr>BaseCommerceExport := a\<rparr>) = frame g"
  by (simp_all add: frame_def)

lemma frame_unlooked:
  assumes "unlooked h = unlooked g" shows "frame h = frame g"
  using arg_cong [OF assms, of BaseCount] arg_cong [OF assms, of CurrentBaseID] arg_cong [OF assms, of Bases]
  by (simp add: frame_def unlooked_def)

lemma frame_bearings: "bearings h = bearings g \<Longrightarrow> frame h = frame g"
  by (simp add: bearings_def frame_def)

lemma frame_yield [simp]: "frame (fst (resource_yield bonus_at g k f b x y)) = frame g"
  by (rule frame_unlooked) (auto simp: resource_yield_def)

lemma frame_convoy [simp]: "frame (convoy_step bonus_at i v g) = frame g"
  by (simp add: convoy_step_def Let_def split_beta)

lemma frame_home [simp]: "frame (home_step i j g) = frame g"
proof -
  have "frame (support_step i j g) = frame g" "frame (pacifism_step i j g) = frame g" for g
    by (simp_all add: support_step_def pacifism_step_def Let_def)
  then show ?thesis by (simp add: home_step_def Let_def)
qed

lemma frame_support [simp]: "frame (mod_base_support bonus_at g) = frame g"
  unfolding mod_base_support_def Let_def by (subst fold_keeps_all [where h = frame]) auto

lemma frame_market [simp]: "frame (fst (mod_black_market g i e)) = frame g"
  by (rule frame_unlooked) simp

lemma frame_nutrient [simp]: "frame (mod_base_nutrient g) = frame g"
  by (simp add: mod_base_nutrient_def Let_def frame_upd_cur base_frame_def base_tag_def)

lemma frame_minerals [simp]: "frame (mod_base_minerals g) = frame g"
  by (simp add: mod_base_minerals_def Let_def frame_upd_cur base_frame_def base_tag_def)

lemma frame_psych [simp]: "frame (mod_base_psych i t p g) = frame g"
proof -
  have r: "frame (add_psych_row n m g) = frame g" for n m g by (cases m) (simp add: add_psych_row_def frame_def)
  have m: "base_frame (put_mood m b) = base_frame b" for m b by (cases m) (simp add: put_mood_def base_frame_def base_tag_def)
  show ?thesis by (simp add: mod_base_psych_def Let_def r m frame_upd_base fold_keeps_all [where h = frame])
qed

lemma frame_specialist [simp]: "base_frame (add_specialist g i b) = base_frame b" "base_frame (BASE_set_specialist_type i c b) = base_frame b"
  by (simp_all add: add_specialist_def BASE_set_specialist_type_def base_frame_def base_tag_def Let_def)

lemma frame_totals [simp]:
  "base_frame (b\<lparr>base_psych_total := n\<rparr>) = base_frame b" "base_frame (b\<lparr>base_economy_total := n\<rparr>) = base_frame b"
  "base_frame (b\<lparr>base_unk_total := n\<rparr>) = base_frame b" "base_frame (b\<lparr>base_labs_total := n\<rparr>) = base_frame b"
  "base_frame (b\<lparr>base_state_flags := w\<rparr>) = base_frame b" "base_frame (b\<lparr>base_eco_damage := n\<rparr>) = base_frame b"
  "base_frame (b\<lparr>base_worked_tiles := w\<rparr>) = base_frame b" "base_frame (b\<lparr>base_specialist_total := n\<rparr>) = base_frame b"
  "base_frame (b\<lparr>base_specialist_adjust := n\<rparr>) = base_frame b"
  by (simp_all add: base_frame_def base_tag_def)

lemma frame_fold: "(\<And>i b. base_frame (h i b) = base_frame b) \<Longrightarrow> base_frame (fold h xs b) = base_frame b"
  by (induction xs arbitrary: b) auto

lemma frame_intake [simp]: "frame (fst (energy_intake g)) = frame g"
  unfolding energy_intake_def Let_def
  by (auto simp: frame_upd_cur base_frame_def base_tag_def split: prod.splits dest: arg_cong [of "mod_black_market _ _ _" _ "\<lambda>p. frame (fst p)"])

lemma frame_energy:
  assumes psych: "\<And>g. frame (base_psych g) = frame g"
  shows "frame (mod_base_energy base_psych g) = frame g"
proof -
  have ep: "frame (energy_psych base_psych i g) = frame g" for i g
    by (simp add: energy_psych_def Let_def psych psych_stats_def fold_keeps_all [where h = frame] split_beta)
  obtain h t where r: "energy_intake g = (h, t)" by fastforce
  have f: "frame h = frame g" using r frame_intake by (metis fst_conv)
  have u: "frame (upd_cur (\<lambda>_. b) h) = frame g" if "base_frame b = base_frame (cur_base h)" for b
    using that f frame_upd_base [of "\<lambda>_. b" h "CurrentBaseID h"] by (simp add: upd_cur_def cur_base_def)
  show ?thesis
    unfolding mod_base_energy_def Let_def r prod.case split_beta ep fst_conv snd_conv
    by (rule u) (simp add: frame_fold)
qed


text \<open>The choice of workers goes through copies of the base that keep its frame.\<close>

definition framed :: "int \<Rightarrow> base \<Rightarrow> game \<Rightarrow> bool" where
  "framed i b g \<longleftrightarrow> base_frame b = base_frame (Bases g i)"

lemma framed_frame: "frame h = frame g \<Longrightarrow> framed i b h = framed i b g"
  using frameD(1) [of h g i] by (simp add: framed_def)

lemma frame_update [simp]: "base_frame (base_update tiles b) = base_frame b"
proof -
  have "base_frame (b\<lparr>base_nutrient_intake := n, base_mineral_intake := m, base_energy_intake := e, base_nutrient_intake_2 := n,
      base_mineral_intake_2 := m, base_energy_intake_2 := e, base_unused_intake_2 := u\<rparr>) = base_frame b" for n m e u
    by (simp add: base_frame_def base_tag_def)
  then show ?thesis by (simp only: base_update_def Let_def)
qed

lemma frame_drop [simp]: "base_frame (drop_worker t b) = base_frame b"
  by (simp add: drop_worker_def)

lemma frame_clear [simp]: "base_frame (clear_base r nme b) = base_frame b"
  unfolding clear_base_def clear_intake_def split_beta base_frame_def base_tag_def by simp

lemma frame_specialists [simp]: "base_frame (all_specialists c b) = base_frame b" "base_frame (fix_specialists g m c b) = base_frame b"
  unfolding all_specialists_def fix_specialists_def Let_def by (rule frame_fold, simp)+

lemma frame_plan:
  assumes "\<And>g. frame (base_psych g) = frame g" "framed i b g"
  shows "frame (try_plan base_psych i choices b g) = frame g"
  using assms(2) by (simp add: try_plan_def frame_energy [OF assms(1)] frame_upd_base framed_def)

lemma frame_gov:
  "\<forall>g. frame (base_psych g) = frame g \<Longrightarrow> framed i b g \<Longrightarrow> gov_loop base_psych i choices b score g = (b', s', h)
    \<Longrightarrow> frame h = frame g \<and> base_frame b' = base_frame b"
proof (induction base_psych i choices b score g arbitrary: b' s' h rule: gov_loop.induct)
  case (1 base_psych i choices b score g)
  let ?t = "try_plan base_psych i choices b g"
  have f: "frame ?t = frame g" by (rule frame_plan) (use 1 in auto)
  have d: "framed i (drop_worker (last choices) b) ?t" using 1(3) frameD(1) [OF f] by (simp add: framed_def)
  show ?case
    using 1(4) 1(1) [OF _ refl refl refl _ 1(2) d] f
    by (subst (asm) gov_loop.simps) (auto simp: Let_def split: if_splits)
qed

lemma frame_riots:
  assumes psych: "\<forall>g. frame (base_psych g) = frame g" and b: "framed i b g"
    and r: "settle_riots base_psych i choices spc b g = (b', h)"
  shows "frame h = frame g \<and> base_frame b' = base_frame b"
proof -
  obtain b1 s1 g1 where 1: "gov_loop base_psych i choices b 0 g = (b1, s1, g1)" by (metis prod_cases3)
  note f1 = frame_gov [OF psych b 1]
  show ?thesis
  proof (cases spc)
    case None then show ?thesis using r 1 f1 by (simp add: settle_riots_def)
  next
    case (Some c)
    obtain b2 s2 g2 where 2: "gov_loop base_psych i choices (all_specialists c b) 0 g1 = (b2, s2, g2)" by (metis prod_cases3)
    have "framed i (all_specialists c b) g1" using b f1 frameD(1) [of g1 g i] by (simp add: framed_def)
    from frame_gov [OF psych this 2] show ?thesis using r 1 2 f1 Some by (auto simp: settle_riots_def)
  qed
qed

lemma frame_place: "base_frame (fst (place_workers m n e s tiles b)) = base_frame b"
  by (cases s) (simp add: place_workers_def Let_def split_beta)

lemma frame_settle:
  assumes psych: "\<forall>g. frame (base_psych g) = frame g" and b: "framed i b g"
    and r: "settle_citizens base_psych i can m n e s tiles spc b g = (b', h)"
  shows "frame h = frame g \<and> base_frame b' = base_frame b"
proof -
  obtain b1 ch where p: "place_workers m n e s tiles b = (b1, ch)" by fastforce
  have f: "base_frame b1 = base_frame b" using frame_place p by (metis fst_conv)
  then have "framed i b1 g" using b by (simp add: framed_def)
  from frame_riots [OF psych this, of ch spc b' h] show ?thesis
    using r f by (auto simp: settle_citizens_def p split: if_splits)
qed


lemma frame_workers:
  assumes psych: "\<forall>g. frame (base_psych g) = frame g"
  shows "frame (yield_workers base_psych w i reserved tiles g) = frame g"
proof -
  let ?nme = "fst (satellite_bonus g i (0, 0, 0))"
  obtain Ns Ms Es where nme: "?nme = (Ns, Ms, Es)" by (metis prod_cases3)
  let ?g0 = "upd_base i (clear_base reserved (Ns, Ms, Es)) g"
  obtain g1 lost where g1: "mod_black_market ?g0 i 16 = (g1, lost)" by fastforce
  obtain ev lv pv where v: "specialist_values g1 i = (ev, lv, pv)" by (metis prod_cases3)
  have f0: "frame ?g0 = frame g" by (simp add: frame_upd_base)
  have f1: "frame g1 = frame g" using frame_market [of ?g0 i 16] f0 g1 by simp
  have fr: "framed i (fix_specialists g1 m c (Bases ?g0 i)) g1" for m c
    using frameD(1) [OF f0, of i] frameD(1) [OF f1, of i] by (simp add: framed_def)
  have fin: "frame (upd_base i (\<lambda>_. b\<lparr>base_state_flags := s\<rparr>) h) = frame g" if "frame h = frame g" "base_frame b = base_frame (Bases ?g0 i)" for b h s
    using that frameD(1) [OF that(1), of i] frameD(1) [OF f0, of i] frame_upd_base [of "\<lambda>_. b\<lparr>base_state_flags := s\<rparr>" h i] by simp
  have settled: "frame (snd (settle_citizens base_psych i can m n e s tiles spc (fix_specialists g1 k c (Bases ?g0 i)) g1)) = frame g"
      "base_frame (fst (settle_citizens base_psych i can m n e s tiles spc (fix_specialists g1 k c (Bases ?g0 i)) g1)) = base_frame (Bases ?g0 i)"
    for can m n e s spc k c
    using frame_settle [OF psych fr, of can m n e s tiles spc k c] f1 frame_specialists(2) by (metis prod.collapse)+
  show ?thesis
    unfolding yield_workers_def nme Let_def prod.case split_beta fst_conv snd_conv g1
    by (rule fin) (simp_all only: settled frame_update)
qed

lemma frame_radius:
  assumes "base_radius bonus_at goody_at i g = Some (h, u, ts)" shows "frame h = frame g"
proof -
  have flags: "frame h = frame g" if r: "tile_flags res i k t g = Some (h, fl)" for k t g h fl res
  proof -
    obtain x y m where t: "t = (x, y, m)" by (cases t)
    show ?thesis using r unfolding t tile_flags_def Let_def prod.case
      by (elim someE) (auto simp: Option.bind_eq_Some_conv split: option.splits if_splits prod.splits
          dest!: bearings_veh_at bearings_fix frame_bearings)
  qed
  have goals: "frame (mark_pod goody_at f x y g) = frame g" for f x y g by (rule frame_unlooked) simp
  have tile: "frame (fst (add_tile bonus_at i k x y g)) = frame g" for k x y g by (rule frame_unlooked) simp
  have step: "frame (fst t) = frame (fst s)" if run: "radius_step bonus_at goody_at res i k s = Some t" for k s t res
  proof -
    obtain g u ts where s: "s = (g, u, ts)" by (cases s)
    obtain x y m where n: "next_tile g (base_x (Bases g i)) (base_y (Bases g i)) k = (x, y, m)" by (metis prod_cases3)
    obtain h fl where h: "tile_flags res i k (x, y, m) g = Some (h, fl)"
      using run unfolding s radius_step_def by (auto simp: n Option.bind_eq_Some_conv Let_def)
    show ?thesis
      using run flags [OF h] unfolding s radius_step_def
      by (auto simp: n h Let_def goals tile split_beta split: if_splits)
  qed
  have "frame (fst (h, u, ts)) = frame (fst (g, 0 :: u32, [] :: tile_value list))"
    by (rule fold_bind_keeps [where R = "\<lambda>s t. frame (fst t) = frame (fst s)", OF step _ _ assms [unfolded base_radius_def]]) auto
  then show ?thesis by simp
qed

lemma frame_compute:
  assumes psych: "\<And>g. frame (base_psych g) = frame g" and r: "base_compute bonus_at goody_at base_psych win_visible up g = Some h"
  shows "frame h = frame g"
proof -
  define g0 where "g0 = (case CurrentBase g of None \<Rightarrow> g | Some cur \<Rightarrow> upd_base cur fix_queue g)"
  have "base_frame (fix_queue b) = base_frame b" for b by (simp add: fix_queue_def base_frame_def base_tag_def)
  then have f0: "frame g0 = frame g" by (auto simp: g0_def frame_upd_base split: option.splits)
  have y: "frame k = frame g'" if "mod_base_yield bonus_at goody_at base_psych win_visible g' = Some k" for g' k
    using that psych
    by (auto simp: mod_base_yield_def Let_def frame_upd_base frame_workers dest!: frame_radius)
  show ?thesis
    using r f0 unfolding base_compute_def g0_def [symmetric]
    by (auto simp: Let_def Option.bind_eq_Some_conv frame_energy [OF psych] split: if_splits dest!: y)
qed

subsection \<open>The queue moves on\<close>

lemma base_queue_size: "base_queue i g = (h, r) \<Longrightarrow> 0 \<le> base_queue_size (Bases g i)
  \<Longrightarrow> 0 \<le> base_queue_size (Bases h i) \<and> base_queue_size (Bases h i) \<le> base_queue_size (Bases g i)
    \<and> (\<forall>k. 0 \<le> k \<and> k \<le> base_queue_size (Bases h i)
         \<longrightarrow> base_queue_items (Bases h i) k = base_queue_items (Bases g i) (k + base_queue_size (Bases g i) - base_queue_size (Bases h i)))
    \<and> (if r then base_queue_size (Bases h i) < base_queue_size (Bases g i) \<and> item_avail h i (base_queue_items (Bases h i) 0)
       else base_queue_size (Bases h i) = 0)"
proof (induction i g arbitrary: h r rule: base_queue.induct)
  case (1 i g)
  show ?case
  proof (cases "base_queue_size (Bases g i) > 0")
    case False
    then show ?thesis using 1(2,3) by (subst (asm) base_queue.simps) auto
  next
    case True
    let ?p = "pop_queue i g"
    have p: "base_queue_size (Bases ?p i) = base_queue_size (Bases g i) - 1"
      "0 \<le> k \<Longrightarrow> k < base_queue_size (Bases g i) \<Longrightarrow> base_queue_items (Bases ?p i) k = base_queue_items (Bases g i) (k + 1)" for k
      by (simp_all add: shift_queue_def)
    show ?thesis
    proof (cases "item_avail ?p i (base_queue_items (Bases ?p i) 0)")
      case True
      then have "h = ?p" "r" using 1(2) \<open>base_queue_size (Bases g i) > 0\<close> by (subst (asm) base_queue.simps; simp add: Let_def)+
      then show ?thesis using p True \<open>base_queue_size (Bases g i) > 0\<close> by auto
    next
      case False
      then have "base_queue i ?p = (h, r)" using 1(2) True by (subst (asm) base_queue.simps) (simp add: Let_def)
      from 1(1) [OF True refl False this] show ?thesis using p True by (auto simp: algebra_simps)
    qed
  qed
qed


subsection \<open>The price of a change\<close>

lemma retool_penalty_loss:
  assumes "0 \<le> base_id" "base_id < BaseCount g"
  shows "retool_penalty base_id g = mod_base_lose_minerals g base_id"
  using assms by (auto simp: retool_penalty_def mod_base_lose_minerals_def Let_def)

lemma queue_units_fields [simp]:
  "Bases (queue_units f u n g) = Bases g" "BaseCount (queue_units f u n g) = BaseCount g" "Rules (queue_units f u n g) = Rules g"
  "MFactions (queue_units f u n g) = MFactions g" "Facility (queue_units f u n g) = Facility g" "Tech (queue_units f u n g) = Tech g"
  "TechOwners (queue_units f u n g) = TechOwners g" "FactionStatus (queue_units f u n g) = FactionStatus g"
  "CurrentPlayerFaction (queue_units f u n g) = CurrentPlayerFaction g"
  by (simp_all add: queue_units_def upd_faction_def)

lemma making_units [simp]: "mod_base_making (queue_units f u n g) = mod_base_making g"
proof -
  have "has_fac_built (queue_units f u n g) = has_fac_built g" "has_tech (queue_units f u n g) = has_tech g"
    by (simp_all only: fun_eq_iff has_fac_built_def has_tech_def queue_units_fields simp_thms)
  then show ?thesis by (simp only: fun_eq_iff mod_base_making_def queue_units_fields simp_thms)
qed

lemma lose_units [simp]: "mod_base_lose_minerals (queue_units f u n g) i = mod_base_lose_minerals g i"
  by (simp only: mod_base_lose_minerals_def making_units is_human_def queue_units_fields)

text \<open>What is announced to the player touches neither minerals nor the item of the base itself.\<close>

lemma announce_keeps:
  assumes "base_queue_items (Bases g i) 0 = item" "old \<noteq> item"
  shows "base_minerals_accumulated (Bases (announce_change i old item g) i) = base_minerals_accumulated (Bases g i)
    \<and> base_queue_items (Bases (announce_change i old item g) i) 0 = item"
proof -
  let ?step = "\<lambda>f k g. if base_faction_id (Bases g k) = f \<and> base_queue_items (Bases g k) 0 = old
            then upd_base k (\<lambda>b. b\<lparr>base_queue_items := (base_queue_items b)(0 := item)\<rparr>) g else g"
  have sw: "Bases (fold (?step f) xs h) i = Bases h i" if "base_queue_items (Bases h i) 0 = item" for f xs h
    using that by (induction xs arbitrary: h) (use assms(2) in \<open>auto simp: upd_base_def\<close>)
  have intel: "Bases (put_intel f p a h) = Bases h" for f p a h by (simp add: put_intel_def upd_faction_def)
  have "Bases (begin_project f item g) = Bases g" for f by (simp add: begin_project_def Let_def intel)
  moreover have "Bases (switch_project f old item g) i = Bases g i" for f
    using sw [OF assms(1)] by (simp add: switch_project_def Let_def intel)
  ultimately have "Bases (announce_change i old item g) i = Bases g i" by (simp add: announce_change_def Let_def)
  then show ?thesis using assms(1) by simp
qed

lemma penalty_bounds:
  assumes "0 \<le> rule_retool_penalty_prod_change (Rules g)" "rule_retool_penalty_prod_change (Rules g) \<le> 100"
  shows "0 \<le> mod_base_lose_minerals g i \<and> (0 < mod_base_lose_minerals g i \<longrightarrow>
    mod_base_lose_minerals g i \<le> base_minerals_accumulated_2 (Bases g i) - rule_retool_exemption (Rules g))"
proof -
  let ?p = "rule_retool_penalty_prod_change (Rules g)"
  have "0 \<le> ((100 - ?p) * n) sdiv 100 \<and> ((100 - ?p) * n) sdiv 100 \<le> n" if "0 < n" for n :: int
  proof -
    have m: "0 \<le> (100 - ?p) * n" "(100 - ?p) * n \<le> 100 * n" using assms that by (auto intro: mult_right_mono)
    then show ?thesis using zdiv_mono1 [OF m(2), of 100] by (simp add: sdiv_nonneg)
  qed
  from this [of "base_minerals_accumulated_2 (Bases g i) - rule_retool_exemption (Rules g)"] show ?thesis
    by (auto simp: mod_base_lose_minerals_def Let_def)
qed

text \<open>C12: changing the production of a base puts the new item first and leaves of the minerals what was there at the start of the
  turn less the loss that \<open>mod_base_lose_minerals\<close> shows for the new item. The loss is never negative, and it never takes what
  the rules exempt.\<close>

theorem base_change_charges:
  assumes "0 \<le> base_id" "base_id < BaseCount g" "item_id \<noteq> 99999" "item_id \<noteq> base_queue_items (Bases g base_id) 0"
    and "0 \<le> rule_retool_penalty_prod_change (Rules g)" "rule_retool_penalty_prod_change (Rules g) \<le> 100"
  shows "let b = Bases g base_id; loss = mod_base_lose_minerals (upd_base base_id (\<lambda>b. b\<lparr>base_queue_items := (base_queue_items b)(0 := item_id)\<rparr>) g) base_id;
             h = Bases (mod_base_change skip base_id item_id g) base_id
         in base_queue_items h 0 = item_id \<and> base_minerals_accumulated h = base_minerals_accumulated_2 b - loss
            \<and> loss \<in> {0..max 0 (base_minerals_accumulated_2 b - rule_retool_exemption (Rules g))}"
proof -
  let ?g = "upd_base base_id (\<lambda>b. b\<lparr>base_queue_items := (base_queue_items b)(0 := item_id)\<rparr>) g"
  let ?old = "base_queue_items (Bases g base_id) 0" and ?f = "base_faction_id (Bases g base_id)"
  define k where "k = (let g = (if 0 \<le> ?old \<and> ?old < MaxProtoNum then queue_units ?f ?old (- 1) ?g else ?g)
    in if 0 \<le> item_id \<and> item_id < MaxProtoNum then queue_units ?f item_id 1 g else g)"
  have k: "Bases k = Bases ?g" "BaseCount k = BaseCount g" "mod_base_lose_minerals k base_id = mod_base_lose_minerals ?g base_id"
    by (simp_all add: k_def Let_def upd_base_def)
  define loss where "loss = mod_base_lose_minerals ?g base_id"
  have pen: "retool_penalty base_id k = loss" using retool_penalty_loss [of base_id k] assms(1,2) k by (simp add: loss_def)
  let ?k = "upd_base base_id (\<lambda>b. b\<lparr>base_minerals_accumulated := base_minerals_accumulated_2 b - loss\<rparr>) k"
  have b: "base_queue_items (Bases ?k base_id) 0 = item_id"
    "base_minerals_accumulated (Bases ?k base_id) = base_minerals_accumulated_2 (Bases g base_id) - loss"
    by (simp_all add: upd_base_def k)
  have run: "mod_base_change skip base_id item_id g
      = (if ?f = CurrentPlayerFaction ?k \<or> skip then ?k else announce_change base_id ?old item_id ?k)"
    using assms(1-4) pen by (simp add: mod_base_change_def Let_def k_def)
  have "loss \<in> {0..max 0 (base_minerals_accumulated_2 (Bases g base_id) - rule_retool_exemption (Rules g))}"
    using penalty_bounds [of ?g base_id] assms(5,6) by (auto simp: loss_def upd_base_def)
  then show ?thesis
    using announce_keeps [OF b(1) assms(4) [symmetric]] b by (simp add: Let_def run loss_def [symmetric])
qed

subsection \<open>Population\<close>

definition pop_of :: "game \<Rightarrow> int \<Rightarrow> int" where
  "pop_of g i = base_pop_size (Bases g i)"

lemma pop_frame: "frame h = frame g \<Longrightarrow> pop_of h i = pop_of g i"
  using frameD(1) [of h g i] by (simp add: pop_of_def base_frame_def)

lemma pop_steps [simp]:
  "pop_of (put_nutrients i n g) j = pop_of g j" "pop_of (add_surplus i g) j = pop_of g j" "pop_of (stop_convoys i g) j = pop_of g j"
  "CurrentBaseID (stop_convoys i g) = CurrentBaseID g"
proof -
  have v: "frame (stop_convoys i g) = frame g"
    by (auto simp: stop_convoys_def Let_def intro!: fold_keeps_all)
  show "pop_of (stop_convoys i g) j = pop_of g j" "CurrentBaseID (stop_convoys i g) = CurrentBaseID g"
    using pop_frame [OF v] frameD(2) [OF v] by simp_all
qed (auto simp: pop_of_def put_nutrients_def add_surplus_def upd_base_def)

lemma pop_grow: "pop_of (grow_pop i g) j = (if j = i \<and> pop_of g i < MaxBasePopSize then pop_of g i + 1 else pop_of g j)"
  by (simp add: pop_of_def grow_pop_def upd_base_def)

lemma fed_growth_pop:
  assumes compute: "\<And>g h. compute g = Some h \<Longrightarrow> frame h = frame g" and r: "fed_growth compute i g = Some h"
  shows "pop_of h i = pop_of g i + (if pop_of h i = pop_of g i then 0 else 1)
    \<and> (pop_of h i \<noteq> pop_of g i \<longrightarrow> may_grow g i \<and> pop_of h i \<le> MaxBasePopSize) \<and> (\<forall>j. j \<noteq> i \<longrightarrow> pop_of h j = pop_of g j)"
proof -
  have grown: ?thesis if "compute g' = Some h'" "\<And>j. pop_of g' j = pop_of (grow_pop i g) j" "\<And>j. pop_of h j = pop_of h' j" "may_grow g i" for g' h'
    using that pop_frame [OF compute [OF that(1)]] by (auto simp: pop_grow)
  consider h' where "compute (grow_pop i g) = Some h'" "\<And>j. pop_of h j = pop_of h' j" "may_grow g i"
    | h' where "compute (put_nutrients i 0 (grow_pop i g)) = Some h'" "\<And>j. pop_of h j = pop_of h' j" "may_grow g i"
    | "\<And>j. pop_of h j = pop_of g j"
    using r unfolding fed_growth_def Let_def by (elim someE) auto
  then show ?thesis
  proof cases
    case (1 h') then show ?thesis by (rule grown [OF _ refl])
  next
    case (2 h') then show ?thesis by (rule grown [OF _ pop_steps(1)])
  qed simp
qed

lemma fed_growth_returns: "fed_growth compute i g = None \<Longrightarrow> \<exists>g'. compute g' = None"
  by (auto simp: fed_growth_def Let_def split: if_splits)

text \<open>The phase with the model of \<open>base_compute\<close>.\<close>

definition growth_phase :: "square_fun \<Rightarrow> square_fun \<Rightarrow> (game \<Rightarrow> game) \<Rightarrow> bool \<Rightarrow> (game \<Rightarrow> int \<Rightarrow> bool)
    \<Rightarrow> (int \<Rightarrow> game \<times> bridge \<Rightarrow> (game \<times> bridge) option) \<Rightarrow> (int \<Rightarrow> game \<times> bridge \<Rightarrow> game \<times> bridge)
    \<Rightarrow> game \<times> bridge \<Rightarrow> ((game \<times> bridge) \<times> bool) option" where
  "growth_phase bonus_at goody_at base_psych win_visible = mod_base_growth (base_compute bonus_at goody_at base_psych win_visible True)"

text \<open>C9: the growth phase of a base with between 1 and 127 citizens moves its population by at most one and leaves it in that range
  unless the base is lost, which happens only to a starving base with its last citizen; it grows only below the limit for its
  facilities or with a dome, and starves only when its stores are in debt; no other base's population changes. The phase returns
  whenever the computation and the loss of a base do.\<close>

theorem base_growth_bounds:
  assumes psych: "\<And>g. frame (base_psych g) = frame g" and pop: "1 \<le> pop_of g (CurrentBaseID g)" "pop_of g (CurrentBaseID g) \<le> MaxBasePopSize"
  shows "(\<forall>h br' gone. growth_phase bonus_at goody_at base_psych win_visible is_objective kill_base eliminate (g, br) = Some ((h, br'), gone) \<longrightarrow>
           (let i = CurrentBaseID g; old = pop_of g i; new = pop_of h i
            in if gone then old = 1 \<and> base_nutrients_accumulated (Bases g i) < 0
               else 1 \<le> new \<and> new \<le> MaxBasePopSize \<and> \<bar>new - old\<bar> \<le> 1 \<and> (new > old \<longrightarrow> may_grow g i)
                    \<and> (new < old \<longrightarrow> base_nutrients_accumulated (Bases g i) < 0) \<and> (\<forall>j. j \<noteq> i \<longrightarrow> pop_of h j = pop_of g j)))
    \<and> (growth_phase bonus_at goody_at base_psych win_visible is_objective kill_base eliminate (g, br) = None \<longrightarrow> (\<exists>g'. base_compute bonus_at goody_at base_psych win_visible True g' = None) \<or> (\<exists>i s. kill_base i s = None))"
proof -
  let ?compute = "base_compute bonus_at goody_at base_psych win_visible True" and ?i = "CurrentBaseID g"
  have c: "?compute g = Some h \<Longrightarrow> frame h = frame g" for g h by (rule frame_compute [OF psych])
  have fed: "pop_of h i = pop_of g i + (if pop_of h i = pop_of g i then 0 else 1)
      \<and> (pop_of h i \<noteq> pop_of g i \<longrightarrow> may_grow g i \<and> pop_of h i \<le> MaxBasePopSize) \<and> (\<forall>j. j \<noteq> i \<longrightarrow> pop_of h j = pop_of g j)"
    if "fed_growth ?compute i g = Some h" for i g h using c that by (rule fed_growth_pop)
  have starved: "pop_of (upd_base ?i (\<lambda>b. b\<lparr>base_pop_size := n\<rparr>) k) j = (if j = ?i then n else pop_of k j)" for k n j
    by (simp add: pop_of_def upd_base_def)
  have "let old = pop_of g ?i; new = pop_of h ?i
      in if gone then old = 1 \<and> base_nutrients_accumulated (Bases g ?i) < 0
         else 1 \<le> new \<and> new \<le> MaxBasePopSize \<and> \<bar>new - old\<bar> \<le> 1 \<and> (new > old \<longrightarrow> may_grow g ?i)
              \<and> (new < old \<longrightarrow> base_nutrients_accumulated (Bases g ?i) < 0) \<and> (\<forall>j. j \<noteq> ?i \<longrightarrow> pop_of h j = pop_of g j)"
    if run: "growth_phase bonus_at goody_at base_psych win_visible is_objective kill_base eliminate (g, br) = Some ((h, br'), gone)" for h br' gone
  proof (cases "base_nutrients_accumulated (Bases g ?i) \<ge> 0")
    case True
    then have "fed_growth ?compute ?i g = Some h" "\<not> gone" using run by (auto simp: growth_phase_def mod_base_growth_def)
    from fed [OF this(1)] show ?thesis using pop \<open>\<not> gone\<close> by (auto simp: Let_def split: if_splits)
  next
    case False
    have p: "base_pop_size (Bases (stop_convoys ?i g) ?i) = pop_of g ?i" using pop_steps(3) [of ?i g ?i] by (simp add: pop_of_def)
    show ?thesis
      using run False pop unfolding growth_phase_def mod_base_growth_def Let_def prod.case p
      by (auto simp: starved Let_def split: if_splits)
  qed
  moreover have "(\<exists>g'. ?compute g' = None) \<or> (\<exists>i s. kill_base i s = None)" if "growth_phase bonus_at goody_at base_psych win_visible is_objective kill_base eliminate (g, br) = None"
    using that fed_growth_returns [of ?compute ?i g] by (auto simp: growth_phase_def mod_base_growth_def Let_def split: if_splits)
  ultimately show ?thesis unfolding Let_def by blast
qed

definition starving_game :: game where
  "starving_game = blank_game\<lparr>BaseCount := 1, Bases := (\<lambda>_. blank_base\<lparr>base_pop_size := 3, base_nutrients_accumulated := - 4\<rparr>)\<rparr>"

lemma base_growth_bounds_witness:
  "\<exists>h br. growth_phase (\<lambda>_ _ _. 0) (\<lambda>_ _ _. 0) (\<lambda>g. g) False (\<lambda>_ _. False) (\<lambda>_ s. Some s) (\<lambda>_ s. s) (starving_game, initial_bridge)
      = Some ((h, br), False) \<and> 1 \<le> pop_of h 0 \<and> pop_of h 0 \<le> 3 + 1 \<and> \<bar>pop_of h 0 - 3\<bar> \<le> 1"
proof -
  let ?phase = "growth_phase (\<lambda>_ _ _. 0) (\<lambda>_ _ _. 0) (\<lambda>g. g) False (\<lambda>_ _. False) (\<lambda>_ s. Some s) (\<lambda>_ s. s) (starving_game, initial_bridge)"
  have v: "CurrentBaseID starving_game = 0" "pop_of starving_game 0 = 3"
    by (simp_all add: starving_game_def pop_of_def blank_game_def)
  have f: "full_game_turn starving_game" "base_nutrients_accumulated (Bases starving_game 0) = - 4"
    by (simp_all add: full_game_turn_def starving_game_def blank_game_def)
  have p: "base_pop_size (Bases (stop_convoys 0 starving_game) 0) = 3" using pop_steps(3) [of 0 starving_game 0] v by (simp add: pop_of_def)
  have "\<exists>h. ?phase = Some ((h, initial_bridge), False)"
    by (simp add: growth_phase_def mod_base_growth_def v f p Let_def)
  then obtain h where h: "?phase = Some ((h, initial_bridge), False)" by blast
  have "1 \<le> pop_of starving_game (CurrentBaseID starving_game)" "pop_of starving_game (CurrentBaseID starving_game) \<le> MaxBasePopSize"
    by (simp_all add: v)
  from base_growth_bounds [of "\<lambda>g. g", OF refl this] h
  have "1 \<le> pop_of h 0 \<and> \<bar>pop_of h 0 - 3\<bar> \<le> 1" unfolding Let_def v by (auto simp: v)
  then show ?thesis using h by auto
qed

subsection \<open>Riots\<close>

lemma has_fac_drop:
  "has_fac_built (set_fac g fac i False) fac' j = (has_fac_built g fac' j \<and> \<not> (fac' = fac \<and> j = i))"
proof (cases "valid_fac (fac, i)")
  case True then show ?thesis using has_set_fac [OF True] by simp
next
  case False
  then show ?thesis using facs.put_invalid [of "(fac, i)" False g] by (auto simp: has_fac_built_def valid_fac_def)
qed

lemma riot_pick_one:
  "riot_pick picks m k g = g \<or> (\<exists>fac. riot_pick picks m k g = set_fac g fac (CurrentBaseID g) False \<and> FAC_HEADQUARTERS < fac
     \<and> fac < FAC_SKY_HYDRO_LAB \<and> \<not> free_facility g (base_faction_id (Bases g (CurrentBaseID g))) fac)"
proof (induction picks m k g rule: riot_pick.induct)
  case (1 picks m k g)
  then show ?case unfolding riot_pick.simps [of picks m k g] Let_def by auto
qed

text \<open>What \<open>mod_base_reset\<close>, which only chooses a new production, leaves alone.\<close>

definition mood_frame :: "game \<Rightarrow> _" where
  "mood_frame g = (CurrentBaseID g, (\<lambda>i. (base_state_flags (Bases g i), base_talent_total (Bases g i), base_drone_total (Bases g i),
     base_pop_size (Bases g i), base_facilities_built (Bases g i))))"

definition rioting :: "base \<Rightarrow> bool" where
  "rioting b \<longleftrightarrow> base_state_flags b AND BSTATE_DRONE_RIOTS_ACTIVE \<noteq> 0"

lemma mood_frameD:
  assumes "mood_frame h = mood_frame g"
  shows "base_state_flags (Bases h i) = base_state_flags (Bases g i)" "BASE_golden_age (Bases h i) = BASE_golden_age (Bases g i)"
    "has_fac_built h fac i = has_fac_built g fac i" "CurrentBaseID h = CurrentBaseID g" "rioting (Bases h i) = rioting (Bases g i)"
    "BASE_golden_age_active (Bases h i) = BASE_golden_age_active (Bases g i)"
  using assms by (simp_all add: mood_frame_def BASE_golden_age_def BASE_golden_age_active_def has_fac_built_def rioting_def fun_eq_iff)

lemma flag_bits: "(w OR f) AND f = (f :: u32)" "(w AND NOT f) AND f = (0 :: u32)"
  by (auto intro!: bit_word_eqI simp: bit_simps)

lemma bits_apart:
  "(w OR BSTATE_DRONE_RIOTS_ACTIVE) AND BSTATE_GOLDEN_AGE_ACTIVE = w AND BSTATE_GOLDEN_AGE_ACTIVE"
  "(w AND NOT BSTATE_DRONE_RIOTS_ACTIVE) AND BSTATE_GOLDEN_AGE_ACTIVE = w AND BSTATE_GOLDEN_AGE_ACTIVE"
  "(w OR BSTATE_GOLDEN_AGE_ACTIVE) AND BSTATE_DRONE_RIOTS_ACTIVE = w AND BSTATE_DRONE_RIOTS_ACTIVE"
  "(w AND NOT BSTATE_GOLDEN_AGE_ACTIVE) AND BSTATE_DRONE_RIOTS_ACTIVE = w AND BSTATE_DRONE_RIOTS_ACTIVE"
  by (auto intro!: bit_word_eqI simp: bit_simps)


lemma bits_masked [simp]:
  "(w AND - 5) AND 4 = (0 :: u32)" "(w AND - 5) AND 2 = (w :: u32) AND 2" "(w AND - 3) AND 4 = (w :: u32) AND 4" "(w AND - 3) AND 2 = (0 :: u32)"
  using flag_bits(2) [of w 4] bits_apart(4) [of w] bits_apart(2) [of w] flag_bits(2) [of w 2] by simp_all

lemma riots_step:
  fixes g :: game and reset r q picks
  assumes reset: "\<And>i g. mood_frame (reset i g) = mood_frame g"
  defines "i \<equiv> CurrentBaseID g"
  defines "h \<equiv> mod_drone_riot reset r q picks g"
  shows "rioting (Bases h i) \<and> BASE_golden_age_active (Bases h i) = BASE_golden_age_active (Bases g i)
    \<and> (\<exists>fac. (\<forall>fac' j. has_fac_built g fac' j \<and> \<not> has_fac_built h fac' j \<longrightarrow>
          fac' = fac \<and> j = i \<and> rioting (Bases g i) \<and> fac > FAC_HEADQUARTERS \<and> \<not> free_facility g (base_faction_id (Bases g i)) fac))"
proof -
  define g1 where "g1 = upd_base i (\<lambda>b. b\<lparr>base_state_flags := base_state_flags b OR BSTATE_DRONE_RIOTS_ACTIVE\<rparr>) g"
  have g1: "rioting (Bases g1 i)" "BASE_golden_age_active (Bases g1 i) = BASE_golden_age_active (Bases g i)" "CurrentBaseID g1 = i"
    "has_fac_built g1 fac j = has_fac_built g fac j" "free_facility g1 f fac = free_facility g f fac" "base_faction_id (Bases g1 i) = base_faction_id (Bases g i)"
    for f fac j
    by (auto simp: g1_def upd_base_def rioting_def BASE_golden_age_active_def flag_bits bits_apart has_fac_built_def i_def free_facility_def has_tech_def)
  have same: ?thesis if "mood_frame h = mood_frame g1"
    using mood_frameD [OF that] g1 by simp
  have "h = g1 \<or> h = reset i g1 \<or> ((\<exists>m. h = riot_pick picks m 0 g1) \<and> rioting (Bases g i))"
    by (auto simp: h_def mod_drone_riot_def Let_def g1_def i_def rioting_def)
  then consider "mood_frame h = mood_frame g1" | m where "h = riot_pick picks m 0 g1" "rioting (Bases g i)"
    using reset [of i g1] by auto
  then show ?thesis
  proof cases
    case (2 m)
    then show ?thesis using riot_pick_one [of picks m 0 g1] same
    proof (elim disjE exE conjE)
      fix fac assume f: "riot_pick picks m 0 g1 = set_fac g1 fac (CurrentBaseID g1) False" "FAC_HEADQUARTERS < fac"
        "\<not> free_facility g1 (base_faction_id (Bases g1 (CurrentBaseID g1))) fac"
      have "rioting (Bases h i)" "BASE_golden_age_active (Bases h i) = BASE_golden_age_active (Bases g i)"
        using g1(1,2) by (auto simp: 2(1) f(1) set_fac_def rioting_def BASE_golden_age_active_def upd_base_def)
      then show ?thesis using 2 f g1 by (intro conjI exI [of _ fac]) (auto simp: has_fac_drop)
    qed (auto simp: same)
  qed (rule same)
qed



definition riotous_game :: game where
  "riotous_game = blank_game\<lparr>BaseCount := 1, Bases := (\<lambda>_. blank_base\<lparr>base_pop_size := 4, base_drone_total := 2\<rparr>)\<rparr>"


subsection \<open>Maintenance\<close>

definition solvent :: "game \<Rightarrow> int \<Rightarrow> bool" where
  "solvent g f \<longleftrightarrow> 0 \<le> f_energy_credits (Factions g f)"

lemma half_maint_frame:
  assumes "half_maint f m g = (h, n)"
  shows "Bases h = Bases g" "CurrentBaseID h = CurrentBaseID g" "Facility h = Facility g" "f_energy_credits (Factions h k) = f_energy_credits (Factions g k)"
    "f_diff_level (Factions h k) = f_diff_level (Factions g k)"
  using assms by (auto simp: half_maint_def Let_def upd_faction_def split: if_splits)

lemma cost_factor_pos: "1 \<le> mod_cost_factor g f k i"
  by (simp add: mod_cost_factor_def Let_def)

lemma maint_step_ok:
  fixes g :: game and fac :: int
  assumes cost: "\<And>fac. 0 \<le> cfac_cost (Facility g fac)"
  defines "i \<equiv> CurrentBaseID g"
  defines "f \<equiv> base_faction_id (Bases g i)" and "h \<equiv> maint_step fac g"
  shows "Facility h = Facility g" "CurrentBaseID h = i" "base_faction_id (Bases h i) = f"
    "f_diff_level (Factions h f) = f_diff_level (Factions g f)" "solvent g f \<Longrightarrow> solvent h f"
    "has_fac_built h c j \<Longrightarrow> has_fac_built g c j"
    "has_fac_built g c j \<Longrightarrow> \<not> has_fac_built h c j \<Longrightarrow> j = i \<and> f_diff_level (Factions g f) > DIFF_SPECIALIST
       \<and> base_queue_items (Bases g i) 0 \<noteq> - c"
    "base_queue_items (Bases h i) = base_queue_items (Bases g i)"
proof -
  obtain g1 m where m: "half_maint f (fac_maint g fac f) g = (g1, m)" by fastforce
  note hm = half_maint_frame [OF m]
  have built: "has_fac_built (put_credits f n k) c j = has_fac_built k c j" for n k c j
    by (simp add: has_fac_built_def put_credits_def upd_faction_def)
  define g2 where "g2 = upd_faction f (\<lambda>f. f\<lparr>f_energy_credits := f_energy_credits f - m, f_facility_maint_total := f_facility_maint_total f + m\<rparr>) g1"
  have g2: "Bases g2 = Bases g" "CurrentBaseID g2 = i" "Facility g2 = Facility g" "f_diff_level (Factions g2 f) = f_diff_level (Factions g f)"
    by (simp_all add: g2_def upd_faction_def hm i_def)
  have c2: "f_energy_credits (Factions g2 f) = f_energy_credits (Factions g1 f) - m" by (simp add: g2_def upd_faction_def)
  define v where "v = cfac_cost (Facility g fac) * mod_cost_factor g2 f RSC_MINERAL (- 1)"
  have v: "0 \<le> v" unfolding v_def using cost cost_factor_pos [of g2 f RSC_MINERAL "- 1"] by (intro mult_nonneg_nonneg) auto
  have q: "base_queue_items (Bases g i) 0 = base_queue_items (Bases g2 i) 0" by (simp add: g2)
  have solv: "solvent (put_credits f n k) f = (0 \<le> n)" for n k by (simp add: solvent_def put_credits_def upd_faction_def)
  have frame: "Facility (put_credits f n k) = Facility k" "CurrentBaseID (put_credits f n k) = CurrentBaseID k"
    "base_faction_id (Bases (put_credits f n k) i) = base_faction_id (Bases k i)" "base_queue_items (Bases (put_credits f n k) i) = base_queue_items (Bases k i)"
    "f_diff_level (Factions (put_credits f n k) f) = f_diff_level (Factions k f)" for n k
    by (simp_all add: put_credits_def upd_faction_def)
  have drop: "Facility (set_fac k fac i False) = Facility k" "CurrentBaseID (set_fac k fac i False) = CurrentBaseID k"
    "base_faction_id (Bases (set_fac k fac i False) i) = base_faction_id (Bases k i)"
    "base_queue_items (Bases (set_fac k fac i False) i) = base_queue_items (Bases k i)" "Factions (set_fac k fac i False) = Factions k" for k
    by (simp_all add: set_fac_def upd_base_def)
  have b2: "has_fac_built g2 c j = has_fac_built g c j" for c j by (simp add: has_fac_built_def g2)
  have h: "h = (if \<not> has_fac_built g fac i then g
      else if f_energy_credits (Factions g2 f) \<ge> 0 then g2
      else if f_diff_level (Factions g2 f) \<le> DIFF_SPECIALIST \<or> base_queue_items (Bases g i) 0 = - fac then put_credits f 0 g2
      else put_credits f (cfac_cost (Facility g2 fac) * mod_cost_factor g2 f RSC_MINERAL (- 1)) (set_fac g2 fac i False))"
    unfolding h_def maint_step_def Let_def i_def [symmetric] f_def [symmetric] m g2_def prod.case by simp
  have "h = g \<or> (h = g2 \<and> solvent g2 f) \<or> h = put_credits f 0 g2
      \<or> (h = put_credits f v (set_fac g2 fac i False) \<and> f_diff_level (Factions g f) > DIFF_SPECIALIST \<and> base_queue_items (Bases g i) 0 \<noteq> - fac)"
    unfolding h g2(3,4) v_def [symmetric] solvent_def by auto
  then consider "h = g" | "h = g2" "solvent g2 f" | "h = put_credits f 0 g2"
    | "h = put_credits f v (set_fac g2 fac i False)" "f_diff_level (Factions g f) > DIFF_SPECIALIST" "base_queue_items (Bases g i) 0 \<noteq> - fac" by blast
  note cases = this
  have e: "CurrentBaseID g = i" "base_faction_id (Bases g i) = f" by (simp_all add: i_def f_def)
  show "Facility h = Facility g" by (cases rule: cases) (simp_all add: frame drop g2)
  show "CurrentBaseID h = i" by (cases rule: cases) (simp_all add: frame drop g2 e)
  show "base_faction_id (Bases h i) = f" by (cases rule: cases) (simp_all add: frame drop g2 e)
  show "f_diff_level (Factions h f) = f_diff_level (Factions g f)" by (cases rule: cases) (simp_all add: frame drop g2)
  show "base_queue_items (Bases h i) = base_queue_items (Bases g i)" by (cases rule: cases) (simp_all add: frame drop g2)
  show "solvent g f \<Longrightarrow> solvent h f" by (cases rule: cases) (use v in \<open>simp_all add: solv\<close>)
  show "has_fac_built h c j \<Longrightarrow> has_fac_built g c j" by (cases rule: cases) (simp_all add: built b2 has_fac_drop)
  show "j = i \<and> f_diff_level (Factions g f) > DIFF_SPECIALIST \<and> base_queue_items (Bases g i) 0 \<noteq> - c"
    if "has_fac_built g c j" "\<not> has_fac_built h c j"
    by (cases rule: cases) (use that in \<open>simp_all add: built b2 has_fac_drop\<close>)
qed

text \<open>C11: paying for the facilities of a base never leaves its faction in debt when it was not in debt before and no facility has a negative
  price; facilities are only lost, never gained, only in this base, never on the two lowest levels of difficulty, and never the
  one the base is just building.\<close>

theorem maintenance_never_bankrupts:
  assumes cost: "\<And>fac. 0 \<le> cfac_cost (Facility g fac)"
  shows "let i = CurrentBaseID g; f = base_faction_id (Bases g i); h = mod_base_maint g
     in (solvent g f \<longrightarrow> solvent h f) \<and> (\<forall>fac j. has_fac_built h fac j \<longrightarrow> has_fac_built g fac j)
        \<and> (\<forall>fac j. has_fac_built g fac j \<and> \<not> has_fac_built h fac j \<longrightarrow>
             j = i \<and> f_diff_level (Factions g f) > DIFF_SPECIALIST \<and> base_queue_items (Bases g i) 0 \<noteq> - fac)"
proof -
  define i where "i = CurrentBaseID g"
  define f where "f = base_faction_id (Bases g i)"
  define P where "P h \<longleftrightarrow> Facility h = Facility g \<and> CurrentBaseID h = i \<and> base_faction_id (Bases h i) = f
      \<and> f_diff_level (Factions h f) = f_diff_level (Factions g f) \<and> base_queue_items (Bases h i) = base_queue_items (Bases g i)
      \<and> (solvent g f \<longrightarrow> solvent h f) \<and> (\<forall>fac j. has_fac_built h fac j \<longrightarrow> has_fac_built g fac j)
      \<and> (\<forall>fac j. has_fac_built g fac j \<and> \<not> has_fac_built h fac j \<longrightarrow>
             j = i \<and> f_diff_level (Factions g f) > DIFF_SPECIALIST \<and> base_queue_items (Bases g i) 0 \<noteq> - fac)" for h
  have step: "P (maint_step fac h)" if "P h" for fac h
  proof -
    have c: "0 \<le> cfac_cost (Facility h fac)" for fac using that cost by (simp add: P_def)
    have e: "CurrentBaseID h = i" "base_faction_id (Bases h i) = f" using that by (simp_all add: P_def)
    note ok = maint_step_ok [of h, OF c, where fac = fac, unfolded e]
    show ?thesis using that ok(1-5,8) ok(6,7) unfolding P_def by metis
  qed
  have "P g" by (simp add: P_def i_def f_def)
  then have "P (mod_base_maint g)" unfolding mod_base_maint_def by (rule fold_list_keeps) (rule step)
  then show ?thesis unfolding Let_def i_def [symmetric] f_def [symmetric] P_def by blast
qed

definition indebted_game :: game where
  "indebted_game = set_fac (blank_game\<lparr>BaseCount := 1, Bases := (\<lambda>_. blank_base\<lparr>base_faction_id := 1\<rparr>)\<rparr>) FAC_TREE_FARM 0 True"

lemma maintenance_never_bankrupts_witness: "solvent (mod_base_maint indebted_game) 1"
proof -
  have v: "CurrentBaseID indebted_game = 0" "base_faction_id (Bases indebted_game 0) = 1" "0 \<le> cfac_cost (Facility indebted_game fac)"
    "solvent indebted_game 1" for fac
    by (simp_all add: indebted_game_def set_fac_def upd_base_def blank_game_def solvent_def blank_faction_def blank_cfacility_def)
  show ?thesis using maintenance_never_bankrupts [of indebted_game, OF v(3)] v by (simp add: Let_def)
qed

definition retooling_game :: game where
  "retooling_game = blank_game\<lparr>BaseCount := 1, FactionStatus := (\<lambda>_. 2), CurrentPlayerFaction := 1,
     Rules := blank_crules\<lparr>rule_retool_penalty_prod_change := 50, rule_retool_exemption := 10, rule_retool_strictness := RETOOL_NEVER_FREE\<rparr>,
     Bases := (\<lambda>_. blank_base\<lparr>base_faction_id := 1, base_minerals_accumulated_2 := 30, base_production_id_last := - 5,
       base_queue_items := (\<lambda>_. - 5), base_queue_size := 2\<rparr>)\<rparr>"

lemma base_change_charges_witness:
  "let h = Bases (mod_base_change False 0 (- 6) retooling_game) 0
   in base_queue_items h 0 = - 6 \<and> base_minerals_accumulated h = 20"
proof -
  let ?l = "mod_base_lose_minerals (upd_base 0 (\<lambda>b. b\<lparr>base_queue_items := (base_queue_items b)(0 := - 6)\<rparr>) retooling_game) 0"
  have v: "BaseCount retooling_game = 1" "base_queue_items (Bases retooling_game 0) 0 = - 5"
    "base_minerals_accumulated_2 (Bases retooling_game 0) = 30"
    "rule_retool_penalty_prod_change (Rules retooling_game) = 50" "rule_retool_exemption (Rules retooling_game) = 10"
    by (simp_all add: retooling_game_def)
  have l: "?l = 10"
    by (simp add: mod_base_lose_minerals_def mod_base_making_def retooling_game_def upd_base_def blank_game_def blank_mfaction_def has_fac_built_def blank_base_def is_human_def Let_def)
  show ?thesis
    using l base_change_charges [of 0 retooling_game "- 6" False] v by (simp add: Let_def)
qed


end
