(* ===== verification/Veh_Design.thy ===== *)
theory Veh_Design
  imports Veh_Life Strs
begin

text \<open>
  Designs of units (veh.cpp): the best parts a faction can build, the prototype record made from parts, and the naming of a
  design.
\<close>

section \<open>Designs (veh.cpp)\<close>

definition weap_val :: "game \<Rightarrow> int \<Rightarrow> int \<Rightarrow> int" where
  "weap_val g unit_id faction_id = weap_strat g (unit_weapon_id (Units g unit_id)) faction_id"

definition arm_val :: "game \<Rightarrow> int \<Rightarrow> int \<Rightarrow> int" where
  "arm_val g armor_id faction_id =
     2 * (if faction_id \<ge> 0 then arm_strat g armor_id faction_id else carm_defense_value (Armor g armor_id))"

definition armor_val :: "game \<Rightarrow> int \<Rightarrow> int \<Rightarrow> int" where
  "armor_val g unit_id faction_id = arm_val g (unit_armor_id (Units g unit_id)) faction_id"

text \<open>The better of two parts: the higher value, and the cheaper (or later) of equals.\<close>

definition best_armor :: "game \<Rightarrow> int \<Rightarrow> int \<Rightarrow> int" where
  "best_armor g faction_id max_cost =
     fold (\<lambda>i best_id. let A = Armor g i; cost = carm_cost A;
             diff = carm_defense_value A - carm_defense_value (Armor g best_id)
         in if has_tech g (carm_preq_tech A) faction_id
              \<and> \<not> (max_cost > 0 \<and> (cost > max_cost \<or> cost > carm_defense_value A + 3))
              \<and> (diff > 0 \<or> (diff = 0 \<and> carm_cost (Armor g best_id) \<ge> cost))
            then i else best_id) [ARM_NO_ARMOR..ARM_RESONANCE_8_ARMOR] ARM_NO_ARMOR"

definition usable_weapon :: "game \<Rightarrow> int \<Rightarrow> int \<Rightarrow> bool" where
  "usable_weapon g faction_id i \<longleftrightarrow>
     (let W = Weapon g i in has_tech g (cwpn_preq_tech W) faction_id \<and> cwpn_mode W \<le> WMODE_MISSILE \<and> cwpn_offense_value W < 99
        \<and> i \<noteq> WPN_CONVENTIONAL_PAYLOAD)"

definition better_weapon :: "game \<Rightarrow> int \<Rightarrow> int \<Rightarrow> bool" where
  "better_weapon g best_id i \<longleftrightarrow>
     (let W = Weapon g i; B = Weapon g best_id; diff = cwpn_offense_value W - cwpn_offense_value B
      in diff > 0 \<or> (diff = 0 \<and> cwpn_cost B \<ge> cwpn_cost W))"

definition best_weapon :: "game \<Rightarrow> int \<Rightarrow> int" where
  "best_weapon g faction_id = fold (\<lambda>i best_id. if usable_weapon g faction_id i \<and> better_weapon g best_id i then i else best_id)
     [0..MaxWeaponNum - 1] WPN_HAND_WEAPONS"

definition best_reactor :: "game \<Rightarrow> int \<Rightarrow> int" where
  "best_reactor g faction_id =
     (case List.find (\<lambda>r. has_tech g (crec_preq_tech (Reactor g (r - 1))) faction_id) [REC_SINGULARITY, REC_QUANTUM, REC_FUSION] of
        Some r \<Rightarrow> r | None \<Rightarrow> REC_FISSION)"

definition proto_offense :: "game \<Rightarrow> int \<Rightarrow> int" where
  "proto_offense g unit_id =
     (let u = Units g unit_id; atk_val = cwpn_offense_value (Weapon g (unit_weapon_id u))
      in if UNIT_is_planet_buster u \<noteq> 0 then atk_val * unit_reactor_id u
         else if conf_ignore_reactor_power (conf g) \<noteq> 0 \<or> atk_val < 0 then atk_val * REC_FISSION else atk_val * unit_reactor_id u)"

definition proto_defense :: "game \<Rightarrow> int \<Rightarrow> int" where
  "proto_defense g unit_id =
     (let u = Units g unit_id; def_val = carm_defense_value (Armor g (unit_armor_id u))
      in if conf_ignore_reactor_power (conf g) \<noteq> 0 \<or> def_val < 0 then def_val * REC_FISSION else def_val * unit_reactor_id u)"

text \<open>
  Whether a design is made of parts that prototypes in use already have. The code reads the marks of the last prototype its
  loop reached, the last slot of the faction.
\<close>

definition loop_slot :: "int \<Rightarrow> int \<Rightarrow> int" where
  "loop_slot unit_id i = (if i \<ge> MaxProtoFactionNum then i smod MaxProtoFactionNum + (unit_id - unit_id smod MaxProtoFactionNum)
     else i smod MaxProtoFactionNum)"

definition known_slot :: "game \<Rightarrow> int \<Rightarrow> int \<Rightarrow> bool" where
  "known_slot g faction_id k \<longleftrightarrow>
     (let u = Units g k in unit_unit_flags u AND UNIT_ACTIVE \<noteq> 0
        \<and> ((k < MaxProtoFactionNum \<and> has_tech g (unit_preq_tech u) faction_id)
           \<or> (k \<ge> MaxProtoFactionNum \<and> unit_unit_flags u AND UNIT_PROTOTYPED \<noteq> 0)))"

definition weapon_known :: "game \<Rightarrow> int \<Rightarrow> int \<Rightarrow> bool" where
  "weapon_known g weapon_id k \<longleftrightarrow>
     (let w = unit_weapon_id (Units g k); off_rating = cwpn_offense_value (Weapon g weapon_id)
      in w = weapon_id \<or> (off_rating > 0 \<and> cwpn_offense_value (Weapon g w) \<ge> off_rating))"

definition armor_known :: "game \<Rightarrow> int \<Rightarrow> int \<Rightarrow> bool" where
  "armor_known g armor_id k \<longleftrightarrow>
     (let a = unit_armor_id (Units g k); def_rating = carm_defense_value (Armor g armor_id)
      in a = armor_id \<or> (def_rating > 0 \<and> carm_defense_value (Armor g a) \<ge> def_rating))"

definition chassis_known :: "game \<Rightarrow> int \<Rightarrow> int \<Rightarrow> bool" where
  "chassis_known g chassis_id k \<longleftrightarrow>
     (let c = unit_chassis_id (Units g k); C = Chassis g c; D = Chassis g chassis_id
      in c = chassis_id \<or> (cchs_triad D = cchs_triad C \<and> cchs_speed C \<ge> cchs_speed D))"

definition proto_option :: "game \<Rightarrow> int \<Rightarrow> int \<Rightarrow> int \<Rightarrow> int \<Rightarrow> int" where
  "proto_option g unit_id chassis_id weapon_id armor_id =
     (let faction_id = unit_id sdiv MaxProtoFactionNum;
          known = filter (known_slot g faction_id) (map (loop_slot unit_id) [0..2 * MaxProtoFactionNum - 1]);
          last = loop_slot unit_id (2 * MaxProtoFactionNum - 1)
      in if unit_id \<ge> MaxProtoFactionNum \<and> list_ex (weapon_known g weapon_id) known \<and> list_ex (armor_known g armor_id) known
           \<and> list_ex (chassis_known g chassis_id) known
         then (if last \<ge> MaxProtoFactionNum \<and> unit_unit_flags (Units g last) AND UNIT_UNK_10 \<noteq> 0 then 3 else 1)
         else 0)"

definition land_plan :: "game \<Rightarrow> int \<Rightarrow> int \<Rightarrow> int \<Rightarrow> int \<Rightarrow> u32 \<Rightarrow> int \<times> int" where
  "land_plan g unit_id chassis_id weapon_id armor_id abls =
     (let offense = cwpn_offense_value (Weapon g weapon_id); defense = carm_defense_value (Armor g armor_id);
          speed = cchs_speed (Chassis g chassis_id);
          plan = (if defense > 1 then PLAN_DEFENSE else PLAN_OFFENSE);
          plan = (if offense \<ge> defense \<and> plan = PLAN_DEFENSE then PLAN_COMBAT else plan);
          plan = (if speed > 1 \<and> offense > defense then PLAN_OFFENSE else plan);
          plan = (if abls AND (ABL_ARTILLERY OR ABL_DROP_POD OR ABL_AMPHIBIOUS) \<noteq> 0 then PLAN_OFFENSE else plan);
          grp = (if defense > offense then 2 else 3);
          grp = (if offense > defense * 2 then 1 else grp);
          grp = (if speed = 2 then 4 else if speed \<ge> 3 then 5 else grp)
      in if offense = 1 \<and> defense = 1
         then (if has_abil g unit_id ABL_POLICE_2X then PLAN_DEFENSE else if speed > 1 then PLAN_RECON else plan, 10)
         else (plan, grp))"

definition proto_plan_group :: "game \<Rightarrow> int \<Rightarrow> int \<Rightarrow> int \<Rightarrow> int \<Rightarrow> u32 \<Rightarrow> int \<times> int" where
  "proto_plan_group g unit_id chassis_id weapon_id armor_id abls =
     (let W = Weapon g weapon_id; C = Chassis g chassis_id
      in if cchs_missile C \<noteq> 0
         then (if cwpn_offense_value W < 99
               then (if weapon_id = WPN_TECTONIC_PAYLOAD then (PLAN_TECTONIC_MISSILE, 22)
                     else if weapon_id = WPN_FUNGAL_PAYLOAD then (PLAN_FUNGAL_MISSILE, 23) else (PLAN_OFFENSE, 13))
               else (PLAN_PLANET_BUSTER, 14))
         else if cwpn_mode W \<ge> WMODE_TRANSPORT then (cwpn_mode W, s8 (cwpn_mode W + 32))
         else if cchs_triad C = TRIAD_SEA then (PLAN_NAVAL_SUPERIORITY, 6)
         else if cchs_triad C = TRIAD_AIR then (if has_abil g unit_id ABL_AIR_SUPERIORITY then (PLAN_AIR_SUPERIORITY, 9) else (PLAN_OFFENSE, 8))
         else land_plan g unit_id chassis_id weapon_id armor_id abls)"

definition upd_unit :: "int \<Rightarrow> (unit_proto \<Rightarrow> unit_proto) \<Rightarrow> game \<Rightarrow> game" where
  "upd_unit unit_id f g = g\<lparr>Units := (Units g)(unit_id := f (Units g unit_id))\<rparr>"

definition store_parts :: "int \<Rightarrow> int \<Rightarrow> int \<Rightarrow> int \<Rightarrow> u32 \<Rightarrow> int \<Rightarrow> game \<Rightarrow> game" where
  "store_parts unit_id chassis_id weapon_id armor_id abls reactor_id g = upd_unit unit_id (\<lambda>u. u\<lparr>
     unit_chassis_id := chassis_id mod 256, unit_weapon_id := weapon_id mod 256, unit_armor_id := armor_id mod 256,
     unit_ability_flags := abls, unit_reactor_id := reactor_id mod 256,
     unit_cost := mod_proto_cost g chassis_id weapon_id armor_id abls reactor_id mod 256,
     unit_carry_capacity := (if cwpn_mode (Weapon g weapon_id) = WMODE_TRANSPORT
        then transport_val g chassis_id abls reactor_id mod 256 else 0)\<rparr>) g"

definition mod_make_proto :: "int \<Rightarrow> int \<Rightarrow> int \<Rightarrow> int \<Rightarrow> u32 \<Rightarrow> int \<Rightarrow> game \<Rightarrow> game" where
  "mod_make_proto unit_id chassis_id weapon_id armor_id abls reactor_id g =
     (let opt = proto_option g unit_id chassis_id weapon_id armor_id;
          g = store_parts unit_id chassis_id weapon_id armor_id abls reactor_id g;
          (plan, grp) = proto_plan_group g unit_id chassis_id weapon_id armor_id abls
      in upd_unit unit_id (\<lambda>u. u\<lparr>unit_plan := s8 plan, unit_group_id := grp, unit_icon_offset := - 1, unit_obsolete_factions := 0,
           unit_combat_factions := (if unit_id \<ge> MaxProtoFactionNum then push_bit (nat (unit_id sdiv MaxProtoFactionNum)) 1 else 0xFF),
           unit_unit_flags := (if opt = 0 then UNIT_ACTIVE
              else if opt = 3 then UNIT_UNK_100 OR UNIT_UNK_10 OR UNIT_PROTOTYPED OR UNIT_ACTIVE
              else UNIT_UNK_100 OR UNIT_PROTOTYPED OR UNIT_ACTIVE)\<rparr>) g)"

text \<open>\<open>propose_proto\<close> of the engine looks for a free slot; the modification refuses some sea designs before.\<close>

definition mod_propose_proto :: "(game \<Rightarrow> game \<times> int) \<Rightarrow> int \<Rightarrow> int \<Rightarrow> int \<Rightarrow> u32 \<Rightarrow> game \<Rightarrow> game \<times> int" where
  "mod_propose_proto propose_proto chs wpn arm abls g =
     (let arm_v = carm_defense_value (Armor g arm); wpn_v = cwpn_offense_value (Weapon g wpn)
      in if conf_design_units (conf g) \<noteq> 0 \<and> cchs_triad (Chassis g chs) = TRIAD_SEA \<and> wpn_v > 0 \<and> arm_v > 3 \<and> arm_v > wpn_v + 1
           \<and> abls AND NOT (ABL_SLOW OR ABL_DEEP_RADAR OR ABL_TRAINED) = 0
         then (g, - 1) else propose_proto g)"


section \<open>Names of designs (veh.cpp)\<close>

text \<open>
  The name is put together in a buffer; a second, shorter attempt is made when the first does not fit. \<open>strncat\<close> appends at
  most the given number of characters. The labels of the game and of the reactors are read from text files: \<open>label\<close> and
  \<open>reactor_label\<close>. \<open>name_proto\<close> is the engine's own naming, used when the option is off.
\<close>

definition c_isalpha :: "char \<Rightarrow> bool" where
  "c_isalpha c \<longleftrightarrow> 97 \<le> c_tolower c \<and> c_tolower c \<le> 122"

definition c_strncat :: "string \<Rightarrow> string \<Rightarrow> nat \<Rightarrow> string" where
  "c_strncat buf s n = buf @ take n s"

abbreviation (input) max_name :: nat where "max_name \<equiv> 32"

definition spaced :: "char \<Rightarrow> string" where
  "spaced c = (if c_isspace c \<or> c = CHR ''-'' then '''' else '' '')"

definition parse_abl_name :: "string \<Rightarrow> string \<Rightarrow> bool \<Rightarrow> string" where
  "parse_abl_name buf name reduce =
     (let len = min (length name) max_name
      in if len = 0 then buf
         else case List.find (\<lambda>i. i \<ge> 3 \<and> reduce \<and> (len \<ge> 8 \<or> \<not> c_isalpha (name ! i))) [0..<len] of
             Some i \<Rightarrow> c_strncat buf name (i + 1) @ spaced (name ! i)
           | None \<Rightarrow> c_strncat buf name max_name @ spaced (name ! (len - 1)))"

definition parse_wpn_name :: "string \<Rightarrow> string \<Rightarrow> bool \<Rightarrow> string" where
  "parse_wpn_name buf name reduce =
     (let len = min (length name) max_name
      in case (if reduce then List.find (\<lambda>i. c_isspace (name ! i)) [0..<len] else None) of
           Some i \<Rightarrow> c_strncat buf name (i + 1)
         | None \<Rightarrow> (if reduce \<and> length name \<ge> 10 then c_strncat buf name 8 else c_strncat buf name max_name) @ '' '')"

definition parse_arm_name :: "string \<Rightarrow> string \<Rightarrow> bool \<Rightarrow> string" where
  "parse_arm_name buf name reduce =
     (if reduce \<and> length name \<ge> 8 then c_strncat buf name 4 else c_strncat buf name max_name) @ '' ''"

definition parse_chs_name2 :: "string \<Rightarrow> string \<Rightarrow> string \<Rightarrow> string" where
  "parse_chs_name2 buf name1 name2 =
     c_strncat buf (if length name1 \<ge> 7 \<and> length name1 > length name2 \<and> length name2 \<noteq> 0 then name2 else name1) max_name @ '' ''"

definition parse_chs_name :: "string \<Rightarrow> string \<Rightarrow> string" where
  "parse_chs_name buf name = c_strncat buf name max_name @ '' ''"

text \<open>What the name depends on: the parts with the values the code derives from them first.\<close>

record design =
  d_chs :: cchassis
  d_wpn :: cweapon
  d_arm :: carmor
  d_abls :: u32
  d_rec :: int
  d_long_range :: bool

definition d_noncombat :: "design \<Rightarrow> bool" where
  "d_noncombat d \<longleftrightarrow> cwpn_mode (d_wpn d) \<in> {WMODE_SUPPLY, WMODE_PROBE, WMODE_TERRAFORM, WMODE_TRANSPORT, WMODE_COLONY}"

definition d_combat :: "design \<Rightarrow> bool" where
  "d_combat d \<longleftrightarrow> cwpn_offense_value (d_wpn d) \<noteq> 0 \<and> carm_defense_value (d_arm d) \<noteq> 0"

definition d_wpn_v :: "design \<Rightarrow> int" where
  "d_wpn_v d = (if cwpn_offense_value (d_wpn d) < 0 then 2 else cwpn_offense_value (d_wpn d))"

definition d_arm_v :: "design \<Rightarrow> int" where
  "d_arm_v d = (if carm_defense_value (d_arm d) < 0 then 2 else carm_defense_value (d_arm d))"

definition d_arty :: "design \<Rightarrow> bool" where
  "d_arty d \<longleftrightarrow> d_abls d AND ABL_ARTILLERY \<noteq> 0 \<and> cchs_triad (d_chs d) = TRIAD_LAND"

definition d_marine :: "design \<Rightarrow> bool" where
  "d_marine d \<longleftrightarrow> d_abls d AND ABL_AMPHIBIOUS \<noteq> 0 \<and> cchs_triad (d_chs d) = TRIAD_LAND"

definition d_intercept :: "design \<Rightarrow> bool" where
  "d_intercept d \<longleftrightarrow> d_abls d AND ABL_AIR_SUPERIORITY \<noteq> 0 \<and> cchs_triad (d_chs d) = TRIAD_AIR"

definition d_prefix :: "design \<Rightarrow> u32" where
  "d_prefix d = d_abls d AND NOT (ABL_ARTILLERY OR ABL_AMPHIBIOUS OR ABL_CARRIER OR ABL_NERVE_GAS
     OR (if d_intercept d then ABL_AIR_SUPERIORITY else 0))"

definition d_sea_arty :: "design \<Rightarrow> bool" where
  "d_sea_arty d \<longleftrightarrow> d_abls d AND ABL_ARTILLERY \<noteq> 0 \<and> cchs_triad (d_chs d) = TRIAD_SEA \<and> d_long_range d"

definition d_lrg_names :: "design \<Rightarrow> bool" where
  "d_lrg_names d \<longleftrightarrow> cchs_triad (d_chs d) \<noteq> TRIAD_SEA \<or> \<not> d_long_range d"

definition name_abilities :: "(int \<Rightarrow> string) \<Rightarrow> design \<Rightarrow> bool \<Rightarrow> string" where
  "name_abilities abbrev d short =
     fold (\<lambda>j buf. if bit (d_prefix d) (nat j) then parse_abl_name buf (abbrev j) short else buf) [0..MaxAbilityNum - 1]
       (if d_abls d AND ABL_NERVE_GAS \<noteq> 0 then parse_abl_name '''' (abbrev ABL_ID_NERVE_GAS) short else '''')"

definition name_armor :: "design \<Rightarrow> bool \<Rightarrow> string \<Rightarrow> string" where
  "name_armor d short buf =
     (if d_arm_v d \<noteq> 1
         \<and> \<not> (d_combat d \<and> \<not> carm_defense_value (d_arm d) < 0 \<and> d_wpn_v d \<ge> (if short then 2 else 4) * d_arm_v d)
      then parse_arm_name buf (carm_name_short (d_arm d))
        (short \<or> d_prefix d \<noteq> 0 \<or> cchs_speed (d_chs d) > 1 \<or> d_wpn_v d \<ge> d_arm_v d
         \<or> (d_noncombat d \<and> length (cwpn_name_short (d_wpn d)) \<ge> 10))
      else buf)"

definition name_weapon :: "(int \<Rightarrow> string) \<Rightarrow> design \<Rightarrow> bool \<Rightarrow> string \<Rightarrow> string" where
  "name_weapon label d short buf =
     (let triad = cchs_triad (d_chs d); garrison = (d_combat d \<and> \<not> d_arty d \<and> \<not> d_marine d \<and> d_wpn_v d < d_arm_v d
            \<and> cchs_speed (d_chs d) < 2)
      in if garrison then buf
         else if triad = TRIAD_LAND \<and> d_wpn_v d = 1 then c_strncat buf (label 146) max_name @ '' ''
         else if triad = TRIAD_LAND \<and> d_wpn_v d = 2 \<and> \<not> cwpn_offense_value (d_wpn d) < 0 \<and> cchs_speed (d_chs d) > 1
         then c_strncat buf (label 182) max_name @ '' ''
         else if triad = TRIAD_LAND \<or> d_wpn_v d \<noteq> 1 \<or> d_arm_v d = 1 then parse_wpn_name buf (cwpn_name_short (d_wpn d)) short
         else buf)"

definition name_chassis :: "design \<Rightarrow> string \<Rightarrow> string" where
  "name_chassis d buf =
     (let C = d_chs d; w = d_wpn_v d; a = d_arm_v d
      in if \<not> ((\<not> d_arty d \<and> \<not> d_marine d \<and> \<not> d_intercept d) \<or> (d_arty d \<and> cchs_speed C > 1)) then buf
         else parse_chs_name buf
           (if w - a \<le> - 1
            then (if d_sea_arty d \<or> (d_lrg_names d \<and> a \<ge> 8 \<and> w * 2 \<ge> min 24 a) then cchs_defsv_name_lrg C
                  else if w \<ge> 2 then cchs_defsv1_name C else cchs_defsv2_name C)
            else if w - a \<ge> 1 \<or> d_sea_arty d
            then (if d_sea_arty d \<or> (d_lrg_names d \<and> w \<ge> 8 \<and> a * 2 \<ge> min 24 w) then cchs_offsv_name_lrg C
                  else if cchs_triad C \<noteq> TRIAD_AIR \<and> a \<ge> 2 then cchs_offsv1_name C
                  else if cchs_triad C = TRIAD_AIR \<and> (w + a) AND 4 = 0 then cchs_offsv1_name C
                  else cchs_offsv2_name C)
            else if cchs_triad C = TRIAD_LAND \<and> cchs_speed C = 1 then cchs_offsv1_name C
            else cchs_offsv2_name C))"

definition name_role :: "(int \<Rightarrow> string) \<Rightarrow> design \<Rightarrow> string \<Rightarrow> string" where
  "name_role label d buf =
     (let odd = ((d_wpn_v d + d_arm_v d) AND 4 \<noteq> 0);
          buf = (if d_arty d then c_strncat buf (label (if odd then 543 else 544)) max_name @ '' '' else buf);
          buf = (if d_marine d then c_strncat buf (label (if odd then 614 else 615)) max_name @ '' '' else buf)
      in if d_intercept d then parse_chs_name buf (if odd then cchs_defsv1_name (d_chs d) else cchs_defsv2_name (d_chs d)) else buf)"

definition name_base :: "(int \<Rightarrow> string) \<Rightarrow> (int \<Rightarrow> string) \<Rightarrow> design \<Rightarrow> bool \<Rightarrow> string" where
  "name_base label abbrev d short =
     (let buf = name_armor d short (name_abilities abbrev d short)
      in if d_combat d then name_role label d (name_chassis d (name_weapon label d short buf))
         else let buf = (if cchs_speed (d_chs d) > 1 then parse_chs_name2 buf (cchs_offsv1_name (d_chs d)) (cchs_offsv2_name (d_chs d)) else buf)
           in if d_abls d AND ABL_CARRIER \<noteq> 0 then parse_abl_name buf (abbrev ABL_ID_CARRIER) short
              else parse_wpn_name buf (cwpn_name_short (d_wpn d)) short)"

text \<open>The first attempt is given up when the reactor's label does not fit; \<open>None\<close> stands for the \<open>continue\<close>.\<close>

definition name_attempt :: "(int \<Rightarrow> string) \<Rightarrow> (int \<Rightarrow> string) \<Rightarrow> (int \<Rightarrow> string) \<Rightarrow> design \<Rightarrow> bool \<Rightarrow> string option" where
  "name_attempt label abbrev reactor_label d short =
     (let buf = name_base label abbrev d short; r = reactor_label (d_rec d - 1)
      in if cwpn_mode (d_wpn d) \<noteq> WMODE_PROBE \<and> d_rec d \<ge> REC_FISSION \<and> d_rec d \<le> REC_SINGULARITY
         then (if length buf + length r + 2 \<le> max_name then Some (strtrail (c_strncat buf r max_name))
               else if \<not> short then None else Some (strtrail buf))
         else Some (strtrail buf))"

definition mod_name_proto ::
    "(string \<Rightarrow> string) \<Rightarrow> (int \<Rightarrow> string) \<Rightarrow> (int \<Rightarrow> string) \<Rightarrow> game \<Rightarrow> string \<Rightarrow> int \<Rightarrow> int \<Rightarrow> int \<Rightarrow> int \<Rightarrow> u32 \<Rightarrow> int \<Rightarrow> string" where
  "mod_name_proto name_proto label reactor_label g name unit_id chs wpn arm abls rec =
     (let d = \<lparr>d_chs = Chassis g chs, d_wpn = Weapon g wpn, d_arm = Armor g arm, d_abls = abls, d_rec = rec,
               d_long_range = conf_long_range_artillery (conf g) > 0\<rparr>;
          abbrev = (\<lambda>j. cabl_abbreviation (Ability g j));
          again = (case name_attempt label abbrev reactor_label d True of Some s \<Rightarrow> s | None \<Rightarrow> '''')
      in if conf_new_unit_names (conf g) = 0 \<or> (\<not> d_combat d \<and> \<not> d_noncombat d) \<or> cchs_missile (d_chs d) \<noteq> 0
         then (if unit_id < 0 then '''' else name_proto name)
         else strcpy_n name max_name
           (case name_attempt label abbrev reactor_label d False of
              Some s \<Rightarrow> if length s + 4 \<le> max_name then s else again
            | None \<Rightarrow> again))"

definition weapon_rank :: "game \<Rightarrow> int \<Rightarrow> int \<Rightarrow> bool" where
  "weapon_rank g i j \<longleftrightarrow> (let W = Weapon g i; V = Weapon g j
     in cwpn_offense_value W > cwpn_offense_value V \<or> (cwpn_offense_value W = cwpn_offense_value V \<and> cwpn_cost W \<le> cwpn_cost V))"

lemma better_weapon_rank: "better_weapon g j i = weapon_rank g i j"
  by (auto simp: better_weapon_def weapon_rank_def Let_def)

lemma weapon_rank_refl: "weapon_rank g i i"
  and weapon_rank_trans: "weapon_rank g i j \<Longrightarrow> weapon_rank g j k \<Longrightarrow> weapon_rank g i k"
  and weapon_rank_total: "\<not> weapon_rank g i j \<Longrightarrow> weapon_rank g j i"
  by (auto simp: weapon_rank_def Let_def)

lemma best_weapon_fold:
  "let b' = fold (\<lambda>i b. if usable_weapon g f i \<and> better_weapon g b i then i else b) xs b
   in (b' = b \<or> (b' \<in> set xs \<and> usable_weapon g f b')) \<and> weapon_rank g b' b
      \<and> (\<forall>i \<in> set xs. usable_weapon g f i \<longrightarrow> weapon_rank g b' i)"
proof (induction xs arbitrary: b)
  case Nil then show ?case by (simp add: weapon_rank_refl)
next
  case (Cons x xs)
  show ?case
  proof (cases "usable_weapon g f x \<and> weapon_rank g x b")
    case True
    then show ?thesis using Cons [of x] by (auto simp: Let_def better_weapon_rank intro: weapon_rank_trans)
  next
    case False
    then show ?thesis using Cons [of b]
      by (auto simp: Let_def better_weapon_rank intro: weapon_rank_trans weapon_rank_total)
  qed
qed

text \<open>\<open>best_weapon\<close> returns a weapon the faction can use, or the hand weapons when there is none, and no weapon it can use
  has a higher offense value, or the same value at a lower cost.\<close>

theorem best_weapon_best:
  assumes "0 \<le> i" "i < MaxWeaponNum" "usable_weapon g faction_id i"
  shows "weapon_rank g (best_weapon g faction_id) i
    \<and> (best_weapon g faction_id \<noteq> WPN_HAND_WEAPONS \<longrightarrow> usable_weapon g faction_id (best_weapon g faction_id))"
  using best_weapon_fold [of g faction_id "[0..MaxWeaponNum - 1]" WPN_HAND_WEAPONS] assms
  by (auto simp: best_weapon_def Let_def)

definition armory_game :: game where
  "armory_game = blank_game\<lparr>Weapon := (\<lambda>i. blank_cweapon\<lparr>cwpn_offense_value := i, cwpn_preq_tech := TECH_None\<rparr>)\<rparr>"

lemma best_weapon_best_witness:
  "weapon_rank armory_game (best_weapon armory_game 1) 5
   \<and> (if best_weapon armory_game 1 = WPN_HAND_WEAPONS then True else usable_weapon armory_game 1 (best_weapon armory_game 1))"
proof -
  have "usable_weapon armory_game 1 5" by (simp add: usable_weapon_def armory_game_def blank_cweapon_def has_tech_def)
  from best_weapon_best [OF _ _ this] show ?thesis by simp
qed

end
