(* ===== verification/Spec2Isabelle.thy ===== *)
theory Spec2Isabelle
  imports Base_Refs Base_Upkeep_Props Veh_Census Veh_Design Path Rand Social
begin

text \<open>A verification library of the game-rule code of the bridge (src/bridge/src).\<close>

end
